(* ===== verification/Prelude.thy ===== *)
theory Prelude
  imports Complex_Main
begin

text \<open>
  What the components share: Python strings, dictionaries, JSON values, exceptions and
  the session monad of the handlers.

  A Python string is a list of characters, a character being a code point between
  U+0000 and U+00FF; the classifications below (white space, line ends, word characters,
  lower case) are those of Python 3 on that range, and the UTF-8 length of a character is
  one or two bytes. Python integers are \<open>int\<close>, floats are rationals.
\<close>

named_theorems py_simps \<open>evaluation of the Python string and dictionary operations\<close>
named_theorems act_simps \<open>unfolding of the session monad\<close>

section \<open>Characters and strings\<close>

definition cp :: "char \<Rightarrow> nat" where
  "cp c = of_char c"

definition in_range :: "nat \<Rightarrow> nat \<Rightarrow> char \<Rightarrow> bool" where
  "in_range lo hi c \<longleftrightarrow> lo \<le> cp c \<and> cp c \<le> hi"

definition is_space :: "char \<Rightarrow> bool" where
  "is_space c \<longleftrightarrow> in_range 9 13 c \<or> in_range 28 32 c \<or> cp c = 133 \<or> cp c = 160"

definition is_line_end :: "char \<Rightarrow> bool" where
  "is_line_end c \<longleftrightarrow> in_range 10 13 c \<or> in_range 28 30 c \<or> cp c = 133"

definition is_upper_cased :: "char \<Rightarrow> bool" where
  "is_upper_cased c \<longleftrightarrow> in_range 65 90 c \<or> in_range 192 214 c \<or> in_range 216 222 c"

definition is_digit :: "char \<Rightarrow> bool" where
  "is_digit c \<longleftrightarrow> in_range 48 57 c"

definition is_alnum :: "char \<Rightarrow> bool" where
  "is_alnum c \<longleftrightarrow> is_digit c \<or> in_range 65 90 c \<or> in_range 97 122 c \<or> cp c = 170 \<or> cp c = 178
     \<or> cp c = 179 \<or> cp c = 181 \<or> cp c = 185 \<or> cp c = 186 \<or> in_range 188 190 c
     \<or> in_range 192 214 c \<or> in_range 216 246 c \<or> in_range 248 255 c"

definition is_word :: "char \<Rightarrow> bool" where
  "is_word c \<longleftrightarrow> is_alnum c \<or> cp c = 95"

definition lower_char :: "char \<Rightarrow> char" where
  "lower_char c = (if is_upper_cased c then char_of (cp c + 32) else c)"

definition py_lower :: "string \<Rightarrow> string" where
  "py_lower s = map lower_char s"

text \<open>Upper case; the three letters whose upper case is outside the range stay as they are.\<close>

definition upper_char :: "char \<Rightarrow> char" where
  "upper_char c = (if in_range 97 122 c \<or> in_range 224 246 c \<or> in_range 248 254 c then char_of (cp c - 32) else c)"

definition py_upper :: "string \<Rightarrow> string" where
  "py_upper s = map upper_char s"

definition py_lstrip :: "string \<Rightarrow> string" where
  "py_lstrip s = dropWhile is_space s"

definition py_strip :: "string \<Rightarrow> string" where
  "py_strip s = rev (dropWhile is_space (rev (dropWhile is_space s)))"

definition utf8_len :: "string \<Rightarrow> nat" where
  "utf8_len s = sum_list (map (\<lambda>c. if cp c < 128 then 1 else 2) s)"

fun starts_with :: "string \<Rightarrow> string \<Rightarrow> bool" where
  "starts_with s [] = True"
| "starts_with [] (p # ps) = False"
| "starts_with (c # cs) (p # ps) = (c = p \<and> starts_with cs ps)"

definition ends_with :: "string \<Rightarrow> string \<Rightarrow> bool" where
  "ends_with s p = starts_with (rev s) (rev p)"

fun str_contains :: "string \<Rightarrow> string \<Rightarrow> bool" where
  "str_contains pat [] = (pat = [])"
| "str_contains pat (c # cs) = (starts_with (c # cs) pat \<or> str_contains pat cs)"

definition any_in :: "string list \<Rightarrow> string \<Rightarrow> bool" where
  "any_in pats s = list_ex (\<lambda>p. str_contains p s) pats"

definition ends_any :: "string \<Rightarrow> string list \<Rightarrow> bool" where
  "ends_any s ps = list_ex (ends_with s) ps"

definition starts_any :: "string \<Rightarrow> string list \<Rightarrow> bool" where
  "starts_any s ps = list_ex (starts_with s) ps"

text \<open>\<open>str.replace\<close> with a single character on both sides, the only way the sources use it.\<close>

definition replace_char :: "char \<Rightarrow> char \<Rightarrow> string \<Rightarrow> string" where
  "replace_char a b s = map (\<lambda>c. if c = a then b else c) s"

text \<open>\<open>str.split(sep)\<close> with a one-character separator: always at least one piece.\<close>

fun split_on :: "char \<Rightarrow> string \<Rightarrow> string list" where
  "split_on d [] = [[]]"
| "split_on d (c # cs) =
     (if c = d then [] # split_on d cs
      else case split_on d cs of [] \<Rightarrow> [[c]] | w # ws \<Rightarrow> (c # w) # ws)"

text \<open>\<open>str.split()\<close>: runs of white space separate words, no empty word.\<close>

fun split_words_acc :: "string \<Rightarrow> string \<Rightarrow> string list" where
  "split_words_acc acc [] = (if acc = [] then [] else [rev acc])"
| "split_words_acc acc (c # cs) =
     (if is_space c then (if acc = [] then [] else [rev acc]) @ split_words_acc [] cs
      else split_words_acc (c # acc) cs)"

definition split_words :: "string \<Rightarrow> string list" where
  "split_words s = split_words_acc [] s"

fun join_with :: "string \<Rightarrow> string list \<Rightarrow> string" where
  "join_with sep [] = []"
| "join_with sep [w] = w"
| "join_with sep (w # v # ws) = w @ sep @ join_with sep (v # ws)"

text \<open>\<open>str.splitlines()\<close>: a carriage return followed by a line feed is one line end.\<close>

fun split_lines_acc :: "string \<Rightarrow> bool \<Rightarrow> string \<Rightarrow> string list" where
  "split_lines_acc acc cr [] = (if acc = [] then [] else [rev acc])"
| "split_lines_acc acc cr (c # cs) =
     (if cr \<and> cp c = 10 then split_lines_acc acc False cs
      else if is_line_end c then rev acc # split_lines_acc [] (cp c = 13) cs
      else split_lines_acc (c # acc) False cs)"

definition split_lines :: "string \<Rightarrow> string list" where
  "split_lines s = split_lines_acc [] False s"

text \<open>Digits and decimal numerals.\<close>

fun digits_of :: "nat \<Rightarrow> string" where
  "digits_of n = (if n < 10 then [char_of (48 + n)] else digits_of (n div 10) @ [char_of (48 + n mod 10)])"

declare digits_of.simps [simp del]

definition str_of_int :: "int \<Rightarrow> string" where
  "str_of_int i = (if i < 0 then ''-'' @ digits_of (nat (- i)) else digits_of (nat i))"

fun digits_value :: "nat \<Rightarrow> bool \<Rightarrow> string \<Rightarrow> nat option" where
  "digits_value acc ok [] = (if ok then Some acc else None)"
| "digits_value acc ok (c # cs) =
     (if is_digit c then digits_value (10 * acc + (cp c - 48)) True cs
      else if cp c = 95 \<and> ok then digits_value acc False cs
      else None)"

text \<open>\<open>int(s)\<close>: surrounding white space, a sign, digits with single underscores between them.\<close>

definition int_of_str :: "string \<Rightarrow> int option" where
  "int_of_str s = (case py_strip s of
      [] \<Rightarrow> None
    | c # cs \<Rightarrow> if cp c = 45 then map_option (\<lambda>n. - int n) (digits_value 0 False cs)
                else if cp c = 43 then map_option int (digits_value 0 False cs)
                else map_option int (digits_value 0 False (c # cs)))"

text \<open>Order of strings: by code points, as Python compares them (used by \<open>sorted\<close>).\<close>

fun str_le :: "string \<Rightarrow> string \<Rightarrow> bool" where
  "str_le [] t = True"
| "str_le (c # cs) [] = False"
| "str_le (c # cs) (d # ds) = (cp c < cp d \<or> (c = d \<and> str_le cs ds))"

text \<open>\<open>sorted(set(xs))\<close>\<close>

fun str_insert :: "string \<Rightarrow> string list \<Rightarrow> string list" where
  "str_insert x [] = [x]"
| "str_insert x (y # ys) = (if x = y then y # ys else if str_le x y then x # y # ys else y # str_insert x ys)"

definition sorted_set :: "string list \<Rightarrow> string list" where
  "sorted_set xs = foldr str_insert xs []"

text \<open>A path of \<open>PurePosixPath\<close>: its parts, last component and suffix.\<close>

definition path_parts :: "string \<Rightarrow> string list" where
  "path_parts p = (if starts_with p ''/'' then [''/''] else []) @ filter (\<lambda>w. w \<noteq> [] \<and> w \<noteq> ''.'') (split_on CHR ''/'' p)"

definition path_is_absolute :: "string \<Rightarrow> bool" where
  "path_is_absolute p = starts_with p ''/''"

definition path_name :: "string \<Rightarrow> string" where
  "path_name p = (let ps = path_parts p in
     if ps = [] \<or> (length ps = 1 \<and> path_is_absolute p) then [] else last ps)"

text \<open>The suffix starts at the last dot, unless the dot is the first or the last character.\<close>

definition name_suffix :: "string \<Rightarrow> string" where
  "name_suffix n = (let tail = takeWhile (\<lambda>c. c \<noteq> CHR ''.'') (rev n) in
     if tail = [] \<or> length tail + 1 \<ge> length n then [] else CHR ''.'' # rev tail)"

definition path_suffix :: "string \<Rightarrow> string" where
  "path_suffix p = name_suffix (path_name p)"

subsection \<open>Facts about strings\<close>

lemma starts_with_iff: "starts_with s p \<longleftrightarrow> (\<exists>t. s = p @ t)"
  by (induction s p rule: starts_with.induct) auto

lemma ends_with_iff: "ends_with s p \<longleftrightarrow> (\<exists>t. s = t @ p)"
proof -
  have "(\<exists>t. rev s = rev p @ t) \<longleftrightarrow> (\<exists>t. s = t @ p)"
  proof
    assume "\<exists>t. rev s = rev p @ t"
    then obtain t where "rev s = rev p @ t" ..
    then have "s = rev t @ p" by (metis rev_append rev_rev_ident)
    then show "\<exists>t. s = t @ p" ..
  next
    assume "\<exists>t. s = t @ p"
    then show "\<exists>t. rev s = rev p @ t" by auto
  qed
  then show ?thesis by (simp add: ends_with_def starts_with_iff)
qed

lemma str_contains_iff: "str_contains p s \<longleftrightarrow> (\<exists>a b. s = a @ p @ b)"
proof (induction s)
  case Nil
  then show ?case by auto
next
  case (Cons c cs)
  show ?case
  proof
    assume "str_contains p (c # cs)"
    then consider "starts_with (c # cs) p" | "str_contains p cs" by auto
    then show "\<exists>a b. c # cs = a @ p @ b"
    proof cases
      case 1
      then obtain b where "c # cs = p @ b" by (auto simp: starts_with_iff)
      then have "c # cs = [] @ p @ b" by simp
      then show ?thesis by blast
    next
      case 2
      with Cons obtain a b where "cs = a @ p @ b" by auto
      then have "c # cs = (c # a) @ p @ b" by simp
      then show ?thesis by blast
    qed
  next
    assume "\<exists>a b. c # cs = a @ p @ b"
    then obtain a b where ab: "c # cs = a @ p @ b" by blast
    show "str_contains p (c # cs)"
    proof (cases a)
      case Nil
      with ab have "starts_with (c # cs) p" unfolding starts_with_iff by auto
      then show ?thesis by simp
    next
      case (Cons d a')
      with ab have "cs = a' @ p @ b" by simp
      with Cons.IH show ?thesis by auto
    qed
  qed
qed

lemma length_py_lower [simp]: "length (py_lower s) = length s"
  by (simp add: py_lower_def)

lemma length_replace_char [simp]: "length (replace_char a b s) = length s"
  by (simp add: replace_char_def)

lemma replace_char_removes: "a \<noteq> b \<Longrightarrow> a \<notin> set (replace_char a b s)"
  by (auto simp: replace_char_def)

lemma length_dropWhile_le' [simp]: "length (dropWhile P xs) \<le> length xs"
  by (rule length_dropWhile_le)

lemma length_py_strip: "length (py_strip s) \<le> length s"
proof -
  have "length (py_strip s) \<le> length (dropWhile is_space s)"
    unfolding py_strip_def by (metis length_dropWhile_le length_rev)
  also have "\<dots> \<le> length s" by simp
  finally show ?thesis .
qed

lemma dropWhile_idem_prefix: "dropWhile P (rev (dropWhile P (rev (dropWhile P s)))) = rev (dropWhile P (rev (dropWhile P s)))"
proof -
  let ?u = "dropWhile P s" let ?v = "rev (dropWhile P (rev ?u))"
  have "?u = ?v @ rev (takeWhile P (rev ?u))"
    by (metis rev_append rev_rev_ident takeWhile_dropWhile_id)
  then have "?v \<noteq> [] \<Longrightarrow> hd ?v = hd ?u \<and> ?u \<noteq> []" by (metis Nil_is_append_conv hd_append2)
  then have "?v \<noteq> [] \<Longrightarrow> \<not> P (hd ?v)" using hd_dropWhile [of P s] by metis
  then show ?thesis by (metis dropWhile_eq_self_iff)
qed

lemma py_strip_idem [simp]: "py_strip (py_strip s) = py_strip s"
  by (simp add: py_strip_def dropWhile_idem_prefix)

lemma py_strip_nonspace: "list_all (\<lambda>c. \<not> is_space c) s \<Longrightarrow> py_strip s = s"
proof -
  assume s: "list_all (\<lambda>c. \<not> is_space c) s"
  then have "list_all (\<lambda>c. \<not> is_space c) (rev s)" by (simp add: list_all_iff)
  moreover have "dropWhile is_space t = t" if "list_all (\<lambda>c. \<not> is_space c) t" for t
    using that by (cases t) auto
  ultimately show ?thesis using s by (simp add: py_strip_def)
qed

lemma cp_char_of: "n < 256 \<Longrightarrow> cp (char_of n) = n"
  by (simp add: cp_def of_char_of)

lemma set_py_strip: "set (py_strip s) \<subseteq> set s"
  unfolding py_strip_def by (auto dest!: set_dropWhileD)

lemma split_words_acc_nonspace:
  "w \<in> set (split_words_acc acc s) \<Longrightarrow> list_all (\<lambda>c. \<not> is_space c) acc \<Longrightarrow>
   w \<noteq> [] \<and> list_all (\<lambda>c. \<not> is_space c) w"
proof (induction s arbitrary: acc)
  case Nil
  then show ?case by (cases "acc = []") simp_all
next
  case (Cons c cs)
  show ?case
  proof (cases "is_space c")
    case True
    with Cons.prems have "(acc \<noteq> [] \<and> w = rev acc) \<or> w \<in> set (split_words_acc [] cs)"
      by (cases "acc = []") simp_all
    with Cons.IH [of "[]"] Cons.prems(2) show ?thesis by fastforce
  next
    case False
    with Cons.IH [of "c # acc"] Cons.prems show ?thesis by simp
  qed
qed

lemma split_words_nonspace: "w \<in> set (split_words s) \<Longrightarrow> w \<noteq> [] \<and> list_all (\<lambda>c. \<not> is_space c) w"
  using split_words_acc_nonspace [of w "[]" s] by (simp add: split_words_def)

lemma split_words_acc_word:
  "list_all (\<lambda>c. \<not> is_space c) w \<Longrightarrow>
   split_words_acc acc (w @ s) = split_words_acc (rev w @ acc) s"
  by (induction w arbitrary: acc) auto

text \<open>Joining words with a space and splitting again gives the words back.\<close>

lemma is_space_blank [simp]: "is_space CHR '' ''"
  by (simp add: is_space_def in_range_def cp_def)

lemma split_words_join:
  "(\<forall>w \<in> set ws. w \<noteq> [] \<and> list_all (\<lambda>c. \<not> is_space c) w) \<Longrightarrow> split_words (join_with '' '' ws) = ws"
proof (induction "'' ''" ws rule: join_with.induct)
  case 1
  then show ?case by (simp add: split_words_def)
next
  case (2 w)
  then show ?case using split_words_acc_word [of w "[]" "[]"] by (simp add: split_words_def)
next
  case (3 w v ws)
  have "split_words (join_with '' '' (w # v # ws)) = w # split_words (join_with '' '' (v # ws))"
    using 3(2) by (simp add: split_words_def split_words_acc_word)
  with 3 show ?case by auto
qed

section \<open>Dictionaries\<close>

text \<open>
  A Python dict is an association list in insertion order: assigning to a present key keeps
  its place, a new key goes to the end.
\<close>

type_synonym 'v dict = "(string \<times> 'v) list"

abbreviation dict_get :: "'v dict \<Rightarrow> string \<Rightarrow> 'v option" where
  "dict_get d k \<equiv> map_of d k"

fun dict_set :: "string \<Rightarrow> 'v \<Rightarrow> 'v dict \<Rightarrow> 'v dict" where
  "dict_set k v [] = [(k, v)]"
| "dict_set k v ((k', v') # d) = (if k = k' then (k, v) # d else (k', v') # dict_set k v d)"

fun dict_update :: "'v dict \<Rightarrow> 'v dict \<Rightarrow> 'v dict" where
  "dict_update d [] = d"
| "dict_update d ((k, v) # e) = dict_update (dict_set k v d) e"

definition dict_get_or :: "'v \<Rightarrow> 'v dict \<Rightarrow> string \<Rightarrow> 'v" where
  "dict_get_or dflt d k = (case dict_get d k of None \<Rightarrow> dflt | Some v \<Rightarrow> v)"

definition distinct_keys :: "'v dict \<Rightarrow> bool" where
  "distinct_keys d = distinct (map fst d)"

lemma dict_get_set [simp]: "dict_get (dict_set k v d) k' = (if k' = k then Some v else dict_get d k')"
  by (induction k v d rule: dict_set.induct) auto

lemma dict_get_or_set [simp]:
  "dict_get_or e (dict_set k v d) k' = (if k' = k then v else dict_get_or e d k')"
  by (simp add: dict_get_or_def)

lemma keys_dict_set: "fst ` set (dict_set k v d) = insert k (fst ` set d)"
  by (induction k v d rule: dict_set.induct) auto

lemma distinct_keys_set [simp]: "distinct_keys d \<Longrightarrow> distinct_keys (dict_set k v d)"
proof (induction k v d rule: dict_set.induct)
  case (1 k v)
  then show ?case by (simp add: distinct_keys_def)
next
  case (2 k v k' v' d)
  have "fst ` set (dict_set k v d) = insert k (fst ` set d)" by (rule keys_dict_set)
  with 2 show ?case by (auto simp: distinct_keys_def)
qed

lemma distinct_keys_update [simp]: "distinct_keys d \<Longrightarrow> distinct_keys (dict_update d e)"
  by (induction d e rule: dict_update.induct) auto

lemma dict_get_update:
  "distinct_keys e \<Longrightarrow> dict_get (dict_update d e) k = (case dict_get e k of None \<Rightarrow> dict_get d k | Some v \<Rightarrow> Some v)"
proof (induction d e rule: dict_update.induct)
  case (1 d)
  then show ?case by simp
next
  case (2 d k' v e)
  from 2(2) have e: "distinct_keys e" and k': "dict_get e k' = None"
    by (auto simp: distinct_keys_def map_of_eq_None_iff)
  from 2(1) [OF e] k' show ?case by (auto split: option.splits)
qed

text \<open>Counters (\<open>collections.Counter\<close> and \<open>dict[str, int]\<close> tallies).\<close>

definition dict_incr :: "string \<Rightarrow> int \<Rightarrow> int dict \<Rightarrow> int dict" where
  "dict_incr k n d = dict_set k (dict_get_or 0 d k + n) d"

definition tally :: "string list \<Rightarrow> int dict" where
  "tally ks = fold (\<lambda>k. dict_incr k 1) ks []"

lemma dict_get_or_incr [simp]:
  "dict_get_or 0 (dict_incr k n d) k' = dict_get_or 0 d k' + (if k' = k then n else 0)"
  by (simp add: dict_incr_def)

lemma dict_get_or_fold_incr:
  "dict_get_or 0 (fold (\<lambda>k. dict_incr k 1) ks d) k = dict_get_or 0 d k + int (count_list ks k)"
  by (induction ks arbitrary: d) auto

lemma dict_get_or_tally: "dict_get_or 0 (tally ks) k = int (count_list ks k)"
  by (simp add: tally_def dict_get_or_fold_incr) (simp add: dict_get_or_def)

lemma sum_values_incr:
  "sum_list (map snd (dict_incr k n d)) = sum_list (map snd d) + n"
proof -
  have "sum_list (map snd (dict_set k (v + n) d)) = sum_list (map snd d) + n + (v - dict_get_or 0 d k)"
    for v :: int
    by (induction k "v + n" d rule: dict_set.induct) (auto simp: dict_get_or_def)
  from this [of "dict_get_or 0 d k"] show ?thesis by (simp add: dict_incr_def)
qed

lemma sum_values_fold_incr:
  "sum_list (map snd (fold (\<lambda>k. dict_incr k 1) ks d)) = sum_list (map snd d) + int (length ks)"
  by (induction ks arbitrary: d) (auto simp: sum_values_incr)

lemma sum_values_tally: "sum_list (map snd (tally ks)) = int (length ks)"
  by (simp add: tally_def sum_values_fold_incr)

text \<open>\<open>sorted(d.items())\<close> for a dict with string keys.\<close>

fun dict_insort :: "string \<times> 'v \<Rightarrow> 'v dict \<Rightarrow> 'v dict" where
  "dict_insort e [] = [e]"
| "dict_insort e (f # d) = (if str_le (fst e) (fst f) then e # f # d else f # dict_insort e d)"

definition dict_sorted :: "'v dict \<Rightarrow> 'v dict" where
  "dict_sorted d = foldr dict_insort d []"

lemma set_dict_insort [simp]: "set (dict_insort e d) = insert e (set d)"
  by (induction e d rule: dict_insort.induct) auto

lemma set_dict_sorted [simp]: "set (dict_sorted d) = set d"
  by (induction d) (auto simp: dict_sorted_def)

lemma distinct_keys_insort:
  "distinct_keys d \<Longrightarrow> fst e \<notin> fst ` set d \<Longrightarrow> distinct_keys (dict_insort e d)"
  by (induction e d rule: dict_insort.induct) (auto simp: distinct_keys_def)

lemma distinct_keys_sorted: "distinct_keys d \<Longrightarrow> distinct_keys (dict_sorted d)"
proof (induction d)
  case Nil
  then show ?case by (simp add: dict_sorted_def)
next
  case (Cons e d)
  then have "distinct_keys (dict_sorted d)" and "fst e \<notin> fst ` set (dict_sorted d)"
    by (auto simp: distinct_keys_def)
  then show ?case using distinct_keys_insort by (simp add: dict_sorted_def)
qed

lemma dict_get_sorted: "distinct_keys d \<Longrightarrow> dict_get (dict_sorted d) k = dict_get d k"
  using distinct_keys_sorted [of d]
  by (metis distinct_keys_def map_of_eqI map_of_inject_set set_dict_sorted)

section \<open>JSON values\<close>

text \<open>A float carries its value and the text Python prints for it.\<close>

datatype json =
    JNull
  | JBool bool
  | JInt int
  | JFloat rat string
  | JStr string
  | JList "json list"
  | JObj "(string \<times> json) list"

fun truthy :: "json \<Rightarrow> bool" where
  "truthy JNull = False"
| "truthy (JBool b) = b"
| "truthy (JInt n) = (n \<noteq> 0)"
| "truthy (JFloat r _) = (r \<noteq> 0)"
| "truthy (JStr s) = (s \<noteq> [])"
| "truthy (JList xs) = (xs \<noteq> [])"
| "truthy (JObj d) = (d \<noteq> [])"

section \<open>Exceptions and results\<close>

datatype py_exn =
    ValueError string
  | TypeError string
  | KeyError string
  | RuntimeError string
  | FileNotFoundError
  | HTTPException nat string
  | PathPolicyError string
  | DocumentIndexingError string string
  | VectorStoreError string
  | TimeoutError
  | OtherError string string

text \<open>\<open>exc.__class__.__name__\<close>; the last constructor carries class name and message.\<close>

fun exn_class :: "py_exn \<Rightarrow> string" where
  "exn_class (ValueError _) = ''ValueError''"
| "exn_class (TypeError _) = ''TypeError''"
| "exn_class (KeyError _) = ''KeyError''"
| "exn_class (RuntimeError _) = ''RuntimeError''"
| "exn_class FileNotFoundError = ''FileNotFoundError''"
| "exn_class (HTTPException _ _) = ''HTTPException''"
| "exn_class (PathPolicyError _) = ''PathPolicyError''"
| "exn_class (DocumentIndexingError _ _) = ''DocumentIndexingError''"
| "exn_class (VectorStoreError _) = ''VectorStoreError''"
| "exn_class TimeoutError = ''TimeoutError''"
| "exn_class (OtherError c _) = c"

type_synonym 'a result = "py_exn + 'a"

definition rbind :: "'a result \<Rightarrow> ('a \<Rightarrow> 'b result) \<Rightarrow> 'b result" where
  "rbind m f = (case m of Inl e \<Rightarrow> Inl e | Inr x \<Rightarrow> f x)"

definition require :: "bool \<Rightarrow> py_exn \<Rightarrow> unit result" where
  "require b e = (if b then Inr () else Inl e)"

lemma rbind_simps [simp]: "rbind (Inl e) f = Inl e" "rbind (Inr x) f = f x"
  by (simp_all add: rbind_def)

lemma rbind_Inr_iff: "rbind m f = Inr y \<longleftrightarrow> (\<exists>x. m = Inr x \<and> f x = Inr y)"
  by (cases m) auto

lemma require_Inr_iff [simp]: "require b e = Inr u \<longleftrightarrow> b"
  by (simp add: require_def)

text \<open>\<open>int(v)\<close> of a JSON value, and the idiom \<open>int(d.get(k, 0) or 0)\<close>.\<close>

definition rat_trunc :: "rat \<Rightarrow> int" where
  "rat_trunc r = (if r < 0 then - floor (- r) else floor r)"

fun json_int :: "json \<Rightarrow> int result" where
  "json_int (JInt n) = Inr n"
| "json_int (JBool b) = Inr (if b then 1 else 0)"
| "json_int (JFloat r _) = Inr (rat_trunc r)"
| "json_int (JStr s) = (case int_of_str s of None \<Rightarrow> Inl (ValueError ''invalid literal for int()'') | Some n \<Rightarrow> Inr n)"
| "json_int _ = Inl (TypeError ''int() argument'')"

definition json_int_or0 :: "json \<Rightarrow> int result" where
  "json_int_or0 v = (if truthy v then json_int v else Inr 0)"

definition get_int_or0 :: "json dict \<Rightarrow> string \<Rightarrow> int result" where
  "get_int_or0 d k = json_int_or0 (dict_get_or (JInt 0) d k)"

lemma get_int_or0_set [simp]:
  "get_int_or0 (dict_set k v d) k' = (if k' = k then json_int_or0 v else get_int_or0 d k')"
  by (simp add: get_int_or0_def)

lemma json_int_or0_JInt [simp]: "json_int_or0 (JInt n) = Inr n"
  by (simp add: json_int_or0_def)

section \<open>Sessions: state, exceptions and transactions\<close>

text \<open>
  A handler runs on a session: the rows it sees (\<open>work\<close>), the rows of the last commit
  (\<open>committed\<close>) and the requests it has sent to services outside the database, in order (\<open>trace\<close>).
  It returns a value or raises, and the session goes on either way. Transactions concern the rows
  only: a request that was sent is not undone. What a service answers is an argument of the model,
  a function of the request and of all the requests before it.
  \<open>run_request\<close> is the dependency \<open>get_db\<close>: commit when the handler returns, roll back
  and re-raise when it raises.
\<close>

datatype effect =
    Http string string json      \<comment> \<open>method, URL, body\<close>
  | Redis string "string list"   \<comment> \<open>command, arguments\<close>
  | Sleep rat

record 'd session =
  committed :: 'd
  work :: 'd
  trace :: "effect list"

type_synonym 'r service = "effect list \<Rightarrow> effect \<Rightarrow> 'r"

definition new_session :: "'d \<Rightarrow> 'd session" where
  "new_session d = \<lparr>committed = d, work = d, trace = []\<rparr>"

lemma new_session_simps [simp]:
  "committed (new_session d) = d" "work (new_session d) = d" "trace (new_session d) = []"
  by (simp_all add: new_session_def)

type_synonym ('d, 'a) act = "'d session \<Rightarrow> 'a result \<times> 'd session"

definition ret :: "'a \<Rightarrow> ('d, 'a) act" where
  "ret x s = (Inr x, s)"

definition raise :: "py_exn \<Rightarrow> ('d, 'a) act" where
  "raise e s = (Inl e, s)"

definition bind_act :: "('d, 'a) act \<Rightarrow> ('a \<Rightarrow> ('d, 'b) act) \<Rightarrow> ('d, 'b) act" where
  "bind_act m f s = (case m s of (Inl e, s') \<Rightarrow> (Inl e, s') | (Inr x, s') \<Rightarrow> f x s')"

definition then_act :: "('d, 'a) act \<Rightarrow> ('d, 'b) act \<Rightarrow> ('d, 'b) act" where
  "then_act m k = bind_act m (\<lambda>_. k)"

definition try_act :: "('d, 'a) act \<Rightarrow> (py_exn \<Rightarrow> ('d, 'a) act) \<Rightarrow> ('d, 'a) act" where
  "try_act m h s = (case m s of (Inl e, s') \<Rightarrow> h e s' | (Inr x, s') \<Rightarrow> (Inr x, s'))"

definition query :: "('d \<Rightarrow> 'a) \<Rightarrow> ('d, 'a) act" where
  "query f s = (Inr (f (work s)), s)"

definition change :: "('d \<Rightarrow> 'd) \<Rightarrow> ('d, unit) act" where
  "change f s = (Inr (), s\<lparr>work := f (work s)\<rparr>)"

definition call :: "'r service \<Rightarrow> effect \<Rightarrow> ('d, 'r) act" where
  "call reply e s = (Inr (reply (trace s) e), s\<lparr>trace := trace s @ [e]\<rparr>)"

definition guard_act :: "bool \<Rightarrow> py_exn \<Rightarrow> ('d, unit) act" where
  "guard_act b e = (if b then ret () else raise e)"

definition lift_result :: "'a result \<Rightarrow> ('d, 'a) act" where
  "lift_result r s = (r, s)"

definition when_act :: "bool \<Rightarrow> ('d, unit) act \<Rightarrow> ('d, unit) act" where
  "when_act b m = (if b then m else ret ())"

definition commit :: "('d, unit) act" where
  "commit s = (Inr (), s\<lparr>committed := work s\<rparr>)"

definition rollback :: "('d, unit) act" where
  "rollback s = (Inr (), s\<lparr>work := committed s\<rparr>)"

definition run_request :: "('d, 'a) act \<Rightarrow> 'd \<Rightarrow> 'a result \<times> 'd" where
  "run_request m d = (case m (new_session d) of
      (Inr x, s) \<Rightarrow> (Inr x, work s)
    | (Inl e, s) \<Rightarrow> (Inl e, committed s))"

text \<open>A nested transaction (\<open>begin_nested\<close>): undone when its body raises.\<close>

definition savepoint :: "('d, 'a) act \<Rightarrow> ('d, 'a) act" where
  "savepoint m s = (case m s of (Inl e, s') \<Rightarrow> (Inl e, s'\<lparr>work := work s\<rparr>) | (Inr x, s') \<Rightarrow> (Inr x, s'))"

lemmas act_defs = ret_def raise_def bind_act_def then_act_def try_act_def query_def change_def call_def
  guard_act_def lift_result_def when_act_def commit_def rollback_def savepoint_def

declare act_defs [act_simps]

lemma bind_act_ret [simp]: "bind_act (ret x) f s = f x s"
  by (simp add: act_defs)

lemma bind_act_raise [simp]: "bind_act (raise e) f s = (Inl e, s)"
  by (simp add: act_defs)

lemma bind_act_query [simp]: "bind_act (query g) f s = f (g (work s)) s"
  by (simp add: act_defs)

lemma bind_act_guard [simp]:
  "bind_act (guard_act b e) f s = (if b then f () s else (Inl e, s))"
  by (simp add: act_defs)

lemma bind_act_Inr_iff:
  "bind_act m f s = (Inr y, t) \<longleftrightarrow> (\<exists>x u. m s = (Inr x, u) \<and> f x u = (Inr y, t))"
  by (auto simp: bind_act_def split: prod.splits sum.splits)

lemma then_act_Inr_iff:
  "then_act m k s = (Inr y, t) \<longleftrightarrow> (\<exists>x u. m s = (Inr x, u) \<and> k u = (Inr y, t))"
  by (simp add: then_act_def bind_act_Inr_iff)

lemma bind_act_Inl_iff:
  "bind_act m f s = (Inl e, t) \<longleftrightarrow> m s = (Inl e, t) \<or> (\<exists>x u. m s = (Inr x, u) \<and> f x u = (Inl e, t))"
  by (auto simp: bind_act_def split: prod.splits sum.splits)

lemma then_act_Inl_iff:
  "then_act m k s = (Inl e, t) \<longleftrightarrow> m s = (Inl e, t) \<or> (\<exists>x u. m s = (Inr x, u) \<and> k u = (Inl e, t))"
  by (simp add: then_act_def bind_act_Inl_iff)

text \<open>The part of the session that a block of code leaves alone.\<close>

definition preserves :: "('d \<Rightarrow> bool) \<Rightarrow> ('d, 'a) act \<Rightarrow> bool" where
  "preserves P m \<longleftrightarrow> (\<forall>s :: 'd session. P (committed s) \<and> P (work s) \<longrightarrow>
      P (committed (snd (m s))) \<and> P (work (snd (m s))))"

lemma preserves_ret [intro]: "preserves P (ret x)"
  by (simp add: preserves_def ret_def)

lemma preserves_raise [intro]: "preserves P (raise e)"
  by (simp add: preserves_def raise_def)

lemma preserves_bind [intro]:
  fixes P :: "'d \<Rightarrow> bool"
  assumes "preserves P m" and "\<And>x. preserves P (f x)"
  shows "preserves P (bind_act m f)"
  unfolding preserves_def
proof (intro allI impI)
  fix s :: "'d session" assume s: "P (committed s) \<and> P (work s)"
  obtain r u where u: "m s = (r, u)" by (cases "m s")
  with assms(1) s have "P (committed u) \<and> P (work u)" unfolding preserves_def by (metis snd_conv)
  with assms(2) u show "P (committed (snd (bind_act m f s))) \<and> P (work (snd (bind_act m f s)))"
    unfolding preserves_def bind_act_def by (cases r) auto
qed

lemma preserves_then [intro]: "preserves P m \<Longrightarrow> preserves P k \<Longrightarrow> preserves P (then_act m k)"
  by (auto simp: then_act_def)

lemma preserves_query [intro]: "preserves P (query f)"
  by (simp add: preserves_def query_def)

lemma preserves_change [intro]: "(\<And>d. P d \<Longrightarrow> P (f d)) \<Longrightarrow> preserves P (change f)"
  by (simp add: preserves_def change_def)

lemma preserves_call [intro]: "preserves P (call reply e)"
  by (simp add: preserves_def call_def)

lemma preserves_guard [intro]: "preserves P (guard_act b e)"
  by (simp add: preserves_def guard_act_def ret_def raise_def)

lemma preserves_lift [intro]: "preserves P (lift_result r)"
  by (simp add: preserves_def lift_result_def)

lemma preserves_when [intro]: "preserves P m \<Longrightarrow> preserves P (when_act b m)"
  by (simp add: when_act_def preserves_ret)

lemma preserves_commit [intro]: "preserves P commit"
  by (simp add: preserves_def commit_def)

lemma preserves_rollback [intro]: "preserves P rollback"
  by (simp add: preserves_def rollback_def)

lemma preserves_if [intro]: "preserves P m \<Longrightarrow> preserves P k \<Longrightarrow> preserves P (if b then m else k)"
  by simp

lemma preserves_option [intro]:
  "preserves P m \<Longrightarrow> (\<And>x. preserves P (f x)) \<Longrightarrow> preserves P (case opt of None \<Rightarrow> m | Some x \<Rightarrow> f x)"
  by (cases opt) auto

lemma preserves_try [intro]:
  fixes P :: "'d \<Rightarrow> bool"
  assumes "preserves P m" and "\<And>e. preserves P (h e)"
  shows "preserves P (try_act m h)"
  unfolding preserves_def
proof (intro allI impI)
  fix s :: "'d session" assume s: "P (committed s) \<and> P (work s)"
  obtain r u where u: "m s = (r, u)" by (cases "m s")
  with assms(1) s have "P (committed u) \<and> P (work u)" unfolding preserves_def by (metis snd_conv)
  with assms(2) u show "P (committed (snd (try_act m h s))) \<and> P (work (snd (try_act m h s)))"
    unfolding preserves_def try_act_def by (cases r) auto
qed

lemma preserves_savepoint [intro]:
  fixes P :: "'d \<Rightarrow> bool"
  assumes "preserves P m"
  shows "preserves P (savepoint m)"
  unfolding preserves_def
proof (intro allI impI)
  fix s :: "'d session" assume s: "P (committed s) \<and> P (work s)"
  obtain r u where u: "m s = (r, u)" by (cases "m s")
  with assms s have "P (committed u) \<and> P (work u)" unfolding preserves_def by (metis snd_conv)
  with s u show "P (committed (snd (savepoint m s))) \<and> P (work (snd (savepoint m s)))"
    unfolding savepoint_def by (cases r) auto
qed

lemma run_request_preserves:
  assumes "preserves P m" and "P d"
  shows "P (snd (run_request m d))"
proof -
  let ?s = "new_session d"
  obtain r u where u: "m ?s = (r, u)" by (cases "m ?s")
  have "P (committed ?s) \<and> P (work ?s)" using assms(2) by (simp add: new_session_def)
  with assms(1) u have "P (committed u) \<and> P (work u)" unfolding preserves_def by (metis snd_conv)
  with u show ?thesis by (cases r) (auto simp: run_request_def)
qed

text \<open>Code that reads rows and calls services, and writes no row.\<close>

definition reads_only :: "('d, 'a) act \<Rightarrow> bool" where
  "reads_only m \<longleftrightarrow> (\<forall>s :: 'd session. work (snd (m s)) = work s \<and> committed (snd (m s)) = committed s)"

lemma reads_onlyD: "reads_only m \<Longrightarrow> m s = (r, t) \<Longrightarrow> work t = work s \<and> committed t = committed s"
  unfolding reads_only_def by (metis snd_conv)

lemma reads_only_simple [intro]:
  "reads_only (ret x)" "reads_only (raise e)" "reads_only (query f)" "reads_only (guard_act b e)"
  "reads_only (lift_result r)" "reads_only (call reply c)"
  by (simp_all add: reads_only_def act_defs)

lemma reads_only_bind [intro]:
  fixes m :: "('d, 'a) act"
  assumes "reads_only m" and "\<And>x. reads_only (f x)"
  shows "reads_only (bind_act m f)"
  unfolding reads_only_def
proof (rule allI)
  fix s :: "'d session"
  obtain r u where u: "m s = (r, u)" by (cases "m s")
  with assms(1) have "work u = work s \<and> committed u = committed s" by (rule reads_onlyD)
  with assms(2) u show "work (snd (bind_act m f s)) = work s \<and> committed (snd (bind_act m f s)) = committed s"
    unfolding reads_only_def bind_act_def by (cases r) auto
qed

lemma reads_only_then [intro]: "reads_only m \<Longrightarrow> reads_only k \<Longrightarrow> reads_only (then_act m k)"
  by (auto simp: then_act_def)

lemma reads_only_when [intro]: "reads_only m \<Longrightarrow> reads_only (when_act b m)"
  by (auto simp: when_act_def)

lemma reads_only_if [intro]: "reads_only m \<Longrightarrow> reads_only k \<Longrightarrow> reads_only (if b then m else k)"
  by simp

lemma reads_only_option [intro]:
  "reads_only m \<Longrightarrow> (\<And>x. reads_only (f x)) \<Longrightarrow> reads_only (case opt of None \<Rightarrow> m | Some x \<Rightarrow> f x)"
  by (cases opt) auto

lemma reads_only_pair [intro]: "(\<And>x y. reads_only (f x y)) \<Longrightarrow> reads_only (case p of (x, y) \<Rightarrow> f x y)"
  by (cases p) auto

lemma reads_only_try [intro]:
  fixes m :: "('d, 'a) act"
  assumes "reads_only m" and "\<And>e. reads_only (h e)"
  shows "reads_only (try_act m h)"
  unfolding reads_only_def
proof (rule allI)
  fix s :: "'d session"
  obtain r u where u: "m s = (r, u)" by (cases "m s")
  with assms(1) have "work u = work s \<and> committed u = committed s" by (rule reads_onlyD)
  with assms(2) u show "work (snd (try_act m h s)) = work s \<and> committed (snd (try_act m h s)) = committed s"
    unfolding reads_only_def try_act_def by (cases r) auto
qed

lemma reads_only_preserves: "reads_only m \<Longrightarrow> preserves P m"
  by (simp add: reads_only_def preserves_def)

text \<open>A block that fails leaves the rows as they were: a property of savepoints that composes.\<close>

definition atomic :: "('d, 'a) act \<Rightarrow> bool" where
  "atomic m \<longleftrightarrow> (\<forall>s :: 'd session. \<forall>e t. m s = (Inl e, t) \<longrightarrow> work t = work s \<and> committed t = committed s)"

lemma atomicD: "atomic m \<Longrightarrow> m s = (Inl e, t) \<Longrightarrow> work t = work s \<and> committed t = committed s"
  by (simp add: atomic_def)

lemma atomic_reads_only: "reads_only m \<Longrightarrow> atomic m"
  unfolding atomic_def by (auto dest: reads_onlyD)

lemma atomic_bind:
  fixes m :: "('d, 'a) act"
  assumes "reads_only m" and "\<And>x. atomic (f x)"
  shows "atomic (bind_act m f)"
  unfolding atomic_def
proof (intro allI impI)
  fix s :: "'d session" and e t
  assume run: "bind_act m f s = (Inl e, t)"
  obtain r u where u: "m s = (r, u)" by (cases "m s")
  with assms(1) have same: "work u = work s \<and> committed u = committed s" by (rule reads_onlyD)
  from run u assms(2) [THEN atomicD, of _ u e t] same show "work t = work s \<and> committed t = committed s"
    by (cases r) (auto simp: bind_act_def)
qed

lemma atomic_then: "reads_only m \<Longrightarrow> atomic k \<Longrightarrow> atomic (then_act m k)"
  by (simp add: then_act_def atomic_bind)

lemma atomic_savepoint:
  assumes "\<And>s. committed (snd (m s)) = committed s"
  shows "atomic (savepoint m)"
  unfolding atomic_def savepoint_def using assms
  by (auto split: prod.splits sum.splits) (metis snd_conv)

lemma atomic_then_ret: "atomic m \<Longrightarrow> atomic (then_act m (ret x))"
  unfolding atomic_def then_act_def bind_act_def ret_def by (auto split: prod.splits sum.splits)

lemma preserves_pair [intro]: "(\<And>x y. preserves P (f x y)) \<Longrightarrow> preserves P (case p of (x, y) \<Rightarrow> f x y)"
  by (cases p) auto

text \<open>Code without a commit.\<close>

definition no_commit :: "('d, 'a) act \<Rightarrow> bool" where
  "no_commit m \<longleftrightarrow> (\<forall>s :: 'd session. committed (snd (m s)) = committed s)"

lemma no_commitD: "no_commit m \<Longrightarrow> m s = (r, t) \<Longrightarrow> committed t = committed s"
  unfolding no_commit_def by (metis snd_conv)

lemma no_commit_simple [intro]:
  "no_commit (ret x)" "no_commit (raise e)" "no_commit (query f)" "no_commit (change g)" "no_commit (guard_act b e)"
  "no_commit (lift_result r)" "no_commit (call reply c)"
  by (simp_all add: no_commit_def act_defs)

lemma no_commit_reads: "reads_only m \<Longrightarrow> no_commit m"
  by (simp add: reads_only_def no_commit_def)

lemma no_commit_bind [intro]:
  fixes m :: "('d, 'a) act"
  assumes "no_commit m" and "\<And>x. no_commit (f x)"
  shows "no_commit (bind_act m f)"
  unfolding no_commit_def
proof (rule allI)
  fix s :: "'d session"
  obtain r u where u: "m s = (r, u)" by (cases "m s")
  with assms(1) have "committed u = committed s" by (rule no_commitD)
  with assms(2) u show "committed (snd (bind_act m f s)) = committed s"
    unfolding no_commit_def bind_act_def by (cases r) auto
qed

lemma no_commit_then [intro]: "no_commit m \<Longrightarrow> no_commit k \<Longrightarrow> no_commit (then_act m k)"
  by (auto simp: then_act_def)

lemma no_commit_when [intro]: "no_commit m \<Longrightarrow> no_commit (when_act b m)"
  by (auto simp: when_act_def)

lemma no_commit_if [intro]: "no_commit m \<Longrightarrow> no_commit k \<Longrightarrow> no_commit (if b then m else k)"
  by simp

lemma no_commit_option [intro]:
  "no_commit m \<Longrightarrow> (\<And>x. no_commit (f x)) \<Longrightarrow> no_commit (case opt of None \<Rightarrow> m | Some x \<Rightarrow> f x)"
  by (cases opt) auto

lemma no_commit_pair [intro]: "(\<And>x y. no_commit (f x y)) \<Longrightarrow> no_commit (case p of (x, y) \<Rightarrow> f x y)"
  by (cases p) auto

lemma no_commit_savepoint [intro]: "no_commit m \<Longrightarrow> no_commit (savepoint m)"
  unfolding no_commit_def savepoint_def by (auto split: prod.splits sum.splits) (metis snd_conv)+

lemma no_commit_try [intro]:
  fixes m :: "('d, 'a) act"
  assumes "no_commit m" and "\<And>e. no_commit (h e)"
  shows "no_commit (try_act m h)"
  unfolding no_commit_def
proof (rule allI)
  fix s :: "'d session"
  obtain r u where u: "m s = (r, u)" by (cases "m s")
  with assms(1) have "committed u = committed s" by (rule no_commitD)
  with assms(2) u show "committed (snd (try_act m h s)) = committed s"
    unfolding no_commit_def try_act_def by (cases r) auto
qed

lemma atomic_if: "atomic m \<Longrightarrow> atomic k \<Longrightarrow> atomic (if b then m else k)"
  by simp

text \<open>The exceptions a block can raise.\<close>

definition raises :: "(py_exn \<Rightarrow> bool) \<Rightarrow> ('d, 'a) act \<Rightarrow> bool" where
  "raises Q m \<longleftrightarrow> (\<forall>s :: 'd session. \<forall>e t. m s = (Inl e, t) \<longrightarrow> Q e)"

lemma raisesD: "raises Q m \<Longrightarrow> m s = (Inl e, t) \<Longrightarrow> Q e"
  unfolding raises_def by blast

lemma raises_simple [intro]:
  "raises Q (ret x)" "raises Q (query f)" "raises Q (change g)" "raises Q (call reply c)" "raises Q commit" "raises Q rollback"
  by (simp_all add: raises_def act_defs)

lemma raises_raise [intro]: "Q e \<Longrightarrow> raises Q (raise e)"
  by (simp add: raises_def raise_def)

lemma raises_guard [intro]: "Q e \<Longrightarrow> raises Q (guard_act b e)"
  by (simp add: raises_def guard_act_def ret_def raise_def)

lemma raises_lift [intro]: "(\<And>e. r = Inl e \<Longrightarrow> Q e) \<Longrightarrow> raises Q (lift_result r)"
  by (simp add: raises_def lift_result_def)

lemma raises_bind [intro]: "raises Q m \<Longrightarrow> (\<And>x. raises Q (f x)) \<Longrightarrow> raises Q (bind_act m f)"
  unfolding raises_def bind_act_def by (auto split: prod.splits sum.splits)

lemma raises_then [intro]: "raises Q m \<Longrightarrow> raises Q k \<Longrightarrow> raises Q (then_act m k)"
  by (auto simp: then_act_def)

lemma raises_when [intro]: "raises Q m \<Longrightarrow> raises Q (when_act b m)"
  by (auto simp: when_act_def)

lemma raises_try [intro]: "(\<And>e. raises Q (h e)) \<Longrightarrow> raises Q (try_act m h)"
  unfolding raises_def try_act_def by (auto split: prod.splits sum.splits)

lemma raises_try_of:
  "raises R m \<Longrightarrow> (\<And>e. R e \<Longrightarrow> raises Q (h e)) \<Longrightarrow> raises Q (try_act m h)"
  unfolding raises_def try_act_def by (auto split: prod.splits sum.splits) blast

lemma raises_savepoint [intro]: "raises Q m \<Longrightarrow> raises Q (savepoint m)"
  unfolding raises_def savepoint_def by (auto split: prod.splits sum.splits)

lemma raises_if [intro]: "raises Q m \<Longrightarrow> raises Q k \<Longrightarrow> raises Q (if b then m else k)"
  by simp

lemma raises_option [intro]:
  "raises Q m \<Longrightarrow> (\<And>x. raises Q (f x)) \<Longrightarrow> raises Q (case opt of None \<Rightarrow> m | Some x \<Rightarrow> f x)"
  by (cases opt) auto

lemma raises_pair [intro]: "(\<And>x y. raises Q (f x y)) \<Longrightarrow> raises Q (case p of (x, y) \<Rightarrow> f x y)"
  by (cases p) auto

text \<open>An observation of the session that a block does not change.\<close>

definition keeps :: "('d session \<Rightarrow> 'x) \<Rightarrow> ('d, 'a) act \<Rightarrow> bool" where
  "keeps f m \<longleftrightarrow> (\<forall>s. f (snd (m s)) = f s)"

lemma keepsD: "keeps f m \<Longrightarrow> m s = (r, t) \<Longrightarrow> f t = f s"
  unfolding keeps_def by (metis snd_conv)

lemma keeps_simple [intro]:
  "keeps f (ret x)" "keeps f (raise e)" "keeps f (query g)" "keeps f (guard_act b e)" "keeps f (lift_result r)"
  by (simp_all add: keeps_def act_defs)

lemma keeps_bind [intro]:
  assumes "keeps f m" and "\<And>x. keeps f (k x)"
  shows "keeps f (bind_act m k)"
  unfolding keeps_def
proof (rule allI)
  fix s
  obtain r u where u: "m s = (r, u)" by (cases "m s")
  with assms(1) have "f u = f s" by (rule keepsD)
  with assms(2) u show "f (snd (bind_act m k s)) = f s"
    unfolding keeps_def bind_act_def by (cases r) auto
qed

lemma keeps_then [intro]: "keeps f m \<Longrightarrow> keeps f k \<Longrightarrow> keeps f (then_act m k)"
  by (auto simp: then_act_def)

lemma keeps_try [intro]:
  assumes "keeps f m" and "\<And>e. keeps f (h e)"
  shows "keeps f (try_act m h)"
  unfolding keeps_def
proof (rule allI)
  fix s
  obtain r u where u: "m s = (r, u)" by (cases "m s")
  with assms(1) have "f u = f s" by (rule keepsD)
  with assms(2) u show "f (snd (try_act m h s)) = f s"
    unfolding keeps_def try_act_def by (cases r) auto
qed

lemma keeps_if [intro]: "keeps f m \<Longrightarrow> keeps f k \<Longrightarrow> keeps f (if b then m else k)"
  by simp

lemma keeps_when [intro]: "keeps f m \<Longrightarrow> keeps f (when_act b m)"
  by (auto simp: when_act_def)

lemma keeps_option [intro]:
  "keeps f m \<Longrightarrow> (\<And>x. keeps f (k x)) \<Longrightarrow> keeps f (case opt of None \<Rightarrow> m | Some x \<Rightarrow> k x)"
  by (cases opt) auto

lemma keeps_pair [intro]: "(\<And>x y. keeps f (k x y)) \<Longrightarrow> keeps f (case p of (x, y) \<Rightarrow> k x y)"
  by (cases p) auto

lemma keeps_change: "(\<And>s. f (s\<lparr>work := g (work s)\<rparr>) = f s) \<Longrightarrow> keeps f (change g)"
  by (simp add: keeps_def change_def)

lemma keeps_call: "(\<And>s. f (s\<lparr>trace := trace s @ [c]\<rparr>) = f s) \<Longrightarrow> keeps f (call reply c)"
  by (simp add: keeps_def call_def)

lemma keeps_savepoint:
  assumes "keeps f m" and "\<And>s d. committed (snd (m s)) = committed s \<Longrightarrow> f ((snd (m s))\<lparr>work := work s\<rparr>) = f s"
    and "no_commit m"
  shows "keeps f (savepoint m)"
  unfolding keeps_def
proof (rule allI)
  fix s
  obtain r u where u: "m s = (r, u)" by (cases "m s")
  have "committed (snd (m s)) = committed s" using assms(3) by (simp add: no_commit_def)
  from assms(1) [THEN keepsD, OF u] assms(2) [OF this] u show "f (snd (savepoint m s)) = f s"
    by (cases r) (simp_all add: savepoint_def)
qed

text \<open>A table that a block does not write.\<close>

abbreviation keeps_table :: "('d \<Rightarrow> 'x) \<Rightarrow> ('d, 'a) act \<Rightarrow> bool" where
  "keeps_table g m \<equiv> keeps (\<lambda>s :: 'd session. g (work s)) m"

lemma keeps_table_savepoint [intro]: "keeps_table g m \<Longrightarrow> no_commit m \<Longrightarrow> keeps_table g (savepoint m)"
  by (rule keeps_savepoint) simp_all

lemma keeps_table_call [intro]: "keeps_table g (call reply c)"
  by (rule keeps_call) simp

lemma keeps_table_change [intro]: "(\<And>d. g (f d) = g d) \<Longrightarrow> keeps_table g (change f)"
  by (rule keeps_change) simp

lemma keeps_table_reads: "reads_only m \<Longrightarrow> keeps_table g m"
  by (simp add: reads_only_def keeps_def)

lemma keeps_table_commit [intro]: "keeps_table g commit"
  by (simp add: keeps_def commit_def)

text \<open>
  Triples: from rows with \<open>P\<close> the code ends with a value and rows related by \<open>Q\<close>, or raises and leaves rows with \<open>E\<close>, and
  what is committed keeps \<open>I\<close>. With \<open>E\<close> false, the code does not raise; a triple for every \<open>I\<close> says that it does not commit.
\<close>

definition ends :: "('a \<Rightarrow> 'd \<Rightarrow> bool) \<Rightarrow> ('d \<Rightarrow> bool) \<Rightarrow> 'a result \<Rightarrow> 'd \<Rightarrow> bool" where
  "ends Q E r d \<longleftrightarrow> (case r of Inl e \<Rightarrow> E d | Inr x \<Rightarrow> Q x d)"

lemma ends_simps [simp]: "ends Q E (Inl e) d = E d" "ends Q E (Inr x) d = Q x d"
  by (simp_all add: ends_def)

definition triple ::
  "('d \<Rightarrow> bool) \<Rightarrow> ('d \<Rightarrow> bool) \<Rightarrow> ('d, 'a) act \<Rightarrow> ('a \<Rightarrow> 'd \<Rightarrow> bool) \<Rightarrow> ('d \<Rightarrow> bool) \<Rightarrow> bool" where
  "triple I P m Q E \<longleftrightarrow> (\<forall>s :: 'd session. \<forall>r t. I (committed s) \<longrightarrow> P (work s) \<longrightarrow> m s = (r, t)
     \<longrightarrow> I (committed t) \<and> ends Q E r (work t))"

lemma tripleI:
  fixes m :: "('d, 'a) act"
  assumes "\<And>(s :: 'd session) r t. I (committed s) \<Longrightarrow> P (work s) \<Longrightarrow> m s = (r, t) \<Longrightarrow> I (committed t) \<and> ends Q E r (work t)"
  shows "triple I P m Q E"
  unfolding triple_def using assms by blast

lemma tripleD: "triple I P m Q E \<Longrightarrow> I (committed s) \<Longrightarrow> P (work s) \<Longrightarrow> m s = (r, t) \<Longrightarrow> I (committed t) \<and> ends Q E r (work t)"
  unfolding triple_def by blast

lemma triple_conseq:
  fixes m :: "('d, 'a) act"
  assumes "triple I P' m Q' E'" and "\<And>d. P d \<Longrightarrow> P' d" and "\<And>x d. Q' x d \<Longrightarrow> Q x d" and "\<And>d. E' d \<Longrightarrow> E d"
  shows "triple I P m Q E"
proof (rule tripleI)
  fix s :: "'d session" and r t
  assume i: "I (committed s)" and p: "P (work s)" and run: "m s = (r, t)"
  from tripleD [OF assms(1) i assms(2) [OF p] run] assms(3,4)
  show "I (committed t) \<and> ends Q E r (work t)" by (cases r) simp_all
qed

lemma triple_ret: "(\<And>d. P d \<Longrightarrow> Q x d) \<Longrightarrow> triple I P (ret x) Q E"
  by (rule tripleI) (auto simp: ret_def)

lemma triple_raise: "(\<And>d. P d \<Longrightarrow> E d) \<Longrightarrow> triple I P (raise e) Q E"
  by (rule tripleI) (auto simp: raise_def)

lemma triple_query: "(\<And>d. P d \<Longrightarrow> Q (f d) d) \<Longrightarrow> triple I P (query f) Q E"
  by (rule tripleI) (auto simp: query_def)

lemma triple_change: "(\<And>d. P d \<Longrightarrow> Q () (f d)) \<Longrightarrow> triple I P (change f) Q E"
  by (rule tripleI) (auto simp: change_def)

lemma triple_lift: "(\<And>x d. r = Inr x \<Longrightarrow> P d \<Longrightarrow> Q x d) \<Longrightarrow> (\<And>d. P d \<Longrightarrow> E d) \<Longrightarrow> triple I P (lift_result r) Q E"
  by (rule tripleI) (cases r, auto simp: lift_result_def)

lemma triple_guard: "(\<And>d. P d \<Longrightarrow> b \<Longrightarrow> Q () d) \<Longrightarrow> (\<And>d. P d \<Longrightarrow> \<not> b \<Longrightarrow> E d) \<Longrightarrow> triple I P (guard_act b e) Q E"
  by (rule tripleI) (auto simp: guard_act_def ret_def raise_def split: if_splits)

lemma triple_reads:
  fixes m :: "('d, 'a) act"
  assumes "reads_only m"
  shows "triple I P m (\<lambda>_. P) P"
proof (rule tripleI)
  fix s :: "'d session" and r t
  assume i: "I (committed s)" and p: "P (work s)" and "m s = (r, t)"
  with assms have "work t = work s \<and> committed t = committed s" by (intro reads_onlyD)
  with i p show "I (committed t) \<and> ends (\<lambda>_. P) P r (work t)" by (cases r) simp_all
qed

lemma triple_commit: "(\<And>d. P d \<Longrightarrow> I d \<and> Q () d) \<Longrightarrow> triple I P commit Q E"
  by (rule tripleI) (auto simp: commit_def)

lemma triple_bind:
  fixes m :: "('d, 'a) act"
  assumes "triple I P m R E" and "\<And>x. triple I (R x) (f x) Q E"
  shows "triple I P (bind_act m f) Q E"
proof (rule tripleI)
  fix s :: "'d session" and r t
  assume i: "I (committed s)" and p: "P (work s)" and run: "bind_act m f s = (r, t)"
  obtain q u where u: "m s = (q, u)" by (cases "m s")
  note first = tripleD [OF assms(1) i p u]
  show "I (committed t) \<and> ends Q E r (work t)"
  proof (cases q)
    case (Inl e)
    with first run u show ?thesis by (auto simp: bind_act_def)
  next
    case (Inr x)
    with run u have next_run: "f x u = (r, t)" by (simp add: bind_act_def)
    from first Inr have "R x (work u)" by simp
    from tripleD [OF assms(2) _ this next_run] first show ?thesis by blast
  qed
qed

lemma triple_then: "triple I P m (\<lambda>_. R) E \<Longrightarrow> triple I R k Q E \<Longrightarrow> triple I P (then_act m k) Q E"
  unfolding then_act_def by (rule triple_bind)

lemma triple_try:
  fixes m :: "('d, 'a) act"
  assumes "triple I P m Q F" and "\<And>e. triple I F (h e) Q E"
  shows "triple I P (try_act m h) Q E"
proof (rule tripleI)
  fix s :: "'d session" and r t
  assume i: "I (committed s)" and p: "P (work s)" and run: "try_act m h s = (r, t)"
  obtain q u where u: "m s = (q, u)" by (cases "m s")
  note first = tripleD [OF assms(1) i p u]
  show "I (committed t) \<and> ends Q E r (work t)"
  proof (cases q)
    case (Inr x)
    with first run u show ?thesis by (auto simp: try_act_def)
  next
    case (Inl e)
    with run u have next_run: "h e u = (r, t)" by (simp add: try_act_def)
    from first Inl have "F (work u)" by simp
    from tripleD [OF assms(2) _ this next_run] first show ?thesis by blast
  qed
qed

lemma triple_if: "triple I P m Q E \<Longrightarrow> triple I P k Q E \<Longrightarrow> triple I P (if b then m else k) Q E"
  by simp

lemma triple_when: "triple I P m Q E \<Longrightarrow> (\<And>d. P d \<Longrightarrow> Q () d) \<Longrightarrow> triple I P (when_act b m) Q E"
  by (simp add: when_act_def triple_ret)

lemma triple_option:
  "triple I P m Q E \<Longrightarrow> (\<And>x. triple I P (f x) Q E) \<Longrightarrow> triple I P (case opt of None \<Rightarrow> m | Some x \<Rightarrow> f x) Q E"
  by (cases opt) auto

lemma triple_pair: "(\<And>x y. triple I P (f x y) Q E) \<Longrightarrow> triple I P (case p of (x, y) \<Rightarrow> f x y) Q E"
  by (cases p) auto

lemma triple_preserves:
  fixes m :: "('d, 'a) act"
  assumes "triple P P m (\<lambda>_. P) P"
  shows "preserves P m"
  unfolding preserves_def
proof (intro allI impI)
  fix s :: "'d session" assume s: "P (committed s) \<and> P (work s)"
  obtain r u where u: "m s = (r, u)" by (cases "m s")
  from tripleD [OF assms _ _ u] s have "P (committed u) \<and> ends (\<lambda>_. P) P r (work u)" by blast
  with s u show "P (committed (snd (m s))) \<and> P (work (snd (m s)))" by (cases r) simp_all
qed

text \<open>The outcome of a block as a value: the exception it raised, or its result.\<close>

definition outcome :: "('d, 'a) act \<Rightarrow> ('d, 'a result) act" where
  "outcome m = try_act (bind_act m (\<lambda>x. ret (Inr x))) (\<lambda>e. ret (Inl e))"

lemma outcome_run: "m s = (r, t) \<Longrightarrow> outcome m s = (Inr r, t)"
  by (cases r) (simp_all add: outcome_def try_act_def bind_act_def ret_def)

lemma triple_outcome:
  fixes m :: "('d, 'a) act"
  assumes "triple I P m Q E"
  shows "triple I P (outcome m) (\<lambda>r d. ends Q E r d) F"
proof (rule tripleI)
  fix s :: "'d session" and r t
  assume i: "I (committed s)" and p: "P (work s)" and run: "outcome m s = (r, t)"
  obtain q u where u: "m s = (q, u)" by (cases "m s")
  from u have "outcome m s = (Inr q, u)" by (rule outcome_run)
  with tripleD [OF assms i p u] run show "I (committed t) \<and> ends (\<lambda>r d. ends Q E r d) F r (work t)" by auto
qed

lemma reads_only_outcome [intro]: "reads_only m \<Longrightarrow> reads_only (outcome m)"
  unfolding outcome_def by blast

text \<open>What a run of a primitive looks like.\<close>

lemma lift_result_Inr: "lift_result m s = (Inr x, t) \<longleftrightarrow> m = Inr x \<and> t = s"
  by (auto simp: lift_result_def)

lemma lift_result_any: "lift_result m s = (r, t) \<longleftrightarrow> m = r \<and> t = s"
  by (auto simp: lift_result_def)

lemma query_Inr: "query f s = (r, t) \<longleftrightarrow> r = Inr (f (work s)) \<and> t = s"
  by (auto simp: query_def)

lemma ret_Inr: "ret x s = (r, t) \<longleftrightarrow> r = Inr x \<and> t = s"
  by (auto simp: ret_def)

lemma change_Inr: "change f s = (r, t) \<longleftrightarrow> r = Inr () \<and> t = s\<lparr>work := f (work s)\<rparr>"
  by (auto simp: change_def)

lemma commit_Inr: "commit s = (r, t) \<longleftrightarrow> r = Inr () \<and> t = s\<lparr>committed := work s\<rparr>"
  by (auto simp: commit_def)

lemma raise_not_Inr: "raise e s = (Inr x, t) \<longleftrightarrow> False"
  by (simp add: raise_def)

lemma guard_Inr: "guard_act b e s = (Inr u, t) \<longleftrightarrow> b \<and> t = s"
  by (auto simp: guard_act_def ret_def raise_def)

lemmas run_act_simps = bind_act_Inr_iff then_act_Inr_iff lift_result_Inr query_Inr ret_Inr change_Inr commit_Inr raise_not_Inr
  guard_Inr

end
