(* ===== verification/Regex.thy ===== *)
theory Regex
  imports Prelude
begin

text \<open>
  Python's \<open>re\<close>, as far as the sources use it: a backtracking matcher that lists the ways a
  pattern can match at a position in the order Python tries them, so that the head of the
  list is Python's match. \<open>match\<close>, \<open>search\<close>, \<open>findall\<close> and \<open>sub\<close> are scans over it.
  The repetition carries fuel \<open>lo + length rest + 1\<close>: every round lowers the number of
  mandatory rounds or consumes a character (Python stops on an empty optional round too).
\<close>

section \<open>Patterns\<close>

datatype rx =
    RSet "char \<Rightarrow> bool"
  | REps
  | RSeq rx rx
  | RAlt rx rx
  | RRep nat "nat option" bool rx    \<comment> \<open>least, most, greedy\<close>
  | RGroup nat rx
  | RWordEdge
  | RLineStart
  | RLineEnd
  | RTextStart
  | RTextEnd

type_synonym rx_state = "string \<times> string \<times> (nat \<times> string) list"
  \<comment> \<open>characters before the position (nearest first), the rest, the groups captured\<close>

definition word_edge :: "string \<Rightarrow> string \<Rightarrow> bool" where
  "word_edge pre rest =
     ((case pre of [] \<Rightarrow> False | c # _ \<Rightarrow> is_word c) \<noteq> (case rest of [] \<Rightarrow> False | c # _ \<Rightarrow> is_word c))"

fun rx_rep :: "(rx_state \<Rightarrow> rx_state list) \<Rightarrow> bool \<Rightarrow> nat \<Rightarrow> nat \<Rightarrow> nat option \<Rightarrow> rx_state \<Rightarrow> rx_state list" where
  "rx_rep f g 0 lo hi st = (if lo = 0 then [st] else [])"
| "rx_rep f g (Suc n) lo hi st =
     (let more = (if hi = Some 0 then []
                  else concat (map (\<lambda>st'. if lo = 0 \<and> fst (snd st') = fst (snd st) then []
                                          else rx_rep f g n (lo - 1) (map_option (\<lambda>h. h - 1) hi) st') (f st)))
      in if lo > 0 then more else if g then more @ [st] else st # more)"

primrec rx_m :: "rx \<Rightarrow> rx_state \<Rightarrow> rx_state list" where
  "rx_m (RSet P) st = (case st of (b, rest, caps) \<Rightarrow>
     (case rest of [] \<Rightarrow> [] | c # cs \<Rightarrow> if P c then [(c # b, cs, caps)] else []))"
| "rx_m REps st = [st]"
| "rx_m (RSeq r q) st = concat (map (rx_m q) (rx_m r st))"
| "rx_m (RAlt r q) st = rx_m r st @ rx_m q st"
| "rx_m (RRep lo hi g r) st = rx_rep (rx_m r) g (lo + length (fst (snd st)) + 1) lo hi st"
| "rx_m (RGroup i r) st =
     map (\<lambda>(b, rest, caps). (b, rest, (i, take (length (fst (snd st)) - length rest) (fst (snd st))) # caps)) (rx_m r st)"
| "rx_m RWordEdge st = (case st of (b, rest, caps) \<Rightarrow> if word_edge b rest then [st] else [])"
| "rx_m RLineStart st = (case st of (b, rest, caps) \<Rightarrow>
     (case b of [] \<Rightarrow> [st] | c # _ \<Rightarrow> if cp c = 10 then [st] else []))"
| "rx_m RLineEnd st = (case fst (snd st) of [] \<Rightarrow> [st] | c # _ \<Rightarrow> if cp c = 10 then [st] else [])"
| "rx_m RTextStart st = (if fst st = [] then [st] else [])"
| "rx_m RTextEnd st = (if fst (snd st) = [] \<or> (map cp (fst (snd st)) = [10]) then [st] else [])"

text \<open>Builders for the notations of the sources' patterns.\<close>

definition rx_char :: "char \<Rightarrow> rx" where
  "rx_char c = RSet (\<lambda>d. d = c)"

definition rx_char_ci :: "char \<Rightarrow> rx" where
  "rx_char_ci c = RSet (\<lambda>d. lower_char d = lower_char c)"

primrec rx_seq :: "rx list \<Rightarrow> rx" where
  "rx_seq [] = REps"
| "rx_seq (r # rs) = RSeq r (rx_seq rs)"

fun rx_alt :: "rx list \<Rightarrow> rx" where
  "rx_alt [] = RSet (\<lambda>_. False)"
| "rx_alt [r] = r"
| "rx_alt (r # rs) = RAlt r (rx_alt rs)"

definition rx_lit :: "string \<Rightarrow> rx" where
  "rx_lit s = rx_seq (map rx_char s)"

definition rx_lit_ci :: "string \<Rightarrow> rx" where
  "rx_lit_ci s = rx_seq (map rx_char_ci s)"

definition rx_opt :: "rx \<Rightarrow> rx" where
  "rx_opt r = RRep 0 (Some 1) True r"

definition rx_star :: "rx \<Rightarrow> rx" where
  "rx_star r = RRep 0 None True r"

definition rx_plus :: "rx \<Rightarrow> rx" where
  "rx_plus r = RRep 1 None True r"

definition rx_star_lazy :: "rx \<Rightarrow> rx" where
  "rx_star_lazy r = RRep 0 None False r"

definition rx_at_least :: "nat \<Rightarrow> rx \<Rightarrow> rx" where
  "rx_at_least n r = RRep n None True r"

definition rx_times :: "nat \<Rightarrow> nat \<Rightarrow> rx \<Rightarrow> rx" where
  "rx_times n m r = RRep n (Some m) True r"

definition rx_any :: rx where
  "rx_any = RSet (\<lambda>_. True)"

definition c_lower :: "char \<Rightarrow> bool" where "c_lower = in_range 97 122"
definition c_upper :: "char \<Rightarrow> bool" where "c_upper = in_range 65 90"
definition c_alpha :: "char \<Rightarrow> bool" where "c_alpha c \<longleftrightarrow> c_lower c \<or> c_upper c"
definition c_alnum :: "char \<Rightarrow> bool" where "c_alnum c \<longleftrightarrow> c_alpha c \<or> is_digit c"
definition c_in :: "string \<Rightarrow> char \<Rightarrow> bool" where "c_in s c \<longleftrightarrow> c \<in> set s"
definition c_hex :: "char \<Rightarrow> bool" where
  "c_hex c \<longleftrightarrow> is_digit c \<or> in_range 97 102 c \<or> in_range 65 70 c"

section \<open>Matching, searching, substituting\<close>

record rx_match =
  m_text :: string
  m_groups :: "(nat \<times> string) list"

definition group_text :: "rx_match \<Rightarrow> nat \<Rightarrow> string" where
  "group_text m i = (case map_of (m_groups m) i of None \<Rightarrow> [] | Some s \<Rightarrow> s)"

definition match_at :: "rx \<Rightarrow> string \<Rightarrow> string \<Rightarrow> (rx_match \<times> string \<times> string) option" where
  "match_at r pre rest = (case rx_m r (pre, rest, []) of
      [] \<Rightarrow> None
    | (b', rest', caps) # _ \<Rightarrow>
        Some (\<lparr>m_text = take (length rest - length rest') rest, m_groups = caps\<rparr>, b', rest'))"

definition re_match :: "rx \<Rightarrow> string \<Rightarrow> rx_match option" where
  "re_match r s = map_option fst (match_at r [] s)"

fun search_from :: "rx \<Rightarrow> string \<Rightarrow> string \<Rightarrow> rx_match option" where
  "search_from r pre [] = map_option fst (match_at r pre [])"
| "search_from r pre (c # cs) = (case match_at r pre (c # cs) of
      Some (m, _, _) \<Rightarrow> Some m
    | None \<Rightarrow> search_from r (c # pre) cs)"

definition re_search :: "rx \<Rightarrow> string \<Rightarrow> rx_match option" where
  "re_search r s = search_from r [] s"

text \<open>The pieces of a scan: the characters no match covers, and the matches.\<close>

datatype piece = Gap char | Hit rx_match

function pieces_from :: "rx \<Rightarrow> string \<Rightarrow> string \<Rightarrow> piece list" where
  "pieces_from r pre rest = (case match_at r pre rest of
      Some (m, b', rest') \<Rightarrow>
        (if length rest' < length rest then Hit m # pieces_from r b' rest'
         else (case rest of [] \<Rightarrow> [Hit m] | c # cs \<Rightarrow> Hit m # Gap c # pieces_from r (c # pre) cs))
    | None \<Rightarrow> (case rest of [] \<Rightarrow> [] | c # cs \<Rightarrow> Gap c # pieces_from r (c # pre) cs))"
  by pat_completeness auto
termination
  by (relation "measure (\<lambda>(r, pre, rest). length rest)") auto

declare pieces_from.simps [simp del]

definition re_pieces :: "rx \<Rightarrow> string \<Rightarrow> piece list" where
  "re_pieces r s = pieces_from r [] s"

fun piece_out :: "(rx_match \<Rightarrow> string) \<Rightarrow> piece \<Rightarrow> string" where
  "piece_out f (Gap c) = [c]"
| "piece_out f (Hit m) = f m"

definition re_sub :: "rx \<Rightarrow> (rx_match \<Rightarrow> string) \<Rightarrow> string \<Rightarrow> string" where
  "re_sub r f s = concat (map (piece_out f) (re_pieces r s))"

fun hits :: "piece list \<Rightarrow> rx_match list" where
  "hits [] = []"
| "hits (Gap c # ps) = hits ps"
| "hits (Hit m # ps) = m # hits ps"

definition re_findall :: "rx \<Rightarrow> string \<Rightarrow> rx_match list" where
  "re_findall r s = hits (re_pieces r s)"

section \<open>What a match covers\<close>

text \<open>
  Every way to match moves the characters it covers from the rest to the characters before:
  nothing is lost, reordered or made up.
\<close>

definition moved :: "rx_state \<Rightarrow> rx_state \<Rightarrow> bool" where
  "moved st st' \<longleftrightarrow> (\<exists>m. fst (snd st) = m @ fst (snd st') \<and> fst st' = rev m @ fst st)"

lemma moved_refl [simp]: "moved st st"
  by (simp add: moved_def)

lemma moved_trans: "moved a b \<Longrightarrow> moved b c \<Longrightarrow> moved a c"
proof -
  assume "moved a b" and "moved b c"
  then obtain m n where "fst (snd a) = m @ fst (snd b)" "fst b = rev m @ fst a"
    "fst (snd b) = n @ fst (snd c)" "fst c = rev n @ fst b" unfolding moved_def by blast
  then have "fst (snd a) = (m @ n) @ fst (snd c)" and "fst c = rev (m @ n) @ fst a" by simp_all
  then show ?thesis unfolding moved_def by blast
qed

lemma rx_rep_moved:
  assumes step: "\<And>a b. b \<in> set (f a) \<Longrightarrow> moved a b"
  shows "st' \<in> set (rx_rep f g n lo hi st) \<Longrightarrow> moved st st'"
proof (induction n arbitrary: lo hi st)
  case 0
  then show ?case by (simp split: if_splits)
next
  case (Suc n)
  then consider "st' = st"
    | b lo' hi' where "b \<in> set (f st)" "st' \<in> set (rx_rep f g n lo' hi' b)"
    by (auto simp: Let_def split: if_splits)
  then show ?case
  proof cases
    case 1
    then show ?thesis by simp
  next
    case 2
    then show ?thesis using Suc.IH step moved_trans by blast
  qed
qed

lemma rx_m_moved: "st' \<in> set (rx_m r st) \<Longrightarrow> moved st st'"
proof (induction r arbitrary: st st')
  case (RSet P)
  then show ?case by (auto simp: moved_def split: prod.splits list.splits if_splits)
next
  case REps
  then show ?case by simp
next
  case (RSeq r q)
  then obtain b where "b \<in> set (rx_m r st)" and "st' \<in> set (rx_m q b)" by auto
  with RSeq.IH show ?case using moved_trans by blast
next
  case (RAlt r q)
  then have "st' \<in> set (rx_m r st) \<or> st' \<in> set (rx_m q st)" by simp
  with RAlt.IH show ?case by blast
next
  case (RRep lo hi g r)
  from RRep.IH have "moved st st'" if "st' \<in> set (rx_rep (rx_m r) g n lo hi st)" for n
    using that by (rule rx_rep_moved)
  with RRep.prems show ?case by (simp only: rx_m.simps)
next
  case (RGroup i r)
  then obtain b rest caps caps' where "(b, rest, caps) \<in> set (rx_m r st)" and st': "st' = (b, rest, caps')"
    by auto
  with RGroup.IH have "moved st (b, rest, caps)" by blast
  with st' show ?case by (simp add: moved_def)
next
  case RWordEdge
  then show ?case by (auto split: prod.splits if_splits)
next
  case RLineStart
  obtain b rest caps where st: "st = (b, rest, caps)" by (cases st)
  with RLineStart show ?case by (cases b) (auto split: if_splits)
next
  case RLineEnd
  then show ?case by (auto split: list.splits if_splits)
next
  case RTextStart
  then show ?case by (auto split: if_splits)
next
  case RTextEnd
  then show ?case by (auto split: if_splits)
qed

lemma match_at_Some:
  assumes "match_at r pre rest = Some (m, b', rest')"
  shows "rest = m_text m @ rest'" and "b' = rev (m_text m) @ pre"
proof -
  from assms obtain caps sts where "rx_m r (pre, rest, []) = (b', rest', caps) # sts"
    and m: "m_text m = take (length rest - length rest') rest"
    unfolding match_at_def by (auto split: list.splits)
  then have "(b', rest', caps) \<in> set (rx_m r (pre, rest, []))" by simp
  then have "moved (pre, rest, []) (b', rest', caps)" by (rule rx_m_moved)
  then obtain t where t: "rest = t @ rest'" "b' = rev t @ pre" by (auto simp: moved_def)
  with m show "rest = m_text m @ rest'" and "b' = rev (m_text m) @ pre" by simp_all
qed

text \<open>A scan loses nothing: its gaps and matches, in order, are the text.\<close>

lemma pieces_from_cover: "concat (map (piece_out m_text) (pieces_from r pre rest)) = rest"
proof (induction r pre rest rule: pieces_from.induct)
  case (1 r pre rest)
  show ?case
  proof (cases "match_at r pre rest")
    case None
    show ?thesis
    proof (cases rest)
      case Nil
      with None show ?thesis by (simp add: pieces_from.simps [of r pre "[]"])
    next
      case (Cons c cs)
      with 1(1) [OF None Cons] None show ?thesis by (simp add: pieces_from.simps [of r pre "c # cs"])
    qed
  next
    case (Some x)
    then obtain m b' rest' where m: "match_at r pre rest = Some (m, b', rest')" by (cases x) auto
    note cover = match_at_Some(1) [OF m]
    show ?thesis
    proof (cases "length rest' < length rest")
      case True
      have "concat (map (piece_out m_text) (pieces_from r b' rest')) = rest'"
        using 1(2) [OF m _ _ True] by simp
      moreover have "pieces_from r pre rest = Hit m # pieces_from r b' rest'"
        using m True by (simp add: pieces_from.simps [of r pre rest])
      ultimately show ?thesis using cover by simp
    next
      case False
      with cover have "m_text m = []" by (metis length_append less_add_same_cancel2 length_greater_0_conv)
      show ?thesis
      proof (cases rest)
        case Nil
        with False m \<open>m_text m = []\<close> show ?thesis by (simp add: pieces_from.simps [of r pre "[]"])
      next
        case (Cons c cs)
        with 1(3) [OF m] False m \<open>m_text m = []\<close> show ?thesis
          by (simp add: pieces_from.simps [of r pre "c # cs"])
      qed
    qed
  qed
qed

lemma re_sub_identity: "re_sub r m_text s = s"
  by (simp add: re_sub_def re_pieces_def pieces_from_cover)

text \<open>Nothing to find, nothing changed.\<close>

lemma pieces_from_no_match:
  "search_from r pre rest = None \<Longrightarrow> pieces_from r pre rest = map Gap rest"
proof (induction rest arbitrary: pre)
  case Nil
  then show ?case by (simp add: pieces_from.simps)
next
  case (Cons c cs)
  then have "match_at r pre (c # cs) = None" and "search_from r (c # pre) cs = None"
    by (auto split: option.splits)
  with Cons.IH show ?case by (simp add: pieces_from.simps [of r pre "c # cs"])
qed

lemma piece_out_gaps: "concat (map (piece_out f) (map Gap s)) = s"
  by (induction s) auto

lemma re_sub_no_match: "re_search r s = None \<Longrightarrow> re_sub r f s = s"
  unfolding re_sub_def re_pieces_def re_search_def
  by (simp only: pieces_from_no_match piece_out_gaps)

lemma re_findall_no_match: "re_search r s = None \<Longrightarrow> re_findall r s = []"
proof -
  assume "re_search r s = None"
  then have "re_pieces r s = map Gap s"
    by (simp add: re_pieces_def re_search_def pieces_from_no_match)
  moreover have "hits (map Gap s) = []" by (induction s) auto
  ultimately show ?thesis by (simp add: re_findall_def)
qed

text \<open>The number of replacements made by \<open>sub\<close> is the number of matches found.\<close>

lemma hits_append: "hits (ps @ qs) = hits ps @ hits qs"
  by (induction ps rule: hits.induct) auto

section \<open>Literals and counted sets\<close>

lemma rx_rep_exact:
  "k \<le> n \<Longrightarrow> rx_rep (rx_m (RSet P)) g n k (Some k) (b, rest, caps) =
     (if k \<le> length rest \<and> list_all P (take k rest) then [(rev (take k rest) @ b, drop k rest, caps)] else [])"
proof (induction k arbitrary: n b rest)
  case 0
  then show ?case by (cases n) simp_all
next
  case (Suc k)
  then obtain m where n: "n = Suc m" and m: "k \<le> m" by (cases n) auto
  show ?case
  proof (cases rest)
    case Nil
    with n show ?thesis by simp
  next
    case (Cons c cs)
    with n Suc.IH [OF m, of "c # b" cs] show ?thesis by simp
  qed
qed

lemma rx_m_lit:
  "rx_m (rx_lit p) (b, rest, caps) =
     (if starts_with rest p then [(rev p @ b, drop (length p) rest, caps)] else [])"
proof (induction p arbitrary: b rest)
  case Nil
  then show ?case by (simp add: rx_lit_def)
next
  case (Cons q p)
  have "rx_lit (q # p) = RSeq (rx_char q) (rx_lit p)" by (simp add: rx_lit_def)
  with Cons show ?case by (cases rest) (auto simp: rx_char_def)
qed

definition text_end :: "string \<Rightarrow> bool" where
  "text_end t \<longleftrightarrow> t = [] \<or> map cp t = [10]"

lemma exact_tail:
  "rx_m (rx_seq [rx_times k k (RSet P), RTextEnd]) (b, rest, caps) \<noteq> [] \<longleftrightarrow>
     (\<exists>h t. rest = h @ t \<and> length h = k \<and> list_all P h \<and> text_end t)"
proof -
  have eq: "rx_m (rx_times k k (RSet P)) (b, rest, caps) =
      (if k \<le> length rest \<and> list_all P (take k rest) then [(rev (take k rest) @ b, drop k rest, caps)] else [])"
    unfolding rx_times_def rx_m.simps(5) by (rule rx_rep_exact) simp
  have "rx_m (rx_seq [rx_times k k (RSet P), RTextEnd]) (b, rest, caps) \<noteq> [] \<longleftrightarrow>
     k \<le> length rest \<and> list_all P (take k rest) \<and> text_end (drop k rest)"
  proof (cases "k \<le> length rest \<and> list_all P (take k rest)")
    case True
    then show ?thesis unfolding rx_seq.simps rx_m.simps(3) eq text_end_def
      by (simp only: if_True list.map concat.simps append_Nil2 rx_m.simps prod.sel simp_thms split: if_split) simp
  next
    case False
    then show ?thesis unfolding rx_seq.simps rx_m.simps(3) eq text_end_def
      by (simp only: if_False list.map concat.simps) blast
  qed
  also have "\<dots> \<longleftrightarrow> (\<exists>h t. rest = h @ t \<and> length h = k \<and> list_all P h \<and> text_end t)" (is "?L \<longleftrightarrow> ?R")
  proof
    assume ?L
    then have "rest = take k rest @ drop k rest" "length (take k rest) = k" by simp_all
    with \<open>?L\<close> show ?R by (intro exI [of _ "take k rest"] exI [of _ "drop k rest"]) simp
  next
    assume ?R
    then obtain h t where rest: "rest = h @ t" "length h = k" and "list_all P h" "text_end t" by blast
    moreover have "take k rest = h" "drop k rest = t" "k \<le> length rest" using rest by simp_all
    ultimately show ?L by (simp only: simp_thms)
  qed
  finally show ?thesis .
qed

section \<open>What a match needs and what it captures\<close>

text \<open>A pattern that cannot match on a text of characters in \<open>Q\<close>.\<close>

definition stuck :: "(char \<Rightarrow> bool) \<Rightarrow> rx \<Rightarrow> bool" where
  "stuck Q r \<longleftrightarrow> (\<forall>st :: rx_state. list_all Q (fst (snd st)) \<longrightarrow> rx_m r st = [])"

lemma stuckD: "stuck Q r \<Longrightarrow> list_all Q rest \<Longrightarrow> rx_m r (b, rest, caps) = []"
  by (simp add: stuck_def)

lemma stuck_set: "(\<And>c. Q c \<Longrightarrow> \<not> P c) \<Longrightarrow> stuck Q (RSet P)"
  by (auto simp: stuck_def split: list.splits)

lemma stuck_first: "stuck Q r \<Longrightarrow> stuck Q (RSeq r q)"
  by (simp add: stuck_def)

lemma stuck_second:
  assumes "stuck Q q"
  shows "stuck Q (RSeq r q)"
  unfolding stuck_def
proof (intro allI impI)
  fix st :: rx_state assume "list_all Q (fst (snd st))"
  moreover have "list_all Q (fst (snd st'))" if "st' \<in> set (rx_m r st)" for st'
    using calculation rx_m_moved [OF that] by (auto simp: moved_def)
  ultimately have "\<forall>st' \<in> set (rx_m r st). rx_m q st' = []" using assms unfolding stuck_def by blast
  then show "rx_m (RSeq r q) st = []" by simp
qed

lemma stuck_alt: "stuck Q r \<Longrightarrow> stuck Q q \<Longrightarrow> stuck Q (RAlt r q)"
  by (simp add: stuck_def)

lemma stuck_alts: "rs \<noteq> [] \<Longrightarrow> list_all (stuck Q) rs \<Longrightarrow> stuck Q (rx_alt rs)"
  by (induction rs rule: rx_alt.induct) (simp_all add: stuck_alt)

lemma stuck_group: "stuck Q r \<Longrightarrow> stuck Q (RGroup i r)"
  by (simp add: stuck_def)

lemma stuck_seq: "r \<in> set rs \<Longrightarrow> stuck Q r \<Longrightarrow> stuck Q (rx_seq rs)"
  by (induction rs) (auto intro: stuck_first stuck_second)

lemma stuck_lit: "s \<noteq> [] \<Longrightarrow> \<not> Q (hd s) \<Longrightarrow> stuck Q (rx_lit s)"
  by (cases s) (auto simp: rx_lit_def rx_char_def intro: stuck_first stuck_set)

lemma stuck_no_match: "stuck Q r \<Longrightarrow> list_all Q s \<Longrightarrow> re_match r s = None"
  by (simp add: re_match_def match_at_def stuckD)

text \<open>The groups of a pattern, and those every match fills with at least one character.\<close>

primrec groups_of :: "rx \<Rightarrow> nat list" where
  "groups_of (RSet P) = []"
| "groups_of REps = []"
| "groups_of (RSeq r q) = groups_of r @ groups_of q"
| "groups_of (RAlt r q) = groups_of r @ groups_of q"
| "groups_of (RRep lo hi g r) = groups_of r"
| "groups_of (RGroup i r) = i # groups_of r"
| "groups_of RWordEdge = []"
| "groups_of RLineStart = []"
| "groups_of RLineEnd = []"
| "groups_of RTextStart = []"
| "groups_of RTextEnd = []"

definition leaves :: "nat \<Rightarrow> rx_state \<Rightarrow> rx_state \<Rightarrow> bool" where
  "leaves i st st' \<longleftrightarrow> map_of (snd (snd st')) i = map_of (snd (snd st)) i"

lemma rx_rep_leaves:
  assumes step: "\<And>a b. b \<in> set (f a) \<Longrightarrow> leaves i a b"
  shows "st' \<in> set (rx_rep f g n lo hi st) \<Longrightarrow> leaves i st st'"
proof (induction n arbitrary: lo hi st)
  case 0
  then show ?case by (simp add: leaves_def split: if_splits)
next
  case (Suc n)
  then consider "st' = st" | b lo' hi' where "b \<in> set (f st)" "st' \<in> set (rx_rep f g n lo' hi' b)"
    by (auto simp: Let_def split: if_splits)
  then show ?case
  proof cases
    case 1
    then show ?thesis by (simp add: leaves_def)
  next
    case 2
    then show ?thesis using Suc.IH [OF 2(2)] step [OF 2(1)] by (simp add: leaves_def)
  qed
qed

lemma rx_m_leaves: "i \<notin> set (groups_of r) \<Longrightarrow> st' \<in> set (rx_m r st) \<Longrightarrow> leaves i st st'"
proof (induction r arbitrary: st st')
  case (RSeq r q)
  then obtain b where "b \<in> set (rx_m r st)" "st' \<in> set (rx_m q b)" by auto
  with RSeq.IH(1) [of b st] RSeq.IH(2) [of st' b] RSeq.prems(1) have "leaves i st b" "leaves i b st'" by auto
  then show ?case by (simp add: leaves_def)
next
  case (RAlt r q)
  then show ?case using RAlt.IH unfolding groups_of.simps rx_m.simps set_append by blast
next
  case (RRep lo hi g r)
  from RRep.IH RRep.prems(1) have "leaves i st st'" if "st' \<in> set (rx_rep (rx_m r) g n lo hi st)" for n
    using rx_rep_leaves [OF _ that] by simp
  with RRep.prems show ?case by (simp only: rx_m.simps)
next
  case (RGroup j r)
  then obtain b rest caps caps' where "(b, rest, caps) \<in> set (rx_m r st)" and st': "st' = (b, rest, (j, caps') # caps)" by auto
  with RGroup.IH RGroup.prems(1) have "leaves i st (b, rest, caps)" by auto
  with st' RGroup.prems(1) show ?case by (simp add: leaves_def)
next
  case RLineStart
  then show ?case by (cases "fst st") (auto simp: leaves_def split: prod.splits if_splits)
qed (auto simp: leaves_def split: prod.splits list.splits if_splits)

definition fills :: "nat \<Rightarrow> rx \<Rightarrow> bool" where
  "fills i r \<longleftrightarrow> (\<forall>st st'. st' \<in> set (rx_m r st) \<longrightarrow> (\<exists>s. s \<noteq> [] \<and> map_of (snd (snd st')) i = Some s))"

definition reads :: "rx \<Rightarrow> bool" where
  "reads r \<longleftrightarrow> (\<forall>st st'. st' \<in> set (rx_m r st) \<longrightarrow> length (fst (snd st')) < length (fst (snd st)))"

lemma reads_set: "reads (RSet P)"
  by (auto simp: reads_def split: list.splits)

lemma rx_m_shorter: "st' \<in> set (rx_m r st) \<Longrightarrow> length (fst (snd st')) \<le> length (fst (snd st))"
  using rx_m_moved [of st' r st] by (auto simp: moved_def)

lemma reads_first:
  assumes "reads r"
  shows "reads (RSeq r q)"
  unfolding reads_def
proof (intro allI impI)
  fix st st' assume "st' \<in> set (rx_m (RSeq r q) st)"
  then obtain b where b: "b \<in> set (rx_m r st)" "st' \<in> set (rx_m q b)" by auto
  from b(1) have "length (fst (snd b)) < length (fst (snd st))" using assms unfolding reads_def by blast
  with rx_m_shorter [OF b(2)] show "length (fst (snd st')) < length (fst (snd st))" by linarith
qed

lemma reads_alt: "reads r \<Longrightarrow> reads q \<Longrightarrow> reads (RAlt r q)"
  unfolding reads_def rx_m.simps set_append by blast

lemma reads_alts: "list_all reads rs \<Longrightarrow> reads (rx_alt rs)"
proof (induction rs rule: rx_alt.induct)
  case 1
  show ?case by (simp add: reads_set)
next
  case (2 r)
  then show ?case by simp
next
  case (3 r v va)
  then have "reads r" "reads (rx_alt (v # va))" by simp_all
  then show ?case unfolding rx_alt.simps by (rule reads_alt)
qed

lemma reads_lit: "s \<noteq> [] \<Longrightarrow> reads (rx_lit s)"
  by (cases s) (auto simp: rx_lit_def rx_char_def intro: reads_first reads_set)

lemma fills_group:
  assumes "reads r"
  shows "fills i (RGroup i r)"
  unfolding fills_def
proof (intro allI impI)
  fix st st' assume "st' \<in> set (rx_m (RGroup i r) st)"
  then obtain b where b: "b \<in> set (rx_m r st)"
    and st': "snd (snd st') = (i, take (length (fst (snd st)) - length (fst (snd b))) (fst (snd st))) # snd (snd b)" by auto
  from b have "length (fst (snd b)) < length (fst (snd st))" using assms unfolding reads_def by blast
  then have "take (length (fst (snd st)) - length (fst (snd b))) (fst (snd st)) \<noteq> []" by auto
  with st' show "\<exists>s. s \<noteq> [] \<and> map_of (snd (snd st')) i = Some s" by simp
qed

lemma fills_first:
  assumes "fills i r" and "i \<notin> set (groups_of q)"
  shows "fills i (RSeq r q)"
  unfolding fills_def
proof (intro allI impI)
  fix st st' assume "st' \<in> set (rx_m (RSeq r q) st)"
  then obtain b where "b \<in> set (rx_m r st)" "st' \<in> set (rx_m q b)" by auto
  with assms rx_m_leaves show "\<exists>s. s \<noteq> [] \<and> map_of (snd (snd st')) i = Some s" unfolding fills_def leaves_def by metis
qed

lemma fills_second: "fills i q \<Longrightarrow> fills i (RSeq r q)"
  unfolding fills_def by (auto simp del: split_paired_All split_paired_Ex)

lemma fills_match:
  assumes "fills i r" and "re_match r s = Some m"
  shows "group_text m i \<noteq> []"
proof -
  from assms(2) obtain st' sts where st': "rx_m r ([], s, []) = st' # sts" and m: "m_groups m = snd (snd st')"
    by (auto simp: re_match_def match_at_def split: list.splits)
  have "st' \<in> set (rx_m r ([], s, []))" unfolding st' by simp
  with assms(1) m show ?thesis unfolding fills_def group_text_def by fastforce
qed

end
