(* ===== verification/Models.thy ===== *)
theory Models
  imports Prelude
begin

text \<open>
  \<^verbatim>\<open>incidentops/db/models.py\<close>: the tables as records and the database as a record of lists of rows.
  A UUID is a natural number; the default \<open>uuid4\<close> is the next unused number. Times are integers
  (microseconds). The last sections hold the statements the handlers execute (insert, update,
  delete with the foreign keys' cascades) and the invariant of the primary keys.
\<close>

type_synonym uid = nat
type_synonym time = int

section \<open>Enumerations\<close>

datatype project_role = RoleViewer | RoleInvestigator | RoleApprover | RoleAdmin

fun project_role_value :: "project_role \<Rightarrow> string" where
  "project_role_value RoleViewer = ''viewer''"
| "project_role_value RoleInvestigator = ''investigator''"
| "project_role_value RoleApprover = ''approver''"
| "project_role_value RoleAdmin = ''admin''"

datatype run_status = RunQueued | RunRunning | RunAwaitingApproval | RunApproved | RunRejected | RunCompleted | RunFailed

fun run_status_value :: "run_status \<Rightarrow> string" where
  "run_status_value RunQueued = ''queued''"
| "run_status_value RunRunning = ''running''"
| "run_status_value RunAwaitingApproval = ''awaiting_approval''"
| "run_status_value RunApproved = ''approved''"
| "run_status_value RunRejected = ''rejected''"
| "run_status_value RunCompleted = ''completed''"
| "run_status_value RunFailed = ''failed''"

datatype approval_status = ApprovalPending | ApprovalApproved | ApprovalRejected

fun approval_status_value :: "approval_status \<Rightarrow> string" where
  "approval_status_value ApprovalPending = ''pending''"
| "approval_status_value ApprovalApproved = ''approved''"
| "approval_status_value ApprovalRejected = ''rejected''"

datatype draft_status = DraftDraft | DraftApproved | DraftRejected

fun draft_status_value :: "draft_status \<Rightarrow> string" where
  "draft_status_value DraftDraft = ''draft''"
| "draft_status_value DraftApproved = ''approved''"
| "draft_status_value DraftRejected = ''rejected''"

datatype eval_status = EvalQueued | EvalRunning | EvalCompleted | EvalFailed

fun eval_status_value :: "eval_status \<Rightarrow> string" where
  "eval_status_value EvalQueued = ''queued''"
| "eval_status_value EvalRunning = ''running''"
| "eval_status_value EvalCompleted = ''completed''"
| "eval_status_value EvalFailed = ''failed''"

datatype op_status = OpQueued | OpRunning | OpCompleted | OpFailed

fun op_status_value :: "op_status \<Rightarrow> string" where
  "op_status_value OpQueued = ''queued''"
| "op_status_value OpRunning = ''running''"
| "op_status_value OpCompleted = ''completed''"
| "op_status_value OpFailed = ''failed''"

section \<open>Tables\<close>

record user_row =
  user_id :: uid
  user_email :: string
  user_name :: string
  user_password_hash :: string
  user_password_scheme :: "string option"
  user_token_version :: int
  user_last_login_at :: "time option"
  user_failed_login_count :: int
  user_disabled_at :: "time option"
  user_is_active :: bool
  user_created_at :: time

record project_row =
  proj_id :: uid
  proj_name :: string
  proj_settings_json :: "json dict option"
  proj_demo_mode :: bool
  proj_created_at :: time

record member_row =
  mem_id :: uid
  mem_project_id :: uid
  mem_user_id :: uid
  mem_role :: project_role
  mem_created_at :: time

record source_row =
  src_id :: uid
  src_project_id :: uid
  src_name :: string
  src_source_type :: string
  src_status :: string
  src_sync_mode :: string
  src_source_uri :: "string option"
  src_config_json :: "json dict option"
  src_credentials_ref :: "string option"
  src_version_hash :: "string option"
  src_last_sync_started_at :: "time option"
  src_last_sync_finished_at :: "time option"
  src_last_sync_status :: "string option"
  src_last_error :: "string option"
  src_created_at :: time
  src_updated_at :: time
  src_ingested_at :: time

record collector_row =
  coll_id :: uid
  coll_project_id :: uid
  coll_name :: string
  coll_environment :: "string option"
  coll_version :: "string option"
  coll_status :: string
  coll_last_seen_at :: "time option"
  coll_created_at :: time
  coll_updated_at :: time

record sync_row =
  sync_id :: uid
  sync_project_id :: uid
  sync_source_id :: uid
  sync_collector_id :: "uid option"
  sync_status :: string
  sync_started_at :: time
  sync_finished_at :: "time option"
  sync_files_seen :: int
  sync_documents_received :: int
  sync_chunks_created :: int
  sync_files_skipped :: int
  sync_parser_errors :: int
  sync_coverage_json :: "json dict option"
  sync_diagnostics_json :: "json dict option"
  sync_error_message :: "string option"

record document_row =
  doc_id :: uid
  doc_project_id :: uid
  doc_source_id :: "uid option"
  doc_external_id :: "string option"
  doc_title :: "string option"
  doc_path :: "string option"
  doc_doc_type :: string
  doc_source_type :: "string option"
  doc_checksum :: "string option"
  doc_content_hash :: "string option"
  doc_modified_at :: "time option"
  doc_size_bytes :: "int option"
  doc_created_at :: time

record chunk_row =
  chunk_id :: uid
  chunk_project_id :: uid
  chunk_document_id :: uid
  chunk_source_id :: "uid option"
  chunk_chunk_type :: string
  chunk_service_name :: "string option"
  chunk_endpoint :: "string option"
  chunk_deploy_hash :: "string option"
  chunk_timestamp_start :: "time option"
  chunk_timestamp_end :: "time option"
  chunk_section_title :: "string option"
  chunk_start_line :: "int option"
  chunk_end_line :: "int option"
  chunk_text :: string
  chunk_token_count :: "int option"
  chunk_metadata_json :: "json dict option"
  chunk_search_tsvector :: "string option"
  chunk_created_at :: time

record relation_row =
  rel_id :: uid
  rel_project_id :: uid
  rel_evidence_chunk_id :: uid
  rel_relation_type :: string
  rel_from_key :: string
  rel_to_key :: string
  rel_metadata_json :: "json dict option"
  rel_created_at :: time

record index_job =
  job_id :: uid
  job_project_id :: uid
  job_source_id :: uid
  job_sync_id :: "uid option"
  job_normalized_payload_json :: "json dict"
  job_content_hash :: string
  job_index_version :: string
  job_status :: string
  job_attempts :: int
  job_error_code :: "string option"
  job_created_at :: time
  job_queued_at :: "time option"
  job_started_at :: "time option"
  job_finished_at :: "time option"

record retrieval_run =
  rrun_id :: uid
  rrun_project_id :: uid
  rrun_query :: string
  rrun_rewritten_query :: "string option"
  rrun_top_k :: int
  rrun_latency_ms :: "int option"
  rrun_created_at :: time

record retrieval_result =
  rres_id :: uid
  rres_retrieval_run_id :: uid
  rres_chunk_id :: uid
  rres_vector_score :: "rat option"
  rres_lexical_score :: "rat option"
  rres_fused_score :: "rat option"
  rres_rerank_score :: "rat option"
  rres_rank :: "int option"

record operational_run =
  oprun_id :: uid
  oprun_project_id :: uid
  oprun_run_type :: string
  oprun_status :: op_status
  oprun_idempotency_key :: string
  oprun_request_json :: "json dict option"
  oprun_summary_json :: "json dict option"
  oprun_attempts :: int
  oprun_model_call_count :: int
  oprun_input_tokens :: int
  oprun_output_tokens :: int
  oprun_error_code :: "string option"
  oprun_created_at :: time
  oprun_started_at :: "time option"
  oprun_finished_at :: "time option"
  oprun_updated_at :: time

record operational_finding =
  finding_id :: uid
  finding_operational_run_id :: uid
  finding_project_id :: uid
  finding_finding_type :: string
  finding_severity :: string
  finding_status :: string
  finding_evidence_json :: "json dict option"
  finding_threshold_json :: "json dict option"
  finding_recommended_action :: string
  finding_fingerprint :: string
  finding_created_at :: time

record operational_event =
  opev_id :: uid
  opev_project_id :: uid
  opev_operational_run_id :: "uid option"
  opev_category :: string
  opev_event_type :: string
  opev_severity :: string
  opev_payload_json :: "json dict option"
  opev_created_at :: time

record agent_run =
  run_id :: uid
  run_project_id :: uid
  run_user_id :: "uid option"
  run_user_query :: string
  run_task_type :: "string option"
  run_status :: run_status
  run_risk_level :: "string option"
  run_pending_approval :: bool
  run_state_json :: "json dict option"
  run_final_answer_json :: "json dict option"
  run_error :: "string option"
  run_created_at :: time
  run_updated_at :: time

record run_event =
  runev_id :: uid
  runev_run_id :: uid
  runev_sequence_no :: int
  runev_event_type :: string
  runev_node_name :: "string option"
  runev_payload_json :: "json dict option"
  runev_created_at :: time

record approval_row =
  appr_id :: uid
  appr_run_id :: uid
  appr_action_type :: string
  appr_requested_by_user_id :: "uid option"
  appr_resolved_by_user_id :: "uid option"
  appr_status :: approval_status
  appr_rationale :: "string option"
  appr_created_at :: time
  appr_resolved_at :: "time option"

record report_draft =
  report_id :: uid
  report_run_id :: uid
  report_content_markdown :: string
  report_content_json :: "json dict option"
  report_status :: draft_status
  report_created_at :: time
  report_updated_at :: time

record issue_draft_row =
  issue_id :: uid
  issue_run_id :: uid
  issue_title :: string
  issue_body_markdown :: string
  issue_provider :: string
  issue_status :: draft_status
  issue_created_at :: time
  issue_updated_at :: time

record eval_run =
  eval_id :: uid
  eval_project_id :: uid
  eval_status :: eval_status
  eval_summary_json :: "json dict option"
  eval_created_at :: time
  eval_updated_at :: time

record eval_case_row =
  evcase_id :: uid
  evcase_eval_run_id :: uid
  evcase_case_id :: string
  evcase_question :: string
  evcase_result_json :: "json dict option"
  evcase_created_at :: time

record audit_event =
  audit_id :: uid
  audit_project_id :: "uid option"
  audit_user_id :: "uid option"
  audit_actor_email :: "string option"
  audit_action :: string
  audit_resource_type :: "string option"
  audit_resource_id :: "string option"
  audit_status :: string
  audit_ip_address :: "string option"
  audit_user_agent :: "string option"
  audit_metadata_json :: "json dict option"
  audit_created_at :: time

record db =
  next_id :: uid
  users :: "user_row list"
  projects :: "project_row list"
  project_members :: "member_row list"
  sources :: "source_row list"
  collectors :: "collector_row list"
  source_syncs :: "sync_row list"
  documents :: "document_row list"
  chunks :: "chunk_row list"
  evidence_relations :: "relation_row list"
  index_jobs :: "index_job list"
  retrieval_runs :: "retrieval_run list"
  retrieval_results :: "retrieval_result list"
  operational_runs :: "operational_run list"
  operational_findings :: "operational_finding list"
  operational_events :: "operational_event list"
  agent_runs :: "agent_run list"
  agent_run_events :: "run_event list"
  approvals :: "approval_row list"
  incident_report_drafts :: "report_draft list"
  issue_drafts :: "issue_draft_row list"
  eval_runs :: "eval_run list"
  eval_run_cases :: "eval_case_row list"
  audit_events :: "audit_event list"

definition empty_db :: db where
  "empty_db = \<lparr>next_id = 1, users = [], projects = [], project_members = [], sources = [], collectors = [], source_syncs = [], documents = [], chunks = [], evidence_relations = [], index_jobs = [], retrieval_runs = [], retrieval_results = [], operational_runs = [], operational_findings = [], operational_events = [], agent_runs = [], agent_run_events = [], approvals = [], incident_report_drafts = [], issue_drafts = [], eval_runs = [], eval_run_cases = [], audit_events = []\<rparr>"

section \<open>Identifiers as text\<close>

definition uid_str :: "uid \<Rightarrow> string" where
  "uid_str i = digits_of i"

definition parse_uid :: "string \<Rightarrow> uid option" where
  "parse_uid s = (if s \<noteq> [] \<and> list_all is_digit s then digits_value 0 False s else None)"

section \<open>Statements\<close>

text \<open>A JSONB column that is null reads as the empty dict (\<open>x or {}\<close>).\<close>

definition or_empty :: "'v dict option \<Rightarrow> 'v dict" where
  "or_empty d = (case d of None \<Rightarrow> [] | Some e \<Rightarrow> e)"

text \<open>The table is named by its update function; a new row gets the next unused id.\<close>

definition add_row :: "(('r list \<Rightarrow> 'r list) \<Rightarrow> db \<Rightarrow> db) \<Rightarrow> (uid \<Rightarrow> 'r) \<Rightarrow> db \<Rightarrow> db" where
  "add_row upd mk d = upd (\<lambda>rs. rs @ [mk (next_id d)]) (d\<lparr>next_id := next_id d + 1\<rparr>)"

definition edit_rows :: "(('r list \<Rightarrow> 'r list) \<Rightarrow> db \<Rightarrow> db) \<Rightarrow> ('r \<Rightarrow> bool) \<Rightarrow> ('r \<Rightarrow> 'r) \<Rightarrow> db \<Rightarrow> db" where
  "edit_rows upd P f = upd (map (\<lambda>r. if P r then f r else r))"

definition drop_rows :: "(('r list \<Rightarrow> 'r list) \<Rightarrow> db \<Rightarrow> db) \<Rightarrow> ('r \<Rightarrow> bool) \<Rightarrow> db \<Rightarrow> db" where
  "drop_rows upd P = upd (filter (\<lambda>r. \<not> P r))"

definition row_with :: "('r \<Rightarrow> uid) \<Rightarrow> uid \<Rightarrow> 'r list \<Rightarrow> 'r option" where
  "row_with key k rs = find (\<lambda>r. key r = k) rs"

definition edit_row :: "(('r list \<Rightarrow> 'r list) \<Rightarrow> db \<Rightarrow> db) \<Rightarrow> ('r \<Rightarrow> uid) \<Rightarrow> uid \<Rightarrow> ('r \<Rightarrow> 'r) \<Rightarrow> db \<Rightarrow> db" where
  "edit_row upd key k f = edit_rows upd (\<lambda>r. key r = k) f"

text \<open>Deletes with the cascades of the foreign keys.\<close>

definition delete_chunks :: "(chunk_row \<Rightarrow> bool) \<Rightarrow> db \<Rightarrow> db" where
  "delete_chunks P d = (let gone = map chunk_id (filter P (chunks d)) in
     drop_rows retrieval_results_update (\<lambda>r. rres_chunk_id r \<in> set gone)
       (drop_rows evidence_relations_update (\<lambda>r. rel_evidence_chunk_id r \<in> set gone)
         (drop_rows chunks_update P d)))"

definition delete_documents :: "(document_row \<Rightarrow> bool) \<Rightarrow> db \<Rightarrow> db" where
  "delete_documents P d = (let gone = map doc_id (filter P (documents d)) in
     delete_chunks (\<lambda>c. chunk_document_id c \<in> set gone) (drop_rows documents_update P d))"

definition delete_syncs :: "(sync_row \<Rightarrow> bool) \<Rightarrow> db \<Rightarrow> db" where
  "delete_syncs P d = (let gone = map sync_id (filter P (source_syncs d)) in
     edit_rows index_jobs_update (\<lambda>j. \<exists>i \<in> set gone. job_sync_id j = Some i) (\<lambda>j. j\<lparr>job_sync_id := None\<rparr>)
       (drop_rows source_syncs_update P d))"

definition delete_sources :: "(source_row \<Rightarrow> bool) \<Rightarrow> db \<Rightarrow> db" where
  "delete_sources P d = (let gone = map src_id (filter P (sources d)) in
     drop_rows index_jobs_update (\<lambda>j. job_source_id j \<in> set gone)
       (delete_syncs (\<lambda>y. sync_source_id y \<in> set gone)
         (edit_rows chunks_update (\<lambda>c. \<exists>i \<in> set gone. chunk_source_id c = Some i) (\<lambda>c. c\<lparr>chunk_source_id := None\<rparr>)
           (edit_rows documents_update (\<lambda>c. \<exists>i \<in> set gone. doc_source_id c = Some i) (\<lambda>c. c\<lparr>doc_source_id := None\<rparr>)
             (drop_rows sources_update P d)))))"

section \<open>Primary keys\<close>

text \<open>
  The interface every table offers its handlers: reading back what a statement wrote, and the
  invariant that ids are distinct and below the counter.
\<close>

definition keys_ok :: "('r \<Rightarrow> uid) \<Rightarrow> 'r list \<Rightarrow> uid \<Rightarrow> bool" where
  "keys_ok key rs n \<longleftrightarrow> distinct (map key rs) \<and> (\<forall>r \<in> set rs. key r < n)"

lemma keys_ok_mono: "keys_ok key rs n \<Longrightarrow> n \<le> m \<Longrightarrow> keys_ok key rs m"
  by (fastforce simp: keys_ok_def)

lemma row_with_Some: "row_with key k rs = Some r \<Longrightarrow> r \<in> set rs \<and> key r = k"
  unfolding row_with_def by (auto simp: find_Some_iff)

lemma row_with_None: "row_with key k rs = None \<longleftrightarrow> (\<forall>r \<in> set rs. key r \<noteq> k)"
  unfolding row_with_def by (auto simp: find_None_iff)

lemma row_with_append:
  "row_with key k (rs @ ss) = (case row_with key k rs of None \<Rightarrow> row_with key k ss | Some r \<Rightarrow> Some r)"
  by (induction rs) (auto simp: row_with_def)

lemma row_with_map:
  "(\<And>r. key (f r) = key r) \<Longrightarrow> row_with key k (map f rs) = map_option f (row_with key k rs)"
  by (induction rs) (auto simp: row_with_def)

lemma row_with_member: "distinct (map key rs) \<Longrightarrow> r \<in> set rs \<Longrightarrow> row_with key (key r) rs = Some r"
proof (induction rs)
  case Nil
  then show ?case by simp
next
  case (Cons a rs)
  then show ?case by (auto simp: row_with_def)
qed

locale keyed_table =
  fixes rows :: "db \<Rightarrow> 'r list"
    and upd :: "('r list \<Rightarrow> 'r list) \<Rightarrow> db \<Rightarrow> db"
    and key :: "'r \<Rightarrow> uid"
  assumes rows_upd: "rows (upd f d) = f (rows d)"
    and next_upd: "next_id (upd f d) = next_id d"
    and rows_next: "rows (d\<lparr>next_id := n\<rparr>) = rows d"
begin

abbreviation ok :: "db \<Rightarrow> bool" where
  "ok d \<equiv> keys_ok key (rows d) (next_id d)"

lemma rows_add: "rows (add_row upd mk d) = rows d @ [mk (next_id d)]"
  by (simp add: add_row_def rows_upd rows_next)

lemma next_add: "next_id (add_row upd mk d) = next_id d + 1"
  by (simp add: add_row_def next_upd)

lemma rows_edit: "rows (edit_rows upd P f d) = map (\<lambda>r. if P r then f r else r) (rows d)"
  by (simp add: edit_rows_def rows_upd)

lemma rows_drop: "rows (drop_rows upd P d) = filter (\<lambda>r. \<not> P r) (rows d)"
  by (simp add: drop_rows_def rows_upd)

lemma next_edit: "next_id (edit_rows upd P f d) = next_id d"
  by (simp add: edit_rows_def next_upd)

lemma next_drop: "next_id (drop_rows upd P d) = next_id d"
  by (simp add: drop_rows_def next_upd)

lemma ok_add: "ok d \<Longrightarrow> key (mk (next_id d)) = next_id d \<Longrightarrow> ok (add_row upd mk d)"
  unfolding rows_add next_add by (auto simp: keys_ok_def less_Suc_eq)

lemma ok_edit: "ok d \<Longrightarrow> (\<And>r. P r \<Longrightarrow> key (f r) = key r) \<Longrightarrow> ok (edit_rows upd P f d)"
proof -
  assume ok: "ok d" and f: "\<And>r. P r \<Longrightarrow> key (f r) = key r"
  have "map key (map (\<lambda>r. if P r then f r else r) (rows d)) = map key (rows d)"
    by (simp add: f)
  with ok f show "ok (edit_rows upd P f d)"
    unfolding rows_edit next_edit keys_ok_def by (auto simp del: map_map)
qed

lemma ok_drop: "ok d \<Longrightarrow> ok (drop_rows upd P d)"
  unfolding rows_drop next_drop by (auto simp: keys_ok_def distinct_map intro: inj_on_subset)

lemma find_added:
  "ok d \<Longrightarrow> key (mk (next_id d)) = next_id d \<Longrightarrow>
   row_with key (next_id d) (rows (add_row upd mk d)) = Some (mk (next_id d))"
proof -
  assume ok: "ok d" and k: "key (mk (next_id d)) = next_id d"
  have "row_with key (next_id d) (rows d) = None"
    using ok by (auto simp: row_with_None keys_ok_def)
  with k show ?thesis by (simp add: rows_add row_with_append) (simp add: row_with_def)
qed

lemma find_edited:
  "(\<And>r. key (f r) = key r) \<Longrightarrow>
   row_with key k (rows (edit_row upd key j f d)) =
     (if k = j then map_option f (row_with key k (rows d)) else row_with key k (rows d))"
proof -
  assume f: "\<And>r. key (f r) = key r"
  have eq: "row_with key k (rows (edit_row upd key j f d))
      = map_option (\<lambda>r. if key r = j then f r else r) (row_with key k (rows d))"
    unfolding edit_row_def rows_edit by (rule row_with_map) (simp add: f)
  show ?thesis
  proof (cases "row_with key k (rows d)")
    case None
    with eq show ?thesis by auto
  next
    case (Some r)
    then have "key r = k" by (auto dest: row_with_Some)
    with Some eq show ?thesis by auto
  qed
qed

lemmas table_simps = rows_add next_add rows_edit rows_drop next_edit next_drop

end

interpretation users: keyed_table users users_update user_id
  by unfold_locales simp_all

interpretation projects: keyed_table projects projects_update proj_id
  by unfold_locales simp_all

interpretation project_members: keyed_table project_members project_members_update mem_id
  by unfold_locales simp_all

interpretation sources: keyed_table sources sources_update src_id
  by unfold_locales simp_all

interpretation collectors: keyed_table collectors collectors_update coll_id
  by unfold_locales simp_all

interpretation source_syncs: keyed_table source_syncs source_syncs_update sync_id
  by unfold_locales simp_all

interpretation documents: keyed_table documents documents_update doc_id
  by unfold_locales simp_all

interpretation chunks: keyed_table chunks chunks_update chunk_id
  by unfold_locales simp_all

interpretation evidence_relations: keyed_table evidence_relations evidence_relations_update rel_id
  by unfold_locales simp_all

interpretation index_jobs: keyed_table index_jobs index_jobs_update job_id
  by unfold_locales simp_all

interpretation retrieval_runs: keyed_table retrieval_runs retrieval_runs_update rrun_id
  by unfold_locales simp_all

interpretation retrieval_results: keyed_table retrieval_results retrieval_results_update rres_id
  by unfold_locales simp_all

interpretation operational_runs: keyed_table operational_runs operational_runs_update oprun_id
  by unfold_locales simp_all

interpretation operational_findings: keyed_table operational_findings operational_findings_update finding_id
  by unfold_locales simp_all

interpretation operational_events: keyed_table operational_events operational_events_update opev_id
  by unfold_locales simp_all

interpretation agent_runs: keyed_table agent_runs agent_runs_update run_id
  by unfold_locales simp_all

interpretation agent_run_events: keyed_table agent_run_events agent_run_events_update runev_id
  by unfold_locales simp_all

interpretation approvals: keyed_table approvals approvals_update appr_id
  by unfold_locales simp_all

interpretation incident_report_drafts: keyed_table incident_report_drafts incident_report_drafts_update report_id
  by unfold_locales simp_all

interpretation issue_drafts: keyed_table issue_drafts issue_drafts_update issue_id
  by unfold_locales simp_all

interpretation eval_runs: keyed_table eval_runs eval_runs_update eval_id
  by unfold_locales simp_all

interpretation eval_run_cases: keyed_table eval_run_cases eval_run_cases_update evcase_id
  by unfold_locales simp_all

interpretation audit_events: keyed_table audit_events audit_events_update audit_id
  by unfold_locales simp_all

section \<open>The invariant of the whole database\<close>

definition db_ok :: "db \<Rightarrow> bool" where
  "db_ok d \<longleftrightarrow> keys_ok user_id (users d) (next_id d)
     \<and> keys_ok proj_id (projects d) (next_id d)
     \<and> keys_ok mem_id (project_members d) (next_id d)
     \<and> keys_ok src_id (sources d) (next_id d)
     \<and> keys_ok coll_id (collectors d) (next_id d)
     \<and> keys_ok sync_id (source_syncs d) (next_id d)
     \<and> keys_ok doc_id (documents d) (next_id d)
     \<and> keys_ok chunk_id (chunks d) (next_id d)
     \<and> keys_ok rel_id (evidence_relations d) (next_id d)
     \<and> keys_ok job_id (index_jobs d) (next_id d)
     \<and> keys_ok rrun_id (retrieval_runs d) (next_id d)
     \<and> keys_ok rres_id (retrieval_results d) (next_id d)
     \<and> keys_ok oprun_id (operational_runs d) (next_id d)
     \<and> keys_ok finding_id (operational_findings d) (next_id d)
     \<and> keys_ok opev_id (operational_events d) (next_id d)
     \<and> keys_ok run_id (agent_runs d) (next_id d)
     \<and> keys_ok runev_id (agent_run_events d) (next_id d)
     \<and> keys_ok appr_id (approvals d) (next_id d)
     \<and> keys_ok report_id (incident_report_drafts d) (next_id d)
     \<and> keys_ok issue_id (issue_drafts d) (next_id d)
     \<and> keys_ok eval_id (eval_runs d) (next_id d)
     \<and> keys_ok evcase_id (eval_run_cases d) (next_id d)
     \<and> keys_ok audit_id (audit_events d) (next_id d)"

lemmas stmt_defs = add_row_def edit_rows_def edit_row_def drop_rows_def

lemma keys_ok_Suc [simp]: "keys_ok key rs n \<Longrightarrow> keys_ok key rs (Suc n)"
  by (erule keys_ok_mono) simp

lemma db_ok_add_users [intro]: "db_ok d \<Longrightarrow> (\<And>i. user_id (mk i) = i) \<Longrightarrow> db_ok (add_row users_update mk d)"
  using users.ok_add [of d mk] unfolding db_ok_def
  by (simp add: add_row_def)

lemma db_ok_edit_users [intro]: "db_ok d \<Longrightarrow> (\<And>r. P r \<Longrightarrow> user_id (f r) = user_id r) \<Longrightarrow> db_ok (edit_rows users_update P f d)"
  using users.ok_edit [of d P f] unfolding db_ok_def
  by (simp add: edit_rows_def)

lemma db_ok_drop_users [intro]: "db_ok d \<Longrightarrow> db_ok (drop_rows users_update P d)"
  using users.ok_drop [of d P] unfolding db_ok_def
  by (simp add: drop_rows_def)

lemma db_ok_add_projects [intro]: "db_ok d \<Longrightarrow> (\<And>i. proj_id (mk i) = i) \<Longrightarrow> db_ok (add_row projects_update mk d)"
  using projects.ok_add [of d mk] unfolding db_ok_def
  by (simp add: add_row_def)

lemma db_ok_edit_projects [intro]: "db_ok d \<Longrightarrow> (\<And>r. P r \<Longrightarrow> proj_id (f r) = proj_id r) \<Longrightarrow> db_ok (edit_rows projects_update P f d)"
  using projects.ok_edit [of d P f] unfolding db_ok_def
  by (simp add: edit_rows_def)

lemma db_ok_drop_projects [intro]: "db_ok d \<Longrightarrow> db_ok (drop_rows projects_update P d)"
  using projects.ok_drop [of d P] unfolding db_ok_def
  by (simp add: drop_rows_def)

lemma db_ok_add_project_members [intro]: "db_ok d \<Longrightarrow> (\<And>i. mem_id (mk i) = i) \<Longrightarrow> db_ok (add_row project_members_update mk d)"
  using project_members.ok_add [of d mk] unfolding db_ok_def
  by (simp add: add_row_def)

lemma db_ok_edit_project_members [intro]: "db_ok d \<Longrightarrow> (\<And>r. P r \<Longrightarrow> mem_id (f r) = mem_id r) \<Longrightarrow> db_ok (edit_rows project_members_update P f d)"
  using project_members.ok_edit [of d P f] unfolding db_ok_def
  by (simp add: edit_rows_def)

lemma db_ok_drop_project_members [intro]: "db_ok d \<Longrightarrow> db_ok (drop_rows project_members_update P d)"
  using project_members.ok_drop [of d P] unfolding db_ok_def
  by (simp add: drop_rows_def)

lemma db_ok_add_sources [intro]: "db_ok d \<Longrightarrow> (\<And>i. src_id (mk i) = i) \<Longrightarrow> db_ok (add_row sources_update mk d)"
  using sources.ok_add [of d mk] unfolding db_ok_def
  by (simp add: add_row_def)

lemma db_ok_edit_sources [intro]: "db_ok d \<Longrightarrow> (\<And>r. P r \<Longrightarrow> src_id (f r) = src_id r) \<Longrightarrow> db_ok (edit_rows sources_update P f d)"
  using sources.ok_edit [of d P f] unfolding db_ok_def
  by (simp add: edit_rows_def)

lemma db_ok_drop_sources [intro]: "db_ok d \<Longrightarrow> db_ok (drop_rows sources_update P d)"
  using sources.ok_drop [of d P] unfolding db_ok_def
  by (simp add: drop_rows_def)

lemma db_ok_add_collectors [intro]: "db_ok d \<Longrightarrow> (\<And>i. coll_id (mk i) = i) \<Longrightarrow> db_ok (add_row collectors_update mk d)"
  using collectors.ok_add [of d mk] unfolding db_ok_def
  by (simp add: add_row_def)

lemma db_ok_edit_collectors [intro]: "db_ok d \<Longrightarrow> (\<And>r. P r \<Longrightarrow> coll_id (f r) = coll_id r) \<Longrightarrow> db_ok (edit_rows collectors_update P f d)"
  using collectors.ok_edit [of d P f] unfolding db_ok_def
  by (simp add: edit_rows_def)

lemma db_ok_drop_collectors [intro]: "db_ok d \<Longrightarrow> db_ok (drop_rows collectors_update P d)"
  using collectors.ok_drop [of d P] unfolding db_ok_def
  by (simp add: drop_rows_def)

lemma db_ok_add_source_syncs [intro]: "db_ok d \<Longrightarrow> (\<And>i. sync_id (mk i) = i) \<Longrightarrow> db_ok (add_row source_syncs_update mk d)"
  using source_syncs.ok_add [of d mk] unfolding db_ok_def
  by (simp add: add_row_def)

lemma db_ok_edit_source_syncs [intro]: "db_ok d \<Longrightarrow> (\<And>r. P r \<Longrightarrow> sync_id (f r) = sync_id r) \<Longrightarrow> db_ok (edit_rows source_syncs_update P f d)"
  using source_syncs.ok_edit [of d P f] unfolding db_ok_def
  by (simp add: edit_rows_def)

lemma db_ok_drop_source_syncs [intro]: "db_ok d \<Longrightarrow> db_ok (drop_rows source_syncs_update P d)"
  using source_syncs.ok_drop [of d P] unfolding db_ok_def
  by (simp add: drop_rows_def)

lemma db_ok_add_documents [intro]: "db_ok d \<Longrightarrow> (\<And>i. doc_id (mk i) = i) \<Longrightarrow> db_ok (add_row documents_update mk d)"
  using documents.ok_add [of d mk] unfolding db_ok_def
  by (simp add: add_row_def)

lemma db_ok_edit_documents [intro]: "db_ok d \<Longrightarrow> (\<And>r. P r \<Longrightarrow> doc_id (f r) = doc_id r) \<Longrightarrow> db_ok (edit_rows documents_update P f d)"
  using documents.ok_edit [of d P f] unfolding db_ok_def
  by (simp add: edit_rows_def)

lemma db_ok_drop_documents [intro]: "db_ok d \<Longrightarrow> db_ok (drop_rows documents_update P d)"
  using documents.ok_drop [of d P] unfolding db_ok_def
  by (simp add: drop_rows_def)

lemma db_ok_add_chunks [intro]: "db_ok d \<Longrightarrow> (\<And>i. chunk_id (mk i) = i) \<Longrightarrow> db_ok (add_row chunks_update mk d)"
  using chunks.ok_add [of d mk] unfolding db_ok_def
  by (simp add: add_row_def)

lemma db_ok_edit_chunks [intro]: "db_ok d \<Longrightarrow> (\<And>r. P r \<Longrightarrow> chunk_id (f r) = chunk_id r) \<Longrightarrow> db_ok (edit_rows chunks_update P f d)"
  using chunks.ok_edit [of d P f] unfolding db_ok_def
  by (simp add: edit_rows_def)

lemma db_ok_drop_chunks [intro]: "db_ok d \<Longrightarrow> db_ok (drop_rows chunks_update P d)"
  using chunks.ok_drop [of d P] unfolding db_ok_def
  by (simp add: drop_rows_def)

lemma db_ok_add_evidence_relations [intro]: "db_ok d \<Longrightarrow> (\<And>i. rel_id (mk i) = i) \<Longrightarrow> db_ok (add_row evidence_relations_update mk d)"
  using evidence_relations.ok_add [of d mk] unfolding db_ok_def
  by (simp add: add_row_def)

lemma db_ok_edit_evidence_relations [intro]: "db_ok d \<Longrightarrow> (\<And>r. P r \<Longrightarrow> rel_id (f r) = rel_id r) \<Longrightarrow> db_ok (edit_rows evidence_relations_update P f d)"
  using evidence_relations.ok_edit [of d P f] unfolding db_ok_def
  by (simp add: edit_rows_def)

lemma db_ok_drop_evidence_relations [intro]: "db_ok d \<Longrightarrow> db_ok (drop_rows evidence_relations_update P d)"
  using evidence_relations.ok_drop [of d P] unfolding db_ok_def
  by (simp add: drop_rows_def)

lemma db_ok_add_index_jobs [intro]: "db_ok d \<Longrightarrow> (\<And>i. job_id (mk i) = i) \<Longrightarrow> db_ok (add_row index_jobs_update mk d)"
  using index_jobs.ok_add [of d mk] unfolding db_ok_def
  by (simp add: add_row_def)

lemma db_ok_edit_index_jobs [intro]: "db_ok d \<Longrightarrow> (\<And>r. P r \<Longrightarrow> job_id (f r) = job_id r) \<Longrightarrow> db_ok (edit_rows index_jobs_update P f d)"
  using index_jobs.ok_edit [of d P f] unfolding db_ok_def
  by (simp add: edit_rows_def)

lemma db_ok_drop_index_jobs [intro]: "db_ok d \<Longrightarrow> db_ok (drop_rows index_jobs_update P d)"
  using index_jobs.ok_drop [of d P] unfolding db_ok_def
  by (simp add: drop_rows_def)

lemma db_ok_add_retrieval_runs [intro]: "db_ok d \<Longrightarrow> (\<And>i. rrun_id (mk i) = i) \<Longrightarrow> db_ok (add_row retrieval_runs_update mk d)"
  using retrieval_runs.ok_add [of d mk] unfolding db_ok_def
  by (simp add: add_row_def)

lemma db_ok_edit_retrieval_runs [intro]: "db_ok d \<Longrightarrow> (\<And>r. P r \<Longrightarrow> rrun_id (f r) = rrun_id r) \<Longrightarrow> db_ok (edit_rows retrieval_runs_update P f d)"
  using retrieval_runs.ok_edit [of d P f] unfolding db_ok_def
  by (simp add: edit_rows_def)

lemma db_ok_drop_retrieval_runs [intro]: "db_ok d \<Longrightarrow> db_ok (drop_rows retrieval_runs_update P d)"
  using retrieval_runs.ok_drop [of d P] unfolding db_ok_def
  by (simp add: drop_rows_def)

lemma db_ok_add_retrieval_results [intro]: "db_ok d \<Longrightarrow> (\<And>i. rres_id (mk i) = i) \<Longrightarrow> db_ok (add_row retrieval_results_update mk d)"
  using retrieval_results.ok_add [of d mk] unfolding db_ok_def
  by (simp add: add_row_def)

lemma db_ok_edit_retrieval_results [intro]: "db_ok d \<Longrightarrow> (\<And>r. P r \<Longrightarrow> rres_id (f r) = rres_id r) \<Longrightarrow> db_ok (edit_rows retrieval_results_update P f d)"
  using retrieval_results.ok_edit [of d P f] unfolding db_ok_def
  by (simp add: edit_rows_def)

lemma db_ok_drop_retrieval_results [intro]: "db_ok d \<Longrightarrow> db_ok (drop_rows retrieval_results_update P d)"
  using retrieval_results.ok_drop [of d P] unfolding db_ok_def
  by (simp add: drop_rows_def)

lemma db_ok_add_operational_runs [intro]: "db_ok d \<Longrightarrow> (\<And>i. oprun_id (mk i) = i) \<Longrightarrow> db_ok (add_row operational_runs_update mk d)"
  using operational_runs.ok_add [of d mk] unfolding db_ok_def
  by (simp add: add_row_def)

lemma db_ok_edit_operational_runs [intro]: "db_ok d \<Longrightarrow> (\<And>r. P r \<Longrightarrow> oprun_id (f r) = oprun_id r) \<Longrightarrow> db_ok (edit_rows operational_runs_update P f d)"
  using operational_runs.ok_edit [of d P f] unfolding db_ok_def
  by (simp add: edit_rows_def)

lemma db_ok_drop_operational_runs [intro]: "db_ok d \<Longrightarrow> db_ok (drop_rows operational_runs_update P d)"
  using operational_runs.ok_drop [of d P] unfolding db_ok_def
  by (simp add: drop_rows_def)

lemma db_ok_add_operational_findings [intro]: "db_ok d \<Longrightarrow> (\<And>i. finding_id (mk i) = i) \<Longrightarrow> db_ok (add_row operational_findings_update mk d)"
  using operational_findings.ok_add [of d mk] unfolding db_ok_def
  by (simp add: add_row_def)

lemma db_ok_edit_operational_findings [intro]: "db_ok d \<Longrightarrow> (\<And>r. P r \<Longrightarrow> finding_id (f r) = finding_id r) \<Longrightarrow> db_ok (edit_rows operational_findings_update P f d)"
  using operational_findings.ok_edit [of d P f] unfolding db_ok_def
  by (simp add: edit_rows_def)

lemma db_ok_drop_operational_findings [intro]: "db_ok d \<Longrightarrow> db_ok (drop_rows operational_findings_update P d)"
  using operational_findings.ok_drop [of d P] unfolding db_ok_def
  by (simp add: drop_rows_def)

lemma db_ok_add_operational_events [intro]: "db_ok d \<Longrightarrow> (\<And>i. opev_id (mk i) = i) \<Longrightarrow> db_ok (add_row operational_events_update mk d)"
  using operational_events.ok_add [of d mk] unfolding db_ok_def
  by (simp add: add_row_def)

lemma db_ok_edit_operational_events [intro]: "db_ok d \<Longrightarrow> (\<And>r. P r \<Longrightarrow> opev_id (f r) = opev_id r) \<Longrightarrow> db_ok (edit_rows operational_events_update P f d)"
  using operational_events.ok_edit [of d P f] unfolding db_ok_def
  by (simp add: edit_rows_def)

lemma db_ok_drop_operational_events [intro]: "db_ok d \<Longrightarrow> db_ok (drop_rows operational_events_update P d)"
  using operational_events.ok_drop [of d P] unfolding db_ok_def
  by (simp add: drop_rows_def)

lemma db_ok_add_agent_runs [intro]: "db_ok d \<Longrightarrow> (\<And>i. run_id (mk i) = i) \<Longrightarrow> db_ok (add_row agent_runs_update mk d)"
  using agent_runs.ok_add [of d mk] unfolding db_ok_def
  by (simp add: add_row_def)

lemma db_ok_edit_agent_runs [intro]: "db_ok d \<Longrightarrow> (\<And>r. P r \<Longrightarrow> run_id (f r) = run_id r) \<Longrightarrow> db_ok (edit_rows agent_runs_update P f d)"
  using agent_runs.ok_edit [of d P f] unfolding db_ok_def
  by (simp add: edit_rows_def)

lemma db_ok_drop_agent_runs [intro]: "db_ok d \<Longrightarrow> db_ok (drop_rows agent_runs_update P d)"
  using agent_runs.ok_drop [of d P] unfolding db_ok_def
  by (simp add: drop_rows_def)

lemma db_ok_add_agent_run_events [intro]: "db_ok d \<Longrightarrow> (\<And>i. runev_id (mk i) = i) \<Longrightarrow> db_ok (add_row agent_run_events_update mk d)"
  using agent_run_events.ok_add [of d mk] unfolding db_ok_def
  by (simp add: add_row_def)

lemma db_ok_edit_agent_run_events [intro]: "db_ok d \<Longrightarrow> (\<And>r. P r \<Longrightarrow> runev_id (f r) = runev_id r) \<Longrightarrow> db_ok (edit_rows agent_run_events_update P f d)"
  using agent_run_events.ok_edit [of d P f] unfolding db_ok_def
  by (simp add: edit_rows_def)

lemma db_ok_drop_agent_run_events [intro]: "db_ok d \<Longrightarrow> db_ok (drop_rows agent_run_events_update P d)"
  using agent_run_events.ok_drop [of d P] unfolding db_ok_def
  by (simp add: drop_rows_def)

lemma db_ok_add_approvals [intro]: "db_ok d \<Longrightarrow> (\<And>i. appr_id (mk i) = i) \<Longrightarrow> db_ok (add_row approvals_update mk d)"
  using approvals.ok_add [of d mk] unfolding db_ok_def
  by (simp add: add_row_def)

lemma db_ok_edit_approvals [intro]: "db_ok d \<Longrightarrow> (\<And>r. P r \<Longrightarrow> appr_id (f r) = appr_id r) \<Longrightarrow> db_ok (edit_rows approvals_update P f d)"
  using approvals.ok_edit [of d P f] unfolding db_ok_def
  by (simp add: edit_rows_def)

lemma db_ok_drop_approvals [intro]: "db_ok d \<Longrightarrow> db_ok (drop_rows approvals_update P d)"
  using approvals.ok_drop [of d P] unfolding db_ok_def
  by (simp add: drop_rows_def)

lemma db_ok_add_incident_report_drafts [intro]: "db_ok d \<Longrightarrow> (\<And>i. report_id (mk i) = i) \<Longrightarrow> db_ok (add_row incident_report_drafts_update mk d)"
  using incident_report_drafts.ok_add [of d mk] unfolding db_ok_def
  by (simp add: add_row_def)

lemma db_ok_edit_incident_report_drafts [intro]: "db_ok d \<Longrightarrow> (\<And>r. P r \<Longrightarrow> report_id (f r) = report_id r) \<Longrightarrow> db_ok (edit_rows incident_report_drafts_update P f d)"
  using incident_report_drafts.ok_edit [of d P f] unfolding db_ok_def
  by (simp add: edit_rows_def)

lemma db_ok_drop_incident_report_drafts [intro]: "db_ok d \<Longrightarrow> db_ok (drop_rows incident_report_drafts_update P d)"
  using incident_report_drafts.ok_drop [of d P] unfolding db_ok_def
  by (simp add: drop_rows_def)

lemma db_ok_add_issue_drafts [intro]: "db_ok d \<Longrightarrow> (\<And>i. issue_id (mk i) = i) \<Longrightarrow> db_ok (add_row issue_drafts_update mk d)"
  using issue_drafts.ok_add [of d mk] unfolding db_ok_def
  by (simp add: add_row_def)

lemma db_ok_edit_issue_drafts [intro]: "db_ok d \<Longrightarrow> (\<And>r. P r \<Longrightarrow> issue_id (f r) = issue_id r) \<Longrightarrow> db_ok (edit_rows issue_drafts_update P f d)"
  using issue_drafts.ok_edit [of d P f] unfolding db_ok_def
  by (simp add: edit_rows_def)

lemma db_ok_drop_issue_drafts [intro]: "db_ok d \<Longrightarrow> db_ok (drop_rows issue_drafts_update P d)"
  using issue_drafts.ok_drop [of d P] unfolding db_ok_def
  by (simp add: drop_rows_def)

lemma db_ok_add_eval_runs [intro]: "db_ok d \<Longrightarrow> (\<And>i. eval_id (mk i) = i) \<Longrightarrow> db_ok (add_row eval_runs_update mk d)"
  using eval_runs.ok_add [of d mk] unfolding db_ok_def
  by (simp add: add_row_def)

lemma db_ok_edit_eval_runs [intro]: "db_ok d \<Longrightarrow> (\<And>r. P r \<Longrightarrow> eval_id (f r) = eval_id r) \<Longrightarrow> db_ok (edit_rows eval_runs_update P f d)"
  using eval_runs.ok_edit [of d P f] unfolding db_ok_def
  by (simp add: edit_rows_def)

lemma db_ok_drop_eval_runs [intro]: "db_ok d \<Longrightarrow> db_ok (drop_rows eval_runs_update P d)"
  using eval_runs.ok_drop [of d P] unfolding db_ok_def
  by (simp add: drop_rows_def)

lemma db_ok_add_eval_run_cases [intro]: "db_ok d \<Longrightarrow> (\<And>i. evcase_id (mk i) = i) \<Longrightarrow> db_ok (add_row eval_run_cases_update mk d)"
  using eval_run_cases.ok_add [of d mk] unfolding db_ok_def
  by (simp add: add_row_def)

lemma db_ok_edit_eval_run_cases [intro]: "db_ok d \<Longrightarrow> (\<And>r. P r \<Longrightarrow> evcase_id (f r) = evcase_id r) \<Longrightarrow> db_ok (edit_rows eval_run_cases_update P f d)"
  using eval_run_cases.ok_edit [of d P f] unfolding db_ok_def
  by (simp add: edit_rows_def)

lemma db_ok_drop_eval_run_cases [intro]: "db_ok d \<Longrightarrow> db_ok (drop_rows eval_run_cases_update P d)"
  using eval_run_cases.ok_drop [of d P] unfolding db_ok_def
  by (simp add: drop_rows_def)

lemma db_ok_add_audit_events [intro]: "db_ok d \<Longrightarrow> (\<And>i. audit_id (mk i) = i) \<Longrightarrow> db_ok (add_row audit_events_update mk d)"
  using audit_events.ok_add [of d mk] unfolding db_ok_def
  by (simp add: add_row_def)

lemma db_ok_edit_audit_events [intro]: "db_ok d \<Longrightarrow> (\<And>r. P r \<Longrightarrow> audit_id (f r) = audit_id r) \<Longrightarrow> db_ok (edit_rows audit_events_update P f d)"
  using audit_events.ok_edit [of d P f] unfolding db_ok_def
  by (simp add: edit_rows_def)

lemma db_ok_drop_audit_events [intro]: "db_ok d \<Longrightarrow> db_ok (drop_rows audit_events_update P d)"
  using audit_events.ok_drop [of d P] unfolding db_ok_def
  by (simp add: drop_rows_def)

lemma db_ok_delete_chunks [intro]: "db_ok d \<Longrightarrow> db_ok (delete_chunks P d)"
  unfolding delete_chunks_def Let_def
  by (intro db_ok_drop_retrieval_results db_ok_drop_evidence_relations db_ok_drop_chunks)

lemma db_ok_delete_documents [intro]: "db_ok d \<Longrightarrow> db_ok (delete_documents P d)"
  unfolding delete_documents_def Let_def
  by (intro db_ok_delete_chunks db_ok_drop_documents)

lemma db_ok_delete_syncs [intro]: "db_ok d \<Longrightarrow> db_ok (delete_syncs P d)"
  unfolding delete_syncs_def Let_def
  by (intro db_ok_edit_index_jobs db_ok_drop_source_syncs) simp_all

lemma db_ok_delete_sources [intro]: "db_ok d \<Longrightarrow> db_ok (delete_sources P d)"
  unfolding delete_sources_def Let_def
  by (intro db_ok_drop_index_jobs db_ok_delete_syncs db_ok_edit_chunks db_ok_edit_documents
      db_ok_drop_sources) simp_all

lemma db_ok_empty: "db_ok empty_db"
  by (simp add: db_ok_def empty_db_def keys_ok_def)

text \<open>After deleting chunks no relation and no retrieval result refers to a deleted chunk.\<close>

lemma delete_chunks_tables:
  "chunks (delete_chunks P d) = filter (\<lambda>c. \<not> P c) (chunks d)"
  "evidence_relations (delete_chunks P d) =
     filter (\<lambda>r. \<forall>c \<in> set (chunks d). P c \<longrightarrow> rel_evidence_chunk_id r \<noteq> chunk_id c) (evidence_relations d)"
  "retrieval_results (delete_chunks P d) =
     filter (\<lambda>r. \<forall>c \<in> set (chunks d). P c \<longrightarrow> rres_chunk_id r \<noteq> chunk_id c) (retrieval_results d)"
proof -
  show "chunks (delete_chunks P d) = filter (\<lambda>c. \<not> P c) (chunks d)"
    by (simp add: delete_chunks_def Let_def stmt_defs)
  show "evidence_relations (delete_chunks P d) =
     filter (\<lambda>r. \<forall>c \<in> set (chunks d). P c \<longrightarrow> rel_evidence_chunk_id r \<noteq> chunk_id c) (evidence_relations d)"
    unfolding delete_chunks_def Let_def
    by (simp add: stmt_defs) (rule filter_cong, auto)
  show "retrieval_results (delete_chunks P d) =
     filter (\<lambda>r. \<forall>c \<in> set (chunks d). P c \<longrightarrow> rres_chunk_id r \<noteq> chunk_id c) (retrieval_results d)"
    unfolding delete_chunks_def Let_def
    by (simp add: stmt_defs) (rule filter_cong, auto)
qed

end
