(* ===== verification/Redaction.thy ===== *)
theory Redaction
  imports Regex
begin

text \<open>
  What keeps secrets out of stored and returned data:
  \<^verbatim>\<open>incidentops/security/secret_redaction.py\<close>, \<^verbatim>\<open>output_sanitizer.py\<close>, \<^verbatim>\<open>prompt_injection.py\<close>,
  \<^verbatim>\<open>source_config.py\<close>, \<^verbatim>\<open>sanitize_audit_metadata\<close> of \<^verbatim>\<open>audit.py\<close>, and the Collector's
  \<^verbatim>\<open>incidentops/collector/redaction.py\<close>. The regular expressions are the sources', written
  with the constructors of \<open>Regex\<close>.
\<close>

section \<open>Patterns\<close>

definition k_token :: "char \<Rightarrow> bool" where    \<comment> \<open>\<open>[a-zA-Z0-9_-]\<close>\<close>
  "k_token c \<longleftrightarrow> c_alnum c \<or> c_in ''_-'' c"

definition k_token_dot :: "char \<Rightarrow> bool" where    \<comment> \<open>\<open>[a-zA-Z0-9_.-]\<close>\<close>
  "k_token_dot c \<longleftrightarrow> c_alnum c \<or> c_in ''_-.'' c"

definition k_under :: "char \<Rightarrow> bool" where    \<comment> \<open>\<open>[a-zA-Z0-9_]\<close>\<close>
  "k_under c \<longleftrightarrow> c_alnum c \<or> c = CHR ''_''"

definition k_key_id :: "char \<Rightarrow> bool" where    \<comment> \<open>\<open>[0-9A-Z]\<close>\<close>
  "k_key_id c \<longleftrightarrow> is_digit c \<or> c_upper c"

definition k_quote :: "char \<Rightarrow> bool" where
  "k_quote c \<longleftrightarrow> c = CHR 0x27 \<or> c = CHR 0x22"

definition rx_spaces1 :: rx where
  "rx_spaces1 = rx_plus (RSet is_space)"

definition rx_spaces :: rx where
  "rx_spaces = rx_star (RSet is_space)"

definition rx_edged :: "rx \<Rightarrow> rx" where
  "rx_edged r = rx_seq [RWordEdge, r, RWordEdge]"

definition rx_jwt :: rx where
  "rx_jwt = rx_seq [rx_lit ''eyJ'', rx_at_least 10 (RSet k_token), rx_lit ''.eyJ'', rx_at_least 10 (RSet k_token),
     rx_lit ''.'', rx_at_least 10 (RSet k_token)]"

definition rx_cloud_key :: rx where
  "rx_cloud_key = rx_edged (rx_seq [rx_lit ''AKIA'', rx_times 16 16 (RSet k_key_id)])"

definition rx_private_key :: rx where
  "rx_private_key = rx_seq
     [rx_lit ''-----BEGIN'', rx_spaces1, rx_opt (rx_seq [rx_lit ''RSA'', rx_spaces1]), rx_lit ''PRIVATE KEY-----'',
      rx_star_lazy rx_any,
      rx_lit ''-----END'', rx_spaces1, rx_opt (rx_seq [rx_lit ''RSA'', rx_spaces1]), rx_lit ''PRIVATE KEY-----'']"

text \<open>Pattern and replacement pairs; the replacement refers to the groups of the match.\<close>

definition secret_patterns :: "(rx \<times> (rx_match \<Rightarrow> string)) list" where
  "secret_patterns =
    [(rx_edged (rx_seq [rx_lit ''sk-'', rx_at_least 20 (RSet k_token)]), \<lambda>_. ''[REDACTED_API_KEY]''),
     (rx_edged (rx_seq [rx_lit ''ghp_'', rx_at_least 20 (RSet k_under)]), \<lambda>_. ''[REDACTED_GITHUB_TOKEN]''),
     (rx_edged (rx_seq [rx_lit ''github_pat_'', rx_at_least 20 (RSet k_under)]), \<lambda>_. ''[REDACTED_GITHUB_TOKEN]''),
     (rx_cloud_key, \<lambda>_. ''[REDACTED_CLOUD_ACCESS_KEY]''),
     (rx_seq [RWordEdge,
        RGroup 1 (rx_seq [rx_lit_ci ''api'', rx_opt (RSet (c_in ''_-'')), rx_lit_ci ''key'', rx_spaces,
                          RSet (c_in '':=''), rx_spaces, rx_opt (RSet k_quote)]),
        RGroup 2 (rx_at_least 16 (RSet k_token)), RGroup 3 (rx_opt (RSet k_quote))],
      \<lambda>m. group_text m 1 @ ''[REDACTED_API_KEY]'' @ group_text m 3),
     (rx_seq [RGroup 1 (rx_seq [rx_lit_ci ''Bearer'', rx_spaces1]), RGroup 2 (rx_at_least 20 (RSet k_token_dot))],
      \<lambda>m. group_text m 1 @ ''[REDACTED_TOKEN]''),
     (rx_edged rx_jwt, \<lambda>_. ''[REDACTED_JWT]''),
     (rx_seq [RGroup 1 (rx_seq [rx_lit_ci ''password'', rx_spaces, RSet (c_in '':=''), rx_spaces, rx_opt (RSet k_quote)]),
        RGroup 2 (rx_at_least 8 (RSet (\<lambda>c. \<not> is_space c \<and> \<not> k_quote c))), RGroup 3 (rx_opt (RSet k_quote))],
      \<lambda>m. group_text m 1 @ ''[REDACTED_PASSWORD]'' @ group_text m 3),
     (rx_private_key, \<lambda>_. ''[REDACTED_PRIVATE_KEY]'')]"

definition redact_secrets :: "string \<Rightarrow> string" where
  "redact_secrets text = fold (\<lambda>(pat, repl) result. re_sub pat repl result) secret_patterns text"

definition rx_script :: rx where
  "rx_script = rx_seq [rx_lit_ci ''<script'', rx_star_lazy rx_any, rx_lit_ci ''</script>'']"

definition sanitize_output :: "string \<Rightarrow> string" where
  "sanitize_output text = redact_secrets (re_sub rx_script (\<lambda>_. ''[REMOVED_SCRIPT]'') text)"

text \<open>Suspicious phrases in untrusted text.\<close>

definition suspicious_patterns :: "string list" where
  "suspicious_patterns =
     [''ignore previous instructions'', ''system prompt'', ''call tool'', ''exfiltrat'', ''run this command'']"

definition inspect_untrusted_text :: "string \<Rightarrow> bool \<times> string list" where
  "inspect_untrusted_text text =
     (let matches = filter (\<lambda>p. re_search (rx_lit_ci p) text \<noteq> None) suspicious_patterns
      in (matches \<noteq> [], matches))"

text \<open>The Collector's redaction: labelled placeholders and a count of the replacements.\<close>

definition collector_patterns :: "(string \<times> rx) list" where
  "collector_patterns =
    [(''openai_key'', rx_edged (rx_seq [rx_lit ''sk-'', rx_at_least 20 (RSet k_token)])),
     (''github_token'', rx_edged (rx_seq [rx_alt [rx_lit ''ghp'', rx_lit ''github_pat''], rx_lit ''_'', rx_at_least 20 (RSet k_under)])),
     (''cloud_access_key'', rx_cloud_key),
     (''private_key'', rx_seq [rx_lit ''-----BEGIN '', rx_opt (rx_lit ''RSA ''), rx_lit ''PRIVATE KEY-----'',
        rx_star_lazy rx_any, rx_lit ''-----END '', rx_opt (rx_lit ''RSA ''), rx_lit ''PRIVATE KEY-----''])]"

definition redact_step :: "string \<times> rx \<Rightarrow> string \<times> nat \<Rightarrow> string \<times> nat" where
  "redact_step = (\<lambda>(label, pat) (text, count).
     (re_sub pat (\<lambda>_. ''[REDACTED:'' @ label @ '']'') text, count + length (re_findall pat text)))"

definition redact :: "string \<Rightarrow> string \<times> nat" where
  "redact text = fold redact_step collector_patterns (text, 0)"

section \<open>Sensitive keys\<close>

definition sensitive_key_tokens :: "string list" where
  "sensitive_key_tokens =
     [''password'', ''passwd'', ''secret'', ''token'', ''api_key'', ''apikey'', ''private_key'', ''client_secret'',
      ''access_key'', ''refresh_token'', ''bearer'', ''credential'']"

definition normalize_key :: "string \<Rightarrow> string" where
  "normalize_key k = replace_char CHR ''-'' CHR ''_'' (py_lower k)"

definition sensitive_key :: "string \<Rightarrow> bool" where
  "sensitive_key k = any_in sensitive_key_tokens (normalize_key k)"

fun sanitize_audit_metadata :: "json \<Rightarrow> json" where
  "sanitize_audit_metadata (JObj d) =
     JObj (map (\<lambda>(k, v). (k, if sensitive_key k then JStr ''[REDACTED]'' else sanitize_audit_metadata v)) d)"
| "sanitize_audit_metadata (JList xs) = JList (map sanitize_audit_metadata xs)"
| "sanitize_audit_metadata (JStr s) = JStr (redact_secrets s)"
| "sanitize_audit_metadata v = v"

section \<open>Secrets in source configurations\<close>

definition secret_value_patterns :: "rx list" where
  "secret_value_patterns =
    [rx_edged (rx_seq [rx_lit ''sk-'', rx_at_least 20 (RSet c_alnum)]),
     rx_edged (rx_seq [rx_lit ''ghp_'', rx_at_least 20 (RSet k_under)]),
     rx_edged (rx_seq [rx_lit ''github_pat_'', rx_at_least 20 (RSet k_under)]),
     rx_cloud_key,
     rx_seq [rx_lit_ci ''-----BEGIN'', rx_spaces1,
        rx_opt (rx_alt [rx_seq [rx_lit_ci ''RSA'', rx_spaces1], rx_seq [rx_lit_ci ''EC'', rx_spaces1],
                        rx_seq [rx_lit_ci ''OPENSSH'', rx_spaces1]]), rx_lit_ci ''PRIVATE KEY-----''],
     rx_edged (rx_seq [rx_lit_ci ''Bearer'', rx_spaces1, rx_at_least 20 (RSet k_token_dot)]),
     rx_edged rx_jwt]"

definition looks_like_secret :: "string \<Rightarrow> bool" where
  "looks_like_secret v = list_ex (\<lambda>p. re_search p v \<noteq> None) secret_value_patterns"

definition disallowed_config_key :: "string \<Rightarrow> bool" where
  "disallowed_config_key k = (let n = normalize_key k in
     n \<notin> set [''credentials_ref''] \<and> any_in sensitive_key_tokens n)"

fun walk_config :: "json \<Rightarrow> string list \<Rightarrow> string list"
  and walk_items :: "(string \<times> json) list \<Rightarrow> string list \<Rightarrow> string list"
  and walk_elems :: "json list \<Rightarrow> nat \<Rightarrow> string list \<Rightarrow> string list" where
  "walk_config (JObj d) path = walk_items d path"
| "walk_config (JList xs) path = walk_elems xs 0 path"
| "walk_config (JStr s) path =
     (if looks_like_secret s then
        [(if path \<noteq> [] then join_with ''.'' path else ''config'') @ '' contains secret-like value'']
      else [])"
| "walk_config _ path = []"
| "walk_items [] path = []"
| "walk_items ((k, v) # d) path =
     (if disallowed_config_key k then [join_with ''.'' (path @ [k]) @ '' contains a credential-like key'']
      else walk_config v (path @ [k])) @ walk_items d path"
| "walk_elems [] i path = []"
| "walk_elems (x # xs) i path = walk_config x (path @ [digits_of i]) @ walk_elems xs (i + 1) path"

definition find_source_config_secret_violations :: "json dict \<Rightarrow> string list" where
  "find_source_config_secret_violations config = walk_config (JObj config) []"

section \<open>Reaching into a value\<close>

text \<open>A step of a path goes to the value of a key of an object or to an element of a list.\<close>

datatype json_step = Key string | Elem nat

fun json_step_to :: "json \<Rightarrow> json_step \<Rightarrow> json \<Rightarrow> bool" where
  "json_step_to (JObj d) (Key k) v = ((k, v) \<in> set d)"
| "json_step_to (JList xs) (Elem i) v = (i < length xs \<and> xs ! i = v)"
| "json_step_to _ _ _ = False"

inductive json_reach :: "json \<Rightarrow> json_step list \<Rightarrow> json \<Rightarrow> bool" where
  here: "json_reach v [] v"
| there: "json_step_to v s u \<Longrightarrow> json_reach u p w \<Longrightarrow> json_reach v (s # p) w"

inductive_cases json_reach_NilE: "json_reach v [] w"
inductive_cases json_reach_ConsE: "json_reach v (s # p) w"

lemma json_step_to_sanitized:
  assumes "json_step_to (sanitize_audit_metadata v) s u"
  shows "(\<exists>k. s = Key k \<and> sensitive_key k \<and> u = JStr ''[REDACTED]'') \<or>
    (\<exists>w. json_step_to v s w \<and> u = sanitize_audit_metadata w \<and> (\<forall>k. s = Key k \<longrightarrow> \<not> sensitive_key k))"
proof (cases v)
  case (JObj d)
  with assms obtain k w where "s = Key k" "(k, w) \<in> set d"
    "u = (if sensitive_key k then JStr ''[REDACTED]'' else sanitize_audit_metadata w)"
    by (cases s) auto
  with JObj show ?thesis by (cases "sensitive_key k") auto
next
  case (JList xs)
  with assms obtain i where "s = Elem i" "i < length xs" "u = sanitize_audit_metadata (xs ! i)"
    by (cases s) auto
  with JList show ?thesis by auto
qed (use assms in auto)

lemma reach_string: "json_reach (JStr s) p v \<Longrightarrow> p = [] \<and> v = JStr s"
  by (cases p) (auto elim: json_reach_NilE json_reach_ConsE)

lemma redacted_text: "re_search r ''[REDACTED]'' = None \<Longrightarrow> re_sub r f ''[REDACTED]'' = ''[REDACTED]''"
  by (rule re_sub_no_match)



text \<open>
  A configuration without violations holds no secret-like string and no credential-like key, at
  any depth (\<open>credentials_ref\<close> is the one exception for keys).
\<close>

lemma walk_elems_Nil: "walk_elems xs i path = [] \<Longrightarrow> j < length xs \<Longrightarrow> walk_config (xs ! j) (path @ [digits_of (i + j)]) = []"
proof (induction xs arbitrary: i j)
  case Nil
  then show ?case by simp
next
  case (Cons x xs)
  show ?case
  proof (cases j)
    case 0
    with Cons.prems show ?thesis by simp
  next
    case (Suc j')
    with Cons.prems Cons.IH [of "i + 1" j'] show ?thesis by simp
  qed
qed

lemma walk_items_Nil:
  "walk_items d path = [] \<Longrightarrow> (k, v) \<in> set d \<Longrightarrow> \<not> disallowed_config_key k \<and> walk_config v (path @ [k]) = []"
  by (induction d) (auto split: if_splits)

lemma walk_config_step:
  assumes "walk_config v path = []" and "json_step_to v s u"
  shows "\<exists>path'. walk_config u path' = [] \<and> (\<forall>k. s = Key k \<longrightarrow> \<not> disallowed_config_key k)"
proof (cases v)
  case (JObj d)
  with assms obtain k where "s = Key k" "(k, u) \<in> set d" by (cases s) auto
  with JObj assms(1) walk_items_Nil [of d path k u] show ?thesis by auto
next
  case (JList xs)
  with assms obtain i where "s = Elem i" "i < length xs" "xs ! i = u" by (cases s) auto
  with JList assms(1) walk_elems_Nil [of xs 0 path i] show ?thesis by auto
qed (use assms in auto)

text \<open>
  A source configuration that Core accepts holds no secret: no key on the way to any value names
  a credential (\<open>credentials_ref\<close> apart), and no string at any depth looks like a secret.
\<close>

theorem accepted_config_has_no_secret:
  assumes "find_source_config_secret_violations config = []"
    and "json_reach (JObj config) p v"
  shows "(\<forall>k. Key k \<in> set p \<longrightarrow> \<not> disallowed_config_key k) \<and> (\<forall>s. v = JStr s \<longrightarrow> \<not> looks_like_secret s)"
proof -
  have "walk_config u path = [] \<Longrightarrow> json_reach u p v \<Longrightarrow>
      (\<forall>k. Key k \<in> set p \<longrightarrow> \<not> disallowed_config_key k) \<and> (\<forall>s. v = JStr s \<longrightarrow> \<not> looks_like_secret s)"
    for u path
  proof (induction p arbitrary: u path)
    case Nil
    then show ?case by (auto elim!: json_reach_NilE split: if_splits)
  next
    case (Cons s p)
    from Cons.prems(2) obtain w where w: "json_step_to u s w" "json_reach w p v"
      by (auto elim: json_reach_ConsE)
    from walk_config_step [OF Cons.prems(1) w(1)] Cons.IH w(2) show ?case by fastforce
  qed
  with assms show ?thesis unfolding find_source_config_secret_violations_def by blast
qed

theorem accepted_config_has_no_secret_witness:
  "find_source_config_secret_violations [(''credentials_ref'', JStr ''kv://x''), (''paths'', JList [JStr ''src''])] = []
   \<and> \<not> looks_like_secret ''src''"
proof -
  let ?c = "[(''credentials_ref'', JStr ''kv://x''), (''paths'', JList [JStr ''src''])]"
  have ok: "find_source_config_secret_violations ?c = []" by code_simp
  have "json_reach (JObj ?c) [Key ''paths'', Elem 0] (JStr ''src'')"
    by (auto intro!: json_reach.intros)
  from accepted_config_has_no_secret [OF ok this] ok show ?thesis by simp
qed

section \<open>The Collector's redaction\<close>

lemma redact_fold_mono: "m \<le> snd (fold redact_step qs (u, m))"
proof (induction qs arbitrary: u m)
  case Nil
  then show ?case by simp
next
  case (Cons q qs)
  obtain label pat where q: "q = (label, pat)" by (cases q)
  have "m \<le> m + length (re_findall pat u)" by simp
  also have "\<dots> \<le> snd (fold redact_step (q # qs) (u, m))"
    using Cons.IH [of "m + length (re_findall pat u)"] by (simp add: q redact_step_def)
  finally show ?case .
qed

lemma redact_fold_count:
  "snd (fold redact_step ps (src, n)) = n \<Longrightarrow> fst (fold redact_step ps (src, n)) = src"
proof (induction ps arbitrary: src n)
  case Nil
  then show ?case by simp
next
  case (Cons lp ps)
  obtain label pat where lp: "lp = (label, pat)" by (cases lp)
  let ?t = "re_sub pat (\<lambda>_. ''[REDACTED:'' @ label @ '']'') src"
  let ?m = "n + length (re_findall pat src)"
  have eq: "fold redact_step (lp # ps) (src, n) = fold redact_step ps (?t, ?m)"
    by (simp add: lp redact_step_def)
  with Cons.prems redact_fold_mono [of ?m ps ?t] have "length (re_findall pat src) = 0" by simp
  then have hits: "hits (re_pieces pat src) = []" by (simp add: re_findall_def)
  have "re_sub pat f src = re_sub pat m_text src" for f
  proof -
    have "concat (map (piece_out f) qs) = concat (map (piece_out m_text) qs)" if "hits qs = []" for qs
      using that by (induction qs rule: hits.induct) auto
    with hits show ?thesis by (simp add: re_sub_def)
  qed
  then have "?t = src" by (simp add: re_sub_identity)
  with eq Cons \<open>length (re_findall pat src) = 0\<close> show ?case by simp
qed

text \<open>
  The Collector's redaction count is honest: a document is sent with count zero only when nothing
  in it was replaced.
\<close>

theorem redact_count_zero_unchanged:
  assumes "redact src = (src', 0)"
  shows "src' = src"
  using redact_fold_count [of collector_patterns src 0] assms by (simp add: redact_def)

theorem redact_count_zero_unchanged_witness:
  "redact ''db = pg'' = (''db = pg'', 0) \<and> (''db = pg'' :: string) = ''db = pg''"
proof -
  have "redact ''db = pg'' = (''db = pg'', 0)" by code_simp
  with redact_count_zero_unchanged [OF this] show ?thesis by simp
qed

end
