(* ===== verification/RateLimit.thy ===== *)
theory RateLimit
  imports Prelude
begin

text \<open>
  \<^verbatim>\<open>incidentops/security/rate_limit.py\<close>: the sliding-window limiters. The in-memory one keeps the
  times of the accepted calls of each key; the Redis one issues a pipeline of sorted-set commands,
  which are parameters here. Times are rationals (seconds).
\<close>

section \<open>The limiters\<close>

type_synonym rate_events = "string \<Rightarrow> rat list"
type_synonym 's check = "string \<Rightarrow> int \<Rightarrow> int \<Rightarrow> rat \<Rightarrow> 's \<Rightarrow> unit result \<times> 's"

definition no_events :: rate_events where
  "no_events = (\<lambda>_. [])"

definition rate_limited :: py_exn where
  "rate_limited = HTTPException 429 ''Rate limit exceeded''"

definition memory_check :: "rate_events check" where
  "memory_check key limit window now ev =
     (let bucket = dropWhile (\<lambda>t. t \<le> now - of_int window) (ev key) in
      if int (length bucket) \<ge> limit then (Inl rate_limited, ev(key := bucket))
      else (Inr (), ev(key := bucket @ [now])))"

text \<open>
  The commands of the Redis pipeline on a store \<open>'z\<close>: remove a range of scores, count, add a
  member with a score, set the time to live. \<open>str_of\<close> is the text of a time, the member's name.
\<close>

record 'z zset_ops =
  zremrangebyscore :: "string \<Rightarrow> rat \<Rightarrow> rat \<Rightarrow> 'z \<Rightarrow> 'z"
  zcard :: "string \<Rightarrow> 'z \<Rightarrow> int"
  zadd :: "string \<Rightarrow> string \<Rightarrow> rat \<Rightarrow> 'z \<Rightarrow> 'z"
  expire_in :: "string \<Rightarrow> int \<Rightarrow> 'z \<Rightarrow> 'z"

definition redis_check :: "'z zset_ops \<Rightarrow> (rat \<Rightarrow> string) \<Rightarrow> 'z check" where
  "redis_check ops str_of key limit window now z =
     (let redis_key = ''incidentops:rate:'' @ key;
          z1 = zremrangebyscore ops redis_key 0 (now - of_int window) z;
          count = zcard ops redis_key z1;
          z2 = zadd ops redis_key (str_of now) now z1;
          z3 = expire_in ops redis_key window z2
      in if count \<ge> limit then (Inl rate_limited, z3) else (Inr (), z3))"

section \<open>What a limiter promises\<close>

text \<open>The times at which the calls for a key were let through, in a sequence of calls.\<close>

fun accepted_by :: "'s check \<Rightarrow> string \<Rightarrow> (string \<times> int \<times> int \<times> rat) list \<Rightarrow> 's \<Rightarrow> rat list" where
  "accepted_by chk k [] s = []"
| "accepted_by chk k ((k', l, w, t) # cs) s = (case chk k' l w t s of (r, s') \<Rightarrow>
     (if k' = k \<and> r = Inr () then [t] else []) @ accepted_by chk k cs s')"

definition in_window :: "int \<Rightarrow> rat \<Rightarrow> rat list \<Rightarrow> rat list" where
  "in_window w t ts = filter (\<lambda>a. t - of_int w < a \<and> a \<le> t) ts"

definition call_time :: "string \<times> int \<times> int \<times> rat \<Rightarrow> rat" where
  "call_time c = snd (snd (snd c))"

text \<open>
  The contract: a call is decided by the number of accepted calls of its key inside the window, and
  an accepted call is remembered.
\<close>

locale rate_limiter =
  fixes check :: "'s check"
    and log :: "'s \<Rightarrow> string \<Rightarrow> rat list"
  assumes decide: "sorted (log s k) \<Longrightarrow>
      (let recent = filter (\<lambda>x. t - of_int w < x) (log s k); (r, s') = check k l w t s in
         if int (length recent) < l then r = Inr () \<and> log s' k = recent @ [t]
         else r = Inl rate_limited \<and> log s' k = recent)"
    and other_key: "k' \<noteq> k \<Longrightarrow> log (snd (check k l w t s)) k' = log s k'"
begin

lemma empty_window: "w \<le> 0 \<Longrightarrow> in_window w \<tau> ts = []"
proof -
  assume "w \<le> 0"
  then have "of_int w \<le> (0 :: rat)" by simp
  then have "\<not> (\<tau> - of_int w < a \<and> a \<le> \<tau>)" for a by linarith
  then show ?thesis by (simp add: in_window_def)
qed

lemma accepted_bounded:
  assumes "log s k = filter (\<lambda>x. c < x) A" and "sorted A" and "\<forall>a \<in> set A. a \<le> t0"
    and "c \<le> t0 - of_int w" and "0 \<le> l"
    and "\<forall>\<tau>. int (length (in_window w \<tau> A)) \<le> l"
    and "sorted (map call_time cs)" and "\<forall>x \<in> set cs. t0 \<le> call_time x"
    and "\<forall>l' w' t. (k, l', w', t) \<in> set cs \<longrightarrow> l' = l \<and> w' = w"
  shows "int (length (in_window w \<tau> (A @ accepted_by check k cs s))) \<le> l"
  using assms
proof (induction cs arbitrary: s A c t0)
  case Nil
  then show ?case by simp
next
  case (Cons x cs)
  obtain k' l' w' t where x: "x = (k', l', w', t)" by (cases x)
  obtain r s' where r: "check k' l' w' t s = (r, s')" by fastforce
  from Cons.prems(8) x have t: "t0 \<le> t" by (simp add: call_time_def)
  from Cons.prems(7) x have later: "\<forall>y \<in> set cs. t \<le> call_time y" by (simp add: call_time_def)
  show ?case
  proof (cases "k' = k")
    case False
    then have "log s' k = log s k" using other_key [of k k' l' w' t s] r by simp
    with Cons.prems t later have "int (length (in_window w \<tau> (A @ accepted_by check k cs s'))) \<le> l"
      by (intro Cons.IH [of s' c A t0]) (auto simp: x)
    with False x r show ?thesis by simp
  next
    case True
    with Cons.prems(9) x have lw: "l' = l" "w' = w" by auto
    let ?recent = "filter (\<lambda>y. t - of_int w < y) A"
    have recent: "filter (\<lambda>y. t - of_int w < y) (log s k) = ?recent"
      using Cons.prems(1,4) t by (simp) (rule filter_cong, auto)
    have "sorted (log s k)" using Cons.prems(1,2) by (simp add: sorted_wrt_filter)
    from decide [OF this, of t w l] True lw r recent
    have d: "if int (length ?recent) < l then r = Inr () \<and> log s' k = ?recent @ [t]
             else r = Inl rate_limited \<and> log s' k = ?recent"
      by (simp add: Let_def)
    show ?thesis
    proof (cases "int (length ?recent) < l")
      case False
      with d have rej: "r = Inl rate_limited" "log s' k = ?recent" by auto
      have "int (length (in_window w \<tau> (A @ accepted_by check k cs s'))) \<le> l"
        using Cons.prems t later rej x by (intro Cons.IH [of s' "t - of_int w" A t]) auto
      with True x r rej show ?thesis by simp
    next
      case acc: True
      with d have acc': "r = Inr ()" "log s' k = ?recent @ [t]" by auto
      let ?B = "A @ [t]"
      have bound: "int (length (in_window w \<sigma> ?B)) \<le> l" for \<sigma>
      proof (cases "\<sigma> < t")
        case True
        then have "in_window w \<sigma> ?B = in_window w \<sigma> A" by (simp add: in_window_def)
        with Cons.prems(6) show ?thesis by simp
      next
        case False
        have "length (in_window w \<sigma> A) \<le> length ?recent"
        proof -
          have "in_window w \<sigma> A = filter (\<lambda>a. a \<le> \<sigma> \<and> \<sigma> - of_int w < a) ?recent"
            using False by (auto simp: in_window_def intro: filter_cong)
          then show ?thesis by (simp only: length_filter_le)
        qed
        moreover have "length (in_window w \<sigma> ?B) \<le> length (in_window w \<sigma> A) + 1"
          by (simp add: in_window_def)
        ultimately show ?thesis using acc by linarith
      qed
      consider "0 < w" | "w \<le> 0" by linarith
      then show ?thesis
      proof cases
        case 1
        then have "log s' k = filter (\<lambda>y. t - of_int w < y) ?B" using acc' by simp
        then have "int (length (in_window w \<tau> (?B @ accepted_by check k cs s'))) \<le> l"
          using Cons.prems t later x bound by (intro Cons.IH [of s' "t - of_int w" ?B t]) (auto simp: sorted_append)
        with True x r acc' show ?thesis by simp
      next
        case 2
        then have "in_window w \<tau> ts = []" for ts by (rule empty_window)
        with Cons.prems(5) show ?thesis by simp
      qed
    qed
  qed
qed

lemma window_bound:
  assumes "log s k = []" and "0 \<le> l" and "sorted (map call_time cs)"
    and "\<forall>l' w' t. (k, l', w', t) \<in> set cs \<longrightarrow> l' = l \<and> w' = w"
  shows "int (length (in_window w \<tau> (accepted_by check k cs s))) \<le> l"
proof (cases cs)
  case Nil
  with assms(2) show ?thesis by (simp add: in_window_def)
next
  case (Cons x xs)
  have "\<forall>y \<in> set cs. call_time x \<le> call_time y" using assms(3) Cons by auto
  with assms have "int (length (in_window w \<tau> ([] @ accepted_by check k cs s))) \<le> l"
    by (intro accepted_bounded [of s k "call_time x - of_int w" "[]" "call_time x"]) (auto simp: in_window_def)
  then show ?thesis by simp
qed

end

section \<open>The in-memory limiter keeps the contract\<close>

lemma dropWhile_le_filter: "sorted xs \<Longrightarrow> dropWhile (\<lambda>t. t \<le> (c :: rat)) xs = filter (\<lambda>t. c < t) xs"
proof (induction xs)
  case Nil
  then show ?case by simp
next
  case (Cons x xs)
  show ?case
  proof (cases "x \<le> c")
    case True
    with Cons show ?thesis by simp
  next
    case False
    with Cons.prems have "\<forall>y \<in> set (x # xs). c < y" by auto
    then have "filter (\<lambda>t. c < t) (x # xs) = x # xs" by (simp only: filter_True)
    with False show ?thesis by simp
  qed
qed

interpretation memory: rate_limiter memory_check "\<lambda>ev. ev"
proof
  fix s :: rate_events and k :: string and t :: rat and w l :: int
  assume "sorted (s k)"
  then show "let recent = filter (\<lambda>x. t - of_int w < x) (s k); (r, s') = memory_check k l w t s in
         if int (length recent) < l then r = Inr () \<and> s' k = recent @ [t]
         else r = Inl rate_limited \<and> s' k = recent"
    by (simp add: memory_check_def dropWhile_le_filter Let_def)
next
  fix k' k :: string and l w :: int and t :: rat and s :: rate_events
  assume "k' \<noteq> k"
  then show "snd (memory_check k l w t s) k' = s k'" by (simp add: memory_check_def Let_def)
qed

text \<open>
  The in-memory limiter is a true sliding-window limit: whatever the sequence of calls (of this
  and other keys, in order of time), at most \<open>limit\<close> calls of a key are let through inside any window of
  the given length, wherever the window is put.
\<close>

theorem memory_window_limit:
  assumes "0 \<le> limit" and "sorted (map call_time calls)"
    and "\<forall>l' w' t. (key, l', w', t) \<in> set calls \<longrightarrow> l' = limit \<and> w' = window"
  shows "int (length (in_window window \<tau> (accepted_by memory_check key calls no_events))) \<le> limit"
  using memory.window_bound [of no_events key limit calls window \<tau>] assms by (simp add: no_events_def)

theorem memory_window_limit_witness:
  "accepted_by memory_check ''u'' [(''u'', 2, 60, 1), (''u'', 2, 60, 5), (''v'', 9, 60, 6), (''u'', 2, 60, 7), (''u'', 2, 60, 62)] no_events = [1, 5, 62]
   \<and> int (length (in_window 60 62 [1, 5, 62])) \<le> 2"
proof -
  let ?calls = "[(''u'', 2, 60, 1), (''u'', 2, 60, 5), (''v'', 9, 60, 6), (''u'', 2, 60, 7), (''u'', 2, 60, 62)]"
  have run: "accepted_by memory_check ''u'' ?calls no_events = [1, 5, 62]"
    by (simp add: memory_check_def no_events_def Let_def)
  have "int (length (in_window 60 62 (accepted_by memory_check ''u'' ?calls no_events))) \<le> 2"
    by (rule memory_window_limit) (auto simp: call_time_def)
  with run show ?thesis by simp
qed

end
