(* ===== verification/Access.thy ===== *)
theory Access
  imports Models Settings Redaction RateLimit
begin

text \<open>
  Who may do what: the audit trail (\<^verbatim>\<open>incidentops/security/audit.py\<close>), project roles
  (\<^verbatim>\<open>permission_policy.py\<close>, \<^verbatim>\<open>rbac.py\<close>), passwords and tokens (\<^verbatim>\<open>passwords.py\<close>, \<^verbatim>\<open>auth.py\<close>), the
  request dependencies (\<^verbatim>\<open>apps/api/deps.py\<close>), the login route and the administrator's bootstrap.
  The bcrypt, SHA-256 and JWT libraries are parameters; the verdict of the rate limiter
  (theory \<open>RateLimit\<close>) is an argument of the handlers that ask for it. A database statement does
  not fail here, so the branch of \<open>record_audit_event\<close> that logs such a failure is not taken.
\<close>

section \<open>Audit events\<close>

record request_info =
  req_client_host :: "string option"
  req_forwarded_for :: "string option"
  req_user_agent :: "string option"

definition ip_address :: "request_info option \<Rightarrow> string option" where
  "ip_address r = (case r of None \<Rightarrow> None | Some q \<Rightarrow>
     (case req_client_host q of None \<Rightarrow> None | Some h \<Rightarrow>
       (case req_forwarded_for q of
          Some f \<Rightarrow> if f \<noteq> [] then Some (py_strip (hd (split_on CHR '','' f))) else Some h
        | None \<Rightarrow> Some h)))"

text \<open>The keyword arguments of \<open>record_audit_event\<close> with their defaults.\<close>

record audit_args =
  aa_project_id :: "uid option"
  aa_user :: "user_row option"
  aa_user_id :: "uid option"
  aa_actor_email :: "string option"
  aa_resource_type :: "string option"
  aa_resource_id :: "string option"
  aa_request :: "request_info option"
  aa_metadata :: "json dict"
  aa_commit :: bool

definition audit_defaults :: audit_args where
  "audit_defaults = \<lparr>aa_project_id = None, aa_user = None, aa_user_id = None, aa_actor_email = None,
     aa_resource_type = None, aa_resource_id = None, aa_request = None, aa_metadata = [], aa_commit = False\<rparr>"

definition obj_entries :: "json \<Rightarrow> json dict" where
  "obj_entries v = (case v of JObj d \<Rightarrow> d | _ \<Rightarrow> [])"

definition audit_row :: "time \<Rightarrow> string \<Rightarrow> string \<Rightarrow> audit_args \<Rightarrow> uid \<Rightarrow> audit_event" where
  "audit_row now action status a i = \<lparr>
     audit_id = i, audit_project_id = aa_project_id a,
     audit_user_id = (case aa_user a of Some u \<Rightarrow> Some (user_id u) | None \<Rightarrow> aa_user_id a),
     audit_actor_email = (case aa_actor_email a of
        Some e \<Rightarrow> if e \<noteq> [] then Some e else map_option user_email (aa_user a)
      | None \<Rightarrow> map_option user_email (aa_user a)),
     audit_action = action, audit_resource_type = aa_resource_type a, audit_resource_id = aa_resource_id a,
     audit_status = status, audit_ip_address = ip_address (aa_request a),
     audit_user_agent = (case aa_request a of None \<Rightarrow> None | Some q \<Rightarrow> req_user_agent q),
     audit_metadata_json = Some (obj_entries (sanitize_audit_metadata (JObj (aa_metadata a)))),
     audit_created_at = now\<rparr>"

definition record_audit_event :: "time \<Rightarrow> string \<Rightarrow> string \<Rightarrow> audit_args \<Rightarrow> (db, unit) act" where
  "record_audit_event now action status a =
     then_act (change (add_row audit_events_update (audit_row now action status a)))
       (when_act (aa_commit a) commit)"

definition record_login_event ::
  "time \<Rightarrow> string \<Rightarrow> bool \<Rightarrow> request_info option \<Rightarrow> user_row option \<Rightarrow> string option \<Rightarrow> bool \<Rightarrow> (db, unit) act" where
  "record_login_event now email success request user reason do_commit =
     record_audit_event now (if success then ''login_success'' else ''login_failed'')
       (if success then ''success'' else ''failure'')
       (audit_defaults\<lparr>aa_user := user, aa_actor_email := Some email, aa_request := request,
          aa_metadata := (case reason of Some r \<Rightarrow> if r \<noteq> [] then [(''reason'', JStr r)] else [] | None \<Rightarrow> []),
          aa_commit := do_commit\<rparr>)"

definition record_permission_denied ::
  "time \<Rightarrow> uid option \<Rightarrow> uid option \<Rightarrow> json dict \<Rightarrow> bool \<Rightarrow> (db, unit) act" where
  "record_permission_denied now pid usr metadata do_commit =
     record_audit_event now ''permission_denied'' ''denied''
       (audit_defaults\<lparr>aa_project_id := pid, aa_user_id := usr, aa_resource_type := Some ''project'',
          aa_resource_id := map_option uid_str pid, aa_metadata := metadata, aa_commit := do_commit\<rparr>)"

definition record_rate_limit_exceeded ::
  "time \<Rightarrow> user_row option \<Rightarrow> uid option \<Rightarrow> string \<Rightarrow> string \<Rightarrow> int \<Rightarrow> (db, unit) act" where
  "record_rate_limit_exceeded now user pid action key limit =
     record_audit_event now ''rate_limit_exceeded'' ''blocked''
       (audit_defaults\<lparr>aa_project_id := pid, aa_user := user, aa_resource_type := Some ''rate_limit'',
          aa_resource_id := Some action, aa_metadata := [(''key'', JStr key), (''limit'', JInt limit)],
          aa_commit := True\<rparr>)"

section \<open>Project roles\<close>

fun role_order :: "project_role \<Rightarrow> nat" where
  "role_order RoleViewer = 0"
| "role_order RoleInvestigator = 1"
| "role_order RoleApprover = 2"
| "role_order RoleAdmin = 3"

definition role_allows :: "project_role \<Rightarrow> project_role \<Rightarrow> bool" where
  "role_allows actual least \<longleftrightarrow> role_order actual \<ge> role_order least"

text \<open>The roles are a linear order, the one of \<open>ROLE_ORDER\<close>.\<close>

instantiation project_role :: linorder
begin

definition less_eq_project_role :: "project_role \<Rightarrow> project_role \<Rightarrow> bool" where
  "less_eq_project_role a b \<longleftrightarrow> role_order a \<le> role_order b"

definition less_project_role :: "project_role \<Rightarrow> project_role \<Rightarrow> bool" where
  "less_project_role a b \<longleftrightarrow> role_order a < role_order b"

instance
proof
  fix a b c :: project_role
  show "(a < b) = (a \<le> b \<and> \<not> b \<le> a)" by (auto simp: less_eq_project_role_def less_project_role_def)
  show "a \<le> a" by (simp add: less_eq_project_role_def)
  show "a \<le> b \<Longrightarrow> b \<le> c \<Longrightarrow> a \<le> c" by (simp add: less_eq_project_role_def)
  show "a \<le> b \<Longrightarrow> b \<le> a \<Longrightarrow> a = b" by (cases a; cases b) (simp_all add: less_eq_project_role_def)
  show "a \<le> b \<or> b \<le> a" by (auto simp: less_eq_project_role_def)
qed

end

lemma role_allows_iff: "role_allows a b \<longleftrightarrow> b \<le> a"
  by (simp add: role_allows_def less_eq_project_role_def)

definition project_role_of :: "uid \<Rightarrow> uid \<Rightarrow> db \<Rightarrow> project_role option" where
  "project_role_of pid usr d =
     map_option mem_role (find (\<lambda>m. mem_project_id m = pid \<and> mem_user_id m = usr) (project_members d))"

definition require_project_role :: "time \<Rightarrow> uid \<Rightarrow> uid \<Rightarrow> project_role \<Rightarrow> (db, project_role) act" where
  "require_project_role now pid usr minimum_role =
     bind_act (query (project_role_of pid usr)) (\<lambda>actual.
       case actual of
         Some r \<Rightarrow> if role_allows r minimum_role then ret r
           else then_act (record_permission_denied now (Some pid) (Some usr)
                  [(''required_role'', JStr (project_role_value minimum_role)), (''actual_role'', JStr (project_role_value r))] True)
                (raise (HTTPException 403 ''Insufficient project permissions''))
       | None \<Rightarrow> then_act (record_permission_denied now (Some pid) (Some usr)
                  [(''required_role'', JStr (project_role_value minimum_role)), (''actual_role'', JNull)] True)
                (raise (HTTPException 403 ''Insufficient project permissions'')))"

section \<open>Access to projects\<close>

definition project_bypass_allowed :: "project_row \<Rightarrow> settings \<Rightarrow> bool" where
  "project_bypass_allowed p s =
     (if is_production_like s then False
      else if demo_mode_public s then True
      else proj_demo_mode p \<and> allow_demo_project_bypass s)"

definition ensure_project_access ::
  "settings \<Rightarrow> time \<Rightarrow> uid \<Rightarrow> user_row option \<Rightarrow> project_role \<Rightarrow> (db, unit) act" where
  "ensure_project_access s now pid user minimum_role =
     bind_act (query (\<lambda>d. row_with proj_id pid (projects d))) (\<lambda>p.
       case p of
         None \<Rightarrow> raise (HTTPException 404 ''Project not found'')
       | Some p \<Rightarrow> if project_bypass_allowed p s then ret ()
           else (case user of
               None \<Rightarrow> raise (HTTPException 401 ''Authentication required'')
             | Some u \<Rightarrow> then_act (require_project_role now pid (user_id u) minimum_role) (ret ())))"

definition enforce_query_limits :: "string \<Rightarrow> int \<Rightarrow> settings \<Rightarrow> unit result" where
  "enforce_query_limits q top_k s =
     (if int (length q) > max_query_length s then Inl (HTTPException 400 ''Query exceeds MAX_QUERY_LENGTH'')
      else if top_k > max_top_k s \<or> top_k > max_retrieved_chunks s
        then Inl (HTTPException 400 ''top_k exceeds configured limit'')
      else Inr ())"

text \<open>\<open>verdict\<close> is what the configured limiter answers for the key, the limit and the window.\<close>

definition check_rate_limit ::
  "settings \<Rightarrow> time \<Rightarrow> unit result \<Rightarrow> string \<Rightarrow> int \<Rightarrow> user_row option \<Rightarrow> uid option \<Rightarrow> string \<Rightarrow> (db, unit) act" where
  "check_rate_limit s now verdict key limit user pid action =
     (if \<not> rate_limit_enabled s then ret ()
      else case verdict of
          Inr _ \<Rightarrow> ret ()
        | Inl (HTTPException c m) \<Rightarrow>
            then_act (record_rate_limit_exceeded now user pid action key limit) (raise (HTTPException c m))
        | Inl e \<Rightarrow> raise e)"

section \<open>Passwords\<close>

text \<open>The libraries: \<open>bcrypt.checkpw\<close> (\<open>None\<close>: it raises ValueError), \<open>bcrypt.hashpw\<close> with twelve rounds,
  the hexadecimal SHA-256 digest, and the JWT encoder and decoder.\<close>

datatype jwt_failure = ExpiredSignature | InvalidToken

record crypto =
  bcrypt_check :: "string \<Rightarrow> string \<Rightarrow> bool option"
  bcrypt_hash :: "string \<Rightarrow> string"
  sha256_hex :: "string \<Rightarrow> string"
  jwt_encode :: "json dict \<Rightarrow> settings \<Rightarrow> string"
  jwt_decode :: "string \<Rightarrow> settings \<Rightarrow> jwt_failure + json dict"

definition is_bcrypt_hash :: "string \<Rightarrow> bool" where
  "is_bcrypt_hash h \<longleftrightarrow> h \<noteq> [] \<and> starts_any h [''$2a$'', ''$2b$'', ''$2y$'']"

definition rx_legacy_sha256 :: rx where
  "rx_legacy_sha256 = rx_seq [RTextStart, rx_times 64 64 (RSet (\<lambda>c. is_digit c \<or> in_range 97 102 c)), RTextEnd]"

definition is_legacy_sha256_hash :: "string \<Rightarrow> bool" where
  "is_legacy_sha256_hash h \<longleftrightarrow> re_match rx_legacy_sha256 h \<noteq> None"

definition verify_password :: "crypto \<Rightarrow> string \<Rightarrow> string \<Rightarrow> bool \<Rightarrow> bool" where
  "verify_password cr password stored_hash allow_legacy_sha256 =
     (if is_bcrypt_hash stored_hash then
        (case bcrypt_check cr password stored_hash of None \<Rightarrow> False | Some b \<Rightarrow> b)
      else if allow_legacy_sha256 \<and> is_legacy_sha256_hash stored_hash then
        sha256_hex cr password = stored_hash
      else False)"

definition bcrypt_rounds :: "string \<Rightarrow> int" where
  "bcrypt_rounds h = (let parts = split_on CHR ''$'' h in
     if length parts < 4 then 0
     else case int_of_str (parts ! 2) of None \<Rightarrow> 0 | Some n \<Rightarrow> n)"

definition needs_rehash :: "string \<Rightarrow> bool" where
  "needs_rehash h = (if \<not> is_bcrypt_hash h then True else bcrypt_rounds h < 12)"

section \<open>Authentication\<close>

definition create_access_token :: "crypto \<Rightarrow> time \<Rightarrow> user_row \<Rightarrow> settings \<Rightarrow> string \<times> int" where
  "create_access_token cr now user s =
     (let expires = access_token_expire_minutes s * 60;
          payload = [(''sub'', JStr (uid_str (user_id user))), (''email'', JStr (user_email user)),
            (''token_type'', JStr ''access''), (''iat'', JInt (now div 1000000)),
            (''exp'', JInt ((now + expires * 1000000) div 1000000)), (''iss'', JStr (jwt_issuer s)),
            (''aud'', JStr (jwt_audience s)), (''token_version'', JInt (user_token_version user))]
      in (jwt_encode cr payload s, expires))"

definition decode_token :: "crypto \<Rightarrow> string \<Rightarrow> settings \<Rightarrow> json dict result" where
  "decode_token cr token s = (case jwt_decode cr token s of
      Inl ExpiredSignature \<Rightarrow> Inl (HTTPException 401 ''Token expired'')
    | Inl InvalidToken \<Rightarrow> Inl (HTTPException 401 ''Invalid token'')
    | Inr payload \<Rightarrow> if dict_get payload ''token_type'' \<noteq> Some (JStr ''access'')
        then Inl (HTTPException 401 ''Invalid token type'') else Inr payload)"

definition authenticate_user ::
  "crypto \<Rightarrow> time \<Rightarrow> string \<Rightarrow> string \<Rightarrow> settings \<Rightarrow> (db, user_row option) act" where
  "authenticate_user cr now email password s =
     bind_act (query (\<lambda>d. find (\<lambda>u. user_email u = email) (users d))) (\<lambda>user.
       case user of None \<Rightarrow> ret None
       | Some u \<Rightarrow>
         if \<not> user_is_active u \<or> user_disabled_at u \<noteq> None then ret None
         else let allow_legacy = \<not> is_production_like s in
           if \<not> verify_password cr password (user_password_hash u) allow_legacy then
             then_act (change (edit_row users_update user_id (user_id u)
               (\<lambda>v. v\<lparr>user_failed_login_count := user_failed_login_count v + 1\<rparr>))) (ret None)
           else let u' = (if allow_legacy \<and> needs_rehash (user_password_hash u)
                   then u\<lparr>user_password_hash := bcrypt_hash cr password, user_password_scheme := Some ''bcrypt''\<rparr> else u);
                    u'' = u'\<lparr>user_failed_login_count := 0, user_last_login_at := Some now\<rparr>
           in then_act (change (edit_row users_update user_id (user_id u) (\<lambda>_. u''))) (ret (Some u'')))"

definition ensure_local_seed_admin :: "crypto \<Rightarrow> time \<Rightarrow> settings \<Rightarrow> (db, unit) act" where
  "ensure_local_seed_admin cr now s =
     (if is_production_like s \<or> \<not> allow_local_seed_admin s then ret ()
      else bind_act (query (\<lambda>d. find (\<lambda>u. user_email u = ''admin@incidentops.local'') (users d))) (\<lambda>user.
        case user of Some _ \<Rightarrow> ret ()
        | None \<Rightarrow> change (add_row users_update (\<lambda>i. \<lparr>user_id = i, user_email = ''admin@incidentops.local'',
            user_name = ''IncidentOps Admin'', user_password_hash = bcrypt_hash cr ''incidentops'',
            user_password_scheme = Some ''bcrypt'', user_token_version = 1, user_last_login_at = None,
            user_failed_login_count = 0, user_disabled_at = None, user_is_active = True, user_created_at = now\<rparr>))))"

text \<open>\<open>authorization.partition(" ")\<close>: scheme and token around the first blank.\<close>

definition partition_blank :: "string \<Rightarrow> string \<times> string" where
  "partition_blank s = (takeWhile (\<lambda>c. c \<noteq> CHR '' '') s, tl (dropWhile (\<lambda>c. c \<noteq> CHR '' '') s))"

definition get_current_user :: "crypto \<Rightarrow> settings \<Rightarrow> string option \<Rightarrow> (db, user_row option) act" where
  "get_current_user cr s authorization = (case authorization of
      None \<Rightarrow> ret None
    | Some a \<Rightarrow> if a = [] then ret None else
       (let (scheme, token) = partition_blank a in
        if py_lower scheme \<noteq> ''bearer'' \<or> token = [] then raise (HTTPException 401 ''Invalid authorization header'')
        else bind_act (lift_result (decode_token cr token s)) (\<lambda>payload.
          let sub = dict_get_or JNull payload ''sub'' in
          if \<not> truthy sub then raise (HTTPException 401 ''Invalid token payload'')
          else (case sub of
              JStr t \<Rightarrow> (case parse_uid t of
                  None \<Rightarrow> raise (HTTPException 401 ''Invalid token payload'')
                | Some usr \<Rightarrow> bind_act (query (\<lambda>d. row_with user_id usr (users d))) (\<lambda>found.
                    case found of None \<Rightarrow> raise (HTTPException 401 ''User not found'')
                    | Some u \<Rightarrow>
                      if \<not> user_is_active u \<or> user_disabled_at u \<noteq> None then raise (HTTPException 401 ''User disabled'')
                      else bind_act (lift_result (json_int (dict_get_or (JInt 1) payload ''token_version''))) (\<lambda>version.
                        if version \<noteq> (if user_token_version u = 0 then 1 else user_token_version u)
                        then raise (HTTPException 401 ''Token revoked'') else ret (Some u))))
            | _ \<Rightarrow> raise (OtherError ''AttributeError'' ''badly formed UUID'')))))"

definition require_user :: "user_row option \<Rightarrow> (db, user_row) act" where
  "require_user user = (case user of None \<Rightarrow> raise (HTTPException 401 ''Authentication required'') | Some u \<Rightarrow> ret u)"

text \<open>The login route; its response is the token and the user's row.\<close>

definition login ::
  "crypto \<Rightarrow> settings \<Rightarrow> time \<Rightarrow> unit result \<Rightarrow> request_info \<Rightarrow> string \<Rightarrow> string \<Rightarrow> (db, (string \<times> int) \<times> user_row) act" where
  "login cr s now verdict request email password =
     (let client_host = (case req_client_host request of Some h \<Rightarrow> h | None \<Rightarrow> ''unknown'') in
      then_act (check_rate_limit s now verdict (''login:'' @ client_host @ '':'' @ py_lower email)
                  (user_request_limit s) None None ''login'')
      (then_act (ensure_local_seed_admin cr now s)
      (bind_act (authenticate_user cr now email password s) (\<lambda>user.
        case user of
          None \<Rightarrow> then_act (record_login_event now email False (Some request) None (Some ''invalid_credentials'') True)
                    (raise (HTTPException 401 ''Invalid credentials''))
        | Some u \<Rightarrow> (let token = create_access_token cr now u s in
            then_act (record_login_event now (user_email u) True (Some request) (Some u) None True)
              (ret (token, u)))))))"

section \<open>Bootstrapping an administrator\<close>

definition bootstrap_admin ::
  "crypto \<Rightarrow> settings \<Rightarrow> time \<Rightarrow> string \<Rightarrow> string \<Rightarrow> string \<Rightarrow> uid option \<Rightarrow> bool \<Rightarrow> (db, string) act" where
  "bootstrap_admin cr s now email password name pid update_password =
     then_act (guard_act (\<not> (is_production_like s \<and> password \<in> set [''incidentops'', ''password'', ''admin'', ''change-me'']))
       (ValueError ''Refusing weak/default bootstrap password in production-like environment''))
    (then_act (guard_act (\<not> (is_production_like s \<and> length password < 12))
       (ValueError ''Bootstrap password must be at least 12 characters in production-like environment''))
    (bind_act (query (\<lambda>d. filter (\<lambda>u. py_lower (user_email u) = py_lower email) (users d))) (\<lambda>found.
       if length found > 1 then raise (OtherError ''MultipleResultsFound'' ''Multiple rows were found'')
       else bind_act (case found of
           u # _ \<Rightarrow> if update_password then
               then_act (change (edit_row users_update user_id (user_id u)
                 (\<lambda>v. v\<lparr>user_password_hash := bcrypt_hash cr password, user_password_scheme := Some ''bcrypt'',
                       user_token_version := (if user_token_version v = 0 then 1 else user_token_version v) + 1\<rparr>)))
                 (ret (''updated'', user_id u))
             else ret (''exists'', user_id u)
         | [] \<Rightarrow> bind_act (query next_id) (\<lambda>i.
             then_act (change (add_row users_update (\<lambda>i. \<lparr>user_id = i, user_email = email, user_name = name,
               user_password_hash = bcrypt_hash cr password, user_password_scheme = Some ''bcrypt'', user_token_version = 1,
               user_last_login_at = None, user_failed_login_count = 0, user_disabled_at = None, user_is_active = True,
               user_created_at = now\<rparr>)))
             (ret (''created'', i)))) (\<lambda>(action_status, usr).
         then_act (case pid of None \<Rightarrow> ret ()
           | Some p \<Rightarrow> bind_act (query (\<lambda>d. find (\<lambda>m. mem_project_id m = p \<and> mem_user_id m = usr) (project_members d))) (\<lambda>member.
               case member of
                 Some m \<Rightarrow> change (edit_row project_members_update mem_id (mem_id m) (\<lambda>v. v\<lparr>mem_role := RoleAdmin\<rparr>))
               | None \<Rightarrow> change (add_row project_members_update (\<lambda>i. \<lparr>mem_id = i, mem_project_id = p,
                   mem_user_id = usr, mem_role = RoleAdmin, mem_created_at = now\<rparr>))))
         (bind_act (query (\<lambda>d. row_with user_id usr (users d))) (\<lambda>u.
          then_act (record_audit_event now
             (if action_status = ''created'' then ''bootstrap_admin_created'' else ''bootstrap_admin_checked'') action_status
             (audit_defaults\<lparr>aa_user := u, aa_actor_email := Some email, aa_resource_type := Some ''user'',
                aa_resource_id := Some (uid_str usr)\<rparr>))
          (then_act commit (ret action_status))))))))"

section \<open>The key invariant\<close>

lemma audit_id_row [simp]: "audit_id (audit_row now action status a i) = i"
  by (simp add: audit_row_def)

lemma audit_row_simps [simp]:
  "audit_action (audit_row now action status a i) = action"
  "audit_status (audit_row now action status a i) = status"
  "audit_project_id (audit_row now action status a i) = aa_project_id a"
  "audit_created_at (audit_row now action status a i) = now"
  "audit_user_id (audit_row now action status a i) =
     (case aa_user a of Some u \<Rightarrow> Some (user_id u) | None \<Rightarrow> aa_user_id a)"
  by (simp_all add: audit_row_def)

lemma record_audit_run:
  "record_audit_event now action status a s =
     (let w = add_row audit_events_update (audit_row now action status a) (work s) in
      (Inr (), if aa_commit a then s\<lparr>committed := w, work := w\<rparr> else s\<lparr>work := w\<rparr>))"
  by (simp add: record_audit_event_def act_simps Let_def)

lemma preserves_audit [intro]: "preserves db_ok (record_audit_event now action status a)"
  unfolding record_audit_event_def by (intro preserves_then preserves_change preserves_when preserves_commit) auto

lemma preserves_login_event [intro]: "preserves db_ok (record_login_event now email ok req u reason c)"
  unfolding record_login_event_def by blast

lemma preserves_permission_denied [intro]: "preserves db_ok (record_permission_denied now pid usr md c)"
  unfolding record_permission_denied_def by blast

lemma preserves_rate_limit_exceeded [intro]: "preserves db_ok (record_rate_limit_exceeded now u pid action key limit)"
  unfolding record_rate_limit_exceeded_def by blast

lemma preserves_require_project_role [intro]: "preserves db_ok (require_project_role now pid usr r)"
  unfolding require_project_role_def by (intro preserves_bind preserves_query) (auto split: option.split)

lemma preserves_ensure_project_access [intro]: "preserves db_ok (ensure_project_access s now pid user r)"
  unfolding ensure_project_access_def
  by (intro preserves_bind preserves_query preserves_option preserves_raise preserves_if preserves_ret
      preserves_then preserves_require_project_role)

lemma preserves_check_rate_limit [intro]: "preserves db_ok (check_rate_limit s now v key limit u pid action)"
  unfolding check_rate_limit_def by (auto split: sum.split py_exn.split)

lemma preserves_authenticate [intro]: "preserves db_ok (authenticate_user cr now email password s)"
  unfolding authenticate_user_def Let_def edit_row_def
  by (intro preserves_bind preserves_query preserves_option preserves_ret preserves_if preserves_then
      preserves_change db_ok_edit_users; simp)

lemma require_role_Inr:
  "require_project_role now pid usr least s = (Inr r, t) \<longleftrightarrow>
     project_role_of pid usr (work s) = Some r \<and> role_allows r least \<and> t = s"
proof -
  have "then_act (record_permission_denied now a b md True) (raise e) s \<noteq> (Inr r, t)" for a b md e
    by (auto simp: then_act_Inr_iff raise_def)
  then show ?thesis by (auto simp: require_project_role_def ret_def split: option.split)
qed

lemma role_allows_admin: "role_allows r RoleAdmin \<longleftrightarrow> r = RoleAdmin"
  by (cases r) (simp_all add: role_allows_def)

lemma keeps_audit_event: "(\<And>mk d. g (add_row audit_events_update mk d) = g d) \<Longrightarrow> keeps_table g (record_audit_event now action st a)"
  unfolding record_audit_event_def by (intro keeps_then keeps_table_change keeps_when keeps_table_commit) simp

lemma keeps_role:
  "(\<And>mk d. g (add_row audit_events_update mk d) = g d) \<Longrightarrow> keeps_table g (require_project_role now pid usr r)"
  unfolding require_project_role_def record_permission_denied_def
  by (intro keeps_bind keeps_simple keeps_option keeps_if keeps_then keeps_audit_event)

lemma keeps_rate:
  "(\<And>mk d. g (add_row audit_events_update mk d) = g d) \<Longrightarrow> keeps_table g (check_rate_limit s now v key limit u pid action)"
  unfolding check_rate_limit_def record_rate_limit_exceeded_def
  by (auto split: sum.split py_exn.split intro!: keeps_then keeps_audit_event)

section \<open>What the checks guarantee\<close>

lemma denied_run:
  obtains ev t where "record_permission_denied now (Some pid) (Some usr) md True s = (Inr (), t)"
    and "audit_action ev = ''permission_denied''" and "audit_status ev = ''denied''"
    and "audit_project_id ev = Some pid" and "audit_user_id ev = Some usr"
    and "work t = (work s)\<lparr>audit_events := audit_events (work s) @ [ev], next_id := next_id (work s) + 1\<rparr>"
    and "committed t = work t"
proof -
  let ?a = "audit_defaults\<lparr>aa_project_id := Some pid, aa_user_id := Some usr, aa_resource_type := Some ''project'',
    aa_resource_id := Some (uid_str pid), aa_metadata := md, aa_commit := True\<rparr>"
  let ?ev = "audit_row now ''permission_denied'' ''denied'' ?a (next_id (work s))"
  let ?w = "(work s)\<lparr>audit_events := audit_events (work s) @ [?ev], next_id := next_id (work s) + 1\<rparr>"
  have "record_permission_denied now (Some pid) (Some usr) md True s = (Inr (), s\<lparr>committed := ?w, work := ?w\<rparr>)"
    unfolding record_permission_denied_def record_audit_run Let_def by (simp add: add_row_def)
  from this show thesis by (rule that [where ev = ?ev]) (simp_all add: audit_defaults_def)
qed

text \<open>
  The role check is exact and leaves a trace: it lets a member through exactly when the member's role
  is at least the required one, changing nothing; otherwise it raises 403 after committing one audit
  event of the denial, and nothing else of the database changes.
\<close>

theorem project_role_enforced:
  "case require_project_role now pid usr least s of
     (Inr r, t) \<Rightarrow> project_role_of pid usr (work s) = Some r \<and> least \<le> r \<and> t = s
   | (Inl e, t) \<Rightarrow> e = HTTPException 403 ''Insufficient project permissions''
       \<and> (case project_role_of pid usr (work s) of None \<Rightarrow> True | Some r \<Rightarrow> r < least)
       \<and> (\<exists>ev. audit_action ev = ''permission_denied'' \<and> audit_status ev = ''denied''
             \<and> audit_project_id ev = Some pid \<and> audit_user_id ev = Some usr
             \<and> work t = (work s)\<lparr>audit_events := audit_events (work s) @ [ev], next_id := next_id (work s) + 1\<rparr>
             \<and> committed t = work t)"
proof (cases "project_role_of pid usr (work s)")
  case None
  obtain ev t where "record_permission_denied now (Some pid) (Some usr)
      [(''required_role'', JStr (project_role_value least)), (''actual_role'', JNull)] True s = (Inr (), t)"
    and ev: "audit_action ev = ''permission_denied''" "audit_status ev = ''denied''" "audit_project_id ev = Some pid"
      "audit_user_id ev = Some usr"
      "work t = (work s)\<lparr>audit_events := audit_events (work s) @ [ev], next_id := next_id (work s) + 1\<rparr>"
      "committed t = work t" by (rule denied_run)
  with None have "require_project_role now pid usr least s = (Inl (HTTPException 403 ''Insufficient project permissions''), t)"
    by (simp add: require_project_role_def then_act_def bind_act_def query_def raise_def)
  with None ev show ?thesis by auto
next
  case (Some r)
  show ?thesis
  proof (cases "role_allows r least")
    case True
    with Some show ?thesis by (simp add: require_project_role_def act_simps role_allows_iff)
  next
    case False
    obtain ev t where "record_permission_denied now (Some pid) (Some usr)
        [(''required_role'', JStr (project_role_value least)), (''actual_role'', JStr (project_role_value r))] True s = (Inr (), t)"
      and ev: "audit_action ev = ''permission_denied''" "audit_status ev = ''denied''" "audit_project_id ev = Some pid"
        "audit_user_id ev = Some usr"
        "work t = (work s)\<lparr>audit_events := audit_events (work s) @ [ev], next_id := next_id (work s) + 1\<rparr>"
        "committed t = work t" by (rule denied_run)
    with Some False have "require_project_role now pid usr least s =
        (Inl (HTTPException 403 ''Insufficient project permissions''), t)"
      by (simp add: require_project_role_def then_act_def bind_act_def query_def raise_def)
    with Some False ev show ?thesis by (auto simp: role_allows_iff)
  qed
qed

text \<open>
  C15. In staging and production no setting and no demo flag opens a project: access is granted only to an
  authenticated user who is a member of an existing project with at least the required role.
\<close>

theorem production_access_needs_role:
  assumes "is_production_like cfg"
    and "ensure_project_access cfg now pid user least s = (Inr u, t)"
  shows "\<exists>p v r. row_with proj_id pid (projects (work s)) = Some p \<and> user = Some v
     \<and> project_role_of pid (user_id v) (work s) = Some r \<and> least \<le> r \<and> t = s"
proof -
  from assms obtain p v where p: "row_with proj_id pid (projects (work s)) = Some p" and v: "user = Some v"
    and run: "then_act (require_project_role now pid (user_id v) least) (ret ()) s = (Inr u, t)"
    unfolding ensure_project_access_def project_bypass_allowed_def
    by (auto simp: raise_def split: option.splits if_splits)
  from run obtain r w where r: "require_project_role now pid (user_id v) least s = (Inr r, w)" "t = w"
    by (auto simp: then_act_Inr_iff ret_def)
  with project_role_enforced [where now = now and pid = pid and usr = "user_id v" and least = least and s = s] p v show ?thesis by auto
qed

definition sample_user :: user_row where
  "sample_user = \<lparr>user_id = 1, user_email = ''a@x'', user_name = ''A'', user_password_hash = ''h'',
     user_password_scheme = None, user_token_version = 1, user_last_login_at = None, user_failed_login_count = 0,
     user_disabled_at = None, user_is_active = True, user_created_at = 0\<rparr>"

definition sample_project :: project_row where
  "sample_project = \<lparr>proj_id = 2, proj_name = ''p'', proj_settings_json = None, proj_demo_mode = True, proj_created_at = 0\<rparr>"

definition sample_member :: "project_role \<Rightarrow> member_row" where
  "sample_member r = \<lparr>mem_id = 3, mem_project_id = 2, mem_user_id = 1, mem_role = r, mem_created_at = 0\<rparr>"

definition sample_db :: db where
  "sample_db = empty_db\<lparr>next_id := 10, users := [sample_user], projects := [sample_project],
     project_members := [sample_member RoleApprover]\<rparr>"

lemma sample_production_like: "is_production_like sample_production"
  by (rule sample_production_starts)

lemma sample_role: "project_role_of 2 1 sample_db = Some RoleApprover"
  by (simp add: project_role_of_def sample_db_def sample_member_def)

theorem production_access_needs_role_witness:
  "\<exists>v r. ensure_project_access sample_production 0 2 (Some sample_user) RoleViewer
      (new_session sample_db) = (Inr (), new_session sample_db)
    \<and> Some sample_user = Some v \<and> project_role_of 2 (user_id v) sample_db = Some r \<and> RoleViewer \<le> r"
proof -
  let ?s = "new_session sample_db"
  have "row_with proj_id 2 (projects sample_db) = Some sample_project"
    by (simp add: sample_db_def sample_project_def row_with_def)
  moreover have "user_id sample_user = 1" by (simp add: sample_user_def)
  ultimately have run: "ensure_project_access sample_production 0 2 (Some sample_user) RoleViewer ?s = (Inr (), ?s)"
    by (simp add: ensure_project_access_def project_bypass_allowed_def sample_production_like
        require_project_role_def sample_role role_allows_def act_simps del: One_nat_def)
  from production_access_needs_role [OF sample_production_like run] run show ?thesis by auto
qed

text \<open>
  C22. A bearer token authenticates only a live user: the user that comes out of the header is a row of the
  users table, active and not disabled, whose id is the subject of a token that the JWT library
  accepted as an access token and whose token version is the one of the row; nothing is written.
\<close>

theorem current_user_is_live:
  assumes "get_current_user cr cfg authorization s = (Inr (Some u), t)"
  shows "t = s \<and> u \<in> set (users (work s)) \<and> user_is_active u \<and> user_disabled_at u = None
     \<and> (\<exists>a payload sub. authorization = Some a \<and> py_lower (fst (partition_blank a)) = ''bearer''
          \<and> jwt_decode cr (snd (partition_blank a)) cfg = Inr payload
          \<and> dict_get payload ''token_type'' = Some (JStr ''access'')
          \<and> dict_get payload ''sub'' = Some (JStr sub) \<and> parse_uid sub = Some (user_id u)
          \<and> json_int (dict_get_or (JInt 1) payload ''token_version'') =
              Inr (if user_token_version u = 0 then 1 else user_token_version u))"
proof -
  from assms obtain a where a: "authorization = Some a" "a \<noteq> []"
    by (auto simp: get_current_user_def ret_def split: option.splits if_splits)
  obtain scheme token where st: "partition_blank a = (scheme, token)" by (cases "partition_blank a")
  from assms a st have scheme: "py_lower scheme = ''bearer''"
    by (auto simp: get_current_user_def raise_def split: if_splits)
  from assms a st obtain payload where dec: "decode_token cr token cfg = Inr payload"
    by (auto simp: get_current_user_def raise_def bind_act_def lift_result_def split: if_splits sum.splits)
  then have jwt: "jwt_decode cr token cfg = Inr payload" "dict_get payload ''token_type'' = Some (JStr ''access'')"
    by (auto simp: decode_token_def split: sum.splits jwt_failure.splits if_splits)
  from assms a st scheme dec obtain sub where sub: "dict_get_or JNull payload ''sub'' = JStr sub" and
    rest: "(case parse_uid sub of None \<Rightarrow> raise (HTTPException 401 ''Invalid token payload'')
       | Some usr \<Rightarrow> bind_act (query (\<lambda>d. row_with user_id usr (users d))) (\<lambda>found.
           case found of None \<Rightarrow> raise (HTTPException 401 ''User not found'')
           | Some u \<Rightarrow>
             if \<not> user_is_active u \<or> user_disabled_at u \<noteq> None then raise (HTTPException 401 ''User disabled'')
             else bind_act (lift_result (json_int (dict_get_or (JInt 1) payload ''token_version''))) (\<lambda>version.
               if version \<noteq> (if user_token_version u = 0 then 1 else user_token_version u)
               then raise (HTTPException 401 ''Token revoked'') else ret (Some u)))) s = (Inr (Some u), t)"
    by (auto simp: get_current_user_def raise_def bind_act_def lift_result_def Let_def
        split: if_splits json.splits)
  from sub have "dict_get payload ''sub'' = Some (JStr sub)"
    by (auto simp: dict_get_or_def split: option.splits)
  moreover from rest have "parse_uid sub = Some (user_id u) \<and> t = s \<and> u \<in> set (users (work s))
      \<and> user_is_active u \<and> user_disabled_at u = None
      \<and> json_int (dict_get_or (JInt 1) payload ''token_version'') =
          Inr (if user_token_version u = 0 then 1 else user_token_version u)"
    by (auto simp: act_simps split: option.splits if_splits sum.splits dest: row_with_Some)
  ultimately show ?thesis using a(1) st scheme jwt by auto
qed

definition sample_crypto :: crypto where
  "sample_crypto = \<lparr>bcrypt_check = (\<lambda>p h. Some (h = p)), bcrypt_hash = (\<lambda>p. p), sha256_hex = (\<lambda>p. p),
     jwt_encode = (\<lambda>_ _. ''t''),
     jwt_decode = (\<lambda>t _. if t = ''t'' then Inr [(''sub'', JStr ''1''), (''token_type'', JStr ''access''), (''token_version'', JInt 1)]
                          else Inl InvalidToken)\<rparr>"

theorem current_user_is_live_witness:
  "\<exists>t. get_current_user sample_crypto sample_production (Some ''Bearer t'')
     (new_session sample_db) = (Inr (Some sample_user), t) \<and> user_is_active sample_user"
proof -
  let ?s = "new_session sample_db"
  have "partition_blank ''Bearer t'' = (''Bearer'', ''t'')" and "py_lower ''Bearer'' = ''bearer''"
    and "parse_uid ''1'' = Some 1" by code_simp+
  then have run: "get_current_user sample_crypto sample_production (Some ''Bearer t'') ?s = (Inr (Some sample_user), ?s)"
    by (simp add: get_current_user_def decode_token_def sample_crypto_def act_simps dict_get_or_def
        row_with_def sample_db_def sample_user_def)
  from current_user_is_live [OF this] run show ?thesis by auto
qed

text \<open>
  Signing in: a user comes out only for an active, not disabled account whose password verified (in
  staging and production against a bcrypt hash only), and the account's failure counter is back at
  zero; a refusal leaves every account as it was but for the failure counter of the account with that
  address.
\<close>

theorem authenticate_user_sound:
  assumes "db_ok (work s)"
  shows "case authenticate_user cr now email password cfg s of
     (Inr (Some u), t) \<Rightarrow>
        (\<exists>v \<in> set (users (work s)). user_id v = user_id u \<and> user_email v = email \<and> user_is_active v
            \<and> user_disabled_at v = None
            \<and> verify_password cr password (user_password_hash v) (\<not> is_production_like cfg)
            \<and> (is_production_like cfg \<longrightarrow> is_bcrypt_hash (user_password_hash v)))
        \<and> user_failed_login_count u = 0 \<and> row_with user_id (user_id u) (users (work t)) = Some u
   | (Inr None, t) \<Rightarrow>
        (t = s \<or> (\<exists>v \<in> set (users (work s)). user_email v = email \<and>
           work t = edit_row users_update user_id (user_id v)
             (\<lambda>w. w\<lparr>user_failed_login_count := user_failed_login_count w + 1\<rparr>) (work s)))
   | (Inl e, t) \<Rightarrow> False"
proof (cases "find (\<lambda>u. user_email u = email) (users (work s))")
  case None
  then show ?thesis by (simp add: authenticate_user_def act_simps)
next
  case (Some v)
  then have v: "v \<in> set (users (work s))" "user_email v = email" by (auto simp: find_Some_iff)
  have row: "row_with user_id (user_id v) (users (work s)) = Some v"
    using assms v(1) by (intro row_with_member) (auto simp: db_ok_def keys_ok_def)
  have written: "row_with user_id (user_id v)
      (users (edit_row users_update user_id (user_id v) (\<lambda>_. u) (work s))) = Some u"
    if "user_id u = user_id v" for u
  proof -
    have "row_with user_id (user_id v) (map (\<lambda>r. if user_id r = user_id v then u else r) (users (work s)))
        = map_option (\<lambda>r. if user_id r = user_id v then u else r) (row_with user_id (user_id v) (users (work s)))"
      by (rule row_with_map) (simp add: that)
    with row show ?thesis by (simp add: edit_row_def edit_rows_def)
  qed
  show ?thesis
  proof (cases "user_is_active v \<and> user_disabled_at v = None
      \<and> verify_password cr password (user_password_hash v) (\<not> is_production_like cfg)")
    case False
    with Some v show ?thesis by (auto simp: authenticate_user_def act_simps Let_def)
  next
    case True
    let ?u = "(if \<not> is_production_like cfg \<and> needs_rehash (user_password_hash v)
        then v\<lparr>user_password_hash := bcrypt_hash cr password, user_password_scheme := Some ''bcrypt''\<rparr> else v)
        \<lparr>user_failed_login_count := 0, user_last_login_at := Some now\<rparr>"
    have run: "authenticate_user cr now email password cfg s =
        (Inr (Some ?u), s\<lparr>work := edit_row users_update user_id (user_id v) (\<lambda>_. ?u) (work s)\<rparr>)"
      using Some True by (simp add: authenticate_user_def act_simps Let_def)
    have "is_production_like cfg \<longrightarrow> is_bcrypt_hash (user_password_hash v)"
      using True by (auto simp: verify_password_def split: if_splits)
    with True v written [of ?u] show ?thesis unfolding run by auto
  qed
qed

theorem authenticate_user_sound_witness:
  "db_ok sample_db \<and> (case authenticate_user sample_crypto 5 ''a@x'' ''bad'' sample_production
      (new_session sample_db) of (Inr None, t) \<Rightarrow> True | _ \<Rightarrow> False)"
proof -
  let ?s = "new_session sample_db"
  have ok: "db_ok (work ?s)"
    by (simp add: db_ok_def keys_ok_def sample_db_def empty_db_def sample_user_def sample_project_def sample_member_def)
  have "\<not> verify_password sample_crypto ''bad'' ''h'' False"
    by (simp add: verify_password_def is_bcrypt_hash_def starts_any_def)
  then have "fst (authenticate_user sample_crypto 5 ''a@x'' ''bad'' sample_production ?s) = Inr None"
    by (simp add: authenticate_user_def act_simps sample_db_def sample_user_def sample_production_like)
  with authenticate_user_sound [OF ok, where cr = sample_crypto and now = 5 and email = "''a@x''" and password = "''bad''" and cfg = sample_production] ok
  show ?thesis by (auto split: prod.splits sum.splits option.splits)
qed

end
