(* ===== verification/Taxonomy.thy ===== *)
theory Taxonomy
  imports Regex
begin

text \<open>
  Names and classes of ingestion: \<^verbatim>\<open>incidentops/ingestion/failure_taxonomy.py\<close>,
  \<^verbatim>\<open>incidentops/ingestion/chunking/metadata.py\<close>, \<^verbatim>\<open>build_source_coverage\<close> of
  \<^verbatim>\<open>incidentops/ingestion/diagnostics.py\<close>, \<^verbatim>\<open>incidentops/collector/taxonomy.py\<close> and
  \<^verbatim>\<open>normalize_source_type\<close> of \<^verbatim>\<open>incidentops/ingestion/normalized.py\<close>. A Python set of names is the
  list of its elements.
\<close>

section \<open>Failure codes\<close>

definition failure_reasons :: "string list" where
  "failure_reasons =
     [''unsupported_extension'', ''generated_file'', ''vendor_file'', ''oversized'', ''empty'', ''binary'',
      ''malformed_content'', ''parser_exception'', ''metadata_invalid'', ''chunk_limit_exceeded'',
      ''embedding_failed'', ''vector_index_failed'', ''unknown'']"

definition failure_aliases :: "string dict" where
  "failure_aliases =
    [(''unsupported_extension'', ''unsupported_extension''), (''generated_file'', ''generated_file''),
     (''vendor_file'', ''vendor_file''), (''document_too_large'', ''oversized''),
     (''external_id_too_long'', ''oversized''), (''path_too_long'', ''oversized''), (''empty_content'', ''empty''),
     (''no_chunks_parsed'', ''empty''), (''binary_content'', ''binary''), (''malformed_content'', ''malformed_content''),
     (''parse_error'', ''parser_exception''), (''parser_exception'', ''parser_exception''),
     (''invalid_external_id'', ''metadata_invalid''), (''unsafe_external_id'', ''metadata_invalid''),
     (''duplicate_external_id'', ''metadata_invalid''), (''invalid_path'', ''metadata_invalid''),
     (''unsafe_path'', ''metadata_invalid''), (''invalid_size'', ''metadata_invalid''),
     (''invalid_content_hash'', ''metadata_invalid''), (''invalid_metadata'', ''metadata_invalid''),
     (''metadata_too_large'', ''metadata_invalid''), (''too_many_chunks'', ''chunk_limit_exceeded''),
     (''embedding_error'', ''embedding_failed''), (''vector_index_failed'', ''vector_index_failed''),
     (''index_error'', ''unknown'')]"

definition normalize_failure_code :: "string option \<Rightarrow> string" where
  "normalize_failure_code code = (let raw = py_lower (py_strip (case code of None \<Rightarrow> [] | Some c \<Rightarrow> c)) in
     if raw \<in> set failure_reasons then raw
     else dict_get_or ''unknown'' failure_aliases raw)"

definition failure_reason_counts :: "string option list \<Rightarrow> int dict" where
  "failure_reason_counts codes = dict_sorted (tally (map normalize_failure_code codes))"

section \<open>Classes of paths\<close>

definition code_suffixes :: "string list" where
  "code_suffixes = [''.py'', ''.js'', ''.ts'', ''.jsx'', ''.tsx'', ''.go'', ''.java'', ''.rb'']"

definition classify_source_type :: "string \<Rightarrow> string" where
  "classify_source_type path = (let lower = py_lower path in
     if ends_any lower code_suffixes then ''code''
     else if ends_with lower ''.proto'' then ''api_doc''
     else if ends_with lower ''.log'' \<or> str_contains ''/logs/'' lower then ''logs''
     else if ends_any lower [''.patch'', ''.diff''] then ''deploy''
     else if ends_with lower ''.json'' \<and> any_in [''deploy'', ''release'', ''commit''] lower then ''deploy''
     else if str_contains ''incident'' lower \<or> str_contains ''postmortem'' lower then ''incident''
     else if str_contains ''openapi'' lower \<or> str_contains ''swagger'' lower then ''api_doc''
     else if ends_any lower [''.yaml'', ''.yml''] then
       (if str_contains ''openapi'' lower \<or> str_contains ''swagger'' lower then ''api_doc'' else ''config'')
     else if ends_any lower [''.toml'', ''.ini''] then ''config''
     else if ends_with lower ''.json'' \<and> any_in [''openapi'', ''swagger''] lower then ''api_doc''
     else if ends_any lower [''.md'', ''.txt''] then ''runbook''
     else if ends_with lower ''.json'' then ''config''
     else ''unknown'')"

definition classify_doc_type :: "string \<Rightarrow> string" where
  "classify_doc_type path = (let lower = py_lower path in
     if ends_any lower code_suffixes then ''code''
     else if ends_with lower ''.proto'' then ''api_doc''
     else if ends_with lower ''.log'' \<or> str_contains ''/logs/'' lower then ''log''
     else if ends_any lower [''.patch'', ''.diff'']
        \<or> (ends_with lower ''.json'' \<and> any_in [''deploy'', ''release'', ''commit''] lower) then ''deploy''
     else if str_contains ''incident'' lower \<or> str_contains ''postmortem'' lower then ''incident''
     else if ends_any lower [''.yaml'', ''.yml''] then
       (if str_contains ''openapi'' lower \<or> str_contains ''swagger'' lower then ''api_doc'' else ''config'')
     else if ends_any lower [''.toml'', ''.ini'', ''.json''] then
       (if str_contains ''openapi'' lower \<or> str_contains ''swagger'' lower then ''api_doc'' else ''config'')
     else ''markdown'')"

text \<open>Service names guessed from a path.\<close>

definition common_path_stopwords :: "string list" where
  "common_path_stopwords =
     [''logs'', ''log'', ''docs'', ''doc'', ''services'', ''service'', ''src'', ''app'', ''code'', ''lib'', ''libs'',
      ''api'', ''runbooks'', ''incidents'', ''deploys'', ''deploy'', ''patches'', ''diffs'', ''tests'', ''fixtures'',
      ''basic_incident'', ''utils'', ''helper'', ''helpers'', ''common'']"

definition rx_service_token :: rx where
  "rx_service_token = rx_seq [RTextStart, RSet c_lower,
     rx_times 2 40 (RSet (\<lambda>c. c_lower c \<or> is_digit c \<or> c_in ''_-'' c)), RTextEnd]"

definition is_service_token :: "string \<Rightarrow> bool" where
  "is_service_token t \<longleftrightarrow> re_match rx_service_token t \<noteq> None"

definition service_candidate :: "string \<Rightarrow> bool" where
  "service_candidate t \<longleftrightarrow> is_service_token t \<and> t \<notin> set common_path_stopwords"

text \<open>\<open>part.rsplit(".", 1)[0]\<close>, and \<open>re.split("[-_.]", stem)\<close>.\<close>

definition stem_of :: "string \<Rightarrow> string" where
  "stem_of part = (if CHR ''.'' \<in> set part
     then rev (tl (dropWhile (\<lambda>c. c \<noteq> CHR ''.'') (rev part))) else part)"

fun split_any :: "string \<Rightarrow> string \<Rightarrow> string list" where
  "split_any ds [] = [[]]"
| "split_any ds (c # cs) =
     (if c \<in> set ds then [] # split_any ds cs
      else case split_any ds cs of [] \<Rightarrow> [[c]] | w # ws \<Rightarrow> (c # w) # ws)"

fun service_candidates :: "string list \<Rightarrow> string list" where
  "service_candidates [] = []"
| "service_candidates (part # parts) =
     (if part \<in> set common_path_stopwords then
        (case parts of [] \<Rightarrow> [] | nxt # _ \<Rightarrow> if service_candidate nxt then [nxt] else [])
      else if service_candidate part then [part]
      else (let stem = stem_of part in
        if stem \<noteq> [] \<and> stem \<noteq> part then filter service_candidate (split_any ''-_.'' stem) else []))
     @ service_candidates parts"

definition extract_service_from_path :: "string \<Rightarrow> string option" where
  "extract_service_from_path path =
     (let parts = map py_lower (filter (\<lambda>p. p \<noteq> [] \<and> p \<notin> set [''.'', ''..''])
                (path_parts (replace_char CHR 0x5C CHR ''/'' path)))
      in case service_candidates parts of [] \<Rightarrow> None | c # _ \<Rightarrow> Some c)"

section \<open>Source types\<close>

definition known_source_types :: "string list" where
  "known_source_types = [''logs'', ''code'', ''deploy'', ''incident'', ''runbook'', ''api_doc'', ''config'', ''unknown_text'']"

definition source_type_aliases :: "string dict" where
  "source_type_aliases =
    [(''log'', ''logs''), (''text'', ''unknown_text''), (''txt'', ''unknown_text''), (''markdown'', ''runbook''),
     (''md'', ''runbook''), (''docs'', ''runbook''), (''doc'', ''runbook''), (''postmortem'', ''incident''),
     (''incident_report'', ''incident''), (''incidents'', ''incident''), (''deploy_history'', ''deploy''),
     (''diff'', ''deploy''), (''patch'', ''deploy''), (''yaml'', ''config''), (''yml'', ''config''), (''json'', ''config'')]"

definition normalize_source_type :: "string option \<Rightarrow> string \<Rightarrow> string" where
  "normalize_source_type source_type path =
     (let raw = py_lower (py_strip (case source_type of None \<Rightarrow> [] | Some t \<Rightarrow> t));
          normalized = dict_get_or raw source_type_aliases raw
      in if normalized \<in> set known_source_types then normalized
         else let inferred = classify_source_type path in
           if inferred \<in> set [''logs'', ''code'', ''deploy'', ''incident'', ''api_doc'', ''runbook''] then inferred
           else if path_suffix (py_lower path) \<in> set [''.json'', ''.yaml'', ''.yml''] then ''config''
           else ''unknown_text'')"

text \<open>The Collector's classification.\<close>

definition canonical_source_types :: "string list" where
  "canonical_source_types = [''code'', ''api_doc'', ''config'', ''logs'', ''deploy'', ''runbook'', ''incident'', ''unknown_text'']"

definition classify :: "string \<Rightarrow> string" where
  "classify path = (let normalized = replace_char CHR 0x5C CHR ''/'' path; lower = py_lower normalized in
     if any_in [''deploy/'', ''release/'', ''/deploy/'', ''/release/'', ''deploy-'', ''release-''] lower then ''deploy''
     else let v = classify_source_type normalized; w = (if v = ''unknown'' then ''unknown_text'' else v) in
       if w \<in> set canonical_source_types then w
       else if ends_any lower [''.json'', ''.yaml'', ''.yml'', ''.toml'', ''.ini''] then ''config''
       else ''unknown_text'')"

definition language_by_suffix :: "string dict" where
  "language_by_suffix =
    [(''.py'', ''python''), (''.js'', ''javascript''), (''.jsx'', ''javascript''), (''.ts'', ''typescript''),
     (''.tsx'', ''typescript''), (''.go'', ''go''), (''.java'', ''java''), (''.proto'', ''proto''), (''.rs'', ''rust''),
     (''.sql'', ''sql''), (''.yaml'', ''yaml''), (''.yml'', ''yaml''), (''.json'', ''json''), (''.toml'', ''toml''),
     (''.ini'', ''ini''), (''.md'', ''markdown''), (''.log'', ''log''), (''.diff'', ''diff''), (''.patch'', ''diff'')]"

definition language :: "string \<Rightarrow> string option" where
  "language path = dict_get language_by_suffix (path_suffix (py_lower path))"

section \<open>Coverage of a source\<close>

record coverage =
  has_logs :: bool
  has_code :: bool
  has_deploys :: bool
  has_incidents :: bool
  has_runbooks :: bool
  has_api_docs :: bool
  cov_source_types :: "int dict"
  cov_chunk_types :: "int dict"
  cov_warnings :: "string list"

definition build_source_coverage :: "int dict \<Rightarrow> int dict \<Rightarrow> coverage" where
  "build_source_coverage st ct =
     (let n = dict_get_or 0 st;
          logs = n ''logs'' > 0; code = n ''code'' > 0; deploys = n ''deploy'' > 0; incidents = n ''incident'' > 0;
          api_docs = n ''api_doc'' > 0; runbooks = n ''runbook'' + n ''api_doc'' > 0;
          warn = (\<lambda>b m. if b then [] else [m])
      in \<lparr>has_logs = logs, has_code = code, has_deploys = deploys, has_incidents = incidents,
          has_runbooks = runbooks, has_api_docs = api_docs, cov_source_types = st, cov_chunk_types = ct,
          cov_warnings = warn logs ''No logs found. Runtime symptom analysis may be weak.''
            @ warn code ''No code found. Code-path and diff reasoning will be limited.''
            @ warn deploys ''No deploy history found. Deploy-regression investigations may be weak.''
            @ warn incidents ''No previous incidents found. Similar-incident lookup unavailable.''
            @ warn runbooks ''No runbooks or API docs found. Ownership and remediation guidance may be weak.''\<rparr>)"

definition coverage_json :: "coverage \<Rightarrow> json dict" where
  "coverage_json c =
     [(''has_logs'', JBool (has_logs c)), (''has_code'', JBool (has_code c)), (''has_deploys'', JBool (has_deploys c)),
      (''has_incidents'', JBool (has_incidents c)), (''has_runbooks'', JBool (has_runbooks c)),
      (''has_api_docs'', JBool (has_api_docs c)),
      (''source_type_counts'', JObj (map (\<lambda>(k, n). (k, JInt n)) (cov_source_types c))),
      (''chunk_type_counts'', JObj (map (\<lambda>(k, n). (k, JInt n)) (cov_chunk_types c))),
      (''warnings'', JList (map JStr (cov_warnings c)))]"

section \<open>Facts\<close>

lemma aliases_checked: "list_all (\<lambda>kr. snd kr \<in> set failure_reasons) failure_aliases"
  by code_simp

lemma alias_in_reasons:
  assumes "dict_get failure_aliases c = Some r"
  shows "r \<in> set failure_reasons"
proof -
  have "(c, r) \<in> set failure_aliases" using assms by (rule map_of_SomeD)
  then show ?thesis using aliases_checked by (auto simp: list_all_iff)
qed

lemma normalize_failure_code_reason: "normalize_failure_code c \<in> set failure_reasons"
proof -
  have "''unknown'' \<in> set failure_reasons" by (simp add: failure_reasons_def)
  then show ?thesis
    by (auto simp: normalize_failure_code_def Let_def dict_get_or_def alias_in_reasons split: option.split)
qed

lemma reasons_lower: "r \<in> set failure_reasons \<Longrightarrow> py_lower (py_strip r) = r"
proof -
  have "list_all (\<lambda>r. py_lower (py_strip r) = r) failure_reasons" by code_simp
  then show "r \<in> set failure_reasons \<Longrightarrow> py_lower (py_strip r) = r" by (simp add: list_all_iff)
qed

lemma sum_values_insort: "sum_list (map snd (dict_insort e d)) = snd e + sum_list (map snd (d :: int dict))"
  by (induction e d rule: dict_insort.induct) auto

lemma sum_values_sorted: "sum_list (map snd (dict_sorted d)) = sum_list (map snd (d :: int dict))"
  by (induction d) (auto simp: dict_sorted_def sum_values_insort)

lemma keys_fold_incr: "fst ` set (fold (\<lambda>k. dict_incr k 1) ks d) = set ks \<union> fst ` set d"
  by (induction ks arbitrary: d) (auto simp: dict_incr_def keys_dict_set)

lemma keys_tally: "fst ` set (tally ks) = set ks"
  by (simp add: tally_def keys_fold_incr)

text \<open>
  Failure codes are stable: normalisation gives one of the thirteen public reasons, is idempotent,
  and the counts of a batch have only public reasons as keys and add up to the number of failures.
\<close>

theorem failure_codes_stable:
  "normalize_failure_code c \<in> set failure_reasons
   \<and> normalize_failure_code (Some (normalize_failure_code c)) = normalize_failure_code c
   \<and> fst ` set (failure_reason_counts cs) \<subseteq> set failure_reasons
   \<and> sum_list (map snd (failure_reason_counts cs)) = int (length cs)"
proof -
  have "normalize_failure_code (Some r) = r" if "r \<in> set failure_reasons" for r
    using that by (simp add: normalize_failure_code_def reasons_lower)
  moreover have "fst ` set (failure_reason_counts cs) \<subseteq> set failure_reasons"
    by (auto simp: failure_reason_counts_def keys_tally normalize_failure_code_reason)
  ultimately show ?thesis
    by (simp add: normalize_failure_code_reason failure_reason_counts_def sum_values_sorted sum_values_tally)
qed

lemma classify_source_type_range:
  "classify_source_type p \<in> set [''code'', ''api_doc'', ''logs'', ''deploy'', ''incident'', ''config'', ''runbook'', ''unknown'']"
  by (simp add: classify_source_type_def Let_def)

lemma classify_canonical: "classify p \<in> set canonical_source_types"
  using classify_source_type_range [of "replace_char CHR 0x5C CHR ''/'' p"]
  unfolding classify_def Let_def by (simp add: canonical_source_types_def)

lemma known_stable: "t \<in> set known_source_types \<Longrightarrow> normalize_source_type (Some t) p = t"
proof -
  have "list_all (\<lambda>t. py_lower (py_strip t) = t \<and> dict_get_or t source_type_aliases t = t) known_source_types"
    by code_simp
  then show "t \<in> set known_source_types \<Longrightarrow> normalize_source_type (Some t) p = t"
    by (simp add: normalize_source_type_def Let_def list_all_iff)
qed

lemma normalize_source_type_known: "normalize_source_type t p \<in> set known_source_types"
  by (auto simp: normalize_source_type_def Let_def known_source_types_def)

text \<open>
  Collector and Core agree on source types: what the Collector's classifier sends is one of the types Core
  knows, and Core's normalisation keeps it, whatever path it looks at; normalisation always gives a
  known type and is idempotent.
\<close>

theorem collector_and_core_source_types_agree:
  "classify p \<in> set known_source_types
   \<and> normalize_source_type (Some (classify p)) q = classify p
   \<and> normalize_source_type t q \<in> set known_source_types
   \<and> normalize_source_type (Some (normalize_source_type t q)) r = normalize_source_type t q"
proof -
  have "set canonical_source_types = set known_source_types"
    by (auto simp: canonical_source_types_def known_source_types_def)
  then have "classify p \<in> set known_source_types" using classify_canonical by blast
  then show ?thesis by (simp add: known_stable normalize_source_type_known)
qed

end
