(* ===== verification/Chunking.thy ===== *)
theory Chunking
  imports Prelude
begin

text \<open>
  Token counting and chunk splitting (\<open>incidentops/ingestion/chunking/chunker.py\<close>).

  The estimate \<open>int(words * 1.3)\<close> is \<open>words * 13 div 10\<close> and \<open>int(n / 1.3)\<close> is \<open>n * 10\<close> divided by
  13, rounded to zero: the double nearest to 1.3 is off by less than half a unit in the last place,
  so both agree with the floating point results for all sizes below \<open>2 ^ 50\<close>. The \<open>while\<close> loop
  is a partial function: a run that does not end is the value \<open>None\<close>.
\<close>

section \<open>Operations\<close>

definition count_tokens :: "string \<Rightarrow> int" where
  "count_tokens t = int (length (split_words t) * 13 div 10)"

definition words_for_tokens :: "int \<Rightarrow> int" where
  "words_for_tokens n = (if n < 0 then - (- n * 10 div 13) else n * 10 div 13)"

text \<open>\<open>xs[a:b]\<close>: a negative bound counts from the end, both bounds are cut to the list.\<close>

definition slice_bound :: "nat \<Rightarrow> int \<Rightarrow> nat" where
  "slice_bound n i = (if i < 0 then nat (i + int n) else min n (nat i))"

definition py_slice :: "'a list \<Rightarrow> int \<Rightarrow> int \<Rightarrow> 'a list" where
  "py_slice xs a b = (let lo = slice_bound (length xs) a; hi = slice_bound (length xs) b
                      in take (hi - lo) (drop lo xs))"

partial_function (option) split_loop ::
  "int \<Rightarrow> int \<Rightarrow> string list \<Rightarrow> int \<Rightarrow> string list \<Rightarrow> string list option" where
  "split_loop max_words overlap_words words start chunks =
     (if start < int (length words) then
        (let stop = start + max_words in
         split_loop max_words overlap_words words (stop - overlap_words)
           (chunks @ [join_with '' '' (py_slice words start stop)]))
      else Some chunks)"

declare split_loop.simps [code]

definition split_text_by_tokens :: "string \<Rightarrow> int \<Rightarrow> int \<Rightarrow> string list option" where
  "split_text_by_tokens t max_tokens overlap_tokens =
     (let words = split_words t;
          max_words = words_for_tokens max_tokens;
          overlap_words = words_for_tokens overlap_tokens
      in if int (length words) \<le> max_words then Some [t]
         else split_loop max_words overlap_words words 0 [])"

definition default_overlap :: int where
  "default_overlap = 50"

section \<open>The loop ends\<close>

text \<open>The chunk that starts at word \<open>i * step\<close>.\<close>

definition chunk_words :: "nat \<Rightarrow> nat \<Rightarrow> 'a list \<Rightarrow> nat \<Rightarrow> 'a list" where
  "chunk_words width step ws i = take width (drop (i * step) ws)"

lemma py_slice_nonneg:
  "py_slice xs (int a) (int a + int w) = take w (drop a xs)"
proof (cases "a \<le> length xs")
  case True
  have "take (min (length xs) (a + w) - a) (drop a xs) = take w (drop a xs)"
    by (cases "a + w \<le> length xs") (auto simp: min_def)
  with True show ?thesis
    by (simp add: py_slice_def slice_bound_def Let_def min_absorb2 nat_int_add)
next
  case False
  then show ?thesis by (simp add: py_slice_def slice_bound_def Let_def)
qed

lemma split_loop_done: "int (length ws) \<le> start \<Longrightarrow> split_loop mw ov ws start acc = Some acc"
  by (subst split_loop.simps) simp

lemma split_loop_step:
  assumes "i * step < length ws" and "0 < step"
  shows "split_loop (int (step + ov)) (int ov) ws (int (i * step)) acc =
    split_loop (int (step + ov)) (int ov) ws (int (Suc i * step))
      (acc @ [join_with '' '' (chunk_words (step + ov) step ws i)])"
proof -
  have "int (i * step) + int (step + ov) - int ov = int (Suc i * step)" by simp
  moreover have "py_slice ws (int (i * step)) (int (i * step) + int (step + ov)) = chunk_words (step + ov) step ws i"
    by (simp only: py_slice_nonneg chunk_words_def)
  moreover have "int (i * step) < int (length ws)" using assms(1) by linarith
  ultimately show ?thesis by (subst split_loop.simps) (simp only: Let_def if_True)
qed

lemma split_loop_run:
  assumes "0 < step"
  shows "split_loop (int (step + ov)) (int ov) ws (int (i * step)) acc =
    Some (acc @ map (\<lambda>j. join_with '' '' (chunk_words (step + ov) step ws j)) [i..<(length ws + step - 1) div step])"
proof (induction "length ws - i * step" arbitrary: i acc rule: less_induct)
  case less
  show ?case
  proof (cases "i * step < length ws")
    case True
    then have "i < (length ws + step - 1) div step"
      using assms by (simp add: less_eq_div_iff_mult_less_eq Suc_le_eq [symmetric])
    then have "[i..<(length ws + step - 1) div step] = i # [Suc i..<(length ws + step - 1) div step]"
      by (rule upt_conv_Cons)
    moreover have "length ws - Suc i * step < length ws - i * step" using True assms by simp
    ultimately show ?thesis
      using split_loop_step [OF True assms] less [of "Suc i"] by simp
  next
    case False
    then have "(length ws + step - 1) div step \<le> i"
      using assms by (simp add: less_Suc_eq_le [symmetric] div_less_iff_less_mult)
    with False show ?thesis by (simp add: split_loop_done del: of_nat_mult)
  qed
qed


section \<open>What the chunks hold\<close>

lemma words_for_tokens_bound:
  assumes "n \<le> words_for_tokens m" and "0 \<le> m"
  shows "n * 13 div 10 \<le> m"
proof -
  have "n \<le> m * 10 div 13" using assms by (simp add: words_for_tokens_def)
  then have "n * 13 \<le> m * 10 div 13 * 13" by simp
  also have "\<dots> \<le> m * 10" using minus_mod_eq_div_mult [of "m * 10" 13] pos_mod_sign [of 13 "m * 10"] by linarith
  finally have "n * 13 div 10 \<le> m * 10 div 10" by (rule zdiv_mono1) simp
  then show ?thesis by simp
qed

lemma count_tokens_words:
  "int (length (split_words c)) \<le> words_for_tokens m \<Longrightarrow> 0 \<le> m \<Longrightarrow> count_tokens c \<le> m"
  using words_for_tokens_bound [of "int (length (split_words c))" m]
  by (simp add: count_tokens_def zdiv_int)

lemma words_for_tokens_nonneg: "0 \<le> n \<Longrightarrow> 0 \<le> words_for_tokens n"
  by (simp add: words_for_tokens_def)

lemma words_for_tokens_neg: "n < 0 \<Longrightarrow> words_for_tokens n \<le> 0"
proof -
  assume "n < 0"
  then have "0 \<le> (- n * 10) div 13" by (simp add: pos_imp_zdiv_nonneg_iff)
  with \<open>n < 0\<close> show ?thesis by (simp add: words_for_tokens_def)
qed

lemma split_words_chunk:
  "split_words (join_with '' '' (chunk_words w st (split_words t) i)) = chunk_words w st (split_words t) i"
proof (rule split_words_join, rule ballI)
  fix x assume "x \<in> set (chunk_words w st (split_words t) i)"
  then have "x \<in> set (split_words t)" unfolding chunk_words_def by (meson in_set_dropD in_set_takeD)
  then show "x \<noteq> [] \<and> list_all (\<lambda>c. \<not> is_space c) x" by (rule split_words_nonspace)
qed

lemma concat_steps:
  "concat (map (\<lambda>j. take step (drop (j * step) ws)) [0..<n]) = take (n * step) ws"
proof (induction n)
  case (Suc n)
  have "take (Suc n * step) ws = take (n * step) ws @ take step (drop (n * step) ws)"
    using take_add [of "n * step" step ws] by (simp add: add.commute)
  with Suc show ?case by simp
qed simp

lemma concat_chunks:
  assumes "0 < step"
  shows "concat (map (\<lambda>j. take step (chunk_words (step + ov) step ws j)) [0..<(length ws + step - 1) div step]) = ws"
proof -
  have "length ws + step - 1 = (length ws + step - 1) div step * step + (length ws + step - 1) mod step"
    by simp
  moreover have "(length ws + step - 1) mod step < step" using assms by simp
  ultimately have "length ws \<le> (length ws + step - 1) div step * step" by linarith
  then show ?thesis by (simp add: chunk_words_def min_absorb1 concat_steps)
qed

lemma split_text_long:
  assumes "0 \<le> ov" and "words_for_tokens ov < words_for_tokens m"
    and "words_for_tokens m < int (length (split_words t))"
  defines "step \<equiv> nat (words_for_tokens m - words_for_tokens ov)"
  shows "split_text_by_tokens t m ov =
    Some (map (\<lambda>j. join_with '' '' (chunk_words (nat (words_for_tokens m)) step (split_words t) j))
           [0..<(length (split_words t) + step - 1) div step])"
proof -
  let ?ov = "nat (words_for_tokens ov)"
  have ov: "words_for_tokens ov = int ?ov" using words_for_tokens_nonneg [OF assms(1)] by simp
  have mw: "words_for_tokens m = int (step + ?ov)" using assms(2) ov unfolding step_def by linarith
  have "0 < step" using assms(2) unfolding step_def by simp
  from split_loop_run [OF this, of ?ov "split_words t" 0 "[]"]
  have "split_loop (int (step + ?ov)) (int ?ov) (split_words t) 0 [] =
    Some (map (\<lambda>j. join_with '' '' (chunk_words (step + ?ov) step (split_words t) j))
           [0..<(length (split_words t) + step - 1) div step])" by simp
  moreover have "nat (words_for_tokens m) = step + ?ov" unfolding mw by (rule nat_int)
  moreover have "\<not> int (length (split_words t)) \<le> words_for_tokens m" using assms(3) by simp
  ultimately show ?thesis
    by (simp only: split_text_by_tokens_def Let_def mw [symmetric] ov [symmetric] if_False)
qed

lemma limit_nonneg: "0 \<le> ov \<Longrightarrow> words_for_tokens ov < words_for_tokens m \<Longrightarrow> 0 \<le> m"
  using words_for_tokens_nonneg [of ov] words_for_tokens_neg [of m] by linarith

lemma split_text_facts:
  assumes "0 \<le> ov" and "words_for_tokens ov < words_for_tokens m"
  shows "\<exists>cs. split_text_by_tokens t m ov = Some cs \<and> (\<forall>c \<in> set cs. count_tokens c \<le> m)
    \<and> (if int (length (split_words t)) \<le> words_for_tokens m then cs = [t]
       else concat (map (\<lambda>c. take (nat (words_for_tokens m - words_for_tokens ov)) (split_words c)) cs) = split_words t)"
proof (cases "int (length (split_words t)) \<le> words_for_tokens m")
  case True
  have "0 \<le> m" using assms by (rule limit_nonneg)
  with True have "count_tokens t \<le> m" by (intro count_tokens_words)
  with True show ?thesis by (simp add: split_text_by_tokens_def Let_def)
next
  case False
  let ?step = "nat (words_for_tokens m - words_for_tokens ov)" and ?ws = "split_words t"
  let ?cs = "map (\<lambda>j. join_with '' '' (chunk_words (nat (words_for_tokens m)) ?step ?ws j)) [0..<(length ?ws + ?step - 1) div ?step]"
  have split: "split_text_by_tokens t m ov = Some ?cs"
    using assms False by (intro split_text_long) auto
  have "0 \<le> m" using assms by (rule limit_nonneg)
  then have "count_tokens c \<le> m" if "c \<in> set ?cs" for c
  proof -
    from that obtain j where c: "c = join_with '' '' (chunk_words (nat (words_for_tokens m)) ?step ?ws j)" by auto
    have "length (split_words c) \<le> nat (words_for_tokens m)"
      unfolding c split_words_chunk by (simp add: chunk_words_def)
    with \<open>0 \<le> m\<close> show ?thesis
      using words_for_tokens_nonneg [of m] by (intro count_tokens_words) linarith+
  qed
  moreover have "concat (map (\<lambda>c. take ?step (split_words c)) ?cs) = ?ws"
  proof -
    have width: "nat (words_for_tokens m) = ?step + nat (words_for_tokens ov)"
      using assms words_for_tokens_nonneg [of ov] by linarith
    have "0 < ?step" using assms by simp
    from concat_chunks [OF this, of "nat (words_for_tokens ov)" ?ws] show ?thesis
      by (simp add: o_def split_words_chunk width)
  qed
  ultimately show ?thesis using split False by auto
qed

lemma split_text_within:
  assumes "split_text_by_tokens t m default_overlap = Some cs" and "50 < m" and "c \<in> set cs"
  shows "count_tokens c \<le> m"
proof -
  have "words_for_tokens default_overlap < words_for_tokens m"
    using assms(2) zdiv_mono1 [of 510 "m * 10" 13] by (simp add: words_for_tokens_def default_overlap_def)
  then show ?thesis using split_text_facts [of default_overlap m t] assms by (auto simp: default_overlap_def)
qed

text \<open>
  C21. Splitting ends and loses nothing: when the overlap is smaller than the chunk (any limit above 50 with the
  default overlap), the loop returns; every chunk is within the token limit; a text that fits is one
  unchanged chunk, and otherwise the chunks without their overlaps are, in order, exactly the words
  of the text.
\<close>

theorem split_text_total:
  assumes "0 \<le> ov" and "words_for_tokens ov < words_for_tokens m"
  shows "\<exists>cs. split_text_by_tokens t m ov = Some cs \<and> (\<forall>c \<in> set cs. count_tokens c \<le> m)
    \<and> (if int (length (split_words t)) \<le> words_for_tokens m then cs = [t]
       else concat (map (\<lambda>c. take (nat (words_for_tokens m - words_for_tokens ov)) (split_words c)) cs) = split_words t)"
  using assms by (rule split_text_facts)

lemma split_text_total_witness:
  "\<exists>cs. split_text_by_tokens ''a b c d e'' 6 2 = Some cs \<and> (\<forall>c \<in> set cs. count_tokens c \<le> 6)
    \<and> (if int (length (split_words ''a b c d e'')) \<le> words_for_tokens 6 then cs = [''a b c d e'']
       else concat (map (\<lambda>c. take (nat (words_for_tokens 6 - words_for_tokens 2)) (split_words c)) cs) = split_words ''a b c d e'')"
  by (rule split_text_total) (simp_all add: words_for_tokens_def)

section \<open>The loop that does not end\<close>

lemma split_loop_moves_on:
  assumes "split_loop mw ov ws start acc = Some cs" and "mw \<le> ov"
  shows "int (length ws) \<le> start"
proof -
  have "mw \<le> ov \<longrightarrow> int (length ws) \<le> start" using assms(1)
  proof (rule split_loop.raw_induct [where P = "\<lambda>mw ov ws start acc cs. mw \<le> ov \<longrightarrow> int (length ws) \<le> start", rotated])
    fix loop mw ov ws start acc cs
    assume ih: "\<And>mw ov ws start acc cs. loop mw ov ws start acc = Some cs \<Longrightarrow> mw \<le> ov \<longrightarrow> int (length ws) \<le> start"
      and body: "(if start < int (length ws) then let stop = start + mw in
          loop mw ov ws (stop - ov) (acc @ [join_with '' '' (py_slice ws start stop)]) else Some acc) = Some cs"
    show "mw \<le> ov \<longrightarrow> int (length ws) \<le> start"
    proof (cases "start < int (length ws)")
      case True
      with body have "loop mw ov ws (start + mw - ov) (acc @ [join_with '' '' (py_slice ws start (start + mw))]) = Some cs"
        by (simp add: Let_def)
      from ih [OF this] True show ?thesis by linarith
    qed simp
  qed
  with assms(2) show ?thesis by simp
qed

lemma words_for_small: "m \<le> 50 \<Longrightarrow> words_for_tokens m \<le> words_for_tokens 50"
  using zdiv_mono1 [of "m * 10" 500 13] words_for_tokens_neg [of m] words_for_tokens_nonneg [of 50]
  by (cases "m < 0") (simp_all add: words_for_tokens_def)

text \<open>
  The loop does not end when the chunk is not larger than the overlap: with a token limit of 50 or less, the
  default overlap and a non-empty text of more words than fit one chunk, \<open>split_text_by_tokens\<close>
  never returns.
\<close>

theorem split_text_diverges:
  assumes "m \<le> 50" and "words_for_tokens m < int (length (split_words t))" and "split_words t \<noteq> []"
  shows "split_text_by_tokens t m default_overlap = None"
proof (rule ccontr)
  assume "split_text_by_tokens t m default_overlap \<noteq> None"
  then obtain cs where "split_loop (words_for_tokens m) (words_for_tokens 50) (split_words t) 0 [] = Some cs"
    using assms(2) by (auto simp: split_text_by_tokens_def default_overlap_def Let_def)
  then have "int (length (split_words t)) \<le> 0"
    using words_for_small [OF assms(1)] by (rule split_loop_moves_on)
  with assms(3) show False by simp
qed

lemma split_text_diverges_witness: "split_text_by_tokens ''a b c'' 2 default_overlap = None"
  by (rule split_text_diverges) (simp, code_simp, code_simp)

end
