(* ===== verification/Normalized.thy ===== *)
theory Normalized
  imports Regex Settings Taxonomy
begin

text \<open>
  Documents on their way into the index (\<open>incidentops/ingestion/normalized.py\<close>,
  \<open>incidentops/ingestion/schemas.py\<close>): the document and batch records, the compact JSON size,
  and the validation every document passes twice, at the API and in the worker. Metadata is a
  JSON object, as the request parser delivers it. The ratio of control characters is compared
  with one in twenty by cross-multiplication.
\<close>

section \<open>Data\<close>

record normalized_document =
  nd_external_id :: string
  nd_path :: string
  nd_source_type :: string
  nd_content :: string
  nd_content_hash :: string
  nd_metadata :: "json dict"
  nd_size_bytes :: "int option"
  nd_modified_at :: "int option"

record document_error =
  de_external_id :: "string option"
  de_path :: "string option"
  de_code :: string
  de_error :: string
  de_message :: "string option"

record batch_result =
  br_received :: int
  br_created :: int
  br_updated :: int
  br_skipped_unchanged :: int
  br_skipped_invalid :: int
  br_chunks_created :: int
  br_errors :: "document_error list"
  br_source_type_counts :: "int dict"
  br_chunk_type_counts :: "int dict"
  br_diagnostics :: "json dict"
  br_coverage :: "json dict"
  br_warnings :: "string list"
  br_embedding_backend :: "string option"

record raw_chunk =
  rc_text :: string
  rc_chunk_type :: string
  rc_source_type :: string
  rc_document_path :: string
  rc_doc_type :: string
  rc_service_name :: json    \<comment> \<open>whatever the metadata held, \<open>JNull\<close> for none\<close>
  rc_endpoint :: "string option"
  rc_deploy_hash :: json
  rc_timestamp_start :: "int option"
  rc_timestamp_end :: "int option"
  rc_section_title :: "string option"
  rc_start_line :: "int option"
  rc_end_line :: "int option"
  rc_metadata :: "json dict"

section \<open>The size of a JSON value\<close>

text \<open>
  \<open>json.dumps\<close> with its ASCII escapes; the separators and the sorting of keys are arguments.
\<close>

definition hex_digit :: "nat \<Rightarrow> char" where
  "hex_digit n = (if n < 10 then char_of (48 + n) else char_of (87 + n))"

definition json_escape :: "char \<Rightarrow> string" where
  "json_escape c =
     (if cp c = 34 then [CHR 0x5C, c] else if cp c = 92 then [CHR 0x5C, c]
      else if cp c = 10 then [CHR 0x5C, CHR ''n''] else if cp c = 13 then [CHR 0x5C, CHR ''r'']
      else if cp c = 9 then [CHR 0x5C, CHR ''t''] else if cp c = 12 then [CHR 0x5C, CHR ''f'']
      else if cp c = 8 then [CHR 0x5C, CHR ''b'']
      else if in_range 32 126 c then [c]
      else CHR 0x5C # ''u00'' @ [hex_digit (cp c div 16), hex_digit (cp c mod 16)])"

definition json_string :: "string \<Rightarrow> string" where
  "json_string s = [CHR 0x22] @ concat (map json_escape s) @ [CHR 0x22]"

fun json_sort :: "json \<Rightarrow> json" where
  "json_sort (JObj d) = JObj (dict_sorted (map (\<lambda>(k, v). (k, json_sort v)) d))"
| "json_sort (JList xs) = JList (map json_sort xs)"
| "json_sort v = v"

fun json_dumps :: "string \<Rightarrow> string \<Rightarrow> json \<Rightarrow> string" where
  "json_dumps isep ksep JNull = ''null''"
| "json_dumps isep ksep (JBool b) = (if b then ''true'' else ''false'')"
| "json_dumps isep ksep (JInt n) = str_of_int n"
| "json_dumps isep ksep (JFloat _ t) = t"
| "json_dumps isep ksep (JStr s) = json_string s"
| "json_dumps isep ksep (JList xs) = ''['' @ join_with isep (map (json_dumps isep ksep) xs) @ '']''"
| "json_dumps isep ksep (JObj d) =
     ''{'' @ join_with isep (map (\<lambda>(k, v). json_string k @ ksep @ json_dumps isep ksep v) d) @ ''}''"

definition safe_json_size :: "json \<Rightarrow> nat" where
  "safe_json_size v = utf8_len (json_dumps '','' '':'' (json_sort v))"

section \<open>Checks\<close>

definition path_is_safe :: "string \<Rightarrow> bool \<Rightarrow> bool" where
  "path_is_safe path allow_absolute =
     (if CHR 0x00 \<in> set path then False
      else if path_is_absolute path \<and> \<not> allow_absolute then False
      else \<not> list_ex (\<lambda>part. part \<in> set [''..'', '''']) (path_parts path))"

fun metadata_items_error :: "json dict \<Rightarrow> (string \<times> string) option" where
  "metadata_items_error [] = None"
| "metadata_items_error ((k, v) # d) =
     (if length k > 256 then Some (''metadata_too_large'', ''metadata key exceeds configured length limit'')
      else if (case v of JStr s \<Rightarrow> utf8_len s > 8192 | _ \<Rightarrow> False)
      then Some (''metadata_too_large'', ''metadata value exceeds configured length limit'')
      else metadata_items_error d)"

definition validate_metadata :: "json dict \<Rightarrow> int \<Rightarrow> (string \<times> string) option" where
  "validate_metadata metadata max_bytes =
     (if int (safe_json_size (JObj metadata)) > max_bytes
      then Some (''metadata_too_large'', ''metadata exceeds configured size limit'')
      else metadata_items_error metadata)"

definition is_control_char :: "char \<Rightarrow> bool" where
  "is_control_char c \<longleftrightarrow> in_range 0 8 c \<or> cp c = 11 \<or> cp c = 12 \<or> in_range 14 31 c"

definition looks_binary :: "string \<Rightarrow> bool" where
  "looks_binary content =
     (if CHR 0x00 \<in> set content then True
      else let sample = take 4096 content in
        if sample = [] then False
        else 20 * length (filter is_control_char sample) > max (length sample) 1)"

definition rx_sha256 :: rx where
  "rx_sha256 = rx_seq [RTextStart, rx_opt (rx_lit ''sha256:''), rx_times 64 64 (RSet c_hex), RTextEnd]"

definition is_sha256 :: "string \<Rightarrow> bool" where
  "is_sha256 s \<longleftrightarrow> re_match rx_sha256 s \<noteq> None"

definition remove_prefix :: "string \<Rightarrow> string \<Rightarrow> string" where
  "remove_prefix p s = (if starts_with s p then drop (length p) s else s)"

definition normalize_content_hash :: "string \<Rightarrow> string" where
  "normalize_content_hash h = remove_prefix ''sha256:'' (py_lower (py_strip h))"

definition none_if_empty :: "string \<Rightarrow> string option" where
  "none_if_empty s = (if s = [] then None else Some s)"

definition doc_error :: "normalized_document \<Rightarrow> string \<Rightarrow> string \<Rightarrow> document_error" where
  "doc_error d code message =
     \<lparr>de_external_id = none_if_empty (nd_external_id d), de_path = none_if_empty (nd_path d),
      de_code = normalize_failure_code (Some code), de_error = message, de_message = Some message\<rparr>"

definition clean_path :: "string \<Rightarrow> string" where
  "clean_path p = replace_char CHR 0x5C CHR ''/'' (py_strip p)"

definition validate_normalized_document ::
  "normalized_document \<Rightarrow> settings \<Rightarrow> bool \<Rightarrow> document_error + normalized_document" where
  "validate_normalized_document d s allow_absolute_path =
     (let external_id = py_strip (nd_external_id d);
          path = clean_path (nd_path d);
          source_type = normalize_source_type (Some (nd_source_type d)) path;
          content_bytes = int (utf8_len (nd_content d));
          declared_size = (case nd_size_bytes d of None \<Rightarrow> content_bytes | Some n \<Rightarrow> n);
          fail = (\<lambda>code message. Inl (doc_error d code message))
      in if external_id = [] then fail ''invalid_external_id'' ''external_id is required''
         else if int (length external_id) > max_external_id_length s
         then fail ''external_id_too_long'' ''external_id exceeds configured length limit''
         else if \<not> path_is_safe (replace_char CHR 0x5C CHR ''/'' external_id) allow_absolute_path
         then fail ''unsafe_external_id'' ''external_id is unsafe; use a source-relative identifier''
         else if path = [] then fail ''invalid_path'' ''path is required''
         else if int (length path) > max_path_length s then fail ''path_too_long'' ''path exceeds configured length limit''
         else if \<not> path_is_safe path allow_absolute_path
         then fail ''unsafe_path'' ''path is unsafe; use a source-relative path''
         else if py_strip (nd_content d) = [] then fail ''empty_content'' ''document content is empty''
         else if declared_size < 0 then fail ''invalid_size'' ''size_bytes must be non-negative''
         else if content_bytes > max_document_bytes s \<or> declared_size > max_document_bytes s
         then fail ''document_too_large'' ''document exceeds configured byte limit''
         else if \<not> is_sha256 (py_strip (nd_content_hash d))
         then fail ''invalid_content_hash'' ''content_hash must be a sha256 hex digest''
         else case validate_metadata (nd_metadata d) (max_metadata_bytes s) of
           Some (code, message) \<Rightarrow> fail code message
         | None \<Rightarrow>
             if looks_binary (nd_content d) then fail ''binary_content'' ''document appears to contain binary data''
             else Inr (d\<lparr>nd_external_id := external_id, nd_path := path, nd_source_type := source_type,
                         nd_content_hash := normalize_content_hash (nd_content_hash d)\<rparr>))"

section \<open>Strings that are already clean\<close>

lemma is_space_slashes [simp]: "is_space (if c = CHR 0x5C then CHR ''/'' else c) = is_space c"
  by (simp add: is_space_def in_range_def cp_def)

lemma py_strip_replace_slash:
  "py_strip (replace_char CHR 0x5C CHR ''/'' s) = replace_char CHR 0x5C CHR ''/'' (py_strip s)"
  by (simp add: py_strip_def replace_char_def dropWhile_map rev_map o_def)

lemma replace_char_idem [simp]: "a \<noteq> b \<Longrightarrow> replace_char a b (replace_char a b s) = replace_char a b s"
  by (simp add: replace_char_def)

lemma clean_path_idem [simp]: "clean_path (clean_path p) = clean_path p"
  by (simp add: clean_path_def py_strip_replace_slash)

section \<open>Content hashes\<close>

definition hash_digits :: "string \<Rightarrow> bool" where
  "hash_digits h \<longleftrightarrow> length h = 64 \<and> list_all c_hex h"

lemma is_sha256_iff:
  "is_sha256 s \<longleftrightarrow> (\<exists>h t. (s = h @ t \<or> s = ''sha256:'' @ h @ t) \<and> hash_digits h \<and> text_end t)"
proof -
  let ?tail = "rx_seq [rx_times 64 64 (RSet c_hex), RTextEnd]"
  have opt: "rx_m (rx_opt (rx_lit ''sha256:'')) ([], s, []) =
      (if starts_with s ''sha256:'' then [(rev ''sha256:'', drop 7 s, []), ([], s, [])] else [([], s, [])])"
  proof (cases "starts_with s ''sha256:''")
    case True
    then obtain r where s: "s = ''sha256:'' @ r" by (auto simp: starts_with_iff)
    then show ?thesis unfolding rx_opt_def rx_m.simps(5) by (simp add: rx_m_lit)
  next
    case False
    then show ?thesis unfolding rx_opt_def rx_m.simps(5) by (simp add: rx_m_lit)
  qed
  have tail: "rx_m ?tail (b, r, []) \<noteq> [] \<longleftrightarrow> (\<exists>h t. r = h @ t \<and> hash_digits h \<and> text_end t)" for b r
    unfolding exact_tail hash_digits_def by (simp only: conj_assoc)
  have "is_sha256 s \<longleftrightarrow> rx_m rx_sha256 ([], s, []) \<noteq> []"
    by (cases "rx_m rx_sha256 ([], s, [])") (auto simp: is_sha256_def re_match_def match_at_def)
  also have "rx_m rx_sha256 ([], s, []) = concat (map (rx_m ?tail) (rx_m (rx_opt (rx_lit ''sha256:'')) ([], s, [])))"
    unfolding rx_sha256_def rx_seq.simps rx_m.simps(3) by simp
  also have "\<dots> \<noteq> [] \<longleftrightarrow> (starts_with s ''sha256:'' \<and> rx_m ?tail (rev ''sha256:'', drop 7 s, []) \<noteq> [])
      \<or> rx_m ?tail ([], s, []) \<noteq> []"
    unfolding opt by (simp only: list.map concat.simps append_is_Nil_conv split: if_split) blast
  also have "starts_with s ''sha256:'' \<and> rx_m ?tail (rev ''sha256:'', drop 7 s, []) \<noteq> [] \<longleftrightarrow>
      (\<exists>h t. s = ''sha256:'' @ h @ t \<and> hash_digits h \<and> text_end t)"
    unfolding tail starts_with_iff by fastforce
  finally show ?thesis unfolding tail by blast
qed


definition lower_hex :: "char \<Rightarrow> bool" where
  "lower_hex c \<longleftrightarrow> in_range 48 57 c \<or> in_range 97 102 c"

lemma lower_hex_char: "c_hex c \<Longrightarrow> lower_hex (lower_char c)"
  using cp_char_of [of "cp c + 32"]
  by (auto simp: c_hex_def lower_hex_def lower_char_def is_digit_def in_range_def is_upper_cased_def)

lemma lower_hex_fixed: "lower_hex c \<Longrightarrow> lower_char c = c \<and> c_hex c \<and> \<not> is_space c \<and> c \<noteq> CHR ''s''"
  by (auto simp: lower_hex_def lower_char_def c_hex_def is_digit_def is_space_def in_range_def is_upper_cased_def cp_def)

definition normal_hash :: "string \<Rightarrow> bool" where
  "normal_hash h \<longleftrightarrow> length h = 64 \<and> list_all lower_hex h"

lemma normal_hash_fixed:
  assumes "normal_hash h"
  shows "is_sha256 (py_strip h)" and "normalize_content_hash h = h"
proof -
  have ns: "py_strip h = h"
    using assms by (intro py_strip_nonspace) (auto simp: normal_hash_def list_all_iff lower_hex_fixed)
  have "hash_digits h" using assms by (auto simp: normal_hash_def hash_digits_def list_all_iff lower_hex_fixed)
  then have "is_sha256 h" unfolding is_sha256_iff text_end_def by (metis append_Nil2)
  with ns show "is_sha256 (py_strip h)" by simp
  have "py_lower h = h" using assms by (auto simp: py_lower_def normal_hash_def list_all_iff lower_hex_fixed map_idI)
  moreover have "\<not> starts_with h ''sha256:''"
  proof
    assume "starts_with h ''sha256:''"
    then have "CHR ''s'' \<in> set h" by (auto simp: starts_with_iff)
    with assms show False by (auto simp: normal_hash_def list_all_iff dest: lower_hex_fixed)
  qed
  ultimately show "normalize_content_hash h = h" by (simp add: normalize_content_hash_def ns remove_prefix_def)
qed

lemma text_end_strip: "py_strip s = u @ t \<Longrightarrow> text_end t \<Longrightarrow> t = []"
proof (rule ccontr)
  assume s: "py_strip s = u @ t" and "text_end t" "t \<noteq> []"
  then obtain c where t: "t = [c]" and "cp c = 10" by (auto simp: text_end_def)
  then have "is_space c" by (simp add: is_space_def in_range_def)
  have "rev (py_strip s) = c # rev u" using s t by simp
  then have "dropWhile is_space (rev (dropWhile is_space s)) = c # rev u" by (simp add: py_strip_def)
  with \<open>is_space c\<close> hd_dropWhile [of is_space "rev (dropWhile is_space s)"] show False by simp
qed

lemma normalize_hash_normal:
  assumes "is_sha256 (py_strip h)"
  shows "normal_hash (normalize_content_hash h)"
proof -
  from assms obtain d t where s: "py_strip h = d @ t \<or> py_strip h = (''sha256:'' @ d) @ t"
    and d: "hash_digits d" and "text_end t" unfolding is_sha256_iff by fastforce
  then have t: "t = []" using text_end_strip by blast
  have nd: "normal_hash (py_lower d)"
    using d by (auto simp: hash_digits_def normal_hash_def list_all_iff py_lower_def lower_hex_char)
  have no: "\<not> starts_with (py_lower d) ''sha256:''"
  proof
    assume "starts_with (py_lower d) ''sha256:''"
    then have "CHR ''s'' \<in> set (py_lower d)" by (auto simp: starts_with_iff)
    with nd show False by (auto simp: normal_hash_def list_all_iff dest: lower_hex_fixed)
  qed
  have pre: "py_lower (''sha256:'' @ d) = ''sha256:'' @ py_lower d"
    by (simp add: py_lower_def lower_char_def is_upper_cased_def in_range_def cp_def)
  from s t have "py_lower (py_strip h) = py_lower d \<or> py_lower (py_strip h) = ''sha256:'' @ py_lower d"
    using pre by auto
  then have "normalize_content_hash h = py_lower d"
    unfolding normalize_content_hash_def remove_prefix_def using no by auto
  with nd show ?thesis by simp
qed

section \<open>What validation accepts\<close>

definition accepted_document :: "settings \<Rightarrow> bool \<Rightarrow> normalized_document \<Rightarrow> bool" where
  "accepted_document s allow_absolute d \<longleftrightarrow>
     nd_external_id d \<noteq> [] \<and> py_strip (nd_external_id d) = nd_external_id d
     \<and> int (length (nd_external_id d)) \<le> max_external_id_length s
     \<and> path_is_safe (replace_char CHR 0x5C CHR ''/'' (nd_external_id d)) allow_absolute
     \<and> nd_path d \<noteq> [] \<and> clean_path (nd_path d) = nd_path d \<and> int (length (nd_path d)) \<le> max_path_length s
     \<and> path_is_safe (nd_path d) allow_absolute
     \<and> nd_source_type d \<in> set known_source_types
     \<and> py_strip (nd_content d) \<noteq> [] \<and> int (utf8_len (nd_content d)) \<le> max_document_bytes s
     \<and> (case nd_size_bytes d of None \<Rightarrow> True | Some n \<Rightarrow> 0 \<le> n \<and> n \<le> max_document_bytes s)
     \<and> normal_hash (nd_content_hash d)
     \<and> int (safe_json_size (JObj (nd_metadata d))) \<le> max_metadata_bytes s
     \<and> (\<forall>(k, v) \<in> set (nd_metadata d). length k \<le> 256 \<and> (\<forall>t. v = JStr t \<longrightarrow> utf8_len t \<le> 8192))
     \<and> \<not> looks_binary (nd_content d)"

text \<open>A safe path has no parent step, whatever part of it one looks at, and no NUL.\<close>

lemma path_is_safe_iff:
  "path_is_safe p ab \<longleftrightarrow> CHR 0x00 \<notin> set p \<and> (path_is_absolute p \<longrightarrow> ab) \<and> ''..'' \<notin> set (split_on CHR ''/'' p)"
  by (auto simp: path_is_safe_def path_parts_def list_ex_iff)

lemma metadata_items_ok:
  "metadata_items_error d = None \<longleftrightarrow>
     (\<forall>(k, v) \<in> set d. length k \<le> 256 \<and> (\<forall>t. v = JStr t \<longrightarrow> utf8_len t \<le> 8192))"
  by (induction d rule: metadata_items_error.induct) (auto split: json.splits)

lemma validate_metadata_ok:
  "validate_metadata d n = None \<longleftrightarrow> int (safe_json_size (JObj d)) \<le> n \<and>
     (\<forall>(k, v) \<in> set d. length k \<le> 256 \<and> (\<forall>t. v = JStr t \<longrightarrow> utf8_len t \<le> 8192))"
  by (simp add: validate_metadata_def metadata_items_ok)

lemma validate_Inr:
  "validate_normalized_document d s ab = Inr e \<longleftrightarrow>
     e = d\<lparr>nd_external_id := py_strip (nd_external_id d), nd_path := clean_path (nd_path d),
           nd_source_type := normalize_source_type (Some (nd_source_type d)) (clean_path (nd_path d)),
           nd_content_hash := normalize_content_hash (nd_content_hash d)\<rparr>
     \<and> py_strip (nd_external_id d) \<noteq> []
     \<and> int (length (py_strip (nd_external_id d))) \<le> max_external_id_length s
     \<and> path_is_safe (replace_char CHR 0x5C CHR ''/'' (py_strip (nd_external_id d))) ab
     \<and> clean_path (nd_path d) \<noteq> [] \<and> int (length (clean_path (nd_path d))) \<le> max_path_length s
     \<and> path_is_safe (clean_path (nd_path d)) ab
     \<and> py_strip (nd_content d) \<noteq> [] \<and> int (utf8_len (nd_content d)) \<le> max_document_bytes s
     \<and> (case nd_size_bytes d of None \<Rightarrow> True | Some n \<Rightarrow> 0 \<le> n \<and> n \<le> max_document_bytes s)
     \<and> is_sha256 (py_strip (nd_content_hash d))
     \<and> validate_metadata (nd_metadata d) (max_metadata_bytes s) = None
     \<and> \<not> looks_binary (nd_content d)"
  unfolding validate_normalized_document_def Let_def
  by (auto split: option.splits if_splits)

lemma accepted_is_fixed: "accepted_document s ab d \<Longrightarrow> validate_normalized_document d s ab = Inr d"
  by (simp add: validate_Inr accepted_document_def validate_metadata_ok known_stable normal_hash_fixed)

lemma validate_accepts: "validate_normalized_document d s ab = Inr e \<Longrightarrow> accepted_document s ab e"
  by (simp add: validate_Inr accepted_document_def validate_metadata_ok normalize_source_type_known normalize_hash_normal)

text \<open>
  C19. Validation is sound and stable: a document it accepts has a stripped identifier and a relative path
  without parent steps, a known source type, non-blank content and metadata within the limits, a
  lower-case SHA-256 digest; the worker's second validation of a queued document gives the same
  document back; content, metadata and times are never altered.
\<close>

theorem validation_sound_and_stable:
  assumes "validate_normalized_document d s ab = Inr e"
  shows "accepted_document s ab e \<and> validate_normalized_document e s ab = Inr e
    \<and> nd_content e = nd_content d \<and> nd_metadata e = nd_metadata d
    \<and> nd_size_bytes e = nd_size_bytes d \<and> nd_modified_at e = nd_modified_at d"
proof -
  have "accepted_document s ab e" using assms by (rule validate_accepts)
  moreover have "validate_normalized_document e s ab = Inr e" using calculation by (rule accepted_is_fixed)
  moreover have "nd_content e = nd_content d \<and> nd_metadata e = nd_metadata d
    \<and> nd_size_bytes e = nd_size_bytes d \<and> nd_modified_at e = nd_modified_at d"
    using assms unfolding validate_Inr by (elim conjE) simp
  ultimately show ?thesis by blast
qed

definition sample_document :: normalized_document where
  "sample_document =
     \<lparr>nd_external_id = ''svc/a.log'', nd_path = ''svc/a.log'', nd_source_type = ''logs'', nd_content = ''boom'',
      nd_content_hash = replicate 64 CHR ''a'', nd_metadata = [(''service_name'', JStr ''svc'')],
      nd_size_bytes = Some 4, nd_modified_at = None\<rparr>"

lemma sample_document_accepted:
  "validate_normalized_document sample_document (default_settings ''host'') False = Inr sample_document"
proof (rule accepted_is_fixed)
  have "max_external_id_length (default_settings ''host'') = 1024 \<and> max_path_length (default_settings ''host'') = 2048
    \<and> max_document_bytes (default_settings ''host'') = 2000000 \<and> max_metadata_bytes (default_settings ''host'') = 64000"
    by (simp add: default_settings_def)
  moreover have "py_strip ''svc/a.log'' = ''svc/a.log'' \<and> clean_path ''svc/a.log'' = ''svc/a.log''
    \<and> path_is_safe ''svc/a.log'' False \<and> path_is_safe (replace_char CHR 0x5C CHR ''/'' ''svc/a.log'') False
    \<and> py_strip ''boom'' = ''boom'' \<and> utf8_len ''boom'' = 4
    \<and> safe_json_size (JObj [(''service_name'', JStr ''svc'')]) = 22 \<and> utf8_len ''svc'' = 3 \<and> \<not> looks_binary ''boom''
    \<and> ''logs'' \<in> set known_source_types"
    by code_simp
  moreover have "normal_hash (replicate 64 CHR ''a'')"
    by (simp add: normal_hash_def list_all_iff lower_hex_def in_range_def cp_def)
  ultimately show "accepted_document (default_settings ''host'') False sample_document"
    by (simp add: accepted_document_def sample_document_def)
qed

lemma validation_sound_and_stable_witness:
  "accepted_document (default_settings ''host'') False sample_document
    \<and> validate_normalized_document sample_document (default_settings ''host'') False = Inr sample_document
    \<and> nd_content sample_document = nd_content sample_document \<and> nd_metadata sample_document = nd_metadata sample_document
    \<and> nd_size_bytes sample_document = nd_size_bytes sample_document \<and> nd_modified_at sample_document = nd_modified_at sample_document"
  using validation_sound_and_stable [OF sample_document_accepted] .

end
