(* ===== verification/VectorStore.thy ===== *)
theory VectorStore
  imports Models Settings Normalized
begin

text \<open>
  The vector index (\<open>incidentops/retrieval/vector_store.py\<close>): a REST adapter for Qdrant. A request
  is an entry of the session's trace; the service is the parameter \<open>http\<close>, which answers a status and
  a body (no body: the body is not JSON) or no response at all (\<open>httpx.HTTPError\<close>). The API key
  header and the timeout are not part of a request here. The last part is the payload of a point.
\<close>

section \<open>Text of a JSON value\<close>

text \<open>\<open>str(v)\<close>: the value itself for a string, Python's notation otherwise.\<close>

definition is_printable :: "char \<Rightarrow> bool" where
  "is_printable c \<longleftrightarrow> in_range 32 126 c \<or> (in_range 161 255 c \<and> cp c \<noteq> 173)"

definition repr_char :: "char \<Rightarrow> char \<Rightarrow> string" where
  "repr_char q c =
     (if c = q \<or> cp c = 92 then [CHR 0x5C, c]
      else if cp c = 10 then [CHR 0x5C, CHR ''n''] else if cp c = 13 then [CHR 0x5C, CHR ''r'']
      else if cp c = 9 then [CHR 0x5C, CHR ''t'']
      else if is_printable c then [c]
      else CHR 0x5C # CHR ''x'' # [hex_digit (cp c div 16), hex_digit (cp c mod 16)])"

definition repr_string :: "string \<Rightarrow> string" where
  "repr_string s = (let q = (if CHR 0x27 \<in> set s \<and> CHR 0x22 \<notin> set s then CHR 0x22 else CHR 0x27)
                    in [q] @ concat (map (repr_char q) s) @ [q])"

fun py_repr :: "json \<Rightarrow> string" where
  "py_repr JNull = ''None''"
| "py_repr (JBool b) = (if b then ''True'' else ''False'')"
| "py_repr (JInt n) = str_of_int n"
| "py_repr (JFloat _ t) = t"
| "py_repr (JStr s) = repr_string s"
| "py_repr (JList xs) = ''['' @ join_with '', '' (map py_repr xs) @ '']''"
| "py_repr (JObj d) = ''{'' @ join_with '', '' (map (\<lambda>(k, v). repr_string k @ '': '' @ py_repr v) d) @ ''}''"

definition py_str :: "json \<Rightarrow> string" where
  "py_str v = (case v of JStr s \<Rightarrow> s | _ \<Rightarrow> py_repr v)"

text \<open>\<open>v or w\<close>, and \<open>d.get(k)\<close> without a default.\<close>

definition json_or :: "json \<Rightarrow> json \<Rightarrow> json" where
  "json_or v w = (if truthy v then v else w)"

abbreviation get_or_none :: "json dict \<Rightarrow> string \<Rightarrow> json" where
  "get_or_none d k \<equiv> dict_get_or JNull d k"

definition json_get :: "json \<Rightarrow> string \<Rightarrow> json \<Rightarrow> json result" where
  "json_get v k dflt = (case v of JObj d \<Rightarrow> Inr (dict_get_or dflt d k) | _ \<Rightarrow> Inl (OtherError ''AttributeError'' ''get''))"

section \<open>The adapter\<close>

type_synonym pyfloat = "rat \<times> string"    \<comment> \<open>value and printed text\<close>
type_synonym http_reply = "(nat \<times> json option) option"
type_synonym 'a dbact = "(db, 'a) act"

definition filter_fields :: "string list" where
  "filter_fields = [''project_id'', ''source_id'', ''document_id'', ''source_type'', ''chunk_type'', ''path'', ''language'',
     ''symbol_name'', ''package_name'', ''service_name'', ''endpoint'', ''commit_sha'', ''deploy_hash'', ''content_hash'',
     ''index_version'']"

definition rstrip_char :: "char \<Rightarrow> string \<Rightarrow> string" where
  "rstrip_char c s = rev (dropWhile (\<lambda>d. d = c) (rev s))"

definition base_url :: "settings \<Rightarrow> string result" where
  "base_url cfg = (let configured = rstrip_char CHR ''/'' (py_strip (qdrant_url cfg)) in
     if configured = [] then Inl (VectorStoreError ''Qdrant URL is not configured'') else Inr configured)"

definition response_ok :: "nat \<Rightarrow> bool" where
  "response_ok status \<longleftrightarrow> 200 \<le> status \<and> status < 300"

definition raise_for_status :: "nat \<Rightarrow> string \<Rightarrow> unit dbact" where
  "raise_for_status status operation =
     guard_act (response_ok status) (VectorStoreError (''Qdrant '' @ operation @ '' failed: HTTP '' @ digits_of status))"

definition collection_url :: "settings \<Rightarrow> string \<Rightarrow> string \<Rightarrow> string" where
  "collection_url cfg base rest = base @ ''/collections/'' @ qdrant_collection cfg @ rest"

definition health :: "http_reply service \<Rightarrow> settings \<Rightarrow> bool dbact" where
  "health http cfg = (case base_url cfg of
      Inl e \<Rightarrow> ret False
    | Inr base \<Rightarrow> bind_act (call http (Http ''GET'' (base @ ''/healthz'') JNull))
        (\<lambda>r. ret (case r of None \<Rightarrow> False | Some (status, _) \<Rightarrow> status = 200)))"

definition collection_dimension :: "json \<Rightarrow> int option result" where
  "collection_dimension payload =
     rbind (json_get payload ''result'' (JObj [])) (\<lambda>a.
     rbind (json_get a ''config'' (JObj [])) (\<lambda>b.
     rbind (json_get b ''params'' (JObj [])) (\<lambda>c.
     rbind (json_get c ''vectors'' JNull) (\<lambda>vectors.
       Inr (case vectors of
           JObj d \<Rightarrow> (case get_or_none d ''size'' of JInt n \<Rightarrow> Some n | JBool b \<Rightarrow> Some (if b then 1 else 0) | _ \<Rightarrow> None)
         | _ \<Rightarrow> None)))))"

text \<open>Every transport error inside the block is reported with the operation's own message.\<close>

definition send :: "http_reply service \<Rightarrow> string \<Rightarrow> effect \<Rightarrow> (nat \<times> json option) dbact" where
  "send http failure e = bind_act (call http e)
     (\<lambda>r. case r of None \<Rightarrow> raise (VectorStoreError failure) | Some x \<Rightarrow> ret x)"

definition response_json :: "json option \<Rightarrow> json result" where
  "response_json b = (case b of None \<Rightarrow> Inl (OtherError ''JSONDecodeError'' ''response body'') | Some v \<Rightarrow> Inr v)"

fun create_payload_indexes :: "http_reply service \<Rightarrow> settings \<Rightarrow> string \<Rightarrow> string list \<Rightarrow> unit dbact" where
  "create_payload_indexes http cfg base [] = ret ()"
| "create_payload_indexes http cfg base (f # fs) =
     bind_act (send http ''Qdrant collection setup failed''
         (Http ''PUT'' (collection_url cfg base ''/index'')
            (JObj [(''field_name'', JStr f), (''field_schema'', JStr ''keyword'')])))
       (\<lambda>(status, _). then_act (raise_for_status status (''payload index creation for '' @ f))
          (create_payload_indexes http cfg base fs))"

definition ensure_collection :: "http_reply service \<Rightarrow> settings \<Rightarrow> int \<Rightarrow> unit dbact" where
  "ensure_collection http cfg width =
     bind_act (lift_result (base_url cfg)) (\<lambda>base.
     bind_act (send http ''Qdrant collection setup failed'' (Http ''GET'' (collection_url cfg base []) JNull)) (\<lambda>(status, body).
     then_act
       (if status = 404 then
          bind_act (send http ''Qdrant collection setup failed''
              (Http ''PUT'' (collection_url cfg base [])
                 (JObj [(''vectors'', JObj [(''size'', JInt width), (''distance'', JStr ''Cosine'')])])))
            (\<lambda>(created, _). raise_for_status created ''collection creation'')
        else
          then_act (raise_for_status status ''collection lookup'')
            (bind_act (lift_result (rbind (response_json body) collection_dimension)) (\<lambda>configured.
               guard_act (configured = None \<or> configured = Some width)
                 (VectorStoreError ''Qdrant collection dimension does not match the configured embedding dimension''))))
       (create_payload_indexes http cfg base filter_fields)))"

definition upsert :: "http_reply service \<Rightarrow> settings \<Rightarrow> json list \<Rightarrow> int \<Rightarrow> unit dbact" where
  "upsert http cfg points width =
     (if points = [] then ret ()
      else then_act (ensure_collection http cfg width)
        (bind_act (lift_result (base_url cfg)) (\<lambda>base.
         bind_act (send http ''Qdrant point upsert failed''
             (Http ''PUT'' (collection_url cfg base ''/points?wait=true'') (JObj [(''points'', JList points)])))
           (\<lambda>(status, _). raise_for_status status ''point upsert''))))"

definition match_field :: "string \<Rightarrow> string \<Rightarrow> json" where
  "match_field k v = JObj [(''key'', JStr k), (''match'', JObj [(''value'', JStr v)])]"

definition delete_by_filter :: "http_reply service \<Rightarrow> settings \<Rightarrow> uid \<Rightarrow> string dict \<Rightarrow> unit dbact" where
  "delete_by_filter http cfg pid filters =
     (case find (\<lambda>(k, _). k \<notin> set filter_fields) filters of
        Some (k, _) \<Rightarrow> raise (VectorStoreError (''unsupported Qdrant filter field: '' @ k))
      | None \<Rightarrow>
          bind_act (lift_result (base_url cfg)) (\<lambda>base.
          bind_act (send http ''Qdrant point deletion failed''
              (Http ''POST'' (collection_url cfg base ''/points/delete?wait=true'')
                 (JObj [(''filter'', JObj [(''must'', JList (match_field ''project_id'' (uid_str pid)
                     # map (\<lambda>(k, v). match_field k v) filters))])])))
            (\<lambda>(status, _). if status = 404 then ret () else raise_for_status status ''point deletion'')))"

record vector_hit =
  hit_chunk_id :: uid
  hit_score :: rat

text \<open>\<open>float(v)\<close> of a value of the answer; a string is parsed by the parameter \<open>of_text\<close>.\<close>

definition json_float :: "(string \<Rightarrow> rat option) \<Rightarrow> json \<Rightarrow> rat option" where
  "json_float of_text v = (case v of
      JInt n \<Rightarrow> Some (of_int n) | JFloat r _ \<Rightarrow> Some r | JBool b \<Rightarrow> Some (if b then 1 else 0)
    | JStr s \<Rightarrow> of_text s | _ \<Rightarrow> None)"

definition hit_of :: "(string \<Rightarrow> rat option) \<Rightarrow> json \<Rightarrow> vector_hit option" where
  "hit_of of_text point = (case point of
      JObj d \<Rightarrow> (case (dict_get d ''id'', dict_get d ''score'') of
          (Some i, Some sc) \<Rightarrow> (case (parse_uid (py_str i), json_float of_text sc) of
              (Some c, Some r) \<Rightarrow> Some \<lparr>hit_chunk_id = c, hit_score = r\<rparr> | _ \<Rightarrow> None)
        | _ \<Rightarrow> None)
    | _ \<Rightarrow> None)"

definition hits_of :: "(string \<Rightarrow> rat option) \<Rightarrow> json \<Rightarrow> vector_hit list result" where
  "hits_of of_text points = (case points of
      JList ps \<Rightarrow> Inr (List.map_filter (hit_of of_text) ps)
    | JObj _ \<Rightarrow> Inr []
    | JStr _ \<Rightarrow> Inr []
    | _ \<Rightarrow> Inl (TypeError ''object is not iterable''))"

definition vector_search ::
  "http_reply service \<Rightarrow> (string \<Rightarrow> rat option) \<Rightarrow> settings \<Rightarrow> uid \<Rightarrow> pyfloat list \<Rightarrow> int \<Rightarrow> string option dict
    \<Rightarrow> vector_hit list dbact" where
  "vector_search http of_text cfg pid query_embedding top_k filters =
     (let must = match_field ''project_id'' (uid_str pid) # match_field ''index_version'' (vector_index_version cfg)
            # List.map_filter (\<lambda>(k, v). if k \<in> set filter_fields then map_option (match_field k) v else None) filters
      in bind_act (lift_result (base_url cfg)) (\<lambda>base.
         bind_act (send http ''Qdrant vector search failed''
             (Http ''POST'' (collection_url cfg base ''/points/query'')
                (JObj [(''query'', JList (map (\<lambda>(r, t). JFloat r t) query_embedding)), (''limit'', JInt top_k),
                       (''with_payload'', JBool False), (''with_vector'', JBool False),
                       (''filter'', JObj [(''must'', JList must)])])))
           (\<lambda>(status, body).
              if status = 404 then ret []
              else then_act (raise_for_status status ''vector search'')
                (lift_result (rbind (response_json body) (\<lambda>v.
                   rbind (json_get v ''result'' (JObj [])) (\<lambda>r.
                   rbind (json_get r ''points'' (JList [])) (hits_of of_text))))))))"

section \<open>The payload of a point\<close>

definition opt_str :: "string option \<Rightarrow> string" where
  "opt_str v = (case v of None \<Rightarrow> [] | Some s \<Rightarrow> s)"

definition text_or :: "json \<Rightarrow> json \<Rightarrow> string" where
  "text_or v w = py_str (json_or (json_or v w) (JStr []))"

definition chunk_point :: "chunk_row \<Rightarrow> pyfloat list \<Rightarrow> string \<Rightarrow> string option \<Rightarrow> json" where
  "chunk_point c embedding index_version document_path =
     (let md = or_empty (chunk_metadata_json c); g = get_or_none md;
          path = (if opt_str document_path \<noteq> [] then opt_str document_path else text_or (g ''document_path'') JNull);
          payload = [(''project_id'', uid_str (chunk_project_id c)),
            (''source_id'', case chunk_source_id c of None \<Rightarrow> [] | Some i \<Rightarrow> uid_str i),
            (''document_id'', uid_str (chunk_document_id c)),
            (''source_type'', py_str (json_or (g ''source_type'') (JStr ''unknown_text''))),
            (''chunk_type'', if chunk_chunk_type c = [] then ''unknown'' else chunk_chunk_type c),
            (''path'', path),
            (''language'', text_or (g ''language'') JNull),
            (''symbol_name'', text_or (g ''symbol_name'') (g ''function_name'')),
            (''package_name'', text_or (g ''package_name'') (g ''module_path'')),
            (''service_name'', opt_str (chunk_service_name c)),
            (''endpoint'', opt_str (chunk_endpoint c)),
            (''commit_sha'', text_or (g ''commit_sha'') JNull),
            (''deploy_hash'', opt_str (chunk_deploy_hash c)),
            (''content_hash'', text_or (g ''content_hash'') JNull),
            (''index_version'', index_version)]
      in JObj [(''id'', JStr (uid_str (chunk_id c))), (''vector'', JList (map (\<lambda>(r, t). JFloat r t) embedding)),
               (''payload'', JObj (map (\<lambda>(k, v). (k, JStr v)) payload))])"

section \<open>What the adapter does\<close>

lemma reads_only_raise_for_status [intro]: "reads_only (raise_for_status n op)"
  by (auto simp: raise_for_status_def)

lemma reads_only_send [intro]: "reads_only (send http msg e)"
  by (auto simp: send_def)

lemma reads_only_payload_indexes [intro]: "reads_only (create_payload_indexes http cfg base fs)"
  by (induction fs) auto

lemma reads_only_ensure_collection [intro]: "reads_only (ensure_collection http cfg n)"
  unfolding ensure_collection_def by (intro reads_only_bind reads_only_pair reads_only_then reads_only_if) auto

lemma reads_only_upsert [intro]: "reads_only (upsert http cfg points n)"
  unfolding upsert_def by (intro reads_only_bind reads_only_pair reads_only_then reads_only_if) auto

lemma reads_only_delete_by_filter [intro]: "reads_only (delete_by_filter http cfg pid fs)"
  unfolding delete_by_filter_def
  by (cases "find (\<lambda>(k, _). k \<notin> set filter_fields) fs")
    (auto intro!: reads_only_bind reads_only_pair reads_only_then reads_only_if)

lemma reads_only_vector_search [intro]: "reads_only (vector_search http of_text cfg pid q k fs)"
  unfolding vector_search_def Let_def by (intro reads_only_bind reads_only_pair reads_only_then reads_only_if) auto

text \<open>The filter clauses of a request.\<close>

definition must_clauses :: "effect \<Rightarrow> json list" where
  "must_clauses e = (case e of
      Http m url (JObj d) \<Rightarrow> (case get_or_none d ''filter'' of
          JObj f \<Rightarrow> (case get_or_none f ''must'' of JList cs \<Rightarrow> cs | _ \<Rightarrow> []) | _ \<Rightarrow> [])
    | _ \<Rightarrow> [])"

lemma send_then_trace:
  assumes "\<And>x u. trace (snd (f x u)) = trace u"
  shows "trace (snd (bind_act (send http msg e) f s)) = trace s @ [e]"
  using assms by (auto simp: send_def act_simps split: option.splits)

lemma raise_for_status_trace [simp]: "trace (snd (raise_for_status n op u)) = trace u"
  by (simp add: raise_for_status_def act_simps)

lemma vector_search_trace:
  "trace (snd (vector_search http of_text cfg pid q k fs s)) = trace s
     \<or> (\<exists>e. trace (snd (vector_search http of_text cfg pid q k fs s)) = trace s @ [e]
          \<and> match_field ''project_id'' (uid_str pid) \<in> set (must_clauses e)
          \<and> match_field ''index_version'' (vector_index_version cfg) \<in> set (must_clauses e))"
proof (cases "base_url cfg")
  case (Inl e)
  then show ?thesis by (simp add: vector_search_def act_simps Let_def)
next
  case (Inr base)
  then show ?thesis
    unfolding vector_search_def Let_def
    by (subst (2) bind_act_def, simp add: lift_result_def, subst send_then_trace)
      (auto simp: act_simps raise_for_status_def must_clauses_def dict_get_or_def split: prod.splits sum.splits)
qed

lemma delete_by_filter_trace:
  "trace (snd (delete_by_filter http cfg pid gs s)) = trace s
     \<or> (\<exists>e. trace (snd (delete_by_filter http cfg pid gs s)) = trace s @ [e]
          \<and> match_field ''project_id'' (uid_str pid) \<in> set (must_clauses e)
          \<and> set (map (\<lambda>(k, v). match_field k v) gs) \<subseteq> set (must_clauses e))"
proof (cases "find (\<lambda>(k, _). k \<notin> set filter_fields) gs = None \<and> (\<exists>base. base_url cfg = Inr base)")
  case False
  then show ?thesis
    by (auto simp: delete_by_filter_def act_simps split: option.splits sum.splits)
next
  case True
  then obtain base where "base_url cfg = Inr base" by blast
  with True show ?thesis
    unfolding delete_by_filter_def
    by (simp add: bind_act_def [of "lift_result _"] lift_result_def, subst send_then_trace)
      (auto simp: ret_def must_clauses_def dict_get_or_def split: prod.splits)
qed

text \<open>
  Vector requests stay inside the project: a search and a deletion send at most one request, and its filter
  demands the caller's project; a search also demands the index version in force, and a deletion all
  of its own fields. The point built for a chunk carries the chunk's project, has exactly the
  filterable fields as its payload and does not depend on the chunk's text.
\<close>

theorem vector_requests_scoped:
  "(trace (snd (vector_search http of_text cfg pid q k fs s)) = trace s
     \<or> (\<exists>e. trace (snd (vector_search http of_text cfg pid q k fs s)) = trace s @ [e]
          \<and> match_field ''project_id'' (uid_str pid) \<in> set (must_clauses e)
          \<and> match_field ''index_version'' (vector_index_version cfg) \<in> set (must_clauses e)))
   \<and> (trace (snd (delete_by_filter http cfg pid gs s)) = trace s
     \<or> (\<exists>e. trace (snd (delete_by_filter http cfg pid gs s)) = trace s @ [e]
          \<and> match_field ''project_id'' (uid_str pid) \<in> set (must_clauses e)
          \<and> set (map (\<lambda>(k, v). match_field k v) gs) \<subseteq> set (must_clauses e)))
   \<and> (\<exists>payload. chunk_point c emb ver p = JObj [(''id'', JStr (uid_str (chunk_id c))),
        (''vector'', JList (map (\<lambda>(r, t). JFloat r t) emb)), (''payload'', JObj payload)]
     \<and> set (map fst payload) = set filter_fields
     \<and> dict_get payload ''project_id'' = Some (JStr (uid_str (chunk_project_id c))))
   \<and> chunk_point (c\<lparr>chunk_text := t\<rparr>) emb ver p = chunk_point c emb ver p"
proof (intro conjI vector_search_trace delete_by_filter_trace)
  show "\<exists>payload. chunk_point c emb ver p = JObj [(''id'', JStr (uid_str (chunk_id c))),
        (''vector'', JList (map (\<lambda>(r, t). JFloat r t) emb)), (''payload'', JObj payload)]
     \<and> set (map fst payload) = set filter_fields
     \<and> dict_get payload ''project_id'' = Some (JStr (uid_str (chunk_project_id c)))"
    unfolding chunk_point_def Let_def filter_fields_def by simp
  show "chunk_point (c\<lparr>chunk_text := t\<rparr>) emb ver p = chunk_point c emb ver p"
    by (simp add: chunk_point_def)
qed

end
