(* ===== verification/Indexer.thy ===== *)
theory Indexer
  imports Chunking VectorStore
begin

text \<open>
  Indexing a batch of documents (\<open>incidentops/ingestion/indexer.py\<close>) and the relations derived from
  chunks (\<open>incidentops/retrieval/graph_relations.py\<close>). The format parsers are a record of functions,
  the embedding function, the vector service and PostgreSQL's \<open>to_tsvector\<close> are parameters. A
  split that does not return (theory \<open>Chunking\<close>) ends in Python's \<open>MemoryError\<close>, because its list
  of chunks grows for ever.
\<close>

section \<open>Parsing\<close>

record parsers =
  ps_logs :: "string \<Rightarrow> string \<Rightarrow> json \<Rightarrow> raw_chunk list result"
  ps_patch_file :: "string \<Rightarrow> string \<Rightarrow> raw_chunk list result"
  ps_deploy_history :: "string \<Rightarrow> string \<Rightarrow> raw_chunk list result"
  ps_incident :: "string \<Rightarrow> string \<Rightarrow> raw_chunk list result"
  ps_python :: "string \<Rightarrow> string \<Rightarrow> json \<Rightarrow> raw_chunk list result"
  ps_go :: "string \<Rightarrow> string \<Rightarrow> json \<Rightarrow> raw_chunk list result"
  ps_jsts :: "string \<Rightarrow> string \<Rightarrow> json \<Rightarrow> string \<Rightarrow> raw_chunk list result"
  ps_java :: "string \<Rightarrow> string \<Rightarrow> json \<Rightarrow> raw_chunk list result"
  ps_proto :: "string \<Rightarrow> string \<Rightarrow> json \<Rightarrow> raw_chunk list result"
  ps_structured_config :: "string \<Rightarrow> string \<Rightarrow> string \<Rightarrow> json \<Rightarrow> raw_chunk list result"
  ps_markdown :: "string \<Rightarrow> string \<Rightarrow> string \<Rightarrow> json \<Rightarrow> raw_chunk list result"

definition parse_generic_code :: "string \<Rightarrow> string \<Rightarrow> json \<Rightarrow> raw_chunk list" where
  "parse_generic_code content path service =
     (let lines = split_lines content in
      if lines = [] then []
      else [\<lparr>rc_text = content, rc_chunk_type = ''code_file'', rc_source_type = ''code'', rc_document_path = path,
             rc_doc_type = ''code'', rc_service_name = service, rc_endpoint = None, rc_deploy_hash = JNull,
             rc_timestamp_start = None, rc_timestamp_end = None, rc_section_title = Some (path_name path),
             rc_start_line = Some 1, rc_end_line = Some (int (length lines)),
             rc_metadata = [(''parser'', JStr ''generic_code'')]\<rparr>])"

text \<open>The chunks and the parse error.\<close>

definition parsed :: "raw_chunk list result \<Rightarrow> (raw_chunk list \<times> string option) result" where
  "parsed r = rbind r (\<lambda>cs. Inr (cs, None))"

definition parsed_deploy :: "raw_chunk list result \<Rightarrow> (raw_chunk list \<times> string option) result" where
  "parsed_deploy r = rbind r (\<lambda>cs. Inr (cs, if cs \<noteq> [] then None else Some ''invalid or unsupported deploy JSON structure''))"

definition lstrip_dot :: "string \<Rightarrow> string" where
  "lstrip_dot s = dropWhile (\<lambda>c. c = CHR ''.'') s"

definition parse_normalized_document ::
  "parsers \<Rightarrow> normalized_document \<Rightarrow> json \<Rightarrow> (raw_chunk list \<times> string option) result" where
  "parse_normalized_document ps d service =
     (let path = nd_path d; content = nd_content d;
          lower_path = py_lower path;
          suffix = py_lower (path_suffix lower_path);
          source_type = py_lower (if nd_source_type d \<noteq> [] then nd_source_type d else classify_source_type path)
      in if source_type = ''logs'' \<or> suffix = ''.log'' then parsed (ps_logs ps content path service)
         else if suffix \<in> set [''.patch'', ''.diff''] then parsed (ps_patch_file ps content path)
         else if source_type = ''deploy'' \<and> suffix = ''.json'' then parsed_deploy (ps_deploy_history ps content path)
         else if suffix = ''.json'' \<and> any_in [''deploy'', ''release'', ''commit''] lower_path
         then parsed_deploy (ps_deploy_history ps content path)
         else if source_type = ''incident'' \<or> str_contains ''incident'' lower_path \<or> str_contains ''postmortem'' lower_path
         then parsed (ps_incident ps content path)
         else if source_type = ''code'' \<and> suffix = ''.py'' then parsed (ps_python ps content path service)
         else if suffix = ''.py'' then parsed (ps_python ps content path service)
         else if suffix = ''.go'' then parsed (ps_go ps content path service)
         else if suffix \<in> set [''.js'', ''.ts'', ''.jsx'', ''.tsx'']
         then parsed (ps_jsts ps content path service (if suffix \<noteq> ''.tsx'' then lstrip_dot suffix else ''ts''))
         else if suffix = ''.java'' then parsed (ps_java ps content path service)
         else if suffix = ''.proto'' then parsed (ps_proto ps content path service)
         else if source_type = ''code'' then Inr (parse_generic_code content path service, None)
         else if suffix \<in> set [''.yaml'', ''.yml'', ''.toml'', ''.ini'']
         then parsed (ps_structured_config ps content path source_type service)
         else if suffix = ''.json'' \<and> source_type \<in> set [''config'', ''api_doc'']
         then parsed (ps_structured_config ps content path source_type service)
         else if suffix \<in> set [''.md'', ''.txt'', ''.json'']
         then parsed (ps_markdown ps content path (if source_type \<noteq> [] then source_type else classify_source_type path) service)
         else if source_type \<in> set [''config'', ''unknown_text'', ''runbook'', ''api_doc'']
         then parsed (ps_markdown ps content path source_type service)
         else Inr ([], Some ''no parser configured''))"

section \<open>The chunk limit\<close>

text \<open>\<open>math.ceil(a / b)\<close>\<close>

definition ceil_div :: "int \<Rightarrow> int \<Rightarrow> int result" where
  "ceil_div a b = (if b = 0 then Inl (OtherError ''ZeroDivisionError'' ''division by zero'') else Inr (- ((- a) div b)))"

fun estimate_chunk_segments :: "raw_chunk list \<Rightarrow> int \<Rightarrow> int result" where
  "estimate_chunk_segments [] m = Inr 0"
| "estimate_chunk_segments (c # cs) m =
     rbind (ceil_div (max 1 (count_tokens (rc_text c))) m) (\<lambda>n.
     rbind (estimate_chunk_segments cs m) (\<lambda>total. Inr (max 1 n + total)))"

definition fallback_chunk_type :: "string \<Rightarrow> string \<Rightarrow> string" where
  "fallback_chunk_type path source_type =
     (let suffix = py_lower (path_suffix path) in
      if suffix = ''.go'' then ''go_fallback''
      else if suffix = ''.proto'' then ''proto_fallback''
      else if source_type = ''config'' then ''config_fallback''
      else if source_type = ''api_doc'' then ''api_fallback''
      else if source_type = ''code'' then ''code_fallback''
      else ''text_fallback'')"

definition doc_type_for_normalized_document :: "normalized_document \<Rightarrow> string" where
  "doc_type_for_normalized_document d = classify_doc_type (nd_path d)"

definition lines_text :: "string list \<Rightarrow> string" where
  "lines_text ls = py_strip (join_with [CHR 0x0A] ls)"

fun grow_chunk :: "int \<Rightarrow> string list \<Rightarrow> string list \<Rightarrow> string list \<times> string list" where
  "grow_chunk target cur [] = (cur, [])"
| "grow_chunk target cur (l # ls) =
     (let cand = cur @ [l] in
      if cur \<noteq> [] \<and> count_tokens (lines_text cand) > target then (cur, l # ls)
      else if count_tokens (lines_text cand) \<ge> target then (cand, ls)
      else grow_chunk target cand ls)"

lemma grow_chunk_rest: "grow_chunk target cur ls = (taken, rest) \<Longrightarrow> cur \<noteq> [] \<or> ls \<noteq> [] \<Longrightarrow>
    taken @ rest = cur @ ls \<and> taken \<noteq> [] \<and> length rest \<le> length ls \<and> (cur = [] \<longrightarrow> length rest < length ls)"
  by (induction target cur ls rule: grow_chunk.induct) (fastforce simp: Let_def split: if_splits)+

text \<open>The arguments: lines left, index of the next line, room for further chunks.\<close>

function fallback_pieces :: "int \<Rightarrow> string list \<Rightarrow> int \<Rightarrow> int \<Rightarrow> (string \<times> int \<times> int) list" where
  "fallback_pieces target lines start room =
     (if lines = [] \<or> room \<le> 0 then []
      else (case grow_chunk target [] lines of (taken, rest) \<Rightarrow>
        if lines_text taken = [] then []
        else (lines_text taken, start + 1, start + int (length taken))
          # fallback_pieces target rest (start + int (length taken)) (room - 1)))"
  by pat_completeness auto

termination
  by (relation "measure (\<lambda>(_, ls, _, _). length ls)") (auto dest: grow_chunk_rest [OF sym])

declare fallback_pieces.simps [simp del]

definition build_bounded_fallback_chunks ::
  "normalized_document \<Rightarrow> json \<Rightarrow> settings \<Rightarrow> raw_chunk list result" where
  "build_bounded_fallback_chunks d service cfg =
     (let lines = split_lines (nd_content d) in
      if lines = [] then Inr []
      else let total_tokens = max 1 (count_tokens (nd_content d)) in
        rbind (ceil_div total_tokens (max_chunk_tokens cfg)) (\<lambda>n.
        rbind (ceil_div total_tokens (min (max_chunks_per_document cfg) (max 1 n))) (\<lambda>per_chunk.
        let target_tokens = max (max_chunk_tokens cfg) per_chunk; g = get_or_none (nd_metadata d) in
        Inr (map (\<lambda>(t, first, last).
          \<lparr>rc_text = t, rc_chunk_type = fallback_chunk_type (nd_path d) (nd_source_type d),
           rc_source_type = nd_source_type d, rc_document_path = nd_path d,
           rc_doc_type = doc_type_for_normalized_document d, rc_service_name = service, rc_endpoint = None,
           rc_deploy_hash = JNull, rc_timestamp_start = None, rc_timestamp_end = None,
           rc_section_title = Some (path_name (nd_path d)), rc_start_line = Some first, rc_end_line = Some last,
           rc_metadata = [(''language'', json_or (g ''language'') (g ''file_language'')),
             (''package_name'', g ''package_name''), (''symbol_name'', g ''symbol_name''),
             (''fallback_reason'', JStr ''chunk_limit_guard'')]\<rparr>)
          (fallback_pieces target_tokens lines 0 (max_chunks_per_document cfg))))))"

section \<open>Chunk rows\<close>

text \<open>Set iteration has no order in Python; here the keys are taken as listed.\<close>

definition chunk_metadata_keys :: "string list" where
  "chunk_metadata_keys =
     [''language'', ''file_language'', ''repo_name'', ''branch'', ''commit_sha'', ''commit_shas'', ''deploy_hash'',
      ''deploy_hashes'', ''module_path'', ''package_path'', ''package_name'', ''symbol_name'', ''symbol_names'',
      ''function_names'', ''class_names'', ''headings'', ''endpoint'', ''endpoint_candidates'', ''api_paths'',
      ''service_name'', ''log_levels'', ''timestamp_start'', ''timestamp_end'', ''error_codes'', ''trace_ids'',
      ''request_ids'', ''config_keys_summary'', ''release_markers'', ''title'', ''severity'']"

definition is_blank_value :: "json \<Rightarrow> bool" where
  "is_blank_value v \<longleftrightarrow> v = JNull \<or> v = JStr [] \<or> v = JList []"

definition set_unless_blank :: "string \<Rightarrow> json \<Rightarrow> json dict \<Rightarrow> json dict" where
  "set_unless_blank k v d = (if is_blank_value v then d else dict_set k v d)"

definition build_chunk_metadata :: "normalized_document \<Rightarrow> raw_chunk \<Rightarrow> json dict" where
  "build_chunk_metadata d rc =
     fold (\<lambda>(k, v). set_unless_blank k v) (rc_metadata rc)
       (fold (\<lambda>k. set_unless_blank k (get_or_none (nd_metadata d) k)) chunk_metadata_keys
         [(''source_type'', JStr (rc_source_type rc)), (''document_path'', JStr (rc_document_path rc)),
          (''content_hash'', JStr (nd_content_hash d))])"

record chunk_payload =
  cp_chunk_type :: string
  cp_service_name :: json
  cp_endpoint :: json
  cp_deploy_hash :: json
  cp_timestamp_start :: "int option"
  cp_timestamp_end :: "int option"
  cp_section_title :: "string option"
  cp_start_line :: "int option"
  cp_end_line :: "int option"
  cp_text :: string
  cp_token_count :: int
  cp_metadata :: "json dict"

definition opt_json :: "string option \<Rightarrow> json" where
  "opt_json v = (case v of None \<Rightarrow> JNull | Some s \<Rightarrow> JStr s)"

definition chunk_payload_for :: "normalized_document \<Rightarrow> json \<Rightarrow> raw_chunk \<Rightarrow> string \<Rightarrow> chunk_payload" where
  "chunk_payload_for d service rc sub_text = (let g = get_or_none (nd_metadata d) in
     \<lparr>cp_chunk_type = rc_chunk_type rc,
      cp_service_name = json_or (json_or (rc_service_name rc) service) (g ''service_name''),
      cp_endpoint = json_or (opt_json (rc_endpoint rc)) (g ''endpoint''),
      cp_deploy_hash = json_or (json_or (rc_deploy_hash rc) (g ''deploy_hash'')) (g ''commit_sha''),
      cp_timestamp_start = rc_timestamp_start rc, cp_timestamp_end = rc_timestamp_end rc,
      cp_section_title = rc_section_title rc, cp_start_line = rc_start_line rc, cp_end_line = rc_end_line rc,
      cp_text = sub_text, cp_token_count = count_tokens sub_text,
      cp_metadata = build_chunk_metadata d rc\<rparr>)"

definition indexing_error :: "string \<Rightarrow> string \<Rightarrow> py_exn" where
  "indexing_error code safe_message = DocumentIndexingError (normalize_failure_code (Some code)) safe_message"

definition sub_texts :: "settings \<Rightarrow> string \<Rightarrow> string list result" where
  "sub_texts cfg t =
     (if count_tokens t > max_chunk_tokens cfg then
        (case split_text_by_tokens t (max_chunk_tokens cfg) default_overlap of
           Some cs \<Rightarrow> Inr cs | None \<Rightarrow> Inl (OtherError ''MemoryError'' []))
      else Inr [t])"

fun add_sub_texts :: "settings \<Rightarrow> (string \<Rightarrow> chunk_payload) \<Rightarrow> string list \<Rightarrow> chunk_payload list \<Rightarrow> chunk_payload list result" where
  "add_sub_texts cfg mk [] acc = Inr acc"
| "add_sub_texts cfg mk (t # ts) acc =
     (if int (length acc) \<ge> max_chunks_per_document cfg
      then Inl (indexing_error ''too_many_chunks'' ''document exceeds configured chunk count limit'')
      else add_sub_texts cfg mk ts (acc @ [mk t]))"

fun chunk_payloads :: "settings \<Rightarrow> normalized_document \<Rightarrow> json \<Rightarrow> raw_chunk list \<Rightarrow> chunk_payload list \<Rightarrow> chunk_payload list result" where
  "chunk_payloads cfg d service [] acc = Inr acc"
| "chunk_payloads cfg d service (rc # rcs) acc =
     rbind (sub_texts cfg (rc_text rc)) (\<lambda>ts.
     rbind (add_sub_texts cfg (chunk_payload_for d service rc) ts acc) (\<lambda>acc'.
       chunk_payloads cfg d service rcs acc'))"

text \<open>Everything before the embedding: parse, guard the chunk count, split.\<close>

definition service_of_document :: "normalized_document \<Rightarrow> json" where
  "service_of_document d =
     json_or (get_or_none (nd_metadata d) ''service_name'') (opt_json (extract_service_from_path (nd_path d)))"

definition prepare_chunks :: "parsers \<Rightarrow> settings \<Rightarrow> normalized_document \<Rightarrow> chunk_payload list result" where
  "prepare_chunks ps cfg d =
     (let service = service_of_document d in
      case parse_normalized_document ps d service of
        Inl e \<Rightarrow> Inl (indexing_error ''parser_exception'' (''failed to parse document: '' @ exn_class e))
      | Inr (raw_chunks, parse_error) \<Rightarrow>
          (case parse_error of
             Some message \<Rightarrow> Inl (indexing_error ''parser_exception'' message)
           | None \<Rightarrow>
               if raw_chunks = [] then Inl (indexing_error ''no_chunks_parsed'' ''no chunks parsed'')
               else rbind (estimate_chunk_segments raw_chunks (max_chunk_tokens cfg)) (\<lambda>n.
                    rbind (if n > max_chunks_per_document cfg then build_bounded_fallback_chunks d service cfg
                           else Inr raw_chunks) (\<lambda>rcs.
                    chunk_payloads cfg d service rcs []))))"

section \<open>Relations\<close>

definition new_relation :: "time \<Rightarrow> chunk_row \<Rightarrow> string \<Rightarrow> string \<Rightarrow> string \<Rightarrow> json dict \<Rightarrow> uid \<Rightarrow> relation_row" where
  "new_relation now c relation_type from_key to_key md i =
     \<lparr>rel_id = i, rel_project_id = chunk_project_id c, rel_evidence_chunk_id = chunk_id c,
      rel_relation_type = relation_type, rel_from_key = take 512 from_key, rel_to_key = take 512 to_key,
      rel_metadata_json = Some md, rel_created_at = now\<rparr>"

definition text_key :: "string \<Rightarrow> json \<Rightarrow> string option" where
  "text_key prefix v = (case v of JStr s \<Rightarrow> if s \<noteq> [] then Some (prefix @ s) else None | _ \<Rightarrow> None)"

definition chunk_relations :: "time \<Rightarrow> string \<Rightarrow> chunk_row \<Rightarrow> (uid \<Rightarrow> relation_row) list" where
  "chunk_relations now path c =
     (let path_key = ''path:'' @ path; md = or_empty (chunk_metadata_json c); g = get_or_none md;
          rel_md = [(''chunk_type'', JStr (chunk_chunk_type c)), (''document_path'', JStr path),
                    (''source_type'', dict_get_or (JStr ''unknown_text'') md ''source_type'')];
          some = (\<lambda>k f. case k of None \<Rightarrow> [] | Some t \<Rightarrow> [f t]);
          opt = (\<lambda>prefix v. case v of None \<Rightarrow> None | Some s \<Rightarrow> if s \<noteq> [] then Some (prefix @ s) else None)
      in [new_relation now c ''contains'' path_key (''chunk:'' @ uid_str (chunk_id c)) rel_md]
         @ some (opt ''service:'' (chunk_service_name c)) (\<lambda>t. new_relation now c ''contains'' t path_key rel_md)
         @ some (text_key ''package:'' (g ''package_name'')) (\<lambda>t. new_relation now c ''contains'' t path_key rel_md)
         @ some (text_key ''symbol:'' (json_or (g ''symbol_name'') (g ''symbol''))) (\<lambda>t. new_relation now c ''defines'' path_key t rel_md)
         @ some (opt ''endpoint:'' (chunk_endpoint c)) (\<lambda>t. new_relation now c ''implements'' path_key t rel_md)
         @ some (opt ''deploy:'' (chunk_deploy_hash c)) (\<lambda>t. new_relation now c ''changed_by'' path_key t rel_md))"

definition build_chunk_relations :: "time \<Rightarrow> document_row \<Rightarrow> chunk_row list \<Rightarrow> (uid \<Rightarrow> relation_row) list" where
  "build_chunk_relations now d cs = concat (map (chunk_relations now (opt_str (doc_path d))) cs)"

section \<open>One document\<close>

record index_env =
  ie_parsers :: parsers
  ie_embed :: "(string list \<Rightarrow> pyfloat list list result) option"
  ie_http :: "http_reply service"
  ie_tsvector :: "string \<Rightarrow> string"
  ie_now :: time

record index_operation =
  op_created :: int
  op_updated :: int
  op_skipped_unchanged :: int
  op_chunks_created :: int
  op_chunk_type_counts :: "int dict"

definition embed_chunks :: "index_env \<Rightarrow> chunk_payload list \<Rightarrow> pyfloat list list option result" where
  "embed_chunks env payloads = (case ie_embed env of
      None \<Rightarrow> Inr None
    | Some f \<Rightarrow>
        if payloads = [] then Inr None
        else (case f (map cp_text payloads) of
            Inl e \<Rightarrow> Inl (indexing_error ''embedding_error'' (''failed to embed document: '' @ exn_class e))
          | Inr es \<Rightarrow>
              if length es \<noteq> length payloads
              then Inl (indexing_error ''embedding_error'' ''embedding backend returned an unexpected result count'')
              else Inr (Some es)))"

text \<open>A text column takes text or NULL; the driver refuses any other value.\<close>

definition is_text_column :: "json \<Rightarrow> bool" where
  "is_text_column v = (case v of JNull \<Rightarrow> True | JStr _ \<Rightarrow> True | _ \<Rightarrow> False)"

definition text_column :: "json \<Rightarrow> string option" where
  "text_column v = (case v of JStr s \<Rightarrow> Some s | _ \<Rightarrow> None)"

definition payload_fits :: "chunk_payload \<Rightarrow> bool" where
  "payload_fits p \<longleftrightarrow> is_text_column (cp_service_name p) \<and> is_text_column (cp_endpoint p) \<and> is_text_column (cp_deploy_hash p)"

definition new_chunk :: "time \<Rightarrow> uid \<Rightarrow> uid \<Rightarrow> uid \<Rightarrow> chunk_payload \<Rightarrow> uid \<Rightarrow> chunk_row" where
  "new_chunk now pid sid did p i =
     \<lparr>chunk_id = i, chunk_project_id = pid, chunk_document_id = did, chunk_source_id = Some sid,
      chunk_chunk_type = cp_chunk_type p, chunk_service_name = text_column (cp_service_name p),
      chunk_endpoint = text_column (cp_endpoint p), chunk_deploy_hash = text_column (cp_deploy_hash p),
      chunk_timestamp_start = cp_timestamp_start p, chunk_timestamp_end = cp_timestamp_end p,
      chunk_section_title = cp_section_title p, chunk_start_line = cp_start_line p, chunk_end_line = cp_end_line p,
      chunk_text = cp_text p, chunk_token_count = Some (cp_token_count p),
      chunk_metadata_json = Some (cp_metadata p), chunk_search_tsvector = None, chunk_created_at = now\<rparr>"

fun insert_chunks :: "(chunk_payload \<Rightarrow> uid \<Rightarrow> chunk_row) \<Rightarrow> chunk_payload list \<Rightarrow> chunk_row list dbact" where
  "insert_chunks mk [] = ret []"
| "insert_chunks mk (p # ps) =
     bind_act (query (\<lambda>d. mk p (next_id d))) (\<lambda>row.
     then_act (change (add_row chunks_update (mk p)))
       (bind_act (insert_chunks mk ps) (\<lambda>rows. ret (row # rows))))"

fun insert_relations :: "(uid \<Rightarrow> relation_row) list \<Rightarrow> db \<Rightarrow> db" where
  "insert_relations [] d = d"
| "insert_relations (mk # mks) d = insert_relations mks (add_row evidence_relations_update mk d)"

definition refresh_document :: "normalized_document \<Rightarrow> document_row \<Rightarrow> document_row" where
  "refresh_document nd r =
     r\<lparr>doc_title := Some (path_name (nd_path nd)), doc_path := Some (nd_path nd),
       doc_doc_type := doc_type_for_normalized_document nd, doc_source_type := Some (nd_source_type nd),
       doc_checksum := Some (nd_content_hash nd), doc_content_hash := Some (nd_content_hash nd),
       doc_modified_at := nd_modified_at nd, doc_size_bytes := nd_size_bytes nd\<rparr>"

definition new_document :: "time \<Rightarrow> uid \<Rightarrow> uid \<Rightarrow> normalized_document \<Rightarrow> uid \<Rightarrow> document_row" where
  "new_document now pid sid nd i =
     refresh_document nd
       \<lparr>doc_id = i, doc_project_id = pid, doc_source_id = Some sid, doc_external_id = Some (nd_external_id nd),
        doc_title = None, doc_path = None, doc_doc_type = [], doc_source_type = None, doc_checksum = None,
        doc_content_hash = None, doc_modified_at = None, doc_size_bytes = None, doc_created_at = now\<rparr>"

text \<open>The row of the document: inserted, or refreshed with its chunks deleted. The id comes back.\<close>

definition write_document :: "index_env \<Rightarrow> uid \<Rightarrow> uid \<Rightarrow> normalized_document \<Rightarrow> document_row option \<Rightarrow> uid dbact" where
  "write_document env pid sid nd current = (case current of
      None \<Rightarrow> bind_act (query next_id) (\<lambda>i.
        then_act (change (add_row documents_update (new_document (ie_now env) pid sid nd))) (ret i))
    | Some r \<Rightarrow>
        then_act (change (edit_row documents_update doc_id (doc_id r) (refresh_document nd)))
          (then_act (change (delete_chunks (\<lambda>c. chunk_document_id c = doc_id r))) (ret (doc_id r))))"

text \<open>Errors of the vector store are reported under the indexer's own code.\<close>

definition as_vector_failure :: "string \<Rightarrow> 'a dbact \<Rightarrow> 'a dbact" where
  "as_vector_failure message m = try_act m (\<lambda>e. case e of
      VectorStoreError _ \<Rightarrow> raise (indexing_error ''vector_index_failed'' message) | _ \<Rightarrow> raise e)"

definition publish_vectors ::
  "index_env \<Rightarrow> settings \<Rightarrow> string \<Rightarrow> chunk_row list \<Rightarrow> pyfloat list list option \<Rightarrow> unit dbact" where
  "publish_vectors env cfg path rows embeddings = (case embeddings of
      None \<Rightarrow> ret ()
    | Some es \<Rightarrow>
        if es = [] then ret ()
        else then_act
          (guard_act (list_all (\<lambda>e. int (length e) = embedding_dim cfg) es)
             (indexing_error ''embedding_failed'' ''embedding dimension does not match the configured vector index''))
          (as_vector_failure ''failed to publish document vectors''
             (upsert (ie_http env) cfg
                (map (\<lambda>(c, e). chunk_point c e (vector_index_version cfg) (Some path)) (zip rows es))
                (embedding_dim cfg))))"

definition write_chunks ::
  "index_env \<Rightarrow> settings \<Rightarrow> uid \<Rightarrow> uid \<Rightarrow> normalized_document \<Rightarrow> document_row option \<Rightarrow> chunk_payload list
     \<Rightarrow> pyfloat list list option \<Rightarrow> unit dbact" where
  "write_chunks env cfg pid sid nd current payloads embeddings =
     bind_act (write_document env pid sid nd current) (\<lambda>did.
     then_act (guard_act (list_all payload_fits payloads) (OtherError ''DBAPIError'' ''invalid input for query argument''))
     (bind_act (insert_chunks (new_chunk (ie_now env) pid sid did) payloads) (\<lambda>rows.
      then_act (change (insert_relations
          (build_chunk_relations (ie_now env)
             (case current of None \<Rightarrow> new_document (ie_now env) pid sid nd did | Some r \<Rightarrow> refresh_document nd r) rows)))
     (then_act (change (edit_rows chunks_update (\<lambda>c. chunk_document_id c = did)
          (\<lambda>c. c\<lparr>chunk_search_tsvector := Some (ie_tsvector env (chunk_text c))\<rparr>)))
      (publish_vectors env cfg (nd_path nd) rows embeddings)))))"

definition find_document :: "uid \<Rightarrow> uid \<Rightarrow> string \<Rightarrow> db \<Rightarrow> document_row list" where
  "find_document pid sid ext d =
     filter (\<lambda>r. doc_project_id r = pid \<and> doc_source_id r = Some sid \<and> doc_external_id r = Some ext) (documents d)"

text \<open>\<open>scalar_one_or_none\<close>\<close>

definition one_or_none :: "'r list \<Rightarrow> 'r option result" where
  "one_or_none rs = (case rs of [] \<Rightarrow> Inr None | [r] \<Rightarrow> Inr (Some r) | _ \<Rightarrow> Inl (OtherError ''MultipleResultsFound'' []))"

definition index_one_document ::
  "index_env \<Rightarrow> settings \<Rightarrow> uid \<Rightarrow> uid \<Rightarrow> normalized_document \<Rightarrow> index_operation dbact" where
  "index_one_document env cfg pid sid nd =
     bind_act (query (find_document pid sid (nd_external_id nd))) (\<lambda>rs.
     bind_act (lift_result (one_or_none rs)) (\<lambda>current.
       if (case current of Some r \<Rightarrow> doc_content_hash r = Some (nd_content_hash nd) | None \<Rightarrow> False)
       then ret \<lparr>op_created = 0, op_updated = 0, op_skipped_unchanged = 1, op_chunks_created = 0, op_chunk_type_counts = []\<rparr>
       else
         bind_act (lift_result (prepare_chunks (ie_parsers env) cfg nd)) (\<lambda>payloads.
         bind_act (lift_result (embed_chunks env payloads)) (\<lambda>embeddings.
         then_act
           (case current of None \<Rightarrow> ret ()
             | Some r \<Rightarrow> as_vector_failure ''failed to replace document vectors''
                 (delete_by_filter (ie_http env) cfg pid [(''document_id'', uid_str (doc_id r))]))
         (then_act (savepoint (write_chunks env cfg pid sid nd current payloads embeddings))
           (ret \<lparr>op_created = (if current = None then 1 else 0), op_updated = (if current = None then 0 else 1),
                 op_skipped_unchanged = 0, op_chunks_created = int (length payloads),
                 op_chunk_type_counts = tally (map cp_chunk_type payloads)\<rparr>))))))"

section \<open>A batch\<close>

definition counter_update :: "int dict \<Rightarrow> int dict \<Rightarrow> int dict" where
  "counter_update d e = fold (\<lambda>(k, n). dict_incr k n) e d"

definition rejected :: "document_error \<Rightarrow> batch_result \<Rightarrow> batch_result" where
  "rejected e b = b\<lparr>br_skipped_invalid := br_skipped_invalid b + 1, br_errors := br_errors b @ [e]\<rparr>"

definition document_failure :: "normalized_document \<Rightarrow> string \<Rightarrow> string \<Rightarrow> string \<Rightarrow> document_error" where
  "document_failure nd code err message =
     \<lparr>de_external_id = Some (nd_external_id nd), de_path = Some (nd_path nd), de_code = code, de_error = err,
      de_message = Some message\<rparr>"

definition exn_failure :: "normalized_document \<Rightarrow> py_exn \<Rightarrow> document_error" where
  "exn_failure nd e = (case e of
      DocumentIndexingError code message \<Rightarrow> document_failure nd code message message
    | _ \<Rightarrow> document_failure nd (normalize_failure_code (Some ''index_error''))
             (''failed to index document: '' @ exn_class e) ''failed to index document'')"

definition counted :: "normalized_document \<Rightarrow> index_operation \<Rightarrow> batch_result \<Rightarrow> batch_result" where
  "counted nd op b =
     b\<lparr>br_created := br_created b + op_created op, br_updated := br_updated b + op_updated op,
       br_skipped_unchanged := br_skipped_unchanged b + op_skipped_unchanged op,
       br_chunks_created := br_chunks_created b + op_chunks_created op,
       br_source_type_counts := (if op_created op \<noteq> 0 \<or> op_updated op \<noteq> 0
          then dict_incr (nd_source_type nd) 1 (br_source_type_counts b) else br_source_type_counts b),
       br_chunk_type_counts := counter_update (br_chunk_type_counts b) (op_chunk_type_counts op)\<rparr>"

fun index_documents ::
  "index_env \<Rightarrow> settings \<Rightarrow> uid \<Rightarrow> uid \<Rightarrow> normalized_document list \<Rightarrow> string list \<Rightarrow> batch_result \<Rightarrow> batch_result dbact" where
  "index_documents env cfg pid sid [] seen b = ret b"
| "index_documents env cfg pid sid (raw # docs) seen b =
     (case validate_normalized_document raw cfg False of
        Inl e \<Rightarrow> index_documents env cfg pid sid docs seen (rejected e b)
      | Inr nd \<Rightarrow>
          if nd_external_id nd \<in> set seen
          then index_documents env cfg pid sid docs seen (rejected (document_failure nd
                 (normalize_failure_code (Some ''duplicate_external_id''))
                 ''duplicate external_id in batch'' ''duplicate external_id in batch'') b)
          else bind_act
            (try_act (bind_act (index_one_document env cfg pid sid nd) (\<lambda>op. ret (counted nd op b)))
               (\<lambda>e. ret (rejected (exn_failure nd e) b)))
            (index_documents env cfg pid sid docs (nd_external_id nd # seen)))"

definition counts_json :: "int dict \<Rightarrow> json" where
  "counts_json d = JObj (map (\<lambda>(k, n). (k, JInt n)) d)"

definition empty_batch :: "int \<Rightarrow> string option \<Rightarrow> batch_result" where
  "empty_batch received backend =
     \<lparr>br_received = received, br_created = 0, br_updated = 0, br_skipped_unchanged = 0, br_skipped_invalid = 0,
      br_chunks_created = 0, br_errors = [], br_source_type_counts = [], br_chunk_type_counts = [],
      br_diagnostics = [], br_coverage = [], br_warnings = [], br_embedding_backend = backend\<rparr>"

definition batch_diagnostics :: "batch_result \<Rightarrow> json dict" where
  "batch_diagnostics b =
     (let reasons = failure_reason_counts (map (\<lambda>e. Some (de_code e)) (br_errors b)); n = dict_get_or 0 reasons in
      [(''documents_created'', JInt (br_created b)), (''documents_updated'', JInt (br_updated b)),
       (''skipped_unchanged'', JInt (br_skipped_unchanged b)), (''skipped_invalid'', JInt (br_skipped_invalid b)),
       (''errors'', JInt (int (length (br_errors b)))), (''parser_error_count'', JInt (int (length (br_errors b)))),
       (''parser_error_reasons'', counts_json reasons),
       (''chunk_discard_reasons'', JObj [(''chunk_limit_exceeded'', JInt (n ''chunk_limit_exceeded''))]),
       (''embedding_failures'', JInt (n ''embedding_failed'')),
       (''vector_index_failures'', JInt (n ''vector_index_failed'')),
       (''source_type_counts'', counts_json (br_source_type_counts b)),
       (''chunk_type_counts'', counts_json (br_chunk_type_counts b)),
       (''embedding_backend'', opt_json (br_embedding_backend b))])"

definition invalidate_project :: "settings \<Rightarrow> uid \<Rightarrow> unit dbact" where
  "invalidate_project cfg pid =
     when_act (rag_cache_enabled cfg \<and> resolved_redis_url cfg \<noteq> [])
       (call (\<lambda>_ _. ()) (Redis ''INCR'' [''incidentops:rag:project-generation:'' @ uid_str pid]))"

definition index_normalized_documents ::
  "index_env \<Rightarrow> settings \<Rightarrow> uid \<Rightarrow> uid \<Rightarrow> normalized_document list \<Rightarrow> batch_result dbact" where
  "index_normalized_documents env cfg pid sid docs =
     (let start = empty_batch (int (length docs)) (case ie_embed env of None \<Rightarrow> None | Some _ \<Rightarrow> Some (embedding_model cfg)) in
      if docs = [] then ret start
      else bind_act (index_documents env cfg pid sid docs [] start) (\<lambda>b.
        let cov = build_source_coverage (br_source_type_counts b) (br_chunk_type_counts b);
            b' = b\<lparr>br_coverage := coverage_json cov, br_warnings := cov_warnings cov, br_diagnostics := batch_diagnostics b\<rparr>
        in then_act (when_act (br_created b \<noteq> 0 \<or> br_updated b \<noteq> 0) (invalidate_project cfg pid)) (ret b')))"

section \<open>What indexing leaves alone\<close>

lemma reads_only_as_vector_failure [intro]: "reads_only m \<Longrightarrow> reads_only (as_vector_failure msg m)"
  unfolding as_vector_failure_def by (rule reads_only_try) (auto split: py_exn.split)

lemma reads_only_publish [intro]: "reads_only (publish_vectors env cfg path rows es)"
  unfolding publish_vectors_def
  by (intro reads_only_option reads_only_if reads_only_then reads_only_as_vector_failure) auto

lemma reads_only_invalidate [intro]: "reads_only (invalidate_project cfg pid)"
  unfolding invalidate_project_def by (intro reads_only_when reads_only_simple)

lemma preserves_insert_chunks [intro]:
  "(\<And>d p. P d \<Longrightarrow> P (add_row chunks_update (mk p) d)) \<Longrightarrow> preserves P (insert_chunks mk ps)"
proof (induction ps)
  case (Cons p ps)
  then show ?case
    unfolding insert_chunks.simps
    by (intro preserves_bind preserves_then preserves_change preserves_query preserves_ret) auto
qed (simp add: preserves_ret)

lemma insert_relations_tables [simp]:
  "documents (insert_relations mks d) = documents d" "chunks (insert_relations mks d) = chunks d"
  "next_id d \<le> next_id (insert_relations mks d)"
  by (induction mks d rule: insert_relations.induct) (auto simp: add_row_def)

lemma rel_id_chunk_relations: "mk \<in> set (chunk_relations now path c) \<Longrightarrow> rel_id (mk i) = i"
  by (auto simp: chunk_relations_def Let_def new_relation_def split: option.splits if_splits)

lemma db_ok_insert_relations:
  "db_ok d \<Longrightarrow> (\<And>mk i. mk \<in> set mks \<Longrightarrow> rel_id (mk i) = i) \<Longrightarrow> db_ok (insert_relations mks d)"
  by (induction mks d rule: insert_relations.induct) auto

lemma preserves_db_ok_write_chunks: "preserves db_ok (write_chunks env cfg pid sid nd current payloads es)"
proof -
  have writes: "preserves db_ok (write_document env pid sid nd current)"
    unfolding write_document_def edit_row_def
    by (intro preserves_option preserves_bind preserves_then preserves_change preserves_query preserves_ret
        db_ok_add_documents db_ok_edit_documents db_ok_delete_chunks)
      (simp_all add: new_document_def refresh_document_def)
  have rels: "preserves db_ok (change (insert_relations (build_chunk_relations now r rows)))" for now r rows
    by (intro preserves_change db_ok_insert_relations)
      (auto simp: build_chunk_relations_def rel_id_chunk_relations)
  show ?thesis
    unfolding write_chunks_def
    by (intro preserves_bind preserves_then writes rels preserves_guard preserves_insert_chunks preserves_change
        reads_only_preserves reads_only_publish db_ok_add_chunks db_ok_edit_chunks)
      (simp_all add: new_chunk_def)
qed

lemma preserves_db_ok_index_one: "preserves db_ok (index_one_document env cfg pid sid nd)"
  unfolding index_one_document_def
  by (intro preserves_bind preserves_then preserves_if preserves_option preserves_savepoint preserves_query
      preserves_lift preserves_ret preserves_db_ok_write_chunks reads_only_preserves
      reads_only_as_vector_failure reads_only_delete_by_filter)

lemma preserves_db_ok_index_documents: "preserves db_ok (index_documents env cfg pid sid docs seen b)"
proof (induction docs arbitrary: seen b)
  case (Cons raw docs)
  then show ?case
    by (auto split: sum.split
        intro!: preserves_bind preserves_try preserves_ret preserves_db_ok_index_one)
qed (simp add: preserves_ret)

lemma preserves_db_ok_index: "preserves db_ok (index_normalized_documents env cfg pid sid docs)"
  unfolding index_normalized_documents_def Let_def
  by (intro preserves_bind preserves_then preserves_if preserves_when preserves_ret
      preserves_db_ok_index_documents reads_only_preserves reads_only_invalidate)

lemma no_commit_insert_chunks [intro]: "no_commit (insert_chunks mk ps)"
proof (induction ps)
  case (Cons p ps)
  then show ?case
    unfolding insert_chunks.simps by (intro no_commit_bind no_commit_then no_commit_simple)
qed (simp add: no_commit_simple)

lemma no_commit_write_chunks: "no_commit (write_chunks env cfg pid sid nd current payloads es)"
  unfolding write_chunks_def write_document_def
  by (intro no_commit_bind no_commit_then no_commit_option no_commit_reads [OF reads_only_publish]
      no_commit_insert_chunks no_commit_simple)

lemma atomic_index_one: "atomic (index_one_document env cfg pid sid nd)"
proof -
  have writes: "atomic (savepoint (write_chunks env cfg pid sid nd cur ps es))" for cur ps es
    using no_commit_write_chunks by (intro atomic_savepoint) (simp add: no_commit_def)
  show ?thesis
    unfolding index_one_document_def
    by (intro atomic_bind atomic_then atomic_if atomic_then_ret writes reads_only_simple
        reads_only_option reads_only_as_vector_failure reads_only_delete_by_filter atomic_reads_only)
qed

section \<open>What a successful run writes\<close>

lemma insert_chunks_run:
  "\<exists>rows d'. insert_chunks mk ps s = (Inr rows, s\<lparr>work := d'\<rparr>) \<and> chunks d' = chunks (work s) @ rows
     \<and> documents d' = documents (work s) \<and> list_all2 (\<lambda>p r. \<exists>i. r = mk p i) ps rows"
proof (induction ps arbitrary: s)
  case Nil
  have "s = s\<lparr>work := work s\<rparr>" by simp
  then show ?case by (auto simp: ret_def intro!: exI [of _ "work s"])
next
  case (Cons p ps)
  let ?s = "s\<lparr>work := add_row chunks_update (mk p) (work s)\<rparr>"
  from Cons [of ?s] obtain rows d' where run: "insert_chunks mk ps ?s = (Inr rows, ?s\<lparr>work := d'\<rparr>)"
    and d': "chunks d' = chunks (work ?s) @ rows" "documents d' = documents (work ?s)"
    and rows: "list_all2 (\<lambda>p r. \<exists>i. r = mk p i) ps rows" by blast
  have "insert_chunks mk (p # ps) s = (Inr (mk p (next_id (work s)) # rows), s\<lparr>work := d'\<rparr>)"
    using run by (simp add: then_act_def bind_act_def query_def change_def ret_def)
  moreover have "chunks d' = chunks (work s) @ mk p (next_id (work s)) # rows" "documents d' = documents (work s)"
    using d' by (simp_all add: add_row_def)
  ultimately show ?case using rows by auto
qed

definition chunks_kept :: "document_row option \<Rightarrow> db \<Rightarrow> chunk_row list" where
  "chunks_kept current d = (case current of None \<Rightarrow> chunks d
     | Some r \<Rightarrow> filter (\<lambda>c. chunk_document_id c \<noteq> doc_id r) (chunks d))"

definition documents_written :: "index_env \<Rightarrow> uid \<Rightarrow> uid \<Rightarrow> normalized_document \<Rightarrow> document_row option \<Rightarrow> db \<Rightarrow> document_row list" where
  "documents_written env pid sid nd current d = (case current of
      None \<Rightarrow> documents d @ [new_document (ie_now env) pid sid nd (next_id d)]
    | Some r \<Rightarrow> map (\<lambda>x. if doc_id x = doc_id r then refresh_document nd x else x) (documents d))"

definition document_target :: "document_row option \<Rightarrow> db \<Rightarrow> uid" where
  "document_target current d = (case current of None \<Rightarrow> next_id d | Some r \<Rightarrow> doc_id r)"

lemma write_document_run:
  "\<exists>d'. write_document env pid sid nd current s = (Inr (document_target current (work s)), s\<lparr>work := d'\<rparr>)
     \<and> chunks d' = chunks_kept current (work s) \<and> documents d' = documents_written env pid sid nd current (work s)"
  by (cases current)
    (simp_all add: write_document_def act_simps document_target_def chunks_kept_def documents_written_def
      add_row_def edit_row_def edit_rows_def delete_chunks_def drop_rows_def Let_def,
     (rule exI, rule conjI, rule refl, simp)+)

lemma write_chunks_run:
  assumes "write_chunks env cfg pid sid nd current payloads es s = (Inr u, t)"
  defines "did \<equiv> document_target current (work s)"
  obtains rows where "list_all2 (\<lambda>p r. \<exists>i. r = new_chunk (ie_now env) pid sid did p i) payloads rows"
    and "chunks (work t) = map (\<lambda>c. if chunk_document_id c = did
            then c\<lparr>chunk_search_tsvector := Some (ie_tsvector env (chunk_text c))\<rparr> else c)
          (chunks_kept current (work s) @ rows)"
    and "documents (work t) = documents_written env pid sid nd current (work s)"
    and "committed t = committed s"
proof -
  obtain d1 where w: "write_document env pid sid nd current s = (Inr did, s\<lparr>work := d1\<rparr>)"
    and d1: "chunks d1 = chunks_kept current (work s)" "documents d1 = documents_written env pid sid nd current (work s)"
    using write_document_run unfolding did_def by blast
  let ?mk = "new_chunk (ie_now env) pid sid did"
  obtain rows d2 where i: "insert_chunks ?mk payloads (s\<lparr>work := d1\<rparr>) = (Inr rows, s\<lparr>work := d1\<rparr>\<lparr>work := d2\<rparr>)"
    and d2: "chunks d2 = chunks d1 @ rows" "documents d2 = documents d1"
    and rows: "list_all2 (\<lambda>p r. \<exists>i. r = ?mk p i) payloads rows"
    using insert_chunks_run [of ?mk payloads "s\<lparr>work := d1\<rparr>"] by auto
  let ?rel = "insert_relations (build_chunk_relations (ie_now env)
      (case current of None \<Rightarrow> new_document (ie_now env) pid sid nd did | Some r \<Rightarrow> refresh_document nd r) rows) d2"
  let ?d3 = "edit_rows chunks_update (\<lambda>c. chunk_document_id c = did)
      (\<lambda>c. c\<lparr>chunk_search_tsvector := Some (ie_tsvector env (chunk_text c))\<rparr>) ?rel"
  from assms(1) have "publish_vectors env cfg (nd_path nd) rows es (s\<lparr>work := ?d3\<rparr>) = (Inr u, t)"
    unfolding write_chunks_def
    by (simp add: bind_act_def then_act_def w i guard_act_def raise_def ret_def change_def split: if_splits)
  then have "work t = ?d3 \<and> committed t = committed s"
    using reads_onlyD [OF reads_only_publish] by fastforce
  with that [OF rows] d1 d2 show ?thesis by (simp add: edit_rows_def)
qed

section \<open>The chunks of a document\<close>

definition good_payload :: "settings \<Rightarrow> chunk_payload \<Rightarrow> bool" where
  "good_payload cfg p \<longleftrightarrow> cp_token_count p = count_tokens (cp_text p)
     \<and> (50 < max_chunk_tokens cfg \<longrightarrow> cp_token_count p \<le> max_chunk_tokens cfg)"

lemma add_sub_texts_Inr:
  "add_sub_texts cfg mk ts acc = Inr acc' \<Longrightarrow> int (length acc) \<le> max_chunks_per_document cfg \<Longrightarrow>
   acc' = acc @ map mk ts \<and> int (length acc') \<le> max_chunks_per_document cfg"
  by (induction cfg mk ts acc rule: add_sub_texts.induct) (auto split: if_splits)

lemma sub_texts_within:
  "sub_texts cfg t = Inr ts \<Longrightarrow> 50 < max_chunk_tokens cfg \<Longrightarrow> x \<in> set ts \<Longrightarrow> count_tokens x \<le> max_chunk_tokens cfg"
  using split_text_within by (auto simp: sub_texts_def split: if_splits option.splits)

lemma chunk_payloads_Inr:
  "chunk_payloads cfg d service rcs acc = Inr ps \<Longrightarrow> int (length acc) \<le> max_chunks_per_document cfg \<Longrightarrow>
   list_all (good_payload cfg) acc \<Longrightarrow>
   int (length ps) \<le> max_chunks_per_document cfg \<and> list_all (good_payload cfg) ps"
proof (induction cfg d service rcs acc rule: chunk_payloads.induct)
  case (2 cfg d service rc rcs acc)
  from 2(2) obtain ts acc' where ts: "sub_texts cfg (rc_text rc) = Inr ts"
    and acc': "add_sub_texts cfg (chunk_payload_for d service rc) ts acc = Inr acc'"
    and rest: "chunk_payloads cfg d service rcs acc' = Inr ps"
    by (auto simp: rbind_Inr_iff)
  have "good_payload cfg (chunk_payload_for d service rc x)" if "x \<in> set ts" for x
    using sub_texts_within [OF ts _ that] by (simp add: good_payload_def chunk_payload_for_def Let_def)
  with add_sub_texts_Inr [OF acc' 2(3)] 2(4)
  have "int (length acc') \<le> max_chunks_per_document cfg" "list_all (good_payload cfg) acc'"
    by (auto simp: list_all_iff)
  with 2(1) [OF rest] show ?case by blast
qed simp

lemma prepare_chunks_Inr:
  assumes "prepare_chunks ps cfg d = Inr payloads" and "0 \<le> max_chunks_per_document cfg"
  shows "int (length payloads) \<le> max_chunks_per_document cfg \<and> list_all (good_payload cfg) payloads"
  using assms unfolding prepare_chunks_def Let_def
  by (auto simp: rbind_Inr_iff dest!: chunk_payloads_Inr split: sum.splits prod.splits option.splits if_splits)

section \<open>One document, run to the end\<close>

lemma index_one_skip:
  assumes "find_document pid sid (nd_external_id nd) (work s) = [r]" and "doc_content_hash r = Some (nd_content_hash nd)"
  shows "index_one_document env cfg pid sid nd s =
    (Inr \<lparr>op_created = 0, op_updated = 0, op_skipped_unchanged = 1, op_chunks_created = 0, op_chunk_type_counts = []\<rparr>, s)"
  using assms by (simp add: index_one_document_def act_simps one_or_none_def)

lemma index_one_run:
  assumes run: "index_one_document env cfg pid sid nd s = (Inr op, t)"
  obtains (skip) r where "find_document pid sid (nd_external_id nd) (work s) = [r]"
      and "doc_content_hash r = Some (nd_content_hash nd)" and "t = s"
      and "op = \<lparr>op_created = 0, op_updated = 0, op_skipped_unchanged = 1, op_chunks_created = 0, op_chunk_type_counts = []\<rparr>"
  | (written) current payloads es u v where "one_or_none (find_document pid sid (nd_external_id nd) (work s)) = Inr current"
      and "prepare_chunks (ie_parsers env) cfg nd = Inr payloads" and "work u = work s" and "committed u = committed s"
      and "write_chunks env cfg pid sid nd current payloads es u = (Inr v, t)"
      and "op = \<lparr>op_created = (if current = None then 1 else 0), op_updated = (if current = None then 0 else 1),
                 op_skipped_unchanged = 0, op_chunks_created = int (length payloads),
                 op_chunk_type_counts = tally (map cp_chunk_type payloads)\<rparr>"
proof -
  let ?rs = "find_document pid sid (nd_external_id nd) (work s)"
  from run obtain current where cur: "one_or_none ?rs = Inr current"
    by (cases "one_or_none ?rs") (auto simp: index_one_document_def act_simps)
  show ?thesis
  proof (cases "case current of Some r \<Rightarrow> doc_content_hash r = Some (nd_content_hash nd) | None \<Rightarrow> False")
    case True
    with cur obtain r where "?rs = [r]" "doc_content_hash r = Some (nd_content_hash nd)"
      by (auto simp: one_or_none_def split: option.splits list.splits)
    with index_one_skip [OF this, where env = env and cfg = cfg] run show ?thesis by (intro skip) auto
  next
    case False
    let ?del = "case current of None \<Rightarrow> ret () | Some r \<Rightarrow> as_vector_failure ''failed to replace document vectors''
          (delete_by_filter (ie_http env) cfg pid [(''document_id'', uid_str (doc_id r))])"
    have ro: "reads_only ?del" by (intro reads_only_option reads_only_simple reads_only_as_vector_failure reads_only_delete_by_filter)
    from run False cur obtain payloads es u w v where
      p: "prepare_chunks (ie_parsers env) cfg nd = Inr payloads" and u: "?del s = (Inr w, u)"
      and sp: "savepoint (write_chunks env cfg pid sid nd current payloads es) u = (Inr v, t)"
      and op: "op = \<lparr>op_created = (if current = None then 1 else 0), op_updated = (if current = None then 0 else 1),
                 op_skipped_unchanged = 0, op_chunks_created = int (length payloads),
                 op_chunk_type_counts = tally (map cp_chunk_type payloads)\<rparr>"
      by (auto simp: index_one_document_def bind_act_Inr_iff then_act_Inr_iff query_def lift_result_def ret_def)
    from sp have "write_chunks env cfg pid sid nd current payloads es u = (Inr v, t)"
      by (auto simp: savepoint_def split: prod.splits sum.splits)
    with written [OF cur p _ _ _ op] reads_onlyD [OF ro u] show ?thesis by blast
  qed
qed

lemma one_or_none_Inr: "one_or_none rs = Inr current \<Longrightarrow> rs = (case current of None \<Rightarrow> [] | Some r \<Rightarrow> [r])"
  by (auto simp: one_or_none_def split: list.splits)

lemma new_document_fields [simp]:
  "doc_id (new_document now pid sid nd i) = i" "doc_project_id (new_document now pid sid nd i) = pid"
  "doc_source_id (new_document now pid sid nd i) = Some sid"
  "doc_external_id (new_document now pid sid nd i) = Some (nd_external_id nd)"
  "doc_content_hash (new_document now pid sid nd i) = Some (nd_content_hash nd)"
  by (simp_all add: new_document_def refresh_document_def)

lemma refresh_document_fields [simp]:
  "doc_id (refresh_document nd r) = doc_id r" "doc_project_id (refresh_document nd r) = doc_project_id r"
  "doc_source_id (refresh_document nd r) = doc_source_id r" "doc_external_id (refresh_document nd r) = doc_external_id r"
  "doc_content_hash (refresh_document nd r) = Some (nd_content_hash nd)"
  by (simp_all add: refresh_document_def)

lemma filter_map_same: "(\<And>x. P (f x) = P x) \<Longrightarrow> filter P (map f xs) = map f (filter P xs)"
  by (induction xs) auto

text \<open>The written document is the only one found under its identifier, and it has the new hash.\<close>

lemma written_document_found:
  assumes "one_or_none (find_document pid sid (nd_external_id nd) d) = Inr current"
    and "documents d' = documents_written env pid sid nd current d"
  shows "\<exists>r. find_document pid sid (nd_external_id nd) d' = [r] \<and> doc_id r = document_target current d
    \<and> doc_content_hash r = Some (nd_content_hash nd)"
proof (cases current)
  case None
  with one_or_none_Inr [OF assms(1)] have "find_document pid sid (nd_external_id nd) d = []" by simp
  with assms(2) None show ?thesis
    by (simp add: find_document_def documents_written_def document_target_def)
next
  case (Some r)
  let ?f = "\<lambda>x. if doc_id x = doc_id r then refresh_document nd x else x"
  from one_or_none_Inr [OF assms(1)] Some have "find_document pid sid (nd_external_id nd) d = [r]" by simp
  moreover have "find_document pid sid (nd_external_id nd) d' = map ?f (find_document pid sid (nd_external_id nd) d)"
    using assms(2) Some unfolding find_document_def documents_written_def
    by (simp add: filter_map_same)
  ultimately show ?thesis using Some by (simp add: document_target_def)
qed

lemma chunk_tsv_text [simp]:
  "chunk_text (c\<lparr>chunk_search_tsvector := v\<rparr>) = chunk_text c"
  "chunk_document_id (c\<lparr>chunk_search_tsvector := v\<rparr>) = chunk_document_id c"
  by simp_all

lemma filter_target_rows:
  fixes did :: uid and ts :: "string \<Rightarrow> string"
  assumes "list_all2 (\<lambda>p r. \<exists>i. r = new_chunk now pid sid did p i) payloads rows"
    and "\<forall>c \<in> set kept. chunk_document_id c \<noteq> did"
  defines "f \<equiv> \<lambda>c. if chunk_document_id c = did then c\<lparr>chunk_search_tsvector := Some (ts (chunk_text c))\<rparr> else c"
  shows "map chunk_text (filter (\<lambda>c. chunk_document_id c = did) (map f (kept @ rows))) = map cp_text payloads"
    and "filter (\<lambda>c. chunk_document_id c \<noteq> did) (map f (kept @ rows)) = kept"
proof -
  have did: "chunk_document_id (f c) = chunk_document_id c" and tx: "chunk_text (f c) = chunk_text c" for c
    by (simp_all add: f_def)
  have rows: "map chunk_text rows = map cp_text payloads \<and> (\<forall>c \<in> set rows. chunk_document_id c = did)"
    using assms(1) by (induction rule: list_all2_induct) (auto simp: new_chunk_def)
  have "filter (\<lambda>c. chunk_document_id c = did) (map f (kept @ rows)) = map f rows"
    using assms(2) rows did by (simp add: filter_map_same filter_True filter_False)
  with rows tx show "map chunk_text (filter (\<lambda>c. chunk_document_id c = did) (map f (kept @ rows))) = map cp_text payloads"
    by (simp add: o_def)
  have "filter (\<lambda>c. chunk_document_id c \<noteq> did) (map f (kept @ rows)) = map f kept"
    using assms(2) rows did by (simp add: filter_map_same filter_True filter_False)
  moreover have "map f kept = kept" using assms(2) by (simp add: f_def map_idI)
  ultimately show "filter (\<lambda>c. chunk_document_id c \<noteq> did) (map f (kept @ rows)) = kept" by simp
qed


lemma write_chunks_plain:
  assumes "list_all payload_fits payloads"
  shows "\<exists>t. write_chunks env cfg pid sid nd current payloads None s = (Inr (), t)"
proof -
  obtain d1 where w: "write_document env pid sid nd current s = (Inr (document_target current (work s)), s\<lparr>work := d1\<rparr>)"
    using write_document_run by blast
  let ?mk = "new_chunk (ie_now env) pid sid (document_target current (work s))"
  obtain rows d2 where "insert_chunks ?mk payloads (s\<lparr>work := d1\<rparr>) = (Inr rows, s\<lparr>work := d1\<rparr>\<lparr>work := d2\<rparr>)"
    using insert_chunks_run [of ?mk payloads "s\<lparr>work := d1\<rparr>"] by blast
  with w assms show ?thesis
    unfolding write_chunks_def
    by (simp add: bind_act_def then_act_def guard_act_def ret_def change_def publish_vectors_def)
qed

section \<open>A run on concrete data\<close>

definition sample_raw_chunk :: "string \<Rightarrow> string \<Rightarrow> json \<Rightarrow> raw_chunk" where
  "sample_raw_chunk content path service =
     \<lparr>rc_text = content, rc_chunk_type = ''log_time_window'', rc_source_type = ''logs'', rc_document_path = path,
      rc_doc_type = ''log'', rc_service_name = service, rc_endpoint = None, rc_deploy_hash = JNull,
      rc_timestamp_start = None, rc_timestamp_end = None, rc_section_title = None, rc_start_line = None,
      rc_end_line = None, rc_metadata = []\<rparr>"

definition sample_parsers :: parsers where
  "sample_parsers =
     \<lparr>ps_logs = (\<lambda>c p v. Inr [sample_raw_chunk c p v]), ps_patch_file = (\<lambda>_ _. Inr []),
      ps_deploy_history = (\<lambda>_ _. Inr []), ps_incident = (\<lambda>_ _. Inr []), ps_python = (\<lambda>_ _ _. Inr []),
      ps_go = (\<lambda>_ _ _. Inr []), ps_jsts = (\<lambda>_ _ _ _. Inr []), ps_java = (\<lambda>_ _ _. Inr []),
      ps_proto = (\<lambda>_ _ _. Inr []), ps_structured_config = (\<lambda>_ _ _ _. Inr []),
      ps_markdown = (\<lambda>_ _ _ _. Inl (ValueError ''bad''))\<rparr>"

definition sample_env :: index_env where
  "sample_env = \<lparr>ie_parsers = sample_parsers, ie_embed = None, ie_http = (\<lambda>_ _. None), ie_tsvector = id, ie_now = 0\<rparr>"

definition sample_payload :: chunk_payload where
  "sample_payload = chunk_payload_for sample_document (JStr ''svc'')
     (sample_raw_chunk ''boom'' ''svc/a.log'' (JStr ''svc'')) ''boom''"

lemma sample_prepare: "prepare_chunks sample_parsers (default_settings ''host'') sample_document = Inr [sample_payload]"
proof -
  have lim: "max_chunk_tokens (default_settings ''host'') = 512 \<and> max_chunks_per_document (default_settings ''host'') = 500"
    by (simp add: default_settings_def)
  have svc: "service_of_document sample_document = JStr ''svc''"
    by (simp add: service_of_document_def sample_document_def dict_get_or_def json_or_def)
  have tok: "count_tokens ''boom'' = 1" by code_simp
  have parse: "parse_normalized_document sample_parsers sample_document (JStr ''svc'')
      = Inr ([sample_raw_chunk ''boom'' ''svc/a.log'' (JStr ''svc'')], None)"
    by (simp add: parse_normalized_document_def Let_def sample_document_def sample_parsers_def parsed_def
        py_lower_def lower_char_def is_upper_cased_def in_range_def cp_def)
  have "rc_text (sample_raw_chunk c p v) = c" for c p v by (simp add: sample_raw_chunk_def)
  then show ?thesis
    by (simp add: prepare_chunks_def Let_def svc parse lim tok ceil_div_def sub_texts_def sample_payload_def)
qed

lemma sample_index_one:
  "\<exists>t. index_one_document sample_env (default_settings ''host'') 1 2 sample_document (new_session empty_db)
     = (Inr \<lparr>op_created = 1, op_updated = 0, op_skipped_unchanged = 0, op_chunks_created = 1,
             op_chunk_type_counts = [(''log_time_window'', 1)]\<rparr>, t)"
proof -
  have none: "find_document 1 2 (nd_external_id sample_document) empty_db = []" by (simp add: find_document_def empty_db_def)
  have fits: "payload_fits sample_payload" and ty: "cp_chunk_type sample_payload = ''log_time_window''"
    by code_simp+
  have "list_all payload_fits [sample_payload]" using fits by simp
  then obtain t where "write_chunks sample_env (default_settings ''host'') 1 2 sample_document None [sample_payload] None
      (new_session empty_db) = (Inr (), t)"
    using write_chunks_plain by blast
  moreover have "ie_parsers sample_env = sample_parsers" "ie_embed sample_env = None" by (simp_all add: sample_env_def)
  ultimately show ?thesis
    by (simp add: index_one_document_def act_simps none one_or_none_def sample_prepare embed_chunks_def
        tally_def dict_incr_def dict_get_or_def ty del: One_nat_def)
qed


text \<open>
  Indexing is idempotent: after a successful run for a document, running it again skips it, creates no chunk, writes
  no row and sends no request.
\<close>

theorem reindexing_is_a_skip:
  assumes "index_one_document env cfg pid sid nd s = (Inr op, t)"
  shows "index_one_document env' cfg' pid sid nd t =
    (Inr \<lparr>op_created = 0, op_updated = 0, op_skipped_unchanged = 1, op_chunks_created = 0, op_chunk_type_counts = []\<rparr>, t)"
  using assms
proof (cases rule: index_one_run)
  case (skip r)
  then show ?thesis by (simp add: index_one_skip)
next
  case (written current payloads es u v)
  obtain rows where "documents (work t) = documents_written env pid sid nd current (work s)"
    by (rule write_chunks_run [OF written(5), unfolded written(3)])
  from written_document_found [OF written(1) this] obtain r where
    "find_document pid sid (nd_external_id nd) (work t) = [r]" "doc_content_hash r = Some (nd_content_hash nd)" by blast
  then show ?thesis by (rule index_one_skip)
qed

theorem reindexing_is_a_skip_witness:
  "\<exists>op t. index_one_document sample_env (default_settings ''host'') 1 2 sample_document (new_session empty_db) = (Inr op, t)
    \<and> op_created op = 1
    \<and> index_one_document sample_env (default_settings ''host'') 1 2 sample_document t =
      (Inr \<lparr>op_created = 0, op_updated = 0, op_skipped_unchanged = 1, op_chunks_created = 0, op_chunk_type_counts = []\<rparr>, t)"
proof -
  obtain op t where run: "index_one_document sample_env (default_settings ''host'') 1 2 sample_document (new_session empty_db) = (Inr op, t)"
    and op: "op_created op = 1" using sample_index_one by fastforce
  from reindexing_is_a_skip [OF run] run op show ?thesis by blast
qed

text \<open>
  C4. A document that fails leaves no trace in the tables: when \<open>_index_one_document\<close> raises, for a parser error, the
  chunk limit, an embedding failure or a refused publication, every row is as before.
\<close>

theorem failed_document_writes_nothing:
  assumes "index_one_document env cfg pid sid nd s = (Inl e, t)"
  shows "work t = work s \<and> committed t = committed s"
  using atomic_index_one assms by (rule atomicD)

definition sample_bad_document :: normalized_document where
  "sample_bad_document = sample_document\<lparr>nd_path := ''svc/a.md'', nd_source_type := ''runbook''\<rparr>"

theorem failed_document_writes_nothing_witness:
  "\<exists>e t. index_one_document sample_env (default_settings ''host'') 1 2 sample_bad_document (new_session empty_db) = (Inl e, t)
    \<and> work t = empty_db \<and> committed t = empty_db"
proof -
  have none: "find_document 1 2 (nd_external_id sample_bad_document) empty_db = []" by (simp add: find_document_def empty_db_def)
  have "case prepare_chunks sample_parsers (default_settings ''host'') sample_bad_document of Inl e \<Rightarrow> True | Inr _ \<Rightarrow> False"
    by (simp add: prepare_chunks_def Let_def parse_normalized_document_def sample_bad_document_def sample_document_def
        parsed_def sample_parsers_def any_in_def py_lower_def lower_char_def is_upper_cased_def in_range_def cp_def path_suffix_def name_suffix_def
        path_name_def path_parts_def path_is_absolute_def)
  then obtain e where "prepare_chunks sample_parsers (default_settings ''host'') sample_bad_document = Inl e"
    by (auto split: sum.splits)
  moreover have "ie_parsers sample_env = sample_parsers" by (simp add: sample_env_def)
  ultimately have "index_one_document sample_env (default_settings ''host'') 1 2 sample_bad_document (new_session empty_db)
      = (Inl e, new_session empty_db)"
    by (simp add: index_one_document_def act_simps none one_or_none_def del: One_nat_def)
  from failed_document_writes_nothing [OF this] this show ?thesis by auto
qed

section \<open>Batch totals\<close>

definition public_code :: "py_exn \<Rightarrow> bool" where
  "public_code e = (case e of DocumentIndexingError code _ \<Rightarrow> code \<in> set failure_reasons | _ \<Rightarrow> True)"

lemma public_indexing_error [simp]: "public_code (indexing_error c m)"
  by (simp add: public_code_def indexing_error_def normalize_failure_code_reason)

lemma public_other [simp]: "public_code (OtherError c m)"
  by (simp add: public_code_def)

definition store_error :: "py_exn \<Rightarrow> bool" where
  "store_error e \<longleftrightarrow> (\<exists>m. e = VectorStoreError m) \<or> (\<exists>c m. e = OtherError c m)"

lemma raises_send: "raises store_error (send http msg e)"
  unfolding send_def by (intro raises_bind raises_simple raises_option raises_raise) (simp add: store_error_def)

lemma raises_status: "raises store_error (raise_for_status n op)"
  unfolding raise_for_status_def by (intro raises_guard) (simp add: store_error_def)

lemma base_url_error: "base_url cfg = Inl e \<Longrightarrow> store_error e"
  by (auto simp: base_url_def Let_def store_error_def split: if_splits)

lemma json_get_error: "json_get v k d = Inl e \<Longrightarrow> store_error e"
  by (auto simp: json_get_def store_error_def split: json.splits)

lemma dimension_error: "rbind (response_json b) collection_dimension = Inl e \<Longrightarrow> store_error e"
  by (auto simp: response_json_def collection_dimension_def rbind_def store_error_def
      split: option.splits sum.splits dest!: json_get_error)

lemma raises_payload_indexes: "raises store_error (create_payload_indexes http cfg base fs)"
proof (induction fs)
  case (Cons f fs)
  then show ?case unfolding create_payload_indexes.simps
    by (intro raises_bind raises_pair raises_then raises_send raises_status)
qed (simp add: raises_simple)

lemma raises_upsert: "raises store_error (upsert http cfg points n)"
  unfolding upsert_def ensure_collection_def
  by (intro raises_if raises_simple raises_then raises_bind raises_pair raises_send raises_status raises_lift
      raises_guard raises_payload_indexes)
    (auto simp: store_error_def dest: base_url_error dimension_error)

lemma raises_delete: "raises store_error (delete_by_filter http cfg pid fs)"
  unfolding delete_by_filter_def
  by (intro raises_option raises_pair raises_if raises_simple raises_bind raises_send raises_status raises_lift raises_raise)
    (auto simp: store_error_def dest: base_url_error)

lemma raises_as_vector_failure: "raises store_error m \<Longrightarrow> raises public_code (as_vector_failure msg m)"
  unfolding as_vector_failure_def
  by (erule raises_try_of) (auto simp: store_error_def intro!: raises_raise)

lemma raises_publish: "raises public_code (publish_vectors env cfg path rows es)"
  unfolding publish_vectors_def
  by (intro raises_option raises_if raises_simple raises_then raises_guard raises_as_vector_failure raises_upsert) simp

lemma raises_insert_chunks: "raises Q (insert_chunks mk ps)"
proof (induction ps)
  case (Cons p ps)
  then show ?case unfolding insert_chunks.simps by (intro raises_bind raises_then raises_simple)
qed (simp add: raises_simple)

lemma raises_write_document: "raises Q (write_document env pid sid nd cur)"
  unfolding write_document_def by (intro raises_option raises_bind raises_then raises_simple)

lemma raises_write_chunks: "raises public_code (write_chunks env cfg pid sid nd cur ps es)"
  unfolding write_chunks_def
  by (intro raises_bind raises_then raises_simple raises_guard raises_publish raises_insert_chunks raises_write_document)
    (simp add: public_code_def)

lemma rbind_Inl_iff: "rbind m f = Inl e \<longleftrightarrow> m = Inl e \<or> (\<exists>x. m = Inr x \<and> f x = Inl e)"
  by (cases m) auto

lemma ceil_div_public: "ceil_div a b = Inl e \<Longrightarrow> public_code e"
  by (auto simp: ceil_div_def split: if_splits)

lemma estimate_public: "estimate_chunk_segments cs m = Inl e \<Longrightarrow> public_code e"
  by (induction cs) (auto simp: rbind_Inl_iff dest: ceil_div_public)

lemma fallback_public: "build_bounded_fallback_chunks d v cfg = Inl e \<Longrightarrow> public_code e"
  by (auto simp: build_bounded_fallback_chunks_def Let_def rbind_Inl_iff dest: ceil_div_public split: if_splits)

lemma add_sub_texts_public: "add_sub_texts cfg mk ts acc = Inl e \<Longrightarrow> public_code e"
  by (induction cfg mk ts acc rule: add_sub_texts.induct) (auto split: if_splits)

lemma chunk_payloads_public: "chunk_payloads cfg d v rcs acc = Inl e \<Longrightarrow> public_code e"
  by (induction cfg d v rcs acc rule: chunk_payloads.induct)
    (auto simp: rbind_Inl_iff sub_texts_def dest: add_sub_texts_public split: if_splits option.splits)

lemma prepare_public: "prepare_chunks ps cfg d = Inl e \<Longrightarrow> public_code e"
  unfolding prepare_chunks_def Let_def
  by (auto simp: rbind_Inl_iff dest: estimate_public fallback_public chunk_payloads_public
      split: sum.splits prod.splits option.splits if_splits)

lemma embed_public: "embed_chunks env ps = Inl e \<Longrightarrow> public_code e"
  by (auto simp: embed_chunks_def split: option.splits if_splits sum.splits)

lemma one_or_none_public: "one_or_none rs = Inl e \<Longrightarrow> public_code e"
  by (auto simp: one_or_none_def split: list.splits)

lemma raises_index_one: "raises public_code (index_one_document env cfg pid sid nd)"
  unfolding index_one_document_def
  by (intro raises_bind raises_then raises_if raises_option raises_simple raises_lift raises_savepoint
      raises_write_chunks raises_as_vector_failure raises_delete)
    (auto dest: prepare_public embed_public one_or_none_public)

text \<open>The bookkeeping of one document: exactly one of the three counters, and the chunk types add up.\<close>

definition operation_ok :: "index_operation \<Rightarrow> bool" where
  "operation_ok op \<longleftrightarrow> op_created op + op_updated op + op_skipped_unchanged op = 1
     \<and> 0 \<le> op_created op \<and> 0 \<le> op_updated op \<and> 0 \<le> op_skipped_unchanged op
     \<and> sum_list (map snd (op_chunk_type_counts op)) = op_chunks_created op"

lemma index_one_ok: "index_one_document env cfg pid sid nd s = (Inr op, t) \<Longrightarrow> operation_ok op"
  by (erule index_one_run) (simp_all add: operation_ok_def sum_values_tally)

definition batch_ok :: "batch_result \<Rightarrow> int \<Rightarrow> bool" where
  "batch_ok b n \<longleftrightarrow> br_created b + br_updated b + br_skipped_unchanged b + br_skipped_invalid b = n
     \<and> int (length (br_errors b)) = br_skipped_invalid b
     \<and> list_all (\<lambda>e. de_code e \<in> set failure_reasons) (br_errors b)
     \<and> sum_list (map snd (br_chunk_type_counts b)) = br_chunks_created b
     \<and> sum_list (map snd (br_source_type_counts b)) = br_created b + br_updated b"

lemma sum_counter_update:
  "sum_list (map snd (counter_update d e)) = sum_list (map snd d) + sum_list (map snd e)"
proof -
  have "sum_list (map snd (fold (\<lambda>(k, n). dict_incr k n) e d)) = sum_list (map snd d) + sum_list (map snd e)"
    by (induction e arbitrary: d) (auto simp: sum_values_incr)
  then show ?thesis by (simp add: counter_update_def)
qed

lemma batch_ok_rejected: "batch_ok b n \<Longrightarrow> de_code e \<in> set failure_reasons \<Longrightarrow> batch_ok (rejected e b) (n + 1)"
  by (simp add: batch_ok_def rejected_def)

lemma batch_ok_counted:
  assumes "batch_ok b n" and "operation_ok op"
  shows "batch_ok (counted nd op b) (n + 1)"
proof -
  have "op_created op + op_updated op = (if op_created op \<noteq> 0 \<or> op_updated op \<noteq> 0 then 1 else 0)"
    using assms(2) unfolding operation_ok_def by auto
  with assms show ?thesis
    by (simp add: batch_ok_def counted_def operation_ok_def sum_counter_update sum_values_incr)
qed

lemma exn_failure_code: "public_code e \<Longrightarrow> de_code (exn_failure nd e) \<in> set failure_reasons"
  by (simp add: exn_failure_def document_failure_def public_code_def normalize_failure_code_reason split: py_exn.splits)

lemma validation_error_code: "validate_normalized_document d cfg ab = Inl e \<Longrightarrow> de_code e \<in> set failure_reasons"
  unfolding validate_normalized_document_def Let_def
  by (auto simp: doc_error_def normalize_failure_code_reason split: option.splits if_splits)

lemma index_documents_ok:
  "batch_ok b n \<Longrightarrow> \<exists>b' t. index_documents env cfg pid sid docs seen b s = (Inr b', t)
     \<and> batch_ok b' (n + int (length docs)) \<and> br_received b' = br_received b"
proof (induction docs arbitrary: seen b n s)
  case Nil
  then show ?case by (simp add: ret_def)
next
  case (Cons raw docs)
  have n: "n + int (length (raw # docs)) = (n + 1) + int (length docs)" by simp
  have rej: "br_received (rejected e b) = br_received b" and cnt: "br_received (counted nd op b) = br_received b" for e nd op
    by (simp_all add: rejected_def counted_def)
  show ?case
  proof (cases "validate_normalized_document raw cfg False")
    case (Inl e)
    then have "batch_ok (rejected e b) (n + 1)" using Cons.prems by (intro batch_ok_rejected validation_error_code)
    from Cons.IH [OF this] Inl rej show ?thesis unfolding n by simp
  next
    case (Inr nd)
    show ?thesis
    proof (cases "nd_external_id nd \<in> set seen")
      case True
      let ?e = "document_failure nd (normalize_failure_code (Some ''duplicate_external_id''))
          ''duplicate external_id in batch'' ''duplicate external_id in batch''"
      have "batch_ok (rejected ?e b) (n + 1)" using Cons.prems
        by (intro batch_ok_rejected) (simp_all add: document_failure_def normalize_failure_code_reason)
      from Cons.IH [OF this] Inr True rej show ?thesis unfolding n by simp
    next
      case False
      obtain r u where run: "index_one_document env cfg pid sid nd s = (r, u)"
        by (cases "index_one_document env cfg pid sid nd s")
      let ?b = "case r of Inl e \<Rightarrow> rejected (exn_failure nd e) b | Inr op \<Rightarrow> counted nd op b"
      have "batch_ok ?b (n + 1)"
        using run Cons.prems raisesD [OF raises_index_one] index_one_ok
        by (cases r) (auto intro!: batch_ok_rejected batch_ok_counted exn_failure_code)
      from Cons.IH [OF this, of "nd_external_id nd # seen" u]
      obtain b' t where rest: "index_documents env cfg pid sid docs (nd_external_id nd # seen) ?b u = (Inr b', t)"
        and ok: "batch_ok b' (n + 1 + int (length docs))" and rec: "br_received b' = br_received ?b" by blast
      have "br_received ?b = br_received b" by (cases r) (simp_all add: rej cnt)
      moreover have "index_documents env cfg pid sid (raw # docs) seen b s = (Inr b', t)"
        using Inr False run rest by (cases r) (simp_all add: bind_act_def try_act_def ret_def)
      ultimately show ?thesis using ok rec unfolding n by auto
    qed
  qed
qed

text \<open>
  C18. A batch never fails as a whole and its totals add up: every document received is counted exactly once as created,
  updated, unchanged or invalid; each invalid one has an error with a public failure code; the chunk
  types add up to the chunks created, the source types to the documents written.
\<close>

theorem batch_totals_add_up:
  "case index_normalized_documents env cfg pid sid docs s of
     (Inl e, t) \<Rightarrow> False
   | (Inr b, t) \<Rightarrow> br_received b = int (length docs)
       \<and> br_created b + br_updated b + br_skipped_unchanged b + br_skipped_invalid b = br_received b
       \<and> int (length (br_errors b)) = br_skipped_invalid b
       \<and> list_all (\<lambda>e. de_code e \<in> set failure_reasons) (br_errors b)
       \<and> sum_list (map snd (br_chunk_type_counts b)) = br_chunks_created b
       \<and> sum_list (map snd (br_source_type_counts b)) = br_created b + br_updated b"
proof (cases "docs = []")
  case True
  then show ?thesis by (simp add: index_normalized_documents_def empty_batch_def ret_def)
next
  case False
  let ?start = "empty_batch (int (length docs)) (case ie_embed env of None \<Rightarrow> None | Some _ \<Rightarrow> Some (embedding_model cfg))"
  have "batch_ok ?start 0" by (simp add: batch_ok_def empty_batch_def)
  from index_documents_ok [OF this] obtain b t where
    run: "index_documents env cfg pid sid docs [] ?start s = (Inr b, t)" and ok: "batch_ok b (int (length docs))"
    and rec: "br_received b = int (length docs)"
    by (fastforce simp: empty_batch_def)
  have "\<exists>u. when_act c (invalidate_project cfg pid) v = (Inr (), u)" for c v
    by (simp add: when_act_def invalidate_project_def call_def ret_def)
  then obtain u where "when_act (br_created b \<noteq> 0 \<or> br_updated b \<noteq> 0) (invalidate_project cfg pid) t = (Inr (), u)" by blast
  with run False ok rec show ?thesis
    by (simp add: index_normalized_documents_def Let_def bind_act_def then_act_def ret_def batch_ok_def)
qed

section \<open>Tables indexing does not touch\<close>

definition apart_from_index :: "(db \<Rightarrow> 'x) \<Rightarrow> bool" where
  "apart_from_index g \<longleftrightarrow> (\<forall>d f. g (documents_update f d) = g d) \<and> (\<forall>d f. g (chunks_update f d) = g d)
     \<and> (\<forall>d f. g (evidence_relations_update f d) = g d) \<and> (\<forall>d f. g (retrieval_results_update f d) = g d)
     \<and> (\<forall>d f. g (next_id_update f d) = g d)"

lemma apart_statements:
  assumes "apart_from_index g"
  shows "g (add_row documents_update mk d) = g d" "g (add_row chunks_update mk' d) = g d"
    "g (edit_rows documents_update P f d) = g d" "g (edit_rows chunks_update Q h d) = g d"
    "g (edit_row documents_update key k f d) = g d" "g (delete_chunks Q d) = g d" "g (insert_relations mks d) = g d"
proof -
  show "g (insert_relations mks d) = g d"
    using assms by (induction mks d rule: insert_relations.induct) (simp_all add: apart_from_index_def add_row_def)
qed (use assms in \<open>simp_all add: apart_from_index_def stmt_defs delete_chunks_def Let_def\<close>)

lemma keeps_insert_chunks: "apart_from_index g \<Longrightarrow> keeps_table g (insert_chunks mk ps)"
proof (induction ps)
  case (Cons p ps)
  then show ?case unfolding insert_chunks.simps
    by (intro keeps_bind keeps_then keeps_simple keeps_table_change) (simp_all add: apart_statements)
qed (simp add: keeps_simple)

lemma keeps_write_chunks: "apart_from_index g \<Longrightarrow> keeps_table g (write_chunks env cfg pid sid nd cur ps es)"
  unfolding write_chunks_def write_document_def
  by (intro keeps_bind keeps_then keeps_option keeps_simple keeps_table_change keeps_insert_chunks
      keeps_table_reads reads_only_publish) (simp_all add: apart_statements)

lemma keeps_index_one: "apart_from_index g \<Longrightarrow> keeps_table g (index_one_document env cfg pid sid nd)"
  unfolding index_one_document_def
  by (intro keeps_bind keeps_then keeps_if keeps_option keeps_simple keeps_table_savepoint keeps_write_chunks
      no_commit_write_chunks keeps_table_reads [OF reads_only_as_vector_failure] reads_only_delete_by_filter)

lemma no_commit_index_one: "no_commit (index_one_document env cfg pid sid nd)"
  unfolding index_one_document_def
  by (intro no_commit_bind no_commit_then no_commit_if no_commit_option no_commit_simple no_commit_savepoint
      no_commit_write_chunks no_commit_reads [OF reads_only_as_vector_failure] reads_only_delete_by_filter)

lemma keeps_index_documents:
  "apart_from_index g \<Longrightarrow> keeps_table g (index_documents env cfg pid sid docs seen b)"
proof (induction docs arbitrary: seen b)
  case (Cons raw docs)
  then show ?case
    by (cases "validate_normalized_document raw cfg False")
      (auto intro!: keeps_if keeps_bind keeps_try keeps_simple keeps_index_one)
qed (simp add: keeps_simple)

lemma no_commit_index_documents: "no_commit (index_documents env cfg pid sid docs seen b)"
proof (induction docs arbitrary: seen b)
  case (Cons raw docs)
  then show ?case
    by (cases "validate_normalized_document raw cfg False")
      (auto intro!: no_commit_if no_commit_bind no_commit_try no_commit_simple no_commit_index_one)
qed (simp add: no_commit_simple)

lemma keeps_index: "apart_from_index g \<Longrightarrow> keeps_table g (index_normalized_documents env cfg pid sid docs)"
  unfolding index_normalized_documents_def Let_def
  by (intro keeps_if keeps_bind keeps_then keeps_when keeps_simple keeps_index_documents keeps_table_reads
      reads_only_invalidate)

lemma no_commit_index: "no_commit (index_normalized_documents env cfg pid sid docs)"
  unfolding index_normalized_documents_def Let_def
  by (intro no_commit_if no_commit_bind no_commit_then no_commit_when no_commit_simple no_commit_index_documents
      no_commit_reads [OF reads_only_invalidate])

end
