(* ===== verification/Operations.thy ===== *)
theory Operations
  imports Indexer Access
begin

text \<open>
  The operational agents (\<open>incidentops/operations/service.py\<close>): idempotent creation of runs, events,
  the observer, the logging aggregate and the failure marker. SHA-256, the printing of floats and
  the parsing of numbers in text are parameters. Metrics are not modelled. One call of the clock
  serves a whole operation.
\<close>

section \<open>Payloads\<close>

definition run_types :: "string list" where
  "run_types = [''evaluator'', ''observer'', ''logging'']"

definition op_terminal :: "op_status \<Rightarrow> bool" where
  "op_terminal st \<longleftrightarrow> st = OpCompleted \<or> st = OpFailed"

definition drop_keys :: "string list" where
  "drop_keys = [''content'', ''text'', ''raw'', ''document'', ''documents'', ''prompt'', ''evidence'', ''password'',
     ''secret'', ''token'', ''api_key'', ''authorization'', ''connection_string'']"

definition dropped_key :: "string \<Rightarrow> bool" where
  "dropped_key k = (let n = normalize_key k in
     n \<in> set drop_keys \<or> any_in [''secret'', ''token'', ''password'', ''credential'', ''content'', ''evidence''] n)"

text \<open>The loop that fills the result dict: later entries overwrite equal keys.\<close>

definition payload_entries :: "json dict \<Rightarrow> json dict" where
  "payload_entries d = fold (\<lambda>(k, v).
     if dropped_key k then dict_set k (JStr ''[REDACTED]'') else dict_set (take 96 k) v) (take 40 d) []"

fun sanitize_operational_payload :: "json \<Rightarrow> nat \<Rightarrow> json" where
  "sanitize_operational_payload (JObj d) depth =
     (if depth > 4 then JStr ''[TRUNCATED]''
      else sanitize_audit_metadata (JObj (payload_entries
        (map (\<lambda>(k, v). (k, sanitize_operational_payload v (depth + 1))) d))))"
| "sanitize_operational_payload (JList xs) depth =
     (if depth > 4 then JStr ''[TRUNCATED]''
      else JList (take 20 (map (\<lambda>v. sanitize_operational_payload v (depth + 1)) xs)))"
| "sanitize_operational_payload (JStr s) depth =
     (if depth > 4 then JStr ''[TRUNCATED]''
      else JStr (redact_secrets (take 256 (replace_char CHR 0x0A CHR '' '' s))))"
| "sanitize_operational_payload v depth = (if depth > 4 then JStr ''[TRUNCATED]'' else v)"

definition sanitize_payload :: "json dict \<Rightarrow> json dict" where
  "sanitize_payload d = obj_entries (sanitize_operational_payload (JObj d) 0)"

definition label :: "string \<Rightarrow> nat \<Rightarrow> string" where
  "label v limit = (let t = take limit (filter (\<lambda>c. is_alnum c \<or> c \<in> set ''_-.'') (py_lower v)) in
     if t = [] then ''unknown'' else t)"

section \<open>Runs and events\<close>

definition build_idempotency_key :: "(string \<Rightarrow> string) \<Rightarrow> string \<Rightarrow> json dict \<Rightarrow> string" where
  "build_idempotency_key sha run_type request =
     take 48 (sha (json_dumps '', '' '': '' (json_sort (JObj [(''run_type'', JStr run_type), (''request'', JObj request)]))))"

definition new_operational_run :: "time \<Rightarrow> uid \<Rightarrow> string \<Rightarrow> string \<Rightarrow> json dict \<Rightarrow> uid \<Rightarrow> operational_run" where
  "new_operational_run now pid run_type key request i =
     \<lparr>oprun_id = i, oprun_project_id = pid, oprun_run_type = run_type, oprun_status = OpQueued,
      oprun_idempotency_key = key, oprun_request_json = Some (sanitize_payload request),
      oprun_summary_json = Some [(''status'', JStr ''queued'')], oprun_attempts = 0, oprun_model_call_count = 0,
      oprun_input_tokens = 0, oprun_output_tokens = 0, oprun_error_code = None, oprun_created_at = now,
      oprun_started_at = None, oprun_finished_at = None, oprun_updated_at = now\<rparr>"

definition runs_with_key :: "uid \<Rightarrow> string \<Rightarrow> string \<Rightarrow> db \<Rightarrow> operational_run list" where
  "runs_with_key pid run_type key d =
     filter (\<lambda>r. oprun_project_id r = pid \<and> oprun_run_type r = run_type \<and> oprun_idempotency_key r = key) (operational_runs d)"

definition run_key :: "(string \<Rightarrow> string) \<Rightarrow> string \<Rightarrow> json dict \<Rightarrow> string option \<Rightarrow> string" where
  "run_key sha run_type request idempotency_key =
     take 128 (py_strip (if opt_str idempotency_key \<noteq> [] then opt_str idempotency_key
                         else build_idempotency_key sha run_type request))"

definition create_operational_run ::
  "(string \<Rightarrow> string) \<Rightarrow> time \<Rightarrow> uid \<Rightarrow> string \<Rightarrow> json dict \<Rightarrow> string option \<Rightarrow> operational_run dbact" where
  "create_operational_run sha now pid run_type request idempotency_key =
     then_act (guard_act (run_type \<in> set run_types) (ValueError (''unsupported operational run type: '' @ run_type)))
       (let key = run_key sha run_type request idempotency_key in
        bind_act (query (runs_with_key pid run_type key)) (\<lambda>rs.
        bind_act (lift_result (one_or_none rs)) (\<lambda>existing.
          case existing of
            Some r \<Rightarrow> ret r
          | None \<Rightarrow>
              bind_act (query next_id) (\<lambda>i.
              then_act (change (add_row operational_runs_update (new_operational_run now pid run_type key request)))
                (ret (new_operational_run now pid run_type key request i))))))"

definition severities :: "string list" where
  "severities = [''info'', ''low'', ''medium'', ''high'', ''critical'']"

definition new_operational_event ::
  "time \<Rightarrow> uid \<Rightarrow> uid option \<Rightarrow> string \<Rightarrow> string \<Rightarrow> string \<Rightarrow> json dict \<Rightarrow> uid \<Rightarrow> operational_event" where
  "new_operational_event now pid run category event_type severity payload i =
     \<lparr>opev_id = i, opev_project_id = pid, opev_operational_run_id = run, opev_category = label category 64,
      opev_event_type = label event_type 96,
      opev_severity = (if severity \<in> set severities then severity else ''info''),
      opev_payload_json = Some (sanitize_payload payload), opev_created_at = now\<rparr>"

definition record_operational_event ::
  "time \<Rightarrow> uid \<Rightarrow> uid option \<Rightarrow> string \<Rightarrow> string \<Rightarrow> string \<Rightarrow> json dict \<Rightarrow> unit dbact" where
  "record_operational_event now pid run category event_type severity payload =
     change (add_row operational_events_update (new_operational_event now pid run category event_type severity payload))"

definition set_run :: "uid \<Rightarrow> (operational_run \<Rightarrow> operational_run) \<Rightarrow> unit dbact" where
  "set_run rid f = change (edit_row operational_runs_update oprun_id rid f)"

definition start_run :: "time \<Rightarrow> operational_run \<Rightarrow> unit dbact" where
  "start_run now run =
     (if op_terminal (oprun_status run) then ret ()
      else then_act
        (set_run (oprun_id run) (\<lambda>r. r\<lparr>oprun_status := OpRunning, oprun_attempts := oprun_attempts run + 1,
           oprun_started_at := Some now, oprun_updated_at := now\<rparr>))
        (record_operational_event now (oprun_project_id run) (Some (oprun_id run)) ''worker'' ''operational_run_started'' ''info''
           [(''run_type'', JStr (oprun_run_type run)), (''attempt'', JInt (oprun_attempts run + 1))]))"

definition finish_run :: "time \<Rightarrow> operational_run \<Rightarrow> json dict \<Rightarrow> unit dbact" where
  "finish_run now run summary =
     set_run (oprun_id run) (\<lambda>r. r\<lparr>oprun_summary_json := Some summary, oprun_status := OpCompleted,
       oprun_finished_at := Some now, oprun_updated_at := now\<rparr>)"

definition mark_operational_run_failed :: "time \<Rightarrow> uid \<Rightarrow> string \<Rightarrow> unit dbact" where
  "mark_operational_run_failed now rid err =
     bind_act (query (\<lambda>d. row_with oprun_id rid (operational_runs d))) (\<lambda>found.
       case found of
         None \<Rightarrow> ret ()
       | Some run \<Rightarrow>
           if op_terminal (oprun_status run) then ret ()
           else let code = label err 64 in
             then_act (set_run rid (\<lambda>r. r\<lparr>oprun_status := OpFailed, oprun_error_code := Some code,
                 oprun_summary_json := Some [(''status'', JStr ''failed''), (''error_code'', JStr code)],
                 oprun_finished_at := Some now, oprun_updated_at := now\<rparr>))
             (then_act (record_operational_event now (oprun_project_id run) (Some rid) ''worker'' ''operational_run_failed'' ''high''
                 [(''run_type'', JStr (oprun_run_type run)), (''error_code'', JStr code)])
              commit))"

section \<open>The observer\<close>

text \<open>Rows ordered by a time, latest first, and a limit.\<close>

definition latest :: "('r \<Rightarrow> int) \<Rightarrow> int \<Rightarrow> 'r list \<Rightarrow> 'r list" where
  "latest stamp n rs = take (nat n) (sort_key (\<lambda>r. - stamp r) rs)"

text \<open>\<open>round(x, 4)\<close>: to the nearest multiple of 1/10000, ties to the even one.\<close>

definition round4 :: "rat \<Rightarrow> rat" where
  "round4 x = (let y = x * 10000; f = floor y; r = y - of_int f in
     of_int (if r < 1 / 2 then f else if r > 1 / 2 then f + 1 else if even f then f else f + 1) / 10000)"

record number_text =
  of_text :: "string \<Rightarrow> rat option"
  to_text :: "rat \<Rightarrow> string"

definition jfloat :: "number_text \<Rightarrow> rat \<Rightarrow> json" where
  "jfloat nt r = JFloat r (to_text nt r)"

definition py_float :: "number_text \<Rightarrow> json \<Rightarrow> rat result" where
  "py_float nt v = (case json_float (of_text nt) v of
      Some r \<Rightarrow> Inr r
    | None \<Rightarrow> (case v of JStr _ \<Rightarrow> Inl (ValueError ''could not convert string to float'')
               | _ \<Rightarrow> Inl (TypeError ''float() argument'')))"

record finding =
  fd_type :: string
  fd_severity :: string
  fd_evidence :: "json dict"
  fd_threshold :: "json dict"
  fd_action :: string
  fd_fingerprint :: string

definition make_finding :: "(string \<Rightarrow> string) \<Rightarrow> string \<Rightarrow> string \<Rightarrow> json dict \<Rightarrow> json dict \<Rightarrow> string \<Rightarrow> finding" where
  "make_finding sha ty severity evidence threshold action =
     \<lparr>fd_type = ty, fd_severity = severity, fd_evidence = sanitize_payload evidence,
      fd_threshold = sanitize_payload threshold, fd_action = redact_secrets (take 512 action),
      fd_fingerprint = sha (json_dumps '', '' '': '' (json_sort
        (JObj [(''finding_type'', JStr ty), (''threshold'', JObj threshold)])))\<rparr>"

definition float_or0 :: "number_text \<Rightarrow> json \<Rightarrow> rat result" where
  "float_or0 nt v = py_float nt (json_or v (JInt 0))"

text \<open>The three checks of the latest evaluation.\<close>

definition eval_findings :: "(string \<Rightarrow> string) \<Rightarrow> number_text \<Rightarrow> settings \<Rightarrow> eval_run \<Rightarrow> finding list result" where
  "eval_findings sha nt cfg ev =
     (let summary = or_empty (eval_summary_json ev); g = get_or_none summary; eid = (''eval_run_id'', JStr (uid_str (eval_id ev))) in
      if summary = [] then Inr []
      else rbind (float_or0 nt (json_or (g ''avg_evidence_recall'') (g ''avg_recall''))) (\<lambda>recall.
           rbind (float_or0 nt (g ''wrong_source_type_rate'')) (\<lambda>wrong_rate.
           rbind (float_or0 nt (g ''latency_p95_ms'')) (\<lambda>p95.
           Inr ((if recall < observer_min_eval_recall cfg then
                   [make_finding sha ''retrieval_recall_regression'' ''high'' [eid, (''avg_evidence_recall'', jfloat nt recall)]
                      [(''min_recall'', jfloat nt (observer_min_eval_recall cfg))]
                      ''Review chunking and intent budgets against failed eval cases before tuning models.''] else [])
              @ (if wrong_rate > observer_max_wrong_source_type_rate cfg then
                   [make_finding sha ''wrong_source_type_rate'' ''medium'' [eid, (''wrong_source_type_rate'', jfloat nt wrong_rate)]
                      [(''max_rate'', jfloat nt (observer_max_wrong_source_type_rate cfg))]
                      ''Inspect intent routing and source-type boosts; do not hide mismatches with prompts.''] else [])
              @ (if p95 > of_int (observer_eval_p95_latency_ms cfg) then
                   [make_finding sha ''eval_latency_regression'' ''medium'' [eid, (''latency_p95_ms'', jfloat nt p95)]
                      [(''max_latency_p95_ms'', JInt (observer_eval_p95_latency_ms cfg))]
                      ''Review retrieval branches, rerank rate, and evidence-pack size before increasing timeouts.''] else []))))))"

definition count_jobs :: "uid \<Rightarrow> string \<Rightarrow> db \<Rightarrow> int" where
  "count_jobs pid st d = int (length (filter (\<lambda>j. job_project_id j = pid \<and> job_status j = st) (index_jobs d)))"

definition parser_findings :: "(string \<Rightarrow> string) \<Rightarrow> number_text \<Rightarrow> settings \<Rightarrow> int \<Rightarrow> int \<Rightarrow> int \<Rightarrow> finding list" where
  "parser_findings sha nt cfg n files_seen parser_errors =
     (let rate = of_int parser_errors / of_int (max files_seen 1); limit = observer_parser_error_rate_threshold cfg in
      if parser_errors \<noteq> 0 \<and> rate \<ge> limit then
        [make_finding sha ''parser_loss_spike'' (if rate \<ge> limit * 2 then ''high'' else ''medium'')
           [(''syncs_checked'', JInt n), (''files_seen'', JInt files_seen), (''parser_errors'', JInt parser_errors),
            (''rate'', jfloat nt (round4 rate))]
           [(''max_rate'', jfloat nt limit)]
           ''Inspect parser_error_reasons and add deterministic parser support before changing retrieval weights.'']
      else [])"

definition job_findings :: "(string \<Rightarrow> string) \<Rightarrow> settings \<Rightarrow> int \<Rightarrow> int \<Rightarrow> finding list" where
  "job_findings sha cfg failed_jobs stale_jobs =
     (if failed_jobs \<noteq> 0 then
        [make_finding sha ''index_job_failures'' ''high'' [(''failed_index_jobs'', JInt failed_jobs)] [(''allowed'', JInt 0)]
           ''Inspect sanitized index-job errors and reingest after the dependency is healthy.''] else [])
     @ (if stale_jobs \<noteq> 0 then
        [make_finding sha ''stale_index_version'' ''medium''
           [(''stale_index_jobs'', JInt stale_jobs), (''index_version'', JStr (vector_index_version cfg))] [(''allowed'', JInt 0)]
           ''Schedule Collector reingestion for the active index version; Core cannot refetch external sources.''] else [])"

definition new_finding :: "time \<Rightarrow> operational_run \<Rightarrow> finding \<Rightarrow> uid \<Rightarrow> operational_finding" where
  "new_finding now run f i =
     \<lparr>finding_id = i, finding_operational_run_id = oprun_id run, finding_project_id = oprun_project_id run,
      finding_finding_type = fd_type f, finding_severity = fd_severity f, finding_status = ''open'',
      finding_evidence_json = Some (fd_evidence f), finding_threshold_json = Some (fd_threshold f),
      finding_recommended_action = fd_action f, finding_fingerprint = fd_fingerprint f, finding_created_at = now\<rparr>"

fun add_findings :: "(finding \<Rightarrow> uid \<Rightarrow> operational_finding) \<Rightarrow> finding list \<Rightarrow> db \<Rightarrow> db" where
  "add_findings mk [] d = d"
| "add_findings mk (f # fs) d = add_findings mk fs (add_row operational_findings_update (mk f) d)"

definition recent_syncs :: "uid \<Rightarrow> settings \<Rightarrow> db \<Rightarrow> sync_row list" where
  "recent_syncs pid cfg d =
     latest sync_started_at (observer_sync_window cfg) (filter (\<lambda>y. sync_project_id y = pid) (source_syncs d))"

definition latest_eval :: "uid \<Rightarrow> db \<Rightarrow> eval_run option" where
  "latest_eval pid d = (case latest eval_created_at 1 (filter (\<lambda>e. eval_project_id e = pid) (eval_runs d)) of
      [] \<Rightarrow> None | e # _ \<Rightarrow> Some e)"

definition run_observer ::
  "(string \<Rightarrow> string) \<Rightarrow> number_text \<Rightarrow> time \<Rightarrow> settings \<Rightarrow> operational_run \<Rightarrow> unit dbact" where
  "run_observer sha nt now cfg run =
     (let pid = oprun_project_id run in
      then_act (start_run now run)
      (bind_act (query (recent_syncs pid cfg)) (\<lambda>syncs.
       bind_act (query (count_jobs pid ''failed'')) (\<lambda>failed_jobs.
       bind_act (query (count_jobs pid ''stale'')) (\<lambda>stale_jobs.
       bind_act (query (latest_eval pid)) (\<lambda>ev.
       let files_seen = sum_list (map sync_files_seen syncs);
           parser_errors = sum_list (map sync_parser_errors syncs);
           n = int (length syncs);
           rate = of_int parser_errors / of_int (max files_seen 1) in
       bind_act (lift_result (case ev of None \<Rightarrow> Inr [] | Some e \<Rightarrow> eval_findings sha nt cfg e)) (\<lambda>evf.
       let fs = parser_findings sha nt cfg n files_seen parser_errors @ job_findings sha cfg failed_jobs stale_jobs @ evf in
       then_act (change (add_findings (new_finding now run) fs))
      (then_act (record_operational_event now pid (Some (oprun_id run)) ''observer'' ''observer_completed''
           (if list_ex (\<lambda>f. fd_severity f = ''high'') fs then ''high'' else ''info'')
           [(''findings_count'', JInt (int (length fs))), (''syncs_checked'', JInt n)])
        (finish_run now run
           [(''status'', JStr ''completed''), (''findings_count'', JInt (int (length fs))), (''syncs_checked'', JInt n),
            (''parser_error_rate'', jfloat nt (round4 rate)), (''failed_index_jobs'', JInt failed_jobs),
            (''stale_index_jobs'', JInt stale_jobs)])))))))))"

definition sorted_counts :: "string list \<Rightarrow> int dict" where
  "sorted_counts ks = dict_sorted (tally ks)"

definition run_logging_aggregate :: "time \<Rightarrow> settings \<Rightarrow> operational_run \<Rightarrow> unit dbact" where
  "run_logging_aggregate now cfg run =
     then_act (start_run now run)
     (bind_act (query (\<lambda>d. latest opev_created_at (logging_aggregate_event_limit cfg)
          (filter (\<lambda>e. opev_project_id e = oprun_project_id run) (operational_events d)))) (\<lambda>events.
      finish_run now run
        [(''status'', JStr ''completed''), (''events_checked'', JInt (int (length events))),
         (''categories'', counts_json (sorted_counts (map opev_category events))),
         (''severities'', counts_json (sorted_counts (map opev_severity events))),
         (''event_types'', counts_json (take 20 (sorted_counts (map opev_event_type events)))),
         (''model_summary_used'', JBool False)]))"

section \<open>Facts about runs\<close>

lemma one_or_none_single [simp]: "one_or_none [r] = Inr (Some r)" "one_or_none [] = Inr None"
  by (simp_all add: one_or_none_def)

text \<open>
  Creating an operational run is idempotent: asking again with the same key, whatever the request says, returns the
  run that is there and writes nothing.
\<close>

theorem operational_run_idempotent:
  assumes "create_operational_run sha now pid ty request key s = (Inr r, t)"
    and "run_key sha ty request key = run_key sha ty request' key'"
  shows "create_operational_run sha now' pid ty request' key' t = (Inr r, t)"
proof -
  let ?k = "run_key sha ty request' key'"
  from assms(1) have ty: "ty \<in> set run_types"
    by (simp add: create_operational_run_def then_act_def split: if_splits)
  have "runs_with_key pid ty ?k (work t) = [r]"
  proof (cases "runs_with_key pid ty ?k (work s)")
    case Nil
    with assms ty show ?thesis
      by (auto simp: create_operational_run_def then_act_def bind_act_def query_def lift_result_def change_def ret_def
          guard_act_def Let_def runs_with_key_def add_row_def new_operational_run_def)
  next
    case (Cons a as)
    with assms ty show ?thesis
      by (cases as) (auto simp: create_operational_run_def then_act_def bind_act_def query_def lift_result_def ret_def
          guard_act_def Let_def one_or_none_def)
  qed
  with ty show ?thesis
    by (simp add: create_operational_run_def then_act_def bind_act_def query_def lift_result_def ret_def guard_act_def Let_def)
qed

theorem operational_run_idempotent_witness:
  "\<exists>r t. create_operational_run id 5 1 ''observer'' [] (Some ''k'') (new_session empty_db) = (Inr r, t)
     \<and> create_operational_run id 9 1 ''observer'' [(''a'', JNull)] (Some '' k'') t = (Inr r, t)"
proof -
  have key: "run_key id ''observer'' [] (Some ''k'') = ''k''" "run_key id ''observer'' [(''a'', JNull)] (Some '' k'') = ''k''"
    by code_simp+
  obtain r t where run: "create_operational_run id 5 1 ''observer'' [] (Some ''k'') (new_session empty_db) = (Inr r, t)"
    by (simp add: create_operational_run_def run_types_def then_act_def bind_act_def query_def lift_result_def change_def
        ret_def guard_act_def Let_def runs_with_key_def empty_db_def)
  from operational_run_idempotent [OF run, of "[(''a'', JNull)]" "Some '' k''" 9] key run show ?thesis by auto
qed

section \<open>Payloads are small and clean\<close>

fun bounded_json :: "nat \<Rightarrow> json \<Rightarrow> bool" where
  "bounded_json n (JObj d) \<longleftrightarrow> n > 0 \<and> length d \<le> 40 \<and> list_all (\<lambda>(k, v). bounded_json (n - 1) v) d"
| "bounded_json n (JList xs) \<longleftrightarrow> n > 0 \<and> length xs \<le> 20 \<and> list_all (bounded_json (n - 1)) xs"
| "bounded_json n v \<longleftrightarrow> True"

fun clean_json :: "json \<Rightarrow> bool" where
  "clean_json (JObj d) \<longleftrightarrow> list_all (\<lambda>(k, v). (dropped_key k \<longrightarrow> v = JStr ''[REDACTED]'') \<and> clean_json v) d"
| "clean_json (JList xs) \<longleftrightarrow> list_all clean_json xs"
| "clean_json v \<longleftrightarrow> True"

lemma redacted_fixed: "redact_secrets ''[REDACTED]'' = ''[REDACTED]''"
  by code_simp

lemma bounded_sanitize_audit: "bounded_json n v \<Longrightarrow> bounded_json n (sanitize_audit_metadata v)"
  by (induction v arbitrary: n rule: sanitize_audit_metadata.induct) (auto simp: list_all_iff split: prod.splits)

lemma clean_sanitize_audit: "clean_json v \<Longrightarrow> clean_json (sanitize_audit_metadata v)"
  by (induction v rule: sanitize_audit_metadata.induct) (auto simp: list_all_iff redacted_fixed)

lemma dropped_prefix: "dropped_key (take 96 k) \<Longrightarrow> dropped_key k"
proof -
  have n: "normalize_key (take 96 k) = take 96 (normalize_key k)"
    by (simp add: normalize_key_def replace_char_def py_lower_def take_map)
  have sub: "any_in ps (take 96 (normalize_key k)) \<Longrightarrow> any_in ps (normalize_key k)" for ps
    by (auto simp: any_in_def list_ex_iff str_contains_iff) (metis append.assoc append_take_drop_id)
  have short: "take 96 w \<in> set drop_keys \<Longrightarrow> w \<in> set drop_keys" for w
  proof -
    assume a: "take 96 w \<in> set drop_keys"
    have "list_all (\<lambda>x. length x < 96) drop_keys" by code_simp
    with a have "length (take 96 w) < 96" by (auto simp: list_all_iff)
    then have "take 96 w = w" by simp
    with a show ?thesis by simp
  qed
  assume "dropped_key (take 96 k)"
  then show ?thesis using sub short by (auto simp: dropped_key_def Let_def n)
qed

definition clean_entry :: "string \<times> json \<Rightarrow> bool" where
  "clean_entry e \<longleftrightarrow> (dropped_key (fst e) \<longrightarrow> snd e = JStr ''[REDACTED]'')"

lemma set_dict_set: "set (dict_set k v d) \<subseteq> insert (k, v) (set d)"
  by (induction k v d rule: dict_set.induct) auto

lemma length_dict_set: "length (dict_set k v d) \<le> Suc (length d)"
  by (induction k v d rule: dict_set.induct) auto

lemma payload_fold:
  assumes "e \<in> set (fold (\<lambda>(k, v). if dropped_key k then dict_set k (JStr ''[REDACTED]'') else dict_set (take 96 k) v) d acc)"
    and "\<And>e. e \<in> set acc \<Longrightarrow> clean_entry e \<and> Q (snd e)" and "Q (JStr ''[REDACTED]'')" and "\<And>k v. (k, v) \<in> set d \<Longrightarrow> Q v"
  shows "clean_entry e \<and> Q (snd e)"
  using assms(1,2,4)
proof (induction d arbitrary: acc)
  case (Cons x d)
  obtain k v where x: "x = (k, v)" by (cases x)
  let ?acc = "if dropped_key k then dict_set k (JStr ''[REDACTED]'') acc else dict_set (take 96 k) v acc"
  let ?new = "if dropped_key k then (k, JStr ''[REDACTED]'') else (take 96 k, v)"
  have "clean_entry ?new \<and> Q (snd ?new)"
    using Cons.prems(3) [of k v] assms(3) x dropped_prefix [of k] by (auto simp: clean_entry_def)
  moreover have "set ?acc \<subseteq> insert ?new (set acc)" using set_dict_set by (cases "dropped_key k") simp_all
  ultimately have "clean_entry e' \<and> Q (snd e')" if "e' \<in> set ?acc" for e'
    using that Cons.prems(2) by blast
  moreover have "\<And>k v. (k, v) \<in> set d \<Longrightarrow> Q v" using Cons.prems(3) by auto
  ultimately show ?case using Cons.IH [of ?acc] Cons.prems(1) x by (cases "dropped_key k") auto
qed simp

lemma payload_entries_ok:
  assumes "e \<in> set (payload_entries d)" and "Q (JStr ''[REDACTED]'')" and "\<And>k v. (k, v) \<in> set d \<Longrightarrow> Q v"
  shows "clean_entry e \<and> Q (snd e)"
  using payload_fold [of e "take 40 d" "[]" Q] assms unfolding payload_entries_def by (auto dest: in_set_takeD)

lemma length_payload_entries: "length (payload_entries d) \<le> 40"
proof -
  have "length (fold (\<lambda>(k, v). if dropped_key k then dict_set k (JStr ''[REDACTED]'') else dict_set (take 96 k) v) xs acc)
      \<le> length xs + length acc" for xs acc
  proof (induction xs arbitrary: acc)
    case (Cons x xs)
    obtain k v where x: "x = (k, v)" by (cases x)
    let ?acc = "if dropped_key k then dict_set k (JStr ''[REDACTED]'') acc else dict_set (take 96 k) v acc"
    have "length ?acc \<le> Suc (length acc)" by (simp add: length_dict_set)
    with Cons [of ?acc] x show ?case by (cases "dropped_key k") simp_all
  qed simp
  from this [of "take 40 d" "[]"] show ?thesis by (simp add: payload_entries_def)
qed

lemma sanitize_payload_ok:
  "depth \<le> 5 \<Longrightarrow> bounded_json (5 - depth) (sanitize_operational_payload v depth) \<and> clean_json (sanitize_operational_payload v depth)"
proof (induction v depth rule: sanitize_operational_payload.induct)
  case (1 d depth)
  show ?case
  proof (cases "depth > 4")
    case False
    let ?es = "map (\<lambda>(k, v). (k, sanitize_operational_payload v (depth + 1))) d"
    let ?Q = "\<lambda>v. bounded_json (5 - depth - 1) v \<and> clean_json v"
    have "clean_entry e \<and> ?Q (snd e)" if "e \<in> set (payload_entries ?es)" for e
      using that by (rule payload_entries_ok) (use 1 False in \<open>fastforce simp: diff_diff_left\<close>)+
    then have "bounded_json (5 - depth) (JObj (payload_entries ?es)) \<and> clean_json (JObj (payload_entries ?es))"
      using False length_payload_entries [of ?es] by (auto simp: list_all_iff clean_entry_def)
    with False show ?thesis by (simp add: bounded_sanitize_audit clean_sanitize_audit del: sanitize_audit_metadata.simps)
  qed simp
next
  case (2 xs depth)
  show ?case
  proof (cases "depth > 4")
    case False
    with 2 show ?thesis by (auto simp: list_all_iff diff_diff_left dest!: in_set_takeD)
  qed simp
qed auto

text \<open>
  Operational payloads are bounded and clean, whatever goes in: at most five levels deep, at most forty entries to
  an object and twenty to a list, and every key that may carry content or credentials has the placeholder as value.
\<close>

theorem operational_payload_bounded:
  "bounded_json 5 (sanitize_operational_payload v 0) \<and> clean_json (sanitize_operational_payload v 0)"
  using sanitize_payload_ok [of 0 v] by simp

section \<open>The invariant of the tables\<close>

lemma preserves_event [intro]: "preserves db_ok (record_operational_event now pid run cat ty sev payload)"
  unfolding record_operational_event_def
  by (intro preserves_change db_ok_add_operational_events) (simp_all add: new_operational_event_def)

lemma preserves_set_run: "(\<And>r. oprun_id (f r) = oprun_id r) \<Longrightarrow> preserves db_ok (set_run rid f)"
  unfolding set_run_def edit_row_def by (intro preserves_change db_ok_edit_operational_runs) auto

lemma preserves_create_run: "preserves db_ok (create_operational_run sha now pid ty request key)"
  unfolding create_operational_run_def Let_def
  by (intro preserves_then preserves_bind preserves_guard preserves_query preserves_lift preserves_option preserves_ret
      preserves_change db_ok_add_operational_runs) (simp_all add: new_operational_run_def)

lemma preserves_start_run: "preserves db_ok (start_run now run)"
  unfolding start_run_def
  by (intro preserves_if preserves_ret preserves_then preserves_set_run preserves_event) simp

lemma preserves_finish_run: "preserves db_ok (finish_run now run summary)"
  unfolding finish_run_def by (intro preserves_set_run) simp

lemma preserves_mark_failed: "preserves db_ok (mark_operational_run_failed now rid err)"
  unfolding mark_operational_run_failed_def Let_def
  by (intro preserves_bind preserves_query preserves_option preserves_if preserves_ret preserves_then preserves_set_run
      preserves_event preserves_commit) simp

lemma db_ok_add_findings: "db_ok d \<Longrightarrow> db_ok (add_findings (new_finding now run) fs d)"
proof (induction fs arbitrary: d)
  case (Cons f fs)
  have "db_ok (add_row operational_findings_update (new_finding now run f) d)"
    using Cons.prems by (intro db_ok_add_operational_findings) (simp_all add: new_finding_def)
  then show ?case using Cons.IH by simp
qed simp

lemma preserves_run_observer: "preserves db_ok (run_observer sha nt now cfg run)"
  unfolding run_observer_def Let_def
  by (intro preserves_then preserves_bind preserves_query preserves_lift preserves_change preserves_start_run
      preserves_event preserves_finish_run db_ok_add_findings)

lemma preserves_run_logging: "preserves db_ok (run_logging_aggregate now cfg run)"
  unfolding run_logging_aggregate_def
  by (intro preserves_then preserves_bind preserves_query preserves_start_run preserves_finish_run)

lemma keeps_op_event:
  "(\<And>mk d. g (add_row operational_events_update mk d) = g d) \<Longrightarrow> keeps_table g (record_operational_event now pid run cat ty sev payload)"
  unfolding record_operational_event_def by (intro keeps_table_change) simp

end
