(* ===== verification/Queue.thy ===== *)
theory Queue
  imports Prelude
begin

text \<open>
  The job queue (\<open>incidentops/worker/queue.py\<close>, \<open>incidentops/worker/schemas.py\<close>). \<open>InlineQueue\<close> is a record; the
  interface its users rely on is the locale \<open>job_queue\<close>, which it interprets. \<open>RedisQueue\<close> is the
  client side of Redis Streams: its object's state is the work of a session, the commands are the
  trace, the server's answers and pydantic's job codec are parameters. A job id is a number.
\<close>

section \<open>Jobs\<close>

record queue_job =
  qj_id :: nat
  qj_type :: string
  qj_payload :: "json dict"
  qj_attempts :: int
  qj_enqueued_at :: int

definition default_queue_key :: string where
  "default_queue_key = ''incidentops:jobs''"

definition failed_queue_key :: string where
  "failed_queue_key = ''incidentops:jobs:failed''"

definition new_job :: "nat \<Rightarrow> int \<Rightarrow> string \<Rightarrow> json dict \<Rightarrow> queue_job" where
  "new_job i now ty payload = \<lparr>qj_id = i, qj_type = ty, qj_payload = payload, qj_attempts = 0, qj_enqueued_at = now\<rparr>"

section \<open>What the worker relies on\<close>

text \<open>
  A queue has the jobs waiting in it; enqueueing appends, dequeueing takes the head, acknowledging
  and failing leave the waiting jobs alone.
\<close>

locale job_queue =
  fixes pending :: "'q \<Rightarrow> queue_job list"
    and enqueue :: "int \<Rightarrow> string \<Rightarrow> json dict \<Rightarrow> 'q \<Rightarrow> nat \<times> 'q"
    and dequeue :: "'q \<Rightarrow> queue_job option \<times> 'q"
    and acknowledge :: "nat \<Rightarrow> 'q \<Rightarrow> 'q"
    and fail_job :: "nat \<Rightarrow> string \<Rightarrow> 'q \<Rightarrow> 'q"
  assumes enqueue_law: "enqueue now ty payload q = (i, q') \<Longrightarrow> pending q' = pending q @ [new_job i now ty payload]"
    and dequeue_empty: "pending q = [] \<Longrightarrow> dequeue q = (None, q)"
    and dequeue_head: "pending q = j # js \<Longrightarrow> \<exists>q'. dequeue q = (Some j, q') \<and> pending q' = js"
    and acknowledge_law: "pending (acknowledge i q) = pending q"
    and fail_law: "pending (fail_job i err q) = pending q"
begin

lemma dequeue_cases:
  obtains (empty) "pending q = []" "dequeue q = (None, q)"
  | (job) j q' where "dequeue q = (Some j, q')" "pending q = j # pending q'"
proof (cases "pending q")
  case Nil
  then show ?thesis using empty dequeue_empty by blast
next
  case (Cons j js)
  then show ?thesis using job dequeue_head by metis
qed

text \<open>First in, first out: what went in comes out in the same order.\<close>

fun enqueue_all :: "(int \<times> string \<times> json dict) list \<Rightarrow> 'q \<Rightarrow> 'q" where
  "enqueue_all [] q = q"
| "enqueue_all ((now, ty, payload) # xs) q = enqueue_all xs (snd (enqueue now ty payload q))"

fun dequeue_all :: "nat \<Rightarrow> 'q \<Rightarrow> queue_job list \<times> 'q" where
  "dequeue_all 0 q = ([], q)"
| "dequeue_all (Suc n) q = (case dequeue q of
      (None, q') \<Rightarrow> ([], q')
    | (Some j, q') \<Rightarrow> (case dequeue_all n q' of (js, q'') \<Rightarrow> (j # js, q'')))"

lemma pending_enqueue_all:
  "\<exists>ids. length ids = length xs
     \<and> pending (enqueue_all xs q) = pending q @ map (\<lambda>(i, now, ty, payload). new_job i now ty payload) (zip ids xs)"
proof (induction xs q rule: enqueue_all.induct)
  case (2 now ty payload xs q)
  obtain i q' where e: "enqueue now ty payload q = (i, q')" by (cases "enqueue now ty payload q")
  with 2 obtain ids where "length ids = length xs" and
    "pending (enqueue_all xs q') = pending q' @ map (\<lambda>(i, now, ty, payload). new_job i now ty payload) (zip ids xs)"
    by auto
  with e enqueue_law [OF e] show ?case by (intro exI [of _ "i # ids"]) simp
qed simp

lemma dequeue_all_pending:
  "n \<le> length (pending q) \<Longrightarrow> fst (dequeue_all n q) = take n (pending q) \<and> pending (snd (dequeue_all n q)) = drop n (pending q)"
proof (induction n arbitrary: q)
  case (Suc n)
  then obtain j q' where d: "dequeue q = (Some j, q')" and p: "pending q = j # pending q'"
    by (cases rule: dequeue_cases [of q]) auto
  with Suc.prems have "n \<le> length (pending q')" by simp
  from Suc.IH [OF this] show ?case unfolding p dequeue_all.simps d
    by (cases "dequeue_all n q'") simp
qed simp

lemma fifo:
  "pending q = [] \<Longrightarrow> map (\<lambda>j. (qj_enqueued_at j, qj_type j, qj_payload j)) (fst (dequeue_all (length xs) (enqueue_all xs q))) = xs"
proof -
  assume q: "pending q = []"
  from pending_enqueue_all [of xs q] obtain ids where ids: "length ids = length xs"
    and p: "pending (enqueue_all xs q) = map (\<lambda>(i, now, ty, payload). new_job i now ty payload) (zip ids xs)"
    unfolding q by auto
  have "map (\<lambda>j. (qj_enqueued_at j, qj_type j, qj_payload j)) (pending (enqueue_all xs q)) = map snd (zip ids xs)"
    unfolding p by (simp add: new_job_def case_prod_unfold)
  with ids p dequeue_all_pending [of "length xs" "enqueue_all xs q"] show ?thesis by simp
qed

end

section \<open>The in-process queue\<close>

record inline_queue =
  iq_next :: nat
  iq_jobs :: "queue_job list"
  iq_failed :: "(nat \<times> string) list"

definition empty_queue :: inline_queue where
  "empty_queue = \<lparr>iq_next = 0, iq_jobs = [], iq_failed = []\<rparr>"

definition inline_enqueue :: "int \<Rightarrow> string \<Rightarrow> json dict \<Rightarrow> inline_queue \<Rightarrow> nat \<times> inline_queue" where
  "inline_enqueue now ty payload q =
     (iq_next q, q\<lparr>iq_next := iq_next q + 1, iq_jobs := iq_jobs q @ [new_job (iq_next q) now ty payload]\<rparr>)"

definition inline_dequeue :: "inline_queue \<Rightarrow> queue_job option \<times> inline_queue" where
  "inline_dequeue q = (case iq_jobs q of [] \<Rightarrow> (None, q) | j # js \<Rightarrow> (Some j, q\<lparr>iq_jobs := js\<rparr>))"

definition inline_acknowledge :: "nat \<Rightarrow> inline_queue \<Rightarrow> inline_queue" where
  "inline_acknowledge i q = q"

definition inline_fail :: "nat \<Rightarrow> string \<Rightarrow> inline_queue \<Rightarrow> inline_queue" where
  "inline_fail i err q = q\<lparr>iq_failed := (i, take 1000 err) # filter (\<lambda>e. fst e \<noteq> i) (iq_failed q)\<rparr>"

interpretation inline: job_queue iq_jobs inline_enqueue inline_dequeue inline_acknowledge inline_fail
  by unfold_locales
    (auto simp: inline_enqueue_def inline_dequeue_def inline_acknowledge_def inline_fail_def)

section \<open>The Redis queue\<close>

datatype redis_reply =
    RedisError string string    \<comment> \<open>exception class and text\<close>
  | RedisOk
  | RedisEntries "(string \<times> string dict) list"    \<comment> \<open>message id and fields; none for no answer\<close>

record redis_queue =
  rq_key :: string
  rq_group :: string
  rq_consumer :: string
  rq_claim_idle_ms :: int
  rq_group_ready :: bool
  rq_inflight :: "(nat \<times> string) list"

record job_codec =
  jc_dump :: "queue_job \<Rightarrow> string"
  jc_load :: "string \<Rightarrow> queue_job result"
  jc_id :: "nat \<Rightarrow> string"

type_synonym 'a rqact = "(redis_queue, 'a) act"

text \<open>A command that raises on an error reply.\<close>

definition redis_cmd :: "redis_reply service \<Rightarrow> string \<Rightarrow> string list \<Rightarrow> (string \<times> string dict) list rqact" where
  "redis_cmd srv c args = bind_act (call srv (Redis c args))
     (\<lambda>r. case r of RedisError cls msg \<Rightarrow> raise (OtherError cls msg) | RedisOk \<Rightarrow> ret [] | RedisEntries es \<Rightarrow> ret es)"

definition exn_message :: "py_exn \<Rightarrow> string" where
  "exn_message e = (case e of OtherError _ m \<Rightarrow> m | ValueError m \<Rightarrow> m | RuntimeError m \<Rightarrow> m | TypeError m \<Rightarrow> m | _ \<Rightarrow> [])"

definition ensure_group :: "redis_reply service \<Rightarrow> unit rqact" where
  "ensure_group srv = bind_act (query id) (\<lambda>q.
     if rq_group_ready q then ret ()
     else then_act
       (try_act (then_act (redis_cmd srv ''XGROUP CREATE'' [rq_key q, rq_group q, ''0'', ''MKSTREAM'']) (ret ()))
          (\<lambda>e. if str_contains ''BUSYGROUP'' (exn_message e) then ret () else raise e))
       (change (\<lambda>q. q\<lparr>rq_group_ready := True\<rparr>)))"

definition redis_enqueue :: "redis_reply service \<Rightarrow> job_codec \<Rightarrow> nat \<Rightarrow> int \<Rightarrow> string \<Rightarrow> json dict \<Rightarrow> nat rqact" where
  "redis_enqueue srv jc fresh now ty payload =
     (let job = new_job fresh now ty payload in
      then_act (ensure_group srv)
        (bind_act (query id) (\<lambda>q.
         then_act (then_act (redis_cmd srv ''XADD'' [rq_key q, ''job'', jc_dump jc job]) (ret ()))
           (ret (qj_id job)))))"

definition ack_message :: "redis_reply service \<Rightarrow> string \<Rightarrow> unit rqact" where
  "ack_message srv message_id = bind_act (query id) (\<lambda>q.
     then_act (redis_cmd srv ''XACK'' [rq_key q, rq_group q, message_id]) (ret ()))"

text \<open>\<open>dequeue\<close>: reclaim an abandoned entry or read a new one, then unpack it.\<close>

definition fetch_entries :: "redis_reply service \<Rightarrow> (string \<times> string dict) list rqact" where
  "fetch_entries srv =
     then_act (ensure_group srv)
     (bind_act (query id) (\<lambda>q.
      bind_act
        (try_act (redis_cmd srv ''XAUTOCLAIM''
            [rq_key q, rq_group q, rq_consumer q, str_of_int (rq_claim_idle_ms q), ''0-0'', ''COUNT'', ''1''])
          (\<lambda>e. ret [])) (\<lambda>claimed.
      if claimed \<noteq> [] then ret claimed
      else redis_cmd srv ''XREADGROUP'' [rq_group q, rq_consumer q, ''COUNT'', ''1'', ''BLOCK'', ''1000'', rq_key q, ''>''])))"

definition take_entry :: "redis_reply service \<Rightarrow> job_codec \<Rightarrow> (string \<times> string dict) list \<Rightarrow> queue_job option rqact" where
  "take_entry srv jc entries = (case entries of
      [] \<Rightarrow> ret None
    | (message_id, vals) # _ \<Rightarrow>
        let raw = dict_get_or [] vals ''job'' in
        if raw = [] then then_act (ack_message srv message_id) (ret None)
        else bind_act (lift_result (jc_load jc raw)) (\<lambda>job.
             then_act (change (\<lambda>q. q\<lparr>rq_inflight := (qj_id job, message_id) # filter (\<lambda>e. fst e \<noteq> qj_id job) (rq_inflight q)\<rparr>))
               (ret (Some job))))"

definition redis_dequeue :: "redis_reply service \<Rightarrow> job_codec \<Rightarrow> queue_job option rqact" where
  "redis_dequeue srv jc = bind_act (fetch_entries srv) (take_entry srv jc)"

definition pop_inflight :: "nat \<Rightarrow> string option rqact" where
  "pop_inflight i = bind_act (query (\<lambda>q. map_of (rq_inflight q) i)) (\<lambda>m.
     then_act (change (\<lambda>q. q\<lparr>rq_inflight := filter (\<lambda>e. fst e \<noteq> i) (rq_inflight q)\<rparr>)) (ret m))"

definition ack_popped :: "redis_reply service \<Rightarrow> string option \<Rightarrow> unit rqact" where
  "ack_popped srv m = (case m of None \<Rightarrow> ret () | Some message_id \<Rightarrow> if message_id = [] then ret () else ack_message srv message_id)"

definition redis_acknowledge :: "redis_reply service \<Rightarrow> nat \<Rightarrow> unit rqact" where
  "redis_acknowledge srv i = bind_act (pop_inflight i) (ack_popped srv)"

definition redis_fail :: "redis_reply service \<Rightarrow> job_codec \<Rightarrow> nat \<Rightarrow> string \<Rightarrow> unit rqact" where
  "redis_fail srv jc i err = bind_act (pop_inflight i) (\<lambda>m.
     then_act (then_act (redis_cmd srv ''XADD'' [failed_queue_key, ''job_id'', jc_id jc i, ''error'', take 1000 err]) (ret ()))
       (ack_popped srv m))"

section \<open>What the queues guarantee\<close>

text \<open>
  The in-process queue is first in, first out: whatever jobs go into an empty queue come out in the same order with the
  same type, payload and time.
\<close>

theorem inline_queue_fifo:
  "map (\<lambda>j. (qj_enqueued_at j, qj_type j, qj_payload j))
     (fst (inline.dequeue_all (length xs) (inline.enqueue_all xs empty_queue))) = xs"
  by (rule inline.fifo) (simp add: empty_queue_def)

definition acks :: "redis_queue session \<Rightarrow> effect list" where
  "acks s = filter (\<lambda>e. case e of Redis c _ \<Rightarrow> c = ''XACK'' | _ \<Rightarrow> False) (trace s)"

lemma acks_change [intro]: "keeps acks (change f)"
  by (simp add: keeps_def change_def acks_def)

lemma acks_redis_cmd: "c \<noteq> ''XACK'' \<Longrightarrow> keeps acks (redis_cmd srv c args)"
  unfolding keeps_def redis_cmd_def
  by (simp add: bind_act_def call_def acks_def act_defs split: redis_reply.split)

lemma acks_ensure_group: "keeps acks (ensure_group srv)"
  unfolding ensure_group_def
  by (intro keeps_bind keeps_simple keeps_if keeps_then keeps_try acks_redis_cmd acks_change) simp

lemma acks_ack_message:
  "acks (snd (ack_message srv m s)) = acks s @ [Redis ''XACK'' [rq_key (work s), rq_group (work s), m]]"
  by (simp add: ack_message_def redis_cmd_def acks_def act_simps split: redis_reply.split)

lemma acks_fetch: "keeps acks (fetch_entries srv)"
  unfolding fetch_entries_def
  by (intro keeps_bind keeps_simple keeps_if keeps_then keeps_try acks_redis_cmd acks_ensure_group) simp_all


definition sample_codec :: job_codec where
  "sample_codec = \<lparr>jc_dump = (\<lambda>_. ''j''), jc_load = (\<lambda>_. Inr (new_job 7 0 ''index_document'' [])), jc_id = digits_of\<rparr>"

definition sample_redis :: "redis_reply service" where
  "sample_redis es e = (case e of Redis c _ \<Rightarrow> if c = ''XREADGROUP'' then RedisEntries [(''1-0'', [(''job'', ''j'')])] else RedisEntries [] | _ \<Rightarrow> RedisOk)"

definition sample_redis_queue :: redis_queue where
  "sample_redis_queue = \<lparr>rq_key = default_queue_key, rq_group = ''g'', rq_consumer = ''c'', rq_claim_idle_ms = 60000,
     rq_group_ready = False, rq_inflight = []\<rparr>"


end
