(* ===== verification/Worker.thy ===== *)
theory Worker
  imports Operations Queue
begin

text \<open>
  The worker (\<open>incidentops/worker/jobs.py\<close>, \<open>index_dispatch.py\<close>, \<open>main.py\<close>): the index jobs' state machine, the
  dispatcher that republishes them, and the processing of a queued job with its retries. A job runs
  in its own session; what it has not committed when it ends is lost. Pydantic's parsing of a stored
  document is a parameter, and so are the jobs of the agent and of the evaluation.
\<close>

section \<open>Sessions of jobs\<close>

definition with_session :: "'a dbact \<Rightarrow> db \<Rightarrow> 'a result \<times> db" where
  "with_session m d = (case m (new_session d) of (r, s) \<Rightarrow> (r, committed s))"

definition payload_uid :: "json dict \<Rightarrow> string \<Rightarrow> uid result" where
  "payload_uid payload k = (case dict_get payload k of
      None \<Rightarrow> Inl (KeyError k)
    | Some v \<Rightarrow> (case parse_uid (py_str v) of None \<Rightarrow> Inl (ValueError ''badly formed hexadecimal UUID string'') | Some i \<Rightarrow> Inr i))"

record worker_env =
  we_index :: index_env
  we_load :: "json dict \<Rightarrow> normalized_document result"    \<comment> \<open>\<open>NormalizedDocument.model_validate\<close>\<close>
  we_sha :: "string \<Rightarrow> string"
  we_numbers :: number_text
  we_now :: time
  we_locked :: "uid \<Rightarrow> bool"    \<comment> \<open>the row is locked by another transaction\<close>

section \<open>An index job\<close>

definition set_job :: "uid \<Rightarrow> (index_job \<Rightarrow> index_job) \<Rightarrow> unit dbact" where
  "set_job jid f = change (edit_row index_jobs_update job_id jid f)"

definition find_job :: "uid \<Rightarrow> db \<Rightarrow> index_job option" where
  "find_job jid d = row_with job_id jid (index_jobs d)"

definition job_open :: "index_job \<Rightarrow> bool" where
  "job_open j \<longleftrightarrow> job_status j = ''pending'' \<or> job_status j = ''queued'' \<or> job_status j = ''running''"

definition sync_after_job :: "batch_result \<Rightarrow> sync_row \<Rightarrow> sync_row result" where
  "sync_after_job indexed y =
     (let diagnostics = or_empty (sync_diagnostics_json y) in
      rbind (get_int_or0 diagnostics ''index_jobs_completed'') (\<lambda>done_jobs.
      rbind (get_int_or0 diagnostics ''index_jobs_failed'') (\<lambda>failed_jobs.
      Inr (y\<lparr>sync_chunks_created := sync_chunks_created y + br_chunks_created indexed,
             sync_parser_errors := sync_parser_errors y + int (length (br_errors indexed)),
             sync_diagnostics_json := Some (dict_set ''index_jobs_failed''
                 (JInt (failed_jobs + (if br_errors indexed \<noteq> [] then 1 else 0)))
               (dict_set ''index_jobs_completed'' (JInt (done_jobs + 1)) diagnostics))\<rparr>))))"

text \<open>When the last open job of a finished sync ends, the source gets its final status.\<close>

definition settle_source :: "uid \<Rightarrow> uid \<Rightarrow> db \<Rightarrow> db" where
  "settle_source yid sid d =
     (if list_ex (\<lambda>j. job_sync_id j = Some yid \<and> job_open j) (index_jobs d) then d
      else let failed = list_ex (\<lambda>j. job_sync_id j = Some yid \<and> job_status j = ''failed'') (index_jobs d) in
        edit_row sources_update src_id sid
          (\<lambda>r. r\<lparr>src_status := (if failed then ''error'' else ''ready''),
                 src_last_sync_status := Some (if failed then ''partial_success'' else ''success'')\<rparr>) d)"

definition report_to_sync :: "index_job \<Rightarrow> batch_result \<Rightarrow> unit dbact" where
  "report_to_sync job indexed = (case job_sync_id job of
      None \<Rightarrow> ret ()
    | Some yid \<Rightarrow> bind_act (query (\<lambda>d. row_with sync_id yid (source_syncs d))) (\<lambda>found.
        case found of
          None \<Rightarrow> ret ()
        | Some y \<Rightarrow> bind_act (lift_result (sync_after_job indexed y)) (\<lambda>y'.
            then_act (change (edit_row source_syncs_update sync_id yid (\<lambda>_. y')))
              (when_act (sync_finished_at y \<noteq> None) (change (settle_source yid (job_source_id job)))))))"

definition job_event :: "worker_env \<Rightarrow> index_job \<Rightarrow> string \<Rightarrow> string \<Rightarrow> string \<Rightarrow> string \<Rightarrow> json dict \<Rightarrow> json dict \<Rightarrow> unit dbact" where
  "job_event env job action status event_type severity metadata payload =
     then_act
       (record_audit_event (we_now env) action status (audit_defaults\<lparr>aa_project_id := Some (job_project_id job),
          aa_resource_type := Some ''index_job'', aa_resource_id := Some (uid_str (job_id job)), aa_metadata := metadata\<rparr>))
       (record_operational_event (we_now env) (job_project_id job) None ''indexing'' event_type severity payload)"

definition run_index_job :: "worker_env \<Rightarrow> settings \<Rightarrow> index_job \<Rightarrow> unit dbact" where
  "run_index_job env cfg job =
     bind_act (lift_result (we_load env (job_normalized_payload_json job))) (\<lambda>nd.
     bind_act (index_normalized_documents (we_index env) cfg (job_project_id job) (job_source_id job) [nd]) (\<lambda>indexed.
     let ok = (br_errors indexed = []);
         code = (case br_errors indexed of [] \<Rightarrow> None | e # _ \<Rightarrow> Some (de_code e)) in
     then_act (set_job (job_id job) (\<lambda>j. j\<lparr>job_status := (if ok then ''completed'' else ''failed''),
         job_error_code := code, job_finished_at := Some (we_now env)\<rparr>))
     (then_act (report_to_sync job indexed)
     (then_act
        (job_event env job (if ok then ''index_job_completed'' else ''index_job_failed'') (if ok then ''completed'' else ''failed'')
           (if ok then ''index_document_completed'' else ''index_document_failed'') (if ok then ''info'' else ''high'')
           [(''index_version'', JStr (job_index_version job)), (''chunks_created'', JInt (br_chunks_created indexed))]
           [(''index_job_id'', JStr (uid_str (job_id job))), (''index_version'', JStr (job_index_version job)),
            (''chunks_created'', JInt (br_chunks_created indexed)), (''error_code'', opt_json code)])
        commit))))"

definition exn_code :: "py_exn \<Rightarrow> string" where
  "exn_code e = take 64 (py_lower (exn_class e))"

definition retry_index_job :: "worker_env \<Rightarrow> settings \<Rightarrow> index_job \<Rightarrow> int \<Rightarrow> py_exn \<Rightarrow> unit dbact" where
  "retry_index_job env cfg job attempts e =
     (let retryable = attempts < rag_index_max_retries cfg; code = exn_code e; st = (if retryable then ''pending'' else ''failed'') in
      then_act (set_job (job_id job) (\<lambda>j. j\<lparr>job_status := st, job_error_code := Some code,
          job_finished_at := (if retryable then None else Some (we_now env))\<rparr>))
      (then_act
        (job_event env job (if retryable then ''index_job_retry_scheduled'' else ''index_job_failed'') st
           (if retryable then ''index_document_retry'' else ''index_document_failed'') (if retryable then ''medium'' else ''high'')
           [(''index_version'', JStr (job_index_version job)), (''error_code'', JStr code)]
           [(''index_job_id'', JStr (uid_str (job_id job))), (''index_version'', JStr (job_index_version job)),
            (''error_code'', JStr code)])
      (then_act commit (raise e))))"

definition execute_index_job :: "worker_env \<Rightarrow> settings \<Rightarrow> uid \<Rightarrow> unit dbact" where
  "execute_index_job env cfg jid =
     bind_act (query (find_job jid)) (\<lambda>found.
       case found of
         None \<Rightarrow> ret ()
       | Some job \<Rightarrow>
           if we_locked env jid then ret ()
           else if job_status job \<in> set [''completed'', ''stale'', ''running''] then ret ()
           else if job_attempts job \<ge> rag_index_max_retries cfg then
             then_act (set_job jid (\<lambda>j. j\<lparr>job_status := ''failed'',
                 job_error_code := (if opt_str (job_error_code j) \<noteq> [] then job_error_code j else Some ''retry_limit_exceeded''),
                 job_finished_at := Some (we_now env)\<rparr>)) commit
           else if job_index_version job \<noteq> vector_index_version cfg then
             then_act (set_job jid (\<lambda>j. j\<lparr>job_status := ''stale'', job_error_code := Some ''index_version_changed'',
                 job_finished_at := Some (we_now env)\<rparr>)) commit
           else
             then_act (set_job jid (\<lambda>j. j\<lparr>job_status := ''running'', job_attempts := job_attempts j + 1,
                 job_started_at := Some (we_now env)\<rparr>))
             (try_act (run_index_job env cfg job) (retry_index_job env cfg job (job_attempts job + 1))))"

definition execute_index_document_job :: "worker_env \<Rightarrow> settings \<Rightarrow> json dict \<Rightarrow> db \<Rightarrow> unit result \<times> db" where
  "execute_index_document_job env cfg payload d = (case payload_uid payload ''index_job_id'' of
      Inl e \<Rightarrow> (Inl e, d)
    | Inr jid \<Rightarrow> with_session (execute_index_job env cfg jid) d)"

section \<open>Operational jobs\<close>

definition execute_operational_agent_job :: "worker_env \<Rightarrow> settings \<Rightarrow> json dict \<Rightarrow> string \<Rightarrow> db \<Rightarrow> unit result \<times> db" where
  "execute_operational_agent_job env cfg payload expected d = (case payload_uid payload ''operational_run_id'' of
      Inl e \<Rightarrow> (Inl e, d)
    | Inr rid \<Rightarrow> with_session (bind_act (query (\<lambda>d. row_with oprun_id rid (operational_runs d))) (\<lambda>found.
        case found of
          None \<Rightarrow> ret ()
        | Some run \<Rightarrow>
            if oprun_run_type run \<noteq> expected \<or> op_terminal (oprun_status run) then ret ()
            else then_act
              (if expected = ''observer'' then run_observer (we_sha env) (we_numbers env) (we_now env) cfg run
               else if expected = ''logging'' then run_logging_aggregate (we_now env) cfg run
               else raise (ValueError (''unsupported operational agent type: '' @ expected)))
              commit)) d)"

section \<open>Dispatch\<close>

definition recoverable :: "settings \<Rightarrow> time \<Rightarrow> index_job \<Rightarrow> bool" where
  "recoverable cfg now j \<longleftrightarrow> job_attempts j < rag_index_max_retries cfg
     \<and> (job_status j = ''pending'' \<or> (job_status j = ''queued'' \<and>
         (case job_queued_at j of None \<Rightarrow> False | Some q \<Rightarrow> q < now - 1000 * job_queue_claim_idle_ms cfg)))"

definition selected_jobs :: "worker_env \<Rightarrow> settings \<Rightarrow> db \<Rightarrow> index_job list" where
  "selected_jobs env cfg d = take (nat (rag_index_dispatch_batch_size cfg))
     (sort_key job_created_at (filter (\<lambda>j. recoverable cfg (we_now env) j \<and> \<not> we_locked env (job_id j)) (index_jobs d)))"

text \<open>Publication: the queue accepts or refuses, and a refused job is released again.\<close>

fun publish_jobs :: "(uid \<Rightarrow> 'q \<Rightarrow> bool \<times> 'q) \<Rightarrow> uid list \<Rightarrow> 'q \<times> db \<Rightarrow> int \<times> ('q \<times> db)" where
  "publish_jobs enq [] st = (0, st)"
| "publish_jobs enq (i # is) (q, d) = (case enq i q of
      (True, q') \<Rightarrow> (case publish_jobs enq is (q', d) of (n, st) \<Rightarrow> (n + 1, st))
    | (False, q') \<Rightarrow> publish_jobs enq is (q', edit_rows index_jobs_update (\<lambda>j. job_id j = i \<and> job_status j = ''queued'')
          (\<lambda>j. j\<lparr>job_status := ''pending'', job_queued_at := None\<rparr>) d))"

definition dispatch_recoverable_index_jobs ::
  "worker_env \<Rightarrow> settings \<Rightarrow> (uid \<Rightarrow> 'q \<Rightarrow> bool \<times> 'q) \<Rightarrow> 'q \<times> db \<Rightarrow> int \<times> ('q \<times> db)" where
  "dispatch_recoverable_index_jobs env cfg enq st =
     (if \<not> rag_async_indexing cfg then (0, st)
      else case st of (q, d) \<Rightarrow>
        let jobs = map job_id (selected_jobs env cfg d) in
        if jobs = [] then (0, st)
        else publish_jobs enq jobs (q, edit_rows index_jobs_update (\<lambda>j. job_id j \<in> set jobs)
               (\<lambda>j. j\<lparr>job_status := ''queued'', job_queued_at := Some (we_now env)\<rparr>) d))"

section \<open>Processing a queued job\<close>

text \<open>The jobs of other components, and the time-out: the rows committed when it strikes, if it does.\<close>

record job_runners =
  jr_workflow :: "json dict \<Rightarrow> db \<Rightarrow> unit result \<times> db"
  jr_eval :: "json dict \<Rightarrow> db \<Rightarrow> unit result \<times> db"
  jr_evaluator :: "json dict \<Rightarrow> db \<Rightarrow> unit result \<times> db"
  jr_cut :: "queue_job \<Rightarrow> db \<Rightarrow> db option"

definition execute_job :: "worker_env \<Rightarrow> settings \<Rightarrow> job_runners \<Rightarrow> queue_job \<Rightarrow> db \<Rightarrow> unit result \<times> db" where
  "execute_job env cfg jr job d =
     (let ty = qj_type job; payload = qj_payload job in
      if ty = ''execute_workflow_run'' then jr_workflow jr payload d
      else if ty = ''execute_eval_run'' then jr_eval jr payload d
      else if ty = ''execute_evaluator_agent'' then jr_evaluator jr payload d
      else if ty = ''execute_observer_agent'' then execute_operational_agent_job env cfg payload ''observer'' d
      else if ty = ''aggregate_operational_events'' then execute_operational_agent_job env cfg payload ''logging'' d
      else if ty = ''index_document'' then execute_index_document_job env cfg payload d
      else (Inl (ValueError (''Unsupported job type: '' @ ty)), d))"

definition run_with_timeout :: "worker_env \<Rightarrow> settings \<Rightarrow> job_runners \<Rightarrow> queue_job \<Rightarrow> db \<Rightarrow> unit result \<times> db" where
  "run_with_timeout env cfg jr job d = (case jr_cut jr job d of
      Some d' \<Rightarrow> (Inl TimeoutError, d') | None \<Rightarrow> execute_job env cfg jr job d)"

definition safe_error :: "py_exn \<Rightarrow> string" where
  "safe_error e = (if e = TimeoutError then ''job_timeout'' else take 64 (py_lower (exn_class e)))"

definition retryable_types :: "string list" where
  "retryable_types = [''index_document'', ''execute_evaluator_agent'', ''execute_observer_agent'', ''aggregate_operational_events'']"

definition worker_attempt :: "json dict \<Rightarrow> int result" where
  "worker_attempt payload = get_int_or0 payload ''_worker_attempt''"

definition can_retry :: "string \<Rightarrow> json dict \<Rightarrow> settings \<Rightarrow> bool result" where
  "can_retry ty payload cfg =
     (if ty \<notin> set retryable_types then Inr False
      else rbind (worker_attempt payload) (\<lambda>n. Inr (n < worker_job_max_retries cfg)))"

definition job_timeout_seconds :: "string \<Rightarrow> settings \<Rightarrow> int" where
  "job_timeout_seconds ty cfg =
     (if ty = ''execute_workflow_run'' then workflow_run_timeout_seconds cfg
      else if ty = ''execute_eval_run'' \<or> ty = ''execute_evaluator_agent'' then eval_run_timeout_seconds cfg
      else if ty = ''execute_observer_agent'' \<or> ty = ''aggregate_operational_events'' then operational_agent_timeout_seconds cfg
      else if ty = ''index_document'' then index_job_timeout_seconds cfg
      else max (rag_remote_timeout_seconds cfg * 4) 30)"

definition mark_operational_failure :: "worker_env \<Rightarrow> json dict \<Rightarrow> string \<Rightarrow> db \<Rightarrow> db" where
  "mark_operational_failure env payload err d = (case dict_get payload ''operational_run_id'' of
      None \<Rightarrow> d
    | Some v \<Rightarrow> if \<not> truthy v then d
        else (case payload_uid payload ''operational_run_id'' of
            Inl _ \<Rightarrow> d
          | Inr rid \<Rightarrow> snd (with_session (mark_operational_run_failed (we_now env) rid err) d)))"

text \<open>The queue's operations are arguments, with its state \<open>'q\<close>.\<close>

record 'q queue_ops =
  qo_enqueue :: "int \<Rightarrow> string \<Rightarrow> json dict \<Rightarrow> 'q \<Rightarrow> nat \<times> 'q"
  qo_dequeue :: "'q \<Rightarrow> queue_job option \<times> 'q"
  qo_acknowledge :: "nat \<Rightarrow> 'q \<Rightarrow> 'q"
  qo_fail :: "nat \<Rightarrow> string \<Rightarrow> 'q \<Rightarrow> 'q"

definition process_job ::
  "worker_env \<Rightarrow> settings \<Rightarrow> job_runners \<Rightarrow> 'q queue_ops \<Rightarrow> queue_job \<Rightarrow> 'q \<times> db \<Rightarrow> unit result \<times> 'q \<times> db" where
  "process_job env cfg jr ops job st = (case st of (q, d) \<Rightarrow>
     (case run_with_timeout env cfg jr job d of
        (Inr _, d') \<Rightarrow> (Inr (), qo_acknowledge ops (qj_id job) q, d')
      | (Inl e, d') \<Rightarrow>
          (case can_retry (qj_type job) (qj_payload job) cfg of
             Inl e' \<Rightarrow> (Inl e', q, d')
           | Inr True \<Rightarrow>
               (case worker_attempt (qj_payload job) of
                  Inl e' \<Rightarrow> (Inl e', q, d')
                | Inr n \<Rightarrow>
                    let payload = dict_set ''_worker_attempt'' (JInt (n + 1)) (qj_payload job);
                        q' = snd (qo_enqueue ops (we_now env) (qj_type job) payload q)
                    in (Inr (), qo_acknowledge ops (qj_id job) q', d'))
           | Inr False \<Rightarrow>
               (Inr (), qo_fail ops (qj_id job) (safe_error e) q,
                mark_operational_failure env (qj_payload job) (safe_error e) d'))))"

text \<open>
  The worker's loop without dispatching, one job at a time, until the queue is empty or an error
  escapes; \<open>None\<close> when the fuel runs out.
\<close>

fun drain ::
  "worker_env \<Rightarrow> settings \<Rightarrow> job_runners \<Rightarrow> 'q queue_ops \<Rightarrow> nat \<Rightarrow> 'q \<times> db \<Rightarrow> (unit result \<times> 'q \<times> db) option" where
  "drain env cfg jr ops 0 (q, d) = (case qo_dequeue ops q of
      (None, q') \<Rightarrow> Some (Inr (), q', d) | (Some _, _) \<Rightarrow> None)"
| "drain env cfg jr ops (Suc n) (q, d) = (case qo_dequeue ops q of
      (None, q') \<Rightarrow> Some (Inr (), q', d)
    | (Some job, q') \<Rightarrow> (case process_job env cfg jr ops job (q', d) of
          (Inl e, st) \<Rightarrow> Some (Inl e, st)
        | (Inr _, st) \<Rightarrow> drain env cfg jr ops n st))"

text \<open>The runs a job has left: one, and one for every retry.\<close>

definition runs_left :: "settings \<Rightarrow> queue_job \<Rightarrow> nat" where
  "runs_left cfg j = (case worker_attempt (qj_payload j) of
      Inl _ \<Rightarrow> 1 | Inr n \<Rightarrow> 1 + (if qj_type j \<in> set retryable_types then nat (worker_job_max_retries cfg - n) else 0))"

lemma runs_left_pos: "0 < runs_left cfg j"
  by (simp add: runs_left_def split: sum.split)

lemma runs_left_retry:
  assumes "can_retry (qj_type j) (qj_payload j) cfg = Inr True" and "worker_attempt (qj_payload j) = Inr n"
  shows "runs_left cfg (new_job i now (qj_type j) (dict_set ''_worker_attempt'' (JInt (n + 1)) (qj_payload j))) < runs_left cfg j"
  using assms by (auto simp: can_retry_def runs_left_def worker_attempt_def new_job_def split: if_splits)

context job_queue
begin

definition ops :: "'q queue_ops" where
  "ops = \<lparr>qo_enqueue = enqueue, qo_dequeue = dequeue, qo_acknowledge = acknowledge, qo_fail = fail_job\<rparr>"

lemma process_job_pending:
  assumes "process_job env cfg jr ops job (q, d) = (Inr u, q', d')"
  shows "sum_list (map (runs_left cfg) (pending q')) < runs_left cfg job + sum_list (map (runs_left cfg) (pending q))"
proof -
  have enq: "pending (snd (enqueue now ty payload q)) = pending q @ [new_job (fst (enqueue now ty payload q)) now ty payload]"
    for now ty payload using enqueue_law [of now ty payload q] by (cases "enqueue now ty payload q") auto
  obtain r d1 where run: "run_with_timeout env cfg jr job d = (r, d1)" by (cases "run_with_timeout env cfg jr job d")
  show ?thesis
  proof (cases r)
    case (Inr x)
    with assms run show ?thesis by (auto simp: process_job_def ops_def acknowledge_law runs_left_pos)
  next
    case (Inl e)
    with assms run obtain b where retry: "can_retry (qj_type job) (qj_payload job) cfg = Inr b"
      by (cases "can_retry (qj_type job) (qj_payload job) cfg") (auto simp: process_job_def)
    show ?thesis
    proof (cases b)
      case True
      with Inl assms run retry obtain n where n: "worker_attempt (qj_payload job) = Inr n"
        by (cases "worker_attempt (qj_payload job)") (auto simp: process_job_def)
      with True Inl assms run retry show ?thesis
        using runs_left_retry [of job cfg n] by (auto simp: process_job_def ops_def acknowledge_law enq Let_def)
    next
      case False
      with Inl assms run retry show ?thesis by (auto simp: process_job_def ops_def fail_law runs_left_pos)
    qed
  qed
qed

lemma drain_ends:
  "sum_list (map (runs_left cfg) (pending q)) \<le> n \<Longrightarrow>
   \<exists>r q' d'. drain env cfg jr ops n (q, d) = Some (r, q', d') \<and> ((\<exists>e. r = Inl e) \<or> pending q' = [])"
proof (induction n arbitrary: q d)
  case 0
  then have "pending q = []"
  proof (cases "pending q")
    case (Cons j js)
    with 0 runs_left_pos [of cfg j] show ?thesis by simp
  qed simp
  then show ?case using dequeue_empty by (simp add: ops_def)
next
  case (Suc n)
  show ?case
  proof (cases rule: dequeue_cases [of q])
    case empty
    then show ?thesis by (simp add: ops_def)
  next
    case (job j q1)
    have deq: "qo_dequeue ops q = (Some j, q1)" using job by (simp add: ops_def)
    obtain r q2 d2 where run: "process_job env cfg jr ops j (q1, d) = (r, q2, d2)"
      by (cases "process_job env cfg jr ops j (q1, d)") auto
    show ?thesis
    proof (cases r)
      case (Inl e)
      with deq run show ?thesis by simp
    next
      case (Inr u)
      with run process_job_pending [of env cfg jr j q1 d u q2 d2] job(2) Suc.prems
      have "sum_list (map (runs_left cfg) (pending q2)) \<le> n" by simp
      from Suc.IH [OF this] deq run Inr show ?thesis by simp
    qed
  qed
qed

end

definition inline_ops :: "inline_queue queue_ops" where
  "inline_ops = inline.ops"


section \<open>The state machine of an index job\<close>

definition runnable :: "index_job \<Rightarrow> bool" where
  "runnable j \<longleftrightarrow> job_status j \<notin> set [''completed'', ''stale'', ''running'']"

definition same_job :: "index_job \<Rightarrow> index_job \<Rightarrow> bool" where
  "same_job j j' \<longleftrightarrow> job_id j' = job_id j \<and> job_project_id j' = job_project_id j \<and> job_source_id j' = job_source_id j
     \<and> job_sync_id j' = job_sync_id j \<and> job_normalized_payload_json j' = job_normalized_payload_json j
     \<and> job_content_hash j' = job_content_hash j \<and> job_index_version j' = job_index_version j
     \<and> job_created_at j' = job_created_at j \<and> job_queued_at j' = job_queued_at j"

inductive job_step :: "settings \<Rightarrow> index_job \<Rightarrow> index_job \<Rightarrow> bool" where
  give_up: "runnable j \<Longrightarrow> rag_index_max_retries cfg \<le> job_attempts j \<Longrightarrow> same_job j j' \<Longrightarrow>
     job_status j' = ''failed'' \<Longrightarrow> job_attempts j' = job_attempts j \<Longrightarrow> job_step cfg j j'"
| outdated: "runnable j \<Longrightarrow> job_attempts j < rag_index_max_retries cfg \<Longrightarrow> job_index_version j \<noteq> vector_index_version cfg \<Longrightarrow>
     same_job j j' \<Longrightarrow> job_status j' = ''stale'' \<Longrightarrow> job_attempts j' = job_attempts j \<Longrightarrow> job_step cfg j j'"
| ran: "runnable j \<Longrightarrow> job_attempts j < rag_index_max_retries cfg \<Longrightarrow> job_index_version j = vector_index_version cfg \<Longrightarrow>
     same_job j j' \<Longrightarrow> job_status j' \<in> set [''completed'', ''failed''] \<Longrightarrow> job_attempts j' = job_attempts j + 1 \<Longrightarrow> job_step cfg j j'"
| retry: "runnable j \<Longrightarrow> job_attempts j + 1 < rag_index_max_retries cfg \<Longrightarrow> job_index_version j = vector_index_version cfg \<Longrightarrow>
     same_job j j' \<Longrightarrow> job_status j' = ''pending'' \<Longrightarrow> job_attempts j' = job_attempts j + 1 \<Longrightarrow> job_step cfg j j'"

inductive_cases job_stepE: "job_step cfg j j'"

text \<open>The table of jobs with one job replaced.\<close>

definition put_job :: "uid \<Rightarrow> index_job list \<Rightarrow> index_job \<Rightarrow> index_job list" where
  "put_job jid js j = map (\<lambda>x. if job_id x = jid then j else x) js"

lemma set_job_run: "set_job jid f s = (Inr (), s\<lparr>work := edit_row index_jobs_update job_id jid f (work s)\<rparr>)"
  by (simp add: set_job_def change_def)

lemma jobs_edit:
  "index_jobs d = put_job jid js j \<Longrightarrow> job_id j = jid \<Longrightarrow>
   index_jobs (edit_row index_jobs_update job_id jid f d) = put_job jid js (f j)"
  by (simp add: put_job_def edit_row_def edit_rows_def)

lemma put_job_start:
  "distinct (map job_id js) \<Longrightarrow> row_with job_id jid js = Some j \<Longrightarrow> put_job jid js j = js"
proof (induction js)
  case (Cons x js)
  show ?case
  proof (cases "job_id x = jid")
    case True
    with Cons.prems have "j = x" by (simp add: row_with_def)
    moreover have "job_id y \<noteq> jid" if "y \<in> set js" for y
      using Cons.prems(1) True imageI [OF that, of job_id] by auto
    then have "map (\<lambda>y. if job_id y = jid then j else y) js = js" by (intro map_idI) simp
    ultimately show ?thesis using True unfolding put_job_def by (simp only: list.map simp_thms if_True)
  next
    case False
    with Cons show ?thesis by (simp add: put_job_def row_with_def)
  qed
qed (simp add: put_job_def)

lemma apart_jobs: "apart_from_index index_jobs"
  by (simp add: apart_from_index_def)

lemma jobs_event: "job_event env job a st ty sev md pl s = (Inr (), t) \<Longrightarrow> index_jobs (work t) = index_jobs (work s)"
  by (auto simp: job_event_def record_audit_event_def record_operational_event_def then_act_def bind_act_def change_def
      when_act_def audit_defaults_def ret_def add_row_def)

lemma job_event_returns: "\<exists>t. job_event env job a st ty sev md pl s = (Inr (), t)"
  by (auto simp: job_event_def record_audit_event_def record_operational_event_def then_act_def bind_act_def change_def
      when_act_def audit_defaults_def ret_def)

lemma jobs_report: "keeps_table index_jobs (report_to_sync job indexed)"
  unfolding report_to_sync_def
  by (intro keeps_option keeps_bind keeps_simple keeps_then keeps_when keeps_table_change)
    (simp_all add: settle_source_def edit_row_def edit_rows_def Let_def)

lemma run_index_job_jobs:
  assumes "index_jobs (work s) = put_job jid js j" and "job_id j = jid" and "job_id job = jid"
    and run: "run_index_job env cfg job s = (r, t)"
  shows "\<exists>j'. index_jobs (work t) = put_job jid js j' \<and> same_job j j' \<and> job_attempts j' = job_attempts j
    \<and> (\<forall>u. r = Inr u \<longrightarrow> job_status j' \<in> set [''completed'', ''failed''] \<and> committed t = work t)"
proof (cases "we_load env (job_normalized_payload_json job)")
  case (Inl e)
  with run have "r = Inl e" "t = s" by (simp_all add: run_index_job_def bind_act_def lift_result_def)
  with assms show ?thesis by (auto simp: same_job_def)
next
  case (Inr nd)
  let ?ix = "index_normalized_documents (we_index env) cfg (job_project_id job) (job_source_id job) [nd]"
  obtain q u where ix: "?ix s = (q, u)" by (cases "?ix s")
  have ju: "index_jobs (work u) = put_job jid js j"
    using keepsD [OF keeps_index [OF apart_jobs] ix] assms(1) by simp
  show ?thesis
  proof (cases q)
    case (Inl e)
    with ix run Inr have "r = Inl e" "t = u" by (simp_all add: run_index_job_def bind_act_def lift_result_def)
    with ju show ?thesis by (auto simp: same_job_def)
  next
    case q: (Inr indexed)
    let ?ok = "br_errors indexed = []"
    let ?f = "\<lambda>x. x\<lparr>job_status := (if ?ok then ''completed'' else ''failed''),
         job_error_code := (case br_errors indexed of [] \<Rightarrow> None | e # _ \<Rightarrow> Some (de_code e)), job_finished_at := Some (we_now env)\<rparr>"
    let ?v = "u\<lparr>work := edit_row index_jobs_update job_id jid ?f (work u)\<rparr>"
    have jv: "index_jobs (work ?v) = put_job jid js (?f j)" using jobs_edit [OF ju assms(2)] by simp
    obtain p w where rep: "report_to_sync job indexed ?v = (p, w)" by (cases "report_to_sync job indexed ?v")
    with jobs_report have jw: "index_jobs (work w) = put_job jid js (?f j)" using jv keepsD by fastforce
    have same: "same_job j (?f j) \<and> job_attempts (?f j) = job_attempts j \<and> job_status (?f j) \<in> set [''completed'', ''failed'']"
      by (simp add: same_job_def)
    show ?thesis
    proof (cases p)
      case (Inl e)
      with ix q run Inr rep assms(3) have "r = Inl e" "t = w"
        by (simp_all add: run_index_job_def bind_act_def lift_result_def then_act_def set_job_run Let_def)
      with jw same show ?thesis by blast
    next
      case (Inr x)
      let ?ev = "job_event env job (if ?ok then ''index_job_completed'' else ''index_job_failed'') (if ?ok then ''completed'' else ''failed'')
           (if ?ok then ''index_document_completed'' else ''index_document_failed'') (if ?ok then ''info'' else ''high'')
           [(''index_version'', JStr (job_index_version job)), (''chunks_created'', JInt (br_chunks_created indexed))]
           [(''index_job_id'', JStr (uid_str (job_id job))), (''index_version'', JStr (job_index_version job)),
            (''chunks_created'', JInt (br_chunks_created indexed)),
            (''error_code'', opt_json (case br_errors indexed of [] \<Rightarrow> None | e # _ \<Rightarrow> Some (de_code e)))]"
      obtain y where ev: "?ev w = (Inr (), y)" using job_event_returns by blast
      from run \<open>we_load _ _ = _\<close> ix q rep Inr assms(3) ev have "r = Inr () \<and> t = y\<lparr>committed := work y\<rparr>"
        by (simp add: run_index_job_def bind_act_def lift_result_def then_act_def set_job_run Let_def commit_def)
      with jobs_event [OF ev] jw same show ?thesis by auto
    qed
  qed
qed

lemma retry_index_job_run:
  assumes "index_jobs (work s) = put_job (job_id job) js j" and "job_id j = job_id job"
  shows "\<exists>t j'. retry_index_job env cfg job n e s = (Inl e, t) \<and> committed t = work t
    \<and> index_jobs (work t) = put_job (job_id job) js j' \<and> same_job j j' \<and> job_attempts j' = job_attempts j
    \<and> job_status j' = (if n < rag_index_max_retries cfg then ''pending'' else ''failed'')"
proof -
  let ?re = "n < rag_index_max_retries cfg" let ?st = "if ?re then ''pending'' else ''failed''"
  let ?f = "\<lambda>x. x\<lparr>job_status := ?st, job_error_code := Some (exn_code e),
       job_finished_at := (if ?re then None else Some (we_now env))\<rparr>"
  let ?v = "s\<lparr>work := edit_row index_jobs_update job_id (job_id job) ?f (work s)\<rparr>"
  let ?ev = "job_event env job (if ?re then ''index_job_retry_scheduled'' else ''index_job_failed'') ?st
         (if ?re then ''index_document_retry'' else ''index_document_failed'') (if ?re then ''medium'' else ''high'')
         [(''index_version'', JStr (job_index_version job)), (''error_code'', JStr (exn_code e))]
         [(''index_job_id'', JStr (uid_str (job_id job))), (''index_version'', JStr (job_index_version job)),
          (''error_code'', JStr (exn_code e))]"
  obtain y where ev: "?ev ?v = (Inr (), y)" using job_event_returns by blast
  have "index_jobs (work y) = put_job (job_id job) js (?f j)"
    using jobs_event [OF ev] jobs_edit [OF assms] by simp
  moreover have "retry_index_job env cfg job n e s = (Inl e, y\<lparr>committed := work y\<rparr>)"
    using ev by (simp add: retry_index_job_def Let_def then_act_def bind_act_def set_job_run commit_def raise_def)
  ultimately show ?thesis by (auto simp: same_job_def intro!: exI [of _ "?f j"])
qed

text \<open>Running a job is one step of its state machine, on its own row only.\<close>

lemma execute_index_job_refines:
  assumes run: "with_session (execute_index_job env cfg jid) d = (r, d')" and distinct: "distinct (map job_id (index_jobs d))"
  shows "index_jobs d' = index_jobs d \<or>
    (\<exists>j j'. find_job jid d = Some j \<and> job_step cfg j j' \<and> index_jobs d' = put_job jid (index_jobs d) j')"
proof (cases "find_job jid d")
  case None
  with run show ?thesis by (simp add: with_session_def execute_index_job_def query_def bind_act_def ret_def)
next
  case (Some j)
  then have jid: "job_id j = jid" and start: "put_job jid (index_jobs d) j = index_jobs d"
    using row_with_Some [of job_id jid "index_jobs d" j] put_job_start [OF distinct] by (simp_all add: find_job_def)
  have given: "index_jobs (work (new_session d)) = put_job jid (index_jobs d) j" using start by simp
  show ?thesis
  proof (cases "we_locked env jid \<or> \<not> runnable j")
    case True
    with run Some show ?thesis
      by (auto simp: with_session_def execute_index_job_def query_def bind_act_def ret_def runnable_def split: if_splits)
  next
    case False
    then have ok: "\<not> we_locked env jid" "runnable j" by simp_all
    consider (late) "rag_index_max_retries cfg \<le> job_attempts j"
      | (old) "job_attempts j < rag_index_max_retries cfg" "job_index_version j \<noteq> vector_index_version cfg"
      | (go) "job_attempts j < rag_index_max_retries cfg" "job_index_version j = vector_index_version cfg" by fastforce
    then show ?thesis
    proof cases
      case late
      let ?j = "j\<lparr>job_status := ''failed'', job_error_code := (if opt_str (job_error_code j) \<noteq> [] then job_error_code j
          else Some ''retry_limit_exceeded''), job_finished_at := Some (we_now env)\<rparr>"
      from run Some ok late have "d' = edit_row index_jobs_update job_id jid
          (\<lambda>j. j\<lparr>job_status := ''failed'', job_error_code := (if opt_str (job_error_code j) \<noteq> [] then job_error_code j
          else Some ''retry_limit_exceeded''), job_finished_at := Some (we_now env)\<rparr>) d"
        by (auto simp: with_session_def execute_index_job_def query_def bind_act_def then_act_def set_job_run commit_def runnable_def)
      then have "index_jobs d' = put_job jid (index_jobs d) ?j" using jobs_edit [OF given jid] by simp
      moreover have "job_step cfg j ?j" using ok(2) late by (intro give_up) (simp_all add: same_job_def)
      ultimately show ?thesis using Some by blast
    next
      case old
      let ?j = "j\<lparr>job_status := ''stale'', job_error_code := Some ''index_version_changed'', job_finished_at := Some (we_now env)\<rparr>"
      from run Some ok old have "d' = edit_row index_jobs_update job_id jid
          (\<lambda>j. j\<lparr>job_status := ''stale'', job_error_code := Some ''index_version_changed'', job_finished_at := Some (we_now env)\<rparr>) d"
        by (auto simp: with_session_def execute_index_job_def query_def bind_act_def then_act_def set_job_run commit_def runnable_def)
      then have "index_jobs d' = put_job jid (index_jobs d) ?j" using jobs_edit [OF given jid] by simp
      moreover have "job_step cfg j ?j" using ok(2) old by (intro outdated) (simp_all add: same_job_def)
      ultimately show ?thesis using Some by blast
    next
      case go
      let ?f = "\<lambda>j. j\<lparr>job_status := ''running'', job_attempts := job_attempts j + 1, job_started_at := Some (we_now env)\<rparr>"
      let ?s = "(new_session d)\<lparr>work := edit_row index_jobs_update job_id jid ?f d\<rparr>"
      have js: "index_jobs (work ?s) = put_job jid (index_jobs d) (?f j)" using jobs_edit [OF given jid] by simp
      obtain q t where q: "run_index_job env cfg j ?s = (q, t)" by (cases "run_index_job env cfg j ?s")
      obtain j1 where j1: "index_jobs (work t) = put_job jid (index_jobs d) j1" "same_job (?f j) j1"
        "job_attempts j1 = job_attempts j + 1"
        "\<forall>u. q = Inr u \<longrightarrow> job_status j1 \<in> set [''completed'', ''failed''] \<and> committed t = work t"
        using run_index_job_jobs [OF js _ jid q] jid by auto
      have exec: "execute_index_job env cfg jid (new_session d) =
          try_act (run_index_job env cfg j) (retry_index_job env cfg j (job_attempts j + 1)) ?s"
        using Some ok go by (simp add: execute_index_job_def query_def bind_act_def then_act_def set_job_run runnable_def)
      have same: "same_job j j1" using j1(2) by (simp add: same_job_def)
      show ?thesis
      proof (cases q)
        case (Inr u)
        with run exec q have "d' = committed t" by (simp add: with_session_def try_act_def)
        moreover have "job_step cfg j j1" using ok(2) go same j1 Inr by (intro ran) auto
        ultimately show ?thesis using j1 Inr Some by auto
      next
        case (Inl e)
        have "job_id j1 = job_id j" using same by (simp add: same_job_def)
        from retry_index_job_run [OF j1(1) [folded jid] this, of env cfg "job_attempts j + 1" e]
        obtain w j2 where w: "retry_index_job env cfg j (job_attempts j + 1) e t = (Inl e, w)" "committed w = work w"
          and j2: "index_jobs (work w) = put_job jid (index_jobs d) j2" "same_job j1 j2" "job_attempts j2 = job_attempts j1"
            "job_status j2 = (if job_attempts j + 1 < rag_index_max_retries cfg then ''pending'' else ''failed'')"
          unfolding jid by blast
        from run exec q Inl w have "d' = work w" by (simp add: with_session_def try_act_def)
        moreover have "same_job j j2" using same j2(2) by (simp add: same_job_def)
        then have "job_step cfg j j2"
        proof (cases "job_attempts j + 1 < rag_index_max_retries cfg")
          case True
          with ok(2) go \<open>same_job j j2\<close> j2 j1(3) show ?thesis by (intro retry) simp_all
        next
          case False
          with ok(2) go \<open>same_job j j2\<close> j2 j1(3) show ?thesis by (intro ran) simp_all
        qed
        ultimately show ?thesis using j2(1) Some by blast
      qed
    qed
  qed
qed

lemma with_session_preserves: "preserves P m \<Longrightarrow> P d \<Longrightarrow> P (snd (with_session m d))"
proof -
  assume m: "preserves P m" and d: "P d"
  obtain r u where u: "m (new_session d) = (r, u)" by (cases "m (new_session d)")
  with m d have "P (committed u)" unfolding preserves_def by (metis new_session_simps(1,2) snd_conv)
  with u show ?thesis by (simp add: with_session_def)
qed

lemma preserves_set_job: "(\<And>j. job_id (f j) = job_id j) \<Longrightarrow> preserves db_ok (set_job jid f)"
  unfolding set_job_def edit_row_def by (intro preserves_change db_ok_edit_index_jobs) auto

lemma preserves_job_event: "preserves db_ok (job_event env job a st ty sev md pl)"
  unfolding job_event_def record_audit_event_def
  by (intro preserves_then preserves_change preserves_when preserves_commit preserves_event db_ok_add_audit_events)
    (simp_all add: audit_row_def)

lemma db_ok_settle: "db_ok d \<Longrightarrow> db_ok (settle_source y i d)"
  unfolding settle_source_def edit_row_def Let_def by (auto intro!: db_ok_edit_sources)

lemma sync_after_job_id: "sync_after_job b y = Inr y' \<Longrightarrow> sync_id y' = sync_id y"
  by (auto simp: sync_after_job_def Let_def rbind_Inr_iff)

lemma preserves_report: "preserves db_ok (report_to_sync job indexed)"
proof (cases "job_sync_id job")
  case (Some yid)
  have "preserves db_ok (bind_act (lift_result (sync_after_job indexed y)) (\<lambda>y'.
            then_act (change (edit_row source_syncs_update sync_id yid (\<lambda>_. y')))
              (when_act (sync_finished_at y \<noteq> None) (change (settle_source yid (job_source_id job))))))"
    if "sync_id y = yid" for y
  proof (cases "sync_after_job indexed y")
    case (Inl e)
    then show ?thesis by (simp add: preserves_def bind_act_def lift_result_def)
  next
    case (Inr y')
    have "preserves db_ok (then_act (change (edit_row source_syncs_update sync_id yid (\<lambda>_. y')))
              (when_act (sync_finished_at y \<noteq> None) (change (settle_source yid (job_source_id job)))))"
      unfolding edit_row_def using sync_after_job_id [OF Inr] that
      by (intro preserves_then preserves_change preserves_when db_ok_edit_source_syncs db_ok_settle) auto
    with Inr show ?thesis by (simp add: preserves_def bind_act_def lift_result_def)
  qed
  then have body: "preserves db_ok (bind_act (query (\<lambda>d. row_with sync_id yid (source_syncs d))) (\<lambda>found.
        case found of None \<Rightarrow> ret ()
        | Some y \<Rightarrow> bind_act (lift_result (sync_after_job indexed y)) (\<lambda>y'.
            then_act (change (edit_row source_syncs_update sync_id yid (\<lambda>_. y')))
              (when_act (sync_finished_at y \<noteq> None) (change (settle_source yid (job_source_id job)))))))"
    unfolding preserves_def bind_act_def [of "query _"] query_def
    by (auto split: option.split dest: row_with_Some simp: ret_def)
  show ?thesis unfolding report_to_sync_def Some option.case by (rule body)
qed (auto simp: report_to_sync_def)

lemma preserves_run_index_job: "preserves db_ok (run_index_job env cfg job)"
  unfolding run_index_job_def Let_def
  by (intro preserves_bind preserves_then preserves_lift preserves_db_ok_index preserves_set_job preserves_report
      preserves_job_event preserves_commit) simp

lemma preserves_execute_index_job: "preserves db_ok (execute_index_job env cfg jid)"
  unfolding execute_index_job_def retry_index_job_def Let_def
  by (intro preserves_bind preserves_then preserves_query preserves_option preserves_if preserves_ret preserves_try
      preserves_set_job preserves_commit preserves_run_index_job preserves_job_event preserves_raise) simp_all

lemma index_job_execution_refines:
  assumes "db_ok d"
  shows "index_jobs (snd (execute_index_document_job env cfg payload d)) = index_jobs d \<or>
    (\<exists>jid j j'. payload_uid payload ''index_job_id'' = Inr jid \<and> find_job jid d = Some j \<and> job_step cfg j j'
      \<and> index_jobs (snd (execute_index_document_job env cfg payload d)) = put_job jid (index_jobs d) j')"
proof (cases "payload_uid payload ''index_job_id''")
  case (Inl e)
  then show ?thesis by (simp add: execute_index_document_job_def)
next
  case (Inr jid)
  have "distinct (map job_id (index_jobs d))" using assms by (simp add: db_ok_def keys_ok_def)
  with execute_index_job_refines [of env cfg jid d] Inr show ?thesis
    by (cases "with_session (execute_index_job env cfg jid) d") (auto simp: execute_index_document_job_def)
qed

text \<open>
  C1. Executing an index job follows its state machine: the run changes no job but its own, and that one by a single step
  (given up, outdated, run to an end, or back to pending for another attempt), or not at all.
\<close>

theorem index_job_execution_refines_state_machine:
  assumes "db_ok d"
  shows "index_jobs (snd (execute_index_document_job env cfg payload d)) = index_jobs d \<or>
    (\<exists>jid j j'. payload_uid payload ''index_job_id'' = Inr jid \<and> find_job jid d = Some j \<and> job_step cfg j j'
      \<and> index_jobs (snd (execute_index_document_job env cfg payload d)) = put_job jid (index_jobs d) j')"
  using assms by (rule index_job_execution_refines)

definition sample_worker :: worker_env where
  "sample_worker = \<lparr>we_index = sample_env, we_load = (\<lambda>_. Inl (ValueError [])), we_sha = id,
     we_numbers = \<lparr>of_text = (\<lambda>_. None), to_text = (\<lambda>_. [])\<rparr>, we_now = 100, we_locked = (\<lambda>_. False)\<rparr>"

definition sample_job :: "uid \<Rightarrow> index_job" where
  "sample_job i = \<lparr>job_id = i, job_project_id = 1, job_source_id = 2, job_sync_id = None, job_normalized_payload_json = [],
     job_content_hash = [], job_index_version = ''current'', job_status = ''pending'', job_attempts = 0, job_error_code = None,
     job_created_at = 0, job_queued_at = None, job_started_at = None, job_finished_at = None\<rparr>"

definition sample_jobs_db :: db where
  "sample_jobs_db = add_row index_jobs_update sample_job empty_db"

lemma sample_jobs_ok: "db_ok sample_jobs_db"
  unfolding sample_jobs_db_def by (intro db_ok_add_index_jobs db_ok_empty) (simp add: sample_job_def)

theorem index_job_execution_refines_state_machine_witness:
  "db_ok sample_jobs_db \<and>
   (index_jobs (snd (execute_index_document_job sample_worker (default_settings ''h'') [(''index_job_id'', JInt 1)] sample_jobs_db))
      = index_jobs sample_jobs_db \<or>
    (\<exists>jid j j'. payload_uid [(''index_job_id'', JInt 1)] ''index_job_id'' = Inr jid \<and> find_job jid sample_jobs_db = Some j
      \<and> job_step (default_settings ''h'') j j'
      \<and> index_jobs (snd (execute_index_document_job sample_worker (default_settings ''h'') [(''index_job_id'', JInt 1)] sample_jobs_db))
        = put_job jid (index_jobs sample_jobs_db) j'))"
  using index_job_execution_refines_state_machine [OF sample_jobs_ok] sample_jobs_ok by blast

section \<open>What can become of an index job\<close>

text \<open>
  The steps that concern the table of index jobs: a job arrives, the dispatcher runs, a worker executes a queued job,
  and anything else that leaves the table alone (a worker that is cut off included).
\<close>

inductive worker_step :: "settings \<Rightarrow> db \<Rightarrow> db \<Rightarrow> bool" for cfg where
  arrives: "(\<And>i. job_id (mk i) = i \<and> job_attempts (mk i) = 0 \<and> job_status (mk i) = ''pending'') \<Longrightarrow>
     worker_step cfg d (add_row index_jobs_update mk d)"
| dispatched: "snd (snd (dispatch_recoverable_index_jobs env cfg enq (q :: inline_queue, d))) = d' \<Longrightarrow> worker_step cfg d d'"
| executed: "snd (execute_index_document_job env cfg payload d) = d' \<Longrightarrow> worker_step cfg d d'"
| other: "index_jobs d' = index_jobs d \<Longrightarrow> db_ok d' \<Longrightarrow> worker_step cfg d d'"

definition job_fine :: "settings \<Rightarrow> index_job \<Rightarrow> bool" where
  "job_fine cfg j \<longleftrightarrow> 0 \<le> job_attempts j \<and> job_attempts j \<le> rag_index_max_retries cfg
     \<and> job_status j \<in> set [''pending'', ''queued'', ''completed'', ''failed'', ''stale'']
     \<and> (job_status j \<in> set [''pending'', ''queued''] \<longrightarrow> job_attempts j < rag_index_max_retries cfg)"

definition jobs_fine :: "settings \<Rightarrow> db \<Rightarrow> bool" where
  "jobs_fine cfg d \<longleftrightarrow> db_ok d \<and> list_all (job_fine cfg) (index_jobs d)"

lemma job_step_fine: "job_step cfg j j' \<Longrightarrow> job_fine cfg j \<Longrightarrow> job_fine cfg j'"
  by (erule job_stepE) (auto simp: job_fine_def)

lemma jobs_fine_edit:
  assumes "jobs_fine cfg d" and "\<And>j. P j \<Longrightarrow> j \<in> set (index_jobs d) \<Longrightarrow> job_fine cfg j \<Longrightarrow> job_fine cfg (f j)"
    and "\<And>j. job_id (f j) = job_id j"
  shows "jobs_fine cfg (edit_rows index_jobs_update P f d)"
proof -
  have "db_ok (edit_rows index_jobs_update P f d)"
    using assms(1,3) by (auto simp: jobs_fine_def intro!: db_ok_edit_index_jobs)
  with assms(1,2) show ?thesis by (auto simp: jobs_fine_def index_jobs.rows_edit list_all_iff)
qed

lemma publish_jobs_fine: "jobs_fine cfg d \<Longrightarrow> jobs_fine cfg (snd (snd (publish_jobs enq is (q, d))))"
proof (induction "is" arbitrary: q d)
  case (Cons i "is")
  obtain b q' where e: "enq i q = (b, q')" by (cases "enq i q")
  have "jobs_fine cfg (edit_rows index_jobs_update (\<lambda>j. job_id j = i \<and> job_status j = ''queued'')
          (\<lambda>j. j\<lparr>job_status := ''pending'', job_queued_at := None\<rparr>) d)"
    using Cons.prems by (rule jobs_fine_edit) (auto simp: job_fine_def)
  moreover have "snd (snd (publish_jobs enq (i # is) (q, d))) = (if b then snd (snd (publish_jobs enq is (q', d)))
      else snd (snd (publish_jobs enq is (q', edit_rows index_jobs_update (\<lambda>j. job_id j = i \<and> job_status j = ''queued'')
          (\<lambda>j. j\<lparr>job_status := ''pending'', job_queued_at := None\<rparr>) d))))"
    using e by (cases b) (simp_all split: prod.split)
  ultimately show ?case using Cons by simp
qed simp

lemma selected_are_recoverable: "j \<in> set (selected_jobs env cfg d) \<Longrightarrow> j \<in> set (index_jobs d) \<and> recoverable cfg (we_now env) j"
  by (auto simp: selected_jobs_def dest!: in_set_takeD)

lemma dispatch_fine:
  assumes "jobs_fine cfg d"
  shows "jobs_fine cfg (snd (snd (dispatch_recoverable_index_jobs env cfg enq (q, d))))"
proof -
  let ?ids = "map job_id (selected_jobs env cfg d)"
  have "jobs_fine cfg (edit_rows index_jobs_update (\<lambda>j. job_id j \<in> set ?ids)
      (\<lambda>j. j\<lparr>job_status := ''queued'', job_queued_at := Some (we_now env)\<rparr>) d)"
    using assms
  proof (rule jobs_fine_edit)
    fix j assume "job_id j \<in> set ?ids" and j: "j \<in> set (index_jobs d)" and fine: "job_fine cfg j"
    then obtain k where k: "k \<in> set (selected_jobs env cfg d)" "job_id k = job_id j" by auto
    from assms have "distinct (map job_id (index_jobs d))" by (simp add: jobs_fine_def db_ok_def keys_ok_def)
    with selected_are_recoverable [OF k(1)] k(2) j have "k = j" by (metis distinct_map inj_onD)
    with selected_are_recoverable [OF k(1)] fine show "job_fine cfg (j\<lparr>job_status := ''queued'', job_queued_at := Some (we_now env)\<rparr>)"
      by (simp add: job_fine_def recoverable_def)
  qed simp
  then show ?thesis using assms
    by (simp add: dispatch_recoverable_index_jobs_def Let_def publish_jobs_fine)
qed

lemma execute_fine:
  assumes "jobs_fine cfg d"
  shows "jobs_fine cfg (snd (execute_index_document_job env cfg payload d))"
proof (cases "payload_uid payload ''index_job_id''")
  case (Inl e)
  with assms show ?thesis by (simp add: execute_index_document_job_def)
next
  case (Inr jid)
  obtain r d' where run: "with_session (execute_index_job env cfg jid) d = (r, d')"
    by (cases "with_session (execute_index_job env cfg jid) d")
  have ok: "db_ok d'"
    using with_session_preserves [OF preserves_execute_index_job] assms run unfolding jobs_fine_def by (metis snd_conv)
  from assms have distinct: "distinct (map job_id (index_jobs d))" by (simp add: jobs_fine_def db_ok_def keys_ok_def)
  from execute_index_job_refines [OF run distinct] have "list_all (job_fine cfg) (index_jobs d')"
  proof
    assume "index_jobs d' = index_jobs d"
    with assms show ?thesis by (simp add: jobs_fine_def)
  next
    assume "\<exists>j j'. find_job jid d = Some j \<and> job_step cfg j j' \<and> index_jobs d' = put_job jid (index_jobs d) j'"
    then obtain j j' where "find_job jid d = Some j" "job_step cfg j j'" and d': "index_jobs d' = put_job jid (index_jobs d) j'"
      by blast
    then have "job_fine cfg j'"
      using assms job_step_fine [of cfg j j'] row_with_Some [of job_id jid "index_jobs d" j]
      by (auto simp: jobs_fine_def find_job_def list_all_iff)
    with assms d' show ?thesis by (auto simp: jobs_fine_def put_job_def list_all_iff)
  qed
  with ok run Inr show ?thesis by (simp add: jobs_fine_def execute_index_document_job_def)
qed

lemma worker_step_fine: "worker_step cfg d d' \<Longrightarrow> 0 < rag_index_max_retries cfg \<Longrightarrow> jobs_fine cfg d \<Longrightarrow> jobs_fine cfg d'"
proof (induction rule: worker_step.induct)
  case (arrives mk d)
  then have "db_ok (add_row index_jobs_update mk d)" by (auto simp: jobs_fine_def intro!: db_ok_add_index_jobs)
  moreover have "job_fine cfg (mk (next_id d))" using arrives by (simp add: job_fine_def)
  ultimately show ?case using arrives by (simp add: jobs_fine_def index_jobs.rows_add)
next
  case (dispatched env enq q d d')
  from dispatch_fine [OF dispatched(3)] show ?case unfolding dispatched(1) [symmetric] .
next
  case (executed env payload d d')
  from execute_fine [OF executed(3)] show ?case unfolding executed(1) [symmetric] .
next
  case (other d' d)
  then show ?case by (simp add: jobs_fine_def)
qed

text \<open>
  C3. Attempts are bounded and nothing gets stuck: in every state that workers and dispatchers can reach from an empty
  table, in any order and with any failures, a job has between zero and \<open>rag_index_max_retries\<close>
  attempts, is never left running, and is pending or queued only while an attempt is left.
\<close>

theorem index_jobs_stay_bounded:
  assumes "rtranclp (worker_step cfg) d d'" and "0 < rag_index_max_retries cfg" and "db_ok d" and "index_jobs d = []"
  shows "db_ok d' \<and> list_all (\<lambda>j. 0 \<le> job_attempts j \<and> job_attempts j \<le> rag_index_max_retries cfg
    \<and> job_status j \<in> set [''pending'', ''queued'', ''completed'', ''failed'', ''stale'']
    \<and> (job_status j \<in> set [''pending'', ''queued''] \<longrightarrow> job_attempts j < rag_index_max_retries cfg)) (index_jobs d')"
proof -
  have "jobs_fine cfg d'" using assms(1)
  proof (induction rule: rtranclp_induct)
    case base
    then show ?case using assms(3,4) by (simp add: jobs_fine_def)
  next
    case (step y z)
    then show ?case using worker_step_fine assms(2) by blast
  qed
  then show ?thesis by (simp add: jobs_fine_def job_fine_def [abs_def])
qed

theorem index_jobs_stay_bounded_witness:
  "\<exists>d'. rtranclp (worker_step (default_settings ''h'')) empty_db d' \<and> index_jobs d' \<noteq> [] \<and>
     list_all (\<lambda>j. job_attempts j \<le> 3) (index_jobs d')"
proof -
  let ?d = "snd (execute_index_document_job sample_worker (default_settings ''h'') [(''index_job_id'', JInt 1)] sample_jobs_db)"
  have "worker_step (default_settings ''h'') empty_db sample_jobs_db"
    unfolding sample_jobs_db_def by (rule arrives) (simp add: sample_job_def)
  moreover have "worker_step (default_settings ''h'') sample_jobs_db ?d" by (rule executed) (rule refl)
  ultimately have reach: "rtranclp (worker_step (default_settings ''h'')) empty_db ?d" by (blast intro: converse_rtranclp_into_rtranclp)
  have three: "rag_index_max_retries (default_settings ''h'') = 3" by (simp add: default_settings_def)
  have "index_jobs empty_db = []" by (simp add: empty_db_def)
  from index_jobs_stay_bounded [OF reach _ db_ok_empty this] three
  have "list_all (\<lambda>j. job_attempts j \<le> 3) (index_jobs ?d)" by (auto simp: list_all_iff)
  moreover have "index_jobs sample_jobs_db \<noteq> []" by (simp add: sample_jobs_db_def add_row_def)
  then have "index_jobs ?d \<noteq> []"
    using index_job_execution_refines [OF sample_jobs_ok, of sample_worker "default_settings ''h''" "[(''index_job_id'', JInt 1)]"]
    by (elim disjE exE conjE) (simp_all add: put_job_def)
  ultimately show ?thesis using reach by blast
qed

text \<open>
  The source's final status comes from its index jobs alone: the outcome of the sync itself, failed or cancelled, is not
  looked at.
\<close>

lemma settle_ignores_sync_outcome:
  "settle_source y i (d\<lparr>source_syncs := ys\<rparr>) = (settle_source y i d)\<lparr>source_syncs := ys\<rparr>"
  by (simp add: settle_source_def Let_def edit_row_def edit_rows_def)

section \<open>Recovery\<close>

lemma publish_all:
  assumes "\<And>i q. fst (enq i q)"
  shows "publish_jobs enq is (q, d) = (int (length is), fold (\<lambda>i q. snd (enq i q)) is q, d)"
proof (induction "is" arbitrary: q)
  case (Cons i "is")
  obtain b q' where e: "enq i q = (b, q')" by (cases "enq i q")
  with assms [of i q] have "b" by simp
  then show ?case using Cons e by simp
qed simp

lemma fold_append: "fold (\<lambda>i q. q @ [i]) is p = p @ is"
  by (induction "is" arbitrary: p) simp_all

lemma publish_none:
  assumes "\<And>i q. enq i q = (False, q)"
  shows "publish_jobs enq is (q, d) = (0, q, fold (\<lambda>i. edit_rows index_jobs_update (\<lambda>j. job_id j = i \<and> job_status j = ''queued'')
          (\<lambda>j. j\<lparr>job_status := ''pending'', job_queued_at := None\<rparr>)) is d)"
  by (induction "is" arbitrary: d) (simp_all add: assms)



end
