(* ===== verification/Sources.thy ===== *)
theory Sources
  imports Operations
begin

text \<open>
  The source and sync API (\<open>apps/api/routes/sources.py\<close>): creation, deletion, refresh and integrity of sources,
  registration of collectors, and the life of a sync from its start over its document batches to its end. A handler is an
  action of theory \<open>Prelude\<close>; \<open>run_request\<close> is the transaction around it. The current time is an argument, the printed
  form of a time, the MD5 digest of PostgreSQL and the verdict of the rate limiter are parameters. Rows of one ORM object
  are written where the code assigns to it; the columns \<open>updated_at\<close> that the database fills by itself keep the
  time of the insertion.
\<close>

section \<open>Requests and responses\<close>

record source_request =
  sq_name :: string
  sq_source_type :: string
  sq_sync_mode :: string
  sq_config :: "json dict"

record source_response =
  sr_id :: uid
  sr_project_id :: uid
  sr_name :: string
  sr_source_type :: string
  sr_status :: string
  sr_sync_mode :: string
  sr_last_sync_status :: "string option"
  sr_last_sync_started_at :: "time option"
  sr_last_sync_finished_at :: "time option"
  sr_created_at :: time
  sr_updated_at :: "time option"

record purge_response =
  pr_deleted :: bool
  pr_resource_type :: string
  pr_resource_id :: uid
  pr_counts :: "int dict"

record reindex_response =
  rx_source_id :: uid
  rx_documents_reindexed :: int
  rx_chunks_reindexed :: int
  rx_chunks_created :: int
  rx_diagnostics :: "json dict"

record integrity_response =
  ir_source_id :: uid
  ir_document_count :: int
  ir_chunk_count :: int
  ir_duplicate_chunk_groups :: int
  ir_duplicate_chunk_rows :: int
  ir_active_index_version :: string

record collector_request =
  cq_name :: string
  cq_environment :: "string option"
  cq_version :: "string option"

record sync_start_request =
  yq_collector_id :: "uid option"
  yq_diagnostics :: "json dict"

record sync_finish_request =
  fq_status :: string
  fq_diagnostics :: "json dict"
  fq_coverage :: "json dict"

record sync_response =
  yr_sync_id :: uid
  yr_project_id :: uid
  yr_source_id :: uid
  yr_collector_id :: "uid option"
  yr_status :: string
  yr_started_at :: time
  yr_finished_at :: "time option"
  yr_files_seen :: int
  yr_documents_received :: int
  yr_chunks_created :: int
  yr_files_skipped :: int
  yr_parser_errors :: int
  yr_coverage :: "json dict"
  yr_diagnostics :: "json dict"
  yr_error_message :: "string option"

text \<open>The documents of a request have the fields of \<open>NormalizedDocument\<close>.\<close>

record batch_request =
  bq_sync_id :: uid
  bq_collector_id :: "uid option"
  bq_collector_version :: "string option"
  bq_schema_version :: "string option"
  bq_core_api_version :: "string option"
  bq_documents :: "normalized_document list"

record batch_response =
  bp_received :: int
  bp_created :: int
  bp_updated :: int
  bp_skipped_unchanged :: int
  bp_skipped_invalid :: int
  bp_chunks_created :: int
  bp_errors :: "document_error list"
  bp_diagnostics :: "json dict"
  bp_coverage :: "json dict"
  bp_embedding_backend :: "string option"
  bp_warnings :: "string list"

definition source_response_of :: "source_row \<Rightarrow> source_response" where
  "source_response_of r =
     \<lparr>sr_id = src_id r, sr_project_id = src_project_id r, sr_name = src_name r, sr_source_type = src_source_type r,
      sr_status = src_status r, sr_sync_mode = src_sync_mode r, sr_last_sync_status = src_last_sync_status r,
      sr_last_sync_started_at = src_last_sync_started_at r, sr_last_sync_finished_at = src_last_sync_finished_at r,
      sr_created_at = src_created_at r, sr_updated_at = Some (src_updated_at r)\<rparr>"

definition sync_response_of :: "sync_row \<Rightarrow> sync_response" where
  "sync_response_of y =
     \<lparr>yr_sync_id = sync_id y, yr_project_id = sync_project_id y, yr_source_id = sync_source_id y,
      yr_collector_id = sync_collector_id y, yr_status = sync_status y, yr_started_at = sync_started_at y,
      yr_finished_at = sync_finished_at y, yr_files_seen = sync_files_seen y,
      yr_documents_received = sync_documents_received y, yr_chunks_created = sync_chunks_created y,
      yr_files_skipped = sync_files_skipped y, yr_parser_errors = sync_parser_errors y,
      yr_coverage = or_empty (sync_coverage_json y), yr_diagnostics = or_empty (sync_diagnostics_json y),
      yr_error_message = sync_error_message y\<rparr>"

section \<open>Diagnostics\<close>

text \<open>
  \<open>dict(v or {})\<close> of a JSON value: an object gives its entries, a list of pairs is read as entries (a key that is no
  string stands for its JSON text), anything else that is not empty raises.
\<close>

definition pair_entry :: "json \<Rightarrow> (string \<times> json) result" where
  "pair_entry v = (case v of
      JList [k, w] \<Rightarrow> (case k of
          JStr s \<Rightarrow> Inr (s, w)
        | JList _ \<Rightarrow> Inl (TypeError ''unhashable type'') | JObj _ \<Rightarrow> Inl (TypeError ''unhashable type'')
        | _ \<Rightarrow> Inr (json_dumps '', '' '': '' k, w))
    | JStr [a, b] \<Rightarrow> Inr ([a], JStr [b])
    | JObj [(a, _), (b, _)] \<Rightarrow> Inr (a, JStr b)
    | JList _ \<Rightarrow> Inl (ValueError ''dictionary update sequence element has a wrong length'')
    | JStr _ \<Rightarrow> Inl (ValueError ''dictionary update sequence element has a wrong length'')
    | JObj _ \<Rightarrow> Inl (ValueError ''dictionary update sequence element has a wrong length'')
    | _ \<Rightarrow> Inl (TypeError ''cannot convert dictionary update sequence element to a sequence''))"

fun pair_entries :: "json list \<Rightarrow> json dict \<Rightarrow> json dict result" where
  "pair_entries [] d = Inr d"
| "pair_entries (v # vs) d = rbind (pair_entry v) (\<lambda>(k, w). pair_entries vs (dict_set k w d))"

definition dict_of_json :: "json \<Rightarrow> json dict result" where
  "dict_of_json v =
     (if \<not> truthy v then Inr []
      else case v of
          JObj d \<Rightarrow> Inr d
        | JList vs \<Rightarrow> pair_entries vs []
        | JStr _ \<Rightarrow> Inl (ValueError ''dictionary update sequence element has a wrong length'')
        | _ \<Rightarrow> Inl (TypeError ''object is not iterable''))"

fun add_counts :: "json dict \<Rightarrow> json dict \<Rightarrow> json dict result" where
  "add_counts merged [] = Inr merged"
| "add_counts merged ((k, v) # r) =
     rbind (get_int_or0 merged k) (\<lambda>n. rbind (json_int_or0 v) (\<lambda>m. add_counts (dict_set k (JInt (n + m)) merged) r))"

definition merge_counts :: "json \<Rightarrow> json dict \<Rightarrow> json dict result" where
  "merge_counts left right = rbind (dict_of_json left) (\<lambda>merged. add_counts merged right)"

text \<open>A counter of the diagnostics: \<open>d[k] = int(d.get(k, 0) or 0) + n\<close>.\<close>

definition bump :: "string \<Rightarrow> int \<Rightarrow> json dict \<Rightarrow> json dict result" where
  "bump k n d = rbind (get_int_or0 d k) (\<lambda>m. Inr (dict_set k (JInt (m + n)) d))"

definition merge_key :: "string \<Rightarrow> json dict \<Rightarrow> json dict \<Rightarrow> json dict result" where
  "merge_key k right d = rbind (merge_counts (dict_get_or (JObj []) d k) right) (\<lambda>m. Inr (dict_set k (JObj m) d))"

definition set_present :: "string \<times> string option \<Rightarrow> json dict \<Rightarrow> json dict" where
  "set_present kv d = (case snd kv of None \<Rightarrow> d | Some v \<Rightarrow> dict_set (fst kv) (JStr v) d)"

definition parser_reasons :: "batch_result \<Rightarrow> json dict" where
  "parser_reasons b = (let r = get_or_none (br_diagnostics b) ''parser_error_reasons'' in
     if truthy r then obj_entries r
     else map (\<lambda>(k, n). (k, JInt n)) (failure_reason_counts (map (\<lambda>e. Some (de_code e)) (br_errors b))))"

definition last_batch :: "batch_result \<Rightarrow> int \<Rightarrow> json dict \<Rightarrow> json dict result" where
  "last_batch b error_count d =
     rbind (get_int_or0 (br_diagnostics b) ''embedding_failures'') (\<lambda>embedding_failures.
       Inr (fold (\<lambda>(k, v). dict_set k v)
         [(''last_batch_received'', JInt (br_received b)), (''last_batch_created'', JInt (br_created b)),
          (''last_batch_updated'', JInt (br_updated b)),
          (''last_batch_skipped_unchanged'', JInt (br_skipped_unchanged b)),
          (''last_batch_skipped_invalid'', JInt (br_skipped_invalid b)),
          (''last_batch_chunks_created'', JInt (br_chunks_created b)), (''last_batch_error_count'', JInt error_count),
          (''last_batch_parser_error_reasons'', JObj (parser_reasons b)),
          (''last_batch_chunk_discard_reasons'', JObj (obj_entries (get_or_none (br_diagnostics b) ''chunk_discard_reasons''))),
          (''last_batch_embedding_failures'', JInt embedding_failures)] d))"

definition merge_batch_diagnostics ::
  "json dict \<Rightarrow> batch_result \<Rightarrow> int \<Rightarrow> (string \<times> string option) list \<Rightarrow> json dict result" where
  "merge_batch_diagnostics diagnostics b error_count versions =
     (let bd = br_diagnostics b; counts = (\<lambda>d. map (\<lambda>(k, n). (k, JInt n)) d) in
      rbind (last_batch b error_count (fold set_present versions diagnostics)) (\<lambda>d.
      rbind (bump ''documents_created'' (br_created b) d) (\<lambda>d.
      rbind (bump ''documents_updated'' (br_updated b) d) (\<lambda>d.
      rbind (bump ''skipped_unchanged'' (br_skipped_unchanged b) d) (\<lambda>d.
      rbind (bump ''skipped_invalid'' (br_skipped_invalid b) d) (\<lambda>d.
      rbind (bump ''error_count'' error_count d) (\<lambda>d.
      rbind (merge_key ''parser_error_reasons'' (parser_reasons b) d) (\<lambda>d.
      rbind (json_int_or0 (dict_get_or (JInt error_count) bd ''parser_error_count'')) (\<lambda>parser_error_count.
      rbind (bump ''parser_error_count'' parser_error_count d) (\<lambda>d.
      rbind (merge_key ''chunk_discard_reasons'' (obj_entries (get_or_none bd ''chunk_discard_reasons'')) d) (\<lambda>d.
      rbind (get_int_or0 bd ''embedding_failures'') (\<lambda>embedding_failures.
      rbind (bump ''embedding_failures'' embedding_failures d) (\<lambda>d.
      rbind (merge_key ''source_type_counts'' (counts (br_source_type_counts b)) d) (\<lambda>d.
      rbind (merge_key ''chunk_type_counts'' (counts (br_chunk_type_counts b)) d) (\<lambda>d.
      Inr (dict_set ''embedding_backend'' (opt_json (br_embedding_backend b))
        (dict_set ''warnings'' (JList (map JStr (br_warnings b))) d)))))))))))))))))"

text \<open>
  \<open>build_source_coverage\<close> on counts of any JSON type: comparing a count that is no number with zero raises.
\<close>

definition json_number :: "json \<Rightarrow> rat result" where
  "json_number v = (case v of
      JInt n \<Rightarrow> Inr (of_int n) | JBool b \<Rightarrow> Inr (if b then 1 else 0) | JFloat r _ \<Rightarrow> Inr r
    | _ \<Rightarrow> Inl (TypeError ''not supported between these types''))"

definition json_coverage :: "json dict \<Rightarrow> json dict \<Rightarrow> json dict result" where
  "json_coverage st ct =
     (let n = (\<lambda>k. json_number (dict_get_or (JInt 0) st k)); warn = (\<lambda>b m. if b then [] else [JStr m]) in
      rbind (n ''logs'') (\<lambda>logs. rbind (n ''code'') (\<lambda>code. rbind (n ''deploy'') (\<lambda>deploys.
      rbind (n ''incident'') (\<lambda>incidents. rbind (n ''api_doc'') (\<lambda>api_docs. rbind (n ''runbook'') (\<lambda>runbooks.
      Inr [(''has_logs'', JBool (logs > 0)), (''has_code'', JBool (code > 0)), (''has_deploys'', JBool (deploys > 0)),
           (''has_incidents'', JBool (incidents > 0)), (''has_runbooks'', JBool (runbooks + api_docs > 0)),
           (''has_api_docs'', JBool (api_docs > 0)), (''source_type_counts'', JObj st), (''chunk_type_counts'', JObj ct),
           (''warnings'', JList (warn (logs > 0) ''No logs found. Runtime symptom analysis may be weak.''
             @ warn (code > 0) ''No code found. Code-path and diff reasoning will be limited.''
             @ warn (deploys > 0) ''No deploy history found. Deploy-regression investigations may be weak.''
             @ warn (incidents > 0) ''No previous incidents found. Similar-incident lookup unavailable.''
             @ warn (runbooks + api_docs > 0) ''No runbooks or API docs found. Ownership and remediation guidance may be weak.''))])))))))"

text \<open>\<open>_normalize_coverage\<close>: the reported coverage over the computed one.\<close>

definition object_or :: "string \<Rightarrow> json \<Rightarrow> json dict result" where
  "object_or k v = (case v of JObj d \<Rightarrow> Inr d | _ \<Rightarrow> Inl (OtherError ''AttributeError'' (''no attribute '' @ k)))"

definition normalize_coverage :: "json dict \<Rightarrow> json dict \<Rightarrow> json dict result" where
  "normalize_coverage coverage diagnostics =
     (let pick = (\<lambda>k. let v = get_or_none coverage k in if truthy v then v else dict_get_or (JObj []) diagnostics k);
          source_counts = pick ''source_type_counts''; chunk_counts = pick ''chunk_type_counts'' in
      rbind (object_or ''get'' source_counts) (\<lambda>st.
      rbind (dict_of_json chunk_counts) (\<lambda>ct.
      rbind (json_coverage st ct) (\<lambda>computed.
      Inr (dict_set ''chunk_type_counts'' chunk_counts (dict_set ''source_type_counts'' source_counts
             (dict_update computed coverage)))))))"

section \<open>Looking up and access\<close>

record source_env =
  se_index :: index_env
  se_now :: time
  se_iso :: "time \<Rightarrow> string"    \<comment> \<open>\<open>isoformat()\<close>\<close>
  se_json_time :: "time \<Rightarrow> string"    \<comment> \<open>a time in \<open>model_dump(mode="json")\<close>\<close>
  se_uuid :: "uid \<Rightarrow> string"    \<comment> \<open>the text of an identifier in JSON\<close>
  se_md5 :: "string \<Rightarrow> string"

definition source_http :: "source_env \<Rightarrow> http_reply service" where
  "source_http env = ie_http (se_index env)"

definition require_source :: "uid \<Rightarrow> source_row dbact" where
  "require_source sid = bind_act (query (\<lambda>d. row_with src_id sid (sources d))) (\<lambda>r.
     case r of None \<Rightarrow> raise (HTTPException 404 ''Source not found'') | Some r \<Rightarrow> ret r)"

definition require_sync :: "uid \<Rightarrow> uid \<Rightarrow> sync_row dbact" where
  "require_sync yid sid = bind_act (query (\<lambda>d. find (\<lambda>y. sync_id y = yid \<and> sync_source_id y = sid) (source_syncs d))) (\<lambda>y.
     case y of None \<Rightarrow> raise (HTTPException 404 ''Sync not found for source'') | Some y \<Rightarrow> ret y)"

definition validate_collector :: "time \<Rightarrow> uid \<Rightarrow> uid option \<Rightarrow> collector_row option dbact" where
  "validate_collector now pid collector = (case collector of
      None \<Rightarrow> ret None
    | Some cid \<Rightarrow> bind_act (query (\<lambda>d. find (\<lambda>c. coll_id c = cid \<and> coll_project_id c = pid) (collectors d))) (\<lambda>c.
        case c of
          None \<Rightarrow> raise (HTTPException 404 ''Collector not found for project'')
        | Some c \<Rightarrow> then_act (change (edit_row collectors_update coll_id cid (\<lambda>c. c\<lparr>coll_last_seen_at := Some now\<rparr>)))
            (ret (Some (c\<lparr>coll_last_seen_at := Some now\<rparr>)))))"

definition validate_sync_collector :: "sync_row \<Rightarrow> uid option \<Rightarrow> unit result" where
  "validate_sync_collector y collector = (case (sync_collector_id y, collector) of
      (Some c, Some c') \<Rightarrow> if c \<noteq> c' then Inl (HTTPException 400 ''collector does not match sync'') else Inr ()
    | _ \<Rightarrow> Inr ())"

definition enforce_json_size :: "json dict \<Rightarrow> int \<Rightarrow> string \<Rightarrow> unit result" where
  "enforce_json_size payload max_bytes what =
     (if int (utf8_len (json_dumps '', '' '': '' (JObj payload))) > max_bytes
      then Inl (HTTPException 413 (what @ '' exceeds configured size limit'')) else Inr ())"

text \<open>The two role checks at the head of the administrative handlers.\<close>

definition require_project_admin :: "settings \<Rightarrow> time \<Rightarrow> uid \<Rightarrow> user_row \<Rightarrow> unit dbact" where
  "require_project_admin cfg now pid user =
     then_act (ensure_project_access cfg now pid (Some user) RoleAdmin)
       (then_act (require_project_role now pid (user_id user) RoleAdmin) (ret ()))"

definition source_of_project :: "uid \<Rightarrow> uid \<Rightarrow> source_row dbact" where
  "source_of_project pid sid = bind_act (require_source sid) (\<lambda>r.
     then_act (guard_act (src_project_id r = pid) (HTTPException 404 ''Source not found for project'')) (ret r))"

definition audit_of :: "request_info \<Rightarrow> user_row \<Rightarrow> uid \<Rightarrow> string \<Rightarrow> uid \<Rightarrow> json dict \<Rightarrow> audit_args" where
  "audit_of request user pid resource_type resource metadata =
     audit_defaults\<lparr>aa_project_id := Some pid, aa_user := Some user, aa_resource_type := Some resource_type,
       aa_resource_id := Some (uid_str resource), aa_request := Some request, aa_metadata := metadata\<rparr>"

section \<open>Sources\<close>

definition new_source :: "time \<Rightarrow> uid \<Rightarrow> source_request \<Rightarrow> uid \<Rightarrow> source_row" where
  "new_source now pid body i =
     \<lparr>src_id = i, src_project_id = pid, src_name = sq_name body, src_source_type = sq_source_type body,
      src_status = ''created'', src_sync_mode = sq_sync_mode body, src_source_uri = None,
      src_config_json = Some (sq_config body), src_credentials_ref = None, src_version_hash = None,
      src_last_sync_started_at = None, src_last_sync_finished_at = None, src_last_sync_status = None,
      src_last_error = None, src_created_at = now, src_updated_at = now, src_ingested_at = now\<rparr>"

definition same_source :: "uid \<Rightarrow> source_request \<Rightarrow> source_row \<Rightarrow> bool" where
  "same_source pid body r \<longleftrightarrow> src_project_id r = pid \<and> src_name r = sq_name body \<and> src_source_type r = sq_source_type body"

definition create_source :: "source_env \<Rightarrow> settings \<Rightarrow> request_info \<Rightarrow> user_row \<Rightarrow> uid \<Rightarrow> source_request \<Rightarrow> source_response dbact" where
  "create_source env cfg request user pid body =
     then_act (require_project_admin cfg (se_now env) pid user)
     (then_act (guard_act (find_source_config_secret_violations (sq_config body) = [])
        (HTTPException 400 ''config contains raw secret material; use credentials_ref''))
     (bind_act (query (\<lambda>d. sort_key src_created_at (filter (same_source pid body) (sources d)))) (\<lambda>existing.
      case existing of
        r # _ \<Rightarrow> ret (source_response_of r)
      | [] \<Rightarrow> bind_act (query next_id) (\<lambda>i.
          then_act (change (add_row sources_update (new_source (se_now env) pid body)))
         (then_act (record_audit_event (se_now env) ''source_created'' ''success''
            (audit_of request user pid ''source'' i
               [(''source_type'', JStr (sq_source_type body)), (''sync_mode'', JStr (sq_sync_mode body))]))
         (then_act commit (ret (source_response_of (new_source (se_now env) pid body i)))))))))"

definition list_sources :: "settings \<Rightarrow> time \<Rightarrow> user_row option \<Rightarrow> uid \<Rightarrow> source_response list dbact" where
  "list_sources cfg now user pid =
     then_act (ensure_project_access cfg now pid user RoleViewer)
       (query (\<lambda>d. map source_response_of (sort_key src_created_at (filter (\<lambda>r. src_project_id r = pid) (sources d)))))"

definition count_rows :: "('r \<Rightarrow> bool) \<Rightarrow> 'r list \<Rightarrow> int" where
  "count_rows P rs = int (length (filter P rs))"

definition source_chunk_ids :: "uid \<Rightarrow> db \<Rightarrow> uid list" where
  "source_chunk_ids sid d = map chunk_id (filter (\<lambda>c. chunk_source_id c = Some sid) (chunks d))"

definition delete_counts :: "uid \<Rightarrow> db \<Rightarrow> int dict" where
  "delete_counts sid d =
     [(''documents'', count_rows (\<lambda>r. doc_source_id r = Some sid) (documents d)),
      (''chunks'', count_rows (\<lambda>c. chunk_source_id c = Some sid) (chunks d)),
      (''syncs'', count_rows (\<lambda>y. sync_source_id y = sid) (source_syncs d)),
      (''retrieval_results'', count_rows (\<lambda>r. rres_chunk_id r \<in> set (source_chunk_ids sid d)) (retrieval_results d))]"

text \<open>The five delete statements, with the cascades of the foreign keys.\<close>

definition purge_source :: "uid \<Rightarrow> uid \<Rightarrow> db \<Rightarrow> db" where
  "purge_source pid sid d =
     delete_sources (\<lambda>r. src_id r = sid \<and> src_project_id r = pid)
       (delete_syncs (\<lambda>y. sync_source_id y = sid)
         (delete_documents (\<lambda>r. doc_source_id r = Some sid)
           (delete_chunks (\<lambda>c. chunk_source_id c = Some sid)
             (drop_rows retrieval_results_update (\<lambda>r. rres_chunk_id r \<in> set (source_chunk_ids sid d)) d))))"

definition delete_source :: "source_env \<Rightarrow> settings \<Rightarrow> request_info \<Rightarrow> user_row \<Rightarrow> uid \<Rightarrow> uid \<Rightarrow> purge_response dbact" where
  "delete_source env cfg request user pid sid =
     then_act (require_project_admin cfg (se_now env) pid user)
     (bind_act (source_of_project pid sid) (\<lambda>source.
      bind_act (query (delete_counts sid)) (\<lambda>counts.
      then_act (try_act (delete_by_filter (source_http env) cfg pid [(''source_id'', uid_str sid)])
          (\<lambda>e. case e of VectorStoreError _ \<Rightarrow> raise (HTTPException 503 ''Vector store deletion failed'') | _ \<Rightarrow> raise e))
     (then_act (change (purge_source pid sid))
     (then_act (record_audit_event (se_now env) ''source_deleted'' ''success''
        (audit_of request user pid ''source'' sid
           [(''source_id'', JStr (uid_str sid)), (''source_name'', JStr (src_name source)), (''delete_counts'', counts_json counts)]))
     (then_act commit
     (then_act (invalidate_project cfg pid)
        (ret \<lparr>pr_deleted = True, pr_resource_type = ''source'', pr_resource_id = sid, pr_counts = counts\<rparr>))))))))"

section \<open>Refresh and integrity\<close>

text \<open>A \<open>GROUP BY\<close> over one column, as a dictionary; groups whose keys print alike overwrite each other.\<close>

definition group_counts :: "('k \<Rightarrow> string) \<Rightarrow> 'k list \<Rightarrow> int dict" where
  "group_counts show ks = fold (\<lambda>k. dict_set (show k) (int (count_list ks k))) (remdups ks) []"

definition source_type_counts :: "uid \<Rightarrow> uid \<Rightarrow> db \<Rightarrow> int dict" where
  "source_type_counts pid sid d = group_counts (\<lambda>t. if opt_str t \<noteq> [] then opt_str t else ''unknown_text'')
     (map doc_source_type (filter (\<lambda>r. doc_project_id r = pid \<and> doc_source_id r = Some sid) (documents d)))"

definition chunk_type_counts :: "uid \<Rightarrow> uid \<Rightarrow> db \<Rightarrow> int dict" where
  "chunk_type_counts pid sid d = group_counts (\<lambda>t. if t \<noteq> [] then t else ''unknown'')
     (map chunk_chunk_type (filter (\<lambda>c. chunk_project_id c = pid \<and> chunk_source_id c = Some sid) (chunks d)))"

definition latest_sync_for_source :: "uid \<Rightarrow> db \<Rightarrow> sync_row option" where
  "latest_sync_for_source sid d = (case latest sync_started_at 1 (filter (\<lambda>y. sync_source_id y = sid) (source_syncs d)) of
      [] \<Rightarrow> None | y # _ \<Rightarrow> Some y)"

definition reindex_source :: "source_env \<Rightarrow> settings \<Rightarrow> request_info \<Rightarrow> user_row \<Rightarrow> uid \<Rightarrow> uid \<Rightarrow> reindex_response dbact" where
  "reindex_source env cfg request user pid sid =
     (let now = se_now env; mine = (\<lambda>c. chunk_project_id c = pid \<and> chunk_source_id c = Some sid) in
      then_act (require_project_admin cfg now pid user)
      (then_act (source_of_project pid sid)
      (bind_act (query (\<lambda>d. count_rows (\<lambda>r. doc_project_id r = pid \<and> doc_source_id r = Some sid) (documents d))) (\<lambda>docs.
       bind_act (query (\<lambda>d. count_rows mine (chunks d))) (\<lambda>cs.
       then_act (change (edit_rows chunks_update mine
           (\<lambda>c. c\<lparr>chunk_search_tsvector := Some (ie_tsvector (se_index env) (chunk_text c))\<rparr>)))
      (bind_act (query (source_type_counts pid sid)) (\<lambda>stc.
       bind_act (query (chunk_type_counts pid sid)) (\<lambda>ctc.
       bind_act (query (latest_sync_for_source sid)) (\<lambda>latest_sync.
       let diagnostics = [(''reindex_mode'', JStr ''refresh_existing_chunks''), (''documents_reindexed'', JInt docs),
             (''chunks_reindexed'', JInt cs), (''chunks_created'', JInt 0), (''source_type_counts'', counts_json stc),
             (''chunk_type_counts'', counts_json ctc), (''reindexed_at'', JStr (se_iso env now))] in
       then_act (case latest_sync of
           None \<Rightarrow> ret ()
         | Some y \<Rightarrow> change (edit_row source_syncs_update sync_id (sync_id y) (\<lambda>y. y\<lparr>
             sync_diagnostics_json := Some (dict_set ''last_reindex'' (JObj diagnostics) (or_empty (sync_diagnostics_json y))),
             sync_coverage_json := Some (coverage_json (build_source_coverage stc ctc))\<rparr>)))
      (then_act (record_audit_event now ''source_reindexed'' ''success''
         (audit_of request user pid ''source'' sid
            [(''source_id'', JStr (uid_str sid)), (''documents_reindexed'', JInt docs), (''chunks_reindexed'', JInt cs),
             (''chunks_created'', JInt 0)]))
      (then_act (record_operational_event now pid None ''indexing'' ''source_reindex_refreshed'' ''info''
         [(''source_id'', JStr (uid_str sid)), (''reindex_mode'', JStr ''refresh_existing_chunks''),
          (''documents_reindexed'', JInt docs), (''chunks_reindexed'', JInt cs)])
      (then_act commit
      (then_act (invalidate_project cfg pid)
         (ret \<lparr>rx_source_id = sid, rx_documents_reindexed = docs, rx_chunks_reindexed = cs, rx_chunks_created = 0,
               rx_diagnostics = diagnostics\<rparr>))))))))))))))"

definition duplicate_key :: "source_env \<Rightarrow> chunk_row \<Rightarrow> uid \<times> string \<times> int option \<times> int option \<times> string" where
  "duplicate_key env c = (chunk_document_id c, chunk_chunk_type c, chunk_start_line c, chunk_end_line c, se_md5 env (chunk_text c))"

text \<open>The number of rows of every group with more than one row.\<close>

definition duplicate_groups :: "source_env \<Rightarrow> uid \<Rightarrow> uid \<Rightarrow> db \<Rightarrow> int list" where
  "duplicate_groups env pid sid d =
     (let ks = map (duplicate_key env) (filter (\<lambda>c. chunk_project_id c = pid \<and> chunk_source_id c = Some sid) (chunks d))
      in filter (\<lambda>n. n > 1) (map (\<lambda>k. int (count_list ks k)) (remdups ks)))"

definition source_integrity :: "source_env \<Rightarrow> settings \<Rightarrow> user_row option \<Rightarrow> uid \<Rightarrow> uid \<Rightarrow> integrity_response dbact" where
  "source_integrity env cfg user pid sid =
     then_act (ensure_project_access cfg (se_now env) pid user RoleViewer)
     (then_act (source_of_project pid sid)
     (query (\<lambda>d. \<lparr>ir_source_id = sid,
        ir_document_count = count_rows (\<lambda>r. doc_project_id r = pid \<and> doc_source_id r = Some sid) (documents d),
        ir_chunk_count = count_rows (\<lambda>c. chunk_project_id c = pid \<and> chunk_source_id c = Some sid) (chunks d),
        ir_duplicate_chunk_groups = int (length (duplicate_groups env pid sid d)),
        ir_duplicate_chunk_rows = sum_list (duplicate_groups env pid sid d),
        ir_active_index_version = vector_index_version cfg\<rparr>)))"

section \<open>Collectors\<close>

text \<open>The unique constraint does not see two missing environments as equal.\<close>

definition conflicting_collector :: "uid \<Rightarrow> collector_request \<Rightarrow> collector_row \<Rightarrow> bool" where
  "conflicting_collector pid body c \<longleftrightarrow> cq_environment body \<noteq> None
     \<and> coll_project_id c = pid \<and> coll_name c = cq_name body \<and> coll_environment c = cq_environment body"

definition new_collector :: "time \<Rightarrow> uid \<Rightarrow> collector_request \<Rightarrow> uid \<Rightarrow> collector_row" where
  "new_collector now pid body i =
     \<lparr>coll_id = i, coll_project_id = pid, coll_name = cq_name body, coll_environment = cq_environment body,
      coll_version = cq_version body, coll_status = ''active'', coll_last_seen_at = Some now, coll_created_at = now,
      coll_updated_at = now\<rparr>"

definition upsert_collector :: "time \<Rightarrow> uid \<Rightarrow> collector_request \<Rightarrow> uid dbact" where
  "upsert_collector now pid body = bind_act (query (\<lambda>d. find (conflicting_collector pid body) (collectors d))) (\<lambda>found.
     case found of
       Some c \<Rightarrow> then_act (change (edit_row collectors_update coll_id (coll_id c)
           (\<lambda>c. c\<lparr>coll_version := cq_version body, coll_status := ''active'', coll_last_seen_at := Some now, coll_updated_at := now\<rparr>)))
         (ret (coll_id c))
     | None \<Rightarrow> bind_act (query next_id) (\<lambda>i.
         then_act (change (add_row collectors_update (new_collector now pid body))) (ret i)))"

definition register_collector ::
  "source_env \<Rightarrow> settings \<Rightarrow> request_info \<Rightarrow> user_row \<Rightarrow> uid \<Rightarrow> collector_request \<Rightarrow> (uid \<times> string) dbact" where
  "register_collector env cfg request user pid body =
     then_act (require_project_admin cfg (se_now env) pid user)
     (bind_act (upsert_collector (se_now env) pid body) (\<lambda>cid.
      then_act (record_audit_event (se_now env) ''collector_registered'' ''success''
        (audit_of request user pid ''collector'' cid
           [(''name'', JStr (cq_name body)), (''environment'', opt_json (cq_environment body)), (''version'', opt_json (cq_version body))]))
     (then_act commit (ret (cid, ''active'')))))"

section \<open>The start of a sync\<close>

definition sync_statuses :: "string list" where
  "sync_statuses = [''running'', ''success'', ''partial_success'', ''failed'', ''cancelled'']"

definition new_sync :: "time \<Rightarrow> source_row \<Rightarrow> collector_row option \<Rightarrow> json dict \<Rightarrow> int \<Rightarrow> uid \<Rightarrow> sync_row" where
  "new_sync now r c diagnostics files_seen i =
     \<lparr>sync_id = i, sync_project_id = src_project_id r, sync_source_id = src_id r,
      sync_collector_id = map_option coll_id c, sync_status = ''running'', sync_started_at = now, sync_finished_at = None,
      sync_files_seen = files_seen, sync_documents_received = 0, sync_chunks_created = 0, sync_files_skipped = 0,
      sync_parser_errors = 0, sync_coverage_json = Some [], sync_diagnostics_json = Some diagnostics,
      sync_error_message = None\<rparr>"

definition set_source :: "uid \<Rightarrow> (source_row \<Rightarrow> source_row) \<Rightarrow> unit dbact" where
  "set_source sid f = change (edit_row sources_update src_id sid f)"

definition set_sync :: "uid \<Rightarrow> (sync_row \<Rightarrow> sync_row) \<Rightarrow> unit dbact" where
  "set_sync yid f = change (edit_row source_syncs_update sync_id yid f)"

definition start_sync ::
  "source_env \<Rightarrow> settings \<Rightarrow> request_info \<Rightarrow> user_row \<Rightarrow> uid \<Rightarrow> sync_start_request \<Rightarrow> (uid \<times> string) dbact" where
  "start_sync env cfg request user sid body =
     (let now = se_now env in
      bind_act (require_source sid) (\<lambda>r.
      then_act (require_project_role now (src_project_id r) (user_id user) RoleAdmin)
     (then_act (lift_result (enforce_json_size (yq_diagnostics body) (max_sync_diagnostics_bytes cfg) ''sync diagnostics''))
     (bind_act (validate_collector now (src_project_id r) (yq_collector_id body)) (\<lambda>c.
      bind_act (lift_result (get_int_or0 (yq_diagnostics body) ''total_files_seen'')) (\<lambda>files_seen.
      bind_act (query next_id) (\<lambda>yid.
      then_act (change (add_row source_syncs_update (new_sync now r c (yq_diagnostics body) files_seen)))
     (then_act (set_source sid (\<lambda>r. r\<lparr>src_status := ''syncing'', src_last_sync_started_at := Some now,
          src_last_sync_status := Some ''running'', src_last_error := None\<rparr>))
     (then_act (record_audit_event now ''sync_started'' ''success'' (audit_of request user (src_project_id r) ''source_sync'' yid
          [(''source_id'', JStr (uid_str sid)),
           (''collector_id'', case c of None \<Rightarrow> JNull | Some c \<Rightarrow> JStr (uid_str (coll_id c)))]))
     (then_act commit (ret (yid, ''running''))))))))))))"

section \<open>A batch of documents\<close>

definition document_dump :: "(time \<Rightarrow> string) \<Rightarrow> normalized_document \<Rightarrow> json dict" where
  "document_dump show nd =
     [(''external_id'', JStr (nd_external_id nd)), (''path'', JStr (nd_path nd)), (''source_type'', JStr (nd_source_type nd)),
      (''content'', JStr (nd_content nd)), (''content_hash'', JStr (nd_content_hash nd)), (''metadata'', JObj (nd_metadata nd)),
      (''size_bytes'', case nd_size_bytes nd of None \<Rightarrow> JNull | Some n \<Rightarrow> JInt n),
      (''modified_at'', case nd_modified_at nd of None \<Rightarrow> JNull | Some t \<Rightarrow> JStr (show t))]"

definition batch_dump :: "source_env \<Rightarrow> batch_request \<Rightarrow> json" where
  "batch_dump env b =
     JObj [(''sync_id'', JStr (se_uuid env (bq_sync_id b))),
       (''collector_id'', case bq_collector_id b of None \<Rightarrow> JNull | Some i \<Rightarrow> JStr (se_uuid env i)),
       (''collector_version'', opt_json (bq_collector_version b)), (''schema_version'', opt_json (bq_schema_version b)),
       (''core_api_version'', opt_json (bq_core_api_version b)),
       (''documents'', JList (map (\<lambda>d. JObj (document_dump (se_json_time env) d)) (bq_documents b)))]"

definition duplicate_error :: "normalized_document \<Rightarrow> document_error" where
  "duplicate_error nd = document_failure nd ''duplicate_external_id'' ''duplicate external_id in batch'' ''duplicate external_id in batch''"

fun split_batch :: "settings \<Rightarrow> normalized_document list \<Rightarrow> string list \<Rightarrow> normalized_document list \<times> document_error list" where
  "split_batch cfg [] seen = ([], [])"
| "split_batch cfg (d # ds) seen = (case validate_normalized_document d cfg False of
      Inl e \<Rightarrow> (case split_batch cfg ds seen of (vs, es) \<Rightarrow> (vs, e # es))
    | Inr nd \<Rightarrow>
        if nd_external_id nd \<in> set seen
        then (case split_batch cfg ds seen of (vs, es) \<Rightarrow> (vs, duplicate_error nd # es))
        else (case split_batch cfg ds (nd_external_id nd # seen) of (vs, es) \<Rightarrow> (nd # vs, es)))"

definition new_index_job :: "source_env \<Rightarrow> settings \<Rightarrow> source_row \<Rightarrow> uid \<Rightarrow> normalized_document \<Rightarrow> uid \<Rightarrow> index_job" where
  "new_index_job env cfg r yid nd i =
     \<lparr>job_id = i, job_project_id = src_project_id r, job_source_id = src_id r, job_sync_id = Some yid,
      job_normalized_payload_json = document_dump (se_json_time env) nd, job_content_hash = nd_content_hash nd,
      job_index_version = vector_index_version cfg, job_status = ''pending'', job_attempts = 0, job_error_code = None,
      job_created_at = se_now env, job_queued_at = None, job_started_at = None, job_finished_at = None\<rparr>"

fun add_index_jobs :: "(normalized_document \<Rightarrow> uid \<Rightarrow> index_job) \<Rightarrow> normalized_document list \<Rightarrow> db \<Rightarrow> db" where
  "add_index_jobs mk [] d = d"
| "add_index_jobs mk (nd # nds) d = add_index_jobs mk nds (add_row index_jobs_update (mk nd) d)"

text \<open>Both ways of indexing: the result of the batch and the number of queued jobs.\<close>

definition index_batch :: "source_env \<Rightarrow> settings \<Rightarrow> source_row \<Rightarrow> uid \<Rightarrow> normalized_document list \<Rightarrow> (batch_result \<times> int) dbact" where
  "index_batch env cfg r yid docs =
     (if rag_async_indexing cfg then
        (let (valid, errors) = split_batch cfg docs []; queued = int (length valid) in
         then_act (change (add_index_jobs (new_index_job env cfg r yid) valid))
           (ret ((empty_batch (int (length docs)) (Some (embedding_model cfg)))
              \<lparr>br_skipped_invalid := int (length errors), br_errors := errors,
               br_diagnostics := [(''index_jobs_queued'', JInt queued)]\<rparr>, queued)))
      else bind_act (index_normalized_documents (se_index env) cfg (src_project_id r) (src_id r) docs) (\<lambda>b. ret (b, 0)))"

definition batch_versions :: "batch_request \<Rightarrow> (string \<times> string option) list" where
  "batch_versions body = [(''collector_version'', bq_collector_version body), (''schema_version'', bq_schema_version body),
     (''core_api_version'', bq_core_api_version body)]"

text \<open>The sync's diagnostics and coverage after a batch.\<close>

definition batch_report :: "batch_request \<Rightarrow> sync_row \<Rightarrow> batch_result \<Rightarrow> int \<Rightarrow> (json dict \<times> json dict) result" where
  "batch_report body y b queued =
     rbind (merge_batch_diagnostics (or_empty (sync_diagnostics_json y)) b (int (length (br_errors b))) (batch_versions body)) (\<lambda>d.
     rbind (bump ''index_jobs_queued'' queued d) (\<lambda>diagnostics.
     rbind (json_coverage (obj_entries (dict_get_or (JObj []) diagnostics ''source_type_counts''))
              (obj_entries (dict_get_or (JObj []) diagnostics ''chunk_type_counts''))) (\<lambda>coverage.
     Inr (diagnostics, coverage))))"

definition batch_payload :: "uid \<Rightarrow> int \<Rightarrow> batch_result \<Rightarrow> json dict" where
  "batch_payload yid received b =
     [(''sync_id'', JStr (uid_str yid)), (''received'', JInt received), (''created'', JInt (br_created b)),
      (''updated'', JInt (br_updated b)), (''skipped_unchanged'', JInt (br_skipped_unchanged b)),
      (''skipped_invalid'', JInt (br_skipped_invalid b)), (''chunks_created'', JInt (br_chunks_created b))]"

definition record_batch :: "source_env \<Rightarrow> settings \<Rightarrow> request_info \<Rightarrow> user_row \<Rightarrow> source_row \<Rightarrow> uid \<Rightarrow> int \<Rightarrow> batch_result \<Rightarrow> int \<Rightarrow> unit dbact" where
  "record_batch env cfg request user r yid received b queued =
     (let now = se_now env; n = int (length (br_errors b)); base = batch_payload yid received b in
      bind_act (lift_result (get_int_or0 (br_diagnostics b) ''embedding_failures'')) (\<lambda>embedding_failures.
      then_act (record_operational_event now (src_project_id r) None ''ingestion'' ''documents_batch_completed''
          (if n \<noteq> 0 then ''medium'' else ''info'')
          ((''source_id'', JStr (uid_str (src_id r))) # base @
           [(''parser_error_count'', JInt n), (''embedding_failures'', JInt embedding_failures),
            (''async_indexing'', JBool (rag_async_indexing cfg)), (''index_jobs_queued'', JInt queued)]))
      (then_act (record_audit_event now ''documents_batch_ingested'' (if n = 0 then ''success'' else ''partial'')
          (audit_of request user (src_project_id r) ''source'' (src_id r)
             (base @ [(''error_count'', JInt n), (''index_jobs_queued'', JInt queued)])))
        (when_act (n \<noteq> 0) (record_audit_event now ''documents_batch_partially_failed'' ''partial''
           (audit_of request user (src_project_id r) ''source'' (src_id r) (base @ [(''error_count'', JInt n)])))))))"

text \<open>The checks before a batch is indexed; \<open>verdict\<close> is the rate limiter's answer.\<close>

definition admit_batch ::
  "source_env \<Rightarrow> settings \<Rightarrow> unit result \<Rightarrow> user_row \<Rightarrow> uid \<Rightarrow> batch_request \<Rightarrow> (source_row \<times> sync_row) dbact" where
  "admit_batch env cfg verdict user sid body =
     (let now = se_now env in
      bind_act (require_source sid) (\<lambda>r.
      then_act (require_project_role now (src_project_id r) (user_id user) RoleAdmin)
     (then_act (check_rate_limit cfg now verdict (''batch_ingest:'' @ uid_str (user_id user))
         (collector_batch_request_limit cfg) (Some user) (Some (src_project_id r)) ''documents_batch_ingest'')
     (bind_act (require_sync (bq_sync_id body) sid) (\<lambda>y.
      then_act (validate_collector now (src_project_id r) (bq_collector_id body))
     (then_act (lift_result (validate_sync_collector y (bq_collector_id body)))
     (then_act (when_act (sync_collector_id y = None \<and> bq_collector_id body \<noteq> None)
         (set_sync (sync_id y) (\<lambda>y. y\<lparr>sync_collector_id := bq_collector_id body\<rparr>)))
     (then_act (guard_act (int (length (bq_documents body)) \<le> max_documents_per_batch cfg)
         (HTTPException 413 ''document batch exceeds configured count limit''))
     (then_act (guard_act (int (safe_json_size (batch_dump env body)) \<le> max_batch_bytes cfg)
         (HTTPException 413 ''document batch exceeds configured byte limit''))
       (ret (r, y)))))))))))"

text \<open>After the indexing: the sync's totals, the source's status, the events and the answer.\<close>

definition batch_answer :: "batch_request \<Rightarrow> batch_result \<Rightarrow> json dict \<Rightarrow> json dict \<Rightarrow> batch_response" where
  "batch_answer body b diagnostics coverage =
     \<lparr>bp_received = int (length (bq_documents body)), bp_created = br_created b, bp_updated = br_updated b,
      bp_skipped_unchanged = br_skipped_unchanged b, bp_skipped_invalid = br_skipped_invalid b,
      bp_chunks_created = br_chunks_created b, bp_errors = br_errors b, bp_diagnostics = diagnostics,
      bp_coverage = coverage, bp_embedding_backend = br_embedding_backend b, bp_warnings = br_warnings b\<rparr>"

definition close_batch ::
  "source_env \<Rightarrow> settings \<Rightarrow> request_info \<Rightarrow> user_row \<Rightarrow> batch_request \<Rightarrow> source_row \<Rightarrow> sync_row \<Rightarrow> batch_result \<Rightarrow> int \<Rightarrow> batch_response dbact" where
  "close_batch env cfg request user body r y b queued =
     (let received = int (length (bq_documents body)); n = int (length (br_errors b)) in
     bind_act (lift_result (batch_report body y b queued)) (\<lambda>(diagnostics, coverage).
     then_act (set_sync (sync_id y) (\<lambda>y. y\<lparr>sync_documents_received := sync_documents_received y + received,
         sync_chunks_created := sync_chunks_created y + br_chunks_created b,
         sync_parser_errors := sync_parser_errors y + n,
         sync_diagnostics_json := Some diagnostics, sync_coverage_json := Some coverage\<rparr>))
    (then_act (when_act (n \<noteq> 0 \<and> sync_status y = ''running'')
         (set_source (src_id r) (\<lambda>r. r\<lparr>src_last_sync_status := Some ''running_with_errors''\<rparr>)))
    (then_act (record_batch env cfg request user r (sync_id y) received b queued)
    (then_act commit (ret (batch_answer body b diagnostics coverage)))))))"

definition ingest_documents_batch ::
  "source_env \<Rightarrow> settings \<Rightarrow> unit result \<Rightarrow> request_info \<Rightarrow> user_row \<Rightarrow> uid \<Rightarrow> batch_request \<Rightarrow> batch_response dbact" where
  "ingest_documents_batch env cfg verdict request user sid body =
     bind_act (admit_batch env cfg verdict user sid body) (\<lambda>(r, y).
     bind_act (index_batch env cfg r (sync_id y) (bq_documents body)) (\<lambda>(b, queued).
     close_batch env cfg request user body r y b queued))"

section \<open>The end of a sync\<close>

definition effective_status :: "string \<Rightarrow> int \<Rightarrow> int \<Rightarrow> int \<Rightarrow> string" where
  "effective_status reported sync_errors parser_errors error_count =
     (if reported = ''success'' \<and> (sync_errors > 0 \<or> parser_errors > 0 \<or> error_count > 0)
      then ''partial_success'' else reported)"

text \<open>The row of the sync at its end. The database refuses an error message that is no text.\<close>

definition finished_sync :: "time \<Rightarrow> sync_finish_request \<Rightarrow> sync_row \<Rightarrow> sync_row result" where
  "finished_sync now body y =
     (let diagnostics = dict_update (or_empty (sync_diagnostics_json y)) (fq_diagnostics body);
          number = (\<lambda>k n. json_int_or0 (dict_get_or (JInt n) diagnostics k)) in
      rbind (number ''parser_errors'' (sync_parser_errors y)) (\<lambda>n1.
      rbind (number ''parser_error_count'' 0) (\<lambda>n2.
      rbind (number ''error_count'' 0) (\<lambda>error_count.
      let parser_errors = max (sync_parser_errors y) (max n1 n2);
          st = effective_status (fq_status body) (sync_parser_errors y) parser_errors error_count in
      rbind (normalize_coverage (if fq_coverage body \<noteq> [] then fq_coverage body else or_empty (sync_coverage_json y)) diagnostics)
        (\<lambda>coverage.
      rbind (number ''files_seen'' (sync_files_seen y)) (\<lambda>files_seen.
      rbind (number ''files_skipped'' (sync_files_skipped y)) (\<lambda>files_skipped.
      let message = json_or (get_or_none diagnostics ''error_message'')
            (if st = ''failed'' \<or> st = ''cancelled'' then JStr st else JNull) in
      if \<not> is_text_column message then Inl (OtherError ''DBAPIError'' ''invalid input for query argument'')
      else Inr (y\<lparr>sync_status := st, sync_finished_at := Some now, sync_files_seen := files_seen,
             sync_files_skipped := files_skipped, sync_parser_errors := parser_errors, sync_coverage_json := Some coverage,
             sync_diagnostics_json := Some diagnostics, sync_error_message := text_column message\<rparr>))))))))"

definition open_job_of :: "uid \<Rightarrow> index_job \<Rightarrow> bool" where
  "open_job_of yid j \<longleftrightarrow> job_sync_id j = Some yid \<and> job_status j \<in> set [''pending'', ''queued'', ''running'']"

definition pending_jobs :: "settings \<Rightarrow> uid \<Rightarrow> db \<Rightarrow> int" where
  "pending_jobs cfg yid d = (if rag_async_indexing cfg then count_rows (open_job_of yid) (index_jobs d) else 0)"

definition finished_source :: "int \<Rightarrow> sync_row \<Rightarrow> source_row \<Rightarrow> source_row" where
  "finished_source pending y r =
     (let good = sync_status y = ''success'' \<or> sync_status y = ''partial_success'' in
      r\<lparr>src_status := (if pending \<noteq> 0 \<and> good then ''indexing'' else if good then ''ready'' else ''error''),
        src_last_sync_started_at := Some (sync_started_at y), src_last_sync_finished_at := sync_finished_at y,
        src_last_sync_status := Some (if pending \<noteq> 0 then ''indexing'' else sync_status y),
        src_last_error := sync_error_message y\<rparr>)"

definition finish_open_sync ::
  "source_env \<Rightarrow> settings \<Rightarrow> request_info \<Rightarrow> user_row \<Rightarrow> source_row \<Rightarrow> sync_row \<Rightarrow> sync_finish_request \<Rightarrow> (uid \<times> string) dbact" where
  "finish_open_sync env cfg request user r y body =
     bind_act (lift_result (finished_sync (se_now env) body y)) (\<lambda>y'.
     then_act (set_sync (sync_id y) (\<lambda>_. y'))
    (bind_act (query (pending_jobs cfg (sync_id y))) (\<lambda>pending.
     then_act (set_source (src_id r) (finished_source pending y'))
    (then_act (record_audit_event (se_now env)
        (if sync_status y' = ''failed'' then ''sync_failed'' else ''sync_finished'') (sync_status y')
        (audit_of request user (src_project_id r) ''source_sync'' (sync_id y)
           [(''source_id'', JStr (uid_str (src_id r))), (''files_seen'', JInt (sync_files_seen y')),
            (''files_skipped'', JInt (sync_files_skipped y')), (''parser_errors'', JInt (sync_parser_errors y'))]))
    (then_act commit (ret (sync_id y, sync_status y')))))))"

text \<open>A repeated report of the same end is answered without writing; a different one is refused.\<close>

definition finish_sync ::
  "source_env \<Rightarrow> settings \<Rightarrow> request_info \<Rightarrow> user_row \<Rightarrow> uid \<Rightarrow> uid \<Rightarrow> sync_finish_request \<Rightarrow> (uid \<times> string) dbact" where
  "finish_sync env cfg request user sid yid body =
     bind_act (require_source sid) (\<lambda>r.
     then_act (require_project_role (se_now env) (src_project_id r) (user_id user) RoleAdmin)
    (then_act (lift_result (enforce_json_size (fq_diagnostics body) (max_sync_diagnostics_bytes cfg) ''sync diagnostics''))
    (then_act (lift_result (enforce_json_size (fq_coverage body) (max_sync_diagnostics_bytes cfg) ''sync coverage''))
    (bind_act (require_sync yid sid) (\<lambda>y.
     if fq_status body \<notin> set sync_statuses \<or> fq_status body = ''running''
     then raise (HTTPException 400 ''invalid sync status'')
     else if sync_finished_at y \<noteq> None then
       (if sync_status y = fq_status body \<or> (sync_status y = ''partial_success'' \<and> fq_status body = ''success'')
        then ret (sync_id y, sync_status y)
        else raise (HTTPException 409 ''sync is already finished''))
     else finish_open_sync env cfg request user r y body)))))"

section \<open>Reading syncs\<close>

definition get_latest_sync :: "settings \<Rightarrow> time \<Rightarrow> user_row option \<Rightarrow> uid \<Rightarrow> sync_response dbact" where
  "get_latest_sync cfg now user sid =
     bind_act (require_source sid) (\<lambda>r.
     then_act (ensure_project_access cfg now (src_project_id r) user RoleViewer)
    (bind_act (query (latest_sync_for_source sid)) (\<lambda>y.
     case y of None \<Rightarrow> raise (HTTPException 404 ''No sync found for source'') | Some y \<Rightarrow> ret (sync_response_of y))))"

definition get_sync :: "settings \<Rightarrow> time \<Rightarrow> user_row option \<Rightarrow> uid \<Rightarrow> sync_response dbact" where
  "get_sync cfg now user yid =
     bind_act (query (\<lambda>d. row_with sync_id yid (source_syncs d))) (\<lambda>y.
     case y of
       None \<Rightarrow> raise (HTTPException 404 ''Sync not found'')
     | Some y \<Rightarrow> then_act (ensure_project_access cfg now (sync_project_id y) user RoleViewer) (ret (sync_response_of y)))"

section \<open>Runs that succeed\<close>

lemma require_source_Inr:
  "require_source sid s = (Inr r, t) \<longleftrightarrow> row_with src_id sid (sources (work s)) = Some r \<and> t = s"
  by (auto simp: require_source_def ret_def raise_def split: option.split)

lemma require_sync_Inr:
  "require_sync yid sid s = (Inr y, t) \<longleftrightarrow>
     find (\<lambda>y. sync_id y = yid \<and> sync_source_id y = sid) (source_syncs (work s)) = Some y \<and> t = s"
  by (auto simp: require_sync_def ret_def raise_def split: option.split)

lemmas run_simps = run_act_simps require_role_Inr require_source_Inr require_sync_Inr

lemma project_admin_Inr:
  assumes "require_project_admin cfg now pid user s = (Inr u, t)"
  shows "t = s" and "project_role_of pid (user_id user) (work s) = Some RoleAdmin"
proof -
  from assms obtain w where a: "ensure_project_access cfg now pid (Some user) RoleAdmin s = (Inr (), w)"
    and r: "\<exists>r. project_role_of pid (user_id user) (work w) = Some r \<and> role_allows r RoleAdmin" and t: "t = w"
    by (auto simp: require_project_admin_def run_simps)
  from a have "w = s" by (auto simp: ensure_project_access_def run_simps split: option.splits if_splits)
  with r t show "t = s" and "project_role_of pid (user_id user) (work s) = Some RoleAdmin"
    by (simp_all add: role_allows_admin)
qed

lemma finished_sync_Inr:
  assumes "finished_sync now body y = Inr y'"
  shows "sync_id y' = sync_id y" and "sync_source_id y' = sync_source_id y" and "sync_finished_at y' = Some now"
    and "sync_started_at y' = sync_started_at y"
  using assms unfolding finished_sync_def Let_def by (auto simp: rbind_Inr_iff split: if_splits)

lemma finish_open_run:
  assumes "finish_open_sync env cfg request user r y body s = (Inr res, t)"
  obtains y' mk where "finished_sync (se_now env) body y = Inr y'" and "res = (sync_id y, sync_status y')"
    and "work t = add_row audit_events_update mk
       (edit_row sources_update src_id (src_id r) (finished_source (pending_jobs cfg (sync_id y)
          (edit_row source_syncs_update sync_id (sync_id y) (\<lambda>_. y') (work s))) y')
         (edit_row source_syncs_update sync_id (sync_id y) (\<lambda>_. y') (work s)))"
    and "committed t = work t"
proof -
  from assms obtain y' w where y': "finished_sync (se_now env) body y = Inr y'" and res: "res = (sync_id y, sync_status y')"
    and run: "record_audit_event (se_now env) (if sync_status y' = ''failed'' then ''sync_failed'' else ''sync_finished'') (sync_status y')
        (audit_of request user (src_project_id r) ''source_sync'' (sync_id y)
           [(''source_id'', JStr (uid_str (src_id r))), (''files_seen'', JInt (sync_files_seen y')),
            (''files_skipped'', JInt (sync_files_skipped y')), (''parser_errors'', JInt (sync_parser_errors y'))])
        (s\<lparr>work := edit_row sources_update src_id (src_id r) (finished_source (pending_jobs cfg (sync_id y)
          (edit_row source_syncs_update sync_id (sync_id y) (\<lambda>_. y') (work s))) y')
         (edit_row source_syncs_update sync_id (sync_id y) (\<lambda>_. y') (work s))\<rparr>) = (Inr (), w)"
    and t: "t = w\<lparr>committed := work w\<rparr>"
    by (auto simp: finish_open_sync_def set_sync_def set_source_def run_simps)
  from run t have "committed t = work t" by simp
  with that [OF y' res _ this] run t show thesis
    by (auto simp: record_audit_run Let_def audit_of_def audit_defaults_def)
qed

lemma find_sync_id: "find (\<lambda>y. sync_id y = yid \<and> sync_source_id y = sid) ys = Some y \<Longrightarrow> sync_id y = yid \<and> sync_source_id y = sid \<and> y \<in> set ys"
  by (auto simp: find_Some_iff)

lemma finish_sync_cases:
  assumes "finish_sync env cfg request user sid yid body s = (Inr res, t)"
  obtains (again) r y where "row_with src_id sid (sources (work s)) = Some r"
      and "find (\<lambda>y. sync_id y = yid \<and> sync_source_id y = sid) (source_syncs (work s)) = Some y"
      and "sync_finished_at y \<noteq> None" and "res = (yid, sync_status y)" and "t = s"
  | (first) r y where "row_with src_id sid (sources (work s)) = Some r"
      and "find (\<lambda>y. sync_id y = yid \<and> sync_source_id y = sid) (source_syncs (work s)) = Some y"
      and "sync_finished_at y = None" and "fq_status body \<in> set sync_statuses" and "fq_status body \<noteq> ''running''"
      and "finish_open_sync env cfg request user r y body s = (Inr res, t)"
proof -
  from assms obtain r y where r: "row_with src_id sid (sources (work s)) = Some r"
    and y: "find (\<lambda>y. sync_id y = yid \<and> sync_source_id y = sid) (source_syncs (work s)) = Some y"
    and run: "(if fq_status body \<notin> set sync_statuses \<or> fq_status body = ''running''
     then raise (HTTPException 400 ''invalid sync status'')
     else if sync_finished_at y \<noteq> None then
       (if sync_status y = fq_status body \<or> (sync_status y = ''partial_success'' \<and> fq_status body = ''success'')
        then ret (sync_id y, sync_status y)
        else raise (HTTPException 409 ''sync is already finished''))
     else finish_open_sync env cfg request user r y body) s = (Inr res, t)"
    unfolding finish_sync_def by (auto simp: run_simps)
  from y have "sync_id y = yid" by (auto dest: find_sync_id)
  with run again [OF r y] first [OF r y] show thesis
    by (cases "sync_finished_at y") (auto simp: run_simps split: if_splits)
qed

lemma find_unique_key:
  assumes "distinct (map key rs)" and "r \<in> set rs" and "P r"
  shows "find (\<lambda>x. key x = key r \<and> P x) rs = Some r"
  using assms
proof (induction rs)
  case (Cons a rs)
  then show ?case by (cases "a = r") auto
qed simp

text \<open>The sync and the source after the end of a sync.\<close>

lemma finish_open_rows:
  assumes "finish_open_sync env cfg request user r y body s = (Inr res, t)" and "db_ok (work s)"
    and "find (\<lambda>y. sync_id y = yid \<and> sync_source_id y = sid) (source_syncs (work s)) = Some y"
    and "row_with src_id sid (sources (work s)) = Some r"
  obtains y' where "finished_sync (se_now env) body y = Inr y'" and "res = (yid, sync_status y')"
    and "find (\<lambda>y. sync_id y = yid \<and> sync_source_id y = sid) (source_syncs (work t)) = Some y'"
    and "row_with src_id sid (sources (work t)) = Some (finished_source (pending_jobs cfg yid (work s)) y' r)"
    and "project_members (work t) = project_members (work s)" and "committed t = work t"
proof -
  from assms(1) obtain y' mk where y': "finished_sync (se_now env) body y = Inr y'" and res: "res = (sync_id y, sync_status y')"
    and w: "work t = add_row audit_events_update mk
       (edit_row sources_update src_id (src_id r) (finished_source (pending_jobs cfg (sync_id y)
          (edit_row source_syncs_update sync_id (sync_id y) (\<lambda>_. y') (work s))) y')
         (edit_row source_syncs_update sync_id (sync_id y) (\<lambda>_. y') (work s)))"
    and c: "committed t = work t" by (rule finish_open_run)
  from assms(3) have y: "sync_id y = yid" "sync_source_id y = sid" "y \<in> set (source_syncs (work s))" by (auto dest: find_sync_id)
  from assms(4) have r: "src_id r = sid" by (auto dest: row_with_Some)
  note keep = finished_sync_Inr [OF y']
  have p: "pending_jobs cfg (sync_id y) (edit_row source_syncs_update sync_id (sync_id y) (\<lambda>_. y') (work s)) = pending_jobs cfg yid (work s)"
    by (simp add: pending_jobs_def edit_row_def edit_rows_def y)
  have ys: "source_syncs (work t) = map (\<lambda>x. if sync_id x = yid then y' else x) (source_syncs (work s))"
    by (simp add: w edit_row_def edit_rows_def add_row_def y)
  have "map sync_id (source_syncs (work t)) = map sync_id (source_syncs (work s))"
    by (simp add: ys keep y)
  then have "distinct (map sync_id (source_syncs (work t)))" using assms(2) by (simp add: db_ok_def keys_ok_def)
  moreover have "y' \<in> set (source_syncs (work t))" using y(1,3) by (auto simp: ys)
  ultimately have "find (\<lambda>x. sync_id x = sync_id y' \<and> sync_source_id x = sid) (source_syncs (work t)) = Some y'"
    by (rule find_unique_key) (simp add: keep y)
  then have f: "find (\<lambda>x. sync_id x = yid \<and> sync_source_id x = sid) (source_syncs (work t)) = Some y'" by (simp add: keep y)
  have "row_with src_id sid (sources (work t)) = Some (finished_source (pending_jobs cfg yid (work s)) y' r)"
  proof -
    have "sources (work t) = map (\<lambda>x. if src_id x = sid then finished_source (pending_jobs cfg yid (work s)) y' x else x) (sources (work s))"
      unfolding w p by (simp add: edit_row_def edit_rows_def add_row_def r)
    then show ?thesis using assms(4) r
      by (simp add: row_with_map [where f = "\<lambda>x. if src_id x = sid then finished_source (pending_jobs cfg yid (work s)) y' x else x"] finished_source_def Let_def)
  qed
  moreover have "project_members (work t) = project_members (work s)" by (simp add: w edit_row_def edit_rows_def add_row_def)
  ultimately show thesis using that [OF y'] res f c y(1) by simp
qed

lemma finish_finished:
  assumes "row_with src_id sid (sources (work t)) = Some r"
    and "find (\<lambda>y. sync_id y = yid \<and> sync_source_id y = sid) (source_syncs (work t)) = Some y"
    and "sync_finished_at y \<noteq> None" and "project_role_of (src_project_id r) (user_id user) (work t) = Some role"
    and "role_allows role RoleAdmin"
  shows "\<exists>x. finish_sync env cfg request user sid yid body t = (x, t) \<and> (\<forall>v. x = Inr v \<longrightarrow> v = (yid, sync_status y))"
proof -
  have "require_source sid t = (Inr r, t)" using assms(1) by (simp add: require_source_Inr)
  moreover have "require_project_role (se_now env) (src_project_id r) (user_id user) RoleAdmin t = (Inr role, t)"
    using assms(4,5) by (simp add: require_role_Inr)
  moreover have "require_sync yid sid t = (Inr y, t)" using assms(2) by (simp add: require_sync_Inr)
  moreover have "sync_id y = yid" using assms(2) by (auto dest: find_sync_id)
  ultimately show ?thesis using assms(3)
    by (cases "enforce_json_size (fq_diagnostics body) (max_sync_diagnostics_bytes cfg) ''sync diagnostics''";
        cases "enforce_json_size (fq_coverage body) (max_sync_diagnostics_bytes cfg) ''sync coverage''")
      (auto simp: finish_sync_def bind_act_def then_act_def lift_result_def raise_def ret_def)
qed


lemma effective_status_cases:
  "effective_status rep a b c = rep \<or> rep = ''success'' \<and> effective_status rep a b c = ''partial_success''"
  "effective_status rep a b c = ''success'' \<Longrightarrow> b \<le> 0 \<and> c \<le> 0"
  by (auto simp: effective_status_def split: if_splits)

lemma finished_sync_D:
  assumes "finished_sync now body y = Inr y'"
  obtains n e where "sync_parser_errors y' = max (sync_parser_errors y) n"
    and "get_int_or0 (or_empty (sync_diagnostics_json y')) ''error_count'' = Inr e"
    and "sync_status y' = effective_status (fq_status body) (sync_parser_errors y) (sync_parser_errors y') e"
  using assms unfolding finished_sync_def Let_def get_int_or0_def
  by (auto simp: rbind_Inr_iff or_empty_def simp del: max_less_iff_conj split: if_split_asm)

lemma finished_sync_status:
  assumes "finished_sync now body y = Inr y'"
  shows "sync_parser_errors y \<le> sync_parser_errors y'"
    and "sync_status y' = fq_status body \<or> fq_status body = ''success'' \<and> sync_status y' = ''partial_success''"
    and "sync_status y' = ''success'' \<Longrightarrow> sync_parser_errors y' \<le> 0
      \<and> (\<exists>n. get_int_or0 (or_empty (sync_diagnostics_json y')) ''error_count'' = Inr n \<and> n \<le> 0)"
proof -
  from assms obtain n e where "sync_parser_errors y' = max (sync_parser_errors y) n"
    and e: "get_int_or0 (or_empty (sync_diagnostics_json y')) ''error_count'' = Inr e"
    and st: "sync_status y' = effective_status (fq_status body) (sync_parser_errors y) (sync_parser_errors y') e"
    by (rule finished_sync_D)
  then show "sync_parser_errors y \<le> sync_parser_errors y'" by simp
  show "sync_status y' = fq_status body \<or> fq_status body = ''success'' \<and> sync_status y' = ''partial_success''"
    unfolding st by (rule effective_status_cases)
  show "sync_status y' = ''success'' \<Longrightarrow> sync_parser_errors y' \<le> 0
      \<and> (\<exists>n. get_int_or0 (or_empty (sync_diagnostics_json y')) ''error_count'' = Inr n \<and> n \<le> 0)"
    using e st effective_status_cases(2) by metis
qed

text \<open>
  The end of a sync is honest: the first report of an end fixes one status, the one reported or partial success
  instead of success; it is success only when neither the batches nor the report know of an error; the count of parser
  errors never goes down, the running state is left, and the source is ready or still indexing after a success, and in
  error after a failure or a cancellation.
\<close>

theorem sync_end_is_honest:
  assumes "finish_sync env cfg request user sid yid body s = (Inr (i, st), t)" and "db_ok (work s)"
    and "find (\<lambda>y. sync_id y = yid \<and> sync_source_id y = sid) (source_syncs (work s)) = Some y" and "sync_finished_at y = None"
  shows "\<exists>y' r. find (\<lambda>y. sync_id y = yid \<and> sync_source_id y = sid) (source_syncs (committed t)) = Some y'
    \<and> row_with src_id sid (sources (committed t)) = Some r
    \<and> i = yid \<and> sync_status y' = st \<and> sync_finished_at y' = Some (se_now env)
    \<and> (st = fq_status body \<or> fq_status body = ''success'' \<and> st = ''partial_success'')
    \<and> st \<in> set [''success'', ''partial_success'', ''failed'', ''cancelled'']
    \<and> sync_parser_errors y \<le> sync_parser_errors y'
    \<and> (st = ''success'' \<longrightarrow> sync_parser_errors y' \<le> 0
         \<and> (\<exists>n. get_int_or0 (or_empty (sync_diagnostics_json y')) ''error_count'' = Inr n \<and> n \<le> 0))
    \<and> src_status r = (if st \<in> set [''failed'', ''cancelled''] then ''error''
         else if pending_jobs cfg yid (work s) = 0 then ''ready'' else ''indexing'')"
  using assms(1)
proof (cases rule: finish_sync_cases)
  case (again r y2)
  with assms(3,4) show ?thesis by simp
next
  case (first r y2)
  with assms(3) have y2: "y2 = y" by simp
  obtain y' where y': "finished_sync (se_now env) body y = Inr y'" "(i, st) = (yid, sync_status y')"
    "find (\<lambda>y. sync_id y = yid \<and> sync_source_id y = sid) (source_syncs (work t)) = Some y'"
    "row_with src_id sid (sources (work t)) = Some (finished_source (pending_jobs cfg yid (work s)) y' r)"
    "project_members (work t) = project_members (work s)" "committed t = work t"
    by (rule finish_open_rows [OF first(6) [unfolded y2] assms(2,3) first(1)])
  note st = finished_sync_status [OF y'(1)]
  have "fq_status body \<in> set [''success'', ''partial_success'', ''failed'', ''cancelled'']"
    using first(4,5) by (auto simp: sync_statuses_def)
  with st(2) have mem: "sync_status y' \<in> set [''success'', ''partial_success'', ''failed'', ''cancelled'']" by auto
  have "src_status (finished_source (pending_jobs cfg yid (work s)) y' r) =
      (if sync_status y' \<in> set [''failed'', ''cancelled''] then ''error''
       else if pending_jobs cfg yid (work s) = 0 then ''ready'' else ''indexing'')"
    using mem by (auto simp: finished_source_def Let_def)
  with mem st y' finished_sync_Inr(3) [OF y'(1)] show ?thesis by auto
qed

section \<open>Deletion\<close>

lemma delete_source_run:
  assumes "delete_source env cfg request user pid sid s = (Inr p, t)"
  obtains r mk where "row_with src_id sid (sources (work s)) = Some r" and "src_project_id r = pid"
    and "committed t = add_row audit_events_update mk (purge_source pid sid (work s))"
    and "pr_counts p = delete_counts sid (work s)"
proof -
  let ?del = "try_act (delete_by_filter (source_http env) cfg pid [(''source_id'', uid_str sid)])
          (\<lambda>e. case e of VectorStoreError _ \<Rightarrow> raise (HTTPException 503 ''Vector store deletion failed'') | _ \<Rightarrow> raise e)"
  from assms obtain w r w2 w3 w4 where w: "require_project_admin cfg (se_now env) pid user s = (Inr (), w)"
    and r: "row_with src_id sid (sources (work w)) = Some r" "src_project_id r = pid"
    and del: "?del w = (Inr (), w2)"
    and aud: "record_audit_event (se_now env) ''source_deleted'' ''success'' (audit_of request user pid ''source'' sid
           [(''source_id'', JStr (uid_str sid)), (''source_name'', JStr (src_name r)), (''delete_counts'', counts_json (delete_counts sid (work w)))])
         (w2\<lparr>work := purge_source pid sid (work w2)\<rparr>) = (Inr (), w3)"
    and inv: "invalidate_project cfg pid (w3\<lparr>committed := work w3\<rparr>) = (Inr (), w4)"
    and t: "t = w4" and c: "pr_counts p = delete_counts sid (work w)"
    by (auto simp: delete_source_def source_of_project_def run_simps)
  from w have ws: "w = s" by (rule project_admin_Inr)
  have "reads_only ?del" by (intro reads_only_try reads_only_delete_by_filter) (auto split: py_exn.split)
  from reads_onlyD [OF this del] have w2: "work w2 = work w" by simp
  have "reads_only (invalidate_project cfg pid)" unfolding invalidate_project_def by auto
  from reads_onlyD [OF this inv] have "committed t = work w3" by (simp add: t)
  with aud show thesis using that [of r] r c ws w2
    by (auto simp: record_audit_run Let_def audit_of_def audit_defaults_def)
qed

text \<open>The chunks that go: those of the source and those of its documents.\<close>

definition purged_chunk :: "uid \<Rightarrow> db \<Rightarrow> chunk_row \<Rightarrow> bool" where
  "purged_chunk sid d c \<longleftrightarrow> chunk_source_id c = Some sid
     \<or> list_ex (\<lambda>r. doc_source_id r = Some sid \<and> chunk_document_id c = doc_id r) (documents d)"

definition purged_ids :: "uid \<Rightarrow> db \<Rightarrow> uid list" where
  "purged_ids sid d = map chunk_id (filter (purged_chunk sid d) (chunks d))"

lemma purge_documents:
  fixes d :: db and sid :: uid
  defines "e \<equiv> delete_documents (\<lambda>r. doc_source_id r = Some sid) (delete_chunks (\<lambda>c. chunk_source_id c = Some sid)
             (drop_rows retrieval_results_update (\<lambda>r. rres_chunk_id r \<in> set (source_chunk_ids sid d)) d))"
  shows "documents e = filter (\<lambda>r. doc_source_id r \<noteq> Some sid) (documents d)"
    and "chunks e = filter (\<lambda>c. \<not> purged_chunk sid d c) (chunks d)"
    and "evidence_relations e = filter (\<lambda>r. rel_evidence_chunk_id r \<notin> set (purged_ids sid d)) (evidence_relations d)"
    and "retrieval_results e = filter (\<lambda>r. rres_chunk_id r \<notin> set (purged_ids sid d)) (retrieval_results d)"
    and "sources e = sources d" and "source_syncs e = source_syncs d" and "index_jobs e = index_jobs d"
  unfolding e_def delete_documents_def delete_chunks_def drop_rows_def Let_def
  by (auto simp: purged_ids_def purged_chunk_def source_chunk_ids_def list_ex_iff image_iff intro!: filter_cong)

lemma purge_tables:
  assumes "distinct (map src_id (sources d))" and "row_with src_id sid (sources d) = Some r" and "src_project_id r = pid"
  shows "sources (purge_source pid sid d) = filter (\<lambda>r. src_id r \<noteq> sid) (sources d)"
    and "documents (purge_source pid sid d) = filter (\<lambda>r. doc_source_id r \<noteq> Some sid) (documents d)"
    and "chunks (purge_source pid sid d) = filter (\<lambda>c. \<not> purged_chunk sid d c) (chunks d)"
    and "source_syncs (purge_source pid sid d) = filter (\<lambda>y. sync_source_id y \<noteq> sid) (source_syncs d)"
    and "map job_id (index_jobs (purge_source pid sid d)) = map job_id (filter (\<lambda>j. job_source_id j \<noteq> sid) (index_jobs d))"
    and "evidence_relations (purge_source pid sid d) = filter (\<lambda>r. rel_evidence_chunk_id r \<notin> set (purged_ids sid d)) (evidence_relations d)"
    and "retrieval_results (purge_source pid sid d) = filter (\<lambda>r. rres_chunk_id r \<notin> set (purged_ids sid d)) (retrieval_results d)"
proof -
  have r: "r \<in> set (sources d)" "src_id r = sid" using assms(2) by (auto dest: row_with_Some)
  have uniq: "src_id x = sid \<and> src_project_id x = pid \<longleftrightarrow> src_id x = sid" if "x \<in> set (sources d)" for x
    using that r assms(1,3) by (auto dest: eq_key_imp_eq_value simp: distinct_map inj_on_def)
  then have flt: "filter (\<lambda>x. src_id x = sid \<and> src_project_id x = pid) (sources d) = filter (\<lambda>x. src_id x = sid) (sources d)"
    by (auto intro: filter_cong)
  have gone: "set (map src_id (filter (\<lambda>x. src_id x = sid \<and> src_project_id x = pid) (sources d))) = {sid}"
    unfolding flt using r by auto
  note defs = purge_source_def delete_sources_def delete_syncs_def drop_rows_def edit_rows_def Let_def
  note docs = purge_documents [of sid d, unfolded drop_rows_def]
  show "sources (purge_source pid sid d) = filter (\<lambda>r. src_id r \<noteq> sid) (sources d)"
    unfolding defs by (simp add: docs) (use uniq in \<open>auto intro: filter_cong\<close>)
  show "documents (purge_source pid sid d) = filter (\<lambda>r. doc_source_id r \<noteq> Some sid) (documents d)"
    unfolding defs by (simp add: docs gone [simplified]) (auto intro!: map_idI)
  show "chunks (purge_source pid sid d) = filter (\<lambda>c. \<not> purged_chunk sid d c) (chunks d)"
    unfolding defs by (simp add: docs gone [simplified]) (auto intro!: map_idI simp: purged_chunk_def)
  show "source_syncs (purge_source pid sid d) = filter (\<lambda>y. sync_source_id y \<noteq> sid) (source_syncs d)"
    unfolding defs by (simp add: docs gone [simplified])
  show "map job_id (index_jobs (purge_source pid sid d)) = map job_id (filter (\<lambda>j. job_source_id j \<noteq> sid) (index_jobs d))"
    unfolding defs by (simp add: docs gone [simplified] filter_map o_def if_distrib [where f = job_source_id] if_distrib [where f = job_id] cong: if_cong)
  show "evidence_relations (purge_source pid sid d) = filter (\<lambda>r. rel_evidence_chunk_id r \<notin> set (purged_ids sid d)) (evidence_relations d)"
    "retrieval_results (purge_source pid sid d) = filter (\<lambda>r. rres_chunk_id r \<notin> set (purged_ids sid d)) (retrieval_results d)"
    unfolding defs by (simp_all add: docs)
qed

text \<open>
  C10. Deleting a source purges it: after a successful deletion the source, its documents, syncs and index jobs, the
  chunks of the source and of its documents, and every relation and retrieval result of those chunks are gone from the
  committed rows, and every other source, document, chunk, sync, job, relation and result is still there; the counts of
  the answer are those of the rows before.
\<close>

theorem source_deletion_purges:
  assumes "delete_source env cfg request user pid sid s = (Inr p, t)" and "db_ok (work s)"
  shows "sources (committed t) = filter (\<lambda>r. src_id r \<noteq> sid) (sources (work s))
    \<and> documents (committed t) = filter (\<lambda>r. doc_source_id r \<noteq> Some sid) (documents (work s))
    \<and> chunks (committed t) = filter (\<lambda>c. \<not> purged_chunk sid (work s) c) (chunks (work s))
    \<and> source_syncs (committed t) = filter (\<lambda>y. sync_source_id y \<noteq> sid) (source_syncs (work s))
    \<and> map job_id (index_jobs (committed t)) = map job_id (filter (\<lambda>j. job_source_id j \<noteq> sid) (index_jobs (work s)))
    \<and> evidence_relations (committed t) = filter (\<lambda>r. rel_evidence_chunk_id r \<notin> set (purged_ids sid (work s))) (evidence_relations (work s))
    \<and> retrieval_results (committed t) = filter (\<lambda>r. rres_chunk_id r \<notin> set (purged_ids sid (work s))) (retrieval_results (work s))
    \<and> pr_counts p = delete_counts sid (work s)"
proof -
  obtain r mk where r: "row_with src_id sid (sources (work s)) = Some r" "src_project_id r = pid"
    and c: "committed t = add_row audit_events_update mk (purge_source pid sid (work s))"
    and n: "pr_counts p = delete_counts sid (work s)" using assms(1) by (rule delete_source_run)
  have "distinct (map src_id (sources (work s)))" using assms(2) by (simp add: db_ok_def keys_ok_def)
  from purge_tables [OF this r] n show ?thesis by (simp add: c add_row_def)
qed

section \<open>Batches\<close>

definition indexed_tables :: "db \<Rightarrow> index_job list \<times> document_row list \<times> chunk_row list" where
  "indexed_tables d = (index_jobs d, documents d, chunks d)"

lemma indexed_tables_simps [simp]:
  "indexed_tables (add_row audit_events_update mk d) = indexed_tables d"
  "indexed_tables (add_row operational_events_update mk' d) = indexed_tables d"
  "indexed_tables (edit_row source_syncs_update k i f d) = indexed_tables d"
  "indexed_tables (edit_row sources_update k' i f' d) = indexed_tables d"
  "indexed_tables (edit_row collectors_update k'' i f'' d) = indexed_tables d"
  by (simp_all add: indexed_tables_def stmt_defs)

lemma admit_keeps: "keeps_table indexed_tables (admit_batch env cfg verdict user sid body)"
  unfolding admit_batch_def Let_def require_source_def require_sync_def validate_collector_def set_sync_def
  by (intro keeps_bind keeps_then keeps_simple keeps_option keeps_when keeps_table_change keeps_role keeps_rate) simp_all

lemma record_batch_keeps: "keeps_table indexed_tables (record_batch env cfg request user r yid received b queued)"
  unfolding record_batch_def Let_def
  by (intro keeps_bind keeps_then keeps_simple keeps_when keeps_op_event keeps_audit_event) simp_all

lemma close_batch_keeps: "keeps_table indexed_tables (close_batch env cfg request user body r y b queued)"
  unfolding close_batch_def Let_def set_sync_def set_source_def
  by (intro keeps_bind keeps_then keeps_simple keeps_when keeps_pair keeps_table_change keeps_table_commit record_batch_keeps) simp_all

lemma close_batch_run:
  assumes "close_batch env cfg request user body r y b queued v = (Inr p, t)"
  obtains diagnostics coverage where "batch_report body y b queued = Inr (diagnostics, coverage)"
    and "p = batch_answer body b diagnostics coverage" and "committed t = work t"
  using assms unfolding close_batch_def Let_def by (auto simp: run_simps)

lemma ingest_run:
  assumes "ingest_documents_batch env cfg verdict request user sid body s = (Inr p, t)"
  obtains r y w b queued v diagnostics coverage where "admit_batch env cfg verdict user sid body s = (Inr (r, y), w)"
    and "index_batch env cfg r (sync_id y) (bq_documents body) w = (Inr (b, queued), v)"
    and "batch_report body y b queued = Inr (diagnostics, coverage)"
    and "indexed_tables (committed t) = indexed_tables (work v)" and "p = batch_answer body b diagnostics coverage"
proof -
  from assms obtain r y w b queued v where a: "admit_batch env cfg verdict user sid body s = (Inr (r, y), w)"
    and i: "index_batch env cfg r (sync_id y) (bq_documents body) w = (Inr (b, queued), v)"
    and c: "close_batch env cfg request user body r y b queued v = (Inr p, t)"
    unfolding ingest_documents_batch_def by (fastforce simp: bind_act_Inr_iff)
  obtain diagnostics coverage where "batch_report body y b queued = Inr (diagnostics, coverage)"
    "p = batch_answer body b diagnostics coverage" "committed t = work t" using c by (rule close_batch_run)
  with keepsD [OF close_batch_keeps c] that [OF a i] show thesis by simp
qed

lemma admit_run:
  assumes "admit_batch env cfg verdict user sid body s = (Inr (r, y), w)"
  shows "row_with src_id sid (sources (work s)) = Some r" and "sync_id y = bq_sync_id body"
    and "indexed_tables (work w) = indexed_tables (work s)"
proof -
  show "row_with src_id sid (sources (work s)) = Some r" and "sync_id y = bq_sync_id body"
    using assms unfolding admit_batch_def Let_def by (auto simp: run_simps dest!: find_sync_id)
  show "indexed_tables (work w) = indexed_tables (work s)" using admit_keeps assms by (rule keepsD)
qed

lemma split_batch_counts: "length (fst (split_batch cfg ds seen)) + length (snd (split_batch cfg ds seen)) = length ds"
  by (induction cfg ds seen rule: split_batch.induct) (auto split: sum.split prod.splits)

lemma split_batch_distinct:
  "distinct (map nd_external_id (fst (split_batch cfg ds seen)))
   \<and> set (map nd_external_id (fst (split_batch cfg ds seen))) \<inter> set seen = {}"
proof (induction ds arbitrary: seen)
  case (Cons d ds)
  show ?case
  proof (cases "validate_normalized_document d cfg False")
    case (Inl e)
    with Cons [of seen] show ?thesis by (simp add: split_beta)
  next
    case (Inr nd)
    with Cons [of seen] Cons [of "nd_external_id nd # seen"] show ?thesis
      by (cases "nd_external_id nd \<in> set seen") (auto simp: split_beta)
  qed
qed simp

lemma add_index_jobs_tables:
  "\<exists>is. length is = length nds \<and> indexed_tables (add_index_jobs mk nds d) =
     (index_jobs d @ map2 mk nds is, documents d, chunks d)"
proof (induction nds arbitrary: d)
  case Nil
  then show ?case by (simp add: indexed_tables_def)
next
  case (Cons nd nds)
  from Cons [of "add_row index_jobs_update (mk nd) d"] obtain js where "length js = length nds"
    "indexed_tables (add_index_jobs mk (nd # nds) d) = (index_jobs d @ map2 mk (nd # nds) (next_id d # js), documents d, chunks d)"
    by (auto simp: add_row_def)
  then show ?case by (intro exI [of _ "next_id d # js"]) simp
qed


section \<open>Totals of a sync\<close>

lemma bump_get:
  assumes "bump k n d = Inr e"
  shows "get_int_or0 e k' = (if k' = k then Inr (projr (get_int_or0 d k) + n) else get_int_or0 d k')"
    and "get_int_or0 d k = Inr (projr (get_int_or0 d k))"
  using assms unfolding bump_def by (auto simp: rbind_Inr_iff)

lemma merge_key_get: "merge_key k r d = Inr e \<Longrightarrow> k' \<noteq> k \<Longrightarrow> get_int_or0 e k' = get_int_or0 d k'"
  unfolding merge_key_def by (auto simp: rbind_Inr_iff)

lemma last_batch_get:
  assumes "last_batch b n d = Inr e" and "\<not> starts_with k ''last_batch''"
  shows "get_int_or0 e k = get_int_or0 d k"
proof -
  have "k \<noteq> ''last_batch'' @ r" for r
    using assms(2) by auto
  from this [of "''_received''"] this [of "''_created''"] this [of "''_updated''"] this [of "''_skipped_unchanged''"]
    this [of "''_skipped_invalid''"] this [of "''_chunks_created''"] this [of "''_error_count''"]
    this [of "''_parser_error_reasons''"] this [of "''_chunk_discard_reasons''"] this [of "''_embedding_failures''"]
  have k: "k \<noteq> ''last_batch_received''" "k \<noteq> ''last_batch_created''" "k \<noteq> ''last_batch_updated''"
    "k \<noteq> ''last_batch_skipped_unchanged''" "k \<noteq> ''last_batch_skipped_invalid''" "k \<noteq> ''last_batch_chunks_created''"
    "k \<noteq> ''last_batch_error_count''" "k \<noteq> ''last_batch_parser_error_reasons''"
    "k \<noteq> ''last_batch_chunk_discard_reasons''" "k \<noteq> ''last_batch_embedding_failures''" by simp_all
  from assms(1) show ?thesis unfolding last_batch_def by (auto simp: rbind_Inr_iff k)
qed

lemma versions_get:
  assumes "k \<notin> fst ` set vs"
  shows "get_int_or0 (fold set_present vs d) k = get_int_or0 d k"
  using assms by (induction vs arbitrary: d) (auto simp: set_present_def split: option.split)

text \<open>
  The totals of a sync are sums over its batches: when a batch is reported, every counter of the sync's diagnostics
  goes up by exactly the number of the batch, whatever else the diagnostics hold.
\<close>

theorem batch_totals_accumulate:
  assumes "batch_report body y b queued = Inr (d, c)"
  shows "list_all (\<lambda>(k, n). \<exists>m. get_int_or0 (or_empty (sync_diagnostics_json y)) k = Inr m \<and> get_int_or0 d k = Inr (m + n))
    [(''documents_created'', br_created b), (''documents_updated'', br_updated b),
     (''skipped_unchanged'', br_skipped_unchanged b), (''skipped_invalid'', br_skipped_invalid b),
     (''error_count'', int (length (br_errors b))), (''index_jobs_queued'', queued)]"
proof -
  let ?o = "fold set_present (batch_versions body) (or_empty (sync_diagnostics_json y))"
  from assms obtain d0 d1 d2 d3 d4 d5 d6 pc d7 d8 ef d9 d10 d11 where
    h: "last_batch b (int (length (br_errors b))) ?o = Inr d0" "bump ''documents_created'' (br_created b) d0 = Inr d1"
      "bump ''documents_updated'' (br_updated b) d1 = Inr d2" "bump ''skipped_unchanged'' (br_skipped_unchanged b) d2 = Inr d3"
      "bump ''skipped_invalid'' (br_skipped_invalid b) d3 = Inr d4" "bump ''error_count'' (int (length (br_errors b))) d4 = Inr d5"
      "merge_key ''parser_error_reasons'' (parser_reasons b) d5 = Inr d6" "bump ''parser_error_count'' pc d6 = Inr d7"
      "merge_key ''chunk_discard_reasons'' (obj_entries (get_or_none (br_diagnostics b) ''chunk_discard_reasons'')) d7 = Inr d8"
      "bump ''embedding_failures'' ef d8 = Inr d9"
      "merge_key ''source_type_counts'' (map (\<lambda>(k, n). (k, JInt n)) (br_source_type_counts b)) d9 = Inr d10"
      "merge_key ''chunk_type_counts'' (map (\<lambda>(k, n). (k, JInt n)) (br_chunk_type_counts b)) d10 = Inr d11"
    and q: "bump ''index_jobs_queued'' queued (dict_set ''embedding_backend'' (opt_json (br_embedding_backend b))
        (dict_set ''warnings'' (JList (map JStr (br_warnings b))) d11)) = Inr d"
    unfolding batch_report_def merge_batch_diagnostics_def Let_def by (auto simp: rbind_Inr_iff)
  have o: "get_int_or0 d0 k = get_int_or0 (or_empty (sync_diagnostics_json y)) k"
    if "\<not> starts_with k ''last_batch''" "k \<notin> {''collector_version'', ''schema_version'', ''core_api_version''}" for k
    using last_batch_get [OF h(1) that(1)] versions_get [of k "batch_versions body" "or_empty (sync_diagnostics_json y)"] that(2)
    by (simp add: batch_versions_def)
  note get = bump_get(1) [OF h(2)] bump_get(1) [OF h(3)] bump_get(1) [OF h(4)] bump_get(1) [OF h(5)] bump_get(1) [OF h(6)]
    merge_key_get [OF h(7)] bump_get(1) [OF h(8)] merge_key_get [OF h(9)] bump_get(1) [OF h(10)] merge_key_get [OF h(11)]
    merge_key_get [OF h(12)] bump_get(1) [OF q]
  show ?thesis
    using bump_get(2) [OF h(2)] bump_get(2) [OF h(3)] bump_get(2) [OF h(4)] bump_get(2) [OF h(5)] bump_get(2) [OF h(6)] bump_get(2) [OF q]
    by (simp add: get o)
qed

section \<open>Registration of collectors\<close>

lemma register_run:
  assumes "register_collector env cfg request user pid body s = (Inr (cid, st), t)"
  obtains w mk where "upsert_collector (se_now env) pid body s = (Inr cid, w)"
    and "committed t = add_row audit_events_update mk (work w)" and "st = ''active''"
  using assms project_admin_Inr(1) unfolding register_collector_def
  by (fastforce simp: run_simps record_audit_run Let_def audit_of_def audit_defaults_def)

text \<open>
  Registering a collector is an upsert by project, name and environment: the row of the answer carries the request's
  data and is active; with an environment a second registration finds that row again, so no row is added; without an
  environment no row ever matches, and every registration adds one.
\<close>

theorem collector_registration_upserts:
  assumes "register_collector env cfg request user pid body s = (Inr (cid, st), t)" and "db_ok (work s)"
  shows "(\<exists>c. row_with coll_id cid (collectors (committed t)) = Some c \<and> coll_project_id c = pid \<and> coll_name c = cq_name body
        \<and> coll_environment c = cq_environment body \<and> coll_version c = cq_version body \<and> coll_status c = st \<and> st = ''active'')
    \<and> length (collectors (committed t)) = length (collectors (work s))
        + (if list_ex (conflicting_collector pid body) (collectors (work s)) then 0 else 1)
    \<and> (list_ex (conflicting_collector pid body) (collectors (committed t)) \<longleftrightarrow> cq_environment body \<noteq> None)"
proof -
  obtain w mk where up: "upsert_collector (se_now env) pid body s = (Inr cid, w)"
    and t: "committed t = add_row audit_events_update mk (work w)" and st: "st = ''active''"
    using assms(1) by (rule register_run)
  have ct: "collectors (committed t) = collectors (work w)" by (simp add: t add_row_def)
  have keys: "distinct (map coll_id (collectors (work s)))" "\<And>c. c \<in> set (collectors (work s)) \<Longrightarrow> coll_id c < next_id (work s)"
    using assms(2) by (auto simp: db_ok_def keys_ok_def)
  show ?thesis
  proof (cases "find (conflicting_collector pid body) (collectors (work s))")
    case None
    with up have w: "collectors (work w) = collectors (work s) @ [new_collector (se_now env) pid body (next_id (work s))]" and c: "cid = next_id (work s)"
      by (auto simp: upsert_collector_def run_simps add_row_def)
    have "row_with coll_id cid (collectors (work s)) = None" using keys(2) by (force simp: row_with_None c)
    then have "row_with coll_id cid (collectors (committed t)) = Some (new_collector (se_now env) pid body cid)"
      unfolding ct w row_with_append by (simp add: row_with_def new_collector_def c)
    moreover from None have "\<not> list_ex (conflicting_collector pid body) (collectors (work s))"
      by (auto simp: find_None_iff list_ex_iff)
    ultimately show ?thesis using st
      by (auto simp: ct w new_collector_def conflicting_collector_def)
  next
    case (Some c)
    then have c: "c \<in> set (collectors (work s))" "conflicting_collector pid body c" by (auto simp: find_Some_iff)
    let ?f = "\<lambda>c. c\<lparr>coll_version := cq_version body, coll_status := ''active'', coll_last_seen_at := Some (se_now env), coll_updated_at := se_now env\<rparr>"
    from Some up have w: "collectors (work w) = map (\<lambda>x. if coll_id x = cid then ?f x else x) (collectors (work s))" and id: "cid = coll_id c"
      by (auto simp: upsert_collector_def run_simps edit_row_def edit_rows_def)
    have "row_with coll_id cid (collectors (work s)) = Some c" using row_with_member [OF keys(1) c(1)] id by simp
    then have "row_with coll_id cid (collectors (committed t)) = Some (?f c)"
      unfolding ct w by (subst row_with_map) (simp_all add: id)
    moreover have "list_ex (conflicting_collector pid body) (collectors (committed t))"
    proof -
      have "?f c \<in> set (collectors (committed t))" unfolding ct w using c(1) id by (auto intro!: image_eqI [of _ _ c])
      moreover have "conflicting_collector pid body (?f c)" using c(2) by (simp add: conflicting_collector_def)
      ultimately show ?thesis by (auto simp: list_ex_iff)
    qed
    moreover have "list_ex (conflicting_collector pid body) (collectors (work s))" using c by (auto simp: list_ex_iff)
    ultimately show ?thesis using c(2) st by (auto simp: ct w conflicting_collector_def)
  qed
qed

section \<open>Runs on concrete data\<close>

definition sample_admin_db :: db where
  "sample_admin_db = sample_db\<lparr>project_members := [sample_member RoleAdmin]\<rparr>"

definition sample_request :: request_info where
  "sample_request = \<lparr>req_client_host = None, req_forwarded_for = None, req_user_agent = None\<rparr>"

definition sample_source_env :: source_env where
  "sample_source_env = \<lparr>se_index = sample_env\<lparr>ie_http := (\<lambda>_ _. Some (200, None))\<rparr>, se_now = 5, se_iso = (\<lambda>_. []),
     se_json_time = (\<lambda>_. []), se_uuid = uid_str, se_md5 = id\<rparr>"

definition sample_settings :: settings where
  "sample_settings = (default_settings ''h'')\<lparr>qdrant_url := ''http://q'', rag_async_indexing := True, rate_limit_enabled := False\<rparr>"

definition sample_source_row :: source_row where
  "sample_source_row = new_source 0 2 \<lparr>sq_name = ''s'', sq_source_type = ''git'', sq_sync_mode = ''manual'', sq_config = []\<rparr> 4"

definition sample_sync_row :: sync_row where
  "sample_sync_row = new_sync 0 sample_source_row None [] 0 5"

definition sample_sources_db :: db where
  "sample_sources_db = sample_admin_db\<lparr>sources := [sample_source_row], source_syncs := [sample_sync_row]\<rparr>"

lemma sample_sources_ok: "db_ok sample_sources_db"
  by (simp add: db_ok_def sample_sources_db_def sample_admin_db_def sample_db_def empty_db_def keys_ok_def sample_user_def
      sample_project_def sample_member_def sample_source_row_def sample_sync_row_def new_source_def new_sync_def)

definition sample_batch :: batch_request where
  "sample_batch = \<lparr>bq_sync_id = 5, bq_collector_id = None, bq_collector_version = None, bq_schema_version = None,
     bq_core_api_version = None, bq_documents = [sample_document]\<rparr>"

definition sample_end :: sync_finish_request where
  "sample_end = \<lparr>fq_status = ''success'', fq_diagnostics = [], fq_coverage = []\<rparr>"

lemma sample_not_production: "\<not> is_production_like sample_settings" by code_simp

lemmas sample_rows = sample_sources_db_def sample_admin_db_def sample_db_def sample_member_def sample_user_def sample_project_def
  sample_source_row_def sample_sync_row_def new_source_def new_sync_def

lemma sample_admin: "require_project_admin sample_settings now 2 sample_user (new_session sample_sources_db) = (Inr (), new_session sample_sources_db)"
proof -
  have r: "row_with proj_id 2 (projects sample_sources_db) = Some sample_project" "proj_demo_mode sample_project"
    "allow_demo_project_bypass sample_settings" "project_role_of 2 (user_id sample_user) sample_sources_db = Some RoleAdmin"
    by (simp_all add: row_with_def project_role_of_def sample_rows sample_settings_def default_settings_def)
  then show ?thesis
    by (simp add: require_project_admin_def ensure_project_access_def sample_not_production project_bypass_allowed_def
       then_act_def bind_act_def query_def require_project_role_def ret_def role_allows_def)
qed

lemma sample_vectors_deleted:
  "\<exists>e. delete_by_filter (source_http sample_source_env) sample_settings 2 [(''source_id'', uid_str 4)] s = (Inr (), s\<lparr>trace := trace s @ [e]\<rparr>)"
proof -
  have f: "''source_id'' \<in> set filter_fields" by (simp add: filter_fields_def)
  have b: "base_url sample_settings = Inr ''http://q''" by code_simp
  show ?thesis
    by (simp add: delete_by_filter_def f b send_def raise_for_status_def response_ok_def act_simps source_http_def sample_source_env_def)
      blast
qed

lemma sample_deletion: "\<exists>p t. delete_source sample_source_env sample_settings sample_request sample_user 2 4 (new_session sample_sources_db) = (Inr p, t)"
proof -
  have r: "row_with src_id 4 (sources sample_sources_db) = Some sample_source_row" "src_project_id sample_source_row = 2"
    by (simp_all add: row_with_def sample_rows)
  obtain e where "delete_by_filter (source_http sample_source_env) sample_settings 2 [(''source_id'', uid_str 4)] (new_session sample_sources_db)
      = (Inr (), (new_session sample_sources_db)\<lparr>trace := trace (new_session sample_sources_db) @ [e]\<rparr>)"
    using sample_vectors_deleted by blast
  then show ?thesis
    by (simp add: delete_source_def source_of_project_def require_source_def then_act_def bind_act_def query_def guard_act_def ret_def r
        sample_admin try_act_def change_def record_audit_run Let_def commit_def invalidate_project_def when_act_def call_def)
qed

lemma sample_size: "int (safe_json_size (batch_dump sample_source_env sample_batch)) \<le> max_batch_bytes sample_settings" by code_simp

lemma sample_admit:
  "admit_batch sample_source_env sample_settings (Inr ()) sample_user 4 sample_batch (new_session sample_sources_db)
     = (Inr (sample_source_row, sample_sync_row), new_session sample_sources_db)"
proof -
  have r: "row_with src_id 4 (sources sample_sources_db) = Some sample_source_row" "src_project_id sample_source_row = 2"
    "project_role_of 2 (user_id sample_user) sample_sources_db = Some RoleAdmin" "role_allows RoleAdmin RoleAdmin"
    "find (\<lambda>y. sync_id y = 5 \<and> sync_source_id y = 4) (source_syncs sample_sources_db) = Some sample_sync_row"
    "bq_sync_id sample_batch = 5" "bq_collector_id sample_batch = None" "\<not> rate_limit_enabled sample_settings"
    "sync_collector_id sample_sync_row = None" "length (bq_documents sample_batch) = 1" "1 \<le> max_documents_per_batch sample_settings"
    by (simp_all add: row_with_def project_role_of_def role_allows_def sample_rows sample_batch_def sample_settings_def default_settings_def)
  then show ?thesis using sample_size
    by (simp add: admit_batch_def Let_def require_source_def require_project_role_def check_rate_limit_def require_sync_def
        validate_collector_def validate_sync_collector_def then_act_def bind_act_def query_def ret_def lift_result_def when_act_def guard_act_def)
qed

lemma sample_valid: "validate_normalized_document sample_document sample_settings False = Inr sample_document"
proof -
  have "max_external_id_length sample_settings = max_external_id_length (default_settings ''host'')"
    "max_path_length sample_settings = max_path_length (default_settings ''host'')"
    "max_document_bytes sample_settings = max_document_bytes (default_settings ''host'')"
    "max_metadata_bytes sample_settings = max_metadata_bytes (default_settings ''host'')"
    by (simp_all add: sample_settings_def default_settings_def)
  note limits = this
  have "validate_normalized_document sample_document sample_settings False = validate_normalized_document sample_document (default_settings ''host'') False"
    by (simp only: validate_normalized_document_def limits)
  then show ?thesis using sample_document_accepted by simp
qed

definition sample_result :: batch_result where
  "sample_result = (empty_batch 1 (Some (embedding_model sample_settings)))\<lparr>br_diagnostics := [(''index_jobs_queued'', JInt 1)]\<rparr>"

lemma sample_report: "\<exists>d c. batch_report sample_batch sample_sync_row sample_result 1 = Inr (d, c)"
proof -
  have "\<not> isl (batch_report sample_batch sample_sync_row sample_result 1)" by code_simp
  then show ?thesis by (cases "batch_report sample_batch sample_sync_row sample_result 1") auto
qed

lemma record_batch_total:
  assumes "get_int_or0 (br_diagnostics b) ''embedding_failures'' = Inr n"
  shows "\<exists>t. record_batch env cfg request user r yid received b queued s = (Inr (), t)"
  using assms unfolding record_batch_def Let_def
  by (simp add: bind_act_def then_act_def lift_result_def record_operational_event_def change_def record_audit_run Let_def
      when_act_def ret_def)

lemma sample_ingest: "\<exists>p t. ingest_documents_batch sample_source_env sample_settings (Inr ()) sample_request sample_user 4 sample_batch (new_session sample_sources_db) = (Inr p, t)"
proof -
  have "rag_async_indexing sample_settings" "bq_documents sample_batch = [sample_document]" "sync_id sample_sync_row = 5"
    by (simp_all add: sample_settings_def sample_batch_def sample_rows)
  then obtain w where w: "index_batch sample_source_env sample_settings sample_source_row 5 (bq_documents sample_batch) (new_session sample_sources_db) = (Inr (sample_result, 1), w)"
    by (simp add: index_batch_def sample_valid then_act_def bind_act_def change_def ret_def sample_result_def empty_batch_def)
  obtain d c where rep: "batch_report sample_batch sample_sync_row sample_result 1 = Inr (d, c)" using sample_report by blast
  have "get_int_or0 (br_diagnostics sample_result) ''embedding_failures'' = Inr 0" by code_simp
  note rec = record_batch_total [OF this]
  have "\<exists>p t. close_batch sample_source_env sample_settings sample_request sample_user sample_batch sample_source_row sample_sync_row sample_result 1 w = (Inr p, t)"
  proof -
    let ?w = "w\<lparr>work := edit_row source_syncs_update sync_id (sync_id sample_sync_row) (\<lambda>y. y\<lparr>sync_documents_received := sync_documents_received y + int (length (bq_documents sample_batch)),
         sync_chunks_created := sync_chunks_created y + br_chunks_created sample_result,
         sync_parser_errors := sync_parser_errors y + int (length (br_errors sample_result)),
         sync_diagnostics_json := Some d, sync_coverage_json := Some c\<rparr>) (work w)\<rparr>"
    have "br_errors sample_result = []" by (simp add: sample_result_def empty_batch_def)
    moreover obtain t where "record_batch sample_source_env sample_settings sample_request sample_user sample_source_row
      (sync_id sample_sync_row) (int (length (bq_documents sample_batch))) sample_result 1 ?w = (Inr (), t)" using rec by blast
    ultimately show ?thesis
      by (simp add: close_batch_def Let_def bind_act_def then_act_def lift_result_def rep set_sync_def change_def when_act_def ret_def commit_def)
  qed
  then show ?thesis using w \<open>sync_id sample_sync_row = 5\<close>
    by (simp add: ingest_documents_batch_def bind_act_def sample_admit)
qed

lemma sample_finish:
  "\<exists>t. finish_sync sample_source_env sample_settings sample_request sample_user 4 5 sample_end (new_session sample_sources_db)
    = (Inr (5, ''success''), t)"
proof -
  have "fst (finish_sync sample_source_env sample_settings sample_request sample_user 4 5 sample_end (new_session sample_sources_db))
    = Inr (5, ''success'')" by code_simp
  then show ?thesis by (metis prod.collapse)
qed


theorem sync_end_is_honest_witness:
  "\<exists>t y r. finish_sync sample_source_env sample_settings sample_request sample_user 4 5 sample_end (new_session sample_sources_db)
      = (Inr (5, ''success''), t)
    \<and> find (\<lambda>y. sync_id y = 5 \<and> sync_source_id y = 4) (source_syncs (committed t)) = Some y \<and> sync_parser_errors y \<le> 0
    \<and> row_with src_id 4 (sources (committed t)) = Some r \<and> src_status r = ''ready''"
proof -
  obtain t where t: "finish_sync sample_source_env sample_settings sample_request sample_user 4 5 sample_end (new_session sample_sources_db)
      = (Inr (5, ''success''), t)" using sample_finish by blast
  have f: "find (\<lambda>y. sync_id y = 5 \<and> sync_source_id y = 4) (source_syncs (work (new_session sample_sources_db))) = Some sample_sync_row"
    and n: "sync_finished_at sample_sync_row = None" by (simp_all add: sample_rows)
  have p: "pending_jobs sample_settings 5 sample_sources_db = 0"
    by (simp add: pending_jobs_def count_rows_def sample_rows empty_db_def)
  have ok: "db_ok (work (new_session sample_sources_db))" by (simp add: sample_sources_ok)
  from sync_end_is_honest [OF t ok f n] p t show ?thesis by auto
qed

theorem source_deletion_purges_witness:
  "\<exists>p t. delete_source sample_source_env sample_settings sample_request sample_user 2 4 (new_session sample_sources_db) = (Inr p, t)
    \<and> sources (committed t) = [] \<and> source_syncs (committed t) = [] \<and> dict_get (pr_counts p) ''syncs'' = Some 1"
proof -
  obtain p t where d: "delete_source sample_source_env sample_settings sample_request sample_user 2 4 (new_session sample_sources_db) = (Inr p, t)"
    using sample_deletion by blast
  have ok: "db_ok (work (new_session sample_sources_db))" by (simp add: sample_sources_ok)
  from source_deletion_purges [OF d ok] d show ?thesis
    by (simp add: sample_rows delete_counts_def count_rows_def)
qed


theorem batch_totals_accumulate_witness:
  "\<exists>d c m. batch_report sample_batch sample_sync_row sample_result 1 = Inr (d, c)
    \<and> get_int_or0 (or_empty (sync_diagnostics_json sample_sync_row)) ''index_jobs_queued'' = Inr m
    \<and> get_int_or0 d ''index_jobs_queued'' = Inr (m + 1)"
proof -
  obtain d c where r: "batch_report sample_batch sample_sync_row sample_result 1 = Inr (d, c)" using sample_report by blast
  from batch_totals_accumulate [OF r] r show ?thesis by auto
qed

theorem collector_registration_upserts_witness:
  "\<exists>t. register_collector sample_source_env sample_settings sample_request sample_user 2
      \<lparr>cq_name = ''c'', cq_environment = None, cq_version = None\<rparr> (new_session sample_sources_db) = (Inr (10, ''active''), t)
    \<and> length (collectors (committed t)) = 1"
proof -
  have "fst (register_collector sample_source_env sample_settings sample_request sample_user 2
      \<lparr>cq_name = ''c'', cq_environment = None, cq_version = None\<rparr> (new_session sample_sources_db)) = Inr (10, ''active'')"
    by code_simp
  then obtain t where t: "register_collector sample_source_env sample_settings sample_request sample_user 2
      \<lparr>cq_name = ''c'', cq_environment = None, cq_version = None\<rparr> (new_session sample_sources_db) = (Inr (10, ''active''), t)"
    by (metis prod.collapse)
  have ok: "db_ok (work (new_session sample_sources_db))" by (simp add: sample_sources_ok)
  from collector_registration_upserts [OF t ok] t show ?thesis by (auto simp: sample_rows empty_db_def)
qed

end
