(* ===== verification/Intent.thy ===== *)
theory Intent
  imports Prelude Regex Taxonomy Chunking
begin

text \<open>
  What Core reads off a question: \<open>retrieval/query_intent.py\<close>, \<open>analyze_query\<close> of \<open>retrieval/hybrid_search.py\<close> with the
  extractors of \<open>ingestion/chunking/metadata.py\<close> it uses, and \<open>investigation/classifier.py\<close>, \<open>entity_extractor.py\<close> and
  \<open>scope_resolver.py\<close>. All of it is pure.
\<close>

section \<open>Terms in a text\<close>

text \<open>\<open>re.search\<close> with the term between \<open>(?<![a-z0-9_])\<close> and \<open>(?![a-z0-9_])\<close>; the flag says that the character before is no term character.\<close>

definition term_char :: "char \<Rightarrow> bool" where
  "term_char c \<longleftrightarrow> c_lower c \<or> is_digit c \<or> c = CHR ''_''"

definition free_start :: "string \<Rightarrow> bool" where
  "free_start s = (case s of [] \<Rightarrow> True | c # _ \<Rightarrow> \<not> term_char c)"

fun term_from :: "bool \<Rightarrow> string \<Rightarrow> string \<Rightarrow> bool" where
  "term_from edge t [] = (edge \<and> t = [])"
| "term_from edge t (c # cs) =
     (edge \<and> starts_with (c # cs) t \<and> free_start (drop (length t) (c # cs)) \<or> term_from (\<not> term_char c) t cs)"

definition contains_term :: "string \<Rightarrow> string \<Rightarrow> bool" where
  "contains_term t s = term_from True t s"

definition contains_any :: "string \<Rightarrow> string list \<Rightarrow> bool" where
  "contains_any s ts = list_ex (\<lambda>t. contains_term t s) ts"

text \<open>The first occurrences of a list's values, as \<open>dict.fromkeys\<close> keeps them.\<close>

definition dedupe :: "'a list \<Rightarrow> 'a list" where
  "dedupe xs = rev (remdups (rev xs))"

section \<open>The intent of a query\<close>

definition config_terms :: "string list" where
  "config_terms = [''config'', ''configuration'', ''env'', ''environment'', ''yaml'', ''yml'', ''json'', ''toml'', ''ini'', ''docker'',
     ''compose'', ''helm'', ''kustomize'', ''settings'', ''deployment'', ''deployments'', ''database'', ''databases'', ''db'']"

definition api_terms :: "string list" where
  "api_terms = [''api'', ''apis'', ''openapi'', ''swagger'', ''endpoint'', ''endpoints'', ''route'', ''routes'', ''rpc'', ''proto'',
     ''protobuf'', ''contract'', ''schema'']"

definition code_terms :: "string list" where
  "code_terms = [''implemented'', ''implementation'', ''defined'', ''definition'', ''handler'', ''handlers'', ''function'', ''functions'',
     ''class'', ''classes'', ''method'', ''methods'', ''module'', ''package'', ''source'', ''code'']"

definition architecture_terms :: "string list" where
  "architecture_terms = [''architecture'', ''design'', ''diagram'', ''overview'', ''boundary'', ''boundaries'', ''component'',
     ''components'', ''how does'', ''how is'', ''service map'']"

definition runtime_terms :: "string list" where
  "runtime_terms = [''logs'', ''log'', ''trace'', ''traces'', ''request id'', ''trace id'', ''error'', ''errors'', ''timeout'',
     ''timeouts'', ''runtime'', ''symptom'', ''symptoms'', ''latency'', ''spike'', ''slow'', ''slower'', ''slowdown'', ''outage'']"

definition deploy_terms :: "string list" where
  "deploy_terms = [''deploy'', ''deployed'', ''release'', ''rollback'', ''diff'', ''patch'', ''commit'', ''revision'', ''what changed'',
     ''changed before'']"

definition incident_history_terms :: "string list" where
  "incident_history_terms = [''happened before'', ''similar incident'', ''previous incident'', ''postmortem'', ''postmortems'',
     ''seen this before'']"

definition runbook_terms :: "string list" where
  "runbook_terms = [''runbook'', ''playbook'', ''remediation'', ''mitigation'', ''rollback steps'', ''fix steps'', ''operator guide'']"

definition root_cause_terms :: "string list" where
  "root_cause_terms = [''why did'', ''root cause'', ''relevant to investigating'', ''investigating'', ''investigate'', ''caused by'',
     ''cause of'']"

definition query_stopwords :: "string list" where
  "query_stopwords = [''a'', ''an'', ''are'', ''be'', ''can'', ''does'', ''for'', ''how'', ''is'', ''it'', ''of'', ''the'', ''this'',
     ''was'', ''what'', ''where'', ''which'', ''who'']"

definition rx_query_token :: rx where    \<comment> \<open>\<open>[a-z0-9_./-]+\<close>\<close>
  "rx_query_token = rx_plus (RSet (\<lambda>c. c_lower c \<or> is_digit c \<or> c_in ''_./-'' c))"

record query_intent =
  qi_intent :: string
  qi_secondary_intents :: "string list"
  qi_preferred_source_types :: "string list"
  qi_preferred_chunk_types :: "string list"
  qi_query_terms :: "string list"
  qi_explanation :: string

definition looks_like_code_location :: "string \<Rightarrow> bool" where
  "looks_like_code_location s \<longleftrightarrow> contains_any s code_terms
     \<or> any_in [''where is'', ''where are'', ''which file'', ''which files'', ''what file'', ''what files''] s"

definition query_terms :: "string \<Rightarrow> string list" where
  "query_terms lower =
     take 30 (filter (\<lambda>t. 3 \<le> length t \<and> t \<notin> set query_stopwords) (map m_text (re_findall rx_query_token lower)))"

definition mk_intent :: "string \<Rightarrow> string list \<Rightarrow> string list \<Rightarrow> string list \<Rightarrow> string list \<Rightarrow> string \<Rightarrow> query_intent" where
  "mk_intent name secondary sources chunks terms why =
     \<lparr>qi_intent = name, qi_secondary_intents = secondary, qi_preferred_source_types = sources,
      qi_preferred_chunk_types = chunks, qi_query_terms = terms, qi_explanation = why\<rparr>"

definition classify_query_intent :: "string \<Rightarrow> query_intent" where
  "classify_query_intent qtext =
     (let lower = py_strip (py_lower qtext); terms = query_terms lower in
      if contains_any lower incident_history_terms then
        mk_intent ''previous_incident'' [] [''incident'', ''runbook'', ''logs'']
          [''incident_section'', ''incident_root_cause'', ''incident_timeline'', ''markdown_heading_section'', ''log_time_window'']
          terms ''query asks for previous incidents or historical comparisons''
      else if contains_any lower runbook_terms then
        mk_intent ''runbook_lookup'' [] [''runbook'', ''incident'', ''deploy'', ''config'']
          [''markdown_procedure'', ''markdown_heading_section'', ''incident_action'', ''deploy_commit'', ''deploy_diff'', ''config_section'']
          terms ''query asks for runbooks, remediation, or operational procedures''
      else if looks_like_code_location lower \<and> \<not> contains_any lower (api_terms @ config_terms) then
        mk_intent ''code_location'' [] [''code'', ''api_doc'', ''config'']
          [''go_function'', ''go_method'', ''go_type'', ''go_struct'', ''go_interface'', ''python_function'', ''python_class'',
           ''ts_function'', ''ts_class'', ''ts_interface'', ''java_method'', ''java_class'', ''java_interface'', ''function'', ''class'',
           ''module'', ''go_module'', ''code_file'', ''openapi_endpoint'', ''openapi_schema'', ''proto_service'', ''proto_rpc'',
           ''proto_message'']
          terms ''query asks where behavior, modules, or symbols are implemented''
      else if contains_any lower root_cause_terms then
        mk_intent ''runtime_incident''
          (map fst (filter (\<lambda>(_, ts). contains_any lower ts)
             [(''runtime_incident'', runtime_terms), (''deploy_regression'', deploy_terms), (''previous_incident'', incident_history_terms)]))
          [''logs'', ''deploy'', ''incident'', ''runbook'', ''code'']
          [''log_time_window'', ''log_error_burst'', ''deploy_commit'', ''deploy_diff'', ''incident_root_cause'', ''incident_section'',
           ''go_function'', ''markdown_heading_section'']
          terms ''query asks for incident explanation, causality, or investigation support''
      else if contains_any lower deploy_terms \<and> \<not> contains_any lower [''where is'', ''where are''] then
        mk_intent ''deploy_regression'' [] [''deploy'', ''logs'', ''incident'', ''code'']
          [''deploy_commit'', ''deploy_diff'', ''release_note'', ''log_time_window'', ''go_function'', ''config_service_block'', ''config_section'']
          terms ''query asks about deploys, releases, diffs, or changes before an incident''
      else if contains_any lower runtime_terms then
        mk_intent ''runtime_incident'' [] [''logs'', ''runbook'', ''deploy'', ''incident'']
          [''log_time_window'', ''log_error_burst'', ''markdown_procedure'', ''deploy_commit'', ''deploy_diff'']
          terms ''query asks for runtime symptoms, errors, traces, or timeouts''
      else if contains_any lower api_terms then
        mk_intent ''api_contract'' (if str_contains ''implemented'' lower then [''code_location''] else [])
          [''api_doc'', ''code'', ''config'']
          [''openapi_endpoint'', ''openapi_schema'', ''proto_service'', ''proto_rpc'', ''proto_message'', ''proto_enum'', ''go_function'',
           ''markdown_heading_section'']
          terms ''query asks about API, route, RPC, protobuf, or endpoint contracts''
      else if contains_any lower config_terms then
        mk_intent ''config_lookup'' (if str_contains ''implemented'' lower then [''code_location''] else [])
          [''config'', ''deploy'', ''code'']
          [''config_service_block'', ''env_var_block'', ''dependency_block'', ''config_section'', ''deploy_commit'', ''deploy_diff'',
           ''markdown_heading_section'', ''go_function'']
          terms ''query asks about configuration, deployment config, environment, or dependency settings''
      else if contains_any lower architecture_terms then
        mk_intent ''architecture'' [] [''runbook'', ''api_doc'', ''code'', ''config'']
          [''markdown_heading_section'', ''markdown_table'', ''python_module'', ''go_module'', ''proto_service'', ''proto_message'',
           ''config_service_block'', ''config_section'']
          terms ''query asks for architecture, boundaries, or design context''
      else
        mk_intent ''generic'' [] [''runbook'', ''code'', ''config'', ''api_doc'']
          [''markdown_heading_section'', ''python_module'', ''go_module'', ''go_function'', ''config_section'']
          terms ''balanced retrieval because query intent is ambiguous'')"

definition is_incident_like :: "query_intent \<Rightarrow> bool" where
  "is_incident_like q \<longleftrightarrow> qi_intent q \<in> {''runtime_incident'', ''deploy_regression'', ''previous_incident''}"

definition intent_dict :: "query_intent \<Rightarrow> json dict" where
  "intent_dict q = (let strs = \<lambda>xs. JList (map JStr xs) in
     [(''intent'', JStr (qi_intent q)), (''secondary_intents'', strs (qi_secondary_intents q)),
      (''preferred_source_types'', strs (qi_preferred_source_types q)), (''preferred_chunk_types'', strs (qi_preferred_chunk_types q)),
      (''query_terms'', strs (qi_query_terms q)), (''explanation'', JStr (qi_explanation q))])"

definition lookup_intents :: "string list" where
  "lookup_intents = [''code_location'', ''config_lookup'', ''architecture'', ''api_contract'', ''generic'']"

definition investigate_supported :: "query_intent \<Rightarrow> string list \<Rightarrow> bool \<times> string list" where
  "investigate_supported q available =
     (if qi_intent q \<in> set lookup_intents then
        (False, [''query intent is repo lookup rather than runtime incident investigation''])
      else if qi_intent q = ''runtime_incident'' \<and> ''logs'' \<notin> set available then
        (False, [''runtime investigation requires logs''])
      else if qi_intent q = ''deploy_regression'' \<and> ''deploy'' \<notin> set available then
        (False, [''deploy analysis requires deploy history or diffs''])
      else if qi_intent q = ''previous_incident'' \<and> ''incident'' \<notin> set available then
        (False, [''incident history lookup requires incident reports or postmortems''])
      else (True, []))"

section \<open>What a query names\<close>

definition rx_hash :: rx where    \<comment> \<open>\<open>([a-f0-9]{6,40})\<close>, ignoring case\<close>
  "rx_hash = RGroup 1 (rx_times 6 40 (RSet c_hex))"

definition rx_deploy_hash :: rx where
  "rx_deploy_hash = rx_seq [RWordEdge, rx_hash, RWordEdge]"

definition rx_explicit_hash :: rx where
  "rx_explicit_hash = rx_seq [rx_alt (map rx_lit_ci [''deploy'', ''release'', ''commit'', ''sha'', ''revision'']),
     rx_plus (RSet (\<lambda>c. is_space c \<or> c_in ''_:=#-'' c)), rx_hash]"

definition extract_deploy_hash :: "string \<Rightarrow> string option" where
  "extract_deploy_hash s = (case re_search rx_explicit_hash s of
      Some m \<Rightarrow> Some (py_lower (group_text m 1))
    | None \<Rightarrow> map_option (\<lambda>m. py_lower (group_text m 1)) (re_search rx_deploy_hash s))"

definition rx_http_endpoint :: rx where    \<comment> \<open>\<open>(?:GET|POST|PUT|DELETE|PATCH)\s+(/\S+)\<close>\<close>
  "rx_http_endpoint = rx_seq [rx_alt (map rx_lit [''GET'', ''POST'', ''PUT'', ''DELETE'', ''PATCH'']), rx_plus (RSet is_space),
     RGroup 1 (rx_seq [rx_char CHR ''/'', rx_plus (RSet (\<lambda>c. \<not> is_space c))])]"

definition extract_endpoints :: "string \<Rightarrow> string list" where
  "extract_endpoints s = map (\<lambda>m. group_text m 1) (re_findall rx_http_endpoint s)"

definition rx_query_endpoint :: rx where    \<comment> \<open>\<open>(/\w[\w/-]*)\<close>\<close>
  "rx_query_endpoint = RGroup 1 (rx_seq [rx_char CHR ''/'', RSet is_word, rx_star (RSet (\<lambda>c. is_word c \<or> c_in ''/-'' c))])"

definition rx_service :: rx where    \<comment> \<open>\<open>\b([a-z][a-z0-9_-]{2,40})(?:\s+service)?\b\<close>, ignoring case\<close>
  "rx_service = rx_seq [RWordEdge,
     RGroup 1 (rx_seq [RSet c_alpha, rx_times 2 40 (RSet (\<lambda>c. c_alnum c \<or> c_in ''_-'' c))]),
     rx_opt (rx_seq [rx_plus (RSet is_space), rx_lit_ci ''service'']), RWordEdge]"

definition service_stopwords :: "string list" where
  "service_stopwords = [''a'', ''an'', ''are'', ''application'', ''app'', ''backend'', ''configured'', ''configuration'', ''database'',
     ''defined'', ''deployment'', ''deployments'', ''fastapi'', ''settings'', ''used'', ''the'', ''why'', ''what'', ''when'', ''where'',
     ''who'', ''how'', ''did'', ''does'', ''after'', ''before'', ''last'', ''increase'', ''increased'', ''slow'', ''slower'', ''spike'',
     ''spiked'', ''latency'', ''timeout'', ''timeouts'', ''error'', ''errors'', ''rate'', ''question'', ''deploy'', ''release'',
     ''incident'', ''investigation'', ''query'', ''logs'', ''docs'', ''config'', ''get'', ''post'', ''put'', ''delete'', ''patch'',
     ''which'', ''parts'', ''repo'']"

record query_info =
  qf_services :: "string list"
  qf_deploy_hashes :: "string list"
  qf_endpoints :: "string list"
  qf_query_intent :: "json dict"
  qf_query_terms :: "string list"

text \<open>
  \<open>list.extend\<close> with a generator that tests membership in the list being extended adds each hash once.
\<close>

definition query_hashes :: "string \<Rightarrow> string list" where
  "query_hashes qtext =
     fold (\<lambda>h hs. if h \<in> set hs then hs else hs @ [h]) (map (\<lambda>m. py_lower (group_text m 1)) (re_findall rx_deploy_hash qtext))
       (case extract_deploy_hash qtext of None \<Rightarrow> [] | Some h \<Rightarrow> if h = [] then [] else [h])"

definition analyze_query :: "string \<Rightarrow> query_info" where
  "analyze_query qtext =
     (let endpoints = map (\<lambda>m. group_text m 1) (re_findall rx_query_endpoint qtext);
          hashes = query_hashes qtext;
          candidates = map (\<lambda>m. py_lower (group_text m 1)) (re_findall rx_service (py_lower qtext));
          services = filter (\<lambda>c. c \<notin> set service_stopwords \<and> \<not> starts_with c ''http'' \<and> c \<notin> set endpoints \<and> c \<notin> set hashes)
                       candidates;
          intent = classify_query_intent qtext
      in \<lparr>qf_services = take 5 (dedupe services), qf_deploy_hashes = hashes, qf_endpoints = endpoints,
          qf_query_intent = intent_dict intent, qf_query_terms = qi_query_terms intent\<rparr>)"

section \<open>Investigations: task, entities, scope\<close>

definition classify_task :: "string \<Rightarrow> string" where
  "classify_task qtext = (let lower = py_lower qtext in
     if any_in [''latency'', ''slow'', ''slower'', ''spike'', ''p95'', ''p99''] lower then ''latency_investigation''
     else if any_in [''5xx'', ''error rate'', ''error spike'', ''500'', ''502'', ''503'', ''504''] lower then ''error_rate_investigation''
     else if any_in [''deploy'', ''release'', ''regression''] lower then ''deploy_regression''
     else if any_in [''timeout'', ''timed out''] lower then ''timeout_investigation''
     else if any_in [''previous incident'', ''happened before'', ''similar incident''] lower then ''previous_incident_lookup''
     else ''generic_incident_question'')"

record entities =
  ent_service_name :: "string option"
  ent_endpoint :: "string option"
  ent_deploy_hash :: "string option"
  ent_symptom :: "string option"
  ent_time_window :: "string dict option"
  ent_raw_matches :: query_info

definition symptom_patterns :: "(string \<times> string list) list" where
  "symptom_patterns = [
     (''latency'', [''latency'', ''slow'', ''p95'', ''p99'', ''slower'']),
     (''timeout'', [''timeout'', ''timed out'', ''504'']),
     (''error_rate'', [''5xx'', ''500'', ''502'', ''503'', ''error rate'', ''errors'']),
     (''crash'', [''crash'', ''segfault'', ''panic'']),
     (''memory'', [''memory'', ''oom'', ''heap'']),
     (''database'', [''database'', ''db'', ''postgres'', ''mysql'', ''sql'']),
     (''auth'', [''auth'', ''login'', ''token'', ''permission'']),
     (''payment'', [''payment'', ''charge'', ''billing'']),
     (''queue'', [''queue'', ''kafka'', ''rabbit'', ''consumer'', ''lag''])]"

definition symptom_of :: "string \<Rightarrow> string option" where
  "symptom_of lower = map_option fst (find (\<lambda>(_, ps). any_in ps lower) symptom_patterns)"

definition rx_time_window :: rx where
  "rx_time_window = rx_seq [RWordEdge, RGroup 1 (RAlt
       (rx_seq [rx_lit_ci ''last'', rx_plus (RSet is_space), rx_plus (RSet is_digit), rx_plus (RSet is_space),
          rx_alt (map rx_lit_ci [''m'', ''minutes'', ''h'', ''hours'', ''d'', ''days''])])
       (rx_seq [rx_lit_ci ''between'', rx_plus (RSet is_space), RRep 1 None False (RSet (\<lambda>c. cp c \<noteq> 10))])),
     RWordEdge]"

definition head_opt :: "'a list \<Rightarrow> 'a option" where
  "head_opt xs = (case xs of [] \<Rightarrow> None | x # _ \<Rightarrow> Some x)"

definition extract_entities :: "string \<Rightarrow> entities" where
  "extract_entities qtext = (let info = analyze_query qtext in
     \<lparr>ent_service_name = head_opt (qf_services info), ent_endpoint = head_opt (qf_endpoints info),
      ent_deploy_hash = head_opt (qf_deploy_hashes info), ent_symptom = symptom_of (py_lower qtext),
      ent_time_window = map_option (\<lambda>m. [(''raw'', group_text m 1)]) (re_search rx_time_window qtext),
      ent_raw_matches = info\<rparr>)"

record scope =
  sc_filters :: "string dict"
  sc_query_variants :: "string list"
  sc_time_window :: "json dict option"

text \<open>A value is used when it is present and not the empty string.\<close>

definition used :: "string option \<Rightarrow> string list" where
  "used v = (case v of None \<Rightarrow> [] | Some s \<Rightarrow> if s = [] then [] else [s])"

definition resolve_scope :: "entities \<Rightarrow> scope" where
  "resolve_scope e =
     \<lparr>sc_filters = map (\<lambda>s. (''endpoint'', s)) (used (ent_endpoint e)) @ map (\<lambda>s. (''deploy_hash'', s)) (used (ent_deploy_hash e)),
      sc_query_variants = used (ent_service_name e) @ used (ent_endpoint e) @ map (\<lambda>s. ''deploy '' @ s) (used (ent_deploy_hash e))
        @ map (replace_char CHR ''_'' CHR '' '') (used (ent_symptom e)),
      sc_time_window = (case ent_time_window e of
          Some (w # ws) \<Rightarrow> Some (map (\<lambda>(k, v). (k, JStr v)) (w # ws))
        | _ \<Rightarrow> map_option (\<lambda>h. [(''relative_to'', JStr h), (''before_minutes'', JInt 15), (''after_minutes'', JInt 120)])
                 (head_opt (used (ent_deploy_hash e))))\<rparr>"

end
