(* ===== verification/Search.thy ===== *)
theory Search
  imports Models Settings VectorStore Operations Intent "HOL-Library.Multiset"
begin

text \<open>
  Hybrid search: \<open>retrieval/vector_search.py\<close>, \<open>lexical_search.py\<close>, \<open>metadata_search.py\<close>, \<open>graph_search.py\<close> and
  \<open>hybrid_search.py\<close>. PostgreSQL's text ranking, the embedding of a query, the query cache, Qdrant and the branches that
  time out are arguments. SQL leaves the order of ties and of an unordered \<open>LIMIT\<close> open; the model keeps the table order.
  A cached query classification has the form this program stores. The debug answer of a search is not modelled.
\<close>

section \<open>Rows\<close>

record loaded_chunk =    \<comment> \<open>a chunk with its document, as \<open>selectinload\<close> fetches it\<close>
  lc_chunk :: chunk_row
  lc_document :: "document_row option"

definition load_chunk :: "db \<Rightarrow> chunk_row \<Rightarrow> loaded_chunk" where
  "load_chunk d c = \<lparr>lc_chunk = c, lc_document = row_with doc_id (chunk_document_id c) (documents d)\<rparr>"

abbreviation lc_id :: "loaded_chunk \<Rightarrow> uid" where
  "lc_id l \<equiv> chunk_id (lc_chunk l)"

abbreviation lc_metadata :: "loaded_chunk \<Rightarrow> json dict" where
  "lc_metadata l \<equiv> or_empty (chunk_metadata_json (lc_chunk l))"

definition doc_path_of :: "loaded_chunk \<Rightarrow> string" where
  "doc_path_of l = (case lc_document l of None \<Rightarrow> [] | Some d \<Rightarrow> opt_str (doc_path d))"

text \<open>The path of the document, else the one in the metadata (a string where the indexer wrote it).\<close>

definition json_text :: "json \<Rightarrow> string" where
  "json_text v = (case v of JStr s \<Rightarrow> s | _ \<Rightarrow> [])"

definition chunk_path :: "loaded_chunk \<Rightarrow> string" where
  "chunk_path l = (if doc_path_of l \<noteq> [] then doc_path_of l else json_text (get_or_none (lc_metadata l) ''document_path''))"

record candidate =
  cand_chunk :: loaded_chunk
  cand_score :: rat
  cand_relation_type :: "string option"

definition cand :: "loaded_chunk \<Rightarrow> rat \<Rightarrow> candidate" where
  "cand l s = \<lparr>cand_chunk = l, cand_score = s, cand_relation_type = None\<rparr>"

text \<open>\<open>sorted(xs, key=f, reverse=True)\<close> is stable.\<close>

definition sort_desc :: "('a \<Rightarrow> rat) \<Rightarrow> 'a list \<Rightarrow> 'a list" where
  "sort_desc f xs = sort_key (\<lambda>x. - f x) xs"

text \<open>SQL \<open>LIKE\<close>: \<open>%\<close> is any text, \<open>_\<close> any character, a backslash quotes.\<close>

fun sql_like :: "string \<Rightarrow> string \<Rightarrow> bool" where
  "sql_like [] s = (s = [])"
| "sql_like (p # ps) [] = (p = CHR ''%'' \<and> sql_like ps [])"
| "sql_like (p # ps) (c # cs) =
     (if p = CHR ''%'' then sql_like ps (c # cs) \<or> sql_like (p # ps) cs
      else if p = CHR ''_'' then sql_like ps cs
      else if cp p = 92 \<and> ps \<noteq> [] then hd ps = c \<and> sql_like (tl ps) cs
      else p = c \<and> sql_like ps cs)"

definition like_contains :: "string \<Rightarrow> string \<Rightarrow> bool" where    \<comment> \<open>\<open>LIKE '%t%'\<close>\<close>
  "like_contains t s = sql_like (''%'' @ t @ ''%'') s"

definition ilike_contains :: "string \<Rightarrow> string option \<Rightarrow> bool" where
  "ilike_contains t s = (case s of None \<Rightarrow> False | Some v \<Rightarrow> like_contains (py_lower t) (py_lower v))"

section \<open>The request's filters\<close>

text \<open>A filter that is present and not empty restricts its column.\<close>

definition filter_ok :: "string option dict \<Rightarrow> string \<Rightarrow> string option \<Rightarrow> bool" where
  "filter_ok fs k column = (case dict_get fs k of Some (Some v) \<Rightarrow> v = [] \<or> column = Some v | _ \<Rightarrow> True)"

definition filters_ok :: "string option dict \<Rightarrow> chunk_row \<Rightarrow> bool" where
  "filters_ok fs c \<longleftrightarrow> filter_ok fs ''service_name'' (chunk_service_name c) \<and> filter_ok fs ''deploy_hash'' (chunk_deploy_hash c)
     \<and> filter_ok fs ''chunk_type'' (Some (chunk_chunk_type c)) \<and> filter_ok fs ''endpoint'' (chunk_endpoint c)"

section \<open>The environment\<close>

record search_env =
  rv_http :: "http_reply service"
  rv_numbers :: number_text
  rv_embed :: "effect list \<Rightarrow> string \<Rightarrow> pyfloat list result"
  rv_rank :: "string \<Rightarrow> chunk_row \<Rightarrow> rat option"    \<comment> \<open>\<open>ts_rank_cd\<close> where the chunk matches the text query\<close>
  rv_late :: "string \<Rightarrow> bool"    \<comment> \<open>the branches that exceed their time-out\<close>
  rv_cached_info :: "effect list \<Rightarrow> string \<Rightarrow> query_info option"

section \<open>The four branches\<close>

definition vector_candidates ::
  "search_env \<Rightarrow> settings \<Rightarrow> uid \<Rightarrow> pyfloat list \<Rightarrow> int \<Rightarrow> string option dict \<Rightarrow> candidate list dbact" where
  "vector_candidates env cfg pid embedding k fs =
     (if retrieval_backend cfg \<noteq> ''qdrant'' then raise (RuntimeError ''Configured vector backend is unsupported'')
      else bind_act (vector_search (rv_http env) (of_text (rv_numbers env)) cfg pid embedding k fs) (\<lambda>found.
        query (\<lambda>d. List.map_filter (\<lambda>h.
            map_option (\<lambda>c. cand (load_chunk d c) (hit_score h))
              (row_with chunk_id (hit_chunk_id h) (filter (\<lambda>c. chunk_project_id c = pid) (chunks d)))) found)))"

definition lexical_search :: "search_env \<Rightarrow> uid \<Rightarrow> string \<Rightarrow> int \<Rightarrow> string option dict \<Rightarrow> candidate list dbact" where
  "lexical_search env pid q k fs =
     query (\<lambda>d. take (nat k) (sort_desc cand_score (List.map_filter
       (\<lambda>c. if chunk_project_id c = pid \<and> filters_ok fs c then map_option (cand (load_chunk d c)) (rv_rank env q c) else None)
       (chunks d))))"

definition ignored_terms :: "string list" where
  "ignored_terms = [''about'', ''after'', ''before'', ''does'', ''from'', ''implemented'', ''implementation'', ''investigate'',
     ''latency'', ''parts'', ''question'', ''relevant'', ''service'', ''that'', ''the'', ''this'', ''what'', ''when'', ''where'',
     ''which'', ''with'']"

definition normalized_strings :: "string list \<Rightarrow> string list" where
  "normalized_strings xs = sorted_set (map (\<lambda>s. py_strip (py_lower s)) (filter (\<lambda>s. py_strip s \<noteq> []) xs))"

definition path_terms :: "string list \<Rightarrow> string list" where
  "path_terms xs = take 8 (sorted_set (map py_lower (filter (\<lambda>t. 4 \<le> length t \<and> py_lower t \<notin> set ignored_terms) xs)))"

definition lower_in :: "string option \<Rightarrow> string list \<Rightarrow> bool" where
  "lower_in v xs = (case v of None \<Rightarrow> False | Some s \<Rightarrow> py_lower s \<in> set xs)"

text \<open>\<open>metadata ->> key\<close> of a scalar; lists and objects print with a bracket and equal no term.\<close>

definition astext :: "json \<Rightarrow> string option" where
  "astext v = (case v of JStr s \<Rightarrow> Some s | JInt n \<Rightarrow> Some (str_of_int n) | JFloat _ t \<Rightarrow> Some t
     | JBool b \<Rightarrow> Some (if b then ''true'' else ''false'') | _ \<Rightarrow> None)"

definition metadata_predicates ::
  "string list \<Rightarrow> string list \<Rightarrow> string list \<Rightarrow> string list \<Rightarrow> (chunk_row \<Rightarrow> document_row \<Rightarrow> bool) list" where
  "metadata_predicates services hashes endpoints terms =
     (if services = [] then [] else [\<lambda>c _. lower_in (chunk_service_name c) services])
     @ (if hashes = [] then [] else [\<lambda>c _. lower_in (chunk_deploy_hash c) hashes])
     @ map (\<lambda>e c _. ilike_contains e (chunk_endpoint c)) endpoints
     @ concat (map (\<lambda>t.
         [\<lambda>c _. map_option py_lower (astext (get_or_none (or_empty (chunk_metadata_json c)) ''symbol_name'')) = Some t,
          \<lambda>c _. map_option py_lower (astext (get_or_none (or_empty (chunk_metadata_json c)) ''symbol'')) = Some t,
          \<lambda>_ d. ilike_contains t (doc_path d)]) terms)"

text \<open>The elements of \<open>value or []\<close> in a display; iterating a number raises.\<close>

definition json_elements :: "json \<Rightarrow> json list result" where
  "json_elements v = (if \<not> truthy v then Inr [] else case v of
      JList xs \<Rightarrow> Inr xs | JStr s \<Rightarrow> Inr (map (\<lambda>c. JStr [c]) s) | JObj d \<Rightarrow> Inr (map (\<lambda>(k, _). JStr k) d)
    | _ \<Rightarrow> Inl (TypeError ''Value after * must be an iterable''))"

definition str_values :: "json list \<Rightarrow> string list" where
  "str_values vs = List.map_filter (\<lambda>v. case v of JStr s \<Rightarrow> Some s | _ \<Rightarrow> None) vs"

definition contains_count :: "string list \<Rightarrow> string \<Rightarrow> nat" where
  "contains_count terms s = length (filter (\<lambda>t. str_contains t s) terms)"

definition exact_score :: "loaded_chunk \<Rightarrow> string list \<Rightarrow> string list \<Rightarrow> string list \<Rightarrow> string list \<Rightarrow> rat result" where
  "exact_score l services hashes endpoints terms =
     (let c = lc_chunk l; md = lc_metadata l; g = get_or_none md in
      rbind (json_elements (g ''symbol_names'')) (\<lambda>names.
        let symbols = map py_lower (str_values (g ''symbol_name'' # g ''symbol'' # names));
            path = py_lower (chunk_path l)
        in Inr ((if opt_str (chunk_service_name c) \<noteq> [] \<and> lower_in (chunk_service_name c) services then 4 else 0)
              + (if opt_str (chunk_deploy_hash c) \<noteq> [] \<and> lower_in (chunk_deploy_hash c) hashes then 4 else 0)
              + (if opt_str (chunk_endpoint c) \<noteq> [] \<and> list_ex (\<lambda>e. str_contains e (py_lower (opt_str (chunk_endpoint c)))) endpoints
                 then 5 else 0)
              + 3 * of_nat (length (filter (\<lambda>t. t \<in> set symbols) terms))
              + min 2 (of_nat (contains_count terms path)))))"

fun score_all :: "('a \<Rightarrow> rat result) \<Rightarrow> ('a \<Rightarrow> loaded_chunk) \<Rightarrow> 'a list \<Rightarrow> candidate list result" where
  "score_all f g [] = Inr []"
| "score_all f g (x # xs) = rbind (f x) (\<lambda>r. rbind (score_all f g xs) (\<lambda>cs. Inr (cand (g x) r # cs)))"

definition metadata_rows ::
  "uid \<Rightarrow> (chunk_row \<Rightarrow> document_row \<Rightarrow> bool) list \<Rightarrow> int \<Rightarrow> string option dict \<Rightarrow> db \<Rightarrow> loaded_chunk list" where
  "metadata_rows pid preds k fs d = take (nat (max (k * 3) k))
     (filter (\<lambda>l. case lc_document l of None \<Rightarrow> False
                | Some doc \<Rightarrow> list_ex (\<lambda>p. p (lc_chunk l) doc) preds)
        (map (load_chunk d) (filter (\<lambda>c. chunk_project_id c = pid \<and> filters_ok fs c) (chunks d))))"

definition metadata_search :: "uid \<Rightarrow> query_info \<Rightarrow> int \<Rightarrow> string option dict \<Rightarrow> candidate list dbact" where
  "metadata_search pid info k fs =
     (let services = normalized_strings (qf_services info); hashes = normalized_strings (qf_deploy_hashes info);
          endpoints = normalized_strings (qf_endpoints info); terms = path_terms (qf_query_terms info);
          preds = metadata_predicates services hashes endpoints terms
      in if preds = [] then ret []
         else bind_act (query (metadata_rows pid preds k fs)) (\<lambda>rows.
              lift_result (rbind (score_all (\<lambda>l. exact_score l services hashes endpoints terms) id rows)
                (\<lambda>cs. Inr (take (nat k) (sort_desc cand_score cs))))))"

definition graph_terms :: "query_info \<Rightarrow> string list" where
  "graph_terms info =
     (let service_values = map py_lower (qf_services info) in
      take 8 (sorted_set (map py_lower (filter
        (\<lambda>v. (if py_lower v \<in> set service_values then 3 \<le> length v else 4 \<le> length v)
           \<and> py_lower v \<notin> {''where'', ''which'', ''service'', ''architecture''})
        (qf_services info @ qf_endpoints info @ qf_query_terms info)))))"

definition relation_score :: "relation_row \<Rightarrow> string list \<Rightarrow> rat" where
  "relation_score r terms = of_nat (contains_count terms (py_lower (rel_from_key r @ '' '' @ rel_to_key r)))
     + (if rel_relation_type r \<in> {''defines'', ''implements''} then 1 else 0)"

text \<open>A chunk keeps the place of its first relation and the best score.\<close>

fun better_candidate :: "candidate \<Rightarrow> candidate list \<Rightarrow> candidate list" where
  "better_candidate c [] = [c]"
| "better_candidate c (x # xs) =
     (if lc_id (cand_chunk x) = lc_id (cand_chunk c) then (if cand_score c > cand_score x then c else x) # xs
      else x # better_candidate c xs)"

definition graph_rows :: "uid \<Rightarrow> string list \<Rightarrow> int \<Rightarrow> db \<Rightarrow> (relation_row \<times> chunk_row) list" where
  "graph_rows pid terms k d = take (nat (max (k * 4) k)) (List.map_filter
     (\<lambda>r. if rel_project_id r = pid \<and> list_ex (\<lambda>t. like_contains t (py_lower (rel_from_key r)) \<or> like_contains t (py_lower (rel_to_key r))) terms
          then map_option (\<lambda>c. (r, c)) (row_with chunk_id (rel_evidence_chunk_id r) (chunks d)) else None)
     (evidence_relations d))"

definition graph_search :: "uid \<Rightarrow> query_info \<Rightarrow> int \<Rightarrow> candidate list dbact" where
  "graph_search pid info k =
     (let terms = graph_terms info in
      if terms = [] then ret []
      else query (\<lambda>d. take (nat k) (sort_desc cand_score (fold
        (\<lambda>(r, c). better_candidate \<lparr>cand_chunk = load_chunk d c, cand_score = relation_score r terms,
                                    cand_relation_type = Some (rel_relation_type r)\<rparr>)
        (graph_rows pid terms k d) []))))"


section \<open>Running the branches\<close>

definition safe_branch_error :: "py_exn \<Rightarrow> string" where
  "safe_branch_error e = (if e = TimeoutError then ''timeout'' else exn_class e)"

text \<open>\<open>wait_for\<close> cancels a branch that takes too long; a failed branch has no candidates and its error is noted.\<close>

definition with_timeout :: "bool \<Rightarrow> 'a dbact \<Rightarrow> 'a dbact" where
  "with_timeout late m = (if late then then_act m (raise TimeoutError) else m)"

type_synonym branch_result = "candidate list \<times> string dict"

definition run_branch :: "search_env \<Rightarrow> string \<Rightarrow> candidate list dbact \<Rightarrow> branch_result dbact" where
  "run_branch env name m = try_act (bind_act (with_timeout (rv_late env name) m) (\<lambda>cs. ret (cs, [])))
     (\<lambda>e. ret ([], [(name, safe_branch_error e)]))"

text \<open>A session of its own sees the committed rows.\<close>

definition own_session :: "'a dbact \<Rightarrow> 'a dbact" where
  "own_session m s = (case m (s\<lparr>work := committed s\<rparr>) of (r, t) \<Rightarrow> (r, s\<lparr>trace := trace t\<rparr>))"

record branches =
  br_vector :: "candidate list"
  br_lexical :: "candidate list"
  br_metadata :: "candidate list"
  br_graph :: "candidate list"

definition retrieve_branches ::
  "search_env \<Rightarrow> settings \<Rightarrow> uid \<Rightarrow> string \<Rightarrow> pyfloat list \<Rightarrow> query_info \<Rightarrow> query_intent \<Rightarrow> int \<Rightarrow> string option dict
    \<Rightarrow> (branches \<times> string dict) dbact" where
  "retrieve_branches env cfg pid q embedding info intent k fs =
     (let session = (if rag_parallel_retrieval cfg then own_session else id) in
      bind_act (if embedding = [] then ret ([], [])
                else run_branch env ''vector'' (session (vector_candidates env cfg pid embedding k fs))) (\<lambda>(v, ev).
      bind_act (run_branch env ''lexical'' (session (lexical_search env pid q k fs))) (\<lambda>(l, el).
      bind_act (run_branch env ''metadata'' (session (metadata_search pid info k fs))) (\<lambda>(m, em).
      bind_act (run_branch env ''graph''
          (if qi_intent intent = ''architecture'' then session (graph_search pid info k) else ret [])) (\<lambda>(g, eg).
        ret (\<lparr>br_vector = v, br_lexical = l, br_metadata = m, br_graph = g\<rparr>, ev @ el @ em @ eg))))))"

section \<open>Fusion\<close>

record fused =
  fz_chunk :: loaded_chunk
  fz_vector_score :: rat
  fz_lexical_score :: rat
  fz_metadata_score :: rat
  fz_graph_score :: rat
  fz_branch_ranks :: "nat dict"
  fz_rrf_score :: rat

definition new_entry :: "loaded_chunk \<Rightarrow> fused" where
  "new_entry l = \<lparr>fz_chunk = l, fz_vector_score = 0, fz_lexical_score = 0, fz_metadata_score = 0, fz_graph_score = 0,
     fz_branch_ranks = [], fz_rrf_score = 0\<rparr>"

definition set_branch_score :: "string \<Rightarrow> rat \<Rightarrow> fused \<Rightarrow> fused" where
  "set_branch_score name s f =
     (if name = ''vector'' then f\<lparr>fz_vector_score := s\<rparr> else if name = ''lexical'' then f\<lparr>fz_lexical_score := s\<rparr>
      else if name = ''metadata'' then f\<lparr>fz_metadata_score := s\<rparr> else f\<lparr>fz_graph_score := s\<rparr>)"

definition rank_points :: "int \<Rightarrow> rat \<Rightarrow> nat \<Rightarrow> rat" where
  "rank_points rrf_k weight rank = max weight 0 / (of_int (max rrf_k 1) + of_nat rank) * 100"

definition credit :: "string \<Rightarrow> int \<Rightarrow> rat \<Rightarrow> nat \<Rightarrow> rat \<Rightarrow> fused \<Rightarrow> fused" where
  "credit name rrf_k weight rank s f = set_branch_score name s
     (f\<lparr>fz_branch_ranks := dict_set name rank (fz_branch_ranks f), fz_rrf_score := fz_rrf_score f + rank_points rrf_k weight rank\<rparr>)"

fun update_entry :: "loaded_chunk \<Rightarrow> (fused \<Rightarrow> fused) \<Rightarrow> fused list \<Rightarrow> fused list" where
  "update_entry l f [] = [f (new_entry l)]"
| "update_entry l f (e # es) = (if lc_id (fz_chunk e) = lc_id l then f e # es else e # update_entry l f es)"

fun add_branch :: "string \<Rightarrow> int \<Rightarrow> rat \<Rightarrow> nat \<Rightarrow> candidate list \<Rightarrow> fused list \<Rightarrow> fused list" where
  "add_branch name rrf_k weight rank [] es = es"
| "add_branch name rrf_k weight rank (c # cs) es =
     add_branch name rrf_k weight (Suc rank) cs
       (update_entry (cand_chunk c) (credit name rrf_k weight rank (cand_score c)) es)"

definition weighted_rrf :: "branches \<Rightarrow> rat \<Rightarrow> rat \<Rightarrow> rat \<Rightarrow> rat \<Rightarrow> int \<Rightarrow> fused list" where
  "weighted_rrf b vw lw mw gw rrf_k =
     add_branch ''graph'' rrf_k gw 1 (br_graph b)
       (add_branch ''metadata'' rrf_k mw 1 (br_metadata b)
         (add_branch ''lexical'' rrf_k lw 1 (br_lexical b)
           (add_branch ''vector'' rrf_k vw 1 (br_vector b) [])))"

section \<open>The metadata boost\<close>

definition source_type_names :: "string dict" where
  "source_type_names = [(''deploy_history'', ''deploy''), (''patch'', ''deploy''), (''incident_report'', ''incident''),
     (''markdown'', ''runbook''), (''unknown'', ''unknown_text'')]"

definition code_chunk_types :: "string list" where
  "code_chunk_types = [''function'', ''class'', ''module'', ''code_file'', ''go_fallback'', ''python_fallback'', ''ts_fallback'',
     ''js_fallback'', ''java_fallback'', ''go_function'', ''go_method'', ''go_type'', ''go_struct'', ''go_interface'', ''go_module'',
     ''python_function'', ''python_class'', ''ts_function'', ''ts_class'', ''ts_interface'', ''java_method'', ''java_class'',
     ''java_interface'']"

definition deploy_chunk_types :: "string list" where
  "deploy_chunk_types = [''deploy_diff'', ''deploy_commit'']"

definition log_chunk_types :: "string list" where
  "log_chunk_types = [''log_window'', ''error_cluster'', ''log_time_window'', ''log_error_burst'']"

definition incident_chunk_types :: "string list" where
  "incident_chunk_types = [''incident_section'', ''incident_symptom'', ''incident_timeline'', ''incident_root_cause'', ''incident_action'']"

definition api_chunk_types :: "string list" where
  "api_chunk_types = [''api_endpoint'', ''openapi_endpoint'', ''openapi_schema'', ''proto_service'', ''proto_rpc'', ''proto_message'',
     ''proto_enum'', ''proto_preamble'', ''proto_fallback'']"

definition config_chunk_types :: "string list" where
  "config_chunk_types = [''config_section'', ''config_service_block'', ''env_var_block'', ''dependency_block'', ''config_fallback'']"

definition markdown_chunk_types :: "string list" where
  "markdown_chunk_types = [''markdown_section'', ''markdown_heading_section'', ''markdown_procedure'', ''markdown_table'', ''markdown_faq'']"

definition chunk_source_type :: "loaded_chunk \<Rightarrow> string" where
  "chunk_source_type l =
     (case get_or_none (lc_metadata l) ''source_type'' of
        JStr raw \<Rightarrow> dict_get_or raw source_type_names raw
      | _ \<Rightarrow> (let t = py_lower (chunk_chunk_type (lc_chunk l)) in
          if t \<in> set deploy_chunk_types then ''deploy''
          else if t \<in> set log_chunk_types then ''logs''
          else if t \<in> set code_chunk_types then ''code''
          else if t \<in> set incident_chunk_types then ''incident''
          else if t \<in> set api_chunk_types then ''api_doc''
          else if t \<in> set config_chunk_types then ''config''
          else if t \<in> set markdown_chunk_types then
            (let p = py_lower (if doc_path_of l \<noteq> [] then doc_path_of l
                               else py_str (dict_get_or (JStr []) (lc_metadata l) ''document_path''))
             in if any_in [''api'', ''openapi'', ''swagger''] p then ''api_doc'' else ''runbook'')
          else ''unknown_text''))"

definition chunk_type_boosts :: "rat dict" where
  "chunk_type_boosts =
     map (\<lambda>t. (t, 14 / 100)) [''go_function'', ''go_method'', ''python_function'', ''ts_function'', ''java_method'',
       ''config_service_block'', ''openapi_endpoint'', ''proto_rpc'', ''error_cluster'', ''log_error_burst'', ''incident_root_cause'']
     @ map (\<lambda>t. (t, 12 / 100)) [''go_type'', ''go_struct'', ''go_interface'', ''python_class'', ''ts_class'', ''ts_interface'',
       ''java_class'', ''java_interface'', ''function'', ''class'', ''config_section'', ''env_var_block'', ''dependency_block'',
       ''proto_service'', ''markdown_procedure'', ''log_window'', ''log_time_window'', ''deploy_diff'', ''deploy_commit'',
       ''incident_section'', ''incident_symptom'', ''incident_timeline'', ''incident_action'']
     @ map (\<lambda>t. (t, 10 / 100)) [''api_endpoint'', ''openapi_schema'', ''release_note'']
     @ map (\<lambda>t. (t, 8 / 100)) [''go_module'', ''module'', ''proto_message'', ''proto_enum'', ''markdown_section'',
       ''markdown_heading_section'', ''markdown_table'', ''markdown_faq'']
     @ [(''code_file'', 5 / 100)]
     @ map (\<lambda>t. (t, 4 / 100)) [''go_fallback'', ''python_fallback'', ''ts_fallback'', ''js_fallback'', ''java_fallback'']"

text \<open>The long enough runs between the separators \<open>[^a-z0-9_./-]+\<close>.\<close>

definition tokenize :: "string \<Rightarrow> string list" where
  "tokenize v = filter (\<lambda>t. 3 \<le> length t) (map m_text (re_findall rx_query_token (py_lower v)))"

definition metadata_terms :: "json dict \<Rightarrow> string list" where
  "metadata_terms md = concat (map (\<lambda>k. case get_or_none md k of JStr s \<Rightarrow> tokenize s | _ \<Rightarrow> [])
       [''language'', ''service_name'', ''module_path'', ''package_path'', ''package_name'', ''title'', ''severity'', ''config_key'',
        ''symbol'', ''symbol_name'', ''kind''])
     @ concat (map (\<lambda>k. case get_or_none md k of JList vs \<Rightarrow> concat (map tokenize (str_values vs)) | _ \<Rightarrow> [])
       [''symbol_names'', ''function_names'', ''class_names'', ''headings'', ''endpoint_candidates'', ''api_paths'', ''log_levels'',
        ''error_codes'', ''config_keys_summary'', ''release_markers''])"

definition should_penalize_readme :: "query_intent \<Rightarrow> string \<Rightarrow> bool" where
  "should_penalize_readme intent lower_path \<longleftrightarrow> qi_intent intent \<notin> {''architecture'', ''generic''}
     \<and> any_in [''readme.md'', ''/readme.md''] lower_path
     \<and> qi_intent intent \<in> {''code_location'', ''config_lookup'', ''api_contract'', ''runtime_incident'', ''deploy_regression'',
         ''previous_incident'', ''runbook_lookup''}"

definition boost_if :: "bool \<Rightarrow> rat \<Rightarrow> string \<Rightarrow> (rat \<times> string) list" where
  "boost_if b x reason = (if b then [(x, reason)] else [])"

text \<open>The boosts and penalties in the order the code adds them.\<close>

definition match_boosts :: "loaded_chunk \<Rightarrow> query_info \<Rightarrow> query_intent \<Rightarrow> (rat \<times> string) list" where
  "match_boosts l info intent =
     (let c = lc_chunk l; st = chunk_source_type l; ct = py_lower (chunk_chunk_type c); ep = opt_str (chunk_endpoint c);
          matched = take 4 (sorted_set (filter (\<lambda>t. t \<in> set (metadata_terms (lc_metadata l))) (qf_query_terms info)))
      in boost_if (opt_str (chunk_deploy_hash c) \<noteq> [] \<and> py_lower (opt_str (chunk_deploy_hash c)) \<in> set (qf_deploy_hashes info))
           (18 / 100) ''deploy_hash_match''
       @ boost_if (opt_str (chunk_service_name c) \<noteq> [] \<and> py_lower (opt_str (chunk_service_name c)) \<in> set (qf_services info))
           (12 / 100) ''service_name_match''
       @ boost_if (ep \<noteq> [] \<and> list_ex (\<lambda>e. str_contains e ep \<or> str_contains ep e) (qf_endpoints info)) (12 / 100) ''endpoint_match''
       @ boost_if (st \<in> set (qi_preferred_source_types intent)) (16 / 100) (''intent_source:'' @ st)
       @ boost_if (ct \<in> set (qi_preferred_chunk_types intent)) (dict_get_or (8 / 100) chunk_type_boosts ct) (''intent_chunk:'' @ ct)
       @ boost_if (matched \<noteq> []) (5 / 100 * of_nat (min (length matched) 3)) (''metadata_terms:'' @ join_with '','' matched))"

definition intent_boosts :: "loaded_chunk \<Rightarrow> query_intent \<Rightarrow> (rat \<times> string) list" where
  "intent_boosts l intent =
     (let i = qi_intent intent; st = chunk_source_type l; p = py_lower (chunk_path l); has = (\<lambda>k. truthy (get_or_none (lc_metadata l) k))
      in boost_if (i = ''config_lookup'' \<and> any_in [''docker'', ''compose'', ''helm'', ''openapi'', ''swagger'', ''config'', ''.env'',
             ''.yaml'', ''.yml'', ''.toml'', ''.ini'', ''.json''] p) (12 / 100) ''config_path_match''
       @ boost_if (i = ''api_contract'' \<and> any_in [''api'', ''openapi'', ''swagger'', ''.proto'', ''proto/'', ''routes'', ''router''] p)
           (12 / 100) ''api_contract_path_match''
       @ boost_if (i = ''architecture'' \<and> any_in [''docs/'', ''/docs'', ''architecture'', ''design'', ''overview'', ''readme''] p)
           (10 / 100) ''architecture_doc_match''
       @ boost_if (i = ''code_location'' \<and> any_in [''service/'', ''services/'', ''src/'', ''pkg/'', ''internal/'', ''cmd/'', ''app/''] p)
           (6 / 100) ''code_path_match''
       @ boost_if (i = ''runtime_incident'' \<and> st = ''logs'' \<and> (has ''timestamp_start'' \<or> has ''log_levels'' \<or> has ''trace_ids''))
           (8 / 100) ''runtime_log_metadata''
       @ boost_if (i = ''deploy_regression'' \<and> st = ''deploy'') (8 / 100) ''deploy_regression_source''
       @ boost_if (i = ''previous_incident'' \<and> st = ''incident'' \<and> (has ''incident_date'' \<or> has ''has_root_cause''))
           (8 / 100) ''incident_metadata''
       @ boost_if (i = ''runbook_lookup'' \<and> st = ''runbook'') (8 / 100) ''runbook_source''
       @ boost_if (should_penalize_readme intent p) (- (10 / 100)) ''readme_penalty''
       @ boost_if (i \<in> {''code_location'', ''api_contract''} \<and> st = ''runbook'') (- (24 / 100)) ''wrong_intent_runbook_penalty''
       @ boost_if (i = ''config_lookup'' \<and> st = ''runbook'') (- (12 / 100)) ''generic_runbook_penalty'')"

definition metadata_boost :: "loaded_chunk \<Rightarrow> query_info \<Rightarrow> query_intent \<Rightarrow> rat \<times> string list" where
  "metadata_boost l info intent =
     (let bs = match_boosts l info intent @ intent_boosts l intent in (sum_list (map fst bs), map snd bs))"


section \<open>The search\<close>

record search_result =
  sr_chunk :: loaded_chunk
  sr_vector_score :: rat
  sr_lexical_score :: rat
  sr_metadata_score :: rat
  sr_rrf_score :: rat
  sr_metadata_boost :: rat
  sr_metadata_boost_reasons :: "string list"
  sr_fused_score :: rat
  sr_rerank_score :: "rat option"    \<comment> \<open>set by the reranker\<close>

definition scored_result :: "query_info \<Rightarrow> query_intent \<Rightarrow> fused \<Rightarrow> search_result" where
  "scored_result info intent f =
     (let (b, reasons) = metadata_boost (fz_chunk f) info intent; boost = min b (45 / 100) in
      \<lparr>sr_chunk = fz_chunk f, sr_vector_score = fz_vector_score f, sr_lexical_score = fz_lexical_score f,
       sr_metadata_score = fz_metadata_score f, sr_rrf_score = fz_rrf_score f, sr_metadata_boost = boost,
       sr_metadata_boost_reasons = reasons, sr_fused_score = fz_rrf_score f + boost, sr_rerank_score = None\<rparr>)"

definition exact_lookup :: "query_intent \<Rightarrow> bool" where
  "exact_lookup intent \<longleftrightarrow> qi_intent intent \<in> {''code_location'', ''config_lookup'', ''api_contract''}"

definition fetch_budget :: "settings \<Rightarrow> int \<Rightarrow> query_intent \<Rightarrow> int" where
  "fetch_budget cfg k intent =
     (let base = max 1 (rag_candidate_multiplier cfg);
          raised = (if qi_intent intent \<in> {''runtime_incident'', ''deploy_regression''} then max base 4 else base);
          multiplier = (if exact_lookup intent then 3 else raised)
      in max (k * multiplier) 30)"

definition should_vector_fallback :: "bool \<Rightarrow> branches \<Rightarrow> bool" where
  "should_vector_fallback skip b \<longleftrightarrow> skip \<and> br_lexical b = [] \<and> br_metadata b = [] \<and> br_graph b = []"

definition embed_query :: "search_env \<Rightarrow> string \<Rightarrow> pyfloat list dbact" where
  "embed_query env q s = (rv_embed env (trace s) q, s)"

definition cached_info :: "search_env \<Rightarrow> string \<Rightarrow> query_info option dbact" where
  "cached_info env q s = (Inr (rv_cached_info env (trace s) q), s)"

text \<open>One bounded vector lookup when an exact lookup found nothing; its failure is only noted.\<close>

definition vector_fallback ::
  "search_env \<Rightarrow> settings \<Rightarrow> uid \<Rightarrow> string \<Rightarrow> int \<Rightarrow> string option dict \<Rightarrow> branches \<Rightarrow> string dict \<Rightarrow> (branches \<times> string dict) dbact" where
  "vector_fallback env cfg pid q k fs b errs =
     try_act
       (bind_act (with_timeout (rv_late env ''query_embedding_fallback'') (embed_query env q)) (\<lambda>embedding.
        bind_act (with_timeout (rv_late env ''vector_fallback'') (vector_candidates env cfg pid embedding k fs)) (\<lambda>cs.
        ret (b\<lparr>br_vector := cs\<rparr>, errs))))
       (\<lambda>e. ret (b, dict_set ''vector_fallback'' (safe_branch_error e) errs))"

definition rank_candidates :: "settings \<Rightarrow> query_info \<Rightarrow> query_intent \<Rightarrow> branches \<Rightarrow> search_result list" where
  "rank_candidates cfg info intent b =
     sort_desc sr_fused_score (map (scored_result info intent)
       (weighted_rrf b (vector_weight cfg) (lexical_weight cfg) (metadata_weight cfg) (rag_graph_weight cfg) (rag_rrf_k cfg)))"

definition fuse_branches ::
  "search_env \<Rightarrow> settings \<Rightarrow> uid \<Rightarrow> string \<Rightarrow> int \<Rightarrow> string option dict \<Rightarrow> query_info \<Rightarrow> query_intent \<Rightarrow> pyfloat list
    \<Rightarrow> search_result list dbact" where
  "fuse_branches env cfg pid q k fs info intent embedding =
     (let n = fetch_budget cfg k intent in
      bind_act (retrieve_branches env cfg pid q embedding info intent n fs) (\<lambda>(b, errs).
      bind_act (if should_vector_fallback (exact_lookup intent) b then vector_fallback env cfg pid q n fs b errs
                else ret (b, errs)) (\<lambda>(b', errs').
      ret (py_slice (rank_candidates cfg info intent b') 0 k))))"

definition hybrid_search ::
  "search_env \<Rightarrow> settings \<Rightarrow> uid \<Rightarrow> string \<Rightarrow> int \<Rightarrow> string option dict \<Rightarrow> search_result list dbact" where
  "hybrid_search env cfg pid q k fs =
     bind_act (cached_info env q) (\<lambda>cached.
       let info = (case cached of None \<Rightarrow> analyze_query q | Some i \<Rightarrow> i); intent = classify_query_intent q
       in bind_act (if exact_lookup intent then ret [] else embed_query env q)
            (fuse_branches env cfg pid q k fs info intent))"

text \<open>The parts of the debug answer that count what was ranked.\<close>

definition evidence_mix :: "search_result list \<Rightarrow> int dict \<times> int dict" where
  "evidence_mix rs = (tally (map (\<lambda>r. chunk_source_type (sr_chunk r)) rs),
     tally (map (\<lambda>r. let t = chunk_chunk_type (lc_chunk (sr_chunk r)) in if t = [] then ''unknown'' else t) rs))"

definition reason_counts :: "search_result list \<Rightarrow> bool \<Rightarrow> int dict" where
  "reason_counts rs positive = dict_sorted (tally (filter (\<lambda>reason. str_contains ''penalty'' reason \<noteq> positive)
     (concat (map sr_metadata_boost_reasons rs))))"

section \<open>Sorting and text sets\<close>

lemma set_sort_desc [simp]: "set (sort_desc f xs) = set xs"
  by (simp add: sort_desc_def)

lemma length_sort_desc [simp]: "length (sort_desc f xs) = length xs"
  by (simp add: sort_desc_def)

lemma mset_sort_desc [simp]: "mset (sort_desc f xs) = mset xs"
  by (simp add: sort_desc_def)

lemma sorted_sort_desc: "sorted_wrt (\<lambda>x y. f y \<le> f x) (sort_desc f xs)"
proof -
  have "sorted (map (\<lambda>x. - f x) (sort_desc f xs))" by (simp add: sort_desc_def)
  then show ?thesis by (simp add: sorted_wrt_map)
qed

lemma sort_desc_stable: "filter (\<lambda>y. f y = v) (sort_desc f xs) = filter (\<lambda>y. f y = v) xs"
  using sort_key_stable [of "\<lambda>x. - f x" "- v" xs] by (simp add: sort_desc_def)

lemma set_str_insert [simp]: "set (str_insert x xs) = insert x (set xs)"
  by (induction x xs rule: str_insert.induct) auto

lemma set_sorted_set [simp]: "set (sorted_set xs) = set xs"
  by (induction xs) (auto simp: sorted_set_def)

section \<open>Fusion adds up the branches\<close>

text \<open>The points a branch gives a chunk: one contribution for each place it has in the branch.\<close>

fun branch_points :: "int \<Rightarrow> rat \<Rightarrow> nat \<Rightarrow> candidate list \<Rightarrow> uid \<Rightarrow> rat" where
  "branch_points rrf_k w rank [] i = 0"
| "branch_points rrf_k w rank (c # cs) i =
     (if lc_id (cand_chunk c) = i then rank_points rrf_k w rank else 0) + branch_points rrf_k w (Suc rank) cs i"

definition entry_score :: "fused list \<Rightarrow> uid \<Rightarrow> rat" where
  "entry_score es i = sum_list (map fz_rrf_score (filter (\<lambda>e. lc_id (fz_chunk e) = i) es))"

abbreviation entry_ids :: "fused list \<Rightarrow> uid list" where
  "entry_ids es \<equiv> map (\<lambda>e. lc_id (fz_chunk e)) es"

lemma credit_simps [simp]:
  "fz_chunk (credit name k w r s e) = fz_chunk e"
  "fz_rrf_score (credit name k w r s e) = fz_rrf_score e + rank_points k w r"
  "fz_chunk (new_entry l) = l" "fz_rrf_score (new_entry l) = 0"
  by (simp_all add: credit_def set_branch_score_def new_entry_def)

lemma update_entry_ids:
  "(\<And>e. fz_chunk (f e) = fz_chunk e) \<Longrightarrow>
   entry_ids (update_entry l f es) = (if lc_id l \<in> set (entry_ids es) then entry_ids es else entry_ids es @ [lc_id l])"
  by (induction l f es rule: update_entry.induct) auto

lemma update_entry_score:
  "(\<And>e. fz_chunk (f e) = fz_chunk e) \<Longrightarrow> (\<And>e. fz_rrf_score (f e) = fz_rrf_score e + p) \<Longrightarrow>
   entry_score (update_entry l f es) i = entry_score es i + (if lc_id l = i then p else 0)"
  by (induction l f es rule: update_entry.induct) (auto simp: entry_score_def)

lemma add_branch_score:
  "entry_score (add_branch name k w r cs es) i = entry_score es i + branch_points k w r cs i"
  by (induction name k w r cs es rule: add_branch.induct) (simp_all add: update_entry_score)

lemma add_branch_ids:
  "set (entry_ids (add_branch name k w r cs es)) = set (entry_ids es) \<union> set (map (\<lambda>c. lc_id (cand_chunk c)) cs)
   \<and> (distinct (entry_ids es) \<longrightarrow> distinct (entry_ids (add_branch name k w r cs es)))"
proof (induction name k w r cs es rule: add_branch.induct)
  case (1 name k w r es)
  then show ?case by simp
next
  case (2 name k w r c cs es)
  let ?es = "update_entry (cand_chunk c) (credit name k w r (cand_score c)) es"
  have ids: "entry_ids ?es = (if lc_id (cand_chunk c) \<in> set (entry_ids es) then entry_ids es else entry_ids es @ [lc_id (cand_chunk c)])"
    by (rule update_entry_ids) simp
  with 2 show ?case by auto
qed

lemma entry_score_member: "distinct (entry_ids es) \<Longrightarrow> e \<in> set es \<Longrightarrow> entry_score es (lc_id (fz_chunk e)) = fz_rrf_score e"
proof (induction es)
  case Nil
  then show ?case by simp
next
  case (Cons a es)
  have none: "filter (\<lambda>x. lc_id (fz_chunk x) = lc_id (fz_chunk a)) es = []"
    using Cons.prems(1) by (auto simp: filter_empty_conv image_iff)
  show ?case
  proof (cases "e = a")
    case True
    with none show ?thesis by (simp add: entry_score_def)
  next
    case False
    with Cons.prems have "e \<in> set es" and "lc_id (fz_chunk a) \<noteq> lc_id (fz_chunk e)" by (auto simp: image_iff)
    with Cons show ?thesis by (simp add: entry_score_def)
  qed
qed

lemma update_entry_chunks:
  "(\<And>e. fz_chunk (f e) = fz_chunk e) \<Longrightarrow> fz_chunk ` set (update_entry l f es) \<subseteq> insert l (fz_chunk ` set es)"
  by (induction l f es rule: update_entry.induct) auto

lemma add_branch_chunks:
  "fz_chunk ` set (add_branch name k w r cs es) \<subseteq> fz_chunk ` set es \<union> cand_chunk ` set cs"
proof (induction name k w r cs es rule: add_branch.induct)
  case (1 name k w r es)
  then show ?case by simp
next
  case (2 name k w r c cs es)
  have "fz_chunk ` set (update_entry (cand_chunk c) (credit name k w r (cand_score c)) es)
      \<subseteq> insert (cand_chunk c) (fz_chunk ` set es)"
    by (rule update_entry_chunks) simp
  with 2 show ?case by auto
qed

lemma weighted_rrf_chunks:
  "fz_chunk ` set (weighted_rrf b vw lw mw gw k)
   \<subseteq> cand_chunk ` (set (br_vector b) \<union> set (br_lexical b) \<union> set (br_metadata b) \<union> set (br_graph b))"
proof -
  let ?v = "add_branch ''vector'' k vw 1 (br_vector b) []"
  let ?l = "add_branch ''lexical'' k lw 1 (br_lexical b) ?v"
  let ?m = "add_branch ''metadata'' k mw 1 (br_metadata b) ?l"
  have "fz_chunk ` set (weighted_rrf b vw lw mw gw k) \<subseteq> fz_chunk ` set ?m \<union> cand_chunk ` set (br_graph b)"
    unfolding weighted_rrf_def by (rule add_branch_chunks)
  moreover have "fz_chunk ` set ?m \<subseteq> fz_chunk ` set ?l \<union> cand_chunk ` set (br_metadata b)" by (rule add_branch_chunks)
  moreover have "fz_chunk ` set ?l \<subseteq> fz_chunk ` set ?v \<union> cand_chunk ` set (br_lexical b)" by (rule add_branch_chunks)
  moreover have "fz_chunk ` set ?v \<subseteq> {} \<union> cand_chunk ` set (br_vector b)" using add_branch_chunks [of _ _ _ _ _ "[]"] by simp
  ultimately show ?thesis by blast
qed


text \<open>
  C13. Fusion merges the four ranked branches into one entry for each chunk, and the score of an entry is the sum of the
  weighted reciprocal ranks of every place the chunk has in a branch.\<close>

theorem fusion_adds_weighted_ranks:
  "(let es = weighted_rrf b vw lw mw gw k in
     distinct (entry_ids es)
     \<and> set (entry_ids es) = set (map (\<lambda>c. lc_id (cand_chunk c)) (br_vector b @ br_lexical b @ br_metadata b @ br_graph b))
     \<and> list_all (\<lambda>e. let i = lc_id (fz_chunk e) in
          fz_rrf_score e = branch_points k vw 1 (br_vector b) i + branch_points k lw 1 (br_lexical b) i
            + branch_points k mw 1 (br_metadata b) i + branch_points k gw 1 (br_graph b) i) es)"
proof -
  let ?v = "add_branch ''vector'' k vw 1 (br_vector b) []"
  let ?l = "add_branch ''lexical'' k lw 1 (br_lexical b) ?v"
  let ?m = "add_branch ''metadata'' k mw 1 (br_metadata b) ?l"
  let ?es = "weighted_rrf b vw lw mw gw k"
  note ids = add_branch_ids [of "''vector''" k vw 1 "br_vector b" "[]"] add_branch_ids [of "''lexical''" k lw 1 "br_lexical b" ?v]
    add_branch_ids [of "''metadata''" k mw 1 "br_metadata b" ?l] add_branch_ids [of "''graph''" k gw 1 "br_graph b" ?m]
  have distinct: "distinct (entry_ids ?es)" using ids by (simp add: weighted_rrf_def)
  have "set (entry_ids ?es) = set (map (\<lambda>c. lc_id (cand_chunk c)) (br_vector b @ br_lexical b @ br_metadata b @ br_graph b))"
    using ids by (simp add: weighted_rrf_def) blast
  moreover have "entry_score ?es i = branch_points k vw 1 (br_vector b) i + branch_points k lw 1 (br_lexical b) i
      + branch_points k mw 1 (br_metadata b) i + branch_points k gw 1 (br_graph b) i" for i
    by (simp add: weighted_rrf_def add_branch_score) (simp add: entry_score_def)
  moreover have "fz_rrf_score e = entry_score ?es (lc_id (fz_chunk e))" if "e \<in> set ?es" for e
    using distinct that by (rule entry_score_member [symmetric])
  ultimately show ?thesis using distinct by (simp add: Let_def list_all_iff)
qed

section \<open>What a search returns\<close>

text \<open>Every value a block returns on rows with a property.\<close>

definition yields :: "('d \<Rightarrow> bool) \<Rightarrow> ('a \<Rightarrow> bool) \<Rightarrow> ('d, 'a) act \<Rightarrow> bool" where
  "yields P Q m \<longleftrightarrow> (\<forall>s :: 'd session. \<forall>x t. P (work s) \<longrightarrow> P (committed s) \<longrightarrow> m s = (Inr x, t) \<longrightarrow> Q x)"

lemma yieldsD: "yields P Q m \<Longrightarrow> P (work s) \<Longrightarrow> P (committed s) \<Longrightarrow> m s = (Inr x, t) \<Longrightarrow> Q x"
  unfolding yields_def by blast

lemma yields_ret [intro]: "Q x \<Longrightarrow> yields P Q (ret x)"
  by (simp add: yields_def ret_def)

lemma yields_raise [intro]: "yields P Q (raise e)"
  by (simp add: yields_def raise_def)

lemma yields_query [intro]: "(\<And>d. P d \<Longrightarrow> Q (f d)) \<Longrightarrow> yields P Q (query f)"
  by (simp add: yields_def query_def)

lemma yields_lift [intro]: "(\<And>x. r = Inr x \<Longrightarrow> Q x) \<Longrightarrow> yields P Q (lift_result r)"
  by (simp add: yields_def lift_result_def)

lemma yields_bind:
  assumes "reads_only m" and "yields P R m" and "\<And>x. R x \<Longrightarrow> yields P Q (f x)"
  shows "yields P Q (bind_act m f)"
  unfolding yields_def
proof (intro allI impI)
  fix s :: "'a session" and x t
  assume s: "P (work s)" "P (committed s)" and run: "bind_act m f s = (Inr x, t)"
  obtain y u where m: "m s = (Inr y, u)" and f: "f y u = (Inr x, t)" using run by (auto simp: bind_act_Inr_iff)
  have "work u = work s \<and> committed u = committed s" using assms(1) m by (rule reads_onlyD)
  moreover have "R y" using assms(2) s m by (rule yieldsD)
  ultimately show "Q x" using yieldsD [OF assms(3) _ _ f] s by simp
qed

lemma yields_any: "yields P (\<lambda>_. True) m"
  by (simp add: yields_def)

lemma yields_try:
  assumes "reads_only m" and "yields P Q m" and "\<And>e. yields P Q (h e)"
  shows "yields P Q (try_act m h)"
  unfolding yields_def
proof (intro allI impI)
  fix s :: "'a session" and x t
  assume s: "P (work s)" "P (committed s)" and run: "try_act m h s = (Inr x, t)"
  obtain r u where m: "m s = (r, u)" by (cases "m s")
  have u: "work u = work s \<and> committed u = committed s" using assms(1) m by (rule reads_onlyD)
  show "Q x"
  proof (cases r)
    case (Inl e)
    with m run have "h e u = (Inr x, t)" by (simp add: try_act_def)
    then show ?thesis using yieldsD [OF assms(3), of u e x t] u s by simp
  next
    case (Inr y)
    with m run have "m s = (Inr x, u)" by (simp add: try_act_def)
    with assms(2) s show ?thesis by (rule yieldsD)
  qed
qed

lemma yields_if: "yields P Q m \<Longrightarrow> yields P Q k \<Longrightarrow> yields P Q (if b then m else k)"
  by simp


text \<open>The relations of a project point to chunks of that project.\<close>

definition relations_scoped :: "db \<Rightarrow> bool" where
  "relations_scoped d \<longleftrightarrow> (\<forall>r \<in> set (evidence_relations d). \<forall>c \<in> set (chunks d).
     chunk_id c = rel_evidence_chunk_id r \<longrightarrow> chunk_project_id c = rel_project_id r)"

definition rows_in :: "chunk_row set \<Rightarrow> db \<Rightarrow> bool" where
  "rows_in S d \<longleftrightarrow> relations_scoped d \<and> set (chunks d) \<subseteq> S"

definition row_of :: "chunk_row set \<Rightarrow> uid \<Rightarrow> chunk_row \<Rightarrow> bool" where
  "row_of S pid c \<longleftrightarrow> c \<in> S \<and> chunk_project_id c = pid"

lemma rows_in_row: "rows_in S d \<Longrightarrow> c \<in> set (chunks d) \<Longrightarrow> chunk_project_id c = pid \<Longrightarrow> row_of S pid c"
  by (auto simp: rows_in_def row_of_def)

definition of_project :: "chunk_row set \<Rightarrow> uid \<Rightarrow> candidate list \<Rightarrow> bool" where
  "of_project S pid cs \<longleftrightarrow> (\<forall>c \<in> set cs. row_of S pid (lc_chunk (cand_chunk c)))"

lemma of_project_simps [simp]: "of_project S pid []" "of_project S pid (sort_desc f cs) = of_project S pid cs"
  by (simp_all add: of_project_def)

lemma of_project_take: "of_project S pid cs \<Longrightarrow> of_project S pid (take n cs)"
  by (auto simp: of_project_def dest: in_set_takeD)

lemma load_chunk_simps [simp]: "lc_chunk (load_chunk d c) = c" "lc_chunk (cand_chunk (cand l r)) = lc_chunk l"
  by (simp_all add: load_chunk_def cand_def)

lemma reads_only_vector_candidates [intro]: "reads_only (vector_candidates env cfg pid e k fs)"
  unfolding vector_candidates_def by auto

lemma reads_only_lexical [intro]: "reads_only (lexical_search env pid q k fs)"
  unfolding lexical_search_def by auto

lemma reads_only_metadata [intro]: "reads_only (metadata_search pid info k fs)"
  unfolding metadata_search_def Let_def by auto

lemma reads_only_graph [intro]: "reads_only (graph_search pid info k)"
  unfolding graph_search_def Let_def by auto

lemma in_map_filter: "y \<in> set (List.map_filter f xs) \<longleftrightarrow> (\<exists>x \<in> set xs. f x = Some y)"
  by (force simp: List.map_filter_def)

lemma yields_vector: "yields (rows_in S) (of_project S pid) (vector_candidates env cfg pid e k fs)"
  unfolding vector_candidates_def
proof (intro yields_if yields_raise yields_bind [where R = "\<lambda>_. True"] yields_any yields_query)
  fix hs :: "vector_hit list" and d
  assume "rows_in S d"
  then show "of_project S pid (List.map_filter (\<lambda>h. map_option (\<lambda>c. cand (load_chunk d c) (hit_score h))
      (row_with chunk_id (hit_chunk_id h) (filter (\<lambda>c. chunk_project_id c = pid) (chunks d)))) hs)"
    unfolding of_project_def by (auto simp: in_map_filter dest!: row_with_Some) (erule (1) rows_in_row, simp)
qed auto

lemma yields_lexical: "yields (rows_in S) (of_project S pid) (lexical_search env pid q k fs)"
  unfolding lexical_search_def
  by (rule yields_query, rule of_project_take) (auto simp: of_project_def in_map_filter split: if_splits, erule (1) rows_in_row, simp)

lemma score_all_rows: "score_all f id ls = Inr cs \<Longrightarrow> map cand_chunk cs = ls"
  by (induction ls arbitrary: cs) (auto simp: rbind_Inr_iff cand_def)

lemma metadata_rows_project: "rows_in S d \<Longrightarrow> l \<in> set (metadata_rows pid preds k fs d) \<Longrightarrow> row_of S pid (lc_chunk l)"
  by (auto simp: metadata_rows_def dest!: in_set_takeD) (erule (1) rows_in_row, simp)

lemma score_all_project:
  "score_all f id ls = Inr cs \<Longrightarrow> \<forall>l \<in> set ls. row_of S pid (lc_chunk l) \<Longrightarrow> of_project S pid cs"
  using score_all_rows [of f ls cs] by (auto simp: of_project_def)

lemma yields_metadata: "yields (rows_in S) (of_project S pid) (metadata_search pid info k fs)"
  unfolding metadata_search_def Let_def
  by (intro yields_if yields_bind [where R = "\<lambda>ls. \<forall>l \<in> set ls. row_of S pid (lc_chunk l)"])
    (auto dest: metadata_rows_project simp: rbind_Inr_iff intro!: yields_lift of_project_take,
      erule (1) score_all_project)

lemma better_candidate_project:
  "of_project S pid (c # cs) \<Longrightarrow> of_project S pid (better_candidate c cs)"
  by (induction c cs rule: better_candidate.induct) (auto simp: of_project_def)

lemma graph_rows_project:
  "rows_in S d \<Longrightarrow> (r, c) \<in> set (graph_rows pid terms k d) \<Longrightarrow> row_of S pid c"
  by (auto simp: rows_in_def row_of_def graph_rows_def relations_scoped_def in_map_filter dest!: in_set_takeD row_with_Some split: if_splits)

lemma graph_fold_project:
  "\<forall>(r, c) \<in> set rows. row_of S pid c \<Longrightarrow> of_project S pid cs \<Longrightarrow>
   of_project S pid (fold (\<lambda>(r, c). better_candidate \<lparr>cand_chunk = load_chunk d c, cand_score = relation_score r terms,
      cand_relation_type = Some (rel_relation_type r)\<rparr>) rows cs)"
proof (induction rows arbitrary: cs)
  case Nil
  then show ?case by simp
next
  case (Cons row rows)
  obtain r c where row: "row = (r, c)" by (cases row)
  have "of_project S pid (better_candidate \<lparr>cand_chunk = load_chunk d c, cand_score = relation_score r terms,
      cand_relation_type = Some (rel_relation_type r)\<rparr> cs)"
    by (rule better_candidate_project) (use Cons.prems row in \<open>auto simp: of_project_def\<close>)
  with Cons row show ?case by simp
qed

lemma yields_graph: "yields (rows_in S) (of_project S pid) (graph_search pid info k)"
  unfolding graph_search_def Let_def
  by (intro yields_if yields_query yields_ret of_project_take) (auto dest: graph_rows_project intro!: graph_fold_project)

lemma reads_only_own_session [intro]: "reads_only (own_session m)"
  by (auto simp: reads_only_def own_session_def split: prod.splits)

lemma yields_own_session: "yields P Q m \<Longrightarrow> yields P Q (own_session m)"
  unfolding yields_def own_session_def
proof (intro allI impI)
  fix s :: "db session" and x t
  assume m: "\<forall>s x t. P (work s) \<longrightarrow> P (committed s) \<longrightarrow> m s = (Inr x, t) \<longrightarrow> Q x"
    and s: "P (committed s)" and run: "(case m (s\<lparr>work := committed s\<rparr>) of (r, t) \<Rightarrow> (r, s\<lparr>trace := trace t\<rparr>)) = (Inr x, t)"
  from run obtain u where "m (s\<lparr>work := committed s\<rparr>) = (Inr x, u)" by (auto split: prod.splits)
  with m [rule_format, of "s\<lparr>work := committed s\<rparr>" x u] s show "Q x" by simp
qed

lemma reads_only_timeout [intro]: "reads_only m \<Longrightarrow> reads_only (with_timeout b m)"
  by (auto simp: with_timeout_def)

lemma yields_timeout: "yields P Q m \<Longrightarrow> yields P Q (with_timeout b m)"
  by (auto simp: with_timeout_def yields_def then_act_Inr_iff raise_def)

lemma reads_only_run_branch [intro]: "reads_only m \<Longrightarrow> reads_only (run_branch env name m)"
  unfolding run_branch_def by (intro reads_only_try reads_only_bind reads_only_timeout) auto

lemma yields_run_branch:
  assumes "reads_only m" and "yields (rows_in S) (of_project S pid) m"
  shows "yields (rows_in S) (\<lambda>(cs, _). of_project S pid cs) (run_branch env name m)"
  unfolding run_branch_def
  by (rule yields_try)
    (use assms in \<open>auto intro!: yields_bind [where R = "of_project S pid"] yields_timeout intro: yields_timeout\<close>)

definition branches_of :: "chunk_row set \<Rightarrow> uid \<Rightarrow> branches \<Rightarrow> bool" where
  "branches_of S pid b \<longleftrightarrow> of_project S pid (br_vector b) \<and> of_project S pid (br_lexical b) \<and> of_project S pid (br_metadata b)
     \<and> of_project S pid (br_graph b)"

lemma reads_only_branch_session [intro]: "reads_only m \<Longrightarrow> reads_only ((if b then own_session else id) m)"
  by (simp add: reads_only_own_session)

lemma yields_branch_session: "yields P Q m \<Longrightarrow> yields P Q ((if b then own_session else id) m)"
  by (simp add: yields_own_session)

lemma reads_only_retrieve_branches [intro]: "reads_only (retrieve_branches env cfg pid q e info intent k fs)"
  unfolding retrieve_branches_def Let_def
  by (intro reads_only_bind reads_only_pair reads_only_if reads_only_run_branch reads_only_branch_session) auto

lemma yields_retrieve_branches:
  "yields (rows_in S) (\<lambda>(b, _). branches_of S pid b) (retrieve_branches env cfg pid q e info intent k fs)"
proof -
  let ?ok = "\<lambda>(cs, _ :: string dict). of_project S pid cs"
  let ?session = "if rag_parallel_retrieval cfg then own_session else id"
  have v: "yields (rows_in S) ?ok (if e = [] then ret ([], [])
      else run_branch env ''vector'' (?session (vector_candidates env cfg pid e k fs)))"
    by (intro yields_if yields_ret yields_run_branch yields_branch_session yields_vector) auto
  have l: "yields (rows_in S) ?ok (run_branch env ''lexical'' (?session (lexical_search env pid q k fs)))"
    by (intro yields_run_branch yields_branch_session yields_lexical) auto
  have m: "yields (rows_in S) ?ok (run_branch env ''metadata'' (?session (metadata_search pid info k fs)))"
    by (intro yields_run_branch yields_branch_session yields_metadata) auto
  have g: "yields (rows_in S) ?ok (run_branch env ''graph''
      (if qi_intent intent = ''architecture'' then ?session (graph_search pid info k) else ret []))"
    by (intro yields_run_branch yields_if yields_branch_session yields_graph yields_ret) auto
  show ?thesis
    unfolding retrieve_branches_def Let_def
    by (rule yields_bind [OF _ v]; (clarsimp split del: if_split)?; (rule yields_bind [OF _ l])?; (clarsimp split del: if_split)?;
        (rule yields_bind [OF _ m])?; (clarsimp split del: if_split)?; (rule yields_bind [OF _ g])?)
      (auto simp: branches_of_def)
qed


lemma reads_only_embed [intro]: "reads_only (embed_query env q)"
  by (simp add: reads_only_def embed_query_def)

lemma reads_only_cached_info [intro]: "reads_only (cached_info env q)"
  by (simp add: reads_only_def cached_info_def)

lemma reads_only_fallback [intro]: "reads_only (vector_fallback env cfg pid q k fs b errs)"
  unfolding vector_fallback_def by (intro reads_only_try reads_only_bind reads_only_timeout) auto

lemma yields_fallback:
  "branches_of S pid b \<Longrightarrow> yields (rows_in S) (\<lambda>(b, _). branches_of S pid b) (vector_fallback env cfg pid q k fs b errs)"
  unfolding vector_fallback_def
  by (rule yields_try)
    (auto intro!: reads_only_bind reads_only_timeout yields_bind [where R = "\<lambda>_. True"] yields_any
       yields_bind [where R = "of_project S pid" and m = "with_timeout _ (vector_candidates _ _ _ _ _ _)"] yields_timeout yields_vector
       simp: branches_of_def)

lemma reads_only_fuse [intro]: "reads_only (fuse_branches env cfg pid q k fs info intent e)"
  unfolding fuse_branches_def Let_def by (intro reads_only_bind reads_only_if reads_only_pair) auto

lemma reads_only_search [intro]: "reads_only (hybrid_search env cfg pid q k fs)"
  unfolding hybrid_search_def Let_def by (intro reads_only_bind reads_only_if) auto

lemma scored_result_chunk [simp]: "sr_chunk (scored_result info intent f) = fz_chunk f"
  by (simp add: scored_result_def Let_def split: prod.splits)

lemma rank_candidates_project:
  "branches_of S pid b \<Longrightarrow> r \<in> set (rank_candidates cfg info intent b) \<Longrightarrow> row_of S pid (lc_chunk (sr_chunk r))"
proof -
  assume b: "branches_of S pid b" and "r \<in> set (rank_candidates cfg info intent b)"
  then obtain f where f: "f \<in> set (weighted_rrf b (vector_weight cfg) (lexical_weight cfg) (metadata_weight cfg)
      (rag_graph_weight cfg) (rag_rrf_k cfg))" and r: "sr_chunk r = fz_chunk f"
    by (auto simp: rank_candidates_def)
  from f have "fz_chunk f \<in> cand_chunk ` (set (br_vector b) \<union> set (br_lexical b) \<union> set (br_metadata b) \<union> set (br_graph b))"
    using weighted_rrf_chunks by blast
  with b r show "row_of S pid (lc_chunk (sr_chunk r))" by (auto simp: branches_of_def of_project_def)
qed

lemma distinct_entries: "distinct (entry_ids (weighted_rrf b vw lw mw gw k))"
  unfolding weighted_rrf_def by (simp add: add_branch_ids [THEN conjunct2, rule_format])

lemma rank_candidates_distinct: "distinct (map (\<lambda>r. lc_id (sr_chunk r)) (rank_candidates cfg info intent b))"
proof -
  let ?es = "weighted_rrf b (vector_weight cfg) (lexical_weight cfg) (metadata_weight cfg) (rag_graph_weight cfg) (rag_rrf_k cfg)"
  have "mset (map (\<lambda>r. lc_id (sr_chunk r)) (rank_candidates cfg info intent b)) = mset (entry_ids ?es)"
    unfolding rank_candidates_def by (simp add: image_mset.compositionality comp_def)
  then show ?thesis using distinct_entries by (metis mset_eq_imp_distinct_iff)
qed

lemma py_slice_prefix: "py_slice xs 0 k = take (length (py_slice xs 0 k)) xs \<and> (0 \<le> k \<longrightarrow> length (py_slice xs 0 k) \<le> nat k)"
  by (auto simp: py_slice_def slice_bound_def Let_def min_def)

definition answer_of :: "chunk_row set \<Rightarrow> uid \<Rightarrow> int \<Rightarrow> search_result list \<Rightarrow> bool" where
  "answer_of S pid k rs \<longleftrightarrow> list_all (\<lambda>r. row_of S pid (lc_chunk (sr_chunk r))) rs
     \<and> distinct (map (\<lambda>r. lc_id (sr_chunk r)) rs) \<and> sorted_wrt (\<lambda>x y. sr_fused_score y \<le> sr_fused_score x) rs
     \<and> (k < 0 \<or> length rs \<le> nat k)"

lemma ranked_answer: "branches_of S pid b \<Longrightarrow> answer_of S pid k (py_slice (rank_candidates cfg info intent b) 0 k)"
proof -
  let ?all = "rank_candidates cfg info intent b" let ?rs = "py_slice ?all 0 k"
  assume b: "branches_of S pid b"
  have rs: "?rs = take (length ?rs) ?all" and len: "0 \<le> k \<longrightarrow> length ?rs \<le> nat k"
    using py_slice_prefix [of ?all k] by blast+
  have "set ?rs \<subseteq> set ?all" by (subst rs) (rule set_take_subset)
  with b have "list_all (\<lambda>r. row_of S pid (lc_chunk (sr_chunk r))) ?rs"
    by (auto simp: list_all_iff intro: rank_candidates_project)
  moreover have "distinct (map (\<lambda>r. lc_id (sr_chunk r)) ?rs)"
    by (subst rs) (simp add: rank_candidates_distinct flip: take_map)
  moreover have "sorted_wrt (\<lambda>x y. sr_fused_score y \<le> sr_fused_score x) ?rs"
    by (subst rs) (auto simp: rank_candidates_def intro: sorted_wrt_take sorted_sort_desc)
  ultimately show ?thesis using len by (auto simp: answer_of_def)
qed

lemma yields_fuse: "yields (rows_in S) (answer_of S pid k) (fuse_branches env cfg pid q k fs info intent e)"
  unfolding fuse_branches_def Let_def
  by (auto intro!: yields_bind [OF _ yields_retrieve_branches] yields_bind [where R = "\<lambda>(b, _). branches_of S pid b"]
       yields_if yields_fallback ranked_answer)

lemma yields_search: "yields (rows_in S) (answer_of S pid k) (hybrid_search env cfg pid q k fs)"
  unfolding hybrid_search_def Let_def
  by (intro yields_bind [where R = "\<lambda>_. True"] yields_any yields_fuse reads_only_if) auto

section \<open>Failures\<close>

lemma raises_run_branch: "raises Q (run_branch env name m)"
  unfolding run_branch_def by auto

lemma raises_retrieve_branches: "raises Q (retrieve_branches env cfg pid q e info intent k fs)"
  unfolding retrieve_branches_def Let_def
  by (intro raises_bind raises_pair raises_if raises_simple raises_run_branch)

lemma raises_fallback: "raises Q (vector_fallback env cfg pid q k fs b errs)"
  unfolding vector_fallback_def by auto

lemma raises_fuse: "raises Q (fuse_branches env cfg pid q k fs info intent e)"
  unfolding fuse_branches_def Let_def
  by (intro raises_bind raises_pair raises_if raises_simple raises_retrieve_branches raises_fallback)

lemma search_steps:
  assumes "hybrid_search env cfg pid q k fs s = (Inl e, t)"
  shows "\<not> exact_lookup (classify_query_intent q) \<and> rv_embed env (trace s) q = Inl e"
proof -
  obtain info where "bind_act (if exact_lookup (classify_query_intent q) then ret [] else embed_query env q)
      (fuse_branches env cfg pid q k fs info (classify_query_intent q)) s = (Inl e, t)"
    using assms by (simp add: hybrid_search_def cached_info_def bind_act_def Let_def)
  moreover have "fuse_branches env cfg pid q k fs info (classify_query_intent q) x u \<noteq> (Inl e, t)" for x u
    using raisesD [OF raises_fuse [of "\<lambda>_. False"]] by blast
  ultimately have "(if exact_lookup (classify_query_intent q) then ret [] else embed_query env q) s = (Inl e, t)"
    by (simp add: bind_act_Inl_iff)
  then show ?thesis by (auto simp: ret_def embed_query_def split: if_splits)
qed

text \<open>
  Hybrid search raises only when the query had to be embedded and the embedding failed: a failed, late or misconfigured
  branch and a failed fallback are absorbed. A failed search leaves the rows as they are.\<close>

theorem search_fails_only_on_embedding:
  assumes "hybrid_search env cfg pid q k fs s = (Inl e, t)"
  shows "\<not> exact_lookup (classify_query_intent q) \<and> rv_embed env (trace s) q = Inl e
    \<and> work t = work s \<and> committed t = committed s"
  using search_steps [OF assms] reads_onlyD [OF reads_only_search assms] by blast

definition sample_search_env :: search_env where
  "sample_search_env = \<lparr>rv_http = \<lambda>_ _. None, rv_numbers = \<lparr>of_text = \<lambda>_. None, to_text = \<lambda>_. []\<rparr>,
     rv_embed = \<lambda>_ _. Inl (RuntimeError ''no backend''), rv_rank = \<lambda>_ _. Some 1, rv_late = \<lambda>_. False, rv_cached_info = \<lambda>_ _. None\<rparr>"

theorem search_fails_only_on_embedding_witness:
  "\<exists>t. hybrid_search sample_search_env (default_settings ''host'') 1 ''x'' 5 [] (new_session empty_db) = (Inl (RuntimeError ''no backend''), t)
     \<and> rv_embed sample_search_env [] ''x'' = Inl (RuntimeError ''no backend'') \<and> work t = empty_db"
proof -
  have "\<not> exact_lookup (classify_query_intent ''x'')" by code_simp
  then obtain t where run: "hybrid_search sample_search_env (default_settings ''host'') 1 ''x'' 5 [] (new_session empty_db)
      = (Inl (RuntimeError ''no backend''), t)"
    by (simp add: hybrid_search_def cached_info_def embed_query_def bind_act_def sample_search_env_def)
  from search_fails_only_on_embedding [OF this] run show ?thesis by simp
qed


definition sample_chunk :: "uid \<Rightarrow> uid \<Rightarrow> chunk_row" where
  "sample_chunk i pid = \<lparr>chunk_id = i, chunk_project_id = pid, chunk_document_id = 7, chunk_source_id = None,
     chunk_chunk_type = ''log_window'', chunk_service_name = Some ''pay'', chunk_endpoint = None, chunk_deploy_hash = None,
     chunk_timestamp_start = None, chunk_timestamp_end = None, chunk_section_title = None, chunk_start_line = None,
     chunk_end_line = None, chunk_text = ''timeout'', chunk_token_count = None, chunk_metadata_json = None,
     chunk_search_tsvector = None, chunk_created_at = 0\<rparr>"

definition sample_search_db :: db where
  "sample_search_db = empty_db\<lparr>chunks := [sample_chunk 3 1, sample_chunk 4 2, sample_chunk 5 1]\<rparr>"

definition sample_embedding_env :: search_env where
  "sample_embedding_env = sample_search_env\<lparr>rv_embed := \<lambda>_ _. Inr [], rv_cached_info := \<lambda>_ _. Some
     \<lparr>qf_services = [''pay''], qf_deploy_hashes = [], qf_endpoints = [], qf_query_intent = [], qf_query_terms = []\<rparr>\<rparr>"


end
