(* ===== verification/Evidence.thy ===== *)
theory Evidence
  imports Search Redaction
begin

text \<open>
  From search results to cited evidence: \<open>retrieval/reranker.py\<close> with \<open>remote_rerank\<close> of \<open>retrieval/model_gateway.py\<close>,
  \<open>retrieval/evidence_packer.py\<close> and \<open>retrieval/citation_builder.py\<close>. The reranker service, the credential library and a
  local cross-encoder are arguments. Times and counts of the reranker's debug answer are not modelled.
\<close>

section \<open>The remote reranker\<close>

record rerank_env =
  rk_http :: "http_reply service"
  rk_float :: "string \<Rightarrow> rat option"
  rk_credential_failure :: "effect list \<Rightarrow> string option"    \<comment> \<open>class of the error when no token can be had\<close>
  rk_encoder :: "string \<Rightarrow> (string \<Rightarrow> string list \<Rightarrow> rat list result) option"    \<comment> \<open>\<open>CrossEncoder(name).predict\<close>\<close>

definition remote_model_error :: "string \<Rightarrow> py_exn" where
  "remote_model_error msg = OtherError ''RemoteModelError'' msg"

definition is_remote_model_error :: "py_exn \<Rightarrow> bool" where
  "is_remote_model_error e \<longleftrightarrow> exn_class e = ''RemoteModelError''"

text \<open>\<open>_headers\<close>: the headers themselves are not recorded, the failure to get a token is.\<close>

definition headers :: "rerank_env \<Rightarrow> settings \<Rightarrow> unit dbact" where
  "headers env cfg s =
     (if rag_remote_auth_mode cfg = ''managed_identity'' then
        (case rk_credential_failure env (trace s) of
           None \<Rightarrow> (Inr (), s)
         | Some cls \<Rightarrow> (Inl (remote_model_error (''managed identity token acquisition failed: '' @ cls)), s))
      else (Inr (), s))"

definition rerank_payload :: "settings \<Rightarrow> string \<Rightarrow> (uid \<times> string) list \<Rightarrow> json" where
  "rerank_payload cfg q cands = JObj
     [(''model_id'', JStr (reranker_model cfg)),
      (''query'', JStr (py_slice (redact_secrets q) 0 (rag_rerank_max_query_chars cfg))),
      (''candidates'', JList (map (\<lambda>(i, text). JObj [(''id'', JStr (uid_str i)),
          (''text'', JStr (py_slice (redact_secrets text) 0 (rag_rerank_max_chars_per_candidate cfg)))])
        (py_slice cands 0 (rag_rerank_max_candidates cfg))))]"

fun json_floats :: "(string \<Rightarrow> rat option) \<Rightarrow> json list \<Rightarrow> rat list result" where
  "json_floats f [] = Inr []"
| "json_floats f (v # vs) = (case json_float f v of
      None \<Rightarrow> Inl (TypeError ''float() argument must be a string or a real number'')
    | Some r \<Rightarrow> rbind (json_floats f vs) (\<lambda>rs. Inr (r # rs)))"

definition reranker_scores :: "rerank_env \<Rightarrow> nat \<Rightarrow> json option \<Rightarrow> rat list result" where
  "reranker_scores env n body = rbind (response_json body) (\<lambda>data. rbind (json_get data ''scores'' JNull) (\<lambda>v.
     case v of JList vs \<Rightarrow> if length vs = n then json_floats (rk_float env) vs
                           else Inl (remote_model_error ''remote reranker response count mismatch'')
             | _ \<Rightarrow> Inl (remote_model_error ''remote reranker response count mismatch'')))"

definition remote_rerank :: "rerank_env \<Rightarrow> settings \<Rightarrow> string \<Rightarrow> (uid \<times> string) list \<Rightarrow> rat list dbact" where
  "remote_rerank env cfg q cands =
     (if rag_reranker_endpoint cfg = [] \<or> (rag_remote_auth_mode cfg \<noteq> ''managed_identity'' \<and> rag_remote_api_key cfg = []) then
        raise (remote_model_error ''remote reranker endpoint is not configured'')
      else then_act (headers env cfg)
        (bind_act (call (rk_http env) (Http ''POST'' (rag_reranker_endpoint cfg) (rerank_payload cfg q cands))) (\<lambda>reply.
           case reply of
             None \<Rightarrow> raise (remote_model_error ''remote reranker request failed'')
           | Some (status, body) \<Rightarrow>
               if \<not> response_ok status then raise (remote_model_error ''remote reranker request failed: HTTPStatusError'')
               else lift_result (reranker_scores env (length (py_slice cands 0 (rag_rerank_max_candidates cfg))) body))))"

section \<open>Reranking\<close>

record rerank_debug =
  rd_mode :: string
  rd_reason :: string
  rd_used_model :: "string option"

definition rerank_key :: "search_result \<Rightarrow> rat" where
  "rerank_key r = (case sr_rerank_score r of None \<Rightarrow> 0 | Some x \<Rightarrow> x)"

definition fallback_sort :: "search_result list \<Rightarrow> search_result list" where
  "fallback_sort rs = sort_desc rerank_key (map (\<lambda>r. r\<lparr>sr_rerank_score := Some (sr_fused_score r)\<rparr>) rs)"

definition decisive_reasons :: "string list" where
  "decisive_reasons = [''endpoint_match'', ''service_name_match'', ''code_path_match'', ''config_path_match'',
     ''api_contract_path_match'', ''deploy_hash_match'']"

definition should_skip_cross_encoder :: "search_result list \<Rightarrow> bool" where
  "should_skip_cross_encoder rs = (case rs of
      best # runner # _ \<Rightarrow>
        (let gap = sr_fused_score best - sr_fused_score runner; reasons = sr_metadata_boost_reasons best in
         gap \<ge> 18 / 100
         \<or> (list_ex (\<lambda>r. r \<in> set decisive_reasons) reasons \<and> gap \<ge> 8 / 100)
         \<or> (list_ex (\<lambda>r. starts_with r ''metadata_terms:'') reasons \<and> gap \<ge> 10 / 100))
    | _ \<Rightarrow> True)"

fun assign_scores :: "search_result list \<Rightarrow> rat list \<Rightarrow> search_result list" where
  "assign_scores (r # rs) (x # xs) = r\<lparr>sr_rerank_score := Some x\<rparr> # assign_scores rs xs"
| "assign_scores rs xs = rs"

definition skipped :: "string \<Rightarrow> string \<Rightarrow> rerank_debug" where
  "skipped mode reason = \<lparr>rd_mode = mode, rd_reason = reason, rd_used_model = None\<rparr>"

definition load_cross_encoder :: "rerank_env \<Rightarrow> settings \<Rightarrow> string \<Rightarrow> (string \<Rightarrow> string list \<Rightarrow> rat list result) option" where
  "load_cross_encoder env cfg model = (if model = [] \<or> \<not> allow_local_model_loading cfg then None else rk_encoder env model)"

definition rerank_with_debug ::
  "rerank_env \<Rightarrow> settings \<Rightarrow> string \<Rightarrow> search_result list \<Rightarrow> string \<Rightarrow> int \<Rightarrow> search_result list \<times> rerank_debug" where
  "rerank_with_debug env cfg q results model k =
     (if results = [] then ([], skipped ''skipped'' ''no_results'')
      else if should_skip_cross_encoder results then (py_slice (fallback_sort results) 0 k, skipped ''heuristic'' ''decisive_retrieval_result'')
      else case load_cross_encoder env cfg model of
          None \<Rightarrow> (py_slice (fallback_sort results) 0 k, skipped ''fallback'' ''model_unavailable'')
        | Some predict \<Rightarrow> (case predict q (map (\<lambda>r. chunk_text (lc_chunk (sr_chunk r))) results) of
            Inl _ \<Rightarrow> (py_slice (fallback_sort results) 0 k, skipped ''fallback'' ''cross_encoder_failure'')
          | Inr scores \<Rightarrow> (py_slice (sort_desc rerank_key (assign_scores results scores)) 0 k,
              \<lparr>rd_mode = ''cross_encoder'', rd_reason = ''ambiguous_results'', rd_used_model = Some model\<rparr>)))"

definition remote_ranking :: "settings \<Rightarrow> search_result list \<Rightarrow> rat list \<Rightarrow> search_result list" where
  "remote_ranking cfg results scores =
     (let limit = min (int (length results)) (rag_rerank_max_candidates cfg)
      in sort_desc rerank_key (assign_scores (py_slice results 0 limit) scores)
         @ sort_desc sr_fused_score (py_slice results limit (int (length results))))"

definition remote_rerank_results ::
  "rerank_env \<Rightarrow> settings \<Rightarrow> string \<Rightarrow> search_result list \<Rightarrow> string \<Rightarrow> int \<Rightarrow> (search_result list \<times> rerank_debug) dbact" where
  "remote_rerank_results env cfg q results model k =
     try_act
       (bind_act (remote_rerank env cfg q (map (\<lambda>r. (lc_id (sr_chunk r), chunk_text (lc_chunk (sr_chunk r))))
            (py_slice results 0 (min (int (length results)) (rag_rerank_max_candidates cfg))))) (\<lambda>scores.
          ret (py_slice (remote_ranking cfg results scores) 0 k,
               \<lparr>rd_mode = ''remote_cross_encoder'', rd_reason = ''ambiguous_results'',
                rd_used_model = Some (if model \<noteq> [] then model else reranker_model cfg)\<rparr>)))
       (\<lambda>e. if is_remote_model_error e
            then ret (py_slice (fallback_sort results) 0 k, skipped ''fallback'' ''remote_model_failure'')
            else raise e)"

definition rerank_with_debug_async ::
  "rerank_env \<Rightarrow> settings \<Rightarrow> string \<Rightarrow> search_result list \<Rightarrow> string \<Rightarrow> int \<Rightarrow> (search_result list \<times> rerank_debug) dbact" where
  "rerank_with_debug_async env cfg q results model k =
     (if results = [] then ret ([], skipped ''skipped'' ''no_results'')
      else if rag_rerank_mode cfg = ''disabled'' then
        ret (py_slice (fallback_sort results) 0 k, skipped ''disabled'' ''configuration'')
      else if starts_with model ''azure-ml'' \<or> rag_reranker_endpoint cfg \<noteq> [] then
        (if rag_rerank_mode cfg = ''conditional'' \<and> should_skip_cross_encoder results
         then ret (py_slice (fallback_sort results) 0 k, skipped ''heuristic'' ''decisive_retrieval_result'')
         else remote_rerank_results env cfg q results model k)
      else ret (rerank_with_debug env cfg q results model k))"

section \<open>Packing evidence\<close>

record citation =
  ci_label :: string
  ci_path :: string
  ci_lines :: string
  ci_chunk_id :: string
  ci_source_type :: string

record evidence =
  ev_chunk_id :: string
  ev_source_type :: string
  ev_chunk_type :: string
  ev_document_path :: string
  ev_service_name :: "string option"
  ev_deploy_hash :: "string option"
  ev_endpoint :: "string option"
  ev_section_title :: "string option"
  ev_start_line :: "int option"
  ev_end_line :: "int option"
  ev_timestamp_start :: "time option"
  ev_timestamp_end :: "time option"
  ev_text :: string
  ev_score :: rat
  ev_vector_score :: rat
  ev_lexical_score :: rat
  ev_injection_flags :: "bool \<times> string list"
  ev_why_retrieved :: "string list"
  ev_citation :: "citation option"

definition source_priority :: "string \<Rightarrow> nat" where
  "source_priority st = (case find (\<lambda>(_, t). t = st)
      (enumerate 0 [''deploy'', ''logs'', ''code'', ''incident'', ''config'', ''api_doc'', ''runbook'']) of
      None \<Rightarrow> 99 | Some (n, _) \<Rightarrow> n)"

definition source_type_from_chunk :: "loaded_chunk \<Rightarrow> string" where
  "source_type_from_chunk l =
     (let raw = get_or_none (lc_metadata l) ''source_type''; t = chunk_chunk_type (lc_chunk l) in
      if raw \<in> JStr ` {''deploy'', ''logs'', ''code'', ''incident'', ''runbook'', ''api_doc'', ''config''} then json_text raw
      else if raw = JStr ''incident_report'' then ''incident''
      else if raw = JStr ''deploy_history'' then ''deploy''
      else if t \<in> set deploy_chunk_types then ''deploy''
      else if t \<in> set log_chunk_types then ''logs''
      else if t \<in> set code_chunk_types then ''code''
      else if t \<in> set incident_chunk_types then ''incident''
      else if t \<in> set api_chunk_types then ''api_doc''
      else if t \<in> set config_chunk_types then ''config''
      else if t \<in> set markdown_chunk_types then
        (let p = py_lower (json_text (get_or_none (lc_metadata l) ''document_path'')) in
         if str_contains ''runbook'' p then ''runbook''
         else if any_in [''api'', ''openapi'', ''swagger''] p then ''api_doc''
         else if ends_any p [''.yaml'', ''.yml'', ''.json'', ''.toml'', ''.ini''] then ''config''
         else ''runbook'')
      else ''runbook'')"

definition py_rstrip :: "string \<Rightarrow> string" where
  "py_rstrip s = rev (dropWhile is_space (rev s))"

definition compact_text :: "string \<Rightarrow> int \<Rightarrow> string" where
  "compact_text text max_chars =
     (let cleaned = join_with [char_of (10 :: nat)] (map py_rstrip (split_lines (py_strip text))) in
      if int (length cleaned) \<le> max_chars then cleaned
      else let truncated = py_rstrip (take (nat (max (max_chars - 1) 0)) cleaned) in
           if truncated = [] then [] else truncated @ ''...'')"

type_synonym signature = "string \<times> int option \<times> int option"

definition signature_of :: "search_result \<Rightarrow> signature" where
  "signature_of r = (let c = lc_chunk (sr_chunk r) in (doc_path_of (sr_chunk r), chunk_start_line c, chunk_end_line c))"

definition evidence_item :: "search_result \<Rightarrow> string \<Rightarrow> evidence" where
  "evidence_item r text =
     (let l = sr_chunk r; c = lc_chunk l in
      \<lparr>ev_chunk_id = uid_str (chunk_id c), ev_source_type = source_type_from_chunk l, ev_chunk_type = chunk_chunk_type c,
       ev_document_path = doc_path_of l, ev_service_name = chunk_service_name c, ev_deploy_hash = chunk_deploy_hash c,
       ev_endpoint = chunk_endpoint c, ev_section_title = chunk_section_title c, ev_start_line = chunk_start_line c,
       ev_end_line = chunk_end_line c, ev_timestamp_start = chunk_timestamp_start c, ev_timestamp_end = chunk_timestamp_end c,
       ev_text = text, ev_score = (if rerank_key r \<noteq> 0 then rerank_key r else sr_fused_score r),
       ev_vector_score = sr_vector_score r, ev_lexical_score = sr_lexical_score r,
       ev_injection_flags = inspect_untrusted_text text, ev_why_retrieved = sr_metadata_boost_reasons r, ev_citation = None\<rparr>)"

definition chunk_excerpt :: "int \<Rightarrow> search_result \<Rightarrow> string" where
  "chunk_excerpt max_chars r = compact_text (redact_secrets (chunk_text (lc_chunk (sr_chunk r)))) max_chars"

definition fit_text :: "string \<Rightarrow> int \<Rightarrow> string" where
  "fit_text text remaining = (if int (length text) > remaining then compact_text text remaining else text)"

fun pack_loop :: "int \<Rightarrow> int \<Rightarrow> int \<Rightarrow> search_result list \<Rightarrow> signature list \<Rightarrow> int \<Rightarrow> evidence list \<Rightarrow> evidence list" where
  "pack_loop max_evidence max_chars max_total [] seen spent es = es"
| "pack_loop max_evidence max_chars max_total (r # rs) seen spent es =
     (let text = chunk_excerpt max_chars r; cut = fit_text text (max_total - spent); es' = es @ [evidence_item r cut] in
      if signature_of r \<in> set seen then pack_loop max_evidence max_chars max_total rs seen spent es
      else if text = [] then pack_loop max_evidence max_chars max_total rs (signature_of r # seen) spent es
      else if max_total - spent \<le> 0 \<or> cut = [] then es
      else if int (length es') \<ge> max_evidence then es'
      else pack_loop max_evidence max_chars max_total rs (signature_of r # seen) (spent + int (length cut)) es')"

text \<open>The key \<open>(-score, priority, path)\<close>, and insertion sort: the order of Python's stable sort.\<close>

definition evidence_le :: "evidence \<Rightarrow> evidence \<Rightarrow> bool" where
  "evidence_le a b \<longleftrightarrow> ev_score b < ev_score a \<or> (ev_score a = ev_score b \<and>
     (source_priority (ev_source_type a) < source_priority (ev_source_type b)
      \<or> (source_priority (ev_source_type a) = source_priority (ev_source_type b)
         \<and> str_le (ev_document_path a) (ev_document_path b))))"

fun insert_by :: "('a \<Rightarrow> 'a \<Rightarrow> bool) \<Rightarrow> 'a \<Rightarrow> 'a list \<Rightarrow> 'a list" where
  "insert_by le x [] = [x]"
| "insert_by le x (y # ys) = (if le x y then x # y # ys else y # insert_by le x ys)"

definition sort_by :: "('a \<Rightarrow> 'a \<Rightarrow> bool) \<Rightarrow> 'a list \<Rightarrow> 'a list" where
  "sort_by le xs = foldr (insert_by le) xs []"

definition pack_evidence :: "search_result list \<Rightarrow> int \<Rightarrow> int \<Rightarrow> int \<Rightarrow> evidence list" where
  "pack_evidence rs max_evidence max_chars max_total =
     py_slice (sort_by evidence_le (pack_loop max_evidence max_chars max_total rs [] 0 [])) 0 max_evidence"

definition default_max_chars :: int where "default_max_chars = 1600"
definition default_max_total :: int where "default_max_total = 10000"

section \<open>Citations\<close>

definition format_lines :: "int option \<Rightarrow> int option \<Rightarrow> string" where
  "format_lines first final = (case first of
      None \<Rightarrow> []
    | Some a \<Rightarrow> (case final of None \<Rightarrow> str_of_int a
        | Some b \<Rightarrow> if a = b then str_of_int a else str_of_int a @ ''-'' @ str_of_int b))"

definition cite :: "nat \<Rightarrow> evidence \<Rightarrow> evidence" where
  "cite i e = e\<lparr>ev_citation := Some \<lparr>ci_label = ''['' @ digits_of (i + 1) @ '']'', ci_path = ev_document_path e,
     ci_lines = format_lines (ev_start_line e) (ev_end_line e), ci_chunk_id = ev_chunk_id e, ci_source_type = ev_source_type e\<rparr>\<rparr>"

definition build_citations :: "evidence list \<Rightarrow> evidence list" where
  "build_citations es = map (\<lambda>(i, e). cite i e) (enumerate 0 es)"

definition format_citation_string :: "citation \<Rightarrow> string" where
  "format_citation_string c = ci_label c @ '' '' @ ci_path c @ (if ci_lines c = [] then [] else '':'' @ ci_lines c)"

definition format_citations_block :: "evidence list \<Rightarrow> string" where
  "format_citations_block es = join_with [char_of (10 :: nat)] (map format_citation_string (List.map_filter ev_citation es))"


section \<open>Reranking keeps the results\<close>

lemma reads_only_headers [intro]: "reads_only (headers env cfg)"
  by (simp add: reads_only_def headers_def split: option.splits)

lemma reads_only_remote_rerank [intro]: "reads_only (remote_rerank env cfg q cands)"
  unfolding remote_rerank_def by (intro reads_only_if reads_only_then reads_only_bind reads_only_option reads_only_pair) auto

lemma reads_only_rerank [intro]: "reads_only (rerank_with_debug_async env cfg q results model k)"
  unfolding rerank_with_debug_async_def remote_rerank_results_def
  by (intro reads_only_if reads_only_try reads_only_bind) auto

abbreviation result_chunks :: "search_result list \<Rightarrow> loaded_chunk multiset" where
  "result_chunks rs \<equiv> image_mset sr_chunk (mset rs)"

lemma chunks_fallback_sort: "result_chunks (fallback_sort rs) = result_chunks rs"
  by (simp add: fallback_sort_def image_mset.compositionality comp_def)

lemma chunks_assign_scores: "result_chunks (assign_scores rs xs) = result_chunks rs"
  by (induction rs xs rule: assign_scores.induct) auto

lemma py_slice_split: "py_slice xs 0 n @ py_slice xs n (int (length xs)) = xs"
  by (simp add: py_slice_def slice_bound_def Let_def)

lemma chunks_remote_ranking: "result_chunks (remote_ranking cfg rs scores) = result_chunks rs"
proof -
  let ?n = "min (int (length rs)) (rag_rerank_max_candidates cfg)"
  have "result_chunks (remote_ranking cfg rs scores)
      = result_chunks (py_slice rs 0 ?n) + result_chunks (py_slice rs ?n (int (length rs)))"
    by (simp add: remote_ranking_def Let_def chunks_assign_scores)
  also have "\<dots> = result_chunks (py_slice rs 0 ?n @ py_slice rs ?n (int (length rs)))" by simp
  also have "\<dots> = result_chunks rs" by (simp only: py_slice_split)
  finally show ?thesis .
qed

definition reordered_prefix :: "int \<Rightarrow> search_result list \<Rightarrow> search_result list \<Rightarrow> bool" where
  "reordered_prefix k rs out \<longleftrightarrow> (\<exists>full. result_chunks full = result_chunks rs \<and> out = py_slice full 0 k)"

lemma reordered_prefixI: "result_chunks full = result_chunks rs \<Longrightarrow> reordered_prefix k rs (py_slice full 0 k)"
  unfolding reordered_prefix_def by blast

lemma rerank_sync_prefix: "reordered_prefix k rs (fst (rerank_with_debug env cfg q rs model k))"
proof (cases "rs = []")
  case True
  then show ?thesis by (simp add: rerank_with_debug_def reordered_prefix_def py_slice_def Let_def exI [of _ "[]"])
next
  case False
  have "reordered_prefix k rs (py_slice (fallback_sort rs) 0 k)" by (rule reordered_prefixI) (rule chunks_fallback_sort)
  moreover have "reordered_prefix k rs (py_slice (sort_desc rerank_key (assign_scores rs xs)) 0 k)" for xs
    by (rule reordered_prefixI) (simp add: chunks_assign_scores)
  ultimately show ?thesis using False by (simp add: rerank_with_debug_def split: option.splits sum.splits)
qed

text \<open>The replies a client must reject: a success status with a body that is not the agreed JSON.\<close>

definition malformed_reply :: "rerank_env \<Rightarrow> bool" where
  "malformed_reply env \<longleftrightarrow> (\<exists>before request status body n e. rk_http env before request = Some (status, body) \<and> response_ok status
     \<and> reranker_scores env n body = Inl e \<and> \<not> is_remote_model_error e)"

lemma is_remote_error_simp [simp]: "is_remote_model_error (remote_model_error msg)"
  by (simp add: is_remote_model_error_def remote_model_error_def)

lemma raises_remote_rerank: "raises (\<lambda>e. is_remote_model_error e \<or> malformed_reply env) (remote_rerank env cfg q cands)"
proof -
  let ?Q = "\<lambda>e. is_remote_model_error e \<or> malformed_reply env"
  have headers: "raises ?Q (headers env cfg)"
    by (auto simp: raises_def headers_def split: if_splits option.splits)
  have "?Q e" if "reranker_scores env n body = Inl e" and "rk_http env tr req = Some (status, body)" and "response_ok status"
    for e n body tr req status
    using that unfolding malformed_reply_def by blast
  then have reply: "raises ?Q (bind_act (call (rk_http env) req) (\<lambda>reply. case reply of
        None \<Rightarrow> raise (remote_model_error a)
      | Some (status, body) \<Rightarrow> if \<not> response_ok status then raise (remote_model_error b)
          else lift_result (reranker_scores env n body)))" for req a b n
    unfolding raises_def bind_act_Inl_iff
    by (auto simp: call_def raise_def lift_result_def split: option.splits prod.splits if_splits)
  show ?thesis unfolding remote_rerank_def by (intro raises_if raises_then headers reply) auto
qed

lemma reranking_outcome:
  "(case fst (rerank_with_debug_async env cfg q results model k s) of
      Inr (out, _) \<Rightarrow> reordered_prefix k results out
    | Inl e \<Rightarrow> malformed_reply env \<and> \<not> is_remote_model_error e)"
proof -
  have fallback: "reordered_prefix k results (py_slice (fallback_sort results) 0 k)"
    by (rule reordered_prefixI) (rule chunks_fallback_sort)
  have none: "reordered_prefix k results []" if "results = []"
    using that by (simp add: reordered_prefix_def py_slice_def Let_def exI [of _ "[]"])
  have remote: "case fst (remote_rerank_results env cfg q results model k s) of
      Inr (out, _) \<Rightarrow> reordered_prefix k results out | Inl e \<Rightarrow> malformed_reply env \<and> \<not> is_remote_model_error e"
  proof -
    obtain r t where run: "remote_rerank env cfg q (map (\<lambda>r. (lc_id (sr_chunk r), chunk_text (lc_chunk (sr_chunk r))))
        (py_slice results 0 (min (int (length results)) (rag_rerank_max_candidates cfg)))) s = (r, t)"
      by (meson surj_pair)
    show ?thesis
    proof (cases r)
      case (Inl e)
      with run have "is_remote_model_error e \<or> malformed_reply env" using raises_remote_rerank by (blast dest: raisesD)
      with Inl run fallback show ?thesis
        by (cases "is_remote_model_error e") (simp_all add: remote_rerank_results_def try_act_def bind_act_def ret_def raise_def)
    next
      case (Inr scores)
      with run show ?thesis
        by (simp add: remote_rerank_results_def try_act_def bind_act_def ret_def reordered_prefixI chunks_remote_ranking)
    qed
  qed
  show ?thesis
    using fallback none remote rerank_sync_prefix [of k results env cfg q model]
    by (auto simp: rerank_with_debug_async_def ret_def split: prod.splits)
qed

lemma reranking_prefix: "rerank_with_debug_async env cfg q results model k s = (Inr (out, dbg), t) \<Longrightarrow> reordered_prefix k results out"
  using reranking_outcome [where env = env and cfg = cfg and q = q and results = results and model = model and k = k and s = s] by simp

text \<open>
  Reranking answers with the first results of some reordering of what it was given, none lost, doubled or invented; a
  reranker that is unreachable, refuses or returns a wrong number of scores changes the order only. It raises only after a
  success reply whose body is not the agreed JSON.\<close>

theorem reranking_reorders:
  "(case fst (rerank_with_debug_async env cfg q results model k s) of
      Inr (out, _) \<Rightarrow> reordered_prefix k results out
    | Inl e \<Rightarrow> malformed_reply env \<and> \<not> is_remote_model_error e)"
  by (rule reranking_outcome)

section \<open>Evidence is bounded\<close>

lemma length_compact_text: "compact_text t n = [] \<or> int (length (compact_text t n)) \<le> n + 2"
proof -
  let ?c = "join_with [char_of (10 :: nat)] (map py_rstrip (split_lines (py_strip t)))"
  have rstrip: "length (py_rstrip u) \<le> length u" for u
    unfolding py_rstrip_def by (metis length_dropWhile_le length_rev)
  show ?thesis
  proof (cases "int (length ?c) \<le> n")
    case True
    then show ?thesis by (simp add: compact_text_def)
  next
    case False
    let ?u = "py_rstrip (take (nat (max (n - 1) 0)) ?c)"
    have "length ?u \<le> nat (max (n - 1) 0)" using rstrip [of "take (nat (max (n - 1) 0)) ?c"] by simp
    then have "int (length ?u) \<le> max (n - 1) 0" by linarith
    moreover have "0 < int (length ?u)" if "?u \<noteq> []" using that by simp
    ultimately have "?u \<noteq> [] \<Longrightarrow> int (length ?u) + 3 \<le> n + 2" by linarith
    with False show ?thesis by (simp add: compact_text_def Let_def)
  qed
qed

definition text_chars :: "evidence list \<Rightarrow> int" where
  "text_chars es = sum_list (map (\<lambda>e. int (length (ev_text e))) es)"

definition evidence_signature :: "evidence \<Rightarrow> signature" where
  "evidence_signature e = (ev_document_path e, ev_start_line e, ev_end_line e)"

lemma evidence_item_simps [simp]:
  "evidence_signature (evidence_item r text) = signature_of r" "ev_text (evidence_item r text) = text"
  by (simp_all add: evidence_signature_def evidence_item_def signature_of_def Let_def)

definition packed :: "int \<Rightarrow> int \<Rightarrow> evidence list \<Rightarrow> bool" where
  "packed max_chars max_total es \<longleftrightarrow> text_chars es \<le> max 0 (max_total + 2)
     \<and> list_all (\<lambda>e. ev_text e \<noteq> [] \<and> int (length (ev_text e)) \<le> max_chars + 3) es
     \<and> distinct (map evidence_signature es)"

lemma pack_loop_packed:
  "packed max_chars max_total es \<Longrightarrow> spent = text_chars es \<Longrightarrow> evidence_signature ` set es \<subseteq> set seen \<Longrightarrow>
   packed max_chars max_total (pack_loop max_evidence max_chars max_total rs seen spent es)"
proof (induction rs arbitrary: seen spent es)
  case Nil
  then show ?case by simp
next
  case (Cons r rs)
  let ?text = "chunk_excerpt max_chars r" let ?cut = "fit_text ?text (max_total - spent)"
  let ?es = "es @ [evidence_item r ?cut]"
  note [simp] = Let_def
  consider (seen) "signature_of r \<in> set seen" | (blank) "signature_of r \<notin> set seen" "?text = []"
    | (full) "signature_of r \<notin> set seen" "?text \<noteq> []" "max_total - spent \<le> 0 \<or> ?cut = []"
    | (add) "signature_of r \<notin> set seen" "?text \<noteq> []" "0 < max_total - spent" "?cut \<noteq> []" by linarith
  then show ?case
  proof cases
    case seen
    with Cons show ?thesis by simp
  next
    case blank
    have "evidence_signature ` set es \<subseteq> set (signature_of r # seen)" using Cons.prems(3) by auto
    with Cons.IH [OF Cons.prems(1,2)] blank show ?thesis by simp
  next
    case full
    with Cons.prems show ?thesis by simp
  next
    case add
    have excerpt: "int (length ?text) \<le> max_chars + 2" using length_compact_text add(2) unfolding chunk_excerpt_def by blast
    have cut: "int (length ?cut) \<le> max_total - spent + 2" "int (length ?cut) \<le> max_chars + 3"
      using length_compact_text [of ?text "max_total - spent"] add(4) excerpt by (auto simp: fit_text_def split: if_splits)
    have sum: "text_chars ?es = spent + int (length ?cut)" using Cons.prems(2) by (simp add: text_chars_def)
    have es: "packed max_chars max_total ?es"
      using Cons.prems(1,3) add(1,4) cut sum by (auto simp: packed_def)
    have sigs: "evidence_signature ` set ?es \<subseteq> set (signature_of r # seen)" using Cons.prems(3) by auto
    have not_full: "\<not> (max_total - spent \<le> 0 \<or> ?cut = [])" using add by simp
    have "packed max_chars max_total
        (pack_loop max_evidence max_chars max_total rs (signature_of r # seen) (spent + int (length ?cut)) ?es)"
      using Cons.IH [OF es _ sigs] sum by simp
    with add(1,2) not_full es show ?thesis by (simp only: pack_loop.simps Let_def if_False if_True split: if_split) simp
  qed
qed

lemma mset_insert_by [simp]: "mset (insert_by le x xs) = add_mset x (mset xs)"
  by (induction le x xs rule: insert_by.induct) auto

lemma mset_sort_by [simp]: "mset (sort_by le xs) = mset xs"
  by (induction xs) (auto simp: sort_by_def)

lemma sorted_insert_by:
  assumes "transp R" and "\<And>x y. le x y \<Longrightarrow> R x y" and "\<And>x y. \<not> le x y \<Longrightarrow> R y x"
  shows "sorted_wrt R xs \<Longrightarrow> sorted_wrt R (insert_by le x xs)"
proof (induction xs)
  case Nil
  then show ?case by simp
next
  case (Cons y ys)
  have "set (insert_by le x ys) = insert x (set ys)" by (metis mset_insert_by set_mset_add_mset_insert set_mset_mset)
  moreover have "R x z" if "le x y" and "z \<in> set ys" for z
    using transpD [OF assms(1) assms(2) [OF that(1)], of z] Cons.prems that(2) by simp
  ultimately show ?case using Cons assms(2,3) by auto
qed

lemma sorted_sort_by:
  assumes "transp R" and "\<And>x y. le x y \<Longrightarrow> R x y" and "\<And>x y. \<not> le x y \<Longrightarrow> R y x"
  shows "sorted_wrt R (sort_by le xs)"
  by (induction xs) (auto simp: sort_by_def intro: sorted_insert_by assms)

lemma sorted_evidence: "sorted_wrt (\<lambda>a b. ev_score b \<le> ev_score a) (sort_by evidence_le es)"
  by (rule sorted_sort_by) (auto simp: evidence_le_def intro!: transpI)

lemma text_chars_mset: "text_chars es = sum_mset (image_mset (\<lambda>e. int (length (ev_text e))) (mset es))"
  by (simp add: text_chars_def flip: sum_mset_sum_list)

lemma packed_mset: "mset es = mset fs \<Longrightarrow> packed a b es \<Longrightarrow> packed a b fs"
proof -
  assume m: "mset es = mset fs" and es: "packed a b es"
  have "mset (map evidence_signature es) = mset (map evidence_signature fs)" using m by simp
  then have "distinct (map evidence_signature fs)" using es mset_eq_imp_distinct_iff unfolding packed_def by blast
  moreover have "text_chars fs = text_chars es" unfolding text_chars_mset m ..
  moreover have "set fs = set es" using m by (rule mset_eq_setD [symmetric])
  ultimately show ?thesis using es by (simp add: packed_def list_all_iff)
qed

lemma packed_take: "packed a b es \<Longrightarrow> packed a b (take n es)"
proof -
  assume es: "packed a b es"
  have "text_chars es = text_chars (take n es) + text_chars (drop n es)"
    by (metis append_take_drop_id map_append sum_list_append text_chars_def)
  moreover have "0 \<le> text_chars (drop n es)" unfolding text_chars_def by (rule sum_list_nonneg) auto
  ultimately have "text_chars (take n es) \<le> text_chars es" by linarith
  moreover have "distinct (map evidence_signature (take n es))" using es by (simp add: packed_def flip: take_map)
  ultimately show ?thesis using es by (auto simp: packed_def list_all_iff dest: in_set_takeD)
qed

text \<open>
  C14. The evidence handed on is bounded: at most the requested number of items, no text more than three characters over the
  limit of a chunk, all texts together at most two over the total limit (the dots of a cut), one item for a place of a document,
  best score first.\<close>

theorem packed_evidence_is_bounded:
  assumes "0 \<le> max_evidence"
  shows "(let es = pack_evidence rs max_evidence max_chars max_total in
     int (length es) \<le> max_evidence \<and> packed max_chars max_total es \<and> sorted_wrt (\<lambda>a b. ev_score b \<le> ev_score a) es)"
proof -
  let ?all = "sort_by evidence_le (pack_loop max_evidence max_chars max_total rs [] 0 [])"
  have "packed max_chars max_total (pack_loop max_evidence max_chars max_total rs [] 0 [])"
    by (rule pack_loop_packed) (auto simp: packed_def text_chars_def)
  then have "packed max_chars max_total ?all" by (rule packed_mset [rotated]) simp
  moreover have "pack_evidence rs max_evidence max_chars max_total = take (length (py_slice ?all 0 max_evidence)) ?all"
    unfolding pack_evidence_def by (rule py_slice_prefix [THEN conjunct1])
  moreover have "int (length (py_slice ?all 0 max_evidence)) \<le> max_evidence"
    using py_slice_prefix [of ?all max_evidence] assms by linarith
  ultimately show ?thesis
    unfolding Let_def pack_evidence_def by (metis packed_take sorted_evidence sorted_wrt_take)
qed

definition sample_result :: "uid \<Rightarrow> search_result" where
  "sample_result i = \<lparr>sr_chunk = \<lparr>lc_chunk = sample_chunk i 1, lc_document = None\<rparr>, sr_vector_score = 0, sr_lexical_score = 1,
     sr_metadata_score = 0, sr_rrf_score = 1, sr_metadata_boost = 0, sr_metadata_boost_reasons = [], sr_fused_score = 1,
     sr_rerank_score = None\<rparr>"

theorem packed_evidence_is_bounded_witness:
  "(let es = pack_evidence [sample_result 3, sample_result 4] 2 1600 10000 in
     int (length es) \<le> 2 \<and> packed 1600 10000 es \<and> sorted_wrt (\<lambda>a b. ev_score b \<le> ev_score a) es)"
  by (rule packed_evidence_is_bounded) simp

section \<open>Where evidence comes from\<close>

lemma pack_loop_origin:
  "e \<in> set (pack_loop max_evidence max_chars max_total rs seen spent es) \<Longrightarrow>
   e \<in> set es \<or> (\<exists>r \<in> set rs. ev_chunk_id e = uid_str (lc_id (sr_chunk r)) \<and> ev_document_path e = doc_path_of (sr_chunk r))"
proof (induction rs arbitrary: seen spent es)
  case Nil
  then show ?case by simp
next
  case (Cons r rs)
  let ?cut = "fit_text (chunk_excerpt max_chars r) (max_total - spent)"
  have item: "ev_chunk_id (evidence_item r ?cut) = uid_str (lc_id (sr_chunk r))"
    "ev_document_path (evidence_item r ?cut) = doc_path_of (sr_chunk r)"
    by (simp_all add: evidence_item_def Let_def)
  consider "e \<in> set (pack_loop max_evidence max_chars max_total rs seen spent es)"
    | "e \<in> set (pack_loop max_evidence max_chars max_total rs (signature_of r # seen) spent es)" | "e \<in> set es"
    | "e = evidence_item r ?cut"
    | "e \<in> set (pack_loop max_evidence max_chars max_total rs (signature_of r # seen) (spent + int (length ?cut)) (es @ [evidence_item r ?cut]))"
    using Cons.prems by (auto simp: Let_def split: if_splits)
  then show ?case
  proof cases
    case 1
    then show ?thesis using Cons.IH by fastforce
  next
    case 2
    then show ?thesis using Cons.IH by fastforce
  next
    case 5
    then show ?thesis using Cons.IH [OF 5] item by auto
  qed (use item in auto)
qed

lemma pack_evidence_origin:
  "e \<in> set (pack_evidence rs max_evidence max_chars max_total) \<Longrightarrow> \<exists>r \<in> set rs. ev_chunk_id e = uid_str (lc_id (sr_chunk r))"
proof -
  let ?all = "sort_by evidence_le (pack_loop max_evidence max_chars max_total rs [] 0 [])"
  assume e: "e \<in> set (pack_evidence rs max_evidence max_chars max_total)"
  have prefix: "pack_evidence rs max_evidence max_chars max_total = take (length (py_slice ?all 0 max_evidence)) ?all"
    unfolding pack_evidence_def by (rule py_slice_prefix [THEN conjunct1])
  from e have "e \<in> set ?all" unfolding prefix by (rule in_set_takeD)
  moreover have "set ?all = set (pack_loop max_evidence max_chars max_total rs [] 0 [])"
    by (rule mset_eq_setD) simp
  ultimately show ?thesis using pack_loop_origin by fastforce
qed

lemma length_build_citations [simp]: "length (build_citations es) = length es"
  by (simp add: build_citations_def)

lemma nth_build_citations: "i < length es \<Longrightarrow> build_citations es ! i = cite i (es ! i)"
  by (simp add: build_citations_def nth_enumerate_eq)

lemma citation_labels:
  "map (\<lambda>e. map_option ci_label (ev_citation e)) (build_citations es)
   = map (\<lambda>i. Some (''['' @ digits_of (i + 1) @ '']'')) [0..<length es]"
  by (rule nth_equalityI) (simp_all add: nth_build_citations cite_def)

lemma citation_ids: "map ev_chunk_id (build_citations es) = map ev_chunk_id es"
  by (rule nth_equalityI) (simp_all add: nth_build_citations cite_def)

end
