(* ===== verification/Investigation.thy ===== *)
theory Investigation
  imports Evidence
begin

text \<open>
  An investigation, \<open>src/incidentops/investigation\<close>: the analysers of the evidence, the hypotheses, the timeline, the selected
  root cause and \<open>investigate\<close> of \<open>service.py\<close>. The selected root cause may be the first hypothesis itself; Python then
  changes both, and the model carries a flag for it. Durations, metrics and the debug answer are not modelled.
\<close>

section \<open>Analysing logs, deploys and earlier incidents\<close>

definition rx_latency :: rx where    \<comment> \<open>\<open>(\d{2,6})ms\<close>\<close>
  "rx_latency = rx_seq [RGroup 1 (rx_times 2 6 (RSet is_digit)), rx_lit ''ms'']"

definition rx_error :: rx where    \<comment> \<open>\<open>\b(ERROR|CRITICAL|EXCEPTION|5\d\d)\b\<close>, ignoring case\<close>
  "rx_error = rx_seq [RWordEdge, rx_alt (map rx_lit_ci [''ERROR'', ''CRITICAL'', ''EXCEPTION'']
     @ [rx_seq [rx_char CHR ''5'', RSet is_digit, RSet is_digit]]), RWordEdge]"

definition rx_timeout :: rx where    \<comment> \<open>\<open>\bTIMEOUT|timed out\b\<close>, ignoring case\<close>
  "rx_timeout = RAlt (rx_seq [RWordEdge, rx_lit_ci ''TIMEOUT'']) (rx_seq [rx_lit_ci ''timed out'', RWordEdge])"

definition rx_sync :: rx where    \<comment> \<open>\<open>\b(sync|blocking|sleep|requests\.|httpx\.|urllib)\b\<close>, ignoring case\<close>
  "rx_sync = rx_seq [RWordEdge, rx_alt (map rx_lit_ci [''sync'', ''blocking'', ''sleep'', ''requests.'', ''httpx.'', ''urllib'']), RWordEdge]"

record log_findings =
  lf_slow_requests :: nat
  lf_errors :: nat
  lf_timeouts :: nat
  lf_max_latency_ms :: nat
  lf_services :: "string list"
  lf_timestamped_logs :: nat
  lf_summary_points :: "string list"

definition numeral_value :: "string \<Rightarrow> nat" where
  "numeral_value s = (case digits_value 0 False s of None \<Rightarrow> 0 | Some n \<Rightarrow> n)"

definition latencies :: "string \<Rightarrow> nat list" where
  "latencies text = map (\<lambda>m. numeral_value (group_text m 1)) (re_findall rx_latency text)"

definition analyze_logs :: "evidence list \<Rightarrow> log_findings" where
  "analyze_logs es =
     (let ls = filter (\<lambda>e. ev_source_type e = ''logs'') es;
          times = concat (map (\<lambda>e. latencies (ev_text e)) ls);
          slow = length (filter (\<lambda>l. 500 \<le> l) times);
          errors = sum_list (map (\<lambda>e. length (re_findall rx_error (ev_text e))) ls);
          timeouts = sum_list (map (\<lambda>e. length (re_findall rx_timeout (ev_text e))) ls)
      in \<lparr>lf_slow_requests = slow, lf_errors = errors, lf_timeouts = timeouts, lf_max_latency_ms = fold max times 0,
          lf_services = sorted_set (concat (map (\<lambda>e. used (ev_service_name e)) ls)),
          lf_timestamped_logs = length (filter (\<lambda>e. ev_timestamp_start e \<noteq> None) ls),
          lf_summary_points = (if slow \<noteq> 0 then [''logs contain slow request evidence''] else [])
            @ (if errors \<noteq> 0 then [''logs contain elevated error markers''] else [])
            @ (if timeouts \<noteq> 0 then [''logs contain timeout evidence''] else [])\<rparr>)"

record deploy_findings =
  df_deploy_hash :: "string option"
  df_changed_files :: "string list"
  df_summary_points :: "string list"
  df_diff_count :: nat

definition names_deploy :: "string option \<Rightarrow> evidence \<Rightarrow> bool" where
  "names_deploy h e \<longleftrightarrow> used h = [] \<or> str_contains (opt_str h) (py_lower (ev_text e))
     \<or> str_contains (opt_str h) (py_lower (ev_document_path e))"

definition analyze_deploy_diff :: "evidence list \<Rightarrow> string option \<Rightarrow> deploy_findings" where
  "analyze_deploy_diff es h =
     (let ds = filter (\<lambda>e. ev_source_type e = ''deploy'' \<and> names_deploy h e) es in
      \<lparr>df_deploy_hash = h, df_changed_files = sorted_set (concat (map (\<lambda>e. used (ev_section_title e)) ds)),
       df_summary_points = map (\<lambda>_. ''deploy diff suggests blocking or synchronous behavior changed'')
         (filter (\<lambda>e. re_search rx_sync (ev_text e) \<noteq> None) ds),
       df_diff_count = length ds\<rparr>)"

record previous_incident =
  pi_chunk_id :: string
  pi_document_path :: string
  pi_score :: rat
  pi_summary :: string

definition incident_score :: "string option \<Rightarrow> string option \<Rightarrow> string \<Rightarrow> rat" where
  "incident_score service symptom text = min 1 (35 / 100
     + (if used service \<noteq> [] \<and> str_contains (opt_str service) text then 25 / 100 else 0)
     + (if used symptom \<noteq> [] \<and> str_contains (opt_str symptom) text then 20 / 100 else 0)
     + (if any_in [''root cause'', ''timeline''] text then 10 / 100 else 0))"

definition find_previous_incidents :: "evidence list \<Rightarrow> string option \<Rightarrow> string option \<Rightarrow> previous_incident list" where
  "find_previous_incidents es service symptom = sort_desc pi_score
     (map (\<lambda>e. \<lparr>pi_chunk_id = ev_chunk_id e, pi_document_path = ev_document_path e,
         pi_score = incident_score service symptom (py_lower (ev_text e)), pi_summary = take 220 (ev_text e)\<rparr>)
       (filter (\<lambda>e. ev_source_type e = ''incident'') es))"

section \<open>Hypotheses\<close>

record hypothesis =
  hy_id :: string
  hy_summary :: string
  hy_score :: rat
  hy_confidence :: string
  hy_evidence_chunk_ids :: "string list"
  hy_supporting_reasons :: "string list"
  hy_contradicting_reasons :: "string list"

definition new_hypothesis :: "string \<Rightarrow> string \<Rightarrow> rat \<Rightarrow> string \<Rightarrow> string list \<Rightarrow> string list \<Rightarrow> hypothesis" where
  "new_hypothesis i summary score confidence ids reasons =
     \<lparr>hy_id = i, hy_summary = summary, hy_score = score, hy_confidence = confidence, hy_evidence_chunk_ids = ids,
      hy_supporting_reasons = reasons, hy_contradicting_reasons = []\<rparr>"

definition signal_hypotheses :: "evidence list \<Rightarrow> log_findings \<Rightarrow> deploy_findings \<Rightarrow> previous_incident list \<Rightarrow> hypothesis list" where
  "signal_hypotheses es lf df prev =
     (let ids = map ev_chunk_id (take 6 es) in
      (if lf_slow_requests lf \<noteq> 0 \<and> df_diff_count df \<noteq> 0 then
         [new_hypothesis ''deploy_related_behavior_change''
            ''a recent deploy may have changed request-path behavior and coincides with the observed symptom'' (72 / 100) ''medium'' ids
            [''logs show the reported symptom'', ''deployment evidence exists near the incident context'']] else [])
      @ (if lf_timeouts lf \<noteq> 0 then
         [new_hypothesis ''timeout_amplification''
            ''timeouts in a downstream dependency or critical path may be amplifying incident impact'' (66 / 100) ''medium'' ids
            [''logs contain timeout evidence'']] else [])
      @ (if lf_errors lf \<noteq> 0 then
         [new_hypothesis ''error_path_regression''
            ''error-path behavior appears elevated and may indicate a regression or failing dependency'' (62 / 100) ''medium'' ids
            [''logs contain elevated error markers'']] else [])
      @ (case prev of [] \<Rightarrow> [] | p # _ \<Rightarrow>
         [new_hypothesis ''previous_incident_pattern''
            ''a previous incident appears similar and may provide a matching operational pattern'' (58 / 100) ''medium'' [pi_chunk_id p]
            [''previous incident evidence was found'']]))"

definition generate_hypotheses :: "evidence list \<Rightarrow> log_findings \<Rightarrow> deploy_findings \<Rightarrow> previous_incident list \<Rightarrow> hypothesis list" where
  "generate_hypotheses es lf df prev =
     (let hs = signal_hypotheses es lf df prev in
      sort_desc hy_score (if hs \<noteq> [] then hs else
        [new_hypothesis ''weak_evidence'' ''available evidence is insufficient to support a confident root-cause determination''
           (25 / 100) ''low'' (map ev_chunk_id (take 6 es)) [''retrieval returned weak or sparse evidence'']]))"

definition insufficient_summary :: string where
  "insufficient_summary = ''Evidence is insufficient to identify a confident root cause.''"

definition weak_evidence :: "string list \<Rightarrow> hypothesis" where
  "weak_evidence reasons = new_hypothesis ''weak_evidence'' insufficient_summary 0 ''low'' [] reasons"

definition unsupported_claims :: "string list" where
  "unsupported_claims = [''database outage'', ''payment provider outage'', ''auth service failure'']"

text \<open>The flag says that the selected hypothesis is the first one of the list.\<close>

definition select_root_cause :: "hypothesis list \<Rightarrow> bool \<times> hypothesis" where
  "select_root_cause hs = (case hs of
      [] \<Rightarrow> (False, weak_evidence [])
    | best # _ \<Rightarrow>
        if any_in unsupported_claims (py_lower (hy_summary best)) then
          (False, weak_evidence [''top hypothesis contained an unsupported claim''])
        else if hy_score best < 7 / 10 \<or> hy_confidence best = ''low'' then
          (True, best\<lparr>hy_summary := insufficient_summary, hy_confidence := ''low''\<rparr>)
        else (True, best))"

definition share_selected :: "bool \<Rightarrow> hypothesis \<Rightarrow> hypothesis list \<Rightarrow> hypothesis list" where
  "share_selected shared h hs = (if shared then (case hs of [] \<Rightarrow> [] | _ # rest \<Rightarrow> h # rest) else hs)"

section \<open>Timeline\<close>

record timeline_event =
  te_event_type :: string
  te_summary :: string
  te_ts :: "time option"
  te_evidence_chunk_ids :: "string list"

definition evidence_event :: "evidence \<Rightarrow> timeline_event list" where
  "evidence_event e =
     (let lower = py_lower (ev_text e) in
      if ev_source_type e = ''deploy'' then
        [\<lparr>te_event_type = ''deploy'',
          te_summary = (if used (ev_deploy_hash e) \<noteq> [] then ''deploy evidence found for '' @ opt_str (ev_deploy_hash e)
                        else ''deploy evidence found''),
          te_ts = ev_timestamp_start e, te_evidence_chunk_ids = [ev_chunk_id e]\<rparr>]
      else if ev_source_type e = ''logs'' \<and> ev_timestamp_start e \<noteq> None then
        [\<lparr>te_event_type = ''log_signal'',
          te_summary = (if str_contains ''timeout'' lower then ''timeout evidence appears in logs''
                        else if str_contains ''error'' lower then ''error evidence appears in logs''
                        else if str_contains ''ms'' lower then ''latency evidence appears in logs''
                        else ''log evidence found''),
          te_ts = ev_timestamp_start e, te_evidence_chunk_ids = [ev_chunk_id e]\<rparr>]
      else [])"

definition event_le :: "timeline_event \<Rightarrow> timeline_event \<Rightarrow> bool" where
  "event_le a b = (case (te_ts a, te_ts b) of (_, None) \<Rightarrow> True | (None, Some _) \<Rightarrow> False | (Some x, Some y) \<Rightarrow> x \<le> y)"

definition build_timeline :: "evidence list \<Rightarrow> previous_incident list \<Rightarrow> timeline_event list" where
  "build_timeline es prev = sort_by event_le (concat (map evidence_event es)
     @ (case prev of [] \<Rightarrow> [] | p # _ \<Rightarrow>
          [\<lparr>te_event_type = ''similar_incident'', te_summary = ''similar previous incident found: '' @ pi_document_path p,
            te_ts = None, te_evidence_chunk_ids = [pi_chunk_id p]\<rparr>]))"

section \<open>Confidence\<close>

definition source_types_of :: "evidence list \<Rightarrow> string list" where
  "source_types_of es = remdups (filter (\<lambda>t. t \<noteq> []) (map ev_source_type es))"

definition missing_data :: "evidence list \<Rightarrow> log_findings \<Rightarrow> deploy_findings \<Rightarrow> previous_incident list \<Rightarrow> string list" where
  "missing_data es lf df prev =
     (if df_diff_count df = 0 then [''deployment history not found''] else [])
     @ (if lf_timestamped_logs lf = 0 then [''logs missing timestamps''] else [])
     @ (if prev = [] then [''no previous incident reports''] else [])
     @ (if \<not> list_ex (\<lambda>e. ev_source_type e = ''deploy'') es then [''no code diff found''] else [])
     @ (if \<not> list_ex (\<lambda>e. ev_source_type e \<in> {''runbook'', ''api_doc''}) es then [''no service ownership docs''] else [])"

definition deploy_hash_match :: "entities \<Rightarrow> evidence list \<Rightarrow> bool" where
  "deploy_hash_match ent es \<longleftrightarrow> used (ent_deploy_hash ent) \<noteq> [] \<and> list_ex (\<lambda>e. ev_deploy_hash e = ent_deploy_hash ent) es"

definition endpoint_match :: "entities \<Rightarrow> evidence list \<Rightarrow> bool" where
  "endpoint_match ent es \<longleftrightarrow> used (ent_endpoint ent) \<noteq> [] \<and> list_ex (\<lambda>e. used (ev_endpoint e) \<noteq> [] \<and> ev_endpoint e = ent_endpoint ent) es"

definition or_reason :: "string list \<Rightarrow> string \<Rightarrow> string list" where
  "or_reason reasons why = (if reasons = [] then [why] else reasons)"

definition supporting_reasons ::
  "string list \<Rightarrow> entities \<Rightarrow> evidence list \<Rightarrow> log_findings \<Rightarrow> previous_incident list \<Rightarrow> string list" where
  "supporting_reasons reasons ent es lf prev = reasons
     @ (if 3 \<le> length (source_types_of es) then [''multiple source types agree on relevant context''] else [])
     @ (if deploy_hash_match ent es then [''deploy hash matches retrieved evidence''] else [])
     @ (if endpoint_match ent es then [''endpoint match found in retrieved evidence''] else [])
     @ (if lf_timestamped_logs lf \<noteq> 0 then [''timestamped logs support ordering''] else [])
     @ (if prev \<noteq> [] then [''previous incident evidence is available for comparison''] else [])"

definition score_confidence ::
  "string \<Rightarrow> bool \<Rightarrow> string list \<Rightarrow> entities \<Rightarrow> evidence list \<Rightarrow> log_findings \<Rightarrow> previous_incident list \<Rightarrow> string list
    \<Rightarrow> string \<times> string list" where
  "score_confidence intent supported support_reasons ent es lf prev missing =
     (let types = source_types_of es; has = (\<lambda>t. t \<in> set types) in
      if \<not> supported then
        (''low'', or_reason support_reasons ''investigation evidence class is not supported for this query''
           @ (if 1 < length missing then [''multiple operational evidence sources are missing''] else []))
      else if intent \<in> {''runtime_incident'', ''deploy_regression'', ''previous_incident''} \<and> \<not> has ''logs'' then
        (''low'', support_reasons @ [''runtime investigation is missing timestamped logs''])
      else let reasons = supporting_reasons support_reasons ent es lf prev in
        if 3 \<le> length types \<and> deploy_hash_match ent es \<and> has ''logs'' \<and> (has ''code'' \<or> has ''deploy'') then (''high'', reasons)
        else if es \<noteq> [] \<and> 2 \<le> length types \<and> length missing \<le> 2 then
          (''medium'', or_reason reasons ''relevant evidence exists but one key source is missing'')
        else (''low'', or_reason reasons ''retrieval is weak or missing key deploy/log/code context''
           @ (if 2 < length missing then [''multiple key evidence sources are missing''] else [])))"

section \<open>The answer\<close>

definition citation_label :: "evidence \<Rightarrow> string" where
  "citation_label e = (case ev_citation e of None \<Rightarrow> [] | Some c \<Rightarrow> ci_label c)"

definition build_cited_answer :: "evidence list \<Rightarrow> hypothesis \<Rightarrow> bool \<Rightarrow> string list \<Rightarrow> string" where
  "build_cited_answer es selected supported missing =
     (let labels = join_with '', '' (map citation_label (take 3 es)); summary = hy_summary selected in
      if es = [] then ''No supporting evidence was retrieved for this question.''
      else if \<not> supported then
        ''The evidence points to '' @ join_with '', '' (map ev_document_path (take 3 es))
          @ ''. This is a cited repository lookup, not a confident root-cause finding ('' @ labels @ '').''
      else if hy_confidence selected = ''low'' \<or> missing \<noteq> [] then
        ''The available evidence does not support a confident root-cause conclusion. The leading assessment is: '' @ summary
          @ '' ('' @ labels @ '').''
      else ''The leading assessment is: '' @ summary @ '' ('' @ labels @ '').'')"

definition unsupported_investigation_guidance :: "string \<Rightarrow> string list \<Rightarrow> string" where
  "unsupported_investigation_guidance intent missing =
     (if intent = ''code_location'' then
        ''Use cited evidence search or answer mode for code-location questions; incident investigation is not the right mode for this query.''
      else if intent \<in> {''config_lookup'', ''api_contract''} then
        ''Use cited evidence search or answer mode for config/API questions; incident investigation requires runtime evidence.''
      else if intent = ''architecture'' then
        ''Use cited evidence search or answer mode for architecture questions; incident investigation requires runtime or change evidence.''
      else if missing \<noteq> [] then
        ''Add the missing runtime, deploy, or incident evidence before expecting a confident root-cause investigation.''
      else ''Incident investigation is not supported for this evidence mix.'')"

record investigation =
  in_question :: string
  in_task_type :: string
  in_query_intent :: string
  in_supported :: bool
  in_entities :: entities
  in_timeline :: "timeline_event list"
  in_hypotheses :: "hypothesis list"
  in_likely_root_cause :: hypothesis
  in_confidence :: string
  in_confidence_reasons :: "string list"
  in_affected_services :: "string list"
  in_suggested_fix :: "string option"
  in_missing_data :: "string list"
  in_evidence :: "evidence list"
  in_answer :: string

definition raw_source_types :: "search_result list \<Rightarrow> string list" where
  "raw_source_types rs = filter (\<lambda>t. t \<noteq> []) (map (\<lambda>r. json_text (get_or_none (lc_metadata (sr_chunk r)) ''source_type'')) rs)"

text \<open>Everything after the evidence is cited.\<close>

definition conclude :: "string \<Rightarrow> entities \<Rightarrow> query_intent \<Rightarrow> evidence list \<Rightarrow> investigation" where
  "conclude q ent intent es =
     (let lf = analyze_logs es; df = analyze_deploy_diff es (ent_deploy_hash ent);
          prev = find_previous_incidents es (ent_service_name ent) (ent_symptom ent);
          hs = generate_hypotheses es lf df prev;
          (shared, chosen) = select_root_cause hs;
          missing = missing_data es lf df prev;
          (supported, support_reasons) = investigate_supported intent (source_types_of es);
          (confidence, reasons) = score_confidence (qi_intent intent) supported support_reasons ent es lf prev missing;
          selected = chosen\<lparr>hy_confidence := confidence,
            hy_summary := (if \<not> supported \<and> qi_intent intent \<in> set lookup_intents
              then ''This query is better handled as cited evidence lookup than as a runtime root-cause investigation.''
              else hy_summary chosen)\<rparr>
      in \<lparr>in_question = q, in_task_type = classify_task q, in_query_intent = qi_intent intent, in_supported = supported,
          in_entities = ent, in_timeline = build_timeline es prev, in_hypotheses = share_selected shared selected hs,
          in_likely_root_cause = selected, in_confidence = confidence, in_confidence_reasons = reasons,
          in_affected_services = sorted_set (used (ent_service_name ent) @ filter (\<lambda>s. s \<noteq> []) (lf_services lf)),
          in_suggested_fix = (if \<not> supported then Some (unsupported_investigation_guidance (qi_intent intent) missing)
            else if confidence \<noteq> ''low'' then
              Some ''Validate the leading hypothesis against deploy history, recent logs, and ownership documentation before taking action.''
            else None),
          in_missing_data = missing, in_evidence = es, in_answer = build_cited_answer es selected supported missing\<rparr>)"

definition investigate ::
  "search_env \<Rightarrow> rerank_env \<Rightarrow> settings \<Rightarrow> uid \<Rightarrow> string \<Rightarrow> int \<Rightarrow> string \<Rightarrow> investigation dbact" where
  "investigate senv renv cfg pid q k model =
     (let intent = classify_query_intent q; ent = extract_entities q; sc = resolve_scope ent in
      bind_act (hybrid_search senv cfg pid q (max (k * 3) 30) (map (\<lambda>(f, v). (f, Some v)) (sc_filters sc))) (\<lambda>raw.
      bind_act (if \<not> fst (investigate_supported intent (raw_source_types raw))
                then ret (py_slice (sort_desc sr_fused_score raw) 0 k, skipped ''skipped'' ''missing_required_evidence_or_lookup_intent'')
                else rerank_with_debug_async renv cfg q raw model k) (\<lambda>(reranked, _).
      ret (conclude q ent intent (build_citations (pack_evidence reranked k default_max_chars default_max_total))))))"

section \<open>What an investigation promises\<close>

lemma conclude_simps:
  "in_question (conclude q ent intent es) = q" "in_evidence (conclude q ent intent es) = es"
  "in_entities (conclude q ent intent es) = ent" "in_query_intent (conclude q ent intent es) = qi_intent intent"
  "in_supported (conclude q ent intent es) = fst (investigate_supported intent (source_types_of es))"
  "hy_confidence (in_likely_root_cause (conclude q ent intent es)) = in_confidence (conclude q ent intent es)"
  "in_timeline (conclude q ent intent es) = build_timeline es (find_previous_incidents es (ent_service_name ent) (ent_symptom ent))"
  by (simp_all add: conclude_def Let_def split: prod.splits)

lemma conclude_confidence:
  "in_confidence (conclude q ent intent es) =
     (let lf = analyze_logs es; prev = find_previous_incidents es (ent_service_name ent) (ent_symptom ent) in
      fst (score_confidence (qi_intent intent) (fst (investigate_supported intent (source_types_of es)))
        (snd (investigate_supported intent (source_types_of es))) ent es lf prev
        (missing_data es lf (analyze_deploy_diff es (ent_deploy_hash ent)) prev)))"
  by (simp add: conclude_def Let_def split: prod.splits)

lemma supported_intents:
  "fst (investigate_supported intent types) \<Longrightarrow> qi_intent intent \<notin> set lookup_intents
     \<and> (qi_intent intent = ''runtime_incident'' \<longrightarrow> ''logs'' \<in> set types)
     \<and> (qi_intent intent = ''deploy_regression'' \<longrightarrow> ''deploy'' \<in> set types)
     \<and> (qi_intent intent = ''previous_incident'' \<longrightarrow> ''incident'' \<in> set types)"
  by (auto simp: investigate_supported_def split: if_splits)

definition confidence_grounds :: "investigation \<Rightarrow> bool" where
  "confidence_grounds r \<longleftrightarrow> (let types = source_types_of (in_evidence r) in
     if in_confidence r = ''high'' then
       in_supported r \<and> 3 \<le> length types \<and> ''logs'' \<in> set types \<and> (''code'' \<in> set types \<or> ''deploy'' \<in> set types)
         \<and> deploy_hash_match (in_entities r) (in_evidence r)
     else if in_confidence r = ''medium'' then in_supported r \<and> in_evidence r \<noteq> [] \<and> 2 \<le> length types
     else in_confidence r = ''low'')"

lemma score_confidence_grounds:
  "fst (score_confidence intent supported reasons ent es lf prev missing) = c \<Longrightarrow>
   c = ''low'' \<or> c = ''medium'' \<and> supported \<and> es \<noteq> [] \<and> 2 \<le> length (source_types_of es)
   \<or> c = ''high'' \<and> supported \<and> 3 \<le> length (source_types_of es) \<and> ''logs'' \<in> set (source_types_of es)
      \<and> (''code'' \<in> set (source_types_of es) \<or> ''deploy'' \<in> set (source_types_of es)) \<and> deploy_hash_match ent es"
  by (auto simp: score_confidence_def Let_def split: if_splits)

lemma conclude_grounds: "confidence_grounds (conclude q ent intent es)"
  using score_confidence_grounds [OF conclude_confidence [of q ent intent es, unfolded Let_def, symmetric]]
  by (auto simp: confidence_grounds_def Let_def conclude_simps)

lemma investigate_result:
  assumes "investigate senv renv cfg pid q k model s = (Inr r, t)"
  obtains fs raw reranked u where
    "hybrid_search senv cfg pid q (max (k * 3) 30) fs s = (Inr raw, u)"
    "reordered_prefix k raw reranked"
    "r = conclude q (extract_entities q) (classify_query_intent q)
       (build_citations (pack_evidence reranked k default_max_chars default_max_total))"
proof -
  let ?fs = "map (\<lambda>(f, v). (f, Some v)) (sc_filters (resolve_scope (extract_entities q)))"
  let ?rank = "\<lambda>raw. if \<not> fst (investigate_supported (classify_query_intent q) (raw_source_types raw))
    then ret (py_slice (sort_desc sr_fused_score raw) 0 k, skipped ''skipped'' ''missing_required_evidence_or_lookup_intent'')
    else rerank_with_debug_async renv cfg q raw model k"
  from assms obtain raw u out dbg where search: "hybrid_search senv cfg pid q (max (k * 3) 30) ?fs s = (Inr raw, u)"
    and rank: "?rank raw u = (Inr (out, dbg), t)"
    and r: "r = conclude q (extract_entities q) (classify_query_intent q)
       (build_citations (pack_evidence out k default_max_chars default_max_total))"
    by (auto simp: investigate_def Let_def bind_act_Inr_iff ret_Inr)
  have "reordered_prefix k raw out"
  proof (cases "fst (investigate_supported (classify_query_intent q) (raw_source_types raw))")
    case True
    with rank reranking_prefix [of renv cfg q raw model k u] show ?thesis by simp
  next
    case False
    with rank have "out = py_slice (sort_desc sr_fused_score raw) 0 k" by (simp add: ret_Inr)
    then show ?thesis using reordered_prefixI [of "sort_desc sr_fused_score raw"] by simp
  qed
  with that search r show ?thesis by blast
qed

lemma reordered_prefix_subset: "reordered_prefix k rs out \<Longrightarrow> r \<in> set out \<Longrightarrow> sr_chunk r \<in> sr_chunk ` set rs"
proof -
  assume "reordered_prefix k rs out" and r: "r \<in> set out"
  then obtain full where full: "result_chunks full = result_chunks rs" and out: "out = py_slice full 0 k"
    by (auto simp: reordered_prefix_def)
  have "r \<in> set full" using r py_slice_prefix [of full k, THEN conjunct1] unfolding out by (metis in_set_takeD)
  then have "sr_chunk r \<in># result_chunks full" by simp
  then show ?thesis unfolding full by simp
qed

text \<open>
  C12. An investigation is confident only with grounds. High confidence needs a supported question, three kinds of evidence
  with logs and code or deploys among them, and evidence of the very deploy the question names; medium needs two kinds; the
  root cause reported carries the same confidence; and a supported question is never a repository lookup.\<close>

theorem investigation_confidence_is_earned:
  assumes "investigate senv renv cfg pid q k model s = (Inr r, t)"
  shows "confidence_grounds r \<and> hy_confidence (in_likely_root_cause r) = in_confidence r
    \<and> (\<not> in_supported r \<or> in_query_intent r \<notin> set lookup_intents)"
  using assms
proof (rule investigate_result)
  fix fs raw reranked u
  assume r: "r = conclude q (extract_entities q) (classify_query_intent q)
       (build_citations (pack_evidence reranked k default_max_chars default_max_total))"
  have "\<not> in_supported r \<or> in_query_intent r \<notin> set lookup_intents"
    using supported_intents unfolding r conclude_simps by blast
  then show ?thesis unfolding r using conclude_grounds conclude_simps(6) by blast
qed

definition sample_rerank_env :: rerank_env where
  "sample_rerank_env = \<lparr>rk_http = \<lambda>_ _. None, rk_float = \<lambda>_. None, rk_credential_failure = \<lambda>_. None, rk_encoder = \<lambda>_. None\<rparr>"

lemma sample_investigation:
  "\<exists>r t. investigate sample_embedding_env sample_rerank_env (default_settings ''host'') 1 ''x'' 5 []
     (new_session sample_search_db) = (Inr r, t)"
proof -
  let ?fs = "map (\<lambda>(f, v). (f, Some v)) (sc_filters (resolve_scope (extract_entities ''x'')))"
  obtain res u where run: "hybrid_search sample_embedding_env (default_settings ''host'') 1 ''x'' 30 ?fs (new_session sample_search_db)
      = (res, u)" by (meson surj_pair)
  have "res \<noteq> Inl e" for e
    using search_steps [of sample_embedding_env "default_settings ''host''" 1 "''x''" 30 ?fs "new_session sample_search_db" e u] run
    by (auto simp: sample_embedding_env_def)
  then obtain raw where "res = Inr raw" by (cases res) auto
  moreover have "qi_intent (classify_query_intent ''x'') = ''generic''" by code_simp
  ultimately show ?thesis using run
    by (simp add: investigate_def Let_def bind_act_def investigate_supported_def lookup_intents_def ret_def)
qed

theorem investigation_confidence_is_earned_witness:
  "\<exists>r t. investigate sample_embedding_env sample_rerank_env (default_settings ''host'') 1 ''x'' 5 []
     (new_session sample_search_db) = (Inr r, t) \<and> confidence_grounds r"
  using sample_investigation investigation_confidence_is_earned by blast

text \<open>
  The evidence of an investigation is stored chunks of its project only, cited [1], [2], ... in order, with the timeline
  in the order of time.\<close>

theorem investigation_cites_project_chunks:
  assumes "relations_scoped (work s)" and "relations_scoped (committed s)"
    and "investigate senv renv cfg pid q k model s = (Inr r, t)"
  shows "list_all (\<lambda>e. list_ex (\<lambda>c. chunk_project_id c = pid \<and> ev_chunk_id e = uid_str (chunk_id c))
           (chunks (work s) @ chunks (committed s))) (in_evidence r)
    \<and> map (\<lambda>e. map_option ci_label (ev_citation e)) (in_evidence r)
        = map (\<lambda>i. Some (''['' @ digits_of (i + 1) @ '']'')) [0..<length (in_evidence r)]
    \<and> sorted_wrt event_le (in_timeline r)"
  using assms(3)
proof (rule investigate_result)
  fix fs raw reranked u
  let ?es = "pack_evidence reranked k default_max_chars default_max_total"
  assume search: "hybrid_search senv cfg pid q (max (k * 3) 30) fs s = (Inr raw, u)" and rank: "reordered_prefix k raw reranked"
    and r: "r = conclude q (extract_entities q) (classify_query_intent q) (build_citations ?es)"
  let ?S = "set (chunks (work s)) \<union> set (chunks (committed s))"
  have answer: "answer_of ?S pid (max (k * 3) 30) raw"
    by (rule yieldsD [OF yields_search _ _ search]) (simp_all add: rows_in_def assms(1,2))
  have id: "\<exists>c \<in> ?S. chunk_project_id c = pid \<and> i = uid_str (chunk_id c)" if "i \<in> set (map ev_chunk_id ?es)" for i
  proof -
    from that obtain x where x: "x \<in> set reranked" and i: "i = uid_str (lc_id (sr_chunk x))"
      by (auto dest!: pack_evidence_origin)
    from reordered_prefix_subset [OF rank x] obtain y where "y \<in> set raw" and "sr_chunk x = sr_chunk y" by blast
    with answer i show ?thesis by (auto simp: answer_of_def list_all_iff row_of_def)
  qed
  have "\<exists>c \<in> ?S. chunk_project_id c = pid \<and> ev_chunk_id e = uid_str (chunk_id c)" if "e \<in> set (build_citations ?es)" for e
    by (rule id) (use that in \<open>subst citation_ids [symmetric], simp\<close>)
  moreover have "sorted_wrt event_le (in_timeline r)"
    unfolding r conclude_simps build_timeline_def
    by (rule sorted_sort_by) (auto simp: event_le_def intro!: transpI split: option.splits prod.splits)
  ultimately show ?thesis
    unfolding r conclude_simps citation_labels by (simp add: list_all_iff list_ex_iff Bex_def)
qed

theorem investigation_cites_project_chunks_witness:
  "\<exists>r t. investigate sample_embedding_env sample_rerank_env (default_settings ''host'') 1 ''x'' 5 []
     (new_session sample_search_db) = (Inr r, t) \<and> sorted_wrt event_le (in_timeline r)"
proof -
  obtain r t where run: "investigate sample_embedding_env sample_rerank_env (default_settings ''host'') 1 ''x'' 5 []
     (new_session sample_search_db) = (Inr r, t)" using sample_investigation by blast
  have "relations_scoped (work (new_session sample_search_db))" "relations_scoped (committed (new_session sample_search_db))"
    by (simp_all add: relations_scoped_def sample_search_db_def empty_db_def)
  from investigation_cites_project_chunks [OF this run] run show ?thesis by blast
qed

definition sample_evidence :: "string \<Rightarrow> string \<Rightarrow> evidence" where
  "sample_evidence st txt = \<lparr>ev_chunk_id = ''1'', ev_source_type = st, ev_chunk_type = st, ev_document_path = st,
     ev_service_name = None, ev_deploy_hash = Some ''abc1234'', ev_endpoint = None, ev_section_title = None, ev_start_line = None,
     ev_end_line = None, ev_timestamp_start = Some 1, ev_timestamp_end = None, ev_text = txt, ev_score = 1, ev_vector_score = 0,
     ev_lexical_score = 0, ev_injection_flags = (False, []), ev_why_retrieved = [], ev_citation = None\<rparr>"

definition sample_entities :: entities where
  "sample_entities = \<lparr>ent_service_name = None, ent_endpoint = None, ent_deploy_hash = Some ''abc1234'', ent_symptom = None,
     ent_time_window = None, ent_raw_matches = \<lparr>qf_services = [], qf_deploy_hashes = [''abc1234''], qf_endpoints = [],
       qf_query_intent = [], qf_query_terms = []\<rparr>\<rparr>"

definition sample_case :: "evidence list" where
  "sample_case = [sample_evidence ''logs'' ''timed out'', sample_evidence ''deploy'' ''abc1234'', sample_evidence ''code'' ''x'',
     sample_evidence ''incident'' ''x'', sample_evidence ''runbook'' ''x'']"

lemma sample_case_logs:
  "analyze_logs sample_case = \<lparr>lf_slow_requests = 0, lf_errors = 0, lf_timeouts = 1, lf_max_latency_ms = 0, lf_services = [],
     lf_timestamped_logs = 1, lf_summary_points = [''logs contain timeout evidence'']\<rparr>"
  by code_simp

lemma sample_case_deploys:
  "analyze_deploy_diff sample_case (Some ''abc1234'') = \<lparr>df_deploy_hash = Some ''abc1234'', df_changed_files = [],
     df_summary_points = [], df_diff_count = 1\<rparr>"
  by code_simp

lemma sample_case_facts:
  "source_types_of sample_case = [''logs'', ''deploy'', ''code'', ''incident'', ''runbook'']"
  "deploy_hash_match sample_entities sample_case" "used (Some ''abc1234'') = [''abc1234'']"
  "\<not> any_in unsupported_claims (py_lower ''timeouts in a downstream dependency or critical path may be amplifying incident impact'')"
  by code_simp+

lemma sample_case_incidents: "\<exists>p. find_previous_incidents sample_case None None = [p]"
  by (simp add: find_previous_incidents_def sample_case_def sample_evidence_def sort_desc_def)

text \<open>
  The confidence and the root cause are judged separately: with logs of time-outs, a deploy, code, an incident report and a
  runbook, all of the deploy asked about, the investigation reports high confidence in a root cause whose text says that the
  evidence is insufficient.\<close>

theorem high_confidence_without_a_cause:
  "(let r = conclude ''q'' sample_entities (mk_intent ''deploy_regression'' [] [] [] [] []) sample_case
    in in_confidence r = ''high'' \<and> hy_confidence (in_likely_root_cause r) = ''high''
       \<and> hy_summary (in_likely_root_cause r) = insufficient_summary \<and> in_missing_data r = [])"
proof -
  obtain p where prev: "find_previous_incidents sample_case None None = [p]" using sample_case_incidents ..
  have ent: "ent_deploy_hash sample_entities = Some ''abc1234''" "ent_service_name sample_entities = None"
    "ent_symptom sample_entities = None" by (simp_all add: sample_entities_def)
  have missing: "missing_data sample_case (analyze_logs sample_case) (analyze_deploy_diff sample_case (Some ''abc1234'')) [p] = []"
    by (simp add: missing_data_def sample_case_logs sample_case_deploys) (simp add: sample_case_def sample_evidence_def)
  have hs: "\<exists>h rest. generate_hypotheses sample_case (analyze_logs sample_case) (analyze_deploy_diff sample_case (Some ''abc1234'')) [p]
      = h # rest \<and> hy_score h < 7 / 10 \<and> hy_summary h = ''timeouts in a downstream dependency or critical path may be amplifying incident impact''"
    by (simp add: generate_hypotheses_def signal_hypotheses_def sample_case_logs sample_case_deploys sort_desc_def new_hypothesis_def)
  then obtain h rest where h: "generate_hypotheses sample_case (analyze_logs sample_case)
      (analyze_deploy_diff sample_case (Some ''abc1234'')) [p] = h # rest" "hy_score h < 7 / 10"
    "hy_summary h = ''timeouts in a downstream dependency or critical path may be amplifying incident impact''" by blast
  have root: "select_root_cause (h # rest) = (True, h\<lparr>hy_summary := insufficient_summary, hy_confidence := ''low''\<rparr>)"
    using h(2,3) sample_case_facts(4) by (simp add: select_root_cause_def)
  show ?thesis
    by (simp add: conclude_def Let_def ent prev missing h(1) root mk_intent_def investigate_supported_def lookup_intents_def
        score_confidence_def sample_case_facts)
qed

end
