(* ===== verification/Agent.thy ===== *)
theory Agent
  imports Investigation Worker
begin

text \<open>
  The investigation workflow (\<open>incidentops/agent\<close>), its routes (\<open>apps/api/routes/runs.py\<close>) and the worker's job for it: the
  thirteen nodes on a typed state, their attempts and time-outs, the log of events, the drafts and the approval. LangGraph,
  the JSON encoder, the clock and the job queue are arguments. A time-out of the whole run strikes while a node runs or
  right after the retrieval; metrics, tracing and logging are not modelled, and a database statement does not fail.
\<close>

section \<open>The state of the workflow\<close>

record report_text =
  rt_title :: string
  rt_markdown :: string

record issue_text =
  it_title :: string
  it_body :: string

record final_answer =
  fa_question :: string
  fa_task_type :: "string option"
  fa_entities :: "entities option"
  fa_timeline :: "timeline_event list"
  fa_hypotheses :: "hypothesis list"
  fa_root_cause :: "hypothesis option"
  fa_affected_services :: "string list"
  fa_suggested_fix :: "string option"
  fa_citations :: "citation option list"
  fa_evidence :: "evidence list"
  fa_unknowns :: "string list"

text \<open>\<open>InvestigationState\<close>; a dictionary that is still empty is \<open>None\<close>.\<close>

record workflow_state =
  ws_run_id :: string
  ws_project_id :: string
  ws_user_query :: string
  ws_task_type :: "string option"
  ws_entities :: "entities option"
  ws_retrieval_plan :: "scope option"
  ws_evidence :: "evidence list"
  ws_timeline :: "timeline_event list"
  ws_log_findings :: "log_findings option"
  ws_deploy_findings :: "deploy_findings option"
  ws_previous_incidents :: "previous_incident list"
  ws_hypotheses :: "hypothesis list"
  ws_root_cause :: "hypothesis option"
  ws_risk_level :: "string option"
  ws_pending_approval :: bool
  ws_report_draft :: "report_text option"
  ws_issue_draft :: "issue_text option"
  ws_final_answer :: "final_answer option"
  ws_status :: string
  ws_error :: "string option"

definition initial_state :: "uid \<Rightarrow> uid \<Rightarrow> string \<Rightarrow> workflow_state" where
  "initial_state rid pid q = \<lparr>ws_run_id = uid_str rid, ws_project_id = uid_str pid, ws_user_query = q, ws_task_type = None,
     ws_entities = None, ws_retrieval_plan = None, ws_evidence = [], ws_timeline = [], ws_log_findings = None,
     ws_deploy_findings = None, ws_previous_incidents = [], ws_hypotheses = [], ws_root_cause = None, ws_risk_level = None,
     ws_pending_approval = False, ws_report_draft = None, ws_issue_draft = None, ws_final_answer = None,
     ws_status = ''running'', ws_error = None\<rparr>"

text \<open>The trip through LangGraph's dictionary copies every field; only an empty status is replaced.\<close>

definition state_from_graph_dict :: "workflow_state \<Rightarrow> workflow_state" where
  "state_from_graph_dict w = w\<lparr>ws_status := (if ws_status w = [] then ''queued'' else ws_status w)\<rparr>"

section \<open>Tools\<close>

definition get_deploy_diff :: "evidence list \<Rightarrow> string option \<Rightarrow> evidence list" where
  "get_deploy_diff es h = filter (\<lambda>e. ev_source_type e = ''deploy''
     \<and> (case h of None \<Rightarrow> True | Some k \<Rightarrow> str_contains k (ev_document_path e) \<or> str_contains k (ev_text e))) es"

definition get_logs_for_window :: "evidence list \<Rightarrow> evidence list" where
  "get_logs_for_window es = filter (\<lambda>e. ev_source_type e = ''logs'') es"

definition find_similar_incidents :: "evidence list \<Rightarrow> evidence list" where
  "find_similar_incidents es = filter (\<lambda>e. ev_source_type e = ''incident'') es"

definition none_text :: "string option \<Rightarrow> string" where    \<comment> \<open>an optional string in an f-string\<close>
  "none_text v = (case v of None \<Rightarrow> ''None'' | Some s \<Rightarrow> s)"

definition newline :: string where "newline = [CHR 0x0A]"

definition draft_incident_report :: "string option \<Rightarrow> string \<Rightarrow> string option \<Rightarrow> report_text" where
  "draft_incident_report task_type summary fix_text =
     \<lparr>rt_title = ''Incident Report: '' @ none_text task_type,
      rt_markdown = join_with newline [''# Incident Report'', '''', ''## Summary'' @ newline @ summary, '''',
        ''## Suggested Fix'' @ newline @ none_text fix_text]\<rparr>"

definition draft_github_issue :: "hypothesis option \<Rightarrow> string option \<Rightarrow> issue_text result" where
  "draft_github_issue cause fix_text =
     (let summary = (case cause of None \<Rightarrow> ''incident follow-up'' | Some h \<Rightarrow> hy_summary h);
          context_text = (case cause of None \<Rightarrow> [] | Some h \<Rightarrow> hy_summary h)
      in case fix_text of
           None \<Rightarrow> Inl (TypeError ''sequence item 4: expected str instance, NoneType found'')
         | Some f \<Rightarrow> Inr \<lparr>it_title = ''Investigate remediation: '' @ take 80 summary,
             it_body = join_with newline [''## Context'', context_text, '''', ''## Suggested Fix'', f]\<rparr>)"

text \<open>The action type is handed back with the flag; only the flag is used.\<close>

definition request_approval :: "string \<Rightarrow> string \<times> bool" where
  "request_approval action_type = (action_type, True)"

section \<open>Nodes\<close>

type_synonym agent_node = "workflow_state \<Rightarrow> workflow_state result"

definition classify_task_node :: agent_node where
  "classify_task_node w = Inr (w\<lparr>ws_task_type := Some (classify_task (ws_user_query w))\<rparr>)"

definition extract_entities_node :: agent_node where
  "extract_entities_node w = Inr (w\<lparr>ws_entities := Some (extract_entities (ws_user_query w))\<rparr>)"

definition resolve_scope_node :: agent_node where
  "resolve_scope_node w = Inr (w\<lparr>ws_retrieval_plan := Some (resolve_scope (extract_entities (ws_user_query w)))\<rparr>)"

definition analyze_logs_node :: agent_node where
  "analyze_logs_node w = Inr (w\<lparr>ws_log_findings := Some (analyze_logs (get_logs_for_window (ws_evidence w)))\<rparr>)"

definition entity_of :: "(entities \<Rightarrow> string option) \<Rightarrow> workflow_state \<Rightarrow> string option" where
  "entity_of f w = (case ws_entities w of None \<Rightarrow> None | Some e \<Rightarrow> f e)"

definition analyze_deploy_diff_node :: agent_node where
  "analyze_deploy_diff_node w = (let h = entity_of ent_deploy_hash w in
     Inr (w\<lparr>ws_deploy_findings := Some (analyze_deploy_diff (get_deploy_diff (ws_evidence w) h) h)\<rparr>))"

definition find_previous_incidents_node :: agent_node where
  "find_previous_incidents_node w = Inr (w\<lparr>ws_previous_incidents :=
     find_previous_incidents (find_similar_incidents (ws_evidence w)) (entity_of ent_service_name w) (entity_of ent_symptom w)\<rparr>)"

definition generate_hypotheses_node :: agent_node where
  "generate_hypotheses_node w = (case ws_log_findings w of
      None \<Rightarrow> Inl (KeyError ''slow_requests'')
    | Some lf \<Rightarrow> (case ws_deploy_findings w of
        None \<Rightarrow> if lf_slow_requests lf \<noteq> 0 then Inl (KeyError ''diff_count'')
          else Inr (w\<lparr>ws_hypotheses := generate_hypotheses (ws_evidence w) lf
            \<lparr>df_deploy_hash = None, df_changed_files = [], df_summary_points = [], df_diff_count = 0\<rparr> (ws_previous_incidents w)\<rparr>)
      | Some df \<Rightarrow> Inr (w\<lparr>ws_hypotheses := generate_hypotheses (ws_evidence w) lf df (ws_previous_incidents w)\<rparr>)))"

text \<open>The node copies the hypotheses first, so the list of the state keeps the one that is selected as it was.\<close>

definition select_root_cause_node :: agent_node where
  "select_root_cause_node w = Inr (w\<lparr>ws_root_cause := Some (snd (select_root_cause (ws_hypotheses w)))\<rparr>)"

definition answer_fix :: "workflow_state \<Rightarrow> string option" where    \<comment> \<open>\<open>final_answer.get("suggested_fix", "")\<close>\<close>
  "answer_fix w = (case ws_final_answer w of None \<Rightarrow> Some [] | Some a \<Rightarrow> fa_suggested_fix a)"

definition draft_incident_report_node :: agent_node where
  "draft_incident_report_node w = Inr (w\<lparr>ws_report_draft := Some (draft_incident_report (ws_task_type w)
     (case ws_root_cause w of None \<Rightarrow> [] | Some h \<Rightarrow> hy_summary h) (answer_fix w))\<rparr>)"

definition draft_issue_node :: agent_node where
  "draft_issue_node w = rbind (draft_github_issue (ws_root_cause w) (answer_fix w)) (\<lambda>i. Inr (w\<lparr>ws_issue_draft := Some i\<rparr>))"

definition risk_gate_node :: agent_node where
  "risk_gate_node w = Inr (w\<lparr>ws_risk_level := Some ''medium'', ws_pending_approval := snd (request_approval ''create_github_issue'')\<rparr>)"

definition wait_for_human_approval_node :: agent_node where
  "wait_for_human_approval_node w = Inr (w\<lparr>ws_status := (if ws_pending_approval w then ''awaiting_approval'' else ws_status w)\<rparr>)"

definition answer_of_state :: "workflow_state \<Rightarrow> timeline_event list \<Rightarrow> final_answer" where
  "answer_of_state w timeline =
     \<lparr>fa_question = ws_user_query w, fa_task_type = ws_task_type w, fa_entities = ws_entities w, fa_timeline = timeline,
      fa_hypotheses = ws_hypotheses w, fa_root_cause = ws_root_cause w,
      fa_affected_services = sorted_set (used (entity_of ent_service_name w)
        @ (case ws_log_findings w of None \<Rightarrow> [] | Some lf \<Rightarrow> filter (\<lambda>s. s \<noteq> []) (lf_services lf))),
      fa_suggested_fix = (if map_option hy_confidence (ws_root_cause w) \<noteq> Some ''low'' then
        Some ''Validate the leading hypothesis against deploy history, logs, and ownership documentation before taking action.''
        else None),
      fa_citations = map ev_citation (ws_evidence w), fa_evidence = ws_evidence w,
      fa_unknowns = (if ws_previous_incidents w \<noteq> [] then [] else [''No prior incident match reached confidence threshold.''])\<rparr>"

definition finalize_answer_node :: agent_node where
  "finalize_answer_node w = (let timeline = build_timeline (ws_evidence w) (ws_previous_incidents w) in
     Inr (w\<lparr>ws_timeline := timeline, ws_final_answer := Some (answer_of_state w timeline),
       ws_status := (if \<not> ws_pending_approval w then ''completed'' else ''awaiting_approval'')\<rparr>))"

definition node_order :: "(string \<times> agent_node) list" where
  "node_order = [
     (''classify_task'', classify_task_node),
     (''extract_entities'', extract_entities_node),
     (''resolve_scope'', resolve_scope_node),
     (''analyze_logs'', analyze_logs_node),
     (''analyze_deploy_diff'', analyze_deploy_diff_node),
     (''find_previous_incidents'', find_previous_incidents_node),
     (''generate_hypotheses'', generate_hypotheses_node),
     (''select_root_cause'', select_root_cause_node),
     (''draft_incident_report'', draft_incident_report_node),
     (''draft_issue'', draft_issue_node),
     (''risk_gate'', risk_gate_node),
     (''wait_for_human_approval'', wait_for_human_approval_node),
     (''finalize_answer'', finalize_answer_node)]"

section \<open>The log of events\<close>

definition events_of :: "uid \<Rightarrow> db \<Rightarrow> run_event list" where
  "events_of rid d = filter (\<lambda>e. runev_run_id e = rid) (agent_run_events d)"

definition event_row :: "time \<Rightarrow> uid \<Rightarrow> string \<Rightarrow> string option \<Rightarrow> json dict \<Rightarrow> int \<Rightarrow> uid \<Rightarrow> run_event" where
  "event_row now rid event_type node_name payload next_seq i = \<lparr>runev_id = i, runev_run_id = rid,
     runev_sequence_no = next_seq, runev_event_type = event_type, runev_node_name = node_name,
     runev_payload_json = Some payload, runev_created_at = now\<rparr>"

definition next_sequence_no :: "uid \<Rightarrow> db \<Rightarrow> int" where
  "next_sequence_no rid d = fold max (map runev_sequence_no (events_of rid d)) 0 + 1"

definition append_run_event :: "time \<Rightarrow> uid \<Rightarrow> string \<Rightarrow> string option \<Rightarrow> json dict \<Rightarrow> unit dbact" where
  "append_run_event now rid event_type node_name payload = change (\<lambda>d.
     add_row agent_run_events_update (event_row now rid event_type node_name payload (next_sequence_no rid d)) d)"

definition set_agent_run :: "time \<Rightarrow> uid \<Rightarrow> (agent_run \<Rightarrow> agent_run) \<Rightarrow> unit dbact" where
  "set_agent_run now rid f = change (edit_row agent_runs_update run_id rid (\<lambda>r. (f r)\<lparr>run_updated_at := now\<rparr>))"

definition new_run :: "time \<Rightarrow> uid \<Rightarrow> uid option \<Rightarrow> string \<Rightarrow> uid \<Rightarrow> agent_run" where
  "new_run now pid usr q i = \<lparr>run_id = i, run_project_id = pid, run_user_id = usr, run_user_query = q, run_task_type = None,
     run_status = RunQueued, run_risk_level = None, run_pending_approval = False, run_state_json = Some [],
     run_final_answer_json = Some [], run_error = None, run_created_at = now, run_updated_at = now\<rparr>"

definition create_run :: "time \<Rightarrow> uid \<Rightarrow> uid option \<Rightarrow> string \<Rightarrow> uid dbact" where
  "create_run now pid usr q =
     bind_act (query next_id) (\<lambda>i.
     then_act (change (add_row agent_runs_update (new_run now pid usr q)))
     (then_act (append_run_event now i ''run_created'' None [(''query'', JStr q)]) (ret i)))"

text \<open>\<open>str(exc)\<close>, and the same on one line of at most a thousand characters.\<close>

definition exn_text :: "py_exn \<Rightarrow> string" where
  "exn_text e = (case e of
      ValueError m \<Rightarrow> m | TypeError m \<Rightarrow> m | KeyError k \<Rightarrow> py_repr (JStr k) | RuntimeError m \<Rightarrow> m | FileNotFoundError \<Rightarrow> []
    | HTTPException c m \<Rightarrow> digits_of c @ '': '' @ m | PathPolicyError m \<Rightarrow> m | DocumentIndexingError c m \<Rightarrow> m
    | VectorStoreError m \<Rightarrow> m | TimeoutError \<Rightarrow> [] | OtherError c m \<Rightarrow> m)"

definition agent_safe_error :: "py_exn \<Rightarrow> string" where
  "agent_safe_error e = take 1000 (replace_char (CHR 0x0A) (CHR '' '') (exn_text e))"

section \<open>Attempts of a node\<close>

text \<open>
  What the clock does to an attempt: in time; too late for the node's time-out (the thread goes on, and what it writes to the
  state may be seen or not); or the whole run's time-out cancels it.
\<close>

datatype timing = InTime | NodeLate bool | RunLate bool

record agent_env =
  ae_now :: time
  ae_search :: search_env
  ae_rerank :: rerank_env
  ae_langgraph :: bool
  ae_timing :: "string \<Rightarrow> nat \<Rightarrow> timing"
  ae_latency_ms :: "string \<Rightarrow> nat \<Rightarrow> int"
  ae_retrieval_late :: bool
  ae_encode_state :: "workflow_state \<Rightarrow> json dict"
  ae_encode_answer :: "final_answer option \<Rightarrow> json dict"

definition cancelled :: py_exn where "cancelled = OtherError ''CancelledError'' []"

definition after_node :: "agent_node \<Rightarrow> bool \<Rightarrow> workflow_state \<Rightarrow> workflow_state" where
  "after_node node seen w = (if seen then (case node w of Inl _ \<Rightarrow> w | Inr w' \<Rightarrow> w') else w)"

definition call_node :: "agent_env \<Rightarrow> string \<Rightarrow> agent_node \<Rightarrow> nat \<Rightarrow> workflow_state \<Rightarrow> py_exn option \<times> workflow_state" where
  "call_node env name node attempt w = (case ae_timing env name attempt of
      InTime \<Rightarrow> (case node w of Inl e \<Rightarrow> (Some e, w) | Inr w' \<Rightarrow> (None, w'))
    | NodeLate seen \<Rightarrow> (Some TimeoutError, after_node node seen w)
    | RunLate seen \<Rightarrow> (Some cancelled, after_node node seen w))"

definition node_event :: "agent_env \<Rightarrow> uid \<Rightarrow> string \<Rightarrow> string \<Rightarrow> json dict \<Rightarrow> unit dbact" where
  "node_event env rid name event_type payload = append_run_event (ae_now env) rid event_type (Some name) payload"

definition attempt_entry :: "nat \<Rightarrow> string \<times> json" where
  "attempt_entry n = (''attempt'', JInt (int n))"

definition node_completed :: "agent_env \<Rightarrow> uid \<Rightarrow> string \<Rightarrow> nat \<Rightarrow> workflow_state \<Rightarrow> unit dbact" where
  "node_completed env rid name attempt w = node_event env rid name ''node_completed''
     [attempt_entry attempt, (''latency_ms'', JInt (ae_latency_ms env name attempt)), (''status'', JStr (ws_status w)),
      (''pending_approval'', JBool (ws_pending_approval w))]"

definition node_failed :: "agent_env \<Rightarrow> uid \<Rightarrow> string \<Rightarrow> nat \<Rightarrow> py_exn \<Rightarrow> unit dbact" where
  "node_failed env rid name attempt e = node_event env rid name ''node_failed''
     [attempt_entry attempt, (''latency_ms'', JInt (ae_latency_ms env name attempt)), (''error'', JStr (agent_safe_error e))]"

text \<open>
  The loop over the attempts, \<open>left\<close> of them after this one. It hands back the state, which a failed attempt may have
  changed, and the exception that ends the node; a cancellation is not an \<open>Exception\<close> and is not caught.
\<close>

fun node_attempts ::
  "agent_env \<Rightarrow> uid \<Rightarrow> string \<Rightarrow> agent_node \<Rightarrow> nat \<Rightarrow> nat \<Rightarrow> workflow_state \<Rightarrow> (py_exn option \<times> workflow_state) dbact" where
  "node_attempts env rid name node attempt left w =
     then_act (node_event env rid name ''node_started'' [attempt_entry attempt])
     (case call_node env name node attempt w of
        (None, w') \<Rightarrow> then_act (node_completed env rid name attempt w') (ret (None, w'))
      | (Some e, w') \<Rightarrow> if e = cancelled then ret (Some e, w')
          else then_act (node_failed env rid name attempt e)
            (case left of
               0 \<Rightarrow> ret (Some (RuntimeError (''Node '' @ name @ '' failed: '' @ agent_safe_error e)), w')
             | Suc m \<Rightarrow> then_act (node_event env rid name ''node_retried'' [attempt_entry (attempt + 1)])
                 (node_attempts env rid name node (attempt + 1) m w')))"

declare node_attempts.simps [simp del]

definition non_retryable_nodes :: "string list" where
  "non_retryable_nodes = [''wait_for_human_approval'']"

definition attempts_allowed :: "settings \<Rightarrow> string \<Rightarrow> nat" where
  "attempts_allowed cfg name = (if name \<in> set non_retryable_nodes then 1 else nat (max 1 (workflow_max_retries cfg + 1)))"

definition execute_node_with_observability ::
  "agent_env \<Rightarrow> settings \<Rightarrow> uid \<Rightarrow> string \<Rightarrow> agent_node \<Rightarrow> workflow_state \<Rightarrow> (py_exn option \<times> workflow_state) dbact" where
  "execute_node_with_observability env cfg rid name node w = node_attempts env rid name node 1 (attempts_allowed cfg name - 1) w"

section \<open>The graph\<close>

definition graph_engine_name :: "agent_env \<Rightarrow> string" where
  "graph_engine_name env = (if ae_langgraph env then ''langgraph'' else ''sequential_fallback'')"

text \<open>LangGraph hands every node a copy; the fallback hands on the object itself.\<close>

definition node_input :: "agent_env \<Rightarrow> workflow_state \<Rightarrow> workflow_state" where
  "node_input env w = (if ae_langgraph env then state_from_graph_dict w else w)"

fun run_nodes ::
  "agent_env \<Rightarrow> settings \<Rightarrow> uid \<Rightarrow> (string \<times> agent_node) list \<Rightarrow> workflow_state \<Rightarrow> (py_exn option \<times> workflow_state) dbact" where
  "run_nodes env cfg rid [] w = ret (None, w)"
| "run_nodes env cfg rid ((name, node) # ns) w =
     bind_act (execute_node_with_observability env cfg rid name node (node_input env w)) (\<lambda>(err, w').
       case err of Some e \<Rightarrow> ret (Some e, w') | None \<Rightarrow> run_nodes env cfg rid ns w')"

text \<open>The state the caller is left with: when a node fails under LangGraph it still has the one it passed in.\<close>

definition run_agent_graph ::
  "agent_env \<Rightarrow> settings \<Rightarrow> uid \<Rightarrow> workflow_state \<Rightarrow> (py_exn option \<times> workflow_state) dbact" where
  "run_agent_graph env cfg rid w = bind_act (run_nodes env cfg rid node_order w) (\<lambda>(err, w').
     ret (err, case err of None \<Rightarrow> node_input env w' | Some _ \<Rightarrow> if ae_langgraph env then w else w'))"

section \<open>A run\<close>

definition search_evidence ::
  "search_env \<Rightarrow> rerank_env \<Rightarrow> settings \<Rightarrow> uid \<Rightarrow> string \<Rightarrow> int \<Rightarrow> string \<Rightarrow> evidence list dbact" where
  "search_evidence senv renv cfg pid q k model =
     bind_act (hybrid_search senv cfg pid q (max (k * 3) 30) []) (\<lambda>raw.
     bind_act (rerank_with_debug_async renv cfg q raw model k) (\<lambda>(ranked, _).
     ret (build_citations (pack_evidence ranked k default_max_chars default_max_total))))"

definition multiple_results :: py_exn where
  "multiple_results = OtherError ''MultipleResultsFound'' ''Multiple rows were found when one or none was required''"

text \<open>\<open>scalar_one_or_none\<close>, and a row added when there is none.\<close>

definition add_if_none :: "(db \<Rightarrow> 'r list) \<Rightarrow> (db \<Rightarrow> db) \<Rightarrow> unit dbact" where
  "add_if_none found add = bind_act (query found) (\<lambda>rs. case rs of
      [] \<Rightarrow> change add | [r] \<Rightarrow> ret () | _ \<Rightarrow> raise multiple_results)"

definition ensure_pending_approval :: "time \<Rightarrow> uid \<Rightarrow> uid option \<Rightarrow> unit dbact" where
  "ensure_pending_approval now rid usr = add_if_none
     (\<lambda>d. filter (\<lambda>a. appr_run_id a = rid \<and> appr_action_type a = ''create_github_issue'' \<and> appr_status a = ApprovalPending) (approvals d))
     (add_row approvals_update (\<lambda>i. \<lparr>appr_id = i, appr_run_id = rid, appr_action_type = ''create_github_issue'',
        appr_requested_by_user_id = usr, appr_resolved_by_user_id = None, appr_status = ApprovalPending,
        appr_rationale = None, appr_created_at = now, appr_resolved_at = None\<rparr>))"

definition persist_drafts :: "time \<Rightarrow> uid \<Rightarrow> workflow_state \<Rightarrow> unit dbact" where
  "persist_drafts now rid w =
     then_act (case ws_report_draft w of None \<Rightarrow> ret ()
       | Some r \<Rightarrow> add_if_none (\<lambda>d. filter (\<lambda>x. report_run_id x = rid) (incident_report_drafts d))
           (add_row incident_report_drafts_update (\<lambda>i. \<lparr>report_id = i, report_run_id = rid,
              report_content_markdown = rt_markdown r,
              report_content_json = Some [(''title'', JStr (rt_title r)), (''markdown'', JStr (rt_markdown r))],
              report_status = DraftDraft, report_created_at = now, report_updated_at = now\<rparr>)))
       (case ws_issue_draft w of None \<Rightarrow> ret ()
       | Some x \<Rightarrow> add_if_none (\<lambda>d. filter (\<lambda>y. issue_run_id y = rid) (issue_drafts d))
           (add_row issue_drafts_update (\<lambda>i. \<lparr>issue_id = i, issue_run_id = rid, issue_title = it_title x,
              issue_body_markdown = it_body x, issue_provider = ''github'', issue_status = DraftDraft,
              issue_created_at = now, issue_updated_at = now\<rparr>)))"

definition run_event_now :: "agent_env \<Rightarrow> uid \<Rightarrow> string \<Rightarrow> json dict \<Rightarrow> unit dbact" where
  "run_event_now env rid event_type payload = append_run_event (ae_now env) rid event_type None payload"

definition result_status :: "bool \<Rightarrow> workflow_state \<Rightarrow> run_status" where
  "result_status create_issue_draft w = (if ws_pending_approval w \<and> create_issue_draft then RunAwaitingApproval else RunCompleted)"

text \<open>After the graph: the row takes the results, then the approval, the drafts and the last event.\<close>

definition store_results :: "agent_env \<Rightarrow> agent_run \<Rightarrow> bool \<Rightarrow> workflow_state \<Rightarrow> unit dbact" where
  "store_results env run create_issue_draft w =
     (let rid = run_id run; st = result_status create_issue_draft w in
      then_act (run_event_now env rid ''workflow_graph_completed''
        [(''engine'', JStr (graph_engine_name env)), (''status'', JStr (ws_status w))])
      (then_act (set_agent_run (ae_now env) rid (\<lambda>r. r\<lparr>run_task_type := ws_task_type w, run_risk_level := ws_risk_level w,
         run_state_json := Some (ae_encode_state env w), run_final_answer_json := Some (ae_encode_answer env (ws_final_answer w)),
         run_status := st, run_pending_approval := (st = RunAwaitingApproval)\<rparr>))
      (then_act (when_act (st = RunAwaitingApproval) (ensure_pending_approval (ae_now env) rid (run_user_id run)))
      (then_act (persist_drafts (ae_now env) rid w)
        (run_event_now env rid ''run_finished'' [(''status'', JStr (run_status_value st))])))))"

text \<open>The body of the run hands back the exception that ended it, if one did, and the state at that moment.\<close>

definition workflow_body ::
  "agent_env \<Rightarrow> settings \<Rightarrow> agent_run \<Rightarrow> int \<Rightarrow> string \<Rightarrow> bool \<Rightarrow> (py_exn option \<times> workflow_state) dbact" where
  "workflow_body env cfg run k model create_issue_draft =
     (let rid = run_id run; w0 = initial_state rid (run_project_id run) (run_user_query run) in
      bind_act (outcome (search_evidence (ae_search env) (ae_rerank env) cfg (run_project_id run) (run_user_query run) k model))
        (\<lambda>found. case (if ae_retrieval_late env then Inl cancelled else found) of
           Inl e \<Rightarrow> ret (Some e, w0)
         | Inr es \<Rightarrow>
             let w1 = w0\<lparr>ws_evidence := es\<rparr> in
             then_act (run_event_now env rid ''retrieved_evidence'' [(''count'', JInt (int (length es)))])
             (then_act (run_event_now env rid ''workflow_graph_started'' [(''engine'', JStr (graph_engine_name env))])
             (bind_act (run_agent_graph env cfg rid w1) (\<lambda>(err, w2). case err of
                Some e \<Rightarrow> ret (Some e, w2)
              | None \<Rightarrow> bind_act (outcome (store_results env run create_issue_draft w2)) (\<lambda>stored.
                  ret (case stored of Inl e \<Rightarrow> Some e | Inr _ \<Rightarrow> None, w2)))))))"

definition record_failure :: "agent_env \<Rightarrow> uid \<Rightarrow> workflow_state \<Rightarrow> py_exn \<Rightarrow> unit dbact" where
  "record_failure env rid w e =
     (let err = agent_safe_error (if e = cancelled then TimeoutError else e);
          w' = w\<lparr>ws_status := ''failed'', ws_error := Some err\<rparr> in
      then_act (set_agent_run (ae_now env) rid (\<lambda>r. r\<lparr>run_status := RunFailed, run_error := Some err,
          run_pending_approval := False, run_state_json := Some (ae_encode_state env w')\<rparr>))
        (run_event_now env rid ''run_failed'' [(''error'', JStr err)]))"

definition load_run :: "uid \<Rightarrow> agent_run dbact" where    \<comment> \<open>\<open>db.refresh\<close>\<close>
  "load_run rid = bind_act (query (\<lambda>d. row_with run_id rid (agent_runs d))) (\<lambda>found. case found of
      None \<Rightarrow> raise (OtherError ''InvalidRequestError'' ''Could not refresh instance'') | Some r \<Rightarrow> ret r)"

definition execute_run ::
  "agent_env \<Rightarrow> settings \<Rightarrow> agent_run \<Rightarrow> int \<Rightarrow> string \<Rightarrow> bool \<Rightarrow> agent_run dbact" where
  "execute_run env cfg run k model create_issue_draft =
     (let rid = run_id run in
      then_act (set_agent_run (ae_now env) rid (\<lambda>r. r\<lparr>run_status := RunRunning, run_error := None\<rparr>))
      (then_act (run_event_now env rid ''run_started'' [(''status'', JStr ''running'')])
      (bind_act (workflow_body env cfg run k model create_issue_draft) (\<lambda>(err, w).
       then_act (case err of None \<Rightarrow> ret () | Some e \<Rightarrow> record_failure env rid w e)
         (load_run rid)))))"

section \<open>The approval\<close>

definition latest_approval :: "uid \<Rightarrow> db \<Rightarrow> approval_row option" where
  "latest_approval rid d = head_opt (sort_key (\<lambda>a. - appr_created_at a) (filter (\<lambda>a. appr_run_id a = rid) (approvals d)))"

text \<open>
  The answer's dictionary is changed in place and assigned again; whether the ORM sees the same object as changed is an
  argument (\<open>tracks\<close>). An answer that is null or empty is replaced by a new dictionary, which is stored.
\<close>

definition with_decision :: "bool \<Rightarrow> json \<Rightarrow> json dict option \<Rightarrow> json dict option" where
  "with_decision tracks decision answer =
     (if or_empty answer = [] \<or> tracks then Some (dict_set ''approval'' decision (or_empty answer)) else answer)"

definition resume_after_approval :: "time \<Rightarrow> bool \<Rightarrow> agent_run \<Rightarrow> bool \<Rightarrow> string option \<Rightarrow> agent_run dbact" where
  "resume_after_approval now tracks run approved rationale =
     bind_act (query (latest_approval (run_id run))) (\<lambda>found. case found of
       None \<Rightarrow> ret run
     | Some a \<Rightarrow>
         let st = (if approved then ApprovalApproved else ApprovalRejected);
             decision = [(''status'', JStr (approval_status_value st)), (''rationale'', opt_json rationale)] in
         then_act (change (edit_row approvals_update appr_id (appr_id a)
           (\<lambda>x. x\<lparr>appr_status := st, appr_rationale := rationale\<rparr>)))
         (then_act (set_agent_run now (run_id run) (\<lambda>r. r\<lparr>run_pending_approval := False,
            run_status := (if approved then RunCompleted else RunRejected),
            run_final_answer_json := with_decision tracks (JObj decision) (run_final_answer_json r)\<rparr>))
         (then_act (append_run_event now (run_id run) ''approval_resolved'' None decision)
           (load_run (run_id run)))))"

section \<open>Routes\<close>

record run_request_body =
  rr_project_id :: uid
  rr_query :: string
  rr_top_k :: int
  rr_create_issue_draft :: bool

record run_response =
  rs_run_id :: uid
  rs_project_id :: uid
  rs_status :: string
  rs_task_type :: "string option"
  rs_risk_level :: "string option"
  rs_pending_approval :: bool
  rs_final_answer :: "json dict option"
  rs_error :: "string option"
  rs_created_at :: time
  rs_updated_at :: time

definition run_response_of :: "agent_run \<Rightarrow> run_response" where
  "run_response_of r = \<lparr>rs_run_id = run_id r, rs_project_id = run_project_id r, rs_status = run_status_value (run_status r),
     rs_task_type = run_task_type r, rs_risk_level = run_risk_level r, rs_pending_approval = run_pending_approval r,
     rs_final_answer = run_final_answer_json r, rs_error = run_error r, rs_created_at = run_created_at r,
     rs_updated_at = run_updated_at r\<rparr>"

record event_response =
  er_sequence_no :: int
  er_event_type :: string
  er_node_name :: "string option"
  er_payload :: "json dict"
  er_created_at :: time

definition event_response_of :: "run_event \<Rightarrow> event_response" where
  "event_response_of e = \<lparr>er_sequence_no = runev_sequence_no e, er_event_type = runev_event_type e,
     er_node_name = runev_node_name e, er_payload = or_empty (runev_payload_json e), er_created_at = runev_created_at e\<rparr>"

definition run_audit :: "request_info \<Rightarrow> user_row \<Rightarrow> uid \<Rightarrow> uid \<Rightarrow> json dict \<Rightarrow> audit_args" where
  "run_audit request user pid rid metadata =
     audit_defaults\<lparr>aa_project_id := Some pid, aa_user := Some user, aa_resource_type := Some ''agent_run'',
       aa_resource_id := Some (uid_str rid), aa_request := Some request, aa_metadata := metadata\<rparr>"

text \<open>The run goes to the queue, which answers \<open>enq\<close>; a refusal is recorded, committed and reported.\<close>

definition refuse_run :: "agent_env \<Rightarrow> request_info \<Rightarrow> user_row \<Rightarrow> uid \<Rightarrow> uid \<Rightarrow> py_exn \<Rightarrow> agent_run dbact" where
  "refuse_run env request user pid rid e =
     (let now = ae_now env; err = agent_safe_error e in
      then_act (set_agent_run now rid (\<lambda>r. r\<lparr>run_status := RunFailed, run_error := Some err\<rparr>))
      (then_act (run_event_now env rid ''run_failed'' [(''error'', JStr err)])
      (then_act (record_audit_event now ''workflow_job_failed'' ''failed'' (run_audit request user pid rid [(''error'', JStr err)]))
      (then_act commit (raise (HTTPException 503 ''Failed to enqueue workflow job''))))))"

definition run_job_payload :: "settings \<Rightarrow> run_request_body \<Rightarrow> uid \<Rightarrow> json dict" where
  "run_job_payload cfg body rid = [(''run_id'', JStr (uid_str rid)), (''top_k'', JInt (rr_top_k body)),
     (''reranker_model'', JStr (reranker_model cfg)), (''create_issue_draft'', JBool (rr_create_issue_draft body))]"

definition enqueue_run ::
  "agent_env \<Rightarrow> settings \<Rightarrow> (json dict \<Rightarrow> unit result) \<Rightarrow> request_info \<Rightarrow> user_row \<Rightarrow> run_request_body \<Rightarrow> uid \<Rightarrow> agent_run dbact" where
  "enqueue_run env cfg enq request user body rid =
     (let now = ae_now env; pid = rr_project_id body in
      then_act (run_event_now env rid ''job_enqueued''
        [(''job_type'', JStr ''execute_workflow_run''), (''queue_backend'', JStr (job_queue_backend cfg))])
      (then_act (record_audit_event now ''workflow_job_enqueued'' ''queued''
         (run_audit request user pid rid [(''top_k'', JInt (rr_top_k body)), (''queue_backend'', JStr (job_queue_backend cfg))]))
      (then_act commit
        (case enq (run_job_payload cfg body rid) of
           Inl e \<Rightarrow> refuse_run env request user pid rid e
         | Inr _ \<Rightarrow> load_run rid))))"

definition start_run ::
  "agent_env \<Rightarrow> settings \<Rightarrow> unit result \<Rightarrow> (json dict \<Rightarrow> unit result) \<Rightarrow> request_info \<Rightarrow> user_row \<Rightarrow> run_request_body
    \<Rightarrow> run_response dbact" where
  "start_run env cfg verdict enq request user body =
     (let now = ae_now env; pid = rr_project_id body in
      then_act (lift_result (enforce_query_limits (rr_query body) (rr_top_k body) cfg))
      (then_act (check_rate_limit cfg now verdict (''run:'' @ uid_str (user_id user)) (user_request_limit cfg) (Some user)
         (Some pid) ''workflow_run'')
      (then_act (require_project_role now pid (user_id user) RoleInvestigator)
      (bind_act (create_run now pid (Some (user_id user)) (rr_query body)) (\<lambda>rid.
       then_act (record_audit_event now ''workflow_run_created'' ''success'' (run_audit request user pid rid
          [(''top_k'', JInt (rr_top_k body)), (''create_issue_draft'', JBool (rr_create_issue_draft body))]))
       (bind_act (if worker_mode cfg = ''queue'' then enqueue_run env cfg enq request user body rid
          else bind_act (load_run rid) (\<lambda>run.
            execute_run env cfg run (rr_top_k body) (reranker_model cfg) (rr_create_issue_draft body))) (\<lambda>run.
        then_act (when_act (run_pending_approval run)
          (record_audit_event now ''approval_requested'' ''pending'' (run_audit request user pid rid [])))
          (ret (run_response_of run)))))))))"

definition find_run :: "uid \<Rightarrow> agent_run dbact" where
  "find_run rid = bind_act (query (\<lambda>d. row_with run_id rid (agent_runs d))) (\<lambda>found. case found of
      None \<Rightarrow> raise (HTTPException 404 ''Run not found'') | Some r \<Rightarrow> ret r)"

definition get_run :: "settings \<Rightarrow> time \<Rightarrow> user_row option \<Rightarrow> uid \<Rightarrow> run_response dbact" where
  "get_run cfg now user rid = bind_act (find_run rid) (\<lambda>run.
     then_act (ensure_project_access cfg now (run_project_id run) user RoleViewer) (ret (run_response_of run)))"

definition get_run_events :: "settings \<Rightarrow> time \<Rightarrow> user_row option \<Rightarrow> uid \<Rightarrow> event_response list dbact" where
  "get_run_events cfg now user rid = bind_act (find_run rid) (\<lambda>run.
     then_act (ensure_project_access cfg now (run_project_id run) user RoleViewer)
       (query (\<lambda>d. map event_response_of (sort_key runev_sequence_no (events_of rid d)))))"

definition decide_run ::
  "time \<Rightarrow> bool \<Rightarrow> request_info \<Rightarrow> user_row \<Rightarrow> uid \<Rightarrow> bool \<Rightarrow> string option \<Rightarrow> (uid \<times> string \<times> string option) dbact" where
  "decide_run now tracks request user rid approved rationale = bind_act (find_run rid) (\<lambda>run.
     then_act (require_project_role now (run_project_id run) (user_id user) RoleApprover)
     (bind_act (resume_after_approval now tracks run approved rationale) (\<lambda>run'.
      then_act (record_audit_event now (if approved then ''approval_approved'' else ''approval_rejected'') ''success''
        (run_audit request user (run_project_id run) rid []))
        (ret (rid, run_status_value (run_status run'), rationale)))))"

definition approve_run :: "time \<Rightarrow> bool \<Rightarrow> request_info \<Rightarrow> user_row \<Rightarrow> uid \<Rightarrow> string option \<Rightarrow> (uid \<times> string \<times> string option) dbact" where
  "approve_run now tracks request user rid rationale = decide_run now tracks request user rid True rationale"

definition reject_run :: "time \<Rightarrow> bool \<Rightarrow> request_info \<Rightarrow> user_row \<Rightarrow> uid \<Rightarrow> string option \<Rightarrow> (uid \<times> string \<times> string option) dbact" where
  "reject_run now tracks request user rid rationale = decide_run now tracks request user rid False rationale"

section \<open>The worker's job\<close>

definition terminal_run_statuses :: "run_status list" where
  "terminal_run_statuses = [RunAwaitingApproval, RunCompleted, RunFailed, RunRejected]"

definition job_audit :: "agent_run \<Rightarrow> json dict \<Rightarrow> audit_args" where
  "job_audit run metadata = audit_defaults\<lparr>aa_project_id := Some (run_project_id run), aa_user_id := run_user_id run,
     aa_resource_type := Some ''agent_run'', aa_resource_id := Some (uid_str (run_id run)), aa_metadata := metadata\<rparr>"

definition run_workflow_job :: "agent_env \<Rightarrow> settings \<Rightarrow> uid \<Rightarrow> int \<Rightarrow> string \<Rightarrow> bool \<Rightarrow> unit dbact" where
  "run_workflow_job env cfg rid k model draft =
     bind_act (query (\<lambda>d. row_with run_id rid (agent_runs d))) (\<lambda>found. case found of
       None \<Rightarrow> ret ()
     | Some run \<Rightarrow>
         if run_status run \<in> set terminal_run_statuses then ret ()
         else then_act (record_audit_event (ae_now env) ''workflow_job_started'' ''running'' (job_audit run []))
         (bind_act (execute_run env cfg run k model draft) (\<lambda>run'.
          then_act (record_audit_event (ae_now env)
            (if run_status run' = RunFailed then ''workflow_job_failed'' else ''workflow_job_completed'')
            (run_status_value (run_status run')) (job_audit run' [(''top_k'', JInt k)]))
          commit)))"

definition execute_workflow_run_job :: "agent_env \<Rightarrow> settings \<Rightarrow> json dict \<Rightarrow> db \<Rightarrow> unit result \<times> db" where
  "execute_workflow_run_job env cfg payload d =
     (case rbind (payload_uid payload ''run_id'') (\<lambda>rid.
             rbind (json_int (json_or (dict_get_or JNull payload ''top_k'') (JInt (default_top_k cfg)))) (\<lambda>k. Inr (rid, k))) of
        Inl e \<Rightarrow> (Inl e, d)
      | Inr (rid, k) \<Rightarrow> with_session (run_workflow_job env cfg rid k
          (py_str (json_or (dict_get_or JNull payload ''reranker_model'') (JStr (reranker_model cfg))))
          (truthy (dict_get_or (JBool True) payload ''create_issue_draft''))) d)"

section \<open>The log explains the runs\<close>

text \<open>
  The abstract machine: the log alone determines the status of a run. \<open>replay\<close> computes it, and the invariant says that
  every row has the status its log replays to, that events are numbered 1, 2, 3, ... and that a run awaits an approval
  exactly when its flag says so. Between two statements the invariant may fail for the run at work, \<open>Some rid\<close>.
\<close>

definition status_step :: "string \<Rightarrow> json dict \<Rightarrow> run_status \<Rightarrow> run_status" where
  "status_step ty payload st =
     (if ty = ''run_created'' then RunQueued
      else if ty = ''run_started'' then RunRunning
      else if ty = ''run_failed'' then RunFailed
      else if ty = ''run_finished'' then
        (if dict_get payload ''status'' = Some (JStr ''awaiting_approval'') then RunAwaitingApproval else RunCompleted)
      else if ty = ''approval_resolved'' then
        (if dict_get payload ''status'' = Some (JStr ''approved'') then RunCompleted else RunRejected)
      else st)"

definition replay :: "run_event list \<Rightarrow> run_status" where
  "replay es = fold (\<lambda>e. status_step (runev_event_type e) (or_empty (runev_payload_json e))) es RunQueued"

definition numbered :: "run_event list \<Rightarrow> bool" where
  "numbered es \<longleftrightarrow> map runev_sequence_no es = map (\<lambda>i. int (i + 1)) [0..<length es]"

definition row_logged :: "agent_run \<Rightarrow> db \<Rightarrow> bool" where
  "row_logged r d \<longleftrightarrow> run_status r = replay (events_of (run_id r) d)
     \<and> run_pending_approval r = (run_status r = RunAwaitingApproval)"

definition log_inv :: "uid option \<Rightarrow> db \<Rightarrow> bool" where
  "log_inv ex d \<longleftrightarrow> keys_ok run_id (agent_runs d) (next_id d) \<and> (\<forall>e \<in> set (agent_run_events d). runev_run_id e < next_id d)
     \<and> (\<forall>rid. numbered (events_of rid d)) \<and> (\<forall>r \<in> set (agent_runs d). ex = Some (run_id r) \<or> row_logged r d)"

lemma fold_max_upto: "fold max (map (\<lambda>i. int (i + 1)) [0..<n]) 0 = int n"
  by (induction n) simp_all

lemma numbered_next: "numbered (events_of rid d) \<Longrightarrow> next_sequence_no rid d = int (length (events_of rid d)) + 1"
  unfolding next_sequence_no_def numbered_def by (simp only: fold_max_upto)

lemma numbered_append: "numbered es \<Longrightarrow> runev_sequence_no e = int (length es) + 1 \<Longrightarrow> numbered (es @ [e])"
  by (simp add: numbered_def)

lemma numbered_Nil [simp]: "numbered []"
  by (simp add: numbered_def)

lemma replay_append:
  "replay (es @ [e]) = status_step (runev_event_type e) (or_empty (runev_payload_json e)) (replay es)"
  by (simp add: replay_def)

lemma event_row_simps [simp]:
  "runev_run_id (event_row now rid ty nm pl n i) = rid" "runev_sequence_no (event_row now rid ty nm pl n i) = n"
  "runev_event_type (event_row now rid ty nm pl n i) = ty" "or_empty (runev_payload_json (event_row now rid ty nm pl n i)) = pl"
  "runev_id (event_row now rid ty nm pl n i) = i"
  by (simp_all add: event_row_def or_empty_def)

abbreviation logged_event :: "time \<Rightarrow> uid \<Rightarrow> string \<Rightarrow> string option \<Rightarrow> json dict \<Rightarrow> db \<Rightarrow> db" where
  "logged_event now rid ty nm pl d \<equiv> add_row agent_run_events_update (event_row now rid ty nm pl (next_sequence_no rid d)) d"

lemma events_of_logged:
  "events_of r (logged_event now rid ty nm pl d) =
     events_of r d @ (if r = rid then [event_row now rid ty nm pl (next_sequence_no rid d) (next_id d)] else [])"
  by (simp add: events_of_def agent_run_events.rows_add)

lemma agent_runs_logged [simp]:
  "agent_runs (logged_event now rid ty nm pl d) = agent_runs d" "next_id (logged_event now rid ty nm pl d) = next_id d + 1"
  by (simp_all add: add_row_def)

definition neutral :: "string \<Rightarrow> bool" where
  "neutral ty \<longleftrightarrow> ty \<notin> {''run_created'', ''run_started'', ''run_failed'', ''run_finished'', ''approval_resolved''}"

lemma status_step_neutral: "neutral ty \<Longrightarrow> status_step ty pl st = st"
  by (simp add: status_step_def neutral_def)

lemma log_inv_event:
  assumes inv: "log_inv ex d" and rid: "rid < next_id d" and ok: "ex = Some rid \<or> neutral ty"
  shows "log_inv ex (logged_event now rid ty nm pl d)"
proof -
  have num: "numbered (events_of r (logged_event now rid ty nm pl d))" for r
    unfolding events_of_logged using inv by (simp add: log_inv_def numbered_append numbered_next)
  have "ex = Some (run_id r) \<or> row_logged r (logged_event now rid ty nm pl d)" if "r \<in> set (agent_runs d)" for r
  proof -
    from that inv have "ex = Some (run_id r) \<or> row_logged r d" by (simp add: log_inv_def)
    with ok show ?thesis by (auto simp: row_logged_def events_of_logged replay_append status_step_neutral)
  qed
  with num inv rid show ?thesis
    by (auto simp: log_inv_def agent_run_events.rows_add intro: less_SucI)
qed

text \<open>A run of the table, and one that has reached a status.\<close>

definition has_run :: "uid \<Rightarrow> db \<Rightarrow> bool" where
  "has_run rid d \<longleftrightarrow> rid \<in> run_id ` set (agent_runs d)"

definition run_at :: "uid \<Rightarrow> run_status \<Rightarrow> db \<Rightarrow> bool" where
  "run_at rid st d \<longleftrightarrow> has_run rid d \<and> (\<forall>r \<in> set (agent_runs d). run_id r = rid \<longrightarrow>
     run_status r = st \<and> run_pending_approval r = (st = RunAwaitingApproval))"

lemma has_run_below: "log_inv ex d \<Longrightarrow> has_run rid d \<Longrightarrow> rid < next_id d"
  by (auto simp: log_inv_def keys_ok_def has_run_def)

lemma log_inv_weaken: "log_inv None d \<Longrightarrow> log_inv ex d"
  by (auto simp: log_inv_def)

lemma log_inv_close:
  assumes "log_inv (Some rid) d" and "run_at rid st d" and "\<And>old. status_step ty pl old = st"
  shows "log_inv None (logged_event now rid ty nm pl d) \<and> run_at rid st (logged_event now rid ty nm pl d)"
proof -
  let ?d = "logged_event now rid ty nm pl d"
  from assms(2) have "has_run rid d" by (simp add: run_at_def)
  with assms(1) have inv: "log_inv (Some rid) ?d" by (intro log_inv_event has_run_below) auto
  have at_st: "run_at rid st ?d" using assms(2) by (simp add: run_at_def has_run_def)
  have "row_logged r ?d" if r: "r \<in> set (agent_runs ?d)" for r
  proof (cases "run_id r = rid")
    case True
    with at_st r assms(3) show ?thesis by (simp add: run_at_def row_logged_def events_of_logged replay_append)
  next
    case False
    with inv r show ?thesis by (auto simp: log_inv_def)
  qed
  with inv at_st show ?thesis by (auto simp: log_inv_def)
qed

lemma set_run_log:
  assumes "log_inv (Some rid) d" and "has_run rid d" and "\<And>r. run_id (f r) = run_id r"
  shows "log_inv (Some rid) (edit_row agent_runs_update run_id rid f d) \<and> has_run rid (edit_row agent_runs_update run_id rid f d)"
proof -
  let ?d = "edit_row agent_runs_update run_id rid f d"
  have rows: "agent_runs ?d = map (\<lambda>r. if run_id r = rid then f r else r) (agent_runs d)"
    by (simp add: edit_row_def agent_runs.rows_edit)
  have other: "agent_run_events ?d = agent_run_events d" "next_id ?d = next_id d" "events_of r ?d = events_of r d" for r
    by (simp_all add: edit_row_def edit_rows_def events_of_def)
  have "keys_ok run_id (agent_runs ?d) (next_id ?d)"
    using agent_runs.ok_edit [of d "\<lambda>r. run_id r = rid" f] assms by (simp add: log_inv_def edit_row_def)
  moreover have "\<forall>r \<in> set (agent_runs ?d). Some rid = Some (run_id r) \<or> row_logged r ?d"
    using assms by (auto simp: rows log_inv_def row_logged_def other)
  moreover have "map run_id (agent_runs ?d) = map run_id (agent_runs d)" using assms(3) by (simp add: rows)
  then have "has_run rid ?d" using assms(2) unfolding has_run_def by (metis list.set_map)
  ultimately show ?thesis using assms(1) by (simp add: log_inv_def other)
qed


section \<open>Triples of the statements\<close>

abbreviation mid :: "uid \<Rightarrow> db \<Rightarrow> bool" where
  "mid rid d \<equiv> log_inv (Some rid) d \<and> has_run rid d"

abbreviation mid_at :: "uid \<Rightarrow> run_status \<Rightarrow> db \<Rightarrow> bool" where
  "mid_at rid st d \<equiv> log_inv (Some rid) d \<and> run_at rid st d"

abbreviation settled :: "uid \<Rightarrow> run_status \<Rightarrow> db \<Rightarrow> bool" where
  "settled rid st d \<equiv> log_inv None d \<and> run_at rid st d"

lemma mid_at_mid: "mid_at rid st d \<Longrightarrow> mid rid d"
  by (simp add: run_at_def)

lemma has_run_logged: "has_run r (logged_event now rid ty nm pl d) = has_run r d"
  by (simp add: has_run_def)

lemma log_inv_mid: "mid rid d \<Longrightarrow> log_inv (Some rid) (logged_event now rid ty nm pl d)"
  by (rule log_inv_event) (auto intro: has_run_below)

lemma event_mid: "triple I (mid rid) (append_run_event now rid ty nm pl) (\<lambda>_. mid rid) E"
  unfolding append_run_event_def
  by (rule triple_change) (simp add: has_run_logged log_inv_mid)

lemma event_close:
  "(\<And>old. status_step ty pl old = st) \<Longrightarrow>
   triple I (mid_at rid st) (append_run_event now rid ty nm pl) (\<lambda>_. settled rid st) E"
  unfolding append_run_event_def by (rule triple_change) (blast intro: log_inv_close [THEN conjunct1] log_inv_close [THEN conjunct2])

lemma set_run_mid:
  "(\<And>r. run_id (f r) = run_id r) \<Longrightarrow> triple I (mid rid) (set_agent_run now rid f) (\<lambda>_. mid rid) E"
  unfolding set_agent_run_def by (rule triple_change) (simp add: set_run_log)

lemma run_at_edit:
  assumes "has_run rid (edit_row agent_runs_update run_id rid f d)" and "\<And>r. run_id (f r) = run_id r"
    and "\<And>r. run_status (f r) = st \<and> run_pending_approval (f r) = (st = RunAwaitingApproval)"
  shows "run_at rid st (edit_row agent_runs_update run_id rid f d)"
  using assms by (auto simp: run_at_def edit_row_def agent_runs.rows_edit)

lemma set_run_at:
  assumes "\<And>r. run_id (f r) = run_id r"
    and "\<And>r. run_status (f r) = st \<and> run_pending_approval (f r) = (st = RunAwaitingApproval)"
  shows "triple I (mid rid) (set_agent_run now rid f) (\<lambda>_. mid_at rid st) E"
  unfolding set_agent_run_def
  by (rule triple_change) (use set_run_log run_at_edit assms in \<open>simp add: run_at_edit set_run_log\<close>)

text \<open>Statements on other tables.\<close>

definition same_runs :: "db \<Rightarrow> db \<Rightarrow> bool" where
  "same_runs d d' \<longleftrightarrow> agent_runs d' = agent_runs d \<and> agent_run_events d' = agent_run_events d \<and> next_id d \<le> next_id d'"

lemma same_runs_inv:
  assumes "same_runs d d'"
  shows "log_inv ex d \<Longrightarrow> log_inv ex d'" "has_run rid d \<Longrightarrow> has_run rid d'" "run_at rid st d \<Longrightarrow> run_at rid st d'"
  using assms unfolding same_runs_def log_inv_def has_run_def run_at_def row_logged_def events_of_def
  by (auto intro: keys_ok_mono less_le_trans)

lemma same_runs_add [simp]:
  "same_runs d (add_row approvals_update mk1 d)" "same_runs d (add_row incident_report_drafts_update mk2 d)"
  "same_runs d (add_row issue_drafts_update mk3 d)" "same_runs d (add_row audit_events_update mk4 d)"
  "same_runs d (edit_row approvals_update k5 i f5 d)"
  by (simp_all add: same_runs_def stmt_defs)

lemma add_if_none_mid_at:
  "(\<And>d. same_runs d (add d)) \<Longrightarrow> triple I (mid_at rid st) (add_if_none found add) (\<lambda>_. mid_at rid st) (mid_at rid st)"
  unfolding add_if_none_def
  by (rule triple_bind [OF triple_query [where Q = "\<lambda>_. mid_at rid st"]], assumption)
     (auto split: list.split intro!: triple_change triple_ret triple_raise intro: same_runs_inv)

lemma audit_kept:
  "(\<And>d d'. same_runs d d' \<Longrightarrow> P d \<Longrightarrow> P d') \<Longrightarrow> \<not> aa_commit a \<Longrightarrow> triple I P (record_audit_event now action st a) (\<lambda>_. P) E"
  unfolding record_audit_event_def when_act_def
  by (rule triple_then [where R = P], rule triple_change) (blast intro: same_runs_add, simp add: triple_ret)


section \<open>A run always ends\<close>

lemma node_attempts_mid:
  "triple I (mid rid) (node_attempts env rid name node attempt left w) (\<lambda>_. mid rid) E"
proof (induction left arbitrary: attempt w)
  case 0
  show ?case
    by (subst node_attempts.simps)
      (auto simp: node_event_def node_completed_def node_failed_def split: prod.split option.split
        intro!: triple_then [OF event_mid] triple_ret)
next
  case (Suc m)
  show ?case
    by (subst node_attempts.simps)
      (auto simp: node_event_def node_completed_def node_failed_def split: prod.split option.split
        intro!: triple_then [OF event_mid] triple_ret Suc)
qed

lemma run_nodes_mid: "triple I (mid rid) (run_nodes env cfg rid ns w) (\<lambda>_. mid rid) E"
proof (induction env cfg rid ns w rule: run_nodes.induct)
  case (1 env cfg rid w)
  show ?case by (simp add: triple_ret)
next
  case (2 env cfg rid name node ns w)
  show ?case unfolding run_nodes.simps execute_node_with_observability_def
    by (rule triple_bind [OF node_attempts_mid]) (auto split: option.split intro!: triple_ret 2)
qed

lemma graph_mid: "triple I (mid rid) (run_agent_graph env cfg rid w) (\<lambda>_. mid rid) E"
  unfolding run_agent_graph_def by (rule triple_bind [OF run_nodes_mid]) (auto split: option.split intro!: triple_ret)

lemma when_mid_at:
  "triple I (mid_at rid st) (when_act b (ensure_pending_approval now rid usr)) (\<lambda>_. mid_at rid st) (mid_at rid st)"
  unfolding ensure_pending_approval_def by (rule triple_when [OF add_if_none_mid_at]) simp_all

lemma drafts_mid_at: "triple I (mid_at rid st) (persist_drafts now rid w) (\<lambda>_. mid_at rid st) (mid_at rid st)"
  unfolding persist_drafts_def
  by (rule triple_then [where R = "mid_at rid st"]) (auto split: option.split intro!: add_if_none_mid_at triple_ret)

lemma finished_event:
  "st = RunAwaitingApproval \<or> st = RunCompleted \<Longrightarrow>
   status_step ''run_finished'' [(''status'', JStr (run_status_value st))] old = st"
  by (auto simp: status_step_def)

lemma result_status_cases: "result_status b w = RunAwaitingApproval \<or> result_status b w = RunCompleted"
  by (simp add: result_status_def)

lemma store_results_ends:
  "triple I (mid (run_id run)) (store_results env run b w) (\<lambda>_. settled (run_id run) (result_status b w)) (mid (run_id run))"
proof -
  let ?rid = "run_id run" and ?st = "result_status b w"
  have last: "triple I (mid_at ?rid ?st) (run_event_now env ?rid ''run_finished'' [(''status'', JStr (run_status_value ?st))])
      (\<lambda>_. settled ?rid ?st) (mid_at ?rid ?st)"
    unfolding run_event_now_def by (rule event_close) (rule finished_event [OF result_status_cases])
  have first: "triple I (mid ?rid) (run_event_now env ?rid ty pl) (\<lambda>_. mid ?rid) (mid ?rid)" for ty pl
    unfolding run_event_now_def by (rule event_mid)
  show ?thesis unfolding store_results_def Let_def
    by (rule triple_then [OF first], rule triple_then [where R = "mid_at ?rid ?st"], rule set_run_at, simp, simp,
        rule triple_conseq [where E' = "mid_at ?rid ?st"],
        rule triple_then [OF when_mid_at], rule triple_then [OF drafts_mid_at], rule last) (simp_all add: run_at_def)
qed

definition ended_body :: "uid \<Rightarrow> py_exn option \<times> workflow_state \<Rightarrow> db \<Rightarrow> bool" where
  "ended_body rid out d = (case fst out of
      None \<Rightarrow> settled rid RunAwaitingApproval d \<or> settled rid RunCompleted d | Some _ \<Rightarrow> mid rid d)"

lemma reads_only_evidence [intro]: "reads_only (search_evidence senv renv cfg pid q k model)"
  unfolding search_evidence_def by (intro reads_only_bind reads_only_search reads_only_rerank reads_only_pair reads_only_simple)

lemma body_ends: "triple I (mid (run_id run)) (workflow_body env cfg run k model b) (ended_body (run_id run)) E"
proof -
  let ?rid = "run_id run"
  have event: "triple I (mid ?rid) (run_event_now env ?rid ty pl) (\<lambda>_. mid ?rid) E" for ty pl
    unfolding run_event_now_def by (rule event_mid)
  have stored: "triple I (mid ?rid) (outcome (store_results env run b w)) (\<lambda>r. ended_body ?rid (case r of Inl e \<Rightarrow> Some e | Inr _ \<Rightarrow> None, w)) E" for w
    by (rule triple_conseq [OF triple_outcome [OF store_results_ends, where F = E]])
      (use result_status_cases [of b w] in \<open>auto simp: ended_body_def split: sum.splits\<close>)
  have search: "triple I (mid ?rid) (outcome (search_evidence senv renv cfg pid q k model)) (\<lambda>_. mid ?rid) E" for senv renv pid q
    by (rule triple_conseq [OF triple_outcome [OF triple_reads [OF reads_only_evidence], where F = E]])
      (auto simp: ends_def split: sum.splits)
  show ?thesis unfolding workflow_body_def Let_def
    by (rule triple_bind [OF search])
      (auto simp: ended_body_def split: sum.splits option.splits prod.splits
        intro!: triple_ret triple_then [OF event] triple_bind [OF graph_mid] triple_bind [OF stored])
qed


text \<open>The end of a run: the row, settled and explained by its log.\<close>

definition run_ended :: "uid \<Rightarrow> agent_run \<Rightarrow> db \<Rightarrow> bool" where
  "run_ended rid r d \<longleftrightarrow> log_inv None d \<and> r \<in> set (agent_runs d) \<and> run_id r = rid
     \<and> run_status r \<in> {RunCompleted, RunAwaitingApproval, RunFailed}
     \<and> run_pending_approval r = (run_status r = RunAwaitingApproval)"

lemma load_run_triple:
  assumes "\<And>d r. P d \<Longrightarrow> r \<in> set (agent_runs d) \<Longrightarrow> run_id r = rid \<Longrightarrow> Q r d" and "\<And>d. P d \<Longrightarrow> has_run rid d"
  shows "triple I P (load_run rid) Q E"
proof (rule tripleI)
  fix s :: "db session" and r t
  assume i: "I (committed s)" and p: "P (work s)" and run: "load_run rid s = (r, t)"
  from assms(2) [OF p] obtain x where "row_with run_id rid (agent_runs (work s)) = Some x"
    by (metis has_run_def imageE option.exhaust row_with_None)
  with run assms(1) [OF p] i p show "I (committed t) \<and> ends Q E r (work t)"
    by (auto simp: load_run_def ret_def dest: row_with_Some)
qed

lemma failure_settles: "triple I (mid rid) (record_failure env rid w e) (\<lambda>_. settled rid RunFailed) E"
  unfolding record_failure_def Let_def run_event_now_def
  by (rule triple_then [OF set_run_at event_close]) (simp_all add: status_step_def)

definition settled_end :: "uid \<Rightarrow> db \<Rightarrow> bool" where
  "settled_end rid d \<longleftrightarrow> settled rid RunFailed d \<or> settled rid RunAwaitingApproval d \<or> settled rid RunCompleted d"

lemma end_of_body:
  "triple I (ended_body rid (err, w)) (case err of None \<Rightarrow> ret () | Some e \<Rightarrow> record_failure env rid w e) (\<lambda>_. settled_end rid) E"
proof (cases err)
  case None
  then show ?thesis by (auto simp: ended_body_def settled_end_def intro: triple_ret)
next
  case (Some e)
  then show ?thesis
    by simp (rule triple_conseq [OF failure_settles], auto simp: settled_end_def ended_body_def)
qed

lemma load_settled: "triple I (settled_end rid) (load_run rid) (run_ended rid) E"
  by (rule load_run_triple) (auto simp: settled_end_def run_at_def run_ended_def)

lemma execute_run_ends:
  "triple I (mid (run_id run)) (execute_run env cfg run k model b) (run_ended (run_id run)) E"
  unfolding execute_run_def Let_def run_event_now_def
  by (rule triple_then [OF set_run_mid], simp, rule triple_then [OF event_mid], rule triple_bind [OF body_ends])
     (auto intro!: triple_then [OF end_of_body load_settled] split: prod.split)


section \<open>Requests and jobs\<close>

lemma log_inv_add_run:
  assumes "log_inv None d" and "run_id (mk (next_id d)) = next_id d" and "run_status (mk (next_id d)) = RunQueued"
    and "\<not> run_pending_approval (mk (next_id d))"
  shows "log_inv None (add_row agent_runs_update mk d) \<and> has_run (next_id d) (add_row agent_runs_update mk d)"
proof -
  let ?d = "add_row agent_runs_update mk d"
  have other: "agent_run_events ?d = agent_run_events d" "next_id ?d = Suc (next_id d)" "events_of r ?d = events_of r d" for r
    by (simp_all add: add_row_def events_of_def)
  have "events_of (next_id d) d = []" using assms(1) by (auto simp: log_inv_def events_of_def filter_empty_conv)
  then have "row_logged (mk (next_id d)) ?d" using assms by (simp add: row_logged_def other replay_def)
  moreover have "keys_ok run_id (agent_runs ?d) (next_id ?d)"
    using agent_runs.ok_add [of d mk] assms(1,2) by (simp add: log_inv_def)
  ultimately show ?thesis using assms
    by (auto simp: log_inv_def other row_logged_def has_run_def agent_runs.rows_add intro: less_SucI)
qed

text \<open>The invariant with a run in the table.\<close>

abbreviation with_run :: "uid \<Rightarrow> db \<Rightarrow> bool" where
  "with_run rid d \<equiv> log_inv None d \<and> has_run rid d"

lemma event_neutral: "neutral ty \<Longrightarrow> triple I (with_run rid) (append_run_event now rid ty nm pl) (\<lambda>_. with_run rid) E"
  unfolding append_run_event_def
  by (rule triple_change) (auto simp: has_run_logged intro: log_inv_event has_run_below)

lemma new_run_simps [simp]:
  "run_id (new_run now pid usr q i) = i" "run_status (new_run now pid usr q i) = RunQueued"
  "\<not> run_pending_approval (new_run now pid usr q i)" "run_project_id (new_run now pid usr q i) = pid"
  by (simp_all add: new_run_def)

lemma settled_mid: "settled rid st d \<Longrightarrow> mid rid d"
  by (simp add: run_at_def log_inv_weaken)

lemma settled_neutral: "neutral ty \<Longrightarrow> triple I (settled rid st) (append_run_event now rid ty nm pl) (\<lambda>_. settled rid st) E"
  unfolding append_run_event_def
  by (rule triple_change) (auto simp: run_at_def has_run_logged intro: log_inv_event has_run_below)

lemma create_run_triple: "triple I (log_inv None) (create_run now pid usr q) (\<lambda>rid. settled rid RunQueued) E"
proof -
  have created: "triple I (\<lambda>d. log_inv None d \<and> next_id d = i) (change (add_row agent_runs_update (new_run now pid usr q)))
      (\<lambda>_. mid_at i RunQueued) E" for i
  proof (rule triple_change)
    fix d assume d: "log_inv None d \<and> next_id d = i"
    then have "with_run i (add_row agent_runs_update (new_run now pid usr q) d)"
      using log_inv_add_run [of d "new_run now pid usr q"] by simp
    moreover have "run_status r = RunQueued \<and> \<not> run_pending_approval r"
      if "r \<in> set (agent_runs (add_row agent_runs_update (new_run now pid usr q) d))" "run_id r = i" for r
    proof -
      from that d have "r \<in> set (agent_runs d) \<or> r = new_run now pid usr q i" by (auto simp: agent_runs.rows_add)
      moreover have "run_id r < i" if "r \<in> set (agent_runs d)" using that d by (auto simp: log_inv_def keys_ok_def)
      ultimately have "r = new_run now pid usr q i" using that(2) by auto
      then show ?thesis by simp
    qed
    ultimately show "mid_at i RunQueued (add_row agent_runs_update (new_run now pid usr q) d)"
      by (auto simp: run_at_def log_inv_weaken)
  qed
  show ?thesis unfolding create_run_def
    by (rule triple_bind [OF triple_query [where Q = "\<lambda>i d. log_inv None d \<and> next_id d = i"]], simp,
        rule triple_then [OF created], rule triple_then [OF event_close])
      (auto simp: status_step_def intro!: triple_ret)
qed

lemma audit_settled:
  "triple I (settled rid st) (record_audit_event now action ast (run_audit rq u p r m)) (\<lambda>_. settled rid st) E"
  by (rule audit_kept) (auto intro: same_runs_inv simp: run_audit_def audit_defaults_def)

text \<open>What a request leaves: the log explains the rows, whether it answers or fails, and so do the committed rows.\<close>

abbreviation logged :: "(db, 'a) act \<Rightarrow> bool" where
  "logged m \<equiv> triple (log_inv None) (log_inv None) m (\<lambda>_. log_inv None) (log_inv None)"

lemma same_runs_keeps_log: "same_runs d d' \<Longrightarrow> log_inv None d \<Longrightarrow> log_inv None d'"
  by (rule same_runs_inv)

lemma audit_any:
  assumes "\<And>d d'. same_runs d d' \<Longrightarrow> P d \<Longrightarrow> P d'" and "\<And>d. P d \<Longrightarrow> I d"
  shows "triple I P (record_audit_event now action st a) (\<lambda>_. P) E"
proof -
  have "triple I P (if aa_commit a then commit else ret ()) (\<lambda>_. P) E"
    by (rule triple_if, rule triple_commit, simp add: assms(2), rule triple_ret, simp)
  moreover have "triple I P (change (add_row audit_events_update (audit_row now action st a))) (\<lambda>_. P) E"
    by (rule triple_change) (rule assms(1) [OF same_runs_add(4)])
  ultimately show ?thesis unfolding record_audit_event_def when_act_def by (intro triple_then)
qed

lemma role_any:
  assumes "\<And>d d'. same_runs d d' \<Longrightarrow> P d \<Longrightarrow> P d'" and "\<And>d. P d \<Longrightarrow> I d"
  shows "triple I P (require_project_role now pid usr least) (\<lambda>_. P) P"
proof -
  have denied: "triple I P (then_act (record_audit_event now a st x) (raise e)) (\<lambda>_. P) P" for a st x and e
    by (rule triple_then [OF audit_any]) (auto intro: assms triple_raise)
  show ?thesis unfolding require_project_role_def record_permission_denied_def
    by (rule triple_bind [OF triple_query [where Q = "\<lambda>_. P"]], assumption, rule triple_option, rule denied, rule triple_if,
        rule triple_ret, assumption, rule denied)
qed

lemma logged_audit: "logged (record_audit_event now action st a)"
  by (rule audit_any) (auto intro: same_runs_keeps_log)

lemma logged_role: "logged (require_project_role now pid usr least)"
  by (rule role_any) (auto intro: same_runs_keeps_log)

lemma logged_limit: "logged (check_rate_limit cfg now verdict key limit user pid action)"
  unfolding check_rate_limit_def record_rate_limit_exceeded_def
  by (auto split: sum.split py_exn.split intro!: triple_ret triple_raise triple_then [OF logged_audit])

lemma refused_run:
  "triple I (settled rid RunQueued) (set_agent_run now rid (\<lambda>r. r\<lparr>run_status := RunFailed, run_error := e\<rparr>))
     (\<lambda>_. mid_at rid RunFailed) E"
  unfolding set_agent_run_def
proof (rule triple_change)
  fix d
  let ?f = "\<lambda>r. r\<lparr>run_status := RunFailed, run_error := e\<rparr>\<lparr>run_updated_at := now\<rparr>"
  assume d: "settled rid RunQueued d"
  have "mid rid (edit_row agent_runs_update run_id rid ?f d)"
    using set_run_log [of rid d ?f] settled_mid [OF d] by simp
  moreover have "run_status r = RunFailed \<and> \<not> run_pending_approval r"
    if r: "r \<in> set (agent_runs (edit_row agent_runs_update run_id rid ?f d))" "run_id r = rid" for r
  proof -
    from r(1) have "r \<in> (\<lambda>x. if run_id x = rid then ?f x else x) ` set (agent_runs d)"
      unfolding edit_row_def agent_runs.rows_edit set_map .
    then obtain x where x: "r = (if run_id x = rid then ?f x else x)" "x \<in> set (agent_runs d)" by (rule imageE)
    from x(1) r(2) have "run_id x = rid" by (cases "run_id x = rid") simp_all
    moreover from this x d have "\<not> run_pending_approval x" by (simp add: run_at_def)
    ultimately show ?thesis using x by simp
  qed
  ultimately have "run_at rid RunFailed (edit_row agent_runs_update run_id rid ?f d)" by (simp add: run_at_def)
  with \<open>mid rid (edit_row agent_runs_update run_id rid ?f d)\<close>
  show "mid_at rid RunFailed (edit_row agent_runs_update run_id rid ?f d)" by simp
qed

lemma refuse_run_triple:
  "triple (log_inv None) (settled rid RunQueued) (refuse_run env request user pid rid e) (\<lambda>_. log_inv None) (log_inv None)"
  unfolding refuse_run_def Let_def run_event_now_def
  by (rule triple_then [OF refused_run], rule triple_then [OF event_close], simp add: status_step_def,
      rule triple_then [OF audit_settled], rule triple_then [where R = "log_inv None"], rule triple_commit, simp,
      rule triple_raise, simp)

lemma triple_sum:
  "(\<And>e. triple I P (f e) Q E) \<Longrightarrow> (\<And>x. triple I P (g x) Q E) \<Longrightarrow> triple I P (case r of Inl e \<Rightarrow> f e | Inr x \<Rightarrow> g x) Q E"
  by (cases r) auto

lemma enqueue_run_triple:
  "triple (log_inv None) (settled rid RunQueued) (enqueue_run env cfg enq request user body rid) (\<lambda>_. log_inv None) (log_inv None)"
proof -
  have queued: "triple (log_inv None) (settled rid RunQueued) (load_run rid) (\<lambda>_. log_inv None) (log_inv None)"
    by (rule load_run_triple) (auto simp: run_at_def)
  show ?thesis unfolding enqueue_run_def Let_def run_event_now_def
    by (rule triple_then [OF settled_neutral], simp add: neutral_def, rule triple_then [OF audit_settled],
        rule triple_then [where R = "settled rid RunQueued"], rule triple_commit, simp,
        rule triple_sum, rule refuse_run_triple, rule queued)
qed

lemma execute_run_logged:
  "triple (log_inv None) (with_run (run_id run)) (execute_run env cfg run k model b) (\<lambda>r d. log_inv None d) (log_inv None)"
  by (rule triple_conseq [OF execute_run_ends]) (auto simp: run_ended_def log_inv_weaken)

lemma start_run_logged: "logged (start_run env cfg verdict enq request user body)"
proof -
  have run: "triple (log_inv None) (settled rid RunQueued)
      (bind_act (load_run rid) (\<lambda>run. execute_run env cfg run k model b)) (\<lambda>_. log_inv None) (log_inv None)" for rid k model b
  proof (rule triple_bind)
    show "triple (log_inv None) (settled rid RunQueued) (load_run rid) (\<lambda>run. with_run (run_id run)) (log_inv None)"
      by (rule load_run_triple) (auto simp: run_at_def)
  qed (rule execute_run_logged)
  have tail: "triple (log_inv None) (log_inv None) (then_act (when_act b (record_audit_event now a st arg)) (ret x))
      (\<lambda>_. log_inv None) (log_inv None)" for b now a st arg and x :: run_response
    by (rule triple_then [where R = "log_inv None"]) (auto intro: triple_when logged_audit triple_ret)
  show ?thesis unfolding start_run_def Let_def
    by (rule triple_then [where R = "log_inv None"], rule triple_lift, simp, simp,
        rule triple_then [OF logged_limit], rule triple_then [OF logged_role],
        rule triple_bind [OF create_run_triple], rule triple_then [OF audit_settled],
        rule triple_bind [where R = "\<lambda>_. log_inv None"], rule triple_if, rule enqueue_run_triple, rule run, rule tail)
qed


lemma logged_find: "logged (find_run rid)"
  unfolding find_run_def
  by (rule triple_bind [OF triple_query [where Q = "\<lambda>_. log_inv None"]], assumption)
    (auto split: option.split intro!: triple_ret triple_raise)

lemma resume_triple:
  "triple I (with_run (run_id run)) (resume_after_approval now tracks run approved rationale) (\<lambda>_. log_inv None) (log_inv None)"
proof -
  let ?rid = "run_id run" and ?st = "if approved then RunCompleted else RunRejected"
  have decide: "triple I (with_run ?rid) (change (edit_row approvals_update appr_id i f)) (\<lambda>_. mid ?rid) (log_inv None)" for i f
    by (rule triple_change) (auto intro: log_inv_weaken same_runs_inv same_runs_add)
  have store: "triple I (mid ?rid) (set_agent_run now ?rid (\<lambda>r. r\<lparr>run_pending_approval := False, run_status := ?st,
      run_final_answer_json := g (run_final_answer_json r)\<rparr>)) (\<lambda>_. mid_at ?rid ?st) (log_inv None)" for g
    by (rule set_run_at) auto
  have close: "triple I (mid_at ?rid ?st) (append_run_event now ?rid ''approval_resolved'' nm
      [(''status'', JStr (approval_status_value (if approved then ApprovalApproved else ApprovalRejected))), x])
      (\<lambda>_. settled ?rid ?st) (log_inv None)" for nm x
    by (rule event_close) (auto simp: status_step_def)
  have load: "triple I (settled ?rid ?st) (load_run ?rid) (\<lambda>_. log_inv None) (log_inv None)"
    by (rule load_run_triple) (auto simp: run_at_def)
  show ?thesis unfolding resume_after_approval_def Let_def
    by (rule triple_bind [OF triple_query [where Q = "\<lambda>_. with_run ?rid"]], assumption, rule triple_option, rule triple_ret, simp,
        rule triple_then [OF decide], rule triple_then [OF store], rule triple_then [OF close], rule load)
qed

lemma decide_run_logged: "logged (decide_run now tracks request user rid approved rationale)"
proof -
  have role: "triple (log_inv None) (with_run i) (require_project_role now pid usr least) (\<lambda>_. with_run i) (log_inv None)" for i pid usr least
    by (rule triple_conseq [OF role_any [where P = "with_run i"]]) (auto intro: same_runs_inv)
  have find: "triple (log_inv None) (log_inv None) (find_run rid) (\<lambda>run. with_run (run_id run)) (log_inv None)"
    unfolding find_run_def
    by (rule tripleI) (auto simp: query_def bind_act_def raise_def ret_def has_run_def split: option.splits dest!: row_with_Some)
  show ?thesis unfolding decide_run_def
    by (rule triple_bind [OF find], rule triple_then [OF role], rule triple_bind [OF resume_triple], rule triple_then [OF logged_audit])
      (simp add: triple_ret)
qed


lemma workflow_job_logged: "logged (run_workflow_job env cfg rid k model b)"
proof -
  have find: "triple (log_inv None) (log_inv None) (query (\<lambda>d. row_with run_id rid (agent_runs d)))
      (\<lambda>found d. log_inv None d \<and> (\<forall>run. found = Some run \<longrightarrow> has_run (run_id run) d)) (log_inv None)"
    by (rule triple_query) (auto simp: has_run_def dest: row_with_Some)
  have audit: "triple (log_inv None) (with_run i) (record_audit_event now a st x) (\<lambda>_. with_run i) (log_inv None)" for i now a st x
    by (rule audit_any) (auto intro: same_runs_inv)
  have tail: "triple (log_inv None) (log_inv None) (then_act (record_audit_event now a st x) commit) (\<lambda>_. log_inv None) (log_inv None)"
    for now a st x by (rule triple_then [OF logged_audit]) (simp add: triple_commit)
  have run: "triple (log_inv None) (with_run (run_id run)) (then_act (record_audit_event now a st x)
         (bind_act (execute_run env cfg run k model b) (\<lambda>r. then_act (record_audit_event now (f1 r) (f2 r) (f3 r)) commit)))
      (\<lambda>_. log_inv None) (log_inv None)" for run now a st x f1 f2 f3
    by (rule triple_then [OF audit], rule triple_bind [OF execute_run_logged], rule tail)
  show ?thesis unfolding run_workflow_job_def
    by (rule triple_bind [OF find]) (auto split: option.split intro: triple_ret run)
qed

lemma workflow_job_db:
  assumes "log_inv None d"
  shows "log_inv None (snd (execute_workflow_run_job env cfg payload d))"
proof -
  have "log_inv None (snd (with_session (run_workflow_job env cfg rid k model b) d))" for rid k model b
  proof -
    obtain r t where run: "run_workflow_job env cfg rid k model b (new_session d) = (r, t)" by (meson surj_pair)
    from tripleD [OF workflow_job_logged _ _ run] assms show ?thesis by (simp add: with_session_def run)
  qed
  with assms show ?thesis by (simp add: execute_workflow_run_job_def split: sum.split prod.split)
qed

section \<open>What the workflow promises\<close>

text \<open>
  The steps that concern runs: a request starts one or decides on one, a worker takes a job from the queue, and everything
  else in the program writes other tables.
\<close>

inductive workflow_step :: "db \<Rightarrow> db \<Rightarrow> bool" where
  started: "snd (run_request (start_run env cfg verdict enq request user body) d) = d' \<Longrightarrow> workflow_step d d'"
| decided: "snd (run_request (decide_run now tracks request user rid approved rationale) d) = d' \<Longrightarrow> workflow_step d d'"
| worked: "snd (execute_workflow_run_job env cfg payload d) = d' \<Longrightarrow> workflow_step d d'"
| other: "same_runs d d' \<Longrightarrow> workflow_step d d'"

lemma request_logged: "logged m \<Longrightarrow> log_inv None d \<Longrightarrow> log_inv None (snd (run_request m d))"
  by (rule run_request_preserves [OF triple_preserves])

lemma workflow_step_logged: "workflow_step d d' \<Longrightarrow> log_inv None d \<Longrightarrow> log_inv None d'"
proof (induction rule: workflow_step.induct)
  case (started env cfg verdict enq request user body d d')
  then show ?case using request_logged [OF start_run_logged] by blast
next
  case (decided now tracks request user rid approved rationale d d')
  then show ?case using request_logged [OF decide_run_logged] by blast
next
  case (worked env cfg payload d d')
  then show ?case using workflow_job_db by blast
next
  case (other d d')
  then show ?case by (rule same_runs_keeps_log)
qed

lemma workflow_reachable_logged: "workflow_step\<^sup>*\<^sup>* d d' \<Longrightarrow> log_inv None d \<Longrightarrow> log_inv None d'"
  by (induction rule: rtranclp_induct) (auto intro: workflow_step_logged)

lemma log_inv_no_runs: "agent_runs d = [] \<Longrightarrow> agent_run_events d = [] \<Longrightarrow> log_inv None d"
  by (simp add: log_inv_def keys_ok_def events_of_def)


definition sample_agent_env :: agent_env where
  "sample_agent_env = \<lparr>ae_now = 7, ae_search = sample_search_env, ae_rerank = sample_rerank_env, ae_langgraph = True,
     ae_timing = (\<lambda>_ _. InTime), ae_latency_ms = (\<lambda>_ _. 1), ae_retrieval_late = False, ae_encode_state = (\<lambda>_. []),
     ae_encode_answer = (\<lambda>_. [])\<rparr>"

definition sample_request_info :: request_info where
  "sample_request_info = \<lparr>req_client_host = None, req_forwarded_for = None, req_user_agent = None\<rparr>"

definition sample_run_body :: run_request_body where
  "sample_run_body = \<lparr>rr_project_id = 2, rr_query = ''why'', rr_top_k = 5, rr_create_issue_draft = True\<rparr>"

definition queue_settings :: settings where
  "queue_settings = default_settings ''host'' \<lparr>worker_mode := ''queue'', rate_limit_enabled := False\<rparr>"

definition started_db :: db where
  "started_db = snd (run_request (start_run sample_agent_env queue_settings (Inr ()) (\<lambda>_. Inr ()) sample_request_info sample_user
     sample_run_body) sample_db)"

lemma started_db_runs: "map run_status (agent_runs started_db) = [RunQueued]"
proof -
  have limits: "enforce_query_limits ''why'' 5 queue_settings = Inr ()" "\<not> rate_limit_enabled queue_settings"
    "worker_mode queue_settings = ''queue''"
    by (simp_all add: enforce_query_limits_def queue_settings_def default_settings_def)
  have role: "require_project_role 7 2 1 RoleInvestigator (new_session sample_db) = (Inr RoleApprover, new_session sample_db)"
    by (simp add: require_role_Inr sample_role role_allows_def del: One_nat_def)
  have user: "user_id sample_user = 1" by (simp add: sample_user_def)
  have empty: "agent_runs sample_db = []" "next_id sample_db = 10" by (simp_all add: sample_db_def empty_db_def)
  show ?thesis
    by (simp add: started_db_def run_request_def start_run_def Let_def sample_run_body_def sample_agent_env_def limits
      check_rate_limit_def role user empty enqueue_run_def load_run_def create_run_def append_run_event_def run_event_now_def
      record_audit_run act_simps add_row_def row_with_def del: One_nat_def)
qed


text \<open>
  C9. Every run ends: whatever the services answer and however late the nodes are, \<open>execute_run\<close> raises nothing and commits
  nothing; it answers with the row of the run, which is completed, waits for an approval or has failed, as its log says.\<close>

theorem every_run_ends:
  assumes "log_inv None (work s)" and "run \<in> set (agent_runs (work s))"
  shows "\<exists>r t. execute_run env cfg run k model draft s = (Inr r, t) \<and> run_ended (run_id run) r (work t) \<and> committed t = committed s"
proof -
  obtain r t where run: "execute_run env cfg run k model draft s = (r, t)" by (meson surj_pair)
  have "mid (run_id run) (work s)" using assms by (simp add: log_inv_weaken has_run_def)
  then have "committed t = committed s \<and> ends (run_ended (run_id run)) (\<lambda>_. False) r (work t)"
    using tripleD [OF execute_run_ends _ _ run, where I = "\<lambda>c. c = committed s"] by blast
  with run show ?thesis by (cases r) auto
qed


definition sample_run_db :: db where
  "sample_run_db = sample_db\<lparr>agent_runs := [new_run 0 2 (Some 1) ''why'' 5]\<rparr>"

theorem every_run_ends_witness:
  "\<exists>r t. execute_run sample_agent_env queue_settings (new_run 0 2 (Some 1) ''why'' 5) 5 [] True (new_session sample_run_db) = (Inr r, t)
     \<and> run_ended 5 r (work t)"
proof -
  have "log_inv None (work (new_session sample_run_db))"
    by (simp add: log_inv_def sample_run_db_def sample_db_def empty_db_def keys_ok_def events_of_def row_logged_def replay_def)
  moreover have "new_run 0 2 (Some 1) ''why'' 5 \<in> set (agent_runs (work (new_session sample_run_db)))" by (simp add: sample_run_db_def)
  ultimately have "\<exists>r t. execute_run sample_agent_env queue_settings (new_run 0 2 (Some 1) ''why'' 5) 5 [] True (new_session sample_run_db)
      = (Inr r, t) \<and> run_ended (run_id (new_run 0 2 (Some 1) ''why'' 5)) r (work t) \<and> committed t = committed (new_session sample_run_db)"
    by (rule every_run_ends)
  then show ?thesis by auto
qed

definition starts_of :: "uid \<Rightarrow> string \<Rightarrow> db \<Rightarrow> nat" where
  "starts_of rid name d = length (filter (\<lambda>e. runev_event_type e = ''node_started'' \<and> runev_node_name e = Some name) (events_of rid d))"

lemma starts_of_logged:
  "starts_of rid name (logged_event now rid ty nm pl d) = starts_of rid name d + (if ty = ''node_started'' \<and> nm = Some name then 1 else 0)"
  by (simp add: starts_of_def events_of_logged event_row_def)

definition attempts_made :: "uid \<Rightarrow> string \<Rightarrow> nat \<Rightarrow> nat \<Rightarrow> py_exn option \<times> workflow_state \<Rightarrow> db \<Rightarrow> bool" where
  "attempts_made rid name n allowed out d \<longleftrightarrow> n < starts_of rid name d \<and> starts_of rid name d \<le> n + allowed
     \<and> (fst out = None \<or> fst out = Some cancelled \<or> starts_of rid name d = n + allowed)"

lemma other_event:
  "ty \<noteq> ''node_started'' \<Longrightarrow>
   triple I (\<lambda>d. starts_of rid name d = n) (append_run_event now rid ty nm pl) (\<lambda>_ d. starts_of rid name d = n) E"
  unfolding append_run_event_def by (rule triple_change) (simp only: starts_of_logged if_False simp_thms add_0_right)

lemma first_event:
  "triple I (\<lambda>d. starts_of rid name d = n) (append_run_event now rid ''node_started'' (Some name) pl)
     (\<lambda>_ d. starts_of rid name d = Suc n) E"
  unfolding append_run_event_def by (rule triple_change) (simp only: starts_of_logged if_True simp_thms Suc_eq_plus1)

lemma attempts_counted:
  "triple I (\<lambda>d. starts_of rid name d = n) (node_attempts env rid name node attempt left w) (attempts_made rid name n (Suc left)) E"
proof (induction left arbitrary: attempt w n)
  case 0
  have done_now: "triple I (\<lambda>d. starts_of rid name d = Suc n) (ret out) (attempts_made rid name n (Suc 0)) E" for out
    by (rule triple_ret) (simp add: attempts_made_def)
  show ?case
    by (subst node_attempts.simps)
      (auto simp: node_event_def node_completed_def node_failed_def split: prod.split option.split
        intro!: triple_then [OF first_event] triple_then [OF other_event] done_now)
next
  case (Suc m)
  have done_now: "triple I (\<lambda>d. starts_of rid name d = Suc n) (ret out) (attempts_made rid name n (Suc (Suc m))) E"
    if "fst out = None \<or> fst out = Some cancelled" for out
    by (rule triple_ret) (use that in \<open>auto simp: attempts_made_def\<close>)
  have again: "triple I (\<lambda>d. starts_of rid name d = Suc n) (node_attempts env rid name node (Suc attempt) m w')
      (attempts_made rid name n (Suc (Suc m))) E" for w'
    by (rule triple_conseq [OF Suc]) (auto simp: attempts_made_def)
  show ?case
    by (subst node_attempts.simps)
      (auto simp: node_event_def node_completed_def node_failed_def split: prod.split option.split
        intro!: triple_then [OF first_event] triple_then [OF other_event] done_now again)
qed

lemma attempts_allowed_pos: "Suc (attempts_allowed cfg name - 1) = attempts_allowed cfg name"
  by (auto simp: attempts_allowed_def)

text \<open>
  The attempts of a node are bounded: the node is started at least once and at most as often as the configuration allows (once
  for the approval gate), and unless the whole run is cancelled it fails only after its last attempt.\<close>

theorem node_attempts_are_bounded:
  assumes "execute_node_with_observability env cfg rid name node w s = (r, t)"
  shows "\<exists>err w'. r = Inr (err, w') \<and> starts_of rid name (work s) < starts_of rid name (work t)
    \<and> starts_of rid name (work t) \<le> starts_of rid name (work s) + attempts_allowed cfg name
    \<and> (err = None \<or> err = Some cancelled \<or> starts_of rid name (work t) = starts_of rid name (work s) + attempts_allowed cfg name)"
proof -
  have "ends (attempts_made rid name (starts_of rid name (work s)) (attempts_allowed cfg name)) (\<lambda>_. False) r (work t)"
    using tripleD [OF attempts_counted [where I = "\<lambda>_. True" and n = "starts_of rid name (work s)"] _ _
        assms [unfolded execute_node_with_observability_def]] unfolding attempts_allowed_pos by blast
  then show ?thesis by (cases r) (auto simp: attempts_made_def)
qed

theorem node_attempts_are_bounded_witness:
  "\<exists>r t. execute_node_with_observability sample_agent_env queue_settings 5 ''risk_gate'' risk_gate_node (initial_state 5 2 ''why'')
     (new_session sample_run_db) = (r, t) \<and> starts_of 5 ''risk_gate'' (work t) \<le> starts_of 5 ''risk_gate'' sample_run_db + 3"
proof -
  obtain r t where run: "execute_node_with_observability sample_agent_env queue_settings 5 ''risk_gate'' risk_gate_node
     (initial_state 5 2 ''why'') (new_session sample_run_db) = (r, t)" by (meson surj_pair)
  have "attempts_allowed queue_settings ''risk_gate'' \<le> 3"
    by (simp add: attempts_allowed_def non_retryable_nodes_def queue_settings_def default_settings_def)
  with node_attempts_are_bounded [OF run] run show ?thesis by auto
qed

lemma refused_keeps:
  assumes "require_project_role now pid usr least s = (Inl e, t)"
  shows "agent_runs (work t) = agent_runs (work s) \<and> agent_run_events (work t) = agent_run_events (work s)
    \<and> approvals (work t) = approvals (work s)"
  using keepsD [OF keeps_role [of agent_runs] assms] keepsD [OF keeps_role [of agent_run_events] assms]
    keepsD [OF keeps_role [of approvals] assms] by (simp add: add_row_def)

lemma row_edited:
  assumes "row_with run_id rid (agent_runs d) = Some r" and "\<And>r. run_id (f r) = run_id r"
  shows "row_with run_id rid (agent_runs (edit_row agent_runs_update run_id rid f d)) = Some (f r)"
proof -
  have "row_with run_id rid (map (\<lambda>r. if run_id r = rid then f r else r) (agent_runs d))
      = map_option (\<lambda>r. if run_id r = rid then f r else r) (row_with run_id rid (agent_runs d))"
    by (rule row_with_map) (simp add: assms(2))
  with assms(1) row_with_Some [OF assms(1)] show ?thesis by (simp add: edit_row_def agent_runs.rows_edit)
qed

lemma agent_runs_of_approvals: "agent_runs (edit_row approvals_update k i f d) = agent_runs d"
  by (simp add: stmt_defs)

lemma resume_run:
  assumes "row_with run_id (run_id run) (agent_runs (work s)) = Some run"
  shows "\<exists>r t. resume_after_approval now tracks run approved rationale s = (Inr r, t)
    \<and> run_status r = (if latest_approval (run_id run) (work s) = None then run_status run
        else if approved then RunCompleted else RunRejected)"
proof (cases "latest_approval (run_id run) (work s)")
  case None
  then show ?thesis by (simp add: resume_after_approval_def ret_def)
next
  case (Some a)
  define g :: "agent_run \<Rightarrow> agent_run" where "g = (\<lambda>r. r\<lparr>run_pending_approval := False, run_status := (if approved then RunCompleted else RunRejected),
      run_final_answer_json := with_decision tracks (JObj [(''status'', JStr (approval_status_value
        (if approved then ApprovalApproved else ApprovalRejected))), (''rationale'', opt_json rationale)]) (run_final_answer_json r)\<rparr>
      \<lparr>run_updated_at := now\<rparr>)"
  have g: "run_id (g r) = run_id r" "run_status (g r) = (if approved then RunCompleted else RunRejected)" for r
    by (simp_all add: g_def)
  have "row_with run_id (run_id run) (agent_runs (edit_row approvals_update k i f (work s))) = Some run" for k i f
    using assms by (simp add: agent_runs_of_approvals)
  from row_edited [OF this g(1)] Some show ?thesis
    by (simp add: resume_after_approval_def Let_def then_act_def change_def set_agent_run_def append_run_event_def load_run_def
        bind_act_def query_def ret_def g_def [symmetric] g)
qed

text \<open>
  C16. Deciding on a run is for approvers: a decision is accepted only from a member of the run's project with the role of an
  approver or more, and completes or rejects the run if it ever asked for an approval; a refused request changes no run, no
  event and no approval.\<close>

theorem decision_needs_approver:
  "case decide_run now tracks request user rid approved rationale s of
     (Inr out, t) \<Rightarrow> (\<exists>run role. row_with run_id rid (agent_runs (work s)) = Some run
        \<and> project_role_of (run_project_id run) (user_id user) (work s) = Some role \<and> RoleApprover \<le> role
        \<and> out = (rid, run_status_value (if latest_approval rid (work s) = None then run_status run
            else if approved then RunCompleted else RunRejected), rationale))
   | (Inl e, t) \<Rightarrow> agent_runs (work t) = agent_runs (work s) \<and> agent_run_events (work t) = agent_run_events (work s)
        \<and> approvals (work t) = approvals (work s)"
proof (cases "row_with run_id rid (agent_runs (work s))")
  case None
  then show ?thesis by (simp add: decide_run_def find_run_def bind_act_def query_def raise_def)
next
  case (Some run)
  then have rid: "run_id run = rid" by (auto dest: row_with_Some)
  have found: "find_run rid s = (Inr run, s)" using Some by (simp add: find_run_def bind_act_def query_def ret_def)
  obtain q u where role: "require_project_role now (run_project_id run) (user_id user) RoleApprover s = (q, u)" by (meson surj_pair)
  show ?thesis
  proof (cases q)
    case (Inl e)
    with refused_keeps role found show ?thesis by (simp add: decide_run_def bind_act_def then_act_def)
  next
    case (Inr r)
    with role have granted: "project_role_of (run_project_id run) (user_id user) (work s) = Some r" "RoleApprover \<le> r" "u = s"
      by (simp_all add: require_role_Inr role_allows_iff)
    from Some rid obtain r' v where "resume_after_approval now tracks run approved rationale s = (Inr r', v)"
      "run_status r' = (if latest_approval rid (work s) = None then run_status run else if approved then RunCompleted else RunRejected)"
      using resume_run [of run s] by blast
    with Inr role granted found Some show ?thesis
      by (simp add: decide_run_def bind_act_def then_act_def record_audit_run Let_def ret_def)
  qed
qed

end
