(* ===== verification/Parsers.thy ===== *)
theory Parsers
  imports Indexer
begin

text \<open>
  The parsers of documents that are not code (\<open>ingestion/parsers\<close>): Markdown, incident reports, logs, deploy histories and
  patches. \<open>datetime.fromisoformat\<close>, \<open>json.loads\<close> and the element Python's set puts first are arguments. A line end that a
  multi-line pattern asks for before a line feed is implied by it and left out.
\<close>

section \<open>Pieces of a document\<close>

definition nl :: string where "nl = [CHR 0x0A]"

definition lines_of :: "string \<Rightarrow> string list" where    \<comment> \<open>\<open>content.split("\n")\<close>\<close>
  "lines_of s = split_on (CHR 0x0A) s"

definition not_newline :: "char \<Rightarrow> bool" where "not_newline c \<longleftrightarrow> cp c \<noteq> 10"

definition line_slice :: "string list \<Rightarrow> nat \<Rightarrow> nat \<Rightarrow> string list" where    \<comment> \<open>\<open>lines[a - 1 : b]\<close>\<close>
  "line_slice ls a b = take (b + 1 - a) (drop (a - 1) ls)"

text \<open>A section under way or finished: its title, its lines, its first and its last line number.\<close>

record doc_section =
  s_title :: "string option"
  s_lines :: "string list"
  s_start :: nat
  s_end :: nat

definition heading_rx :: "nat \<Rightarrow> rx" where    \<comment> \<open>\<open>^(#{1,n})\s+(.+)$\<close>\<close>
  "heading_rx n = rx_seq [RTextStart, RGroup 1 (rx_times 1 n (rx_char (CHR ''#''))), rx_plus (RSet is_space),
     RGroup 2 (rx_plus (RSet not_newline)), RTextEnd]"

definition heading_of :: "nat \<Rightarrow> string \<Rightarrow> string option" where
  "heading_of n line = map_option (\<lambda>m. py_strip (group_text m 2)) (re_match (heading_rx n) line)"

definition base_chunk :: "string \<Rightarrow> string \<Rightarrow> string \<Rightarrow> string \<Rightarrow> string \<Rightarrow> json \<Rightarrow> nat \<Rightarrow> nat \<Rightarrow> raw_chunk" where
  "base_chunk body chunk_type source_type path doc_type service first final =
     \<lparr>rc_text = body, rc_chunk_type = chunk_type, rc_source_type = source_type, rc_document_path = path,
      rc_doc_type = doc_type, rc_service_name = service, rc_endpoint = None, rc_deploy_hash = JNull,
      rc_timestamp_start = None, rc_timestamp_end = None, rc_section_title = None, rc_start_line = Some (int first),
      rc_end_line = Some (int final), rc_metadata = []\<rparr>"

section \<open>Markdown\<close>

definition rx_table :: rx where    \<comment> \<open>\<open>^\s*\|.+\|\s*$\n^\s*\|\s*:?-{3,}\<close>\<close>
  "rx_table = rx_seq [RLineStart, rx_star (RSet is_space), rx_lit ''|'', rx_plus (RSet not_newline), rx_lit ''|'',
     rx_star (RSet is_space), rx_lit nl, rx_star (RSet is_space), rx_lit ''|'', rx_star (RSet is_space), rx_opt (rx_lit '':''),
     rx_at_least 3 (rx_lit ''-'')]"

definition rx_step :: rx where    \<comment> \<open>\<open>^\s*\d+[.)]\s+\<close>\<close>
  "rx_step = rx_seq [RLineStart, rx_star (RSet is_space), rx_plus (RSet is_digit), RSet (c_in ''.)''), rx_plus (RSet is_space)]"

definition markdown_chunk_type :: "string option \<Rightarrow> string \<Rightarrow> string" where
  "markdown_chunk_type title body =
     (let normalized_title = py_lower (opt_str title) in
      if re_search rx_table body \<noteq> None then ''markdown_table''
      else if any_in [''procedure'', ''runbook'', ''how to'', ''steps'', ''playbook''] normalized_title \<or> re_search rx_step body \<noteq> None
        then ''markdown_procedure''
      else if any_in [''faq'', ''questions'', ''q&a''] normalized_title then ''markdown_faq''
      else ''markdown_heading_section'')"

text \<open>The loop over the lines: \<open>i\<close> is the number of the next line, \<open>cur\<close> the lines since \<open>start\<close>.\<close>

fun markdown_sections :: "nat \<Rightarrow> string list \<Rightarrow> string option \<Rightarrow> string list \<Rightarrow> nat \<Rightarrow> doc_section list" where
  "markdown_sections i [] title cur start =
     (if cur \<noteq> [] then [\<lparr>s_title = title, s_lines = cur, s_start = start, s_end = i - 1\<rparr>] else [])"
| "markdown_sections i (l # ls) title cur start =
     (case heading_of 6 l of
        Some t \<Rightarrow> if cur \<noteq> []
          then \<lparr>s_title = title, s_lines = cur, s_start = start, s_end = i - 1\<rparr> # markdown_sections (i + 1) ls (Some t) [l] i
          else markdown_sections (i + 1) ls (Some t) (cur @ [l]) i
      | None \<Rightarrow> markdown_sections (i + 1) ls title (cur @ [l]) start)"

definition markdown_chunk :: "string \<Rightarrow> string \<Rightarrow> json \<Rightarrow> doc_section \<Rightarrow> raw_chunk list" where
  "markdown_chunk path source_type service s =
     (let body = py_strip (join_with nl (s_lines s)) in
      if body = [] then []
      else [(base_chunk body (markdown_chunk_type (s_title s) body) source_type path ''markdown'' service (s_start s) (s_end s))
              \<lparr>rc_section_title := s_title s\<rparr>])"

definition parse_markdown :: "string \<Rightarrow> string \<Rightarrow> string \<Rightarrow> json \<Rightarrow> raw_chunk list" where
  "parse_markdown content path source_type service =
     concat (map (markdown_chunk path source_type service) (markdown_sections 1 (lines_of content) None [] 1))"

section \<open>Incident reports\<close>

definition incident_chunk_type :: "string \<Rightarrow> string" where
  "incident_chunk_type title =
     (let normalized = py_lower title in
      if any_in [''root cause'', ''cause''] normalized then ''incident_root_cause''
      else if str_contains ''timeline'' normalized then ''incident_timeline''
      else if any_in [''fix'', ''mitigation'', ''action'', ''lessons''] normalized then ''incident_action''
      else if any_in [''summary'', ''symptom'', ''impact'', ''severity'', ''overview''] normalized then ''incident_symptom''
      else ''incident_section'')"

definition rx_incident_title :: rx where    \<comment> \<open>\<open>^#\s+([A-Za-z][A-Za-z0-9_-]{2,40})\<close>\<close>
  "rx_incident_title = rx_seq [RLineStart, rx_lit ''#'', rx_plus (RSet is_space),
     RGroup 1 (RSeq (RSet c_alpha) (rx_times 2 40 (RSet (\<lambda>c. c_alnum c \<or> c_in ''_-'' c))))]"

definition rx_service_line :: rx where    \<comment> \<open>\<open>\bservice[:\s-]+([a-z][a-z0-9_-]{2,40})\b\<close>, ignoring case\<close>
  "rx_service_line = rx_seq [RWordEdge, rx_lit_ci ''service'', rx_plus (RSet (\<lambda>c. c_in '':-'' c \<or> is_space c)),
     RGroup 1 (RSeq (RSet c_alpha) (rx_times 2 40 (RSet (\<lambda>c. c_alnum c \<or> c_in ''_-'' c)))), RWordEdge]"

definition incident_words :: "string list" where "incident_words = [''incident'', ''postmortem'']"

definition incident_service :: "string \<Rightarrow> string \<Rightarrow> string option" where
  "incident_service content path =
     (let by_path = (case extract_service_from_path path of None \<Rightarrow> None
                     | Some v \<Rightarrow> if v \<in> set incident_words then None else Some v);
          by_line = (case re_search rx_service_line content of Some m \<Rightarrow> Some (py_lower (group_text m 1)) | None \<Rightarrow> by_path)
      in case re_search rx_incident_title content of
           Some m \<Rightarrow> if py_lower (group_text m 1) \<notin> set incident_words then Some (py_lower (group_text m 1)) else by_line
         | None \<Rightarrow> by_line)"

text \<open>The loop: \<open>current\<close> is the section under way.\<close>

fun incident_sections :: "nat \<Rightarrow> string list \<Rightarrow> doc_section option \<Rightarrow> doc_section list" where
  "incident_sections i [] current = (case current of None \<Rightarrow> [] | Some s \<Rightarrow> if s_lines s \<noteq> [] then [s] else [])"
| "incident_sections i (l # ls) current =
     (case heading_of 3 l of
        Some t \<Rightarrow> (case current of None \<Rightarrow> [] | Some s \<Rightarrow> if s_lines s \<noteq> [] then [s] else [])
          @ incident_sections (i + 1) ls (Some \<lparr>s_title = Some t, s_lines = [l], s_start = i, s_end = i\<rparr>)
      | None \<Rightarrow> (case current of
          Some s \<Rightarrow> incident_sections (i + 1) ls (Some (s\<lparr>s_lines := s_lines s @ [l], s_end := i\<rparr>))
        | None \<Rightarrow> incident_sections (i + 1) ls (Some \<lparr>s_title = Some ''Preamble'', s_lines = [l], s_start = i, s_end = i\<rparr>)))"

definition incident_chunk :: "string \<Rightarrow> json \<Rightarrow> doc_section \<Rightarrow> raw_chunk list" where
  "incident_chunk path service s =
     (let body = py_strip (join_with nl (s_lines s)) in
      if body = [] then []
      else [(base_chunk body (incident_chunk_type (opt_str (s_title s))) ''incident'' path ''incident'' service (s_start s) (s_end s))
              \<lparr>rc_section_title := s_title s\<rparr>])"

definition parse_incident :: "string \<Rightarrow> string \<Rightarrow> raw_chunk list" where
  "parse_incident content path =
     concat (map (incident_chunk path (opt_json (incident_service content path))) (incident_sections 1 (lines_of content) None))"

section \<open>Logs\<close>

definition rx_log_line :: rx where
  "rx_log_line =
     (let digits = (\<lambda>n. rx_times n n (RSet is_digit)); bracket = (\<lambda>name i P. rx_opt (rx_seq
            [rx_lit (''['' @ name @ ''=''), RGroup i (rx_plus (RSet P)), rx_lit '']'', rx_star (RSet is_space)]))
      in rx_seq [RTextStart,
        RGroup 1 (rx_seq [digits 4, rx_lit ''-'', digits 2, rx_lit ''-'', digits 2, rx_lit ''T'',
          rx_plus (RSet (\<lambda>c. is_digit c \<or> c_in '':.'' c)), rx_opt (rx_lit ''Z'')]), rx_plus (RSet is_space),
        RGroup 2 (rx_plus (RSet is_word)), rx_plus (RSet is_space),
        RGroup 3 (rx_plus (RSet (\<lambda>c. is_word c \<or> c = CHR ''.''))), rx_plus (RSet is_space),
        bracket ''trace_id'' 4 is_word, bracket ''deploy'' 5 is_word,
        rx_opt (rx_seq [RGroup 6 (rx_alt (map rx_lit [''GET'', ''POST'', ''PUT'', ''DELETE'', ''PATCH''])), rx_plus (RSet is_space),
          RGroup 7 (RSeq (rx_lit ''/'') (rx_plus (RSet (\<lambda>c. \<not> is_space c)))), rx_star (RSet is_space)]),
        RGroup 8 (rx_star (RSet not_newline))])"

definition log_window_size :: nat where "log_window_size = 30"
definition error_cluster_min_lines :: nat where "error_cluster_min_lines = 2"
definition error_cluster_max_lines :: nat where "error_cluster_max_lines = 24"

record log_env =
  le_iso :: "string \<Rightarrow> time option"    \<comment> \<open>\<open>datetime.fromisoformat\<close>, \<open>None\<close> for a ValueError\<close>
  le_first :: "string list \<Rightarrow> string"    \<comment> \<open>the element that \<open>list\<close> of the set begins with\<close>

definition log_field :: "nat \<Rightarrow> rx_match list \<Rightarrow> string list" where
  "log_field i ms = filter (\<lambda>v. v \<noteq> []) (map (\<lambda>m. group_text m i) ms)"

definition log_times :: "log_env \<Rightarrow> rx_match list \<Rightarrow> time list" where
  "log_times le ms = List.map_filter (\<lambda>v. le_iso le (rstrip_char (CHR ''Z'') v)) (log_field 1 ms)"

definition build_log_chunk :: "log_env \<Rightarrow> string list \<Rightarrow> string \<Rightarrow> json \<Rightarrow> nat \<Rightarrow> nat \<Rightarrow> raw_chunk option" where
  "build_log_chunk le ls path service first final =
     (let body = join_with nl ls in
      if py_strip body = [] then None
      else let ms = List.map_filter (re_match rx_log_line) ls; times = log_times le ms;
               hashes = sorted_set (log_field 5 ms); endpoints = sorted_set (log_field 7 ms);
               levels = sorted_set (map py_upper (log_field 2 ms)); names = (\<lambda>xs. JList (map JStr xs)) in
        Some ((base_chunk body ''log_time_window'' ''logs'' path ''log'' service first final)
          \<lparr>rc_endpoint := (case endpoints of [e] \<Rightarrow> Some e | _ \<Rightarrow> None),
           rc_deploy_hash := (if hashes = [] then JNull else JStr (le_first le hashes)),
           rc_timestamp_start := (if times = [] then None else Some (Min (set times))),
           rc_timestamp_end := (if times = [] then None else Some (Max (set times))),
           rc_metadata := [(''trace_ids'', names (sorted_set (log_field 4 ms))), (''levels'', names levels),
             (''log_levels'', names levels), (''endpoints'', names endpoints)]\<rparr>))"

definition rx_error_word :: rx where
  "rx_error_word = rx_seq [RWordEdge, rx_alt (map rx_lit_ci [''error'', ''fatal'', ''exception'', ''panic'', ''stack trace'']), RWordEdge]"

definition is_error_line :: "string \<Rightarrow> bool" where
  "is_error_line line \<longleftrightarrow>
     (case re_match rx_log_line line of None \<Rightarrow> False | Some m \<Rightarrow> py_upper (group_text m 2) \<in> set [''ERROR'', ''FATAL'', ''CRITICAL''])
     \<or> re_search rx_error_word line \<noteq> None"

text \<open>The windows: \<open>start\<close> is the number of lines before the window.\<close>

function log_windows :: "log_env \<Rightarrow> nat \<Rightarrow> string list \<Rightarrow> string \<Rightarrow> json \<Rightarrow> nat \<Rightarrow> raw_chunk list" where
  "log_windows le width ls path service start =
     (if ls = [] \<or> width = 0 then []
      else let window = take width ls in
        (case build_log_chunk le window path service (start + 1) (start + length window) of None \<Rightarrow> [] | Some c \<Rightarrow> [c])
        @ log_windows le width (drop width ls) path service (start + width))"
  by pat_completeness auto
termination
  by (relation "measure (\<lambda>(le, width, ls, path, service, start). length ls)") auto

declare log_windows.simps [simp del]

definition flush_cluster :: "log_env \<Rightarrow> string \<Rightarrow> json \<Rightarrow> string list \<Rightarrow> nat \<Rightarrow> nat \<Rightarrow> raw_chunk list" where
  "flush_cluster le path service current start end_line =
     (let errors = length (filter is_error_line current); bounded = take error_cluster_max_lines current in
      if errors < error_cluster_min_lines then []
      else case build_log_chunk le bounded path service start (start + length bounded - 1) of
             None \<Rightarrow> []
           | Some c \<Rightarrow> [c\<lparr>rc_chunk_type := ''log_error_burst'', rc_metadata := rc_metadata c
               @ [(''error_line_count'', JInt (int errors)), (''cluster_end_line'', JInt (int end_line))]\<rparr>])"

fun error_clusters :: "log_env \<Rightarrow> string \<Rightarrow> json \<Rightarrow> nat \<Rightarrow> string list \<Rightarrow> string list \<Rightarrow> nat \<Rightarrow> raw_chunk list" where
  "error_clusters le path service i [] current start =
     (if current \<noteq> [] then flush_cluster le path service current start (i - 1) else [])"
| "error_clusters le path service i (l # ls) current start =
     (if is_error_line l then error_clusters le path service (i + 1) ls (current @ [l]) (if current = [] then i else start)
      else if current \<noteq> [] then flush_cluster le path service (current @ [l]) start i
        @ error_clusters le path service (i + 1) ls [] start
      else error_clusters le path service (i + 1) ls current start)"

definition parse_logs :: "log_env \<Rightarrow> string \<Rightarrow> string \<Rightarrow> json \<Rightarrow> raw_chunk list" where
  "parse_logs le content path service =
     (let ls = lines_of (py_strip content);
          svc = (if service = JNull then opt_json (extract_service_from_path path) else service)
      in log_windows le log_window_size ls path svc 0 @ error_clusters le path svc 1 ls [] 1)"

section \<open>Deploy histories\<close>

record deploy_env =
  de_json :: "string \<Rightarrow> json option"    \<comment> \<open>\<open>json.loads\<close>, \<open>None\<close> for a JSONDecodeError\<close>
  de_iso :: "string \<Rightarrow> time option"

definition replace_z :: "string \<Rightarrow> string" where    \<comment> \<open>\<open>s.replace("Z", "+00:00")\<close>\<close>
  "replace_z s = concat (map (\<lambda>c. if c = CHR ''Z'' then ''+00:00'' else [c]) s)"

definition deploy_keys :: "string list" where
  "deploy_keys = [''deploy_hash'', ''commit_sha'', ''commit'', ''sha'', ''deployed_at'']"

definition deploy_hash_of :: "json dict \<Rightarrow> json" where
  "deploy_hash_of d = (let g = get_or_none d in
     json_or (json_or (json_or (json_or (g ''deploy_hash'') (g ''commit_sha'')) (g ''commit'')) (g ''sha'')) (JStr ''unknown''))"

definition changed_files_of :: "json dict \<Rightarrow> json list" where
  "changed_files_of d = (case dict_get_or (JList []) d ''changed_files'' of
      JStr s \<Rightarrow> [JStr s] | JList xs \<Rightarrow> xs | _ \<Rightarrow> [])"

text \<open>Only a string has \<open>replace\<close>: any other true value raises.\<close>

definition deployed_at_of :: "deploy_env \<Rightarrow> json \<Rightarrow> time option result" where
  "deployed_at_of de v =
     (if \<not> truthy v then Inr None
      else case v of JStr s \<Rightarrow> Inr (de_iso de (replace_z s))
           | _ \<Rightarrow> Inl (OtherError ''AttributeError'' ''object has no attribute 'replace' ''))"

definition deploy_text :: "json dict \<Rightarrow> string" where
  "deploy_text d = join_with nl [
     ''Deploy: '' @ py_str (deploy_hash_of d),
     ''Service: '' @ py_str (json_or (get_or_none d ''service_name'') (get_or_none d ''service'')),
     ''Author: '' @ py_str (dict_get_or (JStr ''unknown'') d ''author''),
     ''Deployed at: '' @ py_str (dict_get_or (JStr []) d ''deployed_at''),
     ''Commit: '' @ py_str (dict_get_or (JStr ''unknown'') d ''commit_sha''),
     ''Summary: '' @ py_str (dict_get_or (JStr []) d ''summary''),
     ''Changed files: '' @ join_with '', '' (map py_str (changed_files_of d))]"

definition deploy_chunk :: "deploy_env \<Rightarrow> string \<Rightarrow> json dict \<Rightarrow> raw_chunk list result" where
  "deploy_chunk de path d =
     (if \<not> list_ex (\<lambda>k. truthy (get_or_none d k)) deploy_keys then Inr []
      else rbind (deployed_at_of de (dict_get_or (JStr []) d ''deployed_at'')) (\<lambda>at_time.
        Inr [(base_chunk (deploy_text d) ''deploy_commit'' ''deploy'' path ''deploy''
               (json_or (get_or_none d ''service_name'') (get_or_none d ''service'')) 1 1)
             \<lparr>rc_deploy_hash := deploy_hash_of d, rc_timestamp_start := at_time,
              rc_section_title := Some (''deploy '' @ py_str (deploy_hash_of d)),
              rc_metadata := dict_set ''kind'' (JStr ''deploy_commit'') d\<rparr>]))"

fun deploy_chunks :: "deploy_env \<Rightarrow> string \<Rightarrow> json list \<Rightarrow> raw_chunk list result" where
  "deploy_chunks de path [] = Inr []"
| "deploy_chunks de path (v # vs) =
     rbind (case v of JObj d \<Rightarrow> deploy_chunk de path d | _ \<Rightarrow> Inr []) (\<lambda>cs.
     rbind (deploy_chunks de path vs) (\<lambda>rest. Inr (cs @ rest)))"

definition parse_deploy_history :: "deploy_env \<Rightarrow> string \<Rightarrow> string \<Rightarrow> raw_chunk list result" where
  "parse_deploy_history de content path = (case de_json de content of
      None \<Rightarrow> Inr []
    | Some (JObj d) \<Rightarrow> deploy_chunks de path [JObj d]
    | Some (JList vs) \<Rightarrow> deploy_chunks de path vs
    | Some _ \<Rightarrow> Inr [])"

section \<open>Patches\<close>

definition rx_path_hash :: rx where    \<comment> \<open>\<open>(?:diff|deploy)[_-]([a-f0-9]{6,})\<close>, ignoring case\<close>
  "rx_path_hash = rx_seq [RAlt (rx_lit_ci ''diff'') (rx_lit_ci ''deploy''), RSet (c_in ''_-''), RGroup 1 (rx_at_least 6 (RSet c_hex))]"

definition extract_deploy_hash_from_path :: "string \<Rightarrow> string option" where
  "extract_deploy_hash_from_path path = map_option (\<lambda>m. group_text m 1) (re_search rx_path_hash path)"

definition rx_diff_header :: rx where    \<comment> \<open>\<open>^diff --git a/(.+?) b/(.+?)$\<close>, to the end of the line\<close>
  "rx_diff_header = rx_seq [RLineStart, rx_lit ''diff --git a/'', RGroup 1 (RRep 1 None False (RSet not_newline)), rx_lit '' b/'',
     RGroup 2 (rx_plus (RSet not_newline))]"

text \<open>The split before every header line: the pieces as lists of lines, the first one possibly empty.\<close>

fun diff_pieces :: "string list \<Rightarrow> string list \<Rightarrow> string list list" where
  "diff_pieces cur [] = [cur]"
| "diff_pieces cur (l # ls) =
     (if starts_with l ''diff --git '' then cur # diff_pieces [l] ls else diff_pieces (cur @ [l]) ls)"

definition patch_chunk :: "string \<Rightarrow> nat \<Rightarrow> string list \<Rightarrow> raw_chunk list" where
  "patch_chunk path i ls =
     (let body = py_strip (join_with nl ls) in
      if body = [] then []
      else let changed = (case re_search rx_diff_header body of Some m \<Rightarrow> group_text m 2 | None \<Rightarrow> ''section_'' @ digits_of i) in
        [(base_chunk body ''deploy_diff'' ''deploy'' path ''deploy'' (opt_json (extract_service_from_path changed)) 1
            (length (lines_of body)))
          \<lparr>rc_deploy_hash := opt_json (extract_deploy_hash_from_path path), rc_section_title := Some (''diff: '' @ changed),
           rc_metadata := [(''changed_file'', JStr changed),
             (''is_new_file'', JBool (\<not> str_contains ''+++ /dev/null'' body \<and> str_contains ''new file mode'' body))]\<rparr>])"

definition parse_patch_file :: "string \<Rightarrow> string \<Rightarrow> raw_chunk list" where
  "parse_patch_file content path = concat (map (\<lambda>(i, ls). patch_chunk path i ls) (enumerate 0 (diff_pieces [] (lines_of content))))"


section \<open>Chunks cite their lines\<close>

text \<open>
  The text of a chunk is the text of the lines it names, stripped where \<open>g\<close> is \<open>strip\<close>; chunks follow each other; and every
  line that is not blank is in one of them.
\<close>

definition cites :: "(string \<Rightarrow> string) \<Rightarrow> string list \<Rightarrow> raw_chunk \<Rightarrow> bool" where
  "cites g ls c \<longleftrightarrow> (case (rc_start_line c, rc_end_line c) of
      (Some a, Some b) \<Rightarrow> 1 \<le> a \<and> a \<le> b \<and> b \<le> int (length ls)
        \<and> rc_text c = g (join_with nl (line_slice ls (nat a) (nat b)))
    | _ \<Rightarrow> False)"

definition chunk_range :: "raw_chunk \<Rightarrow> int \<times> int" where
  "chunk_range c = (case (rc_start_line c, rc_end_line c) of (Some a, Some b) \<Rightarrow> (a, b) | _ \<Rightarrow> (0, 0))"

definition in_order :: "raw_chunk list \<Rightarrow> bool" where
  "in_order cs \<longleftrightarrow> sorted_wrt (\<lambda>c d. snd (chunk_range c) < fst (chunk_range d)) cs"

definition nothing_lost :: "string list \<Rightarrow> raw_chunk list \<Rightarrow> bool" where
  "nothing_lost ls cs \<longleftrightarrow> list_all (\<lambda>i. py_strip (ls ! i) = []
     \<or> list_ex (\<lambda>c. fst (chunk_range c) \<le> int (i + 1) \<and> int (i + 1) \<le> snd (chunk_range c)) cs) [0..<length ls]"

fun tiled :: "nat \<Rightarrow> 'a doc_section_scheme list \<Rightarrow> bool" where
  "tiled n [] = True"
| "tiled n (s # ss) \<longleftrightarrow> s_lines s \<noteq> [] \<and> s_start s = n \<and> s_end s + 1 = n + length (s_lines s) \<and> tiled (n + length (s_lines s)) ss"

text \<open>A parser that turns every section into at most one chunk.\<close>

definition renders :: "(string \<Rightarrow> string) \<Rightarrow> ('a doc_section_scheme \<Rightarrow> raw_chunk list) \<Rightarrow> bool" where
  "renders g f \<longleftrightarrow> (\<forall>s. let body = join_with nl (s_lines s) in
     if py_strip body = [] then f s = []
     else \<exists>c. f s = [c] \<and> rc_text c = g body \<and> rc_start_line c = Some (int (s_start s)) \<and> rc_end_line c = Some (int (s_end s)))"

lemma dropWhile_all: "dropWhile P xs = [] \<longleftrightarrow> (\<forall>x \<in> set xs. P x)"
  by (induction xs) auto

lemma py_strip_empty: "py_strip s = [] \<longleftrightarrow> (\<forall>c \<in> set s. is_space c)"
proof -
  have "py_strip s = [] \<longleftrightarrow> (\<forall>c \<in> set (dropWhile is_space s). is_space c)"
    by (simp add: py_strip_def dropWhile_all)
  also have "\<dots> \<longleftrightarrow> (\<forall>c \<in> set s. is_space c)" by (induction s) auto
  finally show ?thesis .
qed

lemma set_join: "w \<in> set ws \<Longrightarrow> set w \<subseteq> set (join_with sep ws)"
  by (induction sep ws rule: join_with.induct) auto

lemma blank_join: "py_strip (join_with sep ws) = [] \<Longrightarrow> w \<in> set ws \<Longrightarrow> py_strip w = []"
  unfolding py_strip_empty using set_join by blast

lemma rendersD:
  assumes "renders g f"
  shows "f s = [] \<and> py_strip (join_with nl (s_lines s)) = []
    \<or> (\<exists>c. f s = [c] \<and> rc_text c = g (join_with nl (s_lines s)) \<and> rc_start_line c = Some (int (s_start s))
        \<and> rc_end_line c = Some (int (s_end s)))"
  using assms unfolding renders_def Let_def by (meson)

lemma cites_block:
  assumes "b \<noteq> []" and "rc_text c = g (join_with nl b)" and "rc_start_line c = Some (int (Suc (length pre)))"
    and "rc_end_line c = Some (int (length pre + length b))"
  shows "cites g (pre @ b @ post) c"
proof -
  have "0 < length b" using assms(1) by simp
  then have "int (Suc (length pre)) \<le> int (length pre + length b)" by linarith
  moreover have "line_slice (pre @ b @ post) (Suc (length pre)) (length pre + length b) = b" by (simp add: line_slice_def)
  moreover have "int (length pre + length b) \<le> int (length (pre @ b @ post))" "1 \<le> int (Suc (length pre))" by auto
  ultimately show ?thesis unfolding cites_def assms option.case prod.case nat_int by metis
qed

text \<open>The sections of \<open>ss\<close> are the lines from number \<open>length pre + 1\<close> on.\<close>

lemma tiled_cites:
  assumes "renders g f" and "tiled (Suc (length pre)) ss" and "c \<in> set (concat (map f ss))"
  shows "cites g (pre @ concat (map s_lines ss)) c \<and> int (length pre) < fst (chunk_range c)"
  using assms(2,3)
proof (induction ss arbitrary: pre)
  case Nil
  then show ?case by simp
next
  case (Cons s ss)
  show ?case
  proof (cases "c \<in> set (f s)")
    case True
    with rendersD [OF assms(1), of s] have c: "rc_text c = g (join_with nl (s_lines s))" "rc_start_line c = Some (int (s_start s))"
      "rc_end_line c = Some (int (s_end s))" by auto
    from Cons.prems have s: "s_lines s \<noteq> []" "s_start s = Suc (length pre)" "s_end s = length pre + length (s_lines s)" by auto
    from cites_block [of "s_lines s" c g pre] have "cites g (pre @ concat (map s_lines (s # ss))) c" using c s by simp
    moreover have "int (length pre) < fst (chunk_range c)" by (simp add: chunk_range_def c s)
    ultimately show ?thesis by blast
  next
    case False
    have "tiled (Suc (length (pre @ s_lines s))) ss" using Cons.prems(1) by simp
    moreover have "c \<in> set (concat (map f ss))" using Cons.prems(2) False by simp
    ultimately show ?thesis using Cons.IH [of "pre @ s_lines s"] by simp
  qed
qed

lemma tiled_order: "renders g f \<Longrightarrow> tiled n ss \<Longrightarrow> in_order (concat (map f ss)) \<and> (\<forall>c \<in> set (concat (map f ss)). int n \<le> fst (chunk_range c))"
proof (induction ss arbitrary: n)
  case Nil
  then show ?case by (simp add: in_order_def)
next
  case (Cons s ss)
  from Cons.prems(2) have "tiled (n + length (s_lines s)) ss" by simp
  from Cons.IH [OF Cons.prems(1) this]
  have IH: "in_order (concat (map f ss))" "\<forall>c \<in> set (concat (map f ss)). int (n + length (s_lines s)) \<le> fst (chunk_range c)" by blast+
  from rendersD [OF Cons.prems(1), of s] show ?case
  proof (elim disjE exE conjE)
    assume "f s = []"
    moreover from IH(2) have "\<forall>c \<in> set (concat (map f ss)). int n \<le> fst (chunk_range c)" by fastforce
    ultimately show ?thesis using IH(1) by simp
  next
    fix c assume c: "f s = [c]" "rc_start_line c = Some (int (s_start s))" "rc_end_line c = Some (int (s_end s))"
    have "int n \<le> fst (chunk_range c)" "snd (chunk_range c) < int (n + length (s_lines s))"
      using Cons.prems(2) c by (auto simp: chunk_range_def)
    with IH c(1) show ?thesis by (fastforce simp: in_order_def)
  qed
qed

lemma tiled_covers:
  assumes "renders g f" and "tiled (Suc n) ss" and "i < length (concat (map s_lines ss))" and "py_strip (concat (map s_lines ss) ! i) \<noteq> []"
  shows "\<exists>c \<in> set (concat (map f ss)). fst (chunk_range c) \<le> int (n + i + 1) \<and> int (n + i + 1) \<le> snd (chunk_range c)"
  using assms(2-4)
proof (induction ss arbitrary: n i)
  case Nil
  then show ?case by simp
next
  case (Cons s ss)
  show ?case
  proof (cases "i < length (s_lines s)")
    case True
    with Cons.prems(3) have "py_strip (s_lines s ! i) \<noteq> []" by (simp add: nth_append)
    then have "py_strip (join_with nl (s_lines s)) \<noteq> []" using True blank_join nth_mem by blast
    with rendersD [OF assms(1), of s] obtain c where c: "f s = [c]" "rc_start_line c = Some (int (s_start s))"
      "rc_end_line c = Some (int (s_end s))" by auto
    with True Cons.prems(1) show ?thesis by (auto simp: chunk_range_def)
  next
    case False
    let ?j = "i - length (s_lines s)"
    have "tiled (Suc (n + length (s_lines s))) ss" "?j < length (concat (map s_lines ss))" "py_strip (concat (map s_lines ss) ! ?j) \<noteq> []"
      using Cons.prems False by (auto simp: nth_append)
    from Cons.IH [OF this] False show ?thesis by auto
  qed
qed

text \<open>The three together, for a parser by sections.\<close>

definition faithful :: "(string \<Rightarrow> string) \<Rightarrow> string list \<Rightarrow> raw_chunk list \<Rightarrow> bool" where
  "faithful g ls cs \<longleftrightarrow> list_all (cites g ls) cs \<and> in_order cs \<and> nothing_lost ls cs"

lemma sections_faithful:
  assumes "renders g f" and "tiled 1 ss" and "concat (map s_lines ss) = ls"
  shows "faithful g ls (concat (map f ss))"
  unfolding faithful_def
proof (intro conjI)
  show "list_all (cites g ls) (concat (map f ss))"
    using tiled_cites [OF assms(1), of "[]" ss] assms(2,3) by (auto simp: list_all_iff)
  show "in_order (concat (map f ss))" using tiled_order [OF assms(1,2)] by blast
  show "nothing_lost ls (concat (map f ss))"
    unfolding nothing_lost_def list_all_iff list_ex_iff
  proof
    fix i assume "i \<in> set [0..<length ls]"
    then have "i < length (concat (map s_lines ss))" using assms(3) by simp
    with tiled_covers [OF assms(1), of 0 ss i] assms(2,3)
    show "py_strip (ls ! i) = [] \<or> (\<exists>c \<in> set (concat (map f ss)). fst (chunk_range c) \<le> int (i + 1) \<and> int (i + 1) \<le> snd (chunk_range c))"
      by (simp del: set_concat) blast
  qed
qed

lemma markdown_tiled:
  "start + length cur = i \<Longrightarrow> 0 < start \<Longrightarrow>
   tiled start (markdown_sections i ls title cur start) \<and> concat (map s_lines (markdown_sections i ls title cur start)) = cur @ ls"
proof (induction i ls title cur start rule: markdown_sections.induct)
  case (1 i title cur start)
  then show ?case by auto
next
  case (2 i l ls title cur start)
  show ?case
  proof (cases "heading_of 6 l")
    case None
    with 2 show ?thesis by auto
  next
    case (Some t)
    with 2 show ?thesis by (cases "cur = []") auto
  qed
qed

lemma markdown_renders: "renders py_strip (markdown_chunk path source_type service)"
  by (auto simp: renders_def Let_def markdown_chunk_def base_chunk_def)

lemma incident_tiled:
  "s_lines s \<noteq> [] \<Longrightarrow> s_end s + 1 = i \<Longrightarrow> s_start s + length (s_lines s) = i \<Longrightarrow>
   tiled (s_start s) (incident_sections i ls (Some s)) \<and> concat (map s_lines (incident_sections i ls (Some s))) = s_lines s @ ls"
proof (induction ls arbitrary: i s)
  case Nil
  then show ?case by simp
next
  case (Cons l ls)
  show ?case
  proof (cases "heading_of 3 l")
    case None
    with Cons.prems Cons.IH [of "s\<lparr>s_lines := s_lines s @ [l], s_end := i\<rparr>" "i + 1"] show ?thesis by simp
  next
    case (Some t)
    with Cons.prems Cons.IH [of "\<lparr>s_title = Some t, s_lines = [l], s_start = i, s_end = i\<rparr>" "i + 1"] show ?thesis by simp
  qed
qed

lemma incident_from_start:
  "tiled 1 (incident_sections 1 ls None) \<and> concat (map s_lines (incident_sections 1 ls None)) = ls"
proof (cases ls)
  case (Cons l rest)
  show ?thesis
    using incident_tiled [of "\<lparr>s_title = (case heading_of 3 l of None \<Rightarrow> Some ''Preamble'' | t \<Rightarrow> t), s_lines = [l], s_start = 1, s_end = 1\<rparr>" 2 rest]
    by (cases "heading_of 3 l") (simp_all add: Cons numeral_2_eq_2)
qed simp

lemma incident_renders: "renders py_strip (incident_chunk path service)"
  by (auto simp: renders_def Let_def incident_chunk_def base_chunk_def)

lemma markdown_from_start:
  "tiled 1 (markdown_sections 1 ls None [] 1) \<and> concat (map s_lines (markdown_sections 1 ls None [] 1)) = ls"
  using markdown_tiled [of 1 "[]" 1 ls None] by simp

text \<open>The windows of a log are sections too; a burst of errors cites the lines it begins with.\<close>

function log_sections :: "nat \<Rightarrow> string list \<Rightarrow> nat \<Rightarrow> doc_section list" where
  "log_sections width ls start =
     (if ls = [] \<or> width = 0 then []
      else \<lparr>s_title = None, s_lines = take width ls, s_start = start + 1, s_end = start + length (take width ls)\<rparr>
        # log_sections width (drop width ls) (start + width))"
  by pat_completeness auto
termination
  by (relation "measure (\<lambda>(width, ls, start). length ls)") auto

declare log_sections.simps [simp del]

definition window_chunk :: "log_env \<Rightarrow> string \<Rightarrow> json \<Rightarrow> doc_section \<Rightarrow> raw_chunk list" where
  "window_chunk le path service s =
     (case build_log_chunk le (s_lines s) path service (s_start s) (s_end s) of None \<Rightarrow> [] | Some c \<Rightarrow> [c])"

lemma log_windows_by_sections:
  "log_windows le width ls path service start = concat (map (window_chunk le path service) (log_sections width ls start))"
proof (induction width ls start rule: log_sections.induct)
  case (1 width ls start)
  then show ?case
    by (subst log_windows.simps, subst log_sections.simps) (simp add: window_chunk_def [abs_def] Let_def)
qed

lemma log_sections_tiled:
  "0 < width \<Longrightarrow> tiled (Suc start) (log_sections width ls start) \<and> concat (map s_lines (log_sections width ls start)) = ls"
proof (induction width ls start rule: log_sections.induct)
  case (1 width ls start)
  show ?case
  proof (cases "length ls \<le> width")
    case True
    then show ?thesis by (subst (1 2) log_sections.simps, cases "ls = []") (use \<open>0 < width\<close> in \<open>simp_all add: log_sections.simps\<close>)
  next
    case False
    then have "ls \<noteq> []" and w: "length (take width ls) = width" by auto
    with 1 have "tiled (Suc (start + width)) (log_sections width (drop width ls) (start + width))"
      "concat (map s_lines (log_sections width (drop width ls) (start + width))) = drop width ls" by auto
    with \<open>ls \<noteq> []\<close> w 1(2) show ?thesis by (subst (1 2) log_sections.simps) simp
  qed
qed

lemma build_log_chunk_cases:
  "build_log_chunk le ls path service a b = None \<and> py_strip (join_with nl ls) = []
   \<or> (\<exists>c. build_log_chunk le ls path service a b = Some c \<and> py_strip (join_with nl ls) \<noteq> [] \<and> rc_text c = join_with nl ls
        \<and> rc_start_line c = Some (int a) \<and> rc_end_line c = Some (int b))"
  by (simp add: build_log_chunk_def Let_def base_chunk_def)

lemma window_renders: "renders id (window_chunk le path service)"
  unfolding renders_def Let_def
proof
  fix s
  show "if py_strip (join_with nl (s_lines s)) = [] then window_chunk le path service s = []
    else \<exists>c. window_chunk le path service s = [c] \<and> rc_text c = id (join_with nl (s_lines s))
      \<and> rc_start_line c = Some (int (s_start s)) \<and> rc_end_line c = Some (int (s_end s))"
    using build_log_chunk_cases [of le "s_lines s" path service "s_start s" "s_end s"] by (auto simp: window_chunk_def)
qed

lemma flush_cites:
  assumes "cur \<noteq> []" and "start = Suc (length pre)" and "c \<in> set (flush_cluster le path service cur start e)"
  shows "cites id (pre @ cur @ post) c"
proof -
  define b where "b = take error_cluster_max_lines cur"
  have "b \<noteq> []" using assms(1) by (simp add: b_def error_cluster_max_lines_def)
  from assms(3) obtain d where d: "build_log_chunk le b path service start (length pre + length b) = Some d"
    and c: "rc_text c = rc_text d" "rc_start_line c = rc_start_line d" "rc_end_line c = rc_end_line d"
    by (cases "build_log_chunk le b path service start (length pre + length b)")
      (auto simp: flush_cluster_def Let_def assms(2) b_def split: if_splits)
  from d build_log_chunk_cases [of le b path service start "length pre + length b"] have
    "rc_text c = id (join_with nl b)" "rc_start_line c = Some (int (Suc (length pre)))" "rc_end_line c = Some (int (length pre + length b))"
    by (auto simp: c assms(2))
  from cites_block [where g = id, OF \<open>b \<noteq> []\<close> this, of "drop error_cluster_max_lines cur @ post"] show ?thesis
    by (simp add: b_def flip: append_assoc del: id_apply)
qed

lemma clusters_cite:
  "cur \<noteq> [] \<longrightarrow> start = Suc (length pre) \<Longrightarrow> i = Suc (length pre + length cur) \<Longrightarrow>
   c \<in> set (error_clusters le path service i ls cur start) \<Longrightarrow> cites id (pre @ cur @ ls) c"
proof (induction ls arbitrary: pre cur i start)
  case Nil
  then have "cur \<noteq> []" "start = Suc (length pre)" "c \<in> set (flush_cluster le path service cur start (i - 1))" by (auto split: if_splits)
  then show ?case by (rule flush_cites)
next
  case (Cons l ls)
  show ?case
  proof (cases "is_error_line l")
    case True
    with Cons.prems Cons.IH [of "cur @ [l]" "if cur = [] then i else start" pre "i + 1"] show ?thesis
      by (cases "cur = []") auto
  next
    case False
    show ?thesis
    proof (cases "cur = []")
      case True
      with False Cons.prems Cons.IH [of "[]" start "pre @ [l]" "i + 1"] show ?thesis by simp
    next
      case nonempty: False
      with False Cons.prems(3) consider "c \<in> set (flush_cluster le path service (cur @ [l]) start i)"
        | "c \<in> set (error_clusters le path service (i + 1) ls [] start)" by auto
      then show ?thesis
      proof cases
        case 1
        with nonempty Cons.prems(1) flush_cites [of "cur @ [l]" start pre c le path service i ls] show ?thesis
          by (simp del: id_apply)
      next
        case 2
        with Cons.prems(2) Cons.IH [of "[]" start "pre @ cur @ [l]" "i + 1"] show ?thesis by simp
      qed
    qed
  qed
qed


end
