(* ===== verification/CodeParsers.thy ===== *)
theory CodeParsers
  imports Parsers
begin

text \<open>
  The parsers of code and of structured configuration (\<open>ingestion/parsers/code_parser.py\<close>). \<open>ast.parse\<close> and the loaders of
  JSON, TOML, INI and YAML are arguments; a loaded document is a JSON value with string keys.
\<close>

section \<open>Declarations\<close>

type_synonym found_declaration = "nat \<times> string \<times> string"    \<comment> \<open>line, kind, symbol\<close>

text \<open>A section of a source file: a preamble, or what follows a declaration of a kind and a symbol.\<close>

record code_section = doc_section +
  cs_decl :: "(string \<times> string) option"

text \<open>The keyword arguments of the parsers.\<close>

record code_spec =
  cd_service :: json
  cd_source_type :: string
  cd_doc_type :: string
  cd_preamble_type :: string
  cd_fallback_type :: string
  cd_language :: string
  cd_kinds :: "string dict"
  cd_package :: "string option"

definition after_last :: "char \<Rightarrow> string \<Rightarrow> string" where    \<comment> \<open>\<open>s.rsplit(c, 1)[-1]\<close>\<close>
  "after_last c s = rev (takeWhile (\<lambda>d. d \<noteq> c) (rev s))"

definition package_entry :: "string option \<Rightarrow> json dict" where
  "package_entry package = (case package of None \<Rightarrow> [] | Some p \<Rightarrow> if p = [] then [] else [(''package_name'', JStr p)])"

text \<open>The chunk of a preamble, of a declaration and of the whole file.\<close>

definition section_chunk :: "code_spec \<Rightarrow> string \<Rightarrow> code_section \<Rightarrow> raw_chunk list" where
  "section_chunk spec path s =
     (let body = py_strip (join_with nl (s_lines s)) in
      if body = [] then []
      else case cs_decl s of
        None \<Rightarrow> [(base_chunk body (cd_preamble_type spec) (cd_source_type spec) path (cd_doc_type spec) (cd_service spec)
                   (s_start s) (s_end s))
            \<lparr>rc_section_title := Some ''module preamble'',
             rc_metadata := [(''language'', JStr (cd_language spec)), (''kind'', JStr ''preamble'')] @ package_entry (cd_package spec)\<rparr>]
      | Some (kind, symbol) \<Rightarrow> [(base_chunk body (dict_get_or (cd_fallback_type spec) (cd_kinds spec) kind) (cd_source_type spec)
                   path (cd_doc_type spec) (cd_service spec) (s_start s) (s_end s))
            \<lparr>rc_section_title := Some (kind @ '' '' @ symbol),
             rc_metadata := [(''language'', JStr (cd_language spec)), (''symbol'', JStr symbol), (''symbol_name'', JStr symbol),
               (''kind'', JStr kind)] @ package_entry (cd_package spec)\<rparr>])"

definition file_chunk :: "code_spec \<Rightarrow> string \<Rightarrow> string \<Rightarrow> raw_chunk" where
  "file_chunk spec path content =
     (base_chunk content (cd_fallback_type spec) (cd_source_type spec) path (cd_doc_type spec) (cd_service spec)
        1 (length (split_lines content)))
       \<lparr>rc_section_title := Some (after_last (CHR ''/'') path),
        rc_metadata := [(''language'', JStr (cd_language spec)), (''kind'', JStr ''file'')] @ package_entry (cd_package spec)\<rparr>"

fun declared_sections :: "string list \<Rightarrow> found_declaration list \<Rightarrow> code_section list" where
  "declared_sections ls [] = []"
| "declared_sections ls ((a, kind, symbol) # ds) =
     (let final = (case ds of [] \<Rightarrow> length ls | (b, _, _) # _ \<Rightarrow> b - 1) in
      \<lparr>s_title = Some (kind @ '' '' @ symbol), s_lines = line_slice ls a final, s_start = a, s_end = final,
       cs_decl = Some (kind, symbol)\<rparr> # declared_sections ls ds)"

definition preamble_section :: "string list \<Rightarrow> found_declaration list \<Rightarrow> code_section list" where
  "preamble_section ls ds = (case ds of
      (a, _, _) # _ \<Rightarrow> if 1 < a
        then [\<lparr>s_title = None, s_lines = line_slice ls 1 (a - 1), s_start = 1, s_end = a - 1, cs_decl = None\<rparr>] else []
    | [] \<Rightarrow> [])"

definition declaration_chunks :: "code_spec \<Rightarrow> string \<Rightarrow> string \<Rightarrow> found_declaration list \<Rightarrow> raw_chunk list" where
  "declaration_chunks spec content path declarations =
     (let ls = split_lines content;
          chunks = concat (map (section_chunk spec path) (preamble_section ls declarations @ declared_sections ls declarations))
      in if chunks \<noteq> [] then chunks else [file_chunk spec path content])"

text \<open>The declarations of the lines, by a function that reads one line.\<close>

definition found :: "(string \<Rightarrow> (string \<times> string) option) \<Rightarrow> string list \<Rightarrow> found_declaration list" where
  "found f ls = List.map_filter (\<lambda>(i, l). map_option (\<lambda>(kind, symbol). (i, kind, symbol)) (f l)) (enumerate 1 ls)"

definition match_first :: "rx \<Rightarrow> string \<Rightarrow> string option" where
  "match_first rx content = map_option (\<lambda>m. group_text m 1) (re_search rx content)"

section \<open>Go and Protocol Buffers\<close>

definition rx_name :: rx where    \<comment> \<open>\<open>[A-Za-z_]\w*\<close>\<close>
  "rx_name = RSeq (RSet (\<lambda>c. c_alpha c \<or> c = CHR ''_'')) (rx_star (RSet is_word))"

definition rx_sp :: rx where "rx_sp = rx_star (RSet is_space)"
definition rx_sp1 :: rx where "rx_sp1 = rx_plus (RSet is_space)"

definition go_package_re :: rx where
  "go_package_re = rx_seq [RLineStart, rx_sp, rx_lit ''package'', rx_sp1, RGroup 1 rx_name, RWordEdge]"

definition go_func_re :: rx where
  "go_func_re = rx_seq [RTextStart, rx_sp, rx_lit ''func'', rx_sp1,
     rx_opt (RGroup 1 (rx_seq [rx_lit ''('', rx_star (RSet (\<lambda>c. c \<noteq> CHR '')'')), rx_lit '')'', rx_sp])),
     RGroup 2 rx_name, rx_sp, rx_lit ''('']"

definition go_type_re :: rx where
  "go_type_re = rx_seq [RTextStart, rx_sp, rx_lit ''type'', rx_sp1, RGroup 1 rx_name, rx_sp1,
     RGroup 2 (rx_alt [rx_lit ''struct'', rx_lit ''interface'', rx_lit ''func'', rx_plus (RSet is_word)]), RWordEdge]"

definition go_declaration :: "string \<Rightarrow> (string \<times> string) option" where
  "go_declaration line =
     (let stripped = py_strip line in
      case re_match go_func_re stripped of
        Some m \<Rightarrow> Some (if group_text m 1 \<noteq> [] then ''method'' else ''function'', group_text m 2)
      | None \<Rightarrow> map_option (\<lambda>m. (group_text m 2, group_text m 1)) (re_match go_type_re stripped))"

definition go_spec :: "json \<Rightarrow> string option \<Rightarrow> code_spec" where
  "go_spec service package = \<lparr>cd_service = service, cd_source_type = ''code'', cd_doc_type = ''code'', cd_preamble_type = ''go_module'',
     cd_fallback_type = ''go_fallback'', cd_language = ''go'',
     cd_kinds = [(''function'', ''go_function''), (''method'', ''go_method''), (''struct'', ''go_struct''),
       (''interface'', ''go_interface''), (''func'', ''go_type'')], cd_package = package\<rparr>"

definition parse_go :: "string \<Rightarrow> string \<Rightarrow> json \<Rightarrow> raw_chunk list" where
  "parse_go content path service =
     (let ls = split_lines content in
      if ls = [] then []
      else declaration_chunks (go_spec service (match_first go_package_re content)) content path (found go_declaration ls))"

definition proto_decl_re :: rx where
  "proto_decl_re = rx_seq [RTextStart, rx_sp, RGroup 1 (rx_alt (map rx_lit [''service'', ''message'', ''enum''])), rx_sp1,
     RGroup 2 rx_name, rx_sp, rx_opt (rx_lit ''{'')]"

definition proto_rpc_re :: rx where
  "proto_rpc_re = rx_seq [RTextStart, rx_sp, rx_lit ''rpc'', rx_sp1, RGroup 1 rx_name, rx_sp, rx_lit ''('']"

definition proto_package_re :: rx where
  "proto_package_re = rx_seq [RLineStart, rx_sp, rx_lit ''package'', rx_sp1,
     RGroup 1 (RSeq (RSet (\<lambda>c. c_alpha c \<or> c = CHR ''_'')) (rx_star (RSet (\<lambda>c. is_word c \<or> c = CHR ''.'')))), rx_sp, rx_lit '';'']"

definition proto_declaration :: "string \<Rightarrow> (string \<times> string) option" where
  "proto_declaration line = (case re_match proto_decl_re line of
      Some m \<Rightarrow> Some (group_text m 1, group_text m 2)
    | None \<Rightarrow> map_option (\<lambda>m. (''rpc'', group_text m 1)) (re_match proto_rpc_re line))"

definition proto_spec :: "json \<Rightarrow> string option \<Rightarrow> code_spec" where
  "proto_spec service package = \<lparr>cd_service = service, cd_source_type = ''api_doc'', cd_doc_type = ''api_doc'',
     cd_preamble_type = ''proto_preamble'', cd_fallback_type = ''proto_fallback'', cd_language = ''proto'',
     cd_kinds = [(''service'', ''proto_service''), (''rpc'', ''proto_rpc''), (''message'', ''proto_message''), (''enum'', ''proto_enum'')],
     cd_package = package\<rparr>"

definition parse_proto :: "string \<Rightarrow> string \<Rightarrow> json \<Rightarrow> raw_chunk list" where
  "parse_proto content path service =
     (let ls = split_lines content in
      if ls = [] then []
      else declaration_chunks (proto_spec service (match_first proto_package_re content)) content path (found proto_declaration ls))"

section \<open>JavaScript, TypeScript and Java\<close>

definition js_bound :: "string \<Rightarrow> nat \<Rightarrow> rx" where    \<comment> \<open>\<open>const name = async (\<close>\<close>
  "js_bound keyword i = rx_seq [rx_lit keyword, rx_sp1, RGroup i rx_name, rx_sp, rx_lit ''='', rx_sp,
     rx_opt (RSeq (rx_lit ''async'') rx_sp), rx_lit ''('']"

definition js_decl_re :: rx where
  "js_decl_re = rx_seq [RTextStart, rx_sp, rx_opt (RSeq (rx_lit ''export'') rx_sp1), rx_alt [
     rx_seq [RGroup 1 (rx_alt (map rx_lit [''class'', ''interface'', ''type'', ''enum''])), rx_sp1, RGroup 2 rx_name],
     rx_seq [rx_opt (RGroup 3 (RSeq (rx_lit ''async'') rx_sp1)), rx_lit ''function'', rx_sp1, RGroup 4 rx_name],
     js_bound ''const'' 5, js_bound ''let'' 6, js_bound ''var'' 7]]"

definition java_decl_re :: rx where
  "java_decl_re = rx_seq [RTextStart, rx_sp,
     rx_star (RSeq (rx_alt (map rx_lit [''public'', ''private'', ''protected'', ''static'', ''final'', ''abstract''])) rx_sp1),
     RGroup 1 (rx_alt (map rx_lit [''class'', ''interface'', ''enum'', ''record'', ''void'']
       @ [RSeq (RSet (\<lambda>c. c_alpha c \<or> c = CHR ''_'')) (rx_plus (RSet (\<lambda>c. is_word c \<or> c_in ''<>[]'' c)))])), rx_sp1,
     RGroup 2 rx_name, rx_sp, RSet (c_in ''({'')]"

definition index_error :: py_exn where "index_error = OtherError ''IndexError'' ''list index out of range''"

definition nth_group :: "nat \<Rightarrow> string list \<Rightarrow> string result" where
  "nth_group i groups = (if i < length groups then Inr (groups ! i) else Inl index_error)"

definition js_keywords :: "string list" where "js_keywords = [''class'', ''interface'', ''type'', ''enum'']"

definition resolve_regex_declaration :: "string list \<Rightarrow> string \<Rightarrow> (string \<times> string) result" where
  "resolve_regex_declaration groups lang =
     rbind (nth_group 0 groups) (\<lambda>first.
     if lang \<in> set [''js'', ''ts''] then
       if first \<in> set js_keywords then rbind (nth_group 1 groups) (\<lambda>symbol. Inr (first, symbol))
       else case filter (\<lambda>g. g \<noteq> []) (drop 3 groups) of symbol # _ \<Rightarrow> Inr (''function'', symbol) | [] \<Rightarrow> Inr (''function'', last groups)
     else rbind (nth_group 1 groups) (\<lambda>symbol.
       Inr (if py_lower first \<in> set [''class'', ''interface'', ''enum'', ''record''] then py_lower first else ''function'', symbol)))"

definition line_groups :: "rx \<Rightarrow> nat \<Rightarrow> string \<Rightarrow> string list" where    \<comment> \<open>the groups of the match that are not empty\<close>
  "line_groups rx n line = (case re_match rx line of
      None \<Rightarrow> [] | Some m \<Rightarrow> filter (\<lambda>g. g \<noteq> []) (map (group_text m) [1..<n + 1]))"

fun regex_declarations :: "rx \<Rightarrow> nat \<Rightarrow> string \<Rightarrow> nat \<Rightarrow> string list \<Rightarrow> found_declaration list result" where
  "regex_declarations rx n lang i [] = Inr []"
| "regex_declarations rx n lang i (l # ls) =
     (if line_groups rx n l = [] then regex_declarations rx n lang (i + 1) ls
      else rbind (resolve_regex_declaration (line_groups rx n l) lang) (\<lambda>(kind, symbol).
           rbind (regex_declarations rx n lang (i + 1) ls) (\<lambda>ds. Inr ((i, kind, symbol) # ds))))"

definition parse_regex_language :: "code_spec \<Rightarrow> rx \<Rightarrow> nat \<Rightarrow> string \<Rightarrow> string \<Rightarrow> raw_chunk list result" where
  "parse_regex_language spec rx n content path =
     (let ls = split_lines content in
      if ls = [] then Inr []
      else rbind (regex_declarations rx n (cd_language spec) 1 ls) (\<lambda>ds.
        if ds = [] then Inr [file_chunk spec path content]
        else Inr (concat (map (section_chunk spec path) (preamble_section ls ds))
               @ concat (map (section_chunk spec path) (declared_sections ls ds)))))"

definition jsts_spec :: "json \<Rightarrow> string \<Rightarrow> code_spec" where
  "jsts_spec service lang =
     (let prefix = (if lang \<in> set [''ts'', ''tsx''] then ''ts'' else ''js'') in
      \<lparr>cd_service = service, cd_source_type = ''code'', cd_doc_type = ''code'', cd_preamble_type = prefix @ ''_module'',
       cd_fallback_type = prefix @ ''_fallback'', cd_language = lang,
       cd_kinds = [(''class'', prefix @ ''_class''), (''interface'', prefix @ ''_interface''), (''type'', prefix @ ''_interface''),
         (''enum'', prefix @ ''_class''), (''function'', prefix @ ''_function'')], cd_package = None\<rparr>)"

definition parse_jsts :: "string \<Rightarrow> string \<Rightarrow> json \<Rightarrow> string \<Rightarrow> raw_chunk list result" where
  "parse_jsts content path service lang = parse_regex_language (jsts_spec service lang) js_decl_re 7 content path"

definition java_spec :: "json \<Rightarrow> code_spec" where
  "java_spec service = \<lparr>cd_service = service, cd_source_type = ''code'', cd_doc_type = ''code'', cd_preamble_type = ''java_package'',
     cd_fallback_type = ''java_fallback'', cd_language = ''java'',
     cd_kinds = [(''class'', ''java_class''), (''interface'', ''java_interface''), (''enum'', ''java_class''), (''record'', ''java_class''),
       (''function'', ''java_method'')], cd_package = None\<rparr>"

definition parse_java :: "string \<Rightarrow> string \<Rightarrow> json \<Rightarrow> raw_chunk list result" where
  "parse_java content path service = parse_regex_language (java_spec service) java_decl_re 2 content path"

section \<open>Python\<close>

text \<open>What the parser reads of the syntax tree: a node is a function or class definition, or another node, with its children.\<close>

record py_definition =
  pd_class :: bool
  pd_name :: string
  pd_line :: nat
  pd_end :: "nat option"

datatype py_node = PyNode "py_definition option" "py_node list"

fun definition_lines :: "py_node \<Rightarrow> nat list" where    \<comment> \<open>the lines of the definitions that \<open>ast.walk\<close> finds\<close>
  "definition_lines (PyNode d ns) = (case d of None \<Rightarrow> [] | Some d \<Rightarrow> [pd_line d]) @ concat (map definition_lines ns)"

definition node_definition :: "py_node \<Rightarrow> py_definition option" where
  "node_definition n = (case n of PyNode d _ \<Rightarrow> d)"

definition first_def_line :: "py_node list \<Rightarrow> nat option" where
  "first_def_line ns = (let ks = concat (map definition_lines ns) in if ks = [] then None else Some (Min (set ks)))"

definition definition_end :: "py_definition \<Rightarrow> nat" where
  "definition_end d = (case pd_end d of Some e \<Rightarrow> if e = 0 then pd_line d else e | None \<Rightarrow> pd_line d)"

definition python_file_chunk :: "string \<Rightarrow> string \<Rightarrow> json \<Rightarrow> nat \<Rightarrow> string \<Rightarrow> raw_chunk" where
  "python_file_chunk content path service final reason =
     (base_chunk content ''python_fallback'' ''code'' path ''code'' service 1 final)
       \<lparr>rc_metadata := [(''language'', JStr ''python''), (''kind'', JStr ''file''), (''fallback_reason'', JStr reason)]\<rparr>"

definition python_preamble :: "string list \<Rightarrow> string \<Rightarrow> json \<Rightarrow> nat option \<Rightarrow> raw_chunk list" where
  "python_preamble ls path service first = (case first of
      None \<Rightarrow> []
    | Some k \<Rightarrow>
        (let body = py_strip (join_with nl (line_slice ls 1 (k - 1))) in
         if 1 < k \<and> body \<noteq> []
         then [(base_chunk body ''python_module'' ''code'' path ''code'' service 1 (k - 1))
                \<lparr>rc_section_title := Some ''module preamble'',
                 rc_metadata := [(''language'', JStr ''python''), (''kind'', JStr ''preamble'')]\<rparr>]
         else []))"

definition python_chunk :: "string list \<Rightarrow> string \<Rightarrow> json \<Rightarrow> py_definition \<Rightarrow> raw_chunk" where
  "python_chunk ls path service d =
     (base_chunk (join_with nl (line_slice ls (pd_line d) (definition_end d)))
        (if pd_class d then ''python_class'' else ''python_function'') ''code'' path ''code'' service (pd_line d) (definition_end d))
       \<lparr>rc_section_title := Some ((if pd_class d then ''class'' else ''def'') @ '' '' @ pd_name d),
        rc_metadata := [(''language'', JStr ''python''), (''symbol'', JStr (pd_name d)), (''symbol_name'', JStr (pd_name d)),
          (''kind'', JStr (if pd_class d then ''class'' else ''function''))]\<rparr>"

definition parse_python :: "(string \<Rightarrow> py_node list result) \<Rightarrow> string \<Rightarrow> string \<Rightarrow> json \<Rightarrow> raw_chunk list result" where
  "parse_python ast content path service =
     (let ls = lines_of content in
      case ast content of
        Inl e \<Rightarrow> if exn_class e = ''SyntaxError'' then Inr [python_file_chunk content path service (length ls) ''syntax_error''] else Inl e
      | Inr ns \<Rightarrow>
          (let chunks = python_preamble ls path service (first_def_line ns)
                 @ map (python_chunk ls path service) (List.map_filter node_definition ns)
           in Inr (if chunks = [] then [python_file_chunk content path service (length ls) ''no_declarations''] else chunks)))"

section \<open>Structured configuration\<close>

record config_loaders =    \<comment> \<open>\<open>None\<close> for an exception\<close>
  cl_json :: "string \<Rightarrow> json option"
  cl_toml :: "string \<Rightarrow> json option"
  cl_ini :: "string \<Rightarrow> string dict dict option"    \<comment> \<open>the sections with their items\<close>
  cl_yaml :: "string \<Rightarrow> json option"

definition opt_value :: "json option \<Rightarrow> json" where
  "opt_value v = (case v of None \<Rightarrow> JNull | Some j \<Rightarrow> j)"

definition load_structured_data :: "config_loaders \<Rightarrow> string \<Rightarrow> string \<Rightarrow> json" where
  "load_structured_data cl content lower_path =
     (if ends_with lower_path ''.json'' then opt_value (cl_json cl content)
      else if ends_with lower_path ''.toml'' then opt_value (cl_toml cl content)
      else if ends_with lower_path ''.ini''
        then opt_value (map_option (\<lambda>d. JObj (map (\<lambda>(k, v). (k, JObj (map (\<lambda>(a, b). (a, JStr b)) v))) d)) (cl_ini cl content))
      else if ends_any lower_path [''.yaml'', ''.yml''] then opt_value (cl_yaml cl content)
      else JNull)"

text \<open>\<open>json.dumps(value, indent=2)\<close>.\<close>

definition indent :: "nat \<Rightarrow> string" where "indent n = nl @ replicate (2 * n) (CHR '' '')"

fun json_pretty :: "nat \<Rightarrow> json \<Rightarrow> string" where
  "json_pretty n JNull = ''null''"
| "json_pretty n (JBool b) = (if b then ''true'' else ''false'')"
| "json_pretty n (JInt i) = str_of_int i"
| "json_pretty n (JFloat _ t) = t"
| "json_pretty n (JStr s) = json_string s"
| "json_pretty n (JList xs) =
     (if xs = [] then ''[]'' else ''['' @ indent (n + 1) @ join_with ('','' @ indent (n + 1)) (map (json_pretty (n + 1)) xs) @ indent n @ '']'')"
| "json_pretty n (JObj d) =
     (if d = [] then ''{}'' else ''{'' @ indent (n + 1)
        @ join_with ('','' @ indent (n + 1)) (map (\<lambda>(k, v). json_string k @ '': '' @ json_pretty (n + 1) v) d) @ indent n @ ''}'')"

definition render_structured_section :: "string \<Rightarrow> json \<Rightarrow> string" where
  "render_structured_section key v = py_strip (key @ nl @ json_pretty 0 (json_sort v))"

definition language_from_path :: "string \<Rightarrow> string" where
  "language_from_path lower_path = (if CHR ''.'' \<in> set lower_path then after_last (CHR ''.'') lower_path else ''text'')"

definition config_chunk_type :: "string \<Rightarrow> string \<Rightarrow> string" where
  "config_chunk_type key source_type =
     (let normalized = py_lower key in
      if source_type = ''api_doc'' then ''openapi_schema''
      else if normalized \<in> set [''service'', ''services'', ''application'', ''server''] then ''config_service_block''
      else if normalized \<in> set [''env'', ''environment'', ''environmentvariables'', ''environment_variables''] then ''env_var_block''
      else if normalized \<in> set [''dependency'', ''dependencies'', ''require'', ''requires''] then ''dependency_block''
      else ''config_section'')"

definition lines_or_whole :: "string \<Rightarrow> string list" where    \<comment> \<open>\<open>content.splitlines() or [content]\<close>\<close>
  "lines_or_whole content = (if split_lines content = [] then [content] else split_lines content)"

definition dict_items :: "json \<Rightarrow> json dict" where
  "dict_items v = (case v of JObj d \<Rightarrow> d | _ \<Rightarrow> [])"

definition http_methods :: "string list" where "http_methods = [''get'', ''post'', ''put'', ''patch'', ''delete'']"

definition endpoint_chunk :: "nat \<Rightarrow> string \<Rightarrow> json \<Rightarrow> string \<times> json \<Rightarrow> raw_chunk" where
  "endpoint_chunk n path service e =
     (let methods = map (\<lambda>(k, _). py_upper k) (filter (\<lambda>(k, _). py_lower k \<in> set http_methods) (dict_items (snd e)));
          title = (if methods \<noteq> [] then join_with '', '' methods @ '' '' @ fst e else fst e)
      in (base_chunk (render_structured_section (fst e) (snd e)) ''openapi_endpoint'' ''api_doc'' path ''api_doc'' service 1 n)
         \<lparr>rc_section_title := Some title, rc_endpoint := Some (if methods \<noteq> [] then title else fst e),
          rc_metadata := [(''language'', JStr (language_from_path (py_lower path))), (''endpoint'', JStr (fst e)),
            (''methods'', JList (map JStr methods)), (''kind'', JStr ''openapi_path'')]\<rparr>)"

definition schema_chunk :: "nat \<Rightarrow> string \<Rightarrow> json \<Rightarrow> string \<times> json \<Rightarrow> raw_chunk" where
  "schema_chunk n path service e =
     (base_chunk (render_structured_section (fst e) (snd e)) ''openapi_schema'' ''api_doc'' path ''api_doc'' service 1 n)
       \<lparr>rc_section_title := Some (''schema '' @ fst e),
        rc_metadata := [(''language'', JStr (language_from_path (py_lower path))), (''symbol_name'', JStr (fst e)),
          (''kind'', JStr ''openapi_schema'')]\<rparr>"

definition parse_openapi_like :: "config_loaders \<Rightarrow> string \<Rightarrow> string \<Rightarrow> json \<Rightarrow> raw_chunk list" where
  "parse_openapi_like cl content path service = (case load_structured_data cl content (py_lower path) of
      JObj data \<Rightarrow>
        (let api_paths = dict_items (get_or_none data ''paths'');
             schemas = (case get_or_none data ''components'' of JObj c \<Rightarrow> dict_items (get_or_none c ''schemas'') | _ \<Rightarrow> []);
             n = length (lines_or_whole content)
         in map (endpoint_chunk n path service) (take 100 api_paths) @ map (schema_chunk n path service) (take 100 schemas))
    | _ \<Rightarrow> [])"

definition config_section :: "nat \<Rightarrow> string \<Rightarrow> string \<Rightarrow> json \<Rightarrow> string \<times> json \<Rightarrow> raw_chunk list" where
  "config_section n path source_type service e =
     (let body = render_structured_section (fst e) (snd e) in
      if py_strip body = [] then []
      else [(base_chunk body (config_chunk_type (fst e) source_type) source_type path
               (if source_type = ''api_doc'' then ''api_doc'' else ''config'') service 1 n)
             \<lparr>rc_section_title := Some (''config '' @ fst e),
              rc_metadata := [(''language'', JStr (language_from_path (py_lower path))), (''config_key'', JStr (fst e)),
                (''kind'', JStr ''config'')]\<rparr>])"

definition parse_structured_config :: "config_loaders \<Rightarrow> string \<Rightarrow> string \<Rightarrow> string \<Rightarrow> json \<Rightarrow> raw_chunk list" where
  "parse_structured_config cl content path source_type service =
     (let api_chunks = (if source_type = ''api_doc'' then parse_openapi_like cl content path service else []);
          n = length (lines_or_whole content);
          chunks = concat (map (config_section n path source_type service)
            (take 50 (dict_items (load_structured_data cl content (py_lower path)))))
      in if api_chunks \<noteq> [] then api_chunks
         else if chunks \<noteq> [] then chunks
         else [(base_chunk content ''config_fallback'' source_type path
                 (if source_type = ''api_doc'' then ''api_doc'' else ''config'') service 1 n)
               \<lparr>rc_section_title := Some (after_last (CHR ''/'') path),
                rc_metadata := [(''language'', JStr (language_from_path (py_lower path))), (''kind'', JStr ''config_file'')]\<rparr>])"

section \<open>The parsers of the indexer\<close>

record parser_env =
  pe_log :: log_env
  pe_deploy :: deploy_env
  pe_ast :: "string \<Rightarrow> py_node list result"
  pe_config :: config_loaders

definition core_parsers :: "parser_env \<Rightarrow> parsers" where
  "core_parsers pe =
     \<lparr>ps_logs = (\<lambda>content path service. Inr (parse_logs (pe_log pe) content path service)),
      ps_patch_file = (\<lambda>content path. Inr (parse_patch_file content path)),
      ps_deploy_history = parse_deploy_history (pe_deploy pe),
      ps_incident = (\<lambda>content path. Inr (parse_incident content path)),
      ps_python = parse_python (pe_ast pe),
      ps_go = (\<lambda>content path service. Inr (parse_go content path service)),
      ps_jsts = parse_jsts,
      ps_java = parse_java,
      ps_proto = (\<lambda>content path service. Inr (parse_proto content path service)),
      ps_structured_config = (\<lambda>content path source_type service. Inr (parse_structured_config (pe_config pe) content path source_type service)),
      ps_markdown = (\<lambda>content path source_type service. Inr (parse_markdown content path source_type service))\<rparr>"

section \<open>Source files are cut without loss\<close>

text \<open>Declarations on lines from \<open>i\<close> on, each on a line that is not blank.\<close>

definition declares :: "nat \<Rightarrow> string list \<Rightarrow> found_declaration list \<Rightarrow> bool" where
  "declares i ls ds \<longleftrightarrow> sorted_wrt (<) (map fst ds)
     \<and> (\<forall>d \<in> set ds. i \<le> fst d \<and> fst d < i + length ls \<and> py_strip (ls ! (fst d - i)) \<noteq> [])"

lemma declares_Nil [simp]: "declares i ls []"
  by (simp add: declares_def)

lemma declares_skip: "declares (i + 1) ls ds \<Longrightarrow> declares i (l # ls) ds"
  by (auto simp: declares_def nth_Cons')

lemma declares_Cons: "declares (i + 1) ls ds \<Longrightarrow> py_strip l \<noteq> [] \<Longrightarrow> declares i (l # ls) ((i, k, s) # ds)"
  by (auto simp: declares_def nth_Cons')

lemma found_declares: "(\<And>l. py_strip l = [] \<Longrightarrow> f l = None) \<Longrightarrow> declares i ls (List.map_filter
     (\<lambda>(i, l). map_option (\<lambda>(kind, symbol). (i, kind, symbol)) (f l)) (enumerate i ls))"
proof (induction ls arbitrary: i)
  case Nil
  then show ?case by (simp add: List.map_filter_def)
next
  case (Cons l ls)
  then have IH: "declares (i + 1) ls (List.map_filter (\<lambda>(i, l). map_option (\<lambda>(kind, symbol). (i, kind, symbol)) (f l))
    (enumerate (i + 1) ls))" by simp
  show ?case
  proof (cases "f l")
    case None
    with declares_skip [OF IH] show ?thesis by (simp add: List.map_filter_simps)
  next
    case (Some d)
    then have "py_strip l \<noteq> []" using Cons.prems by fastforce
    with declares_Cons [OF IH, of l "fst d" "snd d"] Some show ?thesis by (simp add: List.map_filter_simps)
  qed
qed

text \<open>The sections of a file with declarations are the file.\<close>

lemma declared_tiled:
  "sorted_wrt (<) (map fst ((a, k, s) # ds)) \<Longrightarrow> \<forall>d \<in> set ((a, k, s) # ds). fst d \<le> length ls \<Longrightarrow> 0 < a \<Longrightarrow>
   tiled a (declared_sections ls ((a, k, s) # ds))
   \<and> concat (map s_lines (declared_sections ls ((a, k, s) # ds))) = drop (a - 1) ls"
proof (induction ds arbitrary: a k s)
  case Nil
  then show ?case by (simp add: line_slice_def)
next
  case (Cons d ds)
  obtain b kb sb where d: "d = (b, kb, sb)" by (cases d)
  from Cons.prems have ab: "a < b" "b \<le> length ls" by (auto simp: d)
  have IH: "tiled b (declared_sections ls (d # ds)) \<and> concat (map s_lines (declared_sections ls (d # ds))) = drop (b - 1) ls"
    unfolding d using Cons.prems ab by (intro Cons.IH) (auto simp: d)
  have slice: "line_slice ls a (b - 1) = take (b - a) (drop (a - 1) ls)" using ab by (simp add: line_slice_def)
  have "length (line_slice ls a (b - 1)) = b - a" using ab Cons.prems(3) unfolding slice by simp
  moreover from this have "line_slice ls a (b - 1) \<noteq> []" using ab by auto
  moreover have "line_slice ls a (b - 1) @ drop (b - 1) ls = drop (a - 1) ls"
    unfolding slice using ab Cons.prems(3) append_take_drop_id [of "b - a" "drop (a - 1) ls"] by simp
  ultimately show ?case using IH ab by (simp add: d Let_def)
qed

lemma code_tiled:
  assumes "declares 1 ls ds" and "ds \<noteq> []"
  shows "tiled 1 (preamble_section ls ds @ declared_sections ls ds)
    \<and> concat (map s_lines (preamble_section ls ds @ declared_sections ls ds)) = ls"
proof -
  obtain a k s rest where ds: "ds = (a, k, s) # rest" using assms(2) by (cases ds) auto
  from assms(1) have a: "0 < a" "a \<le> length ls" and t: "tiled a (declared_sections ls ds)"
    "concat (map s_lines (declared_sections ls ds)) = drop (a - 1) ls"
    using declared_tiled [of a k s rest ls] by (auto simp: declares_def ds less_Suc_eq_le)
  show ?thesis
  proof (cases "1 < a")
    case True
    then have "line_slice ls 1 (a - 1) = take (a - 1) ls" by (simp add: line_slice_def)
    moreover have "ls \<noteq> []" using a by auto
    ultimately show ?thesis using True a t by (simp add: preamble_section_def ds del: declared_sections.simps)
  next
    case False
    with a have "a = 1" by simp
    with t show ?thesis by (simp add: preamble_section_def ds)
  qed
qed

lemma section_renders: "renders py_strip (section_chunk spec path)"
  by (auto simp: renders_def Let_def section_chunk_def base_chunk_def split: option.splits)

lemma nothing_lost_nonempty: "nothing_lost ls cs \<Longrightarrow> i < length ls \<Longrightarrow> py_strip (ls ! i) \<noteq> [] \<Longrightarrow> cs \<noteq> []"
  by (auto simp: nothing_lost_def list_all_iff)

lemma code_faithful:
  assumes "declares 1 ls ds" and "ds \<noteq> []"
  shows "faithful py_strip ls (concat (map (section_chunk spec path) (preamble_section ls ds @ declared_sections ls ds)))"
    and "concat (map (section_chunk spec path) (preamble_section ls ds @ declared_sections ls ds)) \<noteq> []"
proof -
  show f: "faithful py_strip ls (concat (map (section_chunk spec path) (preamble_section ls ds @ declared_sections ls ds)))"
    using code_tiled [OF assms] by (intro sections_faithful [OF section_renders]) auto
  from assms obtain d where "d \<in> set ds" "1 \<le> fst d" "fst d < 1 + length ls" "py_strip (ls ! (fst d - 1)) \<noteq> []"
    unfolding declares_def by (cases ds) auto
  with f show "concat (map (section_chunk spec path) (preamble_section ls ds @ declared_sections ls ds)) \<noteq> []"
    by (intro nothing_lost_nonempty [of ls _ "fst d - 1"]) (auto simp: faithful_def)
qed

text \<open>The patterns of declarations need a character that is not white space.\<close>

lemma space_is_not_alpha: "is_space c \<Longrightarrow> \<not> (c_alpha c \<or> c = CHR ''_'')"
  by (auto simp: is_space_def c_alpha_def c_lower_def c_upper_def in_range_def cp_def)

lemma stuck_either: "stuck Q r \<or> stuck Q q \<Longrightarrow> stuck Q (RSeq r q)"
  using stuck_first stuck_second by blast

lemma stuck_name: "stuck is_space (RSet (\<lambda>c. c_alpha c \<or> c = CHR ''_''))"
  by (rule stuck_set) (rule space_is_not_alpha)

lemmas stuck_rules = stuck_either stuck_name stuck_lit stuck_group stuck_alt rx_seq.simps rx_alt.simps

lemma stuck_declaration_patterns:
  "stuck is_space go_func_re" "stuck is_space go_type_re" "stuck is_space proto_decl_re" "stuck is_space proto_rpc_re"
  "stuck is_space js_decl_re" "stuck is_space java_decl_re"
  unfolding go_func_re_def go_type_re_def proto_decl_re_def proto_rpc_re_def js_decl_re_def js_bound_def java_decl_re_def
  by (simp_all add: stuck_rules is_space_def in_range_def cp_def)

lemma blank_is_space: "py_strip l = [] \<Longrightarrow> list_all is_space l"
  by (simp add: py_strip_empty list_all_iff)

lemma blank_no_match: "py_strip l = [] \<Longrightarrow> stuck is_space r \<Longrightarrow> re_match r l = None"
  by (erule stuck_no_match) (rule blank_is_space)

lemma regex_declares:
  "stuck is_space rx \<Longrightarrow> regex_declarations rx n lang i ls = Inr ds \<Longrightarrow> declares i ls ds"
proof (induction rx n lang i ls arbitrary: ds rule: regex_declarations.induct)
  case (1 rx n lang i)
  then show ?case by simp
next
  case (2 rx n lang i l ls)
  show ?case
  proof (cases "line_groups rx n l = []")
    case True
    with 2 have "declares (i + 1) ls ds" by simp
    then show ?thesis by (rule declares_skip)
  next
    case False
    with 2(4) obtain k s rest where r: "resolve_regex_declaration (line_groups rx n l) lang = Inr (k, s)"
      "regex_declarations rx n lang (i + 1) ls = Inr rest" and ds: "ds = (i, k, s) # rest"
      by (auto simp: rbind_def split: sum.splits)
    from 2(2) [OF False 2(3) r(2)] have "declares (i + 1) ls rest" .
    moreover from False 2(3) have "py_strip l \<noteq> []" by (auto simp: line_groups_def blank_no_match)
    ultimately show ?thesis unfolding ds by (rule declares_Cons)
  qed
qed

lemma go_declares: "declares 1 ls (found go_declaration ls)"
  unfolding found_def by (rule found_declares)
    (simp add: go_declaration_def Let_def stuck_no_match [where Q = is_space] stuck_declaration_patterns)

lemma proto_declares: "declares 1 ls (found proto_declaration ls)"
  unfolding found_def by (rule found_declares) (simp add: proto_declaration_def blank_no_match stuck_declaration_patterns)

text \<open>How a file is cut: nothing of an empty one, one chunk of one with no declaration, and the sections of any other.\<close>

definition cut_file :: "string \<Rightarrow> found_declaration list \<Rightarrow> raw_chunk list \<Rightarrow> bool" where
  "cut_file content ds cs \<longleftrightarrow>
     (let ls = split_lines content in
      if ls = [] then cs = []
      else if ds = [] then map rc_text cs = [content] \<and> map chunk_range cs = [(1, int (length ls))]
      else faithful py_strip ls cs)"

lemma cut_by_declarations:
  assumes "declares 1 (split_lines content) ds" and "split_lines content \<noteq> []"
  shows "cut_file content ds (declaration_chunks spec content path ds)"
proof (cases "ds = []")
  case True
  with assms(2) show ?thesis
    by (simp add: cut_file_def declaration_chunks_def preamble_section_def file_chunk_def base_chunk_def chunk_range_def)
next
  case False
  from code_faithful [OF assms(1) False, of spec path] False assms(2) show ?thesis
    unfolding cut_file_def declaration_chunks_def Let_def by (simp only: if_False simp_thms if_True)
qed

text \<open>The second copy of the chunker gives the same chunks as the first.\<close>

lemma regex_language_by_declarations:
  assumes "stuck is_space rx"
  shows "parse_regex_language spec rx n content path =
    (if split_lines content = [] then Inr []
     else rbind (regex_declarations rx n (cd_language spec) 1 (split_lines content))
       (\<lambda>ds. Inr (declaration_chunks spec content path ds)))"
proof (cases "regex_declarations rx n (cd_language spec) 1 (split_lines content)")
  case (Inl e)
  then show ?thesis by (simp add: parse_regex_language_def Let_def rbind_def)
next
  case (Inr ds)
  have d: "declares 1 (split_lines content) ds" by (rule regex_declares [OF assms Inr])
  show ?thesis
  proof (cases "ds = []")
    case True
    with Inr show ?thesis
      by (simp add: parse_regex_language_def Let_def rbind_def declaration_chunks_def preamble_section_def)
  next
    case False
    from code_faithful(2) [OF d False, of spec path] False Inr show ?thesis
      by (simp add: parse_regex_language_def Let_def rbind_def declaration_chunks_def)
  qed
qed

text \<open>A declaration of Java always has its two groups, so its parser does not raise.\<close>

lemma groups_of_lit [simp]: "groups_of (rx_lit s) = []"
  by (induction s) (simp_all add: rx_lit_def rx_char_def)

lemma fills_either: "fills i q \<or> fills i r \<and> i \<notin> set (groups_of q) \<Longrightarrow> fills i (RSeq r q)"
  using fills_first fills_second by blast

lemmas fills_rules = fills_either fills_group reads_set reads_first reads_alt reads_lit rx_seq.simps rx_alt.simps groups_of.simps
  rx_name_def rx_sp_def rx_sp1_def rx_star_def rx_plus_def

lemma java_groups: "fills 1 java_decl_re" "fills 2 java_decl_re"
  unfolding java_decl_re_def by (simp_all add: fills_rules)

lemma java_resolves: "line_groups java_decl_re 2 l \<noteq> [] \<Longrightarrow> \<exists>d. resolve_regex_declaration (line_groups java_decl_re 2 l) lang = Inr d \<or> lang \<in> set [''js'', ''ts'']"
proof (cases "re_match java_decl_re l")
  case (Some m)
  then have "group_text m 1 \<noteq> []" "group_text m 2 \<noteq> []" using fills_match [OF java_groups(1)] fills_match [OF java_groups(2)] by auto
  then have "line_groups java_decl_re 2 l = [group_text m 1, group_text m 2]" by (simp add: line_groups_def Some upt_rec numeral_2_eq_2)
  then show ?thesis by (simp add: resolve_regex_declaration_def nth_group_def rbind_def)
qed (simp add: line_groups_def)

lemma regex_declarations_total:
  "(\<And>l. line_groups rx n l \<noteq> [] \<Longrightarrow> \<exists>d. resolve_regex_declaration (line_groups rx n l) lang = Inr d) \<Longrightarrow>
   \<exists>ds. regex_declarations rx n lang i ls = Inr ds"
proof (induction ls arbitrary: i)
  case (Cons l ls)
  from Cons.IH [OF Cons.prems] obtain ds where ds: "regex_declarations rx n lang (i + 1) ls = Inr ds" by blast
  show ?case
  proof (cases "line_groups rx n l = []")
    case False
    with Cons.prems [OF False] ds show ?thesis by (auto simp: rbind_def split: prod.splits)
  qed (use ds in simp)
qed simp

lemma java_declarations: "\<exists>ds. regex_declarations java_decl_re 2 ''java'' i ls = Inr ds"
  by (rule regex_declarations_total) (use java_resolves [where lang = "''java''"] in auto)

text \<open>A line whose declaration has no second group where the code reads one.\<close>

definition unresolvable :: "string \<Rightarrow> string list \<Rightarrow> bool" where
  "unresolvable lang groups \<longleftrightarrow> length groups = 1 \<and> (if lang \<in> set [''js'', ''ts''] then hd groups \<in> set js_keywords else True)"

lemma resolve_cases:
  "groups \<noteq> [] \<Longrightarrow> (unresolvable lang groups \<and> resolve_regex_declaration groups lang = Inl index_error)
   \<or> (\<not> unresolvable lang groups \<and> (\<exists>d. resolve_regex_declaration groups lang = Inr d))"
  by (cases groups; cases "tl groups")
    (auto simp: unresolvable_def resolve_regex_declaration_def nth_group_def rbind_def split: list.splits)

lemma regex_declarations_raise:
  "regex_declarations rx n lang i ls = Inl e \<longleftrightarrow> e = index_error \<and> list_ex (\<lambda>l. unresolvable lang (line_groups rx n l)) ls"
proof (induction ls arbitrary: i)
  case Nil
  then show ?case by simp
next
  case (Cons l ls)
  show ?case
  proof (cases "line_groups rx n l = []")
    case True
    then show ?thesis using Cons.IH [of "i + 1"] by (simp add: unresolvable_def)
  next
    case False
    from resolve_cases [OF this, of lang] False Cons.IH [of "i + 1"] show ?thesis
      by (cases "regex_declarations rx n lang (i + 1) ls") (auto simp: rbind_def)
  qed
qed

lemmas blank_lines = stuck_declaration_patterns(5) stuck_declaration_patterns(6)

lemma parse_jsts_by_declarations:
  "parse_jsts content path service lang =
    (if split_lines content = [] then Inr []
     else rbind (regex_declarations js_decl_re 7 lang 1 (split_lines content))
       (\<lambda>ds. Inr (declaration_chunks (jsts_spec service lang) content path ds)))"
proof -
  have "cd_language (jsts_spec service lang) = lang" by (simp add: jsts_spec_def Let_def)
  then show ?thesis unfolding parse_jsts_def regex_language_by_declarations [OF blank_lines(1)] by simp
qed

text \<open>
  C26. A source file is cut without loss. An empty file has no chunk, a file with no declaration is one chunk with the text of the
  whole file, and in any other file every chunk has the stripped text of exactly the lines it cites, the chunks follow each
  other, and every line that is not blank is in one of them. The parsers of Go, Protocol Buffers and Java never raise.\<close>

theorem source_files_are_cut_without_loss:
  "cut_file content (found go_declaration (split_lines content)) (parse_go content path service)
   \<and> cut_file content (found proto_declaration (split_lines content)) (parse_proto content path service)
   \<and> (\<exists>ds cs. parse_java content path service = Inr cs \<and> cut_file content ds cs)
   \<and> (case parse_jsts content path service lang of Inl e \<Rightarrow> e = index_error | Inr cs \<Rightarrow> \<exists>ds. cut_file content ds cs)"
proof (intro conjI)
  let ?ls = "split_lines content"
  have empty: "cut_file content ds []" if "?ls = []" for ds using that by (simp add: cut_file_def)
  show "cut_file content (found go_declaration ?ls) (parse_go content path service)"
    by (cases "?ls = []") (simp_all add: parse_go_def empty cut_by_declarations [OF go_declares])
  show "cut_file content (found proto_declaration ?ls) (parse_proto content path service)"
    by (cases "?ls = []") (simp_all add: parse_proto_def empty cut_by_declarations [OF proto_declares])
  obtain ds where ds: "regex_declarations java_decl_re 2 ''java'' 1 ?ls = Inr ds" using java_declarations by blast
  have "parse_java content path service = Inr (if ?ls = [] then [] else declaration_chunks (java_spec service) content path ds)"
    unfolding parse_java_def regex_language_by_declarations [OF blank_lines(2)] using ds by (simp add: java_spec_def rbind_def)
  then show "\<exists>ds cs. parse_java content path service = Inr cs \<and> cut_file content ds cs"
    using cut_by_declarations [OF regex_declares [OF blank_lines(2) ds]] empty by (cases "?ls = []") auto
  show "case parse_jsts content path service lang of Inl e \<Rightarrow> e = index_error | Inr cs \<Rightarrow> \<exists>ds. cut_file content ds cs"
  proof (cases "regex_declarations js_decl_re 7 lang 1 ?ls")
    case (Inl e)
    then show ?thesis using regex_declarations_raise [of js_decl_re 7 lang 1 ?ls e] empty
      by (simp add: parse_jsts_by_declarations rbind_def)
  next
    case (Inr ds)
    with cut_by_declarations [OF regex_declares [OF blank_lines(1) Inr], of "jsts_spec service lang" path] empty show ?thesis
      by (cases "?ls = []") (auto simp: parse_jsts_by_declarations rbind_def)
  qed
qed

text \<open>
  The parser of JavaScript and TypeScript raises an IndexError exactly when some line's declaration has a single group that is
  not the name of a function: any function or bound function in a \<open>.jsx\<close> file, and one named \<open>type\<close> and the like elsewhere.\<close>

theorem jsts_raises_iff:
  "parse_jsts content path service lang = Inl e \<longleftrightarrow>
     e = index_error \<and> list_ex (\<lambda>l. unresolvable lang (line_groups js_decl_re 7 l)) (split_lines content)"
  unfolding parse_jsts_by_declarations using regex_declarations_raise [of js_decl_re 7 lang 1 "split_lines content" e]
  by (cases "regex_declarations js_decl_re 7 lang 1 (split_lines content)") (auto simp: rbind_def)

lemma jsx_function_is_refused:
  "parse_jsts ''function App() {}'' ''app.jsx'' JNull ''jsx'' = Inl index_error"
  "parse_jsts ''function type() {}'' ''app.ts'' JNull ''ts'' = Inl index_error"
  by code_simp+

section \<open>Python and configuration\<close>

text \<open>Which lines the chunks of a Python file cite.\<close>

definition cited :: "raw_chunk list \<Rightarrow> nat \<Rightarrow> bool" where
  "cited cs i \<longleftrightarrow> list_ex (\<lambda>c. fst (chunk_range c) \<le> int i \<and> int i \<le> snd (chunk_range c)) cs"

lemma cited_append: "cited (xs @ ys) i \<longleftrightarrow> cited xs i \<or> cited ys i"
  by (simp add: cited_def)

text \<open>
  A Python file that has a chunk of its own loses every line after the first definition, at any depth, that is in no definition
  of the top level: the decorators and the statements between and after the definitions are in no chunk.\<close>

theorem python_lines_outside_definitions_are_lost:
  assumes "ast content = Inr ns" and "first_def_line ns = Some k" and "k \<le> i" and "List.map_filter node_definition ns \<noteq> []"
    and "list_all (\<lambda>d. i < pd_line d \<or> definition_end d < i) (List.map_filter node_definition ns)"
  shows "\<exists>cs. parse_python ast content path service = Inr cs \<and> \<not> cited cs i"
proof -
  let ?ls = "lines_of content" and ?tops = "List.map_filter node_definition ns"
  let ?cs = "python_preamble ?ls path service (Some k) @ map (python_chunk ?ls path service) ?tops"
  have "parse_python ast content path service = Inr ?cs"
    using assms(1,2,4) by (simp add: parse_python_def Let_def)
  moreover have "\<not> cited (python_preamble ?ls path service (Some k)) i"
    using assms(3) by (simp add: cited_def python_preamble_def Let_def chunk_range_def base_chunk_def)
  moreover have "\<not> cited (map (python_chunk ?ls path service) ?tops) i"
    using assms(5) by (auto simp: cited_def python_chunk_def chunk_range_def base_chunk_def list_all_iff list_ex_iff)
  ultimately show ?thesis by (auto simp: cited_append)
qed

lemma python_lines_outside_definitions_are_lost_witness:
  "\<exists>cs. parse_python (\<lambda>_. Inr [PyNode (Some \<lparr>pd_class = False, pd_name = ''a'', pd_line = 1, pd_end = Some 1\<rparr>) [],
        PyNode (Some \<lparr>pd_class = False, pd_name = ''b'', pd_line = 3, pd_end = Some 3\<rparr>) [], PyNode None []])
      (join_with nl [''def a(): pass'', ''@route'', ''def b(): pass'', ''main()'']) ''m.py'' JNull = Inr cs \<and> \<not> cited cs 4"
  by (rule python_lines_outside_definitions_are_lost [where k = 1 and ns = "[PyNode (Some \<lparr>pd_class = False, pd_name = ''a'',
      pd_line = 1, pd_end = Some 1\<rparr>) [], PyNode (Some \<lparr>pd_class = False, pd_name = ''b'', pd_line = 3, pd_end = Some 3\<rparr>) [],
      PyNode None []]"])
    (simp_all add: first_def_line_def node_definition_def List.map_filter_simps definition_end_def)

text \<open>
  A structured configuration has a chunk whatever the loaders answer, and at most fifty, or a hundred endpoints and a hundred
  schemas of an API description; every chunk cites the whole file.\<close>

theorem structured_config_bounds:
  "let cs = parse_structured_config cl content path source_type service in
     1 \<le> length cs \<and> length cs \<le> (if source_type = ''api_doc'' then 200 else 50)
     \<and> list_all (\<lambda>c. rc_start_line c = Some 1 \<and> rc_end_line c = Some (int (length (lines_or_whole content)))) cs"
proof -
  let ?api = "parse_openapi_like cl content path service"
  have api: "length ?api \<le> 200"
    by (auto simp: parse_openapi_like_def Let_def split: json.split)
  have most: "length (concat (map (config_section n p t v) es)) \<le> length es" for n p t v es
    by (induction es) (simp_all add: config_section_def Let_def)
  have sections: "length (concat (map (config_section n p t v) (take 50 es))) \<le> 50" for n p t v es
    using most [of n p t v "take 50 es"] by simp
  let ?n = "length (lines_or_whole content)"
  let ?P = "\<lambda>c. rc_start_line c = Some 1 \<and> rc_end_line c = Some (int ?n)"
  have "list_all ?P (config_section ?n path source_type service e)" for e
    by (simp add: config_section_def Let_def base_chunk_def)
  then have whole: "list_all ?P (concat (map (config_section ?n path source_type service) es))" for es
    by (induction es) simp_all
  have "?P (endpoint_chunk ?n path service e)" "?P (schema_chunk ?n path service e)" for e
    by (simp_all add: endpoint_chunk_def schema_chunk_def base_chunk_def Let_def)
  then have "list_all ?P (map (endpoint_chunk ?n path service) es @ map (schema_chunk ?n path service) es')" for es es'
    by (auto simp: list_all_iff)
  then have endpoints: "list_all ?P ?api"
    unfolding parse_openapi_like_def Let_def by (cases "load_structured_data cl content (py_lower path)") simp_all
  show ?thesis
  proof (cases "source_type = ''api_doc'' \<and> ?api \<noteq> []")
    case True
    then have "parse_structured_config cl content path source_type service = ?api" by (simp add: parse_structured_config_def Let_def)
    moreover have "1 \<le> length ?api" using True by (simp add: Suc_le_eq)
    ultimately show ?thesis using True api endpoints by (simp add: Let_def)
  next
    case no_api: False
    let ?s = "concat (map (config_section (length (lines_or_whole content)) path source_type service)
      (take 50 (dict_items (load_structured_data cl content (py_lower path)))))"
    show ?thesis
    proof (cases "?s = []")
      case True
      then have "\<exists>c. parse_structured_config cl content path source_type service = [c] \<and> rc_start_line c = Some 1
          \<and> rc_end_line c = Some (int (length (lines_or_whole content)))"
        using no_api unfolding parse_structured_config_def Let_def by (simp add: base_chunk_def)
      then show ?thesis by auto
    next
      case False
      then have "parse_structured_config cl content path source_type service = ?s"
        using no_api unfolding parse_structured_config_def Let_def by presburger
      moreover have "1 \<le> length ?s" using False by (metis One_nat_def Suc_leI length_greater_0_conv)
      ultimately show ?thesis using sections whole by (simp add: Let_def order_trans [OF sections])
    qed
  qed
qed

end
