(* ===== verification/Evaluation.thy ===== *)
theory Evaluation
  imports Agent Parsers
begin

text \<open>
  Evaluation of a project against golden cases: \<open>security/path_policy.py\<close>, \<open>eval/runner.py\<close>, \<open>apps/api/routes/evals.py\<close> and the
  worker's two jobs for it. The file system, the JSON decoder, the clock and the HTTP server of a remote run are arguments. The
  dictionary of a case's result is a record with the same keys.
\<close>

section \<open>Paths under the allowed roots\<close>

record file_system =
  fs_resolve :: "string \<Rightarrow> string result"    \<comment> \<open>\<open>Path(p).resolve(strict=True)\<close>\<close>
  fs_is_file :: "string \<Rightarrow> bool"
  fs_is_dir :: "string \<Rightarrow> bool"
  fs_size :: "string \<Rightarrow> int"
  fs_read :: "string \<Rightarrow> string result"    \<comment> \<open>the text of a file\<close>

fun allowed_roots :: "file_system \<Rightarrow> string list \<Rightarrow> string list result" where
  "allowed_roots fs [] = Inr []"
| "allowed_roots fs (item # items) =
     (if py_strip item = [] then allowed_roots fs items
      else case fs_resolve fs (py_strip item) of
          Inr r \<Rightarrow> rbind (allowed_roots fs items) (\<lambda>rs. Inr (r # rs))
        | Inl e \<Rightarrow> if e = FileNotFoundError then allowed_roots fs items else Inl e)"

definition is_relative_to :: "string \<Rightarrow> string \<Rightarrow> bool" where
  "is_relative_to path base \<longleftrightarrow> path_is_absolute path = path_is_absolute base
     \<and> take (length (path_parts base)) (path_parts path) = path_parts base"

definition validate_path_under_allowed_roots ::
  "file_system \<Rightarrow> string \<Rightarrow> string \<Rightarrow> bool \<Rightarrow> bool \<Rightarrow> int option \<Rightarrow> string result" where
  "validate_path_under_allowed_roots fs path roots require_file require_dir max_bytes =
     rbind (require (CHR 0x00 \<notin> set path) (PathPolicyError ''path contains invalid characters'')) (\<lambda>_.
     rbind (case fs_resolve fs path of
              Inr p \<Rightarrow> Inr p
            | Inl e \<Rightarrow> Inl (if e = FileNotFoundError then PathPolicyError ''path does not exist'' else e)) (\<lambda>resolved.
     rbind (allowed_roots fs (split_on (CHR '','') roots)) (\<lambda>rs.
     rbind (require (rs \<noteq> []) (PathPolicyError ''no allowed roots configured'')) (\<lambda>_.
     rbind (require (list_ex (is_relative_to resolved) rs) (PathPolicyError ''path is outside configured allowed roots'')) (\<lambda>_.
     rbind (require (\<not> require_file \<or> fs_is_file fs resolved) (PathPolicyError ''path must be a file'')) (\<lambda>_.
     rbind (require (\<not> require_dir \<or> fs_is_dir fs resolved) (PathPolicyError ''path must be a directory'')) (\<lambda>_.
     rbind (require (case max_bytes of None \<Rightarrow> True | Some m \<Rightarrow> \<not> (fs_is_file fs resolved \<and> fs_size fs resolved > m))
       (PathPolicyError ''file exceeds configured size limit'')) (\<lambda>_. Inr resolved))))))))"

section \<open>Scoring a case\<close>

fun type_name :: "json \<Rightarrow> string" where
  "type_name JNull = ''NoneType''"
| "type_name (JBool _) = ''bool''"
| "type_name (JInt _) = ''int''"
| "type_name (JFloat _ _) = ''float''"
| "type_name (JStr _) = ''str''"
| "type_name (JList _) = ''list''"
| "type_name (JObj _) = ''dict''"

definition quoted :: "string \<Rightarrow> string" where "quoted s = [CHR 0x27] @ s @ [CHR 0x27]"

definition no_attribute :: "json \<Rightarrow> string \<Rightarrow> py_exn" where
  "no_attribute v a = OtherError ''AttributeError'' (quoted (type_name v) @ '' object has no attribute '' @ quoted a)"

definition as_dict :: "json \<Rightarrow> json dict result" where    \<comment> \<open>a receiver of \<open>.get\<close>\<close>
  "as_dict v = (case v of JObj d \<Rightarrow> Inr d | _ \<Rightarrow> Inl (no_attribute v ''get''))"

definition json_iter :: "json \<Rightarrow> json list result" where    \<comment> \<open>\<open>for x in v\<close>\<close>
  "json_iter v = (case v of
      JList xs \<Rightarrow> Inr xs
    | JStr s \<Rightarrow> Inr (map (\<lambda>c. JStr [c]) s)
    | JObj d \<Rightarrow> Inr (map (\<lambda>(k, _). JStr k) d)
    | _ \<Rightarrow> Inl (TypeError (quoted (type_name v) @ '' object is not iterable'')))"

fun rmap :: "('a \<Rightarrow> 'b result) \<Rightarrow> 'a list \<Rightarrow> 'b list result" where
  "rmap f [] = Inr []"
| "rmap f (x # xs) = rbind (f x) (\<lambda>y. rbind (rmap f xs) (\<lambda>ys. Inr (y # ys)))"

definition lower_of :: "json \<Rightarrow> string result" where
  "lower_of v = (case v of JStr s \<Rightarrow> Inr (py_lower s) | _ \<Rightarrow> Inl (no_attribute v ''lower''))"

definition get_list :: "json dict \<Rightarrow> string \<Rightarrow> json" where    \<comment> \<open>\<open>case.get(k, [])\<close>\<close>
  "get_list d k = dict_get_or (JList []) d k"

definition lowered_terms :: "json dict \<Rightarrow> string \<Rightarrow> string list result" where
  "lowered_terms d k = rbind (json_iter (get_list d k)) (rmap lower_of)"

definition found_in :: "string list \<Rightarrow> json \<Rightarrow> bool result" where
  "found_in paths e =
     (if paths = [] then Inr False
      else case e of JStr s \<Rightarrow> Inr (list_ex (\<lambda>p. str_contains s p) paths)
           | _ \<Rightarrow> Inl (TypeError (quoted ''in <string>'' @ '' requires string as left operand, not '' @ type_name e)))"

fun found_documents :: "string list \<Rightarrow> json list \<Rightarrow> json list result" where
  "found_documents paths [] = Inr []"
| "found_documents paths (e # es) =
     rbind (found_in paths e) (\<lambda>b. rbind (found_documents paths es) (\<lambda>rest. Inr (if b then e # rest else rest)))"

definition share :: "nat \<Rightarrow> nat \<Rightarrow> rat" where    \<comment> \<open>\<open>len(a) / len(b) if b else 1.0\<close>\<close>
  "share n m = (if m = 0 then 1 else of_nat n / of_nat m)"

definition query_class :: "json dict \<Rightarrow> string" where
  "query_class d = py_str (json_or (get_or_none d ''query_class'')
     (JStr (qi_intent (classify_query_intent (py_str (dict_get_or (JStr []) d ''question''))))))"

record case_result =
  cr_found_documents :: "json list"
  cr_missing_documents :: json
  cr_evidence_recall :: rat
  cr_found_terms :: "string list"
  cr_missing_terms :: "string list"
  cr_term_coverage :: rat
  cr_forbidden_hits :: "string list"
  cr_query_class :: string
  cr_expected_source_types :: json
  cr_observed_source_types :: "string list"
  cr_source_type_hit_rate :: rat
  cr_wrong_source_type_hits :: "string list"
  cr_case_id :: json
  cr_question :: json
  cr_expected_documents :: json
  cr_expected_terms :: json
  cr_forbidden_terms :: json
  cr_retrieved_documents :: "string list"
  cr_latency_ms :: int
  cr_error :: "string option"

text \<open>The keys the caller adds are empty here.\<close>

definition evaluate_case_output :: "json dict \<Rightarrow> string list \<Rightarrow> string \<Rightarrow> string list \<Rightarrow> case_result result" where
  "evaluate_case_output d paths answer types =
     rbind (lowered_terms d ''expected_terms'') (\<lambda>terms.
     rbind (lowered_terms d ''forbidden_terms'') (\<lambda>forbidden.
     rbind (json_iter (get_list d ''expected_documents'')) (\<lambda>docs.
     rbind (found_documents paths docs) (\<lambda>found.
     rbind (json_iter (get_list d ''expected_source_types'')) (\<lambda>expected_types.
     rbind (json_iter (get_list d ''forbidden_source_types'')) (\<lambda>forbidden_types.
       let low = py_lower answer; found_terms = filter (\<lambda>t. str_contains t low) terms; observed = sorted_set types;
           expected = map py_str expected_types
       in Inr \<lparr>cr_found_documents = found,
               cr_missing_documents = JList (filter (\<lambda>e. e \<notin> set found) docs),
               cr_evidence_recall = share (length found) (length docs),
               cr_found_terms = found_terms,
               cr_missing_terms = filter (\<lambda>t. t \<notin> set found_terms) terms,
               cr_term_coverage = share (length found_terms) (length terms),
               cr_forbidden_hits = filter (\<lambda>t. str_contains t low) forbidden,
               cr_query_class = query_class d,
               cr_expected_source_types = JList (map JStr expected),
               cr_observed_source_types = observed,
               cr_source_type_hit_rate = share (length (sorted_set (filter (\<lambda>t. t \<in> set observed) expected))) (length expected),
               cr_wrong_source_type_hits = sorted_set (filter (\<lambda>t. t \<in> set observed) (map py_str forbidden_types)),
               cr_case_id = JNull, cr_question = JNull, cr_expected_documents = JNull, cr_expected_terms = JNull,
               cr_forbidden_terms = JNull, cr_retrieved_documents = [], cr_latency_ms = 0, cr_error = None\<rparr>))))))"

section \<open>Running the cases\<close>

record eval_env =
  ee_search :: search_env
  ee_rerank :: rerank_env
  ee_files :: file_system
  ee_json :: "string \<Rightarrow> json result"    \<comment> \<open>\<open>json.loads\<close>\<close>
  ee_default_cases :: string    \<comment> \<open>the path of the golden cases of the package\<close>
  ee_latency_ms :: "nat \<Rightarrow> int"    \<comment> \<open>the time the case with this number takes\<close>
  ee_numbers :: number_text
  ee_now :: time
  ee_sha :: "string \<Rightarrow> string"

definition resolve_cases_path :: "eval_env \<Rightarrow> string option \<Rightarrow> settings option \<Rightarrow> string result" where
  "resolve_cases_path env cases_path cfg =
     (if opt_str cases_path = [] then Inr (ee_default_cases env)
      else case cfg of
          None \<Rightarrow> Inr (opt_str cases_path)
        | Some s \<Rightarrow> validate_path_under_allowed_roots (ee_files env) (opt_str cases_path) (eval_cases_allowed_roots s) True False
            (Some (max_eval_cases_bytes s)))"

definition load_cases :: "eval_env \<Rightarrow> string option \<Rightarrow> settings option \<Rightarrow> json list result" where
  "load_cases env cases_path cfg =
     rbind (resolve_cases_path env cases_path cfg) (\<lambda>path.
     rbind (fs_read (ee_files env) path) (\<lambda>content.
     rmap (ee_json env) (filter (\<lambda>l. l \<noteq> []) (map py_strip (lines_of content)))))"

definition eval_safe_error :: "py_exn \<Rightarrow> string" where
  "eval_safe_error e = take 1000 (replace_char (CHR 0x0A) (CHR '' '') (exn_text e))"

definition answer_payload :: "string \<Rightarrow> string \<Rightarrow> string list \<Rightarrow> string list \<Rightarrow> string" where
  "answer_payload cause fix_text unknowns summaries =
     join_with '' '' [cause, fix_text, join_with '' '' unknowns, join_with '' '' summaries]"

definition investigate_case :: "eval_env \<Rightarrow> settings \<Rightarrow> uid \<Rightarrow> int \<Rightarrow> json \<Rightarrow> (json dict \<times> json \<times> investigation) dbact" where
  "investigate_case env cfg pid k c = (case c of
      JObj d \<Rightarrow> (case dict_get d ''question'' of
          None \<Rightarrow> raise (KeyError ''question'')
        | Some (JStr q) \<Rightarrow> bind_act (investigate (ee_search env) (ee_rerank env) cfg pid q k []) (\<lambda>report. ret (d, JStr q, report))
        | Some v \<Rightarrow> raise (no_attribute v ''lower''))
    | _ \<Rightarrow> raise (TypeError (quoted (type_name c) @ '' object is not subscriptable'')))"

definition case_outcome :: "eval_env \<Rightarrow> nat \<Rightarrow> json dict \<times> json \<times> investigation \<Rightarrow> case_result result" where
  "case_outcome env i x = (case x of (d, question, report) \<Rightarrow>
     let paths = map ev_document_path (in_evidence report) in
     rbind (evaluate_case_output d paths
              (answer_payload (hy_summary (in_likely_root_cause report)) (opt_str (in_suggested_fix report)) (in_missing_data report)
                 (map hy_summary (in_hypotheses report)))
              (map (\<lambda>e. if ev_source_type e \<noteq> [] then ev_source_type e else ''unknown_text'') (in_evidence report))) (\<lambda>r.
       Inr (r\<lparr>cr_case_id := dict_get_or (JStr []) d ''id'', cr_question := question,
              cr_expected_documents := get_list d ''expected_documents'', cr_expected_terms := get_list d ''expected_terms'',
              cr_forbidden_terms := get_list d ''forbidden_terms'', cr_retrieved_documents := paths,
              cr_latency_ms := ee_latency_ms env i, cr_error := None\<rparr>)))"

text \<open>The handler of a case that raised; it can raise itself.\<close>

definition failed_case :: "eval_env \<Rightarrow> nat \<Rightarrow> json \<Rightarrow> py_exn \<Rightarrow> case_result result" where
  "failed_case env i c e =
     rbind (as_dict c) (\<lambda>d.
     rbind (json_iter (get_list d ''expected_terms'')) (\<lambda>terms.
       Inr \<lparr>cr_found_documents = [], cr_missing_documents = get_list d ''expected_documents'', cr_evidence_recall = 0,
            cr_found_terms = [], cr_missing_terms = map (\<lambda>t. py_lower (py_str t)) terms, cr_term_coverage = 0,
            cr_forbidden_hits = [], cr_query_class = query_class d,
            cr_expected_source_types = get_list d ''expected_source_types'', cr_observed_source_types = [],
            cr_source_type_hit_rate = 0, cr_wrong_source_type_hits = [],
            cr_case_id = JStr (py_str (dict_get_or (JStr []) d ''id'')), cr_question = JStr (py_str (dict_get_or (JStr []) d ''question'')),
            cr_expected_documents = get_list d ''expected_documents'', cr_expected_terms = get_list d ''expected_terms'',
            cr_forbidden_terms = get_list d ''forbidden_terms'', cr_retrieved_documents = [],
            cr_latency_ms = ee_latency_ms env i, cr_error = Some (eval_safe_error e)\<rparr>))"

definition run_case :: "eval_env \<Rightarrow> settings \<Rightarrow> uid \<Rightarrow> int \<Rightarrow> nat \<Rightarrow> json \<Rightarrow> case_result dbact" where
  "run_case env cfg pid k i c =
     try_act (bind_act (investigate_case env cfg pid k c) (\<lambda>x. lift_result (case_outcome env i x)))
       (\<lambda>e. lift_result (failed_case env i c e))"

definition strings_json :: "string list \<Rightarrow> json" where "strings_json xs = JList (map JStr xs)"

definition case_result_json :: "number_text \<Rightarrow> case_result \<Rightarrow> json dict" where
  "case_result_json nt r =
     [(''found_documents'', JList (cr_found_documents r)), (''missing_documents'', cr_missing_documents r),
      (''evidence_recall'', jfloat nt (cr_evidence_recall r)), (''found_terms'', strings_json (cr_found_terms r)),
      (''missing_terms'', strings_json (cr_missing_terms r)), (''term_coverage'', jfloat nt (cr_term_coverage r)),
      (''forbidden_hits'', strings_json (cr_forbidden_hits r)), (''query_class'', JStr (cr_query_class r)),
      (''expected_source_types'', cr_expected_source_types r), (''observed_source_types'', strings_json (cr_observed_source_types r)),
      (''source_type_hit_rate'', jfloat nt (cr_source_type_hit_rate r)),
      (''wrong_source_type_hits'', strings_json (cr_wrong_source_type_hits r)), (''case_id'', cr_case_id r),
      (''question'', cr_question r), (''expected_documents'', cr_expected_documents r), (''expected_terms'', cr_expected_terms r),
      (''forbidden_terms'', cr_forbidden_terms r), (''retrieved_documents'', strings_json (cr_retrieved_documents r)),
      (''latency_ms'', JInt (cr_latency_ms r)), (''error'', opt_json (cr_error r))]"

definition new_case_row :: "eval_env \<Rightarrow> uid \<Rightarrow> nat \<Rightarrow> json dict \<Rightarrow> case_result \<Rightarrow> uid \<Rightarrow> eval_case_row" where
  "new_case_row env rid n d r i =
     \<lparr>evcase_id = i, evcase_eval_run_id = rid, evcase_case_id = py_str (dict_get_or (JStr (''case_'' @ digits_of n)) d ''id''),
      evcase_question = py_str (dict_get_or (JStr []) d ''question''),
      evcase_result_json = Some (case_result_json (ee_numbers env) r), evcase_created_at = ee_now env\<rparr>"

fun run_cases :: "eval_env \<Rightarrow> settings \<Rightarrow> uid \<Rightarrow> uid \<Rightarrow> int \<Rightarrow> nat \<Rightarrow> json list \<Rightarrow> case_result list dbact" where
  "run_cases env cfg rid pid k i [] = ret []"
| "run_cases env cfg rid pid k i (c # cs) =
     bind_act (run_case env cfg pid k i c) (\<lambda>r.
     bind_act (lift_result (as_dict c)) (\<lambda>d.
     then_act (change (add_row eval_run_cases_update (new_case_row env rid (i + 1) d r)))
       (bind_act (run_cases env cfg rid pid k (i + 1) cs) (\<lambda>rs. ret (r # rs)))))"

section \<open>The summary\<close>

definition average :: "rat list \<Rightarrow> rat" where
  "average xs = (if xs = [] then 0 else sum_list xs / of_nat (length xs))"

definition count_if :: "('a \<Rightarrow> bool) \<Rightarrow> 'a list \<Rightarrow> nat" where
  "count_if P xs = length (filter P xs)"

definition eval_percentile :: "int list \<Rightarrow> nat \<Rightarrow> rat" where
  "eval_percentile values p =
     (if values = [] then 0
      else let ordered = sort values; n = length ordered - 1 in of_int (ordered ! min n (p * n div 100)))"

definition case_failed :: "case_result \<Rightarrow> bool" where
  "case_failed r \<longleftrightarrow> opt_str (cr_error r) \<noteq> []"

definition eval_summary :: "eval_env \<Rightarrow> settings \<Rightarrow> case_result list \<Rightarrow> json dict" where
  "eval_summary env cfg rs =
     (let fl = jfloat (ee_numbers env); nat_of = (\<lambda>n. JInt (int n)); failed = count_if case_failed rs;
          hits = count_if (\<lambda>r. cr_forbidden_hits r \<noteq> []) rs; cited = (\<lambda>r. cr_retrieved_documents r \<noteq> []);
          rate = (\<lambda>P. if rs = [] then 0 else of_nat (count_if P rs) / of_nat (length rs)); latencies = map cr_latency_ms rs;
          recall = fl (average (map cr_evidence_recall rs))
      in [(''total_cases'', nat_of (length rs)), (''passed_cases'', JInt (int (length rs) - int failed)), (''failed_cases'', nat_of failed),
          (''avg_evidence_recall'', recall), (''avg_term_coverage'', fl (average (map cr_term_coverage rs))),
          (''forbidden_hit_count'', nat_of hits), (''avg_latency_ms'', fl (average (map of_int latencies))),
          (''latency_p50_ms'', fl (eval_percentile latencies 50)), (''latency_p95_ms'', fl (eval_percentile latencies 95)),
          (''avg_source_type_hit_rate'', fl (average (map cr_source_type_hit_rate rs))),
          (''wrong_source_type_rate'', fl (rate (\<lambda>r. cr_wrong_source_type_hits r \<noteq> []))),
          (''zero_result_count'', nat_of (count_if (\<lambda>r. \<not> cited r) rs)),
          (''citation_count'', nat_of (sum_list (map (\<lambda>r. length (cr_retrieved_documents r)) rs))), (''citation_rate'', fl (rate cited)),
          (''model_call_count'', JInt 0), (''input_tokens'', JInt 0), (''output_tokens'', JInt 0), (''estimated_cost_usd'', fl 0),
          (''rerank_gain_available'', JBool False), (''rerank_gain_cases'', JInt 0), (''retrieval_backend'', JStr (retrieval_backend cfg)),
          (''embedding_model'', JStr (embedding_model cfg)), (''vector_index_version'', JStr (vector_index_version cfg)),
          (''reranker_model'', if reranker_model cfg = [] then JNull else JStr (reranker_model cfg)),
          (''cases'', nat_of (length rs)), (''avg_recall'', recall), (''forbidden_hit_cases'', nat_of hits),
          (''results'', JList (map (\<lambda>r. JObj (case_result_json (ee_numbers env) r)) rs))])"

definition failed_summary :: "py_exn \<Rightarrow> json dict" where
  "failed_summary e = [(''status'', JStr ''failed''), (''error'', JStr (eval_safe_error e)), (''total_cases'', JInt 0),
     (''passed_cases'', JInt 0), (''failed_cases'', JInt 0)]"

section \<open>The run\<close>

definition new_eval_run :: "time \<Rightarrow> uid \<Rightarrow> uid \<Rightarrow> eval_run" where
  "new_eval_run now pid i = \<lparr>eval_id = i, eval_project_id = pid, eval_status = EvalQueued, eval_summary_json = Some [],
     eval_created_at = now, eval_updated_at = now\<rparr>"

definition create_eval_run :: "time \<Rightarrow> uid \<Rightarrow> uid dbact" where
  "create_eval_run now pid = bind_act (query next_id) (\<lambda>i.
     then_act (change (add_row eval_runs_update (new_eval_run now pid))) (ret i))"

definition set_eval :: "time \<Rightarrow> uid \<Rightarrow> eval_status \<Rightarrow> json dict \<Rightarrow> unit dbact" where
  "set_eval now rid st summary = change (edit_row eval_runs_update eval_id rid
     (\<lambda>r. r\<lparr>eval_status := st, eval_summary_json := Some summary, eval_updated_at := now\<rparr>))"

definition load_eval :: "uid \<Rightarrow> eval_run dbact" where
  "load_eval rid = bind_act (query (\<lambda>d. row_with eval_id rid (eval_runs d))) (\<lambda>r. case r of
      Some run \<Rightarrow> ret run | None \<Rightarrow> raise (OtherError ''InvalidRequestError'' ''Could not refresh instance''))"

definition execute_eval_run :: "eval_env \<Rightarrow> settings \<Rightarrow> uid \<Rightarrow> uid \<Rightarrow> int \<Rightarrow> string option \<Rightarrow> eval_run dbact" where
  "execute_eval_run env cfg rid pid k cases_path =
     then_act (set_eval (ee_now env) rid EvalRunning [(''status'', JStr ''running'')])
       (case load_cases env cases_path (Some cfg) of
          Inl e \<Rightarrow> then_act (set_eval (ee_now env) rid EvalFailed (failed_summary e)) (load_eval rid)
        | Inr cs \<Rightarrow> bind_act (run_cases env cfg rid pid k 0 cs) (\<lambda>rs.
            then_act (set_eval (ee_now env) rid EvalCompleted (eval_summary env cfg rs)) (load_eval rid)))"

definition run_eval_persisted :: "eval_env \<Rightarrow> settings \<Rightarrow> uid \<Rightarrow> int \<Rightarrow> string option \<Rightarrow> eval_run dbact" where
  "run_eval_persisted env cfg pid k cases_path = bind_act (create_eval_run (ee_now env) pid) (\<lambda>rid.
     execute_eval_run env cfg rid pid k cases_path)"

section \<open>A run over HTTP\<close>

text \<open>What the run reads of an answer to \<open>/v1/investigate\<close>; an answer that is no success, or not of its schema, is an exception.\<close>

record remote_report =
  rp_documents :: "(string \<times> string) list"    \<comment> \<open>path and source type of the evidence\<close>
  rp_cause :: string
  rp_fix :: string
  rp_unknowns :: "string list"
  rp_hypotheses :: "string list"

record remote_server =
  rs_investigate :: "remote_report result service"
  rs_login :: "string result service"

definition run_case_http :: "remote_server \<Rightarrow> string \<Rightarrow> string \<Rightarrow> int \<Rightarrow> json \<Rightarrow> (unit, case_result) act" where
  "run_case_http srv url pid k c =
     bind_act (lift_result (case c of
         JObj d \<Rightarrow> (case dict_get d ''question'' of None \<Rightarrow> Inl (KeyError ''question'') | Some q \<Rightarrow> Inr (d, q))
       | _ \<Rightarrow> Inl (TypeError (quoted (type_name c) @ '' object is not subscriptable'')))) (\<lambda>(d, q).
     bind_act (call (rs_investigate srv) (Http ''POST'' (url @ ''/v1/investigate'')
       (JObj [(''project_id'', JStr pid), (''query'', q), (''top_k'', JInt k)]))) (\<lambda>reply.
     bind_act (lift_result reply) (\<lambda>report.
     bind_act (lift_result (evaluate_case_output d (map fst (rp_documents report))
         (answer_payload (rp_cause report) (rp_fix report) (rp_unknowns report) (rp_hypotheses report))
         (map (\<lambda>(_, t). if t \<noteq> [] then t else ''unknown_text'') (rp_documents report)))) (\<lambda>r.
     case dict_get d ''id'' of None \<Rightarrow> raise (KeyError ''id'') | Some i \<Rightarrow> ret (r\<lparr>cr_case_id := i\<rparr>)))))"

fun run_cases_http :: "remote_server \<Rightarrow> string \<Rightarrow> string \<Rightarrow> int \<Rightarrow> json list \<Rightarrow> (unit, case_result list) act" where
  "run_cases_http srv url pid k [] = ret []"
| "run_cases_http srv url pid k (c # cs) =
     bind_act (run_case_http srv url pid k c) (\<lambda>r. bind_act (run_cases_http srv url pid k cs) (\<lambda>rs. ret (r # rs)))"

record http_summary =
  hs_cases :: nat
  hs_avg_recall :: rat
  hs_avg_term_coverage :: rat
  hs_forbidden_hit_cases :: nat
  hs_avg_source_type_hit_rate :: rat
  hs_wrong_source_type_rate :: rat
  hs_latency_p50_ms :: rat
  hs_latency_p95_ms :: rat
  hs_results :: "case_result list"

definition http_summary_of :: "case_result list \<Rightarrow> http_summary" where
  "http_summary_of rs =
     \<lparr>hs_cases = length rs, hs_avg_recall = average (map cr_evidence_recall rs),
      hs_avg_term_coverage = average (map cr_term_coverage rs), hs_forbidden_hit_cases = count_if (\<lambda>r. cr_forbidden_hits r \<noteq> []) rs,
      hs_avg_source_type_hit_rate = average (map cr_source_type_hit_rate rs),
      hs_wrong_source_type_rate = average (map (\<lambda>r. if cr_wrong_source_type_hits r \<noteq> [] then 1 else 0) rs),
      hs_latency_p50_ms = eval_percentile (map cr_latency_ms rs) 50, hs_latency_p95_ms = eval_percentile (map cr_latency_ms rs) 95,
      hs_results = rs\<rparr>"

definition run_eval_http :: "eval_env \<Rightarrow> remote_server \<Rightarrow> string \<Rightarrow> string \<Rightarrow> int \<Rightarrow> string option \<Rightarrow> (unit, http_summary) act" where
  "run_eval_http env srv url pid k cases_path =
     bind_act (lift_result (load_cases env cases_path None)) (\<lambda>cs.
     bind_act (run_cases_http srv url pid k cs) (\<lambda>rs. ret (http_summary_of rs)))"

definition login_if_needed ::
  "remote_server \<Rightarrow> string \<Rightarrow> string option \<Rightarrow> string option \<Rightarrow> string option \<Rightarrow> (unit, string option) act" where
  "login_if_needed srv url token email password =
     (if opt_str token \<noteq> [] then ret token
      else if opt_str email = [] \<or> opt_str password = [] then ret None
      else bind_act (call (rs_login srv) (Http ''POST'' (url @ ''/v1/auth/login'')
             (JObj [(''email'', opt_json email), (''password'', opt_json password)]))) (\<lambda>reply.
           bind_act (lift_result reply) (\<lambda>t. ret (Some t))))"

section \<open>The routes\<close>

record eval_request =
  eq_project_id :: uid
  eq_top_k :: int
  eq_cases_path :: "string option"

record eval_response =
  er_eval_run_id :: uid
  er_project_id :: uid
  er_status :: string
  er_summary :: "json dict"
  er_created_at :: time
  er_updated_at :: time

definition eval_response_of :: "eval_run \<Rightarrow> eval_response" where
  "eval_response_of r = \<lparr>er_eval_run_id = eval_id r, er_project_id = eval_project_id r, er_status = eval_status_value (eval_status r),
     er_summary = or_empty (eval_summary_json r), er_created_at = eval_created_at r, er_updated_at = eval_updated_at r\<rparr>"

definition list_evals :: "user_row \<Rightarrow> eval_response list dbact" where
  "list_evals user = query (\<lambda>d.
     let mine = map mem_project_id (filter (\<lambda>m. mem_user_id m = user_id user) (project_members d)) in
     map eval_response_of (rev (sort_key eval_created_at (filter (\<lambda>r. eval_project_id r \<in> set mine) (eval_runs d)))))"

definition eval_audit :: "request_info \<Rightarrow> user_row \<Rightarrow> uid \<Rightarrow> uid \<Rightarrow> json dict \<Rightarrow> audit_args" where
  "eval_audit request user pid rid metadata =
     audit_defaults\<lparr>aa_project_id := Some pid, aa_user := Some user, aa_resource_type := Some ''eval_run'',
       aa_resource_id := Some (uid_str rid), aa_request := Some request, aa_metadata := metadata\<rparr>"

definition eval_error_code :: "py_exn \<Rightarrow> string" where "eval_error_code e = take 64 (py_lower (exn_class e))"

definition cases_path_of :: "eval_env \<Rightarrow> settings \<Rightarrow> string option \<Rightarrow> string option result" where
  "cases_path_of env cfg cases_path =
     (if opt_str cases_path = [] then Inr None
      else case resolve_cases_path env cases_path (Some cfg) of
          Inr p \<Rightarrow> Inr (Some p)
        | Inl e \<Rightarrow> Inl (case e of ValueError m \<Rightarrow> HTTPException 400 m | PathPolicyError m \<Rightarrow> HTTPException 400 m | _ \<Rightarrow> e))"

definition refuse_eval :: "eval_env \<Rightarrow> request_info \<Rightarrow> user_row \<Rightarrow> uid \<Rightarrow> uid \<Rightarrow> py_exn \<Rightarrow> unit dbact" where
  "refuse_eval env request user pid rid e =
     then_act (set_eval (ee_now env) rid EvalFailed [(''status'', JStr ''failed''), (''error'', JStr (eval_error_code e))])
     (then_act (record_audit_event (ee_now env) ''eval_job_failed'' ''failed''
        (eval_audit request user pid rid [(''error'', JStr (eval_error_code e))]))
     (then_act commit (raise (HTTPException 503 ''Failed to enqueue eval job''))))"

definition eval_job_payload :: "eval_request \<Rightarrow> uid \<Rightarrow> uid \<Rightarrow> string option \<Rightarrow> json dict" where
  "eval_job_payload body rid oid path = [(''eval_run_id'', JStr (uid_str rid)), (''operational_run_id'', JStr (uid_str oid)),
     (''top_k'', JInt (eq_top_k body)), (''cases_path'', opt_json path)]"

definition enqueue_eval ::
  "eval_env \<Rightarrow> settings \<Rightarrow> (json dict \<Rightarrow> unit result) \<Rightarrow> request_info \<Rightarrow> user_row \<Rightarrow> eval_request \<Rightarrow> string option \<Rightarrow> uid \<Rightarrow> uid
    \<Rightarrow> unit dbact" where
  "enqueue_eval env cfg enq request user body path rid oid =
     then_act (record_audit_event (ee_now env) ''eval_job_enqueued'' ''queued''
        (eval_audit request user (eq_project_id body) rid [(''top_k'', JInt (eq_top_k body)),
           (''queue_backend'', JStr (job_queue_backend cfg)), (''operational_run_id'', JStr (uid_str oid))]))
     (then_act commit
       (case enq (eval_job_payload body rid oid path) of
          Inl e \<Rightarrow> refuse_eval env request user (eq_project_id body) rid e
        | Inr _ \<Rightarrow> ret ()))"

definition run_eval_endpoint ::
  "eval_env \<Rightarrow> settings \<Rightarrow> unit result \<Rightarrow> (json dict \<Rightarrow> unit result) \<Rightarrow> request_info \<Rightarrow> user_row \<Rightarrow> eval_request
    \<Rightarrow> eval_response dbact" where
  "run_eval_endpoint env cfg verdict enq request user body =
     (let now = ee_now env; pid = eq_project_id body; k = eq_top_k body;
          created = (\<lambda>rid path. record_audit_event now ''eval_run_created'' ''success''
            (eval_audit request user pid rid [(''top_k'', JInt k), (''cases_path'', opt_json path)])) in
      then_act (guard_act (\<not> (k > max_top_k cfg \<or> k > max_retrieved_chunks cfg))
        (HTTPException 400 ''top_k exceeds configured limit''))
      (then_act (check_rate_limit cfg now verdict (''eval:'' @ uid_str (user_id user)) (user_request_limit cfg) (Some user)
         (Some pid) ''eval_run'')
      (then_act (ensure_project_access cfg now pid (Some user) RoleAdmin)
      (bind_act (lift_result (cases_path_of env cfg (eq_cases_path body))) (\<lambda>path.
       bind_act (if worker_mode cfg = ''queue'' then
           bind_act (create_eval_run now pid) (\<lambda>rid.
           bind_act (create_operational_run (ee_sha env) now pid ''evaluator''
             [(''eval_run_id'', JStr (uid_str rid)), (''top_k'', JInt k)] (Some (''eval:'' @ uid_str rid))) (\<lambda>op.
           then_act (created rid path)
             (then_act (enqueue_eval env cfg enq request user body path rid (oprun_id op)) (load_eval rid))))
         else bind_act (run_eval_persisted env cfg pid k path) (\<lambda>run. then_act (created (eval_id run) path) (ret run))) (\<lambda>run.
       ret (eval_response_of run)))))))"

definition get_eval :: "settings \<Rightarrow> time \<Rightarrow> user_row option \<Rightarrow> uid \<Rightarrow> eval_response dbact" where
  "get_eval cfg now user rid = bind_act (query (\<lambda>d. row_with eval_id rid (eval_runs d))) (\<lambda>found. case found of
      None \<Rightarrow> raise (HTTPException 404 ''Eval run not found'')
    | Some r \<Rightarrow> then_act (ensure_project_access cfg now (eval_project_id r) user RoleViewer) (ret (eval_response_of r)))"

section \<open>The worker's jobs\<close>

definition eval_job_args :: "settings \<Rightarrow> json dict \<Rightarrow> int result" where
  "eval_job_args cfg payload = json_int (json_or (get_or_none payload ''top_k'') (JInt (default_top_k cfg)))"

definition payload_path :: "json dict \<Rightarrow> string option" where
  "payload_path payload = (case get_or_none payload ''cases_path'' of JStr s \<Rightarrow> Some s | _ \<Rightarrow> None)"

definition eval_job_audit :: "eval_run \<Rightarrow> json dict \<Rightarrow> audit_args" where
  "eval_job_audit run metadata = audit_defaults\<lparr>aa_project_id := Some (eval_project_id run), aa_resource_type := Some ''eval_run'',
     aa_resource_id := Some (uid_str (eval_id run)), aa_metadata := metadata\<rparr>"

definition run_eval_job :: "eval_env \<Rightarrow> settings \<Rightarrow> uid \<Rightarrow> int \<Rightarrow> string option \<Rightarrow> unit dbact" where
  "run_eval_job env cfg rid k path = bind_act (query (\<lambda>d. row_with eval_id rid (eval_runs d))) (\<lambda>found. case found of
      None \<Rightarrow> ret ()
    | Some run \<Rightarrow>
        if eval_status run \<in> set [EvalCompleted, EvalFailed] then ret ()
        else then_act (record_audit_event (ee_now env) ''eval_job_started'' ''running'' (eval_job_audit run []))
          (bind_act (execute_eval_run env cfg rid (eval_project_id run) k path) (\<lambda>run'.
           then_act (record_audit_event (ee_now env)
              (if eval_status run' = EvalFailed then ''eval_job_failed'' else ''eval_job_completed'')
              (eval_status_value (eval_status run')) (eval_job_audit run' [(''top_k'', JInt k)]))
             commit)))"

definition execute_eval_run_job :: "eval_env \<Rightarrow> settings \<Rightarrow> json dict \<Rightarrow> db \<Rightarrow> unit result \<times> db" where
  "execute_eval_run_job env cfg payload d =
     (case rbind (payload_uid payload ''eval_run_id'') (\<lambda>rid. rbind (eval_job_args cfg payload) (\<lambda>k. Inr (rid, k))) of
        Inl e \<Rightarrow> (Inl e, d)
      | Inr (rid, k) \<Rightarrow> with_session (run_eval_job env cfg rid k (payload_path payload)) d)"

definition evaluator_summary :: "number_text \<Rightarrow> eval_run \<Rightarrow> json dict result" where
  "evaluator_summary nt ev =
     (let g = get_or_none (or_empty (eval_summary_json ev)) in
      rbind (json_int_or0 (g ''total_cases'')) (\<lambda>total.
      rbind (json_int_or0 (g ''failed_cases'')) (\<lambda>failed.
      rbind (float_or0 nt (json_or (g ''avg_evidence_recall'') (g ''avg_recall''))) (\<lambda>recall.
      rbind (float_or0 nt (g ''wrong_source_type_rate'')) (\<lambda>wrong_rate.
      rbind (float_or0 nt (g ''latency_p95_ms'')) (\<lambda>p95.
        Inr [(''status'', JStr (if eval_status ev \<noteq> EvalFailed then ''completed'' else ''failed'')),
             (''eval_run_id'', JStr (uid_str (eval_id ev))), (''total_cases'', JInt total), (''failed_cases'', JInt failed),
             (''avg_evidence_recall'', jfloat nt recall), (''wrong_source_type_rate'', jfloat nt wrong_rate),
             (''latency_p95_ms'', jfloat nt p95), (''model_judging_used'', JBool False)]))))))"

definition evaluator_event :: "eval_env \<Rightarrow> operational_run \<Rightarrow> string \<Rightarrow> string \<Rightarrow> json dict \<Rightarrow> unit dbact" where
  "evaluator_event env op event_type severity payload =
     record_operational_event (ee_now env) (oprun_project_id op) (Some (oprun_id op)) ''evaluator'' event_type severity payload"

definition finish_evaluator :: "eval_env \<Rightarrow> operational_run \<Rightarrow> eval_run \<Rightarrow> unit dbact" where
  "finish_evaluator env op ev =
     (let good = (eval_status ev \<noteq> EvalFailed); d = or_empty (eval_summary_json ev) in
      bind_act (lift_result (evaluator_summary (ee_numbers env) ev)) (\<lambda>summary.
      then_act (set_run (oprun_id op) (\<lambda>r. r\<lparr>oprun_model_call_count := 0, oprun_input_tokens := 0, oprun_output_tokens := 0,
          oprun_summary_json := Some summary, oprun_status := (if good then OpCompleted else OpFailed),
          oprun_finished_at := Some (ee_now env), oprun_updated_at := ee_now env\<rparr>))
      (then_act (evaluator_event env op (if good then ''evaluator_completed'' else ''evaluator_failed'') (if good then ''info'' else ''high'')
         [(''eval_run_id'', JStr (uid_str (eval_id ev))), (''total_cases'', dict_get_or (JInt 0) d ''total_cases''),
          (''failed_cases'', dict_get_or (JInt 0) d ''failed_cases'')])
       commit)))"

definition run_evaluator_job :: "eval_env \<Rightarrow> settings \<Rightarrow> uid \<Rightarrow> uid \<Rightarrow> int \<Rightarrow> string option \<Rightarrow> unit dbact" where
  "run_evaluator_job env cfg rid oid k path =
     bind_act (query (\<lambda>d. (row_with eval_id rid (eval_runs d), row_with oprun_id oid (operational_runs d)))) (\<lambda>found.
     case found of
       (Some ev, Some op) \<Rightarrow>
         if oprun_run_type op \<noteq> ''evaluator'' \<or> op_status_value (oprun_status op) \<in> set [''completed'', ''failed''] then ret ()
         else then_act (set_run oid (\<lambda>r. r\<lparr>oprun_status := OpRunning, oprun_attempts := oprun_attempts op + 1,
             oprun_started_at := Some (ee_now env), oprun_updated_at := ee_now env\<rparr>))
           (then_act (evaluator_event env op ''evaluator_started'' ''info''
              [(''eval_run_id'', JStr (uid_str rid)), (''top_k'', JInt k), (''attempt'', JInt (oprun_attempts op + 1))])
           (bind_act (execute_eval_run env cfg rid (eval_project_id ev) k path) (finish_evaluator env op)))
     | _ \<Rightarrow> ret ())"

definition execute_evaluator_agent_job :: "eval_env \<Rightarrow> settings \<Rightarrow> json dict \<Rightarrow> db \<Rightarrow> unit result \<times> db" where
  "execute_evaluator_agent_job env cfg payload d =
     (case rbind (payload_uid payload ''eval_run_id'') (\<lambda>rid. rbind (payload_uid payload ''operational_run_id'') (\<lambda>oid.
             rbind (eval_job_args cfg payload) (\<lambda>k. Inr (rid, oid, k)))) of
        Inl e \<Rightarrow> (Inl e, d)
      | Inr (rid, oid, k) \<Rightarrow> with_session (run_evaluator_job env cfg rid oid k (payload_path payload)) d)"

section \<open>What an evaluation promises\<close>

lemma allowed_roots_resolved: "allowed_roots fs items = Inr rs \<Longrightarrow> r \<in> set rs \<Longrightarrow> \<exists>i \<in> set items. fs_resolve fs (py_strip i) = Inr r"
proof (induction items arbitrary: rs)
  case (Cons i items)
  then show ?case by (auto simp: rbind_Inr_iff split: if_splits sum.splits)
qed simp

text \<open>
  C28. A path is accepted only when it resolves, and to a path under a root that is configured and resolves as well; it is a file or
  a directory where one is asked for, and no file above the size limit.\<close>

theorem accepted_path_is_allowed:
  assumes "validate_path_under_allowed_roots fs path roots require_file require_dir max_bytes = Inr p"
  shows "CHR 0x00 \<notin> set path \<and> fs_resolve fs path = Inr p
    \<and> (\<exists>i \<in> set (split_on (CHR '','') roots). \<exists>r. fs_resolve fs (py_strip i) = Inr r \<and> is_relative_to p r)
    \<and> (if require_file then fs_is_file fs p else True) \<and> (if require_dir then fs_is_dir fs p else True)
    \<and> (case max_bytes of None \<Rightarrow> True | Some m \<Rightarrow> if fs_is_file fs p then fs_size fs p \<le> m else True)"
proof -
  from assms have p: "fs_resolve fs path = Inr p"
    by (auto simp: validate_path_under_allowed_roots_def rbind_Inr_iff split: sum.splits)
  from assms obtain rs where rs: "allowed_roots fs (split_on (CHR '','') roots) = Inr rs" and "list_ex (is_relative_to p) rs"
    and rest: "CHR 0x00 \<notin> set path" "\<not> require_file \<or> fs_is_file fs p" "\<not> require_dir \<or> fs_is_dir fs p"
      "case max_bytes of None \<Rightarrow> True | Some m \<Rightarrow> \<not> (fs_is_file fs p \<and> fs_size fs p > m)"
    unfolding validate_path_under_allowed_roots_def p by (auto simp: rbind_Inr_iff)
  then obtain r where "r \<in> set rs" "is_relative_to p r" by (auto simp: list_ex_iff)
  with allowed_roots_resolved [OF rs] have "\<exists>i \<in> set (split_on (CHR '','') roots). \<exists>r. fs_resolve fs (py_strip i) = Inr r \<and> is_relative_to p r"
    by blast
  with rest p show ?thesis by (cases max_bytes) auto
qed

text \<open>Scores.\<close>

lemma found_documents_filter: "found_documents paths es = Inr fs \<Longrightarrow> fs = filter (\<lambda>e. found_in paths e = Inr True) es"
proof (induction es arbitrary: fs)
  case (Cons e es)
  then obtain b rest where "found_in paths e = Inr b" "found_documents paths es = Inr rest" "fs = (if b then e # rest else rest)"
    by (auto simp: rbind_Inr_iff)
  with Cons.IH show ?case by auto
qed simp

lemma share_bounds: "n \<le> m \<Longrightarrow> 0 \<le> share n m \<and> share n m \<le> 1 \<and> (share n m = 1 \<longleftrightarrow> n = m)"
  by (cases "m = 0") (auto simp: share_def divide_simps)

lemma filter_share:
  "share (length (filter P xs)) (length xs) = 1 \<longleftrightarrow> filter (\<lambda>x. x \<notin> set (filter P xs)) xs = []"
proof -
  have "share (length (filter P xs)) (length xs) = 1 \<longleftrightarrow> length (filter P xs) = length xs"
    using share_bounds [of "length (filter P xs)" "length xs"] by simp
  also have "\<dots> \<longleftrightarrow> (\<forall>x \<in> set xs. P x)"
    using length_filter_less [of _ xs P] by (metis filter_True nat_neq_iff)
  also have "\<dots> \<longleftrightarrow> filter (\<lambda>x. x \<notin> set (filter P xs)) xs = []" by (auto simp: filter_empty_conv)
  finally show ?thesis .
qed

text \<open>
  The scores of a case are shares: recall and term coverage lie between zero and one, and one means that nothing is missing.\<close>

theorem case_scores_are_shares:
  assumes "evaluate_case_output d paths answer types = Inr r"
  shows "0 \<le> cr_evidence_recall r \<and> cr_evidence_recall r \<le> 1 \<and> (cr_evidence_recall r = 1 \<longleftrightarrow> cr_missing_documents r = JList [])
    \<and> 0 \<le> cr_term_coverage r \<and> cr_term_coverage r \<le> 1 \<and> (cr_term_coverage r = 1 \<longleftrightarrow> cr_missing_terms r = [])
    \<and> list_all (\<lambda>t. str_contains t (py_lower answer)) (cr_found_terms r @ cr_forbidden_hits r)"
proof -
  from assms obtain terms forbidden docs found et ft where parts: "lowered_terms d ''expected_terms'' = Inr terms"
    "lowered_terms d ''forbidden_terms'' = Inr forbidden" "json_iter (get_list d ''expected_documents'') = Inr docs"
    "found_documents paths docs = Inr found" "json_iter (get_list d ''expected_source_types'') = Inr et"
    "json_iter (get_list d ''forbidden_source_types'') = Inr ft"
    unfolding evaluate_case_output_def rbind_Inr_iff by blast
  note found = parts(4)
  have r: "cr_evidence_recall r = share (length found) (length docs)"
      "cr_missing_documents r = JList (filter (\<lambda>e. e \<notin> set found) docs)"
      "cr_found_terms r = filter (\<lambda>t. str_contains t (py_lower answer)) terms"
      "cr_missing_terms r = filter (\<lambda>t. t \<notin> set (cr_found_terms r)) terms"
      "cr_term_coverage r = share (length (cr_found_terms r)) (length terms)"
      "cr_forbidden_hits r = filter (\<lambda>t. str_contains t (py_lower answer)) forbidden"
    using assms unfolding evaluate_case_output_def Let_def parts rbind_simps sum.inject by (elim subst, simp)+
  have docs: "length found \<le> length docs" "share (length found) (length docs) = 1 \<longleftrightarrow> filter (\<lambda>e. e \<notin> set found) docs = []"
    unfolding found_documents_filter [OF found] by (simp, rule filter_share)
  have terms: "length (cr_found_terms r) \<le> length terms" by (simp add: r(3))
  have "cr_term_coverage r = 1 \<longleftrightarrow> cr_missing_terms r = []" unfolding r(5,4,3) by (rule filter_share)
  moreover have "cr_evidence_recall r = 1 \<longleftrightarrow> cr_missing_documents r = JList []" unfolding r(1,2) docs(2) by simp
  moreover have "0 \<le> cr_evidence_recall r \<and> cr_evidence_recall r \<le> 1" unfolding r(1) using share_bounds [OF docs(1)] by blast
  moreover have "0 \<le> cr_term_coverage r \<and> cr_term_coverage r \<le> 1" unfolding r(5) using share_bounds [OF terms] by blast
  moreover have "list_all (\<lambda>t. str_contains t (py_lower answer)) (cr_found_terms r @ cr_forbidden_hits r)"
    by (auto simp: r(3,6) list_all_iff)
  ultimately show ?thesis by blast
qed

text \<open>A case the handler can report: an object whose expected terms can be listed.\<close>

definition reportable :: "json \<Rightarrow> bool" where
  "reportable c \<longleftrightarrow> (case c of JObj d \<Rightarrow> (case json_iter (get_list d ''expected_terms'') of Inr _ \<Rightarrow> True | Inl _ \<Rightarrow> False) | _ \<Rightarrow> False)"

lemma reads_only_investigate [intro]: "reads_only (investigate senv renv cfg pid q k model)"
  unfolding investigate_def Let_def
  by (intro reads_only_bind reads_only_search reads_only_if reads_only_rerank reads_only_pair reads_only_simple)

lemma reads_only_run_case: "reads_only (run_case env cfg pid k i c)"
  unfolding run_case_def investigate_case_def
  by (intro reads_only_try reads_only_bind)
    (auto split: json.split option.split intro!: reads_only_bind reads_only_investigate reads_only_simple)

lemma run_case_returns:
  assumes "reportable c"
  shows "\<exists>r t. run_case env cfg pid k i c s = (Inr r, t) \<and> work t = work s \<and> committed t = committed s"
proof -
  obtain r t where run: "run_case env cfg pid k i c s = (r, t)" by (cases "run_case env cfg pid k i c s")
  have "\<exists>x. failed_case env i c e = Inr x" for e
    using assms by (auto simp: reportable_def failed_case_def as_dict_def split: json.splits sum.splits)
  then have "\<exists>x. r = Inr x"
    using run by (auto simp: run_case_def try_act_def lift_result_def split: prod.splits sum.splits)
  with run reads_onlyD [OF reads_only_run_case run] show ?thesis by blast
qed

definition case_rows_of :: "eval_env \<Rightarrow> uid \<Rightarrow> case_result list \<Rightarrow> eval_case_row list \<Rightarrow> bool" where
  "case_rows_of env rid rs rows \<longleftrightarrow> list_all (\<lambda>r. evcase_eval_run_id r = rid) rows
     \<and> map evcase_result_json rows = map (\<lambda>r. Some (case_result_json (ee_numbers env) r)) rs"

lemma run_cases_run:
  "list_all reportable cs \<Longrightarrow> \<exists>rs rows t. run_cases env cfg rid pid k i cs s = (Inr rs, t) \<and> length rs = length cs
     \<and> committed t = committed s \<and> case_rows_of env rid rs rows
     \<and> work t = (work s)\<lparr>next_id := next_id (work s) + length cs, eval_run_cases := eval_run_cases (work s) @ rows\<rparr>"
proof (induction cs arbitrary: i s)
  case Nil
  have "(work s)\<lparr>next_id := next_id (work s) + length [], eval_run_cases := eval_run_cases (work s) @ []\<rparr> = work s" by simp
  then show ?case unfolding run_cases.simps ret_def case_rows_of_def
    by (intro exI [of _ "[]"] exI [of _ s]) simp
next
  case (Cons c cs)
  from Cons.prems have "reportable c" by simp
  from run_case_returns [OF this] obtain r t where r: "run_case env cfg pid k i c s = (Inr r, t)" "work t = work s" "committed t = committed s"
    by blast
  from \<open>reportable c\<close> obtain d where d: "as_dict c = Inr d" by (auto simp: reportable_def as_dict_def split: json.splits)
  let ?row = "new_case_row env rid (i + 1) d r (next_id (work s))"
  let ?u = "t\<lparr>work := add_row eval_run_cases_update (new_case_row env rid (i + 1) d r) (work t)\<rparr>"
  from Cons.IH [of "i + 1" ?u] Cons.prems obtain rs rows v where v: "run_cases env cfg rid pid k (i + 1) cs ?u = (Inr rs, v)"
    "length rs = length cs" "committed v = committed ?u" "case_rows_of env rid rs rows"
    "work v = (work ?u)\<lparr>next_id := next_id (work ?u) + length cs, eval_run_cases := eval_run_cases (work ?u) @ rows\<rparr>" by auto
  have "run_cases env cfg rid pid k i (c # cs) s = (Inr (r # rs), v)"
    using v(1) by (simp add: bind_act_def then_act_def lift_result_def change_def ret_def r(1) d)
  moreover have "case_rows_of env rid (r # rs) (?row # rows)" using v(4) by (simp add: case_rows_of_def new_case_row_def)
  moreover have "work v = (work s)\<lparr>next_id := next_id (work s) + length (c # cs), eval_run_cases := eval_run_cases (work s) @ (?row # rows)\<rparr>"
    unfolding v(5) by (rule db.equality) (simp_all add: add_row_def r(2))
  moreover have "committed v = committed s" using v(3) r(3) by simp
  ultimately show ?case using v(2) by fastforce
qed

lemma set_eval_run: "set_eval now rid st summary s = (Inr (), s\<lparr>work := edit_row eval_runs_update eval_id rid
   (\<lambda>r. r\<lparr>eval_status := st, eval_summary_json := Some summary, eval_updated_at := now\<rparr>) (work s)\<rparr>)"
  by (simp add: set_eval_def change_def)

lemma eval_find_edited: "(\<And>r. key (f r) = key r) \<Longrightarrow> find (\<lambda>r. key r = k) (map (\<lambda>r. if key r = k then f r else r) rs) = map_option f (find (\<lambda>r. key r = k) rs)"
  by (induction rs) auto

lemma load_edited_eval:
  assumes "row_with eval_id rid (eval_runs (work s)) = Some run"
  shows "load_eval rid (s\<lparr>work := edit_row eval_runs_update eval_id rid
      (\<lambda>r. r\<lparr>eval_status := st, eval_summary_json := Some summary, eval_updated_at := now\<rparr>) (work s)\<rparr>)
    = (Inr (run\<lparr>eval_status := st, eval_summary_json := Some summary, eval_updated_at := now\<rparr>),
       s\<lparr>work := edit_row eval_runs_update eval_id rid
      (\<lambda>r. r\<lparr>eval_status := st, eval_summary_json := Some summary, eval_updated_at := now\<rparr>) (work s)\<rparr>)"
  using assms by (simp add: load_eval_def bind_act_def query_def ret_def row_with_def edit_row_def edit_rows_def eval_find_edited)

definition summary_adds_up :: "nat \<Rightarrow> json dict \<Rightarrow> bool" where
  "summary_adds_up n summary \<longleftrightarrow> (case (dict_get summary ''total_cases'', dict_get summary ''passed_cases'', dict_get summary ''failed_cases'') of
      (Some (JInt whole), Some (JInt passed), Some (JInt failed)) \<Rightarrow> whole = int n \<and> passed + failed = whole \<and> 0 \<le> passed \<and> 0 \<le> failed
    | _ \<Rightarrow> False)"

lemma summary_adds_up_eval: "summary_adds_up (length rs) (eval_summary env cfg rs)"
  using length_filter_le [of case_failed rs]
  by (simp add: summary_adds_up_def eval_summary_def Let_def count_if_def)


text \<open>What the handler does not catch: a case that is no object, and a failure without a message.\<close>

lemma malformed_case_aborts:
  "load_cases env cases_path (Some cfg) = Inr [JList []] \<Longrightarrow>
   fst (execute_eval_run env cfg rid pid k cases_path s) = Inl (no_attribute (JList []) ''get'')"
  by (simp add: execute_eval_run_def then_act_def bind_act_def set_eval_run run_case_def investigate_case_def try_act_def raise_def
    lift_result_def failed_case_def as_dict_def)

lemma silent_failure_passes: "\<not> case_failed (r\<lparr>cr_error := Some (eval_safe_error TimeoutError)\<rparr>)"
  by (simp add: case_failed_def eval_safe_error_def exn_text_def opt_str_def replace_char_def)

section \<open>Witnesses\<close>

definition sample_files :: file_system where
  "sample_files = \<lparr>fs_resolve = (\<lambda>p. if p = ''/none'' then Inl FileNotFoundError else Inr p), fs_is_file = (\<lambda>_. True),
     fs_is_dir = (\<lambda>_. False), fs_size = (\<lambda>_. 10), fs_read = (\<lambda>_. Inr ''case'')\<rparr>"

definition sample_case_dict :: "json dict" where
  "sample_case_dict = [(''question'', JStr ''why''), (''expected_terms'', JList [JStr ''Pool''])]"

definition sample_eval_env :: eval_env where
  "sample_eval_env = \<lparr>ee_search = sample_search_env, ee_rerank = sample_rerank_env, ee_files = sample_files,
     ee_json = (\<lambda>_. Inr (JObj sample_case_dict)), ee_default_cases = ''/golden'', ee_latency_ms = (\<lambda>_. 5),
     ee_numbers = \<lparr>of_text = \<lambda>_. None, to_text = \<lambda>_. []\<rparr>, ee_now = 7, ee_sha = id\<rparr>"

definition sample_eval_db :: db where
  "sample_eval_db = empty_db\<lparr>next_id := 2, eval_runs := [new_eval_run 5 9 1]\<rparr>"

lemma accepted_path_is_allowed_witness:
  "is_relative_to ''/data/x.jsonl'' ''/data''"
proof -
  have "validate_path_under_allowed_roots sample_files ''/data/x.jsonl'' ''/none,/data'' True False (Some 20) = Inr ''/data/x.jsonl''"
    by code_simp
  moreover have "py_strip ''/data'' = ''/data''" "py_strip ''/none'' = ''/none''" by code_simp+
  ultimately show ?thesis using accepted_path_is_allowed [of sample_files "''/data/x.jsonl''" "''/none,/data''" True False "Some 20" "''/data/x.jsonl''"]
    by (auto simp: sample_files_def split: if_splits)
qed

lemma case_scores_are_shares_witness:
  "cr_term_coverage (the (case evaluate_case_output sample_case_dict [] ''pool'' [] of Inr r \<Rightarrow> Some r | Inl _ \<Rightarrow> None)) \<le> 1"
proof -
  have "\<exists>r. evaluate_case_output sample_case_dict [] ''pool'' [] = Inr r"
    by (simp add: evaluate_case_output_def sample_case_dict_def lowered_terms_def get_list_def dict_get_or_def json_iter_def lower_of_def Let_def)
  then obtain r where r: "evaluate_case_output sample_case_dict [] ''pool'' [] = Inr r" by blast
  from case_scores_are_shares [OF r] r show ?thesis by simp
qed


end
