(* ===== verification/Readiness.thy ===== *)
theory Readiness
  imports Operations Intent
begin

text \<open>
  How ready a project is for investigations: \<open>readiness/service.py\<close> and \<open>apps/api/routes/readiness.py\<close>. The times at which the
  report is generated are the current time, an argument.
\<close>

section \<open>The snapshot\<close>

definition readiness_source_types :: "string list" where
  "readiness_source_types = [''code'', ''logs'', ''runbook'', ''deploy'', ''incident'', ''api_doc'', ''config'', ''unknown_text'']"

definition success_statuses :: "string list" where "success_statuses = [''success'', ''partial_success'']"
definition failed_statuses :: "string list" where "failed_statuses = [''failed'', ''cancelled'']"

record latest_sync_snapshot =
  ls_sync_id :: string
  ls_status :: string
  ls_started_at :: time
  ls_finished_at :: "time option"
  ls_documents_received :: int
  ls_chunks_created :: int
  ls_skipped_unchanged :: int
  ls_parser_errors :: int
  ls_duration :: "time option"

record readiness_snapshot =
  sn_project_id :: uid
  sn_source_count :: nat
  sn_collector_count :: nat
  sn_document_count :: nat
  sn_chunk_count :: nat
  sn_successful_syncs :: nat
  sn_failed_syncs :: nat
  sn_source_type_counts :: "int dict"
  sn_chunk_type_counts :: "int dict"
  sn_latest_sync :: "latest_sync_snapshot option"
  sn_coverage_hints :: "json dict"

definition sync_snapshot_of :: "sync_row \<Rightarrow> latest_sync_snapshot result" where
  "sync_snapshot_of y =
     rbind (get_int_or0 (or_empty (sync_diagnostics_json y)) ''skipped_unchanged'') (\<lambda>skipped.
       Inr \<lparr>ls_sync_id = uid_str (sync_id y), ls_status = sync_status y, ls_started_at = sync_started_at y,
            ls_finished_at = sync_finished_at y, ls_documents_received = sync_documents_received y,
            ls_chunks_created = sync_chunks_created y, ls_skipped_unchanged = skipped, ls_parser_errors = sync_parser_errors y,
            ls_duration = map_option (\<lambda>f. max (f - sync_started_at y) 0) (sync_finished_at y)\<rparr>)"

definition count_key :: "string option \<Rightarrow> string" where    \<comment> \<open>\<open>str(key or "unknown_text").lower()\<close>\<close>
  "count_key k = py_lower (if opt_str k = [] then ''unknown_text'' else opt_str k)"

definition group_counts :: "string option list \<Rightarrow> int dict" where
  "group_counts ks = tally (map count_key ks)"

definition document_type :: "document_row \<Rightarrow> string option" where    \<comment> \<open>\<open>coalesce(source_type, doc_type)\<close>\<close>
  "document_type r = (case doc_source_type r of None \<Rightarrow> Some (doc_doc_type r) | Some t \<Rightarrow> Some t)"

definition load_readiness_snapshot :: "uid \<Rightarrow> readiness_snapshot dbact" where
  "load_readiness_snapshot pid =
     bind_act (query (\<lambda>d. d)) (\<lambda>d.
       let syncs = filter (\<lambda>y. sync_project_id y = pid) (source_syncs d); docs = filter (\<lambda>r. doc_project_id r = pid) (documents d);
           cs = filter (\<lambda>c. chunk_project_id c = pid) (chunks d); newest = latest sync_started_at 1 syncs in
       bind_act (lift_result (case newest of [] \<Rightarrow> Inr None | y # _ \<Rightarrow> rbind (sync_snapshot_of y) (\<lambda>l. Inr (Some l)))) (\<lambda>l.
       ret \<lparr>sn_project_id = pid, sn_source_count = length (filter (\<lambda>r. src_project_id r = pid) (sources d)),
            sn_collector_count = length (filter (\<lambda>r. coll_project_id r = pid) (collectors d)),
            sn_document_count = length docs, sn_chunk_count = length cs,
            sn_successful_syncs = length (filter (\<lambda>y. sync_status y \<in> set success_statuses) syncs),
            sn_failed_syncs = length (filter (\<lambda>y. sync_status y \<in> set failed_statuses) syncs),
            sn_source_type_counts = group_counts (map document_type docs),
            sn_chunk_type_counts = group_counts (map (\<lambda>c. Some (chunk_chunk_type c)) cs), sn_latest_sync = l,
            sn_coverage_hints = (case newest of [] \<Rightarrow> [] | y # _ \<Rightarrow> or_empty (sync_coverage_json y))\<rparr>))"

section \<open>Coverage and score\<close>

record readiness_coverage =
  rd_code :: bool
  rd_docs :: bool
  rd_logs :: bool
  rd_deploys :: bool
  rd_runbooks :: bool
  rd_incidents :: bool
  rd_api_docs :: bool
  rd_configs :: bool

definition normal_type :: "string \<Rightarrow> string" where
  "normal_type k =
     (let k1 = count_key (Some k);
          k2 = (if k1 \<in> set [''deploy_history'', ''patch''] then ''deploy'' else k1);
          k3 = (if k2 \<in> set [''incidents'', ''incident_report''] then ''incident'' else k2);
          k4 = (if k3 \<in> set [''runbooks'', ''runbook''] then ''runbook'' else k3)
      in if k4 \<in> set [''logs_folder'', ''log''] then ''logs'' else k4)"

definition normalized_counts :: "int dict \<Rightarrow> int dict" where
  "normalized_counts counts = fold (\<lambda>(k, n). dict_incr (normal_type k) n) counts []"

definition readiness_coverage_of :: "int dict \<Rightarrow> int dict \<Rightarrow> json dict \<Rightarrow> readiness_coverage" where
  "readiness_coverage_of st ct hints =
     (let hint = (\<lambda>k. truthy (get_or_none hints k)); n = dict_get_or 0 st;
          has_markdown = list_ex (\<lambda>(k, _). str_contains ''markdown'' k) ct;
          has_text_docs = (n ''unknown_text'' \<noteq> 0 \<or> n ''runbook'' \<noteq> 0)
      in \<lparr>rd_code = (hint ''has_code'' \<or> n ''code'' > 0), rd_docs = (hint ''has_docs'' \<or> has_markdown \<or> has_text_docs),
          rd_logs = (hint ''has_logs'' \<or> n ''logs'' > 0), rd_deploys = (hint ''has_deploys'' \<or> n ''deploy'' > 0),
          rd_runbooks = (hint ''has_runbooks'' \<or> n ''runbook'' > 0), rd_incidents = (hint ''has_incidents'' \<or> n ''incident'' > 0),
          rd_api_docs = (hint ''has_api_docs'' \<or> n ''api_doc'' > 0), rd_configs = (hint ''has_configs'' \<or> n ''config'' > 0)\<rparr>)"

definition points :: "int \<Rightarrow> bool \<Rightarrow> int" where "points n b = (if b then n else 0)"

definition evidence_points :: "readiness_coverage \<Rightarrow> int" where
  "evidence_points c = points 15 (rd_code c) + points 10 (rd_docs c) + points 10 (rd_configs c) + points 20 (rd_logs c)
     + points 15 (rd_deploys c) + points 15 (rd_runbooks c) + points 10 (rd_incidents c) + points 5 (rd_api_docs c)"

definition only_code_and_docs :: "readiness_coverage \<Rightarrow> bool" where
  "only_code_and_docs c \<longleftrightarrow> rd_code c \<and> rd_docs c \<and> \<not> (rd_logs c \<or> rd_deploys c \<or> rd_runbooks c \<or> rd_incidents c)"

definition advise :: "bool \<Rightarrow> string \<Rightarrow> string list" where "advise b s = (if b then [s] else [])"

definition latest_failed :: "readiness_snapshot \<Rightarrow> bool" where
  "latest_failed sn \<longleftrightarrow> (case sn_latest_sync sn of None \<Rightarrow> False | Some l \<Rightarrow> ls_status l \<in> set failed_statuses)"

definition latest_parser_errors :: "readiness_snapshot \<Rightarrow> int" where
  "latest_parser_errors sn = (case sn_latest_sync sn of None \<Rightarrow> 0 | Some l \<Rightarrow> ls_parser_errors l)"

definition readiness_score :: "readiness_snapshot \<Rightarrow> readiness_coverage \<Rightarrow> int \<times> string list" where
  "readiness_score sn c =
     (if sn_document_count sn = 0 then (0, [''No documents have been indexed.''])
      else let errors = latest_parser_errors sn;
          s1 = evidence_points c - points 30 (sn_successful_syncs sn = 0) - points 20 (latest_failed sn);
          s2 = s1 - (if errors \<noteq> 0 then min 15 (max 3 (errors * 2)) else 0);
          s3 = (if sn_chunk_count sn = 0 then min s2 20 else s2);
          s4 = (if only_code_and_docs c then min s3 55 else s3)
        in (max 0 (min 100 s4),
            advise (sn_successful_syncs sn = 0) ''No successful sync has completed.'' @ advise (latest_failed sn) ''Latest sync failed.''
            @ advise (errors \<noteq> 0) (''Latest sync reported '' @ str_of_int errors @ '' parser error(s).'')
            @ advise (sn_chunk_count sn = 0) ''No chunks are available for retrieval.''
            @ advise (only_code_and_docs c) ''Only code/docs evidence is present; runtime incident investigation will be weak.''))"

definition readiness_grade :: "int \<Rightarrow> string" where
  "readiness_grade score = (if score \<ge> 85 then ''excellent'' else if score \<ge> 70 then ''good'' else if score \<ge> 50 then ''partial''
     else if score \<ge> 25 then ''weak'' else ''empty'')"

section \<open>The lists of the report\<close>

definition missing_evidence :: "readiness_coverage \<Rightarrow> string list" where
  "missing_evidence c =
     advise (\<not> rd_logs c) ''Timestamped application logs are missing.''
     @ advise (\<not> rd_deploys c) ''Deploy history or code diffs are missing.''
     @ advise (\<not> rd_runbooks c) ''Runbooks or remediation docs are missing.''
     @ advise (\<not> rd_incidents c) ''Previous incident reports or postmortems are missing.''
     @ advise (\<not> rd_api_docs c) ''API/OpenAPI docs are missing; endpoint investigation may rely on code only.''
     @ advise (\<not> rd_code c) ''Source code evidence is missing.''"

definition answerable_questions :: "readiness_coverage \<Rightarrow> string list" where
  "answerable_questions c =
     (if rd_code c \<or> rd_docs c \<or> rd_configs c then
        [''Where is a feature, endpoint, or behavior implemented?'', ''Which files define API, configuration, or service behavior?'',
         ''Where are service or module boundaries visible in the repo?''] else [])
     @ advise (rd_logs c) ''What errors, timeouts, or latency symptoms appear in the logs?''
     @ advise (rd_deploys c) ''What deploys, releases, or diffs are available around a change?''
     @ advise (rd_runbooks c) ''What remediation or rollback steps are already documented?''
     @ advise (rd_incidents c) ''Have similar incidents or postmortems been indexed?''
     @ advise (rd_api_docs c) ''Which endpoints are documented?''"

definition weak_questions :: "readiness_coverage \<Rightarrow> string list" where
  "weak_questions c =
     (if \<not> rd_logs c then [''Why did latency spike at runtime?'', ''What errors happened during the outage?''] else [])
     @ (if \<not> rd_deploys c then [''Was this caused by the last deploy?'', ''What changed immediately before the incident?''] else [])
     @ advise (\<not> rd_incidents c) ''Has this happened before?''
     @ advise (\<not> rd_runbooks c) ''What rollback or fix does the team already recommend?''"

definition observability_gaps :: "readiness_coverage \<Rightarrow> string list" where
  "observability_gaps c =
     advise (\<not> rd_logs c) ''No timestamped logs found; runtime symptoms cannot be grounded.''
     @ advise (\<not> rd_deploys c) ''No deploy history found; deploy-regression analysis will be weak.''
     @ advise (rd_logs c \<and> \<not> rd_deploys c) ''Logs exist but deploy context is missing.''
     @ advise (\<not> rd_incidents c) ''No previous incident reports found; similarity lookup is unavailable.''"

definition suggested_actions :: "readiness_coverage \<Rightarrow> readiness_snapshot \<Rightarrow> string list" where
  "suggested_actions c sn =
     advise (sn_source_count sn = 0) ''Register a source and run Collector sync.''
     @ advise (\<not> rd_logs c) ''Add timestamped application logs with service names, request IDs, and error levels.''
     @ advise (\<not> rd_deploys c) ''Add deploy history, release notes, or patch/diff exports.''
     @ advise (\<not> rd_runbooks c) ''Add runbooks for critical services and common rollback procedures.''
     @ advise (\<not> rd_incidents c) ''Add previous incident reports or postmortems.''
     @ advise (\<not> rd_api_docs c) ''Add OpenAPI/API docs if endpoint-level investigation matters.''
     @ advise (\<not> rd_code c) ''Add backend source code or service ownership docs.''"

definition suggested_questions :: "readiness_coverage \<Rightarrow> string list" where
  "suggested_questions c =
     (if rd_code c then [''Where is the application configured?'', ''Which files define database configuration?'',
        ''Which modules or services appear most important?''] else [])
     @ advise (rd_configs c) ''Which configuration files mention deployment, Docker, or database settings?''
     @ advise (rd_logs c) ''What timeout, error, or latency symptoms appear in the logs?''
     @ advise (rd_deploys c) ''What changed in the latest deploy history or diff?''
     @ advise (rd_runbooks c) ''Which runbooks mention rollback or restart steps?''
     @ advise (\<not> rd_logs c \<or> \<not> rd_deploys c) ''What evidence is missing for deploy-regression or latency investigation?''"

definition readiness_warnings :: "readiness_snapshot \<Rightarrow> readiness_coverage \<Rightarrow> string list \<Rightarrow> string list" where
  "readiness_warnings sn c score_notes = dedupe (score_notes
     @ advise (case sn_latest_sync sn of None \<Rightarrow> False | Some l \<Rightarrow> ls_status l = ''partial_success'')
         ''Latest sync completed with partial success; inspect parser errors and skipped documents.''
     @ advise (latest_failed sn) ''Latest sync failed; readiness may be stale.''
     @ advise (\<not> rd_logs c) ''Latency and outage investigations will be weak without logs.''
     @ advise (\<not> rd_deploys c) ''Deploy-regression investigations will be weak without deploy history.''
     @ advise (\<not> rd_incidents c) ''Previous-incident lookup is unavailable without incident reports.'')"

definition found_labels :: "readiness_coverage \<Rightarrow> string list" where
  "found_labels c = map fst (filter snd [(''code'', rd_code c), (''docs'', rd_docs c), (''configs'', rd_configs c), (''logs'', rd_logs c),
     (''deploy history'', rd_deploys c), (''runbooks'', rd_runbooks c), (''incidents'', rd_incidents c), (''API docs'', rd_api_docs c)])"

definition readiness_summary :: "int \<Rightarrow> readiness_coverage \<Rightarrow> readiness_snapshot \<Rightarrow> string" where
  "readiness_summary score c sn =
     (let found = join_with '', '' (found_labels c); shown = (if found = [] then ''limited evidence'' else found) in
      if sn_document_count sn = 0 then ''No indexed evidence is available yet. Run Collector sync before asking incident questions.''
      else if score \<ge> 70 then ''Evidence coverage is strong across '' @ found @ ''.''
      else case missing_evidence c of
          m # _ \<Rightarrow> ''Found '' @ shown @ '', but '' @ m
        | [] \<Rightarrow> ''Found '' @ shown @ ''.'')"

section \<open>The report\<close>

record readiness_report =
  rdr_project_id :: string
  rdr_score :: int
  rdr_grade :: string
  rdr_summary :: string
  rdr_source_count :: nat
  rdr_collector_count :: nat
  rdr_latest_sync :: "latest_sync_snapshot option"    \<comment> \<open>\<open>None\<close>: every field of it is null or zero\<close>
  rdr_coverage :: readiness_coverage
  rdr_documents :: nat
  rdr_chunks :: nat
  rdr_successful_syncs :: nat
  rdr_failed_syncs :: nat
  rdr_source_type_counts :: "int dict"
  rdr_answerable_questions :: "string list"
  rdr_weak_questions :: "string list"
  rdr_missing_evidence :: "string list"
  rdr_observability_gaps :: "string list"
  rdr_suggested_actions :: "string list"
  rdr_suggested_questions :: "string list"
  rdr_warnings :: "string list"
  rdr_generated_at :: time

definition build_readiness_report :: "time \<Rightarrow> readiness_snapshot \<Rightarrow> readiness_report" where
  "build_readiness_report now sn =
     (let st = normalized_counts (sn_source_type_counts sn); ct = normalized_counts (sn_chunk_type_counts sn);
          c = readiness_coverage_of st ct (sn_coverage_hints sn); (score, notes) = readiness_score sn c
      in \<lparr>rdr_project_id = uid_str (sn_project_id sn), rdr_score = score, rdr_grade = readiness_grade score,
          rdr_summary = readiness_summary score c sn, rdr_source_count = sn_source_count sn, rdr_collector_count = sn_collector_count sn,
          rdr_latest_sync = sn_latest_sync sn, rdr_coverage = c, rdr_documents = sn_document_count sn, rdr_chunks = sn_chunk_count sn,
          rdr_successful_syncs = sn_successful_syncs sn, rdr_failed_syncs = sn_failed_syncs sn,
          rdr_source_type_counts = map (\<lambda>k. (k, dict_get_or 0 st k)) readiness_source_types,
          rdr_answerable_questions = answerable_questions c, rdr_weak_questions = weak_questions c,
          rdr_missing_evidence = missing_evidence c, rdr_observability_gaps = observability_gaps c,
          rdr_suggested_actions = suggested_actions c sn, rdr_suggested_questions = suggested_questions c,
          rdr_warnings = readiness_warnings sn c notes, rdr_generated_at = now\<rparr>)"

definition build_project_readiness :: "time \<Rightarrow> uid \<Rightarrow> readiness_report dbact" where
  "build_project_readiness now pid = bind_act (load_readiness_snapshot pid) (\<lambda>sn. ret (build_readiness_report now sn))"

definition get_project_readiness :: "settings \<Rightarrow> time \<Rightarrow> user_row option \<Rightarrow> uid \<Rightarrow> readiness_report dbact" where
  "get_project_readiness cfg now user pid =
     then_act (ensure_project_access cfg now pid user RoleViewer) (build_project_readiness now pid)"

section \<open>What the score says\<close>

definition covers_at_least :: "readiness_coverage \<Rightarrow> readiness_coverage \<Rightarrow> bool" where
  "covers_at_least c c' \<longleftrightarrow> rd_code c \<le> rd_code c' \<and> rd_docs c \<le> rd_docs c' \<and> rd_logs c \<le> rd_logs c' \<and> rd_deploys c \<le> rd_deploys c'
     \<and> rd_runbooks c \<le> rd_runbooks c' \<and> rd_incidents c \<le> rd_incidents c' \<and> rd_api_docs c \<le> rd_api_docs c' \<and> rd_configs c \<le> rd_configs c'"

lemma points_bounds: "0 \<le> n \<Longrightarrow> 0 \<le> points n b \<and> points n b \<le> n"
  by (simp add: points_def)

lemma points_mono: "0 \<le> n \<Longrightarrow> b \<le> b' \<Longrightarrow> points n b \<le> points n b'"
  by (auto simp: points_def)

lemma evidence_points_mono: "covers_at_least c c' \<Longrightarrow> evidence_points c \<le> evidence_points c'"
  unfolding covers_at_least_def evidence_points_def by (intro add_mono points_mono) auto

text \<open>The cap of 55 for code and documents alone never applies: they are worth 40 points at most.\<close>

lemma cap_never_applies: "only_code_and_docs c \<Longrightarrow> evidence_points c \<le> 40"
  by (auto simp: only_code_and_docs_def evidence_points_def points_def)

lemma clamp_twice:
  fixes s :: int
  shows "(b \<Longrightarrow> s \<le> 55) \<Longrightarrow> max 0 (min 100 (if b then min (if z then min s 20 else s) 55 else (if z then min s 20 else s)))
    = max 0 (min (if z then 20 else 100) s)"
  by (cases b; cases z) (simp_all add: min_def max_def)

lemma score_as_clamp:
  "sn_document_count sn \<noteq> 0 \<Longrightarrow> fst (readiness_score sn c) =
     (let s = evidence_points c - points 30 (sn_successful_syncs sn = 0) - points 20 (latest_failed sn)
            - (if latest_parser_errors sn \<noteq> 0 then min 15 (max 3 (latest_parser_errors sn * 2)) else 0)
      in max 0 (min (if sn_chunk_count sn = 0 then 20 else 100) s))"
proof -
  assume docs: "sn_document_count sn \<noteq> 0"
  define m where "m = (if latest_parser_errors sn \<noteq> 0 then min 15 (max 3 (latest_parser_errors sn * 2)) else 0)"
  define s where "s = evidence_points c - points 30 (sn_successful_syncs sn = 0) - points 20 (latest_failed sn) - m"
  have "0 \<le> m" by (auto simp: m_def le_max_iff_disj)
  with points_bounds [of 30 "sn_successful_syncs sn = 0"] points_bounds [of 20 "latest_failed sn"]
  have "s \<le> evidence_points c" by (simp add: s_def)
  with cap_never_applies have cap: "only_code_and_docs c \<Longrightarrow> s \<le> 55" by fastforce
  have "fst (readiness_score sn c) = max 0 (min 100 (if only_code_and_docs c
      then min (if sn_chunk_count sn = 0 then min s 20 else s) 55 else (if sn_chunk_count sn = 0 then min s 20 else s)))"
    unfolding readiness_score_def Let_def s_def m_def by (simp only: if_not_P [OF docs] fst_conv)
  also have "\<dots> = max 0 (min (if sn_chunk_count sn = 0 then 20 else 100) s)" by (rule clamp_twice) (rule cap)
  finally show ?thesis unfolding Let_def s_def m_def .
qed

lemma excellent_evidence:
  assumes "85 \<le> evidence_points c"
  shows "rd_logs c \<and> 3 \<le> length (filter id [rd_code c, rd_deploys c, rd_runbooks c, rd_logs c])"
proof -
  obtain a b d e where others: "a = points 10 (rd_docs c)" "b = points 10 (rd_configs c)" "d = points 10 (rd_incidents c)"
    "e = points 5 (rd_api_docs c)" by blast
  then have "a \<le> 10" "b \<le> 10" "d \<le> 10" "e \<le> 5" using points_bounds by simp_all
  moreover have "85 \<le> points 15 (rd_code c) + a + b + points 20 (rd_logs c) + points 15 (rd_deploys c) + points 15 (rd_runbooks c) + d + e"
    using assms by (simp add: evidence_points_def others)
  ultimately show ?thesis
    by (cases "rd_logs c"; cases "rd_code c"; cases "rd_deploys c"; cases "rd_runbooks c") (simp_all add: points_def)
qed

text \<open>
  C29. The readiness score lies between 0 and 100 and at most 20 without chunks, it is 0 without documents, more evidence never
  lowers it, and the report is graded excellent only when it misses at most one of code, logs, deploys and runbooks and a sync
  has succeeded.\<close>

theorem readiness_score_is_monotone:
  "0 \<le> fst (readiness_score sn c) \<and> fst (readiness_score sn c) \<le> 100
   \<and> (if sn_document_count sn = 0 then fst (readiness_score sn c) = 0 else True)
   \<and> (if sn_chunk_count sn = 0 then fst (readiness_score sn c) \<le> 20 else True)
   \<and> (if covers_at_least c c' then fst (readiness_score sn c) \<le> fst (readiness_score sn c') else True)
   \<and> (if readiness_grade (fst (readiness_score sn c)) = ''excellent''
      then 0 < sn_successful_syncs sn \<and> \<not> latest_failed sn \<and> rd_logs c \<and> 3 \<le> length (filter id [rd_code c, rd_deploys c, rd_runbooks c, rd_logs c])
      else True)"
proof -
  define m where "m = (if latest_parser_errors sn \<noteq> 0 then min 15 (max 3 (latest_parser_errors sn * 2)) else 0)"
  define k where "k = points 30 (sn_successful_syncs sn = 0) + points 20 (latest_failed sn) + m"
  define lim :: int where "lim = (if sn_chunk_count sn = 0 then 20 else 100)"
  have "0 \<le> m" by (auto simp: m_def le_max_iff_disj)
  then have k: "points 30 (sn_successful_syncs sn = 0) + points 20 (latest_failed sn) \<le> k" by (simp add: k_def)
  have zero: "sn_document_count sn = 0 \<Longrightarrow> fst (readiness_score sn c) = 0" for c by (simp add: readiness_score_def)
  have clamp: "sn_document_count sn \<noteq> 0 \<Longrightarrow> fst (readiness_score sn c) = max 0 (min lim (evidence_points c - k))" for c
    unfolding score_as_clamp Let_def k_def m_def lim_def by (simp only: diff_diff_eq add.assoc)
  have lim: "0 < lim" "lim \<le> 100" by (simp_all add: lim_def)
  have range: "0 \<le> fst (readiness_score sn c) \<and> fst (readiness_score sn c) \<le> 100" for c
    using lim by (cases "sn_document_count sn = 0") (auto simp only: zero clamp)
  have chunks: "sn_chunk_count sn = 0 \<Longrightarrow> fst (readiness_score sn c) \<le> 20"
    by (cases "sn_document_count sn = 0") (auto simp: zero clamp lim_def)
  have mono: "covers_at_least c c' \<Longrightarrow> fst (readiness_score sn c) \<le> fst (readiness_score sn c')"
    using evidence_points_mono [of c c'] by (cases "sn_document_count sn = 0") (auto simp: zero clamp)
  have penalty: "fst (readiness_score sn c) \<le> max 0 (evidence_points c - points 30 (sn_successful_syncs sn = 0) - points 20 (latest_failed sn))"
    using k by (cases "sn_document_count sn = 0") (auto simp: zero clamp)
  have "0 < sn_successful_syncs sn \<and> \<not> latest_failed sn \<and> rd_logs c \<and> 3 \<le> length (filter id [rd_code c, rd_deploys c, rd_runbooks c, rd_logs c])"
    if "readiness_grade (fst (readiness_score sn c)) = ''excellent''"
  proof -
    have "85 \<le> fst (readiness_score sn c)" using that by (simp add: readiness_grade_def split: if_splits)
    with penalty have "85 \<le> evidence_points c - points 30 (sn_successful_syncs sn = 0) - points 20 (latest_failed sn)" by simp
    moreover from this have "85 \<le> evidence_points c"
      using points_bounds [of 30 "sn_successful_syncs sn = 0"] points_bounds [of 20 "latest_failed sn"] by simp
    moreover have "evidence_points c \<le> 100" using points_bounds unfolding evidence_points_def by (smt (verit))
    ultimately show ?thesis using excellent_evidence [of c] by (auto simp: points_def split: if_splits)
  qed
  with range [of c] chunks mono zero [of c] show ?thesis unfolding if_bool_eq_conj by blast
qed

end
