(* ===== verification/Embeddings.thy ===== *)
theory Embeddings
  imports Evaluation
begin

text \<open>
  Embedding texts: \<open>retrieval/embeddings.py\<close> without its batcher, \<open>retrieval/cache.py\<close> and \<open>remote_embed\<close> of
  \<open>retrieval/model_gateway.py\<close>. An action here runs on the variables of the process (the module globals); requests to a
  provider, to Redis and pauses are entries of the trace. The services, the clock, the random numbers, SHA-256, the square
  root and the printing and parsing of floats are arguments. Concurrent cache requests (\<open>asyncio.gather\<close>) are made in order.
  Metrics and log lines are left out.
\<close>

section \<open>The process and the services\<close>

record provider_response =
  pr_status :: nat
  pr_headers :: "string dict"    \<comment> \<open>names in lower case\<close>
  pr_body :: "json option"

text \<open>A request that is not answered raises: a time-out or network error may be repeated, another error of httpx not.\<close>

datatype provider_reply =
    Answered provider_response
  | Unreachable string
  | Broken string

record embed_process =
  ep_last_request_at :: rat
  ep_backoff_until :: rat
  ep_token :: "(string \<times> rat) option"
  ep_model :: "string option"

type_synonym 'a embed_act = "(embed_process, 'a) act"

record embed_env =
  ee_send :: "provider_reply service"
  ee_redis :: "(string option) option service"    \<comment> \<open>no answer: the client raises\<close>
  ee_redis_client :: bool                         \<comment> \<open>\<open>redis.from_url\<close> succeeds\<close>
  ee_clock :: "effect list \<Rightarrow> rat"                 \<comment> \<open>\<open>time.monotonic()\<close>\<close>
  ee_time :: "effect list \<Rightarrow> rat"                  \<comment> \<open>\<open>time.time()\<close>\<close>
  ee_random :: "effect list \<Rightarrow> rat"                \<comment> \<open>\<open>random.random()\<close>\<close>
  ee_sha256 :: "string \<Rightarrow> nat list"                \<comment> \<open>the bytes of the digest\<close>
  ee_sqrt :: "rat \<Rightarrow> rat"
  ee_repr :: "rat \<Rightarrow> string"                       \<comment> \<open>the text of a float\<close>
  ee_float :: "string \<Rightarrow> rat option"
  ee_loads :: "string \<Rightarrow> json option"
  ee_credential :: "effect list \<Rightarrow> (string \<times> rat) result"    \<comment> \<open>\<open>DefaultAzureCredential().get_token\<close>\<close>
  ee_load_model :: "string \<Rightarrow> unit result"         \<comment> \<open>\<open>SentenceTransformer(name)\<close>\<close>
  ee_encode :: "string \<Rightarrow> string list \<Rightarrow> pyfloat list list result"

definition mk_float :: "embed_env \<Rightarrow> rat \<Rightarrow> pyfloat" where
  "mk_float env r = (r, ee_repr env r)"

definition py_float :: "embed_env \<Rightarrow> json \<Rightarrow> rat result" where    \<comment> \<open>\<open>float(v)\<close>\<close>
  "py_float env v = (case json_float (ee_float env) v of
      Some r \<Rightarrow> Inr r
    | None \<Rightarrow> Inl (case v of JStr _ \<Rightarrow> ValueError ''could not convert string to float''
                        | _ \<Rightarrow> TypeError ''float() argument must be a string or a real number''))"

definition float_vector :: "embed_env \<Rightarrow> json \<Rightarrow> pyfloat list result" where    \<comment> \<open>\<open>[float(value) for value in vector]\<close>\<close>
  "float_vector env v = rbind (json_iter v) (rmap (\<lambda>x. rbind (py_float env x) (\<lambda>r. Inr (mk_float env r))))"

definition float_vectors :: "embed_env \<Rightarrow> json list \<Rightarrow> pyfloat list list result" where
  "float_vectors env = rmap (float_vector env)"

section \<open>The cache of vectors\<close>

definition hex_digest :: "nat list \<Rightarrow> string" where
  "hex_digest bytes = concat (map (\<lambda>b. [hex_digit (b div 16), hex_digit (b mod 16)]) bytes)"

definition cache_key :: "embed_env \<Rightarrow> settings \<Rightarrow> string \<Rightarrow> string \<Rightarrow> string" where
  "cache_key env cfg namespace v =
     ''incidentops:rag:'' @ namespace @ '':'' @ vector_index_version cfg @ '':'' @ embedding_model cfg @ '':''
     @ rag_model_revision cfg @ '':'' @ hex_digest (ee_sha256 env v)"

definition redis_client :: "embed_env \<Rightarrow> settings \<Rightarrow> bool" where
  "redis_client env cfg \<longleftrightarrow> rag_cache_enabled cfg \<and> resolved_redis_url cfg \<noteq> [] \<and> ee_redis_client env"

definition cached_vector :: "embed_env \<Rightarrow> string option \<Rightarrow> pyfloat list option" where
  "cached_vector env v = (case v of
      None \<Rightarrow> None
    | Some s \<Rightarrow> if s = [] then None
        else case ee_loads env s of
            Some (JList xs) \<Rightarrow> (case float_vector env (JList xs) of Inl _ \<Rightarrow> None | Inr vs \<Rightarrow> Some vs)
          | _ \<Rightarrow> None)"

definition get_embedding :: "embed_env \<Rightarrow> settings \<Rightarrow> string \<Rightarrow> pyfloat list option embed_act" where
  "get_embedding env cfg t =
     (if \<not> redis_client env cfg then ret None
      else bind_act (call (ee_redis env) (Redis ''GET'' [cache_key env cfg ''embedding'' t])) (\<lambda>reply.
        ret (case reply of None \<Rightarrow> None | Some v \<Rightarrow> cached_vector env v)))"

definition vector_text :: "pyfloat list \<Rightarrow> string" where
  "vector_text v = json_dumps '', '' '': '' (JList (map (\<lambda>(r, t). JFloat r t) v))"

definition set_embedding :: "embed_env \<Rightarrow> settings \<Rightarrow> string \<Rightarrow> pyfloat list \<Rightarrow> unit embed_act" where
  "set_embedding env cfg t v =
     (if \<not> redis_client env cfg then ret ()
      else bind_act (call (ee_redis env) (Redis ''SET'' [cache_key env cfg ''embedding'' t, vector_text v, ''EX'',
             str_of_int (rag_cache_ttl_seconds cfg)])) (\<lambda>_. ret ()))"

definition project_generation_key :: "uid \<Rightarrow> string" where
  "project_generation_key pid = ''incidentops:rag:project-generation:'' @ uid_str pid"

definition project_key :: "embed_env \<Rightarrow> settings \<Rightarrow> string \<Rightarrow> uid \<Rightarrow> string \<Rightarrow> string option embed_act" where
  "project_key env cfg namespace pid v =
     bind_act (call (ee_redis env) (Redis ''GET'' [project_generation_key pid])) (\<lambda>reply. ret (case reply of
         None \<Rightarrow> None    \<comment> \<open>the client raised\<close>
       | Some g \<Rightarrow> let generation = (case g of None \<Rightarrow> ''0'' | Some s \<Rightarrow> if s = [] then ''0'' else s) in
           Some (''incidentops:rag:'' @ namespace @ '':'' @ uid_str pid @ '':'' @ generation @ '':'' @ vector_index_version cfg
             @ '':'' @ embedding_model cfg @ '':'' @ rag_model_revision cfg @ '':'' @ hex_digest (ee_sha256 env v))))"

definition get_project_json :: "embed_env \<Rightarrow> settings \<Rightarrow> string \<Rightarrow> uid \<Rightarrow> string \<Rightarrow> json dict option embed_act" where
  "get_project_json env cfg namespace pid v =
     (if \<not> redis_client env cfg then ret None
      else bind_act (project_key env cfg namespace pid v) (\<lambda>key. case key of
          None \<Rightarrow> ret None
        | Some k \<Rightarrow> bind_act (call (ee_redis env) (Redis ''GET'' [k])) (\<lambda>reply. ret (case reply of
              Some (Some s) \<Rightarrow> if s = [] then None else (case ee_loads env s of Some (JObj d) \<Rightarrow> Some d | _ \<Rightarrow> None)
            | _ \<Rightarrow> None))))"

text \<open>The payload's values are JSON values here, so \<open>default=str\<close> is not needed.\<close>

definition set_project_json :: "embed_env \<Rightarrow> settings \<Rightarrow> string \<Rightarrow> uid \<Rightarrow> string \<Rightarrow> json dict \<Rightarrow> unit embed_act" where
  "set_project_json env cfg namespace pid v payload =
     (if \<not> redis_client env cfg then ret ()
      else bind_act (project_key env cfg namespace pid v) (\<lambda>key. case key of
          None \<Rightarrow> ret ()
        | Some k \<Rightarrow> bind_act (call (ee_redis env) (Redis ''SET'' [k, json_dumps '','' '':'' (JObj payload), ''EX'',
              str_of_int (rag_cache_ttl_seconds cfg)])) (\<lambda>_. ret ())))"

definition bump_project :: "embed_env \<Rightarrow> settings \<Rightarrow> uid \<Rightarrow> unit embed_act" where    \<comment> \<open>\<open>invalidate_project\<close>\<close>
  "bump_project env cfg pid =
     (if \<not> redis_client env cfg then ret ()
      else bind_act (call (ee_redis env) (Redis ''INCR'' [project_generation_key pid])) (\<lambda>_. ret ()))"

section \<open>Pacing and retries\<close>

definition retryable_status_codes :: "nat list" where
  "retryable_status_codes = [408, 409, 429, 500, 502, 503, 504]"

definition respect_embedding_min_interval :: "embed_env \<Rightarrow> settings \<Rightarrow> unit embed_act" where
  "respect_embedding_min_interval env cfg s =
     (let min_interval = max 0 (embedding_request_min_interval_seconds cfg);
          now = ee_clock env (trace s);
          next_allowed = max (ep_last_request_at (work s) + min_interval) (ep_backoff_until (work s));
          tr = (if now < next_allowed then trace s @ [Sleep (next_allowed - now)] else trace s)
      in (Inr (), s\<lparr>trace := tr, work := (work s)\<lparr>ep_last_request_at := ee_clock env tr\<rparr>\<rparr>))"

definition extend_azure_backoff :: "embed_env \<Rightarrow> rat \<Rightarrow> unit embed_act" where
  "extend_azure_backoff env delay s =
     (Inr (), s\<lparr>work := (work s)\<lparr>ep_backoff_until :=
        max (ep_backoff_until (work s)) (ee_clock env (trace s) + max 0 delay)\<rparr>\<rparr>)"

definition header_delay :: "embed_env \<Rightarrow> settings \<Rightarrow> string dict \<Rightarrow> string \<Rightarrow> rat \<Rightarrow> rat option" where
  "header_delay env cfg hs name unit_seconds = (case dict_get hs name of
      None \<Rightarrow> None
    | Some s \<Rightarrow> if s = [] then None
        else map_option (\<lambda>r. max 0 (min (r / unit_seconds) (embedding_request_max_backoff_seconds cfg))) (ee_float env s))"

definition embedding_retry_delay :: "embed_env \<Rightarrow> settings \<Rightarrow> effect list \<Rightarrow> string dict option \<Rightarrow> nat \<Rightarrow> rat" where
  "embedding_retry_delay env cfg tr hs attempt =
     (let from_header = (case hs of
            None \<Rightarrow> None
          | Some h \<Rightarrow> (case header_delay env cfg h ''x-ms-retry-after-ms'' 1000 of
                Some d \<Rightarrow> Some d | None \<Rightarrow> header_delay env cfg h ''retry-after'' 1));
          base = embedding_request_initial_backoff_seconds cfg * 2 ^ attempt;
          capped = min base (embedding_request_max_backoff_seconds cfg);
          jitter = min (1 / 2) (capped * (1 / 10))
      in case from_header of Some d \<Rightarrow> d | None \<Rightarrow> capped + ee_random env tr * jitter)"

definition pause :: "rat \<Rightarrow> unit embed_act" where    \<comment> \<open>\<open>time.sleep\<close>\<close>
  "pause d s = (Inr (), s\<lparr>trace := trace s @ [Sleep d]\<rparr>)"

definition httpx_error :: "string \<Rightarrow> py_exn" where
  "httpx_error cls = OtherError cls []"

text \<open>
  The loop over the attempts, from \<open>attempt\<close> with \<open>n\<close> attempts left: pace, post, and repeat while the answer or the error allows it.
  \<open>paced\<close> is set for Azure, which waits for its interval before a request and remembers the delay after one. The answer is
  \<open>None\<close> when the range of attempts is empty.
\<close>

fun attempts_loop ::
  "embed_env \<Rightarrow> settings \<Rightarrow> bool \<Rightarrow> effect \<Rightarrow> nat \<Rightarrow> nat \<Rightarrow> json option option embed_act" where
  "attempts_loop env cfg paced e attempt 0 = ret None"
| "attempts_loop env cfg paced e attempt (Suc n) =
     then_act (when_act paced (respect_embedding_min_interval env cfg))
       (bind_act (call (ee_send env) e) (\<lambda>reply s. case reply of
          Unreachable cls \<Rightarrow>
            if int attempt \<ge> embedding_request_max_retries cfg then raise (httpx_error cls) s
            else then_act (pause (embedding_retry_delay env cfg (trace s) None attempt))
                   (attempts_loop env cfg paced e (Suc attempt) n) s
        | Broken cls \<Rightarrow> raise (httpx_error cls) s
        | Answered r \<Rightarrow>
            if pr_status r \<in> set retryable_status_codes \<and> int attempt < embedding_request_max_retries cfg then
              (let d = embedding_retry_delay env cfg (trace s) (Some (pr_headers r)) attempt in
               then_act (when_act paced (extend_azure_backoff env d))
                 (then_act (pause d) (attempts_loop env cfg paced e (Suc attempt) n)) s)
            else if \<not> response_ok (pr_status r) then raise (httpx_error ''HTTPStatusError'') s
            else ret (Some (pr_body r)) s))"

definition attempts_of :: "settings \<Rightarrow> nat" where    \<comment> \<open>\<open>range(max_retries + 1)\<close>\<close>
  "attempts_of cfg = nat (embedding_request_max_retries cfg + 1)"

section \<open>The providers\<close>

definition zero_division :: py_exn where "zero_division = OtherError ''ZeroDivisionError'' ''integer modulo by zero''"
definition index_error :: py_exn where "index_error = OtherError ''IndexError'' ''list index out of range''"

fun big_endian :: "nat list \<Rightarrow> nat" where    \<comment> \<open>\<open>int.from_bytes(bs, 'big')\<close>, most significant byte last here\<close>
  "big_endian [] = 0"
| "big_endian (b # bs) = b + 256 * big_endian bs"

definition token_slot :: "embed_env \<Rightarrow> string \<Rightarrow> nat \<times> rat" where    \<comment> \<open>the number before \<open>% dim\<close>, and the sign\<close>
  "token_slot env token = (let digest = ee_sha256 env token
     in (big_endian (rev (take 4 digest)), if (digest ! 4) mod 2 = 0 then 1 else -1))"

fun add_tokens :: "embed_env \<Rightarrow> int \<Rightarrow> string list \<Rightarrow> rat list \<Rightarrow> rat list result" where
  "add_tokens env width [] values = Inr values"
| "add_tokens env width (token # tokens) values =
     (if width = 0 then Inl zero_division
      else if width < 0 then Inl index_error
      else let (n, sign) = token_slot env token; i = n mod nat width
           in add_tokens env width tokens (values[i := values ! i + sign]))"

definition norm_or_one :: "embed_env \<Rightarrow> rat list \<Rightarrow> rat" where    \<comment> \<open>\<open>math.sqrt(sum(v * v)) or 1.0\<close>\<close>
  "norm_or_one env values = (let r = ee_sqrt env (sum_list (map (\<lambda>v. v * v) values)) in if r = 0 then 1 else r)"

definition normalized_vector :: "embed_env \<Rightarrow> rat list \<Rightarrow> pyfloat list" where
  "normalized_vector env values = map (\<lambda>v. mk_float env (v / norm_or_one env values)) values"

definition hash_embed :: "embed_env \<Rightarrow> int \<Rightarrow> string \<Rightarrow> pyfloat list result" where
  "hash_embed env width t =
     rbind (add_tokens env width (split_words (py_lower t)) (replicate (nat width) 0)) (\<lambda>values. Inr (normalized_vector env values))"

text \<open>
  \<open>sorted(rows, key=lambda item: item.get('index', 0))\<close>: the keys are all numbers or all strings, or there is at most one; other
  keys do not compare (Python also compares lists with lists, which is refused here).
\<close>

fun insert_by :: "('a \<Rightarrow> 'a \<Rightarrow> bool) \<Rightarrow> 'a \<Rightarrow> 'a list \<Rightarrow> 'a list" where
  "insert_by le x [] = [x]"
| "insert_by le x (y # ys) = (if le x y then x # y # ys else y # insert_by le x ys)"

definition sort_by :: "('a \<Rightarrow> 'a \<Rightarrow> bool) \<Rightarrow> 'a list \<Rightarrow> 'a list" where
  "sort_by le xs = foldr (insert_by le) xs []"

definition number_of :: "json \<Rightarrow> rat option" where
  "number_of v = (case v of JStr _ \<Rightarrow> None | _ \<Rightarrow> json_float (\<lambda>_. None) v)"

definition is_str :: "json \<Rightarrow> bool" where
  "is_str v = (case v of JStr _ \<Rightarrow> True | _ \<Rightarrow> False)"

definition rows_by_index :: "json list \<Rightarrow> json dict list result" where
  "rows_by_index rows = rbind (rmap as_dict rows) (\<lambda>ds.
     let key = (\<lambda>d. dict_get_or (JInt 0) d ''index'') in
     if length ds \<le> 1 then Inr ds
     else if \<forall>d\<in>set ds. number_of (key d) \<noteq> None then Inr (sort_by (\<lambda>a b. the (number_of (key a)) \<le> the (number_of (key b))) ds)
     else if \<forall>d\<in>set ds. is_str (key d) then Inr (sort_by (\<lambda>a b. str_le (py_str (key a)) (py_str (key b))) ds)
     else Inl (TypeError ''values of index are not comparable''))"

text \<open>
  A vector of Azure's answer is normalised in place. A value of another type is refused, except that an empty string or object
  passes through as it is; it is the empty vector here.
\<close>

definition normalize_in_place :: "embed_env \<Rightarrow> json \<Rightarrow> pyfloat list result" where
  "normalize_in_place env v =
     rbind (json_iter v) (\<lambda>items. rbind (rmap (py_float env) items) (\<lambda>values. case v of
        JList _ \<Rightarrow> Inr (normalized_vector env values)
      | JStr _ \<Rightarrow> if items = [] then Inr [] else Inl (TypeError ''str object does not support item assignment'')
      | _ \<Rightarrow> if items = [] then Inr [] else Inl (RuntimeError ''dictionary changed size during iteration'')))"

definition subscript :: "json \<Rightarrow> string \<Rightarrow> json result" where    \<comment> \<open>\<open>v[k]\<close> with a string\<close>
  "subscript v k = (case v of
      JObj d \<Rightarrow> (case dict_get d k of None \<Rightarrow> Inl (KeyError k) | Some x \<Rightarrow> Inr x)
    | _ \<Rightarrow> Inl (TypeError (quoted (type_name v) @ '' cannot be indexed with a string'')))"

definition azure_vectors :: "embed_env \<Rightarrow> json option \<Rightarrow> pyfloat list list result" where
  "azure_vectors env body =
     rbind (response_json body) (\<lambda>v. rbind (subscript v ''data'') (\<lambda>data. rbind (json_iter data) (\<lambda>rows.
     rbind (rows_by_index rows) (\<lambda>ordered. rbind (rmap (\<lambda>d. subscript (JObj d) ''embedding'') ordered)
       (rmap (normalize_in_place env))))))"

definition azure_url :: "settings \<Rightarrow> string" where
  "azure_url cfg = rstrip_char CHR ''/'' (azure_openai_endpoint cfg) @ ''/openai/deployments/''
     @ azure_openai_embedding_deployment cfg @ ''/embeddings?api-version='' @ azure_openai_api_version cfg"

definition azure_request :: "settings \<Rightarrow> string list \<Rightarrow> effect" where
  "azure_request cfg texts = Http ''POST'' (azure_url cfg)
     (JObj [(''input'', JList (map JStr texts)), (''dimensions'', JInt (embedding_dim cfg))])"

definition azure_embed :: "embed_env \<Rightarrow> settings \<Rightarrow> string list \<Rightarrow> pyfloat list list embed_act" where
  "azure_embed env cfg texts =
     (if \<not> azure_openai_embeddings_configured cfg then raise (RuntimeError ''Azure OpenAI embedding deployment is not configured'')
      else bind_act (attempts_loop env cfg True (azure_request cfg texts) 0 (attempts_of cfg))
        (\<lambda>answer. case answer of
            None \<Rightarrow> raise (OtherError ''UnboundLocalError'' ''response'')
          | Some body \<Rightarrow> lift_result (azure_vectors env body)))"

definition is_number :: "json \<Rightarrow> bool" where    \<comment> \<open>\<open>isinstance(v, (int, float))\<close>\<close>
  "is_number v = (case v of JInt _ \<Rightarrow> True | JFloat _ _ \<Rightarrow> True | JBool _ \<Rightarrow> True | _ \<Rightarrow> False)"

definition json_len :: "json \<Rightarrow> nat result" where
  "json_len v = (case v of JStr _ \<Rightarrow> rbind (json_iter v) (\<lambda>xs. Inr (length xs)) | JList xs \<Rightarrow> Inr (length xs)
     | JObj d \<Rightarrow> Inr (length d) | _ \<Rightarrow> Inl (TypeError (''object of type '' @ quoted (type_name v) @ '' has no len()'')))"

definition json_nth :: "json \<Rightarrow> nat \<Rightarrow> json result" where    \<comment> \<open>\<open>v[i]\<close>\<close>
  "json_nth v i = (case v of
      JList xs \<Rightarrow> if i < length xs then Inr (xs ! i) else Inl index_error
    | JStr s \<Rightarrow> if i < length s then Inr (JStr [s ! i]) else Inl index_error
    | JObj _ \<Rightarrow> Inl (KeyError (str_of_int (int i)))
    | _ \<Rightarrow> Inl (TypeError (quoted (type_name v) @ '' object is not subscriptable'')))"

fun any_other_len :: "nat \<Rightarrow> json list \<Rightarrow> bool result" where    \<comment> \<open>\<open>any(len(v) != width for v in vs)\<close>\<close>
  "any_other_len w [] = Inr False"
| "any_other_len w (v # vs) = rbind (json_len v) (\<lambda>n. if n \<noteq> w then Inr True else any_other_len w vs)"

definition token_mean :: "embed_env \<Rightarrow> json list \<Rightarrow> nat \<Rightarrow> json result" where
  "token_mean env vectors i =
     rbind (rmap (\<lambda>v. rbind (json_nth v i) (py_float env)) vectors)
       (\<lambda>rs. let m = sum_list rs / of_nat (length vectors) in Inr (JFloat m (ee_repr env m)))"

definition pool_tokens :: "embed_env \<Rightarrow> json \<Rightarrow> json result" where
  "pool_tokens env token_vectors =
     (if \<not> truthy token_vectors then Inl (RuntimeError ''Hugging Face embedding backend returned an empty token sequence'')
      else rbind (json_nth token_vectors 0) (\<lambda>head. rbind (json_len head) (\<lambda>width. rbind (json_iter token_vectors) (\<lambda>vectors.
           rbind (if width = 0 then Inr True else any_other_len width vectors) (\<lambda>bad.
           if bad then Inl (RuntimeError ''Hugging Face embedding backend returned inconsistent token dimensions'')
           else rbind (rmap (token_mean env vectors) [0..<width]) (\<lambda>vs. Inr (JList vs)))))))"

definition coerce_huggingface_vectors :: "embed_env \<Rightarrow> json \<Rightarrow> nat \<Rightarrow> json list result" where
  "coerce_huggingface_vectors env raw text_count =
     rbind (case raw of
         JList (v # vs) \<Rightarrow>
           if is_number v then Inr [raw]
           else (case v of
               JList [] \<Rightarrow> Inr (v # vs)
             | JList (x # _) \<Rightarrow>
                 if is_number x then Inr (v # vs)
                 else (case x of
                     JList [] \<Rightarrow> rmap (pool_tokens env) (v # vs)
                   | JList (y # _) \<Rightarrow> if is_number y then rmap (pool_tokens env) (v # vs)
                       else Inl (RuntimeError ''Hugging Face embedding backend returned an unsupported response shape'')
                   | _ \<Rightarrow> Inl (RuntimeError ''Hugging Face embedding backend returned an unsupported response shape''))
             | _ \<Rightarrow> Inl (RuntimeError ''Hugging Face embedding backend returned an unsupported response shape''))
       | _ \<Rightarrow> Inl (RuntimeError ''Hugging Face embedding backend returned an empty response'')) (\<lambda>vectors.
     if text_count = 1 \<and> length vectors \<noteq> 1 \<and> (case vectors of JList _ # _ \<Rightarrow> True | _ \<Rightarrow> False)
     then Inl (RuntimeError ''Hugging Face embedding backend returned an unexpected result count'')
     else Inr vectors)"

definition huggingface_url :: "settings \<Rightarrow> string" where
  "huggingface_url cfg = rstrip_char CHR ''/'' (hf_embedding_endpoint cfg) @ ''/models/'' @ hf_embedding_model cfg
     @ ''/pipeline/feature-extraction''"

definition huggingface_vectors :: "embed_env \<Rightarrow> string list \<Rightarrow> json option \<Rightarrow> pyfloat list list result" where
  "huggingface_vectors env texts body =
     rbind (response_json body) (\<lambda>raw. rbind (coerce_huggingface_vectors env raw (length texts)) (\<lambda>vectors.
     if length vectors \<noteq> length texts then Inl (RuntimeError ''Hugging Face embedding backend returned an unexpected result count'')
     else float_vectors env vectors))"

definition huggingface_embed :: "embed_env \<Rightarrow> settings \<Rightarrow> string list \<Rightarrow> pyfloat list list embed_act" where
  "huggingface_embed env cfg texts =
     (if \<not> hf_embeddings_configured cfg then raise (RuntimeError ''Hugging Face embedding backend is not configured'')
      else bind_act (attempts_loop env cfg False (Http ''POST'' (huggingface_url cfg)
             (JObj [(''inputs'', JList (map JStr texts)), (''normalize'', JBool True), (''truncate'', JBool True)])) 0 (attempts_of cfg))
        (\<lambda>answer. case answer of
            None \<Rightarrow> raise (RuntimeError ''Hugging Face embedding request exhausted retries'')
          | Some body \<Rightarrow> lift_result (huggingface_vectors env texts body)))"

definition is_list :: "json \<Rightarrow> bool" where
  "is_list v = (case v of JList _ \<Rightarrow> True | _ \<Rightarrow> False)"

definition checked_vectors :: "embed_env \<Rightarrow> settings \<Rightarrow> (string \<Rightarrow> py_exn) \<Rightarrow> string \<Rightarrow> string \<Rightarrow> json list \<Rightarrow> pyfloat list list result" where
  "checked_vectors env cfg err invalid mismatch vectors =
     (if \<not> list_all is_list vectors then Inl (err invalid)
      else if \<not> list_all (\<lambda>v. case v of JList xs \<Rightarrow> int (length xs) = embedding_dim cfg | _ \<Rightarrow> False) vectors then Inl (err mismatch)
      else float_vectors env vectors)"

definition nvidia_vectors :: "embed_env \<Rightarrow> settings \<Rightarrow> string list \<Rightarrow> json option \<Rightarrow> pyfloat list list result" where
  "nvidia_vectors env cfg texts body =
     rbind (response_json body) (\<lambda>data.
     case (case data of JObj d \<Rightarrow> get_or_none d ''data'' | _ \<Rightarrow> JNull) of
       JList rows \<Rightarrow>
         if length rows \<noteq> length texts then Inl (RuntimeError ''NVIDIA embedding backend returned an unexpected result count'')
         else rbind (rows_by_index rows) (\<lambda>ds. checked_vectors env cfg RuntimeError
                ''NVIDIA embedding backend returned an invalid vector''
                ''NVIDIA embedding dimension does not match the configured vector index'' (map (\<lambda>d. get_or_none d ''embedding'') ds))
     | _ \<Rightarrow> Inl (RuntimeError ''NVIDIA embedding backend returned an unexpected result count''))"

text \<open>A request that is sent once.\<close>

definition post_once :: "embed_env \<Rightarrow> effect \<Rightarrow> (string \<Rightarrow> py_exn) \<Rightarrow> json option embed_act" where
  "post_once env e err = bind_act (call (ee_send env) e) (\<lambda>reply. case reply of
      Unreachable cls \<Rightarrow> raise (err cls)
    | Broken cls \<Rightarrow> raise (err cls)
    | Answered r \<Rightarrow> if response_ok (pr_status r) then ret (pr_body r) else raise (err ''HTTPStatusError''))"

definition nvidia_embed :: "embed_env \<Rightarrow> settings \<Rightarrow> string list \<Rightarrow> string \<Rightarrow> pyfloat list list embed_act" where
  "nvidia_embed env cfg texts input_type =
     (if \<not> nvidia_embeddings_configured cfg then raise (RuntimeError ''NVIDIA embedding endpoint is not configured'')
      else bind_act (post_once env (Http ''POST'' (nvidia_embedding_endpoint cfg)
             (JObj [(''input'', JList (map JStr texts)), (''model'', JStr (nvidia_embedding_model cfg)),
                    (''input_type'', JStr input_type), (''modality'', JStr ''text''), (''encoding_format'', JStr ''float'')])) httpx_error)
        (\<lambda>body. lift_result (nvidia_vectors env cfg texts body)))"

section \<open>The model gateway\<close>

definition managed_identity_token :: "embed_env \<Rightarrow> string embed_act" where
  "managed_identity_token env s =
     (let fresh = (case ep_token (work s) of
            Some (t, expires) \<Rightarrow> if t \<noteq> [] \<and> ee_time env (trace s) < expires - 60 then Some t else None
          | None \<Rightarrow> None)
      in case fresh of
           Some t \<Rightarrow> (Inr t, s)
         | None \<Rightarrow> (case ee_credential env (trace s) of
               Inl e \<Rightarrow> (Inl (remote_model_error (''managed identity token acquisition failed: '' @ exn_class e)), s)
             | Inr (t, expires) \<Rightarrow> (Inr t, s\<lparr>work := (work s)\<lparr>ep_token := Some (t, expires)\<rparr>\<rparr>)))"

definition gateway_headers :: "embed_env \<Rightarrow> settings \<Rightarrow> string dict embed_act" where
  "gateway_headers env cfg =
     (let base = [(''Content-Type'', ''application/json'')] in
      if rag_remote_auth_mode cfg = ''managed_identity'' then
        bind_act (managed_identity_token env) (\<lambda>t. ret (base @ [(''Authorization'', ''Bearer '' @ t)]))
      else if rag_remote_auth_mode cfg = ''bearer'' then ret (base @ [(''Authorization'', ''Bearer '' @ rag_remote_api_key cfg)])
      else ret (base @ [(''api-key'', rag_remote_api_key cfg)]))"

definition embed_payload :: "settings \<Rightarrow> string list \<Rightarrow> json" where
  "embed_payload cfg texts = JObj
     [(''model_id'', JStr (embedding_model cfg)), (''index_version'', JStr (vector_index_version cfg)),
      (''inputs'', JList (map (\<lambda>(i, t). JObj [(''id'', JStr (digits_of i)), (''text'', JStr t)]) (enumerate 0 texts)))]"

definition remote_vectors :: "embed_env \<Rightarrow> settings \<Rightarrow> string list \<Rightarrow> json option \<Rightarrow> pyfloat list list result" where
  "remote_vectors env cfg texts body =
     rbind (response_json body) (\<lambda>data. rbind (json_get data ''vectors'' JNull) (\<lambda>v. case v of
         JList vectors \<Rightarrow>
           if length vectors \<noteq> length texts then Inl (remote_model_error ''remote embedding response count mismatch'')
           else checked_vectors env cfg remote_model_error ''remote embedding response contains invalid vectors''
                  ''remote embedding response dimension mismatch'' vectors
       | _ \<Rightarrow> Inl (remote_model_error ''remote embedding response count mismatch'')))"

definition remote_embed :: "embed_env \<Rightarrow> settings \<Rightarrow> string list \<Rightarrow> pyfloat list list embed_act" where
  "remote_embed env cfg texts =
     (if rag_embedding_endpoint cfg = [] \<or> (rag_remote_auth_mode cfg \<noteq> ''managed_identity'' \<and> rag_remote_api_key cfg = []) then
        raise (remote_model_error ''remote embedding endpoint is not configured'')
      else bind_act (gateway_headers env cfg) (\<lambda>_.
           bind_act (post_once env (Http ''POST'' (rag_embedding_endpoint cfg) (embed_payload cfg texts))
               (\<lambda>cls. remote_model_error (''remote embedding request failed: '' @ cls)))
             (\<lambda>body. lift_result (remote_vectors env cfg texts body))))"

section \<open>Choosing a backend\<close>

definition load_model :: "embed_env \<Rightarrow> settings \<Rightarrow> string \<Rightarrow> string option embed_act" where
  "load_model env cfg name s =
     (if starts_with name ''local-hash'' then (Inr None, s)
      else if \<not> allow_local_model_loading cfg then
        (Inl (RuntimeError ''local model loading is disabled; use Azure ML or Azure OpenAI''), s)
      else if ep_model (work s) = Some name then (Inr (Some name), s)
      else (case ee_load_model env name of
          Inl e \<Rightarrow> (Inl e, s)
        | Inr _ \<Rightarrow> (Inr (Some name), s\<lparr>work := (work s)\<lparr>ep_model := Some name\<rparr>\<rparr>)))"

definition hash_vectors :: "embed_env \<Rightarrow> settings \<Rightarrow> string list \<Rightarrow> pyfloat list list embed_act" where
  "hash_vectors env cfg texts = lift_result (rmap (hash_embed env (embedding_dim cfg)) texts)"

definition chosen_model :: "settings \<Rightarrow> string option \<Rightarrow> string" where    \<comment> \<open>\<open>model_name or settings.embedding_model\<close>\<close>
  "chosen_model cfg name = (case name of Some m \<Rightarrow> if m \<noteq> [] then m else embedding_model cfg | None \<Rightarrow> embedding_model cfg)"

definition embed_texts :: "embed_env \<Rightarrow> settings \<Rightarrow> string option \<Rightarrow> string \<Rightarrow> string list \<Rightarrow> pyfloat list list embed_act" where
  "embed_texts env cfg name input_type texts =
     (if texts = [] then ret []
      else let model = chosen_model cfg name in
        if starts_with model ''azure-ml'' then
          raise (RuntimeError ''azure-ml embeddings require the asynchronous remote gateway'')
        else if starts_with model ''local-hash'' then hash_vectors env cfg texts
        else if starts_with model ''azure-openai'' then azure_embed env cfg texts
        else if starts_any model [''huggingface'', ''hf''] then huggingface_embed env cfg texts
        else if starts_with model ''nvidia'' then nvidia_embed env cfg texts input_type
        else try_act
          (bind_act (load_model env cfg model) (\<lambda>m. case m of
              None \<Rightarrow> raise (no_attribute JNull ''encode'')
            | Some name \<Rightarrow> lift_result (ee_encode env name texts)))
          (\<lambda>e. if is_production_like cfg then raise e else hash_vectors env cfg texts))"

fun get_embeddings :: "embed_env \<Rightarrow> settings \<Rightarrow> string list \<Rightarrow> pyfloat list option list embed_act" where
  "get_embeddings env cfg [] = ret []"
| "get_embeddings env cfg (t # ts) =
     bind_act (get_embedding env cfg t) (\<lambda>v. bind_act (get_embeddings env cfg ts) (\<lambda>vs. ret (v # vs)))"

fun set_embeddings :: "embed_env \<Rightarrow> settings \<Rightarrow> (string \<times> pyfloat list) list \<Rightarrow> unit embed_act" where
  "set_embeddings env cfg [] = ret ()"
| "set_embeddings env cfg ((t, v) # rest) = then_act (set_embedding env cfg t v) (set_embeddings env cfg rest)"

definition missing_texts :: "string list \<Rightarrow> 'v option list \<Rightarrow> string list" where
  "missing_texts texts cached = map fst (filter (\<lambda>(_, v). v = None) (zip texts cached))"

fun fill_missing :: "'v option list \<Rightarrow> 'v list \<Rightarrow> 'v option list" where
  "fill_missing [] gs = []"
| "fill_missing (Some v # cs) gs = Some v # fill_missing cs gs"
| "fill_missing (None # cs) [] = None # fill_missing cs []"
| "fill_missing (None # cs) (g # gs) = Some g # fill_missing cs gs"

definition embed_texts_async :: "embed_env \<Rightarrow> settings \<Rightarrow> string option \<Rightarrow> string \<Rightarrow> string list \<Rightarrow> pyfloat list list embed_act" where
  "embed_texts_async env cfg name input_type texts =
     (if texts = [] then ret []
      else let model = chosen_model cfg name in
        if starts_with model ''azure-ml'' then
          bind_act (get_embeddings env cfg texts) (\<lambda>cached.
            let missing = missing_texts texts cached in
            if missing = [] then ret (List.map_filter id cached)
            else bind_act (remote_embed env cfg missing) (\<lambda>generated.
                 then_act (set_embeddings env cfg (zip missing generated))
                   (ret (List.map_filter id (fill_missing cached generated)))))
        else embed_texts env cfg (Some model) input_type texts)"

definition embed_query_async :: "embed_env \<Rightarrow> settings \<Rightarrow> string \<Rightarrow> string option \<Rightarrow> pyfloat list embed_act" where
  "embed_query_async env cfg q name =
     (let model = chosen_model cfg name; first_or_empty = (\<lambda>vs. case vs of [] \<Rightarrow> [] | v # _ \<Rightarrow> v) in
      if starts_any model [''local-hash'', ''azure-ml''] then
        bind_act (embed_texts_async env cfg (Some model) ''query'' [q]) (\<lambda>vs. ret (first_or_empty vs))
      else bind_act (get_embedding env cfg q) (\<lambda>cached. case cached of
          Some v \<Rightarrow> ret v
        | None \<Rightarrow> bind_act (embed_texts_async env cfg (Some model) ''query'' [q]) (\<lambda>vs.
            case vs of [] \<Rightarrow> ret [] | v # _ \<Rightarrow> then_act (set_embedding env cfg q v) (ret v))))"

section \<open>A cache outage never blocks\<close>

lemma get_embedding_returns: "\<exists>v t. get_embedding env cfg txt s = (Inr v, t) \<and> work t = work s"
  by (simp add: get_embedding_def bind_act_def call_def ret_def)

lemma get_embeddings_returns:
  "\<exists>vs t. get_embeddings env cfg texts s = (Inr vs, t) \<and> length vs = length texts \<and> work t = work s"
proof (induction texts arbitrary: s)
  case (Cons x xs)
  obtain v u where "get_embedding env cfg x s = (Inr v, u)" "work u = work s" using get_embedding_returns by blast
  moreover obtain vs t where "get_embeddings env cfg xs u = (Inr vs, t)" "length vs = length xs" "work t = work u"
    using Cons.IH by blast
  ultimately show ?case by (simp add: bind_act_def ret_def)
qed (simp add: ret_def)

lemma set_embedding_returns: "\<exists>t. set_embedding env cfg txt v s = (Inr (), t) \<and> work t = work s"
  by (simp add: set_embedding_def bind_act_def call_def ret_def)

lemma set_embeddings_returns: "\<exists>t. set_embeddings env cfg xs s = (Inr (), t) \<and> work t = work s"
proof (induction xs arbitrary: s)
  case (Cons x xs)
  obtain a b where x: "x = (a, b)" by (cases x)
  obtain u where "set_embedding env cfg a b s = (Inr (), u)" "work u = work s" using set_embedding_returns by blast
  moreover obtain t where "set_embeddings env cfg xs u = (Inr (), t)" "work t = work u" using Cons.IH by blast
  ultimately show ?case by (simp add: x then_act_def bind_act_def)
qed (simp add: ret_def)

lemma get_embeddings_outage:
  assumes "\<And>tr e. ee_redis env tr e = None"
  shows "\<exists>t. get_embeddings env cfg texts s = (Inr (replicate (length texts) None), t)"
proof (induction texts arbitrary: s)
  case (Cons x xs)
  have "\<exists>u. get_embedding env cfg x s = (Inr None, u)"
    by (simp add: get_embedding_def bind_act_def call_def ret_def assms)
  then obtain u where u: "get_embedding env cfg x s = (Inr None, u)" by blast
  obtain t where t: "get_embeddings env cfg xs u = (Inr (replicate (length xs) None), t)" using Cons.IH by blast
  have "get_embeddings env cfg (x # xs) s = (Inr (None # replicate (length xs) None), t)"
    using u t by (simp add: bind_act_def ret_def)
  then show ?case by simp
qed (simp add: ret_def)

text \<open>A vector that was stored comes back.\<close>

lemma rmap_all: "(\<And>x. x \<in> set xs \<Longrightarrow> f x = Inr (g x)) \<Longrightarrow> rmap f xs = Inr (map g xs)"
  by (induction xs) auto

lemma stored_vector_is_read:
  assumes "ee_loads env (vector_text v) = Some (JList (map (\<lambda>(r, t). JFloat r t) v))"
    and "\<forall>(r, t)\<in>set v. t = ee_repr env r"
  shows "cached_vector env (Some (vector_text v)) = Some v"
proof -
  let ?j = "\<lambda>(r, t). JFloat r t" and ?f = "\<lambda>x. rbind (py_float env x) (\<lambda>r. Inr (mk_float env r))"
  have each: "?f (?j p) = Inr p" if "p \<in> set v" for p
    using assms(2) that by (cases p) (auto simp: py_float_def json_float_def mk_float_def)
  have "rmap ?f (map ?j v) = rmap (\<lambda>p. ?f (?j p)) v" by (induction v) simp_all
  also have "\<dots> = Inr (map id v)" by (rule rmap_all) (simp add: each)
  finally have "float_vector env (JList (map ?j v)) = Inr v" by (simp add: float_vector_def json_iter_def)
  moreover have "vector_text v \<noteq> []" by (simp add: vector_text_def)
  ultimately show ?thesis using assms(1) by (simp add: cached_vector_def)
qed

section \<open>One vector for each text\<close>

lemma length_rmap: "rmap f xs = Inr ys \<Longrightarrow> length ys = length xs"
  by (induction xs arbitrary: ys) (auto simp: rbind_Inr_iff)

lemma length_insert_by [simp]: "length (insert_by le x xs) = Suc (length xs)"
  by (induction xs) auto

lemma length_sort_by [simp]: "length (sort_by le xs) = length xs"
  unfolding sort_by_def by (induction xs) simp_all

lemma length_rows_by_index: "rows_by_index rows = Inr ds \<Longrightarrow> length ds = length rows"
  by (auto simp: rows_by_index_def rbind_Inr_iff Let_def dest: length_rmap split: if_splits)

lemma length_checked_vectors: "checked_vectors env cfg err a b vs = Inr xs \<Longrightarrow> length xs = length vs"
  by (auto simp: checked_vectors_def float_vectors_def dest: length_rmap split: if_splits)

lemma length_float_vector: "float_vector env (JList xs) = Inr v \<Longrightarrow> length v = length xs"
  by (auto simp: float_vector_def json_iter_def rbind_Inr_iff dest: length_rmap)

lemma rmap_members: "rmap f xs = Inr ys \<Longrightarrow> y \<in> set ys \<Longrightarrow> \<exists>x\<in>set xs. f x = Inr y"
  by (induction xs arbitrary: ys) (auto simp: rbind_Inr_iff)

lemma width_checked_vectors:
  assumes "checked_vectors env cfg err a b vs = Inr xs" and "v \<in> set xs"
  shows "int (length v) = embedding_dim cfg"
proof -
  from assms(1) have all: "list_all (\<lambda>v. case v of JList xs \<Rightarrow> int (length xs) = embedding_dim cfg | _ \<Rightarrow> False) vs"
    and "rmap (float_vector env) vs = Inr xs"
    by (auto simp: checked_vectors_def float_vectors_def split: if_splits)
  from rmap_members [OF this(2) assms(2)] obtain w where w: "w \<in> set vs" "float_vector env w = Inr v" by blast
  with all have "case w of JList xs \<Rightarrow> int (length xs) = embedding_dim cfg | _ \<Rightarrow> False" unfolding list_all_iff by blast
  then obtain ws where "w = JList ws" "int (length ws) = embedding_dim cfg" by (cases w) auto
  with w show ?thesis by (auto dest: length_float_vector)
qed

lemma checked_vectors_shape:
  "checked_vectors env cfg err a b vs = Inr xs \<Longrightarrow> length xs = length vs \<and> (\<forall>v\<in>set xs. int (length v) = embedding_dim cfg)"
  using length_checked_vectors width_checked_vectors by blast

lemma add_tokens_length: "add_tokens env w ts vs = Inr xs \<Longrightarrow> length xs = length vs"
  by (induction ts arbitrary: vs) (auto simp: Let_def split: if_splits prod.splits)

lemma hash_embed_width: "hash_embed env w t = Inr v \<Longrightarrow> length v = nat w"
  by (auto simp: hash_embed_def rbind_Inr_iff normalized_vector_def dest!: add_tokens_length)

lemma json_list_case: "(case v of JList xs \<Rightarrow> f xs | _ \<Rightarrow> Inl e) = Inr y \<longleftrightarrow> (\<exists>xs. v = JList xs \<and> f xs = Inr y)"
  by (cases v) auto

lemma nvidia_vectors_shape:
  assumes "nvidia_vectors env cfg texts body = Inr vs"
  shows "length vs = length texts \<and> (\<forall>v\<in>set vs. int (length v) = embedding_dim cfg)"
  using assms
  by (auto simp: nvidia_vectors_def rbind_Inr_iff json_list_case dest!: length_rows_by_index checked_vectors_shape
      split: if_splits)

lemma remote_vectors_shape:
  assumes "remote_vectors env cfg texts body = Inr vs"
  shows "length vs = length texts \<and> (\<forall>v\<in>set vs. int (length v) = embedding_dim cfg)"
  using assms
  by (auto simp: remote_vectors_def rbind_Inr_iff json_list_case dest!: checked_vectors_shape split: if_splits)

lemma length_huggingface_vectors: "huggingface_vectors env texts body = Inr vs \<Longrightarrow> length vs = length texts"
  by (auto simp: huggingface_vectors_def rbind_Inr_iff float_vectors_def dest: length_rmap split: if_splits)

lemma remote_embed_shape:
  "remote_embed env cfg texts s = (Inr vs, t) \<Longrightarrow> length vs = length texts \<and> (\<forall>v\<in>set vs. int (length v) = embedding_dim cfg)"
  by (auto simp: remote_embed_def bind_act_Inr_iff lift_result_Inr raise_def dest: remote_vectors_shape split: if_splits)

lemma nvidia_embed_shape:
  "nvidia_embed env cfg texts ty s = (Inr vs, t) \<Longrightarrow> length vs = length texts \<and> (\<forall>v\<in>set vs. int (length v) = embedding_dim cfg)"
  by (auto simp: nvidia_embed_def bind_act_Inr_iff lift_result_Inr raise_def dest: nvidia_vectors_shape split: if_splits)

lemma length_huggingface_embed: "huggingface_embed env cfg texts s = (Inr vs, t) \<Longrightarrow> length vs = length texts"
  by (auto simp: huggingface_embed_def bind_act_Inr_iff lift_result_Inr raise_def dest: length_huggingface_vectors
      split: if_splits option.splits)

lemma hash_vectors_shape:
  "hash_vectors env cfg texts s = (Inr vs, t) \<Longrightarrow> length vs = length texts \<and> (\<forall>v\<in>set vs. length v = nat (embedding_dim cfg))"
  by (auto simp: hash_vectors_def lift_result_Inr dest: length_rmap hash_embed_width rmap_members)

text \<open>The cached vectors stay where they are, the generated ones fill the gaps in order.\<close>

lemma length_missing: "length texts = length cached \<Longrightarrow> length (missing_texts texts cached) = length (filter (\<lambda>v. v = None) cached)"
  by (induction texts cached rule: list_induct2) (auto simp: missing_texts_def)

lemma fill_missing_full:
  "length gs = length (filter (\<lambda>v. v = None) cached) \<Longrightarrow>
     None \<notin> set (fill_missing cached gs) \<and> length (fill_missing cached gs) = length cached"
  by (induction cached gs rule: fill_missing.induct) auto

lemma length_map_filter_id: "None \<notin> set xs \<Longrightarrow> length (List.map_filter id xs) = length xs"
proof (induction xs)
  case (Cons x xs)
  then show ?case by (cases x) (simp_all add: map_filter_simps)
qed (simp add: map_filter_simps)

lemma length_fetched_vectors:
  assumes "bind_act (remote_embed env cfg (missing_texts texts cached)) (\<lambda>generated.
       then_act (set_embeddings env cfg (zip (missing_texts texts cached) generated))
         (ret (List.map_filter id (fill_missing cached generated)))) s = (Inr vs, t)"
    and "length cached = length texts"
  shows "length vs = length texts"
proof -
  from assms(1) obtain gs u where gs: "remote_embed env cfg (missing_texts texts cached) s = (Inr gs, u)"
    and vs: "vs = List.map_filter id (fill_missing cached gs)"
    by (auto simp: bind_act_Inr_iff then_act_Inr_iff ret_Inr)
  from remote_embed_shape [OF gs] length_missing [of texts cached] assms(2)
  have "length gs = length (filter (\<lambda>v. v = None) cached)" by simp
  from fill_missing_full [OF this] vs length_map_filter_id assms(2) show ?thesis by metis
qed

definition counting_backends :: "string list" where    \<comment> \<open>those whose answers are counted\<close>
  "counting_backends = [''azure-ml'', ''local-hash'', ''huggingface'', ''hf'', ''nvidia'']"

lemma length_embed_texts:
  assumes run: "embed_texts env cfg (Some m) ty texts s = (Inr vs, t)" and m: "m \<noteq> []" "starts_any m counting_backends"
  shows "length vs = length texts"
proof (cases "texts = []")
  case True
  with run show ?thesis by (simp add: embed_texts_def ret_def)
next
  case False
  have model: "chosen_model cfg (Some m) = m" using m by (simp add: chosen_model_def)
  consider "starts_with m ''azure-ml''" | "\<not> starts_with m ''azure-ml''" "starts_with m ''local-hash''"
    | "\<not> starts_with m ''azure-ml''" "\<not> starts_with m ''local-hash''" "starts_with m ''azure-openai''"
    | "\<not> starts_with m ''azure-ml''" "\<not> starts_with m ''local-hash''" "\<not> starts_with m ''azure-openai''"
        "starts_any m [''huggingface'', ''hf'']"
    | "\<not> starts_with m ''azure-ml''" "\<not> starts_with m ''local-hash''" "\<not> starts_with m ''azure-openai''"
        "\<not> starts_any m [''huggingface'', ''hf'']" "starts_with m ''nvidia''"
    using m(2) by (auto simp: counting_backends_def starts_any_def)
  then show ?thesis
  proof cases
    case 3
    with m(2) show ?thesis by (cases m) (auto simp: counting_backends_def starts_any_def)
  qed (use run False model in \<open>auto simp: embed_texts_def Let_def raise_def dest: hash_vectors_shape length_huggingface_embed nvidia_embed_shape\<close>)
qed

text \<open>
  Embedding gives one vector for each text or raises, for the model gateway, the hash backend, Hugging Face and NVIDIA: the
  vectors of the cache and the generated ones together are as many as the texts.
\<close>

theorem one_vector_for_each_text:
  assumes "chosen_model cfg name \<noteq> []" and "starts_any (chosen_model cfg name) counting_backends"
    and run: "embed_texts_async env cfg name ty texts s = (Inr vs, t)"
  shows "length vs = length texts"
proof (cases "texts = [] \<or> \<not> starts_with (chosen_model cfg name) ''azure-ml''")
  case True
  show ?thesis
  proof (cases "texts = []")
    case True
    with run show ?thesis by (simp add: embed_texts_async_def ret_def)
  next
    case False
    with True run have "embed_texts env cfg (Some (chosen_model cfg name)) ty texts s = (Inr vs, t)"
      by (simp add: embed_texts_async_def Let_def)
    from length_embed_texts [OF this assms(1,2)] show ?thesis .
  qed
next
  case False
  let ?fetch = "\<lambda>cached. bind_act (remote_embed env cfg (missing_texts texts cached)) (\<lambda>generated.
       then_act (set_embeddings env cfg (zip (missing_texts texts cached) generated))
         (ret (List.map_filter id (fill_missing cached generated))))"
  obtain cached u where cached: "get_embeddings env cfg texts s = (Inr cached, u)" "length cached = length texts"
    using get_embeddings_returns by blast
  from run False cached(1) have rest: "(if missing_texts texts cached = [] then ret (List.map_filter id cached) else ?fetch cached) u = (Inr vs, t)"
    by (simp add: embed_texts_async_def Let_def bind_act_def)
  show ?thesis
  proof (cases "missing_texts texts cached = []")
    case True
    with length_missing [of texts cached] cached(2) have "None \<notin> set cached" by (auto simp: filter_empty_conv)
    moreover from rest True have "vs = List.map_filter id cached" by (simp add: ret_def)
    ultimately show ?thesis using cached(2) length_map_filter_id [of cached] by metis
  next
    case False
    with rest have "?fetch cached u = (Inr vs, t)" by simp
    from length_fetched_vectors [OF this cached(2)] show ?thesis .
  qed
qed

section \<open>Pacing\<close>

definition is_request :: "effect \<Rightarrow> effect \<Rightarrow> bool" where    \<comment> \<open>a request to the same URL\<close>
  "is_request e f = (case (e, f) of (Http m u _, Http m' u' _) \<Rightarrow> m = m' \<and> u = u' | _ \<Rightarrow> False)"

definition request_times :: "embed_env \<Rightarrow> effect \<Rightarrow> effect list \<Rightarrow> rat list" where
  "request_times env e tr = map (\<lambda>i. ee_clock env (take i tr)) (filter (\<lambda>i. is_request e (tr ! i)) [0..<length tr])"

lemma request_times_snoc:
  "request_times env e (tr @ [f]) = request_times env e tr @ (if is_request e f then [ee_clock env tr] else [])"
proof -
  have "filter (\<lambda>i. is_request e ((tr @ [f]) ! i)) [0..<length tr] = filter (\<lambda>i. is_request e (tr ! i)) [0..<length tr]"
    by (rule filter_cong) (auto simp: nth_append)
  then show ?thesis by (simp add: request_times_def)
qed

definition min_interval :: "settings \<Rightarrow> rat" where
  "min_interval cfg = max 0 (embedding_request_min_interval_seconds cfg)"

definition paced :: "embed_env \<Rightarrow> settings \<Rightarrow> effect \<Rightarrow> embed_process session \<Rightarrow> bool" where
  "paced env cfg e s \<longleftrightarrow> sorted_wrt (\<lambda>a b. a + min_interval cfg \<le> b) (request_times env e (trace s))
     \<and> (\<forall>x\<in>set (request_times env e (trace s)). x \<le> ep_last_request_at (work s))"

definition paces :: "embed_env \<Rightarrow> settings \<Rightarrow> effect \<Rightarrow> nat \<Rightarrow> embed_process session \<Rightarrow> embed_process session \<Rightarrow> bool" where
  "paces env cfg e k s t \<longleftrightarrow> (paced env cfg e s \<longrightarrow> paced env cfg e t) \<and> ep_backoff_until (work s) \<le> ep_backoff_until (work t)
     \<and> (\<exists>ys. request_times env e (trace t) = request_times env e (trace s) @ ys \<and> length ys \<le> k
          \<and> (\<forall>y\<in>set ys. ep_backoff_until (work s) \<le> y))"

lemma paces_refl: "paces env cfg e k s s"
  unfolding paces_def by (intro conjI impI exI [of _ "[]"]) simp_all

lemma paces_trans:
  assumes "paces env cfg e j s u" and "paces env cfg e k u t"
  shows "paces env cfg e (j + k) s t"
proof -
  from assms obtain xs ys where xs: "request_times env e (trace u) = request_times env e (trace s) @ xs" "length xs \<le> j"
      "\<forall>y\<in>set xs. ep_backoff_until (work s) \<le> y"
    and ys: "request_times env e (trace t) = request_times env e (trace u) @ ys" "length ys \<le> k"
      "\<forall>y\<in>set ys. ep_backoff_until (work u) \<le> y"
    unfolding paces_def by blast
  from assms have mono: "ep_backoff_until (work s) \<le> ep_backoff_until (work u)"
    "ep_backoff_until (work u) \<le> ep_backoff_until (work t)" unfolding paces_def by blast+
  from xs ys mono have "request_times env e (trace t) = request_times env e (trace s) @ (xs @ ys) \<and> length (xs @ ys) \<le> j + k
      \<and> (\<forall>y\<in>set (xs @ ys). ep_backoff_until (work s) \<le> y)" by fastforce
  with assms mono show ?thesis unfolding paces_def by (meson order_trans)
qed

lemma paces_more: "paces env cfg e j s t \<Longrightarrow> j \<le> k \<Longrightarrow> paces env cfg e k s t"
  unfolding paces_def by (meson order_trans)

definition clock_laws :: "embed_env \<Rightarrow> bool" where
  "clock_laws env \<longleftrightarrow> (\<forall>tr e. ee_clock env tr \<le> ee_clock env (tr @ [e]))
     \<and> (\<forall>tr d. ee_clock env tr + d \<le> ee_clock env (tr @ [Sleep d]))"

lemma paces_pause: "is_request e (Sleep d) = False \<Longrightarrow> paces env cfg e 0 s (snd (pause d s))"
  by (simp add: paces_def paced_def pause_def request_times_snoc)

lemma paces_extend: "paces env cfg e 0 s (snd (extend_azure_backoff env d s))"
  by (simp add: paces_def paced_def extend_azure_backoff_def)

text \<open>Waiting and then sending: the request is late enough after the last one and after the end of the back-off.\<close>

lemma paces_request:
  assumes clock: "clock_laws env" and e: "is_request e e" "\<And>d. \<not> is_request e (Sleep d)"
  shows "paces env cfg e 1 s (snd (bind_act (respect_embedding_min_interval env cfg) (\<lambda>_. call (ee_send env) e) s))"
proof -
  let ?next = "max (ep_last_request_at (work s) + min_interval cfg) (ep_backoff_until (work s))"
  let ?tr = "if ee_clock env (trace s) < ?next then trace s @ [Sleep (?next - ee_clock env (trace s))] else trace s"
  let ?t = "snd (bind_act (respect_embedding_min_interval env cfg) (\<lambda>_. call (ee_send env) e) s)"
  have t: "trace ?t = ?tr @ [e]" "ep_last_request_at (work ?t) = ee_clock env ?tr" "ep_backoff_until (work ?t) = ep_backoff_until (work s)"
    by (simp_all add: respect_embedding_min_interval_def bind_act_def call_def Let_def min_interval_def)
  have "?next \<le> ee_clock env ?tr"
  proof (cases "ee_clock env (trace s) < ?next")
    case True
    have "ee_clock env (trace s) + (?next - ee_clock env (trace s)) \<le> ee_clock env (trace s @ [Sleep (?next - ee_clock env (trace s))])"
      using clock unfolding clock_laws_def by blast
    with True show ?thesis by simp
  next
    case False
    then have "?next \<le> ee_clock env (trace s)" by (simp only: not_less)
    moreover from False have "?tr = trace s" by (simp only: if_False)
    ultimately show ?thesis by (simp only:)
  qed
  then have late: "ep_last_request_at (work s) + min_interval cfg \<le> ee_clock env ?tr" "ep_backoff_until (work s) \<le> ee_clock env ?tr"
    by simp_all
  have times: "request_times env e (trace ?t) = request_times env e (trace s) @ [ee_clock env ?tr]"
    unfolding t(1) using e by (simp add: request_times_snoc)
  have "0 \<le> min_interval cfg" by (simp add: min_interval_def)
  with late have "ep_last_request_at (work s) \<le> ee_clock env ?tr" by linarith
  with late have "paced env cfg e ?t" if "paced env cfg e s"
    using that unfolding paced_def times t(2) by (fastforce simp: sorted_wrt_append)
  with times t(3) late show ?thesis unfolding paces_def by simp
qed

lemma paces_attempts:
  assumes clock: "clock_laws env" and e: "is_request e e" "\<And>d. \<not> is_request e (Sleep d)"
  shows "attempts_loop env cfg True e a n s = (r, t) \<Longrightarrow> paces env cfg e n s t"
proof (induction n arbitrary: a s)
  case 0
  then show ?case by (simp add: ret_def paces_refl)
next
  case (Suc n)
  obtain reply u where first: "bind_act (respect_embedding_min_interval env cfg) (\<lambda>_. call (ee_send env) e) s = (Inr reply, u)"
    by (simp add: respect_embedding_min_interval_def bind_act_def call_def Let_def)
  have one: "paces env cfg e 1 s u" using paces_request [OF clock e, of cfg s] first by simp
  have done_now: "paces env cfg e (Suc n) s u" by (rule paces_more [OF one]) simp
  have again: "paces env cfg e (Suc n) s t"
    if w: "paces env cfg e 0 u w" and loop: "attempts_loop env cfg True e (Suc a) n w = (r, t)" for w
  proof -
    from paces_trans [OF one paces_trans [OF w Suc.IH [OF loop]]] show ?thesis by simp
  qed
  have pause: "paces env cfg e 0 x (snd (pause d x))" for d x using e(2) by (intro paces_pause) simp
  have run: "(case reply of
          Unreachable cls \<Rightarrow>
            if int a \<ge> embedding_request_max_retries cfg then raise (httpx_error cls) u
            else then_act (pause (embedding_retry_delay env cfg (trace u) None a)) (attempts_loop env cfg True e (Suc a) n) u
        | Broken cls \<Rightarrow> raise (httpx_error cls) u
        | Answered r \<Rightarrow>
            if pr_status r \<in> set retryable_status_codes \<and> int a < embedding_request_max_retries cfg then
              (let d = embedding_retry_delay env cfg (trace u) (Some (pr_headers r)) a in
               then_act (when_act True (extend_azure_backoff env d)) (then_act (pause d) (attempts_loop env cfg True e (Suc a) n)) u)
            else if \<not> response_ok (pr_status r) then raise (httpx_error ''HTTPStatusError'') u
            else ret (Some (pr_body r)) u) = (r, t)"
  proof -
    obtain v where v: "respect_embedding_min_interval env cfg s = (Inr (), v)"
      by (simp add: respect_embedding_min_interval_def Let_def)
    with first have "call (ee_send env) e v = (Inr reply, u)" by (simp add: bind_act_def)
    with v Suc.prems show ?thesis by (simp add: then_act_def bind_act_def when_act_def [where m = "respect_embedding_min_interval env cfg"])
  qed
  show ?case
  proof (cases reply)
    case (Answered x)
    let ?d = "embedding_retry_delay env cfg (trace u) (Some (pr_headers x)) a"
    let ?w = "snd (pause ?d (snd (extend_azure_backoff env ?d u)))"
    show ?thesis
    proof (cases "pr_status x \<in> set retryable_status_codes \<and> int a < embedding_request_max_retries cfg")
      case True
      with run Answered have "attempts_loop env cfg True e (Suc a) n ?w = (r, t)"
        by (simp add: Let_def then_act_def bind_act_def extend_azure_backoff_def pause_def when_act_def)
      moreover have "paces env cfg e 0 u ?w" using paces_trans [OF paces_extend pause] by simp
      ultimately show ?thesis using again by blast
    next
      case False
      with run Answered have "t = u" by (auto simp: raise_def ret_def split: if_splits)
      with done_now show ?thesis by simp
    qed
  next
    case (Unreachable cls)
    show ?thesis
    proof (cases "int a \<ge> embedding_request_max_retries cfg")
      case True
      with run Unreachable have "t = u" by (auto simp: raise_def)
      with done_now show ?thesis by simp
    next
      case False
      with run Unreachable have "attempts_loop env cfg True e (Suc a) n (snd (pause (embedding_retry_delay env cfg (trace u) None a) u)) = (r, t)"
        by (simp add: then_act_def bind_act_def pause_def)
      with again pause show ?thesis by blast
    qed
  next
    case (Broken cls)
    with run done_now show ?thesis by (auto simp: raise_def)
  qed
qed

lemma embedding_delay_bounds:
  assumes "0 \<le> embedding_request_max_backoff_seconds cfg" and "0 \<le> embedding_request_initial_backoff_seconds cfg"
    and "0 \<le> ee_random env tr" "ee_random env tr \<le> 1"
  shows "0 \<le> embedding_retry_delay env cfg tr hs a
    \<and> embedding_retry_delay env cfg tr hs a \<le> embedding_request_max_backoff_seconds cfg + 1 / 2"
proof -
  let ?capped = "min (embedding_request_initial_backoff_seconds cfg * 2 ^ a) (embedding_request_max_backoff_seconds cfg)"
  let ?jitter = "min (1 / 2) (?capped * (1 / 10))"
  have header: "0 \<le> d \<and> d \<le> embedding_request_max_backoff_seconds cfg"
    if "header_delay env cfg h k q = Some d" for h k q d
    using that assms(1) by (auto simp: header_delay_def split: option.splits if_splits)
  have capped: "0 \<le> ?capped" "?capped \<le> embedding_request_max_backoff_seconds cfg" using assms by simp_all
  have jitter: "0 \<le> ?jitter" "?jitter \<le> 1 / 2" using capped(1) by simp_all
  have "ee_random env tr * ?jitter \<le> 1 * ?jitter" using assms(4) jitter(1) by (rule mult_right_mono)
  then have "0 \<le> ee_random env tr * ?jitter" "ee_random env tr * ?jitter \<le> 1 / 2"
    using assms(3) jitter by (simp, linarith)
  then have own: "0 \<le> ?capped + ee_random env tr * ?jitter"
      "?capped + ee_random env tr * ?jitter \<le> embedding_request_max_backoff_seconds cfg + 1 / 2"
    using capped by linarith+
  show ?thesis
  proof (cases "case hs of None \<Rightarrow> None | Some h \<Rightarrow> (case header_delay env cfg h ''x-ms-retry-after-ms'' 1000 of
                Some d \<Rightarrow> Some d | None \<Rightarrow> header_delay env cfg h ''retry-after'' 1)")
    case None
    then have "embedding_retry_delay env cfg tr hs a = ?capped + ee_random env tr * ?jitter"
      by (simp only: embedding_retry_delay_def Let_def option.simps)
    with own show ?thesis by simp
  next
    case (Some d)
    then have "embedding_retry_delay env cfg tr hs a = d" by (simp only: embedding_retry_delay_def Let_def option.simps)
    moreover from Some header have "0 \<le> d \<and> d \<le> embedding_request_max_backoff_seconds cfg" by (auto split: option.splits)
    ultimately show ?thesis by simp
  qed
qed

lemma azure_embed_paces:
  assumes "clock_laws env" and run: "azure_embed env cfg texts s = (r, t)"
  shows "paces env cfg (azure_request cfg texts) (attempts_of cfg) s t"
proof (cases "azure_openai_embeddings_configured cfg")
  case False
  with run show ?thesis by (auto simp: azure_embed_def raise_def paces_refl)
next
  case True
  obtain q u where u: "attempts_loop env cfg True (azure_request cfg texts) 0 (attempts_of cfg) s = (q, u)"
    by (cases "attempts_loop env cfg True (azure_request cfg texts) 0 (attempts_of cfg) s")
  have "paces env cfg (azure_request cfg texts) (attempts_of cfg) s u"
    by (rule paces_attempts [OF assms(1) _ _ u]) (simp_all add: is_request_def azure_request_def)
  moreover from run True u have "t = u"
    by (auto simp: azure_embed_def bind_act_def raise_def lift_result_def split: sum.splits option.splits)
  ultimately show ?thesis by simp
qed


section \<open>Concrete runs\<close>

fun slept :: "effect list \<Rightarrow> rat" where
  "slept [] = 0"
| "slept (Sleep d # tr) = max 0 d + slept tr"
| "slept (_ # tr) = slept tr"

lemma slept_snoc: "slept (tr @ [e]) = slept tr + (case e of Sleep d \<Rightarrow> max 0 d | _ \<Rightarrow> 0)"
  by (induction tr rule: slept.induct) (auto split: effect.splits)

text \<open>A provider that is overloaded once and then answers, a clock that shows the time slept, and no cache.\<close>

definition sample_embed_env :: embed_env where
  "sample_embed_env = \<lparr>ee_send = (\<lambda>tr _. Answered (if list_ex (\<lambda>e. case e of Http _ _ _ \<Rightarrow> True | _ \<Rightarrow> False) tr
       then \<lparr>pr_status = 200, pr_headers = [], pr_body = Some (JObj [(''data'', JList [JObj [(''embedding'', JList [JInt 2])]])])\<rparr>
       else \<lparr>pr_status = 429, pr_headers = [(''retry-after'', ''3'')], pr_body = None\<rparr>)),
     ee_redis = (\<lambda>_ _. None), ee_redis_client = True, ee_clock = slept, ee_time = slept, ee_random = (\<lambda>_. 0),
     ee_sha256 = (\<lambda>_. replicate 32 0), ee_sqrt = (\<lambda>r. if r = 4 then 2 else r), ee_repr = (\<lambda>_. []),
     ee_float = (\<lambda>s. if s = ''3'' then Some 3 else None), ee_loads = (\<lambda>_. None), ee_credential = (\<lambda>_. Inr (''token'', 0)),
     ee_load_model = (\<lambda>_. Inr ()), ee_encode = (\<lambda>_ _. Inr [])\<rparr>"

definition sample_embed_process :: embed_process where
  "sample_embed_process = \<lparr>ep_last_request_at = 0, ep_backoff_until = 0, ep_token = None, ep_model = None\<rparr>"

definition sample_azure_settings :: settings where
  "sample_azure_settings = default_settings ''host'' \<lparr>azure_openai_api_key := ''key'', azure_openai_endpoint := ''https://a'',
     azure_openai_embedding_deployment := ''d''\<rparr>"

lemma sample_clock: "clock_laws sample_embed_env"
  by (simp add: clock_laws_def sample_embed_env_def slept_snoc split: effect.splits)

definition sample_azure_request :: effect where
  "sample_azure_request = azure_request sample_azure_settings [''x'']"

lemma sample_attempts: "attempts_of sample_azure_settings = Suc (Suc 7)" "azure_openai_embeddings_configured sample_azure_settings"
    "embedding_request_max_retries sample_azure_settings = 8" "embedding_request_min_interval_seconds sample_azure_settings = 1 / 4"
    "embedding_request_max_backoff_seconds sample_azure_settings = 20"
  by (simp_all add: attempts_of_def sample_azure_settings_def default_settings_def azure_openai_embeddings_configured_def
      py_strip_def py_lstrip_def is_space_def in_range_def cp_def)

lemma sample_second_attempt:
  "attempts_loop sample_embed_env sample_azure_settings True sample_azure_request (Suc 0) (Suc n)
     \<lparr>committed = p, work = \<lparr>ep_last_request_at = 1 / 4, ep_backoff_until = 13 / 4, ep_token = None, ep_model = None\<rparr>,
      trace = [Sleep (1 / 4), sample_azure_request, Sleep 3]\<rparr>
   = (Inr (Some (Some (JObj [(''data'', JList [JObj [(''embedding'', JList [JInt 2])]])]))),
      \<lparr>committed = p, work = \<lparr>ep_last_request_at = 13 / 4, ep_backoff_until = 13 / 4, ep_token = None, ep_model = None\<rparr>,
       trace = [Sleep (1 / 4), sample_azure_request, Sleep 3, sample_azure_request]\<rparr>)"
  by (simp add: then_act_def bind_act_def when_act_def respect_embedding_min_interval_def call_def Let_def ret_def
      sample_attempts sample_embed_env_def sample_azure_request_def azure_request_def retryable_status_codes_def response_ok_def)

lemma sample_azure_run:
  "azure_embed sample_embed_env sample_azure_settings [''x''] (new_session sample_embed_process)
   = (Inr [[(1, [])]],
      \<lparr>committed = sample_embed_process,
       work = \<lparr>ep_last_request_at = 13 / 4, ep_backoff_until = 13 / 4, ep_token = None, ep_model = None\<rparr>,
       trace = [Sleep (1 / 4), sample_azure_request, Sleep 3, sample_azure_request]\<rparr>)"
proof -
  have "attempts_loop sample_embed_env sample_azure_settings True sample_azure_request 0 (Suc (Suc 7)) (new_session sample_embed_process)
    = attempts_loop sample_embed_env sample_azure_settings True sample_azure_request (Suc 0) (Suc 7)
     \<lparr>committed = sample_embed_process, work = \<lparr>ep_last_request_at = 1 / 4, ep_backoff_until = 13 / 4, ep_token = None, ep_model = None\<rparr>,
      trace = [Sleep (1 / 4), sample_azure_request, Sleep 3]\<rparr>"
    apply (subst attempts_loop.simps(2))
    apply (simp add: then_act_def bind_act_def when_act_def respect_embedding_min_interval_def call_def Let_def ret_def
      sample_attempts sample_embed_env_def sample_azure_request_def azure_request_def retryable_status_codes_def response_ok_def
      sample_embed_process_def new_session_def embedding_retry_delay_def header_delay_def extend_azure_backoff_def pause_def
      del: attempts_loop.simps)
    done
  moreover have "azure_vectors sample_embed_env (Some (JObj [(''data'', JList [JObj [(''embedding'', JList [JInt 2])]])])) = Inr [[(1, [])]]"
    by (simp add: azure_vectors_def response_json_def subscript_def json_iter_def rows_by_index_def as_dict_def normalize_in_place_def
      py_float_def json_float_def normalized_vector_def norm_or_one_def mk_float_def sample_embed_env_def Let_def)
  moreover have eight: "Suc 7 = 8" by simp
  note second = sample_second_attempt [of 7 sample_embed_process, unfolded eight]
  ultimately show ?thesis
    by (simp add: azure_embed_def sample_attempts sample_azure_request_def [symmetric] second bind_act_def lift_result_def
      del: attempts_loop.simps)
qed


text \<open>The hash backend on two dimensions.\<close>

lemma one_vector_for_each_text_witness:
  "\<exists>vs t. embed_texts_async sample_embed_env (default_settings ''host''\<lparr>embedding_dim := 2\<rparr>) None ''passage'' [''x'']
      (new_session sample_embed_process) = (Inr vs, t) \<and> length vs = length [''x'']"
proof -
  let ?cfg = "default_settings ''host''\<lparr>embedding_dim := 2\<rparr>"
  have model: "chosen_model ?cfg None = ''local-hash-v1''" "embedding_dim ?cfg = 2"
      "chosen_model ?cfg (Some ''local-hash-v1'') = ''local-hash-v1''"
    by (simp_all add: chosen_model_def default_settings_def)
  have "hash_embed sample_embed_env 2 ''x'' = Inr [(1, []), (0, [])]"
    by (simp add: hash_embed_def py_lower_def lower_char_def split_words_def is_space_def in_range_def cp_def token_slot_def
        normalized_vector_def norm_or_one_def mk_float_def sample_embed_env_def Let_def eval_nat_numeral
        is_upper_cased_def)
  then have run: "embed_texts_async sample_embed_env ?cfg None ''passage'' [''x''] (new_session sample_embed_process)
      = (Inr [[(1, []), (0, [])]], new_session sample_embed_process)"
    by (simp add: embed_texts_async_def embed_texts_def Let_def model hash_vectors_def lift_result_def)
  from one_vector_for_each_text [OF _ _ run] run show ?thesis
    by (auto simp: model counting_backends_def starts_any_def)
qed

end
