(* ===== verification/Batcher.thy ===== *)
theory Batcher
  imports Embeddings
begin

text \<open>
  \<open>AsyncEmbeddingBatcher\<close> of \<open>retrieval/embeddings.py\<close>: the coalescing of concurrent embedding calls. The lock makes two pieces of code
  atomic, adding a request and taking what is pending; between them the tasks of the callers and the one timer task interleave, which
  is a step relation here. What the provider answers is an argument of the step that ends a flush.
\<close>

section \<open>State and operations\<close>

record batch_request =
  bq_id :: nat    \<comment> \<open>its future\<close>
  bq_texts :: "string list"
  bq_model :: "string option"
  bq_input_type :: string

text \<open>\<open>_flush_task\<close>: no task or a finished one, one that sleeps, one that waits for the provider with a batch.\<close>

datatype flush_task =
    Finished
  | Asleep
  | Flushing "batch_request list"

type_synonym vectors = "pyfloat list list"

record batcher =
  ba_pending :: "batch_request list"
  ba_pending_texts :: nat
  ba_flush_task :: flush_task
  ba_due :: nat    \<comment> \<open>callers that will flush and have not yet taken the lock\<close>
  ba_flights :: "batch_request list list"    \<comment> \<open>batches for which a caller waits for the provider\<close>
  ba_answers :: "(nat \<times> vectors result) list"    \<comment> \<open>the futures that are done\<close>
  ba_cancelled :: "nat list"
  ba_log :: "batch_request list"    \<comment> \<open>every request made\<close>

definition new_batcher :: batcher where
  "new_batcher = \<lparr>ba_pending = [], ba_pending_texts = 0, ba_flush_task = Finished, ba_due = 0, ba_flights = [], ba_answers = [],
     ba_cancelled = [], ba_log = []\<rparr>"

text \<open>\<open>embed\<close> up to the release of the lock, for at least one text.\<close>

definition submit :: "int \<Rightarrow> string list \<Rightarrow> string option \<Rightarrow> string \<Rightarrow> batcher \<Rightarrow> batcher" where
  "submit max_texts texts model input_type b =
     (let r = \<lparr>bq_id = length (ba_log b), bq_texts = texts, bq_model = model, bq_input_type = input_type\<rparr>;
          b = b\<lparr>ba_pending := ba_pending b @ [r], ba_pending_texts := ba_pending_texts b + length texts, ba_log := ba_log b @ [r]\<rparr>
      in if int (ba_pending_texts b) \<ge> max 1 max_texts then b\<lparr>ba_due := ba_due b + 1\<rparr>
         else if ba_flush_task b = Finished then b\<lparr>ba_flush_task := Asleep\<rparr>
         else b)"

text \<open>The locked part of \<open>_flush\<close>.\<close>

definition take_pending :: "batcher \<Rightarrow> batch_request list \<times> batcher" where
  "take_pending b = (ba_pending b, b\<lparr>ba_pending := [], ba_pending_texts := 0\<rparr>)"

definition mixed :: "batch_request list \<Rightarrow> bool" where
  "mixed rs = (case rs of [] \<Rightarrow> False
     | first # _ \<Rightarrow> list_ex (\<lambda>r. bq_model r \<noteq> bq_model first \<or> bq_input_type r \<noteq> bq_input_type first) rs)"

fun deal :: "vectors \<Rightarrow> nat \<Rightarrow> batch_request list \<Rightarrow> (nat \<times> vectors result) list" where    \<comment> \<open>from an offset\<close>
  "deal vs off [] = []"
| "deal vs off (r # rs) =
     (bq_id r, Inr (take (length (bq_texts r)) (drop off vs))) # deal vs (off + length (bq_texts r)) rs"

type_synonym embedder = "string option \<Rightarrow> string \<Rightarrow> string list \<Rightarrow> vectors result"

definition flush_answers :: "embedder \<Rightarrow> batch_request list \<Rightarrow> (nat \<times> vectors result) list" where
  "flush_answers provider rs = (case rs of [] \<Rightarrow> []
     | first # _ \<Rightarrow>
         (let failed = (\<lambda>e. map (\<lambda>r. (bq_id r, Inl e)) rs) in
          if mixed rs then failed (RuntimeError ''embedding batch contains mixed model or input types'')
          else (case provider (bq_model first) (bq_input_type first) (concat (map bq_texts rs)) of
              Inl e \<Rightarrow> failed e
            | Inr vs \<Rightarrow> deal vs 0 rs)))"

text \<open>A future that is done, also one that was cancelled, is left alone.\<close>

definition answer :: "embedder \<Rightarrow> batch_request list \<Rightarrow> batcher \<Rightarrow> batcher" where
  "answer provider rs b = b\<lparr>ba_answers := ba_answers b
     @ filter (\<lambda>(i, _). i \<notin> fst ` set (ba_answers b) \<and> i \<notin> set (ba_cancelled b)) (flush_answers provider rs)\<rparr>"

definition timer_takes :: "batcher \<Rightarrow> batcher" where
  "timer_takes b = (case take_pending b of (rs, b') \<Rightarrow> b'\<lparr>ba_flush_task := if rs = [] then Finished else Flushing rs\<rparr>)"

definition caller_takes :: "batcher \<Rightarrow> batcher" where
  "caller_takes b = (case take_pending b of (rs, b') \<Rightarrow>
     b'\<lparr>ba_due := ba_due b - 1, ba_flights := if rs = [] then ba_flights b else ba_flights b @ [rs]\<rparr>)"

definition drop_flight :: "nat \<Rightarrow> batcher \<Rightarrow> batcher" where
  "drop_flight i b = b\<lparr>ba_flights := take i (ba_flights b) @ drop (Suc i) (ba_flights b)\<rparr>"

definition cancel_future :: "nat \<Rightarrow> batcher \<Rightarrow> batcher" where
  "cancel_future i b = (if i \<in> fst ` set (ba_answers b) then b else b\<lparr>ba_cancelled := i # ba_cancelled b\<rparr>)"

text \<open>
  The steps. A caller that waits for its future and times out cancels that future; a caller that times out while it flushes is
  interrupted by \<open>CancelledError\<close>, which \<open>except Exception\<close> does not catch, so its batch is dropped unanswered. The flag
  says whether such interrupts happen.
\<close>

inductive batcher_step :: "bool \<Rightarrow> int \<Rightarrow> embedder \<Rightarrow> batcher \<Rightarrow> batcher \<Rightarrow> bool" for interrupts max_texts provider where
  submit: "texts \<noteq> [] \<Longrightarrow> batcher_step interrupts max_texts provider b (submit max_texts texts model input_type b)"
| timer_wakes: "ba_flush_task b = Asleep \<Longrightarrow> batcher_step interrupts max_texts provider b (timer_takes b)"
| timer_ends: "ba_flush_task b = Flushing rs \<Longrightarrow> batcher_step interrupts max_texts provider b (answer provider rs (b\<lparr>ba_flush_task := Finished\<rparr>))"
| caller_flushes: "0 < ba_due b \<Longrightarrow> batcher_step interrupts max_texts provider b (caller_takes b)"
| caller_ends: "i < length (ba_flights b) \<Longrightarrow> batcher_step interrupts max_texts provider b (answer provider (ba_flights b ! i) (drop_flight i b))"
| waiting_caller_cancelled: "i < length (ba_log b) \<Longrightarrow> batcher_step interrupts max_texts provider b (cancel_future i b)"
| due_caller_cancelled: "interrupts \<Longrightarrow> 0 < ba_due b \<Longrightarrow> batcher_step interrupts max_texts provider b (b\<lparr>ba_due := ba_due b - 1\<rparr>)"
| flushing_caller_cancelled: "interrupts \<Longrightarrow> i < length (ba_flights b) \<Longrightarrow> batcher_step interrupts max_texts provider b (drop_flight i b)"

inductive batcher_reachable :: "bool \<Rightarrow> int \<Rightarrow> embedder \<Rightarrow> batcher \<Rightarrow> bool" for interrupts max_texts provider where
  start: "batcher_reachable interrupts max_texts provider new_batcher"
| step: "batcher_reachable interrupts max_texts provider b \<Longrightarrow> batcher_step interrupts max_texts provider b b' \<Longrightarrow> batcher_reachable interrupts max_texts provider b'"


section \<open>Every request gets its own vectors\<close>

text \<open>An embedder that treats texts one by one, whatever they are sent with.\<close>

definition pointwise :: "(string option \<Rightarrow> string \<Rightarrow> string \<Rightarrow> pyfloat list) \<Rightarrow> embedder \<Rightarrow> bool" where
  "pointwise f provider \<longleftrightarrow> (\<forall>m ty ts vs. provider m ty ts = Inr vs \<longrightarrow> vs = map (f m ty) ts)"

definition own_vectors :: "(string option \<Rightarrow> string \<Rightarrow> string \<Rightarrow> pyfloat list) \<Rightarrow> batch_request \<Rightarrow> vectors" where
  "own_vectors f r = map (f (bq_model r) (bq_input_type r)) (bq_texts r)"

lemma deal_own:
  assumes "drop off vs = map g (concat (map bq_texts rs))"
  shows "deal vs off rs = map (\<lambda>r. (bq_id r, Inr (map g (bq_texts r)))) rs"
  using assms
proof (induction rs arbitrary: off)
  case (Cons r rs)
  then have head: "take (length (bq_texts r)) (drop off vs) = map g (bq_texts r)" by simp
  have "drop (off + length (bq_texts r)) vs = drop (length (bq_texts r)) (drop off vs)" by (simp add: add.commute)
  also have "\<dots> = map g (concat (map bq_texts rs))" using Cons.prems by simp
  finally show ?case using Cons.IH head by simp
qed simp

lemma flush_answers_own:
  assumes "pointwise f provider"
  shows "flush_answers provider rs = map (\<lambda>r. (bq_id r, Inr (own_vectors f r))) rs \<or> (\<exists>e. flush_answers provider rs = map (\<lambda>r. (bq_id r, Inl e)) rs)"
proof (cases rs)
  case (Cons first rest)
  let ?call = "provider (bq_model first) (bq_input_type first) (concat (map bq_texts rs))"
  show ?thesis
  proof (cases "mixed rs \<or> (\<exists>e. ?call = Inl e)")
    case True
    then show ?thesis by (auto simp: flush_answers_def Cons)
  next
    case False
    then obtain vs where vs: "?call = Inr vs" and same: "\<not> mixed rs" by (cases ?call) auto
    from assms vs have "drop 0 vs = map (f (bq_model first) (bq_input_type first)) (concat (map bq_texts rs))"
      unfolding pointwise_def by simp
    from deal_own [OF this] have "flush_answers provider rs = map (\<lambda>r. (bq_id r, Inr (map (f (bq_model first) (bq_input_type first)) (bq_texts r)))) rs"
      using vs same by (simp add: flush_answers_def Cons)
    moreover have "bq_model r = bq_model first \<and> bq_input_type r = bq_input_type first" if "r \<in> set rs" for r
      using same that by (auto simp: mixed_def Cons list_ex_iff)
    ultimately have "flush_answers provider rs = map (\<lambda>r. (bq_id r, Inr (own_vectors f r))) rs"
      by (simp add: own_vectors_def cong: map_cong)
    then show ?thesis ..
  qed
qed (simp add: flush_answers_def)

lemma fst_deal: "map fst (deal vs off rs) = map bq_id rs"
  by (induction rs arbitrary: off) simp_all

lemma fst_flush_answers: "map fst (flush_answers provider rs) = map bq_id rs"
  by (cases rs) (simp_all add: flush_answers_def Let_def comp_def fst_deal del: deal.simps split: sum.splits)

text \<open>Where the requests are.\<close>

definition flushing :: "batcher \<Rightarrow> batch_request list" where
  "flushing b = (case ba_flush_task b of Flushing rs \<Rightarrow> rs | _ \<Rightarrow> [])"

definition in_flight :: "batcher \<Rightarrow> batch_request list" where
  "in_flight b = flushing b @ concat (ba_flights b)"

definition resolved :: "batcher \<Rightarrow> nat set" where
  "resolved b = fst ` set (ba_answers b) \<union> set (ba_cancelled b)"

definition answered_own :: "(string option \<Rightarrow> string \<Rightarrow> string \<Rightarrow> pyfloat list) \<Rightarrow> batch_request list \<Rightarrow> nat \<times> vectors result \<Rightarrow> bool" where
  "answered_own f rs p \<longleftrightarrow> (\<exists>r\<in>set rs. bq_id r = fst p \<and> (\<forall>vs. snd p = Inr vs \<longrightarrow> vs = own_vectors f r))"

definition batcher_ok :: "(string option \<Rightarrow> string \<Rightarrow> string \<Rightarrow> pyfloat list) \<Rightarrow> batcher \<Rightarrow> bool" where
  "batcher_ok f b \<longleftrightarrow>
     map bq_id (ba_log b) = [0..<length (ba_log b)]
     \<and> set (ba_pending b) \<union> set (in_flight b) \<subseteq> set (ba_log b)
     \<and> distinct (ba_pending b @ in_flight b)
     \<and> ba_pending_texts b = sum_list (map (length \<circ> bq_texts) (ba_pending b))
     \<and> distinct (map fst (ba_answers b))
     \<and> (\<forall>p\<in>set (ba_answers b). answered_own f (ba_log b) p)"

lemma batcher_okI:
  assumes "map bq_id (ba_log b) = [0..<length (ba_log b)]" and "set (ba_pending b) \<union> set (in_flight b) \<subseteq> set (ba_log b)"
    and "distinct (ba_pending b @ in_flight b)" and "ba_pending_texts b = sum_list (map (length \<circ> bq_texts) (ba_pending b))"
    and "distinct (map fst (ba_answers b))"
    and "\<forall>p\<in>set (ba_answers b). answered_own f (ba_log b) p"
  shows "batcher_ok f b"
  unfolding batcher_ok_def using assms by blast

lemma ok_submit:
  assumes "batcher_ok f b"
  shows "batcher_ok f (submit k texts m ty b)"
proof -
  let ?r = "\<lparr>bq_id = length (ba_log b), bq_texts = texts, bq_model = m, bq_input_type = ty\<rparr>"
  let ?c = "submit k texts m ty b"
  have c: "ba_pending ?c = ba_pending b @ [?r]" "ba_pending_texts ?c = ba_pending_texts b + length texts" "ba_log ?c = ba_log b @ [?r]"
    "ba_answers ?c = ba_answers b" "in_flight ?c = in_flight b"
    by (auto simp: submit_def Let_def in_flight_def flushing_def split: flush_task.splits)
  from assms have log: "map bq_id (ba_log b) = [0..<length (ba_log b)]" and parts: "set (ba_pending b) \<union> set (in_flight b) \<subseteq> set (ba_log b)"
    unfolding batcher_ok_def by blast+
  have "length (ba_log b) \<notin> bq_id ` set (ba_log b)"
  proof
    assume "length (ba_log b) \<in> bq_id ` set (ba_log b)"
    then have "length (ba_log b) \<in> set (map bq_id (ba_log b))" by simp
    then show False unfolding log by simp
  qed
  with parts have new: "?r \<notin> set (ba_pending b) \<union> set (in_flight b)" by force
  show ?thesis
  proof (rule batcher_okI, unfold c)
    show "map bq_id (ba_log b @ [?r]) = [0..<length (ba_log b @ [?r])]" using log by simp
    show "distinct ((ba_pending b @ [?r]) @ in_flight b)" using assms new unfolding batcher_ok_def by auto
  qed (use assms parts in \<open>auto simp: batcher_ok_def answered_own_def\<close>)
qed

lemma ok_timer_takes: "batcher_ok f b \<Longrightarrow> ba_flush_task b = Asleep \<Longrightarrow> batcher_ok f (timer_takes b)"
  by (auto simp: batcher_ok_def timer_takes_def take_pending_def in_flight_def flushing_def)

lemma ok_caller_takes: "batcher_ok f b \<Longrightarrow> batcher_ok f (caller_takes b)"
  by (auto simp: batcher_ok_def caller_takes_def take_pending_def in_flight_def flushing_def)

lemma flights_split:
  assumes "i < length (ba_flights b)"
  shows "set (concat (ba_flights b)) = set (ba_flights b ! i) \<union> set (concat (ba_flights (drop_flight i b)))"
    and "distinct (ba_pending b @ in_flight b) \<Longrightarrow> distinct (ba_pending b @ in_flight (drop_flight i b))"
proof -
  have split: "ba_flights b = take i (ba_flights b) @ ba_flights b ! i # drop (Suc i) (ba_flights b)"
    using assms by (rule id_take_nth_drop)
  have parts: "concat (ba_flights b) = concat (take i (ba_flights b)) @ ba_flights b ! i @ concat (drop (Suc i) (ba_flights b))"
    by (subst split) simp
  have dropped: "concat (ba_flights (drop_flight i b)) = concat (take i (ba_flights b)) @ concat (drop (Suc i) (ba_flights b))"
    by (simp add: drop_flight_def)
  show "set (concat (ba_flights b)) = set (ba_flights b ! i) \<union> set (concat (ba_flights (drop_flight i b)))"
    unfolding parts dropped by auto
  have "flushing (drop_flight i b) = flushing b" by (simp add: flushing_def drop_flight_def)
  then show "distinct (ba_pending b @ in_flight (drop_flight i b))" if "distinct (ba_pending b @ in_flight b)"
    using that unfolding in_flight_def dropped parts by auto
qed

lemma ok_drop_flight:
  assumes "batcher_ok f b" and "i < length (ba_flights b)"
  shows "batcher_ok f (drop_flight i b)"
proof -
  have same: "ba_pending (drop_flight i b) = ba_pending b" "ba_log (drop_flight i b) = ba_log b" "ba_answers (drop_flight i b) = ba_answers b"
    "ba_pending_texts (drop_flight i b) = ba_pending_texts b" "flushing (drop_flight i b) = flushing b"
    by (simp_all add: drop_flight_def flushing_def)
  from flights_split [OF assms(2)] have "set (in_flight (drop_flight i b)) \<subseteq> set (in_flight b)"
    by (auto simp: in_flight_def same)
  with assms(1) flights_split(2) [OF assms(2)] show ?thesis unfolding batcher_ok_def same by blast
qed

lemma fst_filter: "fst ` set (filter (\<lambda>(i, _). P i) xs) = {i \<in> fst ` set xs. P i}"
  by force

lemma ok_answer:
  assumes ok: "batcher_ok f b" and "pointwise f provider" and "set rs \<subseteq> set (ba_log b)" and "distinct rs"
  shows "batcher_ok f (answer provider rs b)"
proof -
  let ?new = "filter (\<lambda>(i, _). i \<notin> fst ` set (ba_answers b) \<and> i \<notin> set (ba_cancelled b)) (flush_answers provider rs)"
  have same: "ba_pending (answer provider rs b) = ba_pending b" "ba_log (answer provider rs b) = ba_log b"
    "ba_pending_texts (answer provider rs b) = ba_pending_texts b" "in_flight (answer provider rs b) = in_flight b"
    "ba_answers (answer provider rs b) = ba_answers b @ ?new"
    by (simp_all add: answer_def in_flight_def flushing_def)
  from ok have "distinct (map bq_id (ba_log b))" unfolding batcher_ok_def by (metis distinct_upt)
  then have "inj_on bq_id (set (ba_log b))" by (simp add: distinct_map)
  with assms(3,4) have ids: "distinct (map bq_id rs)" by (auto simp: distinct_map intro: inj_on_subset)
  have "distinct (map fst ?new)"
    by (rule distinct_map_filter) (simp add: fst_flush_answers ids)
  moreover have "fst ` set (ba_answers b) \<inter> fst ` set ?new = {}" unfolding fst_filter by blast
  ultimately have "distinct (map fst (ba_answers b @ ?new))" using ok by (simp add: batcher_ok_def)
  moreover have "answered_own f (ba_log b) p" if "p \<in> set ?new" for p
    proof -
    from that have "p \<in> set (flush_answers provider rs)" by simp
    then have "\<exists>r\<in>set rs. fst p = bq_id r \<and> (\<forall>vs. snd p = Inr vs \<longrightarrow> vs = own_vectors f r)"
    proof (cases "flush_answers provider rs = map (\<lambda>r. (bq_id r, Inr (own_vectors f r))) rs")
      case True
      with \<open>p \<in> set (flush_answers provider rs)\<close> show ?thesis by auto
    next
      case False
      with flush_answers_own [OF assms(2), of rs] obtain e where "flush_answers provider rs = map (\<lambda>r. (bq_id r, Inl e)) rs" by blast
      with \<open>p \<in> set (flush_answers provider rs)\<close> show ?thesis by auto
    qed
    with assms(3) show ?thesis unfolding answered_own_def by (metis subsetD)
  qed
  ultimately have "distinct (map fst (ba_answers b @ ?new))" "\<forall>p\<in>set (ba_answers b @ ?new). answered_own f (ba_log b) p"
    using ok by (blast, auto simp: batcher_ok_def)
  with ok show ?thesis unfolding batcher_ok_def same by blast
qed

lemma ok_step:
  assumes "batcher_step interrupts k provider b b'" and "batcher_ok f b" and "pointwise f provider"
  shows "batcher_ok f b'"
  using assms(1)
proof cases
  case (timer_ends rs)
  have "batcher_ok f (b\<lparr>ba_flush_task := Finished\<rparr>)" using assms(2) timer_ends
    by (auto simp: batcher_ok_def in_flight_def flushing_def)
  moreover have "set rs \<subseteq> set (ba_log b)" "distinct rs" using assms(2) timer_ends
    by (auto simp: batcher_ok_def in_flight_def flushing_def)
  ultimately show ?thesis unfolding timer_ends by (intro ok_answer assms) simp_all
next
  case (caller_ends i)
  have "ba_flights b ! i \<in> set (ba_flights b)" using caller_ends by simp
  then have "set (ba_flights b ! i) \<subseteq> set (ba_log b)" "distinct (ba_flights b ! i)" using assms(2)
    by (auto simp: batcher_ok_def in_flight_def distinct_concat_iff)
  then show ?thesis unfolding caller_ends using caller_ends
    by (intro ok_answer ok_drop_flight assms) (simp_all add: drop_flight_def)
next
  case (waiting_caller_cancelled i)
  with assms(2) show ?thesis by (auto simp: batcher_ok_def in_flight_def flushing_def cancel_future_def)
next
  case due_caller_cancelled
  with assms(2) show ?thesis by (auto simp: batcher_ok_def in_flight_def flushing_def)
qed (use assms(2) in \<open>auto intro: ok_submit ok_timer_takes ok_caller_takes ok_drop_flight\<close>)

lemma reachable_ok: "batcher_reachable interrupts k provider b \<Longrightarrow> pointwise f provider \<Longrightarrow> batcher_ok f b"
proof (induction rule: batcher_reachable.induct)
  case start
  show ?case by (simp add: batcher_ok_def new_batcher_def in_flight_def flushing_def)
next
  case (step b b')
  then show ?case by (blast intro: ok_step)
qed


section \<open>No request is lost, but one can be forgotten\<close>

definition accounted :: "batcher \<Rightarrow> bool" where
  "accounted b \<longleftrightarrow> (\<forall>r\<in>set (ba_log b). r \<in> set (ba_pending b) \<or> r \<in> set (in_flight b) \<or> bq_id r \<in> resolved b)"

lemma settled_answer: "resolved (answer provider rs b) = resolved b \<union> bq_id ` set rs"
proof -
  have "fst ` set (flush_answers provider rs) = bq_id ` set rs"
    using fst_flush_answers [of provider rs] by (metis list.set_map)
  moreover have "A \<union> {i \<in> R. i \<notin> A \<and> i \<notin> C} \<union> C = A \<union> C \<union> R" for A C R :: "nat set" by blast
  ultimately show ?thesis by (simp add: resolved_def answer_def image_Un fst_filter del: set_filter)
qed

lemma accounted_step:
  assumes "batcher_step False k provider b b'" and "accounted b"
  shows "accounted b'"
  using assms(1)
proof cases
  case (submit texts m ty)
  with assms(2) show ?thesis
    by (auto simp: accounted_def submit_def Let_def in_flight_def flushing_def resolved_def split: flush_task.splits)
next
  case (caller_ends i)
  let ?c = "answer provider (ba_flights b ! i) (drop_flight i b)"
  have same: "ba_pending ?c = ba_pending b" "ba_log ?c = ba_log b" "in_flight ?c = flushing b @ concat (ba_flights (drop_flight i b))"
    "resolved ?c = resolved b \<union> bq_id ` set (ba_flights b ! i)"
    unfolding settled_answer by (simp_all add: answer_def drop_flight_def in_flight_def flushing_def resolved_def)
  from assms(2) flights_split(1) [OF caller_ends(2)] show ?thesis
    unfolding accounted_def caller_ends(1) same by (auto simp: in_flight_def)
next
  case (timer_ends rs)
  let ?c = "answer provider rs (b\<lparr>ba_flush_task := Finished\<rparr>)"
  have same: "ba_pending ?c = ba_pending b" "ba_log ?c = ba_log b" "in_flight ?c = concat (ba_flights b)"
    "resolved ?c = resolved b \<union> bq_id ` set rs"
    unfolding settled_answer by (simp_all add: answer_def in_flight_def flushing_def resolved_def)
  from assms(2) timer_ends show ?thesis
    unfolding accounted_def timer_ends(1) same by (auto simp: in_flight_def flushing_def)
qed (use assms(2) in \<open>auto simp: accounted_def timer_takes_def caller_takes_def take_pending_def in_flight_def flushing_def resolved_def
      cancel_future_def\<close>)

lemma reachable_accounted: "batcher_reachable False k provider b \<Longrightarrow> accounted b"
proof (induction rule: batcher_reachable.induct)
  case start
  show ?case by (simp add: accounted_def new_batcher_def)
next
  case (step b b')
  then show ?case by (blast intro: accounted_step)
qed

text \<open>Nothing of the batcher runs or will run.\<close>

definition quiet :: "batcher \<Rightarrow> bool" where
  "quiet b \<longleftrightarrow> ba_flush_task b = Finished \<and> ba_due b = 0 \<and> ba_flights b = []"

definition work_left :: "batcher \<Rightarrow> nat" where
  "work_left b = 2 * ba_due b + length (ba_flights b) + (case ba_flush_task b of Finished \<Rightarrow> 0 | Flushing _ \<Rightarrow> 1 | Asleep \<Rightarrow> 2)"

lemma work_left_zero: "work_left b = 0 \<longleftrightarrow> quiet b"
  by (auto simp: work_left_def quiet_def split: flush_task.splits)

lemma flushing_ends:
  "ba_flush_task b = Asleep \<Longrightarrow> work_left (timer_takes b) < work_left b"
  "ba_flush_task b = Flushing rs \<Longrightarrow> work_left (answer provider rs (b\<lparr>ba_flush_task := Finished\<rparr>)) < work_left b"
  "0 < ba_due b \<Longrightarrow> work_left (caller_takes b) < work_left b"
  "i < length (ba_flights b) \<Longrightarrow> work_left (answer provider (ba_flights b ! i) (drop_flight i b)) < work_left b"
  by (auto simp: work_left_def timer_takes_def caller_takes_def take_pending_def answer_def drop_flight_def)

text \<open>
  Without interrupts the batcher loses no request: when none of its tasks is left, every request ever made is answered, was given
  up by its caller, or is still pending.
\<close>

theorem batcher_loses_no_request:
  assumes "batcher_reachable False k provider b" and "quiet b"
  shows "bq_id ` set (ba_log b) \<subseteq> resolved b \<union> bq_id ` set (ba_pending b)"
proof -
  from reachable_accounted [OF assms(1)] have "accounted b" .
  moreover have "in_flight b = []" using assms(2) by (simp add: quiet_def in_flight_def flushing_def)
  ultimately show ?thesis by (auto simp: accounted_def)
qed

text \<open>A request that arrives while the timer task waits for the provider starts no timer.\<close>

definition early :: batcher where
  "early = timer_takes (submit 16 [''a''] None ''passage'' new_batcher)"

definition early_batch :: "batch_request list" where
  "early_batch = [\<lparr>bq_id = 0, bq_texts = [''a''], bq_model = None, bq_input_type = ''passage''\<rparr>]"

definition forgotten :: "embedder \<Rightarrow> batcher" where
  "forgotten provider = answer provider early_batch ((submit 16 [''b''] None ''passage'' early)\<lparr>ba_flush_task := Finished\<rparr>)"

lemma early_run: "early = \<lparr>ba_pending = [], ba_pending_texts = 0, ba_flush_task = Flushing early_batch, ba_due = 0, ba_flights = [],
    ba_answers = [], ba_cancelled = [], ba_log = early_batch\<rparr>"
  by (simp add: early_def early_batch_def submit_def new_batcher_def timer_takes_def take_pending_def Let_def)

lemma forgotten_reachable: "batcher_reachable False 16 provider (forgotten provider)"
proof -
  let ?one = "submit 16 [''a''] None ''passage'' new_batcher" and ?two = "submit 16 [''b''] None ''passage'' early"
  have "batcher_reachable False 16 provider ?one"
    by (rule batcher_reachable.step [OF batcher_reachable.start]) (rule batcher_step.submit, simp)
  moreover have "ba_flush_task ?one = Asleep" by (simp add: submit_def new_batcher_def Let_def)
  ultimately have "batcher_reachable False 16 provider early" unfolding early_def
    by (blast intro: batcher_reachable.step batcher_step.timer_wakes)
  then have two: "batcher_reachable False 16 provider ?two"
    by (rule batcher_reachable.step) (rule batcher_step.submit, simp)
  have "ba_flush_task ?two = Flushing early_batch" by (simp add: early_run submit_def Let_def)
  from batcher_reachable.step [OF two batcher_step.timer_ends [OF this]] show ?thesis unfolding forgotten_def .
qed

lemma forgotten_state:
  "quiet (forgotten provider)" "ba_pending (forgotten provider) = [\<lparr>bq_id = 1, bq_texts = [''b''], bq_model = None, bq_input_type = ''passage''\<rparr>]"
  "ba_cancelled (forgotten provider) = []" "fst ` set (ba_answers (forgotten provider)) = {0}"
proof -
  show "quiet (forgotten provider)" "ba_cancelled (forgotten provider) = []"
    "ba_pending (forgotten provider) = [\<lparr>bq_id = 1, bq_texts = [''b''], bq_model = None, bq_input_type = ''passage''\<rparr>]"
    by (simp_all add: forgotten_def early_run early_batch_def submit_def Let_def answer_def quiet_def)
  have "resolved (forgotten provider) = {0}"
    unfolding forgotten_def settled_answer by (simp add: early_run submit_def Let_def resolved_def early_batch_def)
  with \<open>ba_cancelled (forgotten provider) = []\<close> show "fst ` set (ba_answers (forgotten provider)) = {0}" by (simp add: resolved_def)
qed

lemma quiet_steps:
  assumes "quiet b"
  shows "batcher_step False k provider b b' \<longleftrightarrow>
    (\<exists>texts m ty. texts \<noteq> [] \<and> b' = submit k texts m ty b) \<or> (\<exists>i. i < length (ba_log b) \<and> b' = cancel_future i b)"
    (is "_ \<longleftrightarrow> ?waiting")
proof
  assume "batcher_step False k provider b b'"
  then show ?waiting
  proof cases
    case submit
    then show ?thesis by blast
  next
    case waiting_caller_cancelled
    then show ?thesis by blast
  qed (use assms in \<open>simp_all add: quiet_def\<close>)
next
  assume ?waiting
  then show "batcher_step False k provider b b'" by (blast intro: batcher_step.submit batcher_step.waiting_caller_cancelled)
qed


text \<open>A caller that is interrupted while it flushes takes the other requests of its batch with it.\<close>

lemma interrupted_flush_drops_requests:
  "\<exists>b. batcher_reachable True 1 provider b \<and> quiet b \<and> ba_pending b = [] \<and> ba_log b \<noteq> [] \<and> resolved b = {}"
proof -
  let ?one = "submit 1 [''a''] None ''passage'' new_batcher"
  let ?two = "caller_takes ?one" and ?three = "drop_flight 0 (caller_takes ?one)"
  have "batcher_reachable True 1 provider ?one"
    by (rule batcher_reachable.step [OF batcher_reachable.start]) (rule batcher_step.submit, simp)
  then have "batcher_reachable True 1 provider ?two"
    by (rule batcher_reachable.step) (rule batcher_step.caller_flushes, simp add: submit_def new_batcher_def Let_def)
  then have "batcher_reachable True 1 provider ?three"
    by (rule batcher_reachable.step)
      (rule batcher_step.flushing_caller_cancelled, simp_all add: submit_def new_batcher_def Let_def caller_takes_def take_pending_def)
  moreover have "quiet ?three \<and> ba_pending ?three = [] \<and> ba_log ?three \<noteq> [] \<and> resolved ?three = {}"
    by (simp add: submit_def new_batcher_def Let_def caller_takes_def take_pending_def drop_flight_def quiet_def resolved_def)
  ultimately show ?thesis by blast
qed

section \<open>Concrete runs\<close>

definition sample_provider :: embedder where
  "sample_provider m ty ts = Inr (map (\<lambda>t. [(of_nat (length t), t)]) ts)"

lemma sample_pointwise: "pointwise (\<lambda>m ty t. [(of_nat (length t), t)]) sample_provider"
  by (simp add: pointwise_def sample_provider_def)

lemma forgotten_answers: "ba_answers (forgotten sample_provider) = [(0, Inr [[(1, ''a'')]])]"
  by (simp add: forgotten_def early_run early_batch_def submit_def Let_def answer_def flush_answers_def mixed_def sample_provider_def)


lemma batcher_loses_no_request_witness:
  "\<exists>b. quiet b \<and> resolved b = {0} \<and> bq_id ` set (ba_log b) \<subseteq> {0} \<union> bq_id ` set (ba_pending b)"
proof -
  have "resolved (forgotten sample_provider) = {0}" using forgotten_state by (simp add: resolved_def)
  with batcher_loses_no_request [OF forgotten_reachable, of sample_provider] forgotten_state(1) show ?thesis by metis
qed

end
