(* ===== verification/LocalIngest.thy ===== *)
theory LocalIngest
  imports Evaluation
begin

text \<open>
  Ingestion of a local folder: \<open>ingestion/pipeline.py\<close> and \<open>inspect_folder\<close> of \<open>ingestion/diagnostics.py\<close>. The folder is an
  argument, what \<open>sorted(base.rglob("*"))\<close> gives; it does not change during a request. SHA-256 and the duration are arguments, the
  log lines are left out.
\<close>

section \<open>The folder\<close>

record local_entry =
  le_path :: string
  le_relative :: string        \<comment> \<open>\<open>relative_to(base)\<close>\<close>
  le_is_file :: bool
  le_size :: int
  le_mtime_text :: string      \<comment> \<open>\<open>str(stat().st_mtime)\<close>\<close>
  le_modified :: time
  le_text :: "string result"   \<comment> \<open>\<open>read_text(encoding="utf-8", errors="replace")\<close>\<close>

record local_env =
  lo_exists :: "string \<Rightarrow> bool"
  lo_expand :: "string \<Rightarrow> string"    \<comment> \<open>\<open>expanduser()\<close>\<close>
  lo_resolve :: "string \<Rightarrow> string"
  lo_walk :: "string \<Rightarrow> local_entry list"
  lo_sha256 :: "string \<Rightarrow> string"      \<comment> \<open>\<open>hexdigest()\<close>\<close>
  lo_str :: "py_exn \<Rightarrow> string"
  lo_elapsed_ms :: int
  lo_index :: index_env

definition discovered :: "local_entry \<Rightarrow> bool" where
  "discovered p \<longleftrightarrow> le_is_file p \<and> \<not> (str_contains ''__pycache__'' (le_path p) \<or> starts_with (path_name (le_path p)) ''.'')"

definition discover_files :: "local_env \<Rightarrow> string \<Rightarrow> local_entry list" where
  "discover_files env base = filter discovered (lo_walk env base)"

definition dir_hash :: "local_env \<Rightarrow> string \<Rightarrow> string" where
  "dir_hash env base =
     take 16 (lo_sha256 env (concat (map (\<lambda>p. le_path p @ le_mtime_text p) (filter le_is_file (lo_walk env base)))))"

section \<open>Reading\<close>

record skipped_file =
  sf_path :: string
  sf_reason :: string
  sf_size_bytes :: "int option"
  sf_detail :: "string option"

record read_result =
  rd_documents :: "normalized_document list"
  rd_total_files_seen :: int
  rd_files_ingested :: int
  rd_files_skipped :: int
  rd_skipped_files :: "skipped_file list"
  rd_source_type_counts :: "int dict"

definition local_document :: "local_env \<Rightarrow> local_entry \<Rightarrow> string \<Rightarrow> normalized_document" where
  "local_document env p content =
     \<lparr>nd_external_id = le_relative p, nd_path = le_relative p, nd_source_type = classify_source_type (le_relative p),
      nd_content = content, nd_content_hash = lo_sha256 env content,
      nd_metadata = [(''service_name'', opt_json (extract_service_from_path (le_relative p)))],
      nd_size_bytes = Some (le_size p), nd_modified_at = Some (le_modified p)\<rparr>"

definition skip_for_size :: "string \<Rightarrow> local_entry \<Rightarrow> skipped_file" where
  "skip_for_size reason p = \<lparr>sf_path = le_relative p, sf_reason = reason, sf_size_bytes = Some (le_size p), sf_detail = None\<rparr>"

text \<open>What becomes of one file: a skip with its reason, or a document.\<close>

definition read_file :: "local_env \<Rightarrow> int \<Rightarrow> string list \<Rightarrow> local_entry \<Rightarrow> skipped_file + normalized_document" where
  "read_file env max_bytes supported p =
     (if py_lower (path_suffix (le_path p)) \<notin> set supported then Inl (skip_for_size ''unsupported_extension'' p)
      else if le_size p > max_bytes then Inl (skip_for_size ''file_too_large'' p)
      else case le_text p of
          Inl e \<Rightarrow> Inl \<lparr>sf_path = le_relative p, sf_reason = ''read_error'', sf_size_bytes = None, sf_detail = Some (lo_str env e)\<rparr>
        | Inr content \<Rightarrow>
            if py_strip content = [] then Inl \<lparr>sf_path = le_relative p, sf_reason = ''empty_file'', sf_size_bytes = None, sf_detail = None\<rparr>
            else Inr (local_document env p content))"

definition add_file :: "skipped_file + normalized_document \<Rightarrow> read_result \<Rightarrow> read_result" where
  "add_file x r = (case x of
      Inl s \<Rightarrow> r\<lparr>rd_files_skipped := rd_files_skipped r + 1, rd_skipped_files := rd_skipped_files r @ [s]\<rparr>
    | Inr d \<Rightarrow> r\<lparr>rd_source_type_counts := dict_incr (nd_source_type d) 1 (rd_source_type_counts r),
                rd_documents := rd_documents r @ [d], rd_files_ingested := rd_files_ingested r + 1\<rparr>)"

definition read_local_documents :: "local_env \<Rightarrow> string \<Rightarrow> int \<Rightarrow> string list \<Rightarrow> read_result" where
  "read_local_documents env base max_bytes supported =
     fold (\<lambda>p. add_file (read_file env max_bytes supported p)) (discover_files env base)
       \<lparr>rd_documents = [], rd_total_files_seen = int (length (discover_files env base)), rd_files_ingested = 0, rd_files_skipped = 0,
        rd_skipped_files = [], rd_source_type_counts = []\<rparr>"

section \<open>The source of the folder\<close>

definition local_source :: "time \<Rightarrow> local_env \<Rightarrow> uid \<Rightarrow> string \<Rightarrow> uid \<Rightarrow> source_row" where
  "local_source now env pid base i =
     (let uri = lo_resolve env base in
      \<lparr>src_id = i, src_project_id = pid, src_name = (if path_name base \<noteq> [] then path_name base else uri),
       src_source_type = ''filesystem'', src_status = ''active'', src_sync_mode = ''manual'', src_source_uri = Some uri,
       src_config_json = Some [(''mode'', JStr ''local_path'')], src_credentials_ref = None,
       src_version_hash = Some (dir_hash env base), src_last_sync_started_at = None, src_last_sync_finished_at = None,
       src_last_sync_status = None, src_last_error = None, src_created_at = now, src_updated_at = now, src_ingested_at = now\<rparr>)"

definition is_local_source :: "uid \<Rightarrow> string \<Rightarrow> source_row \<Rightarrow> bool" where
  "is_local_source pid uri r \<longleftrightarrow> src_project_id r = pid \<and> src_source_type r = ''filesystem'' \<and> src_source_uri r = Some uri"

definition reactivated :: "time \<Rightarrow> string \<Rightarrow> string \<Rightarrow> source_row \<Rightarrow> source_row" where
  "reactivated now base uri r = r\<lparr>
     src_name := (if src_name r \<noteq> [] then src_name r else if path_name base \<noteq> [] then path_name base else uri),
     src_status := ''active'', src_sync_mode := (if src_sync_mode r \<noteq> [] then src_sync_mode r else ''manual''),
     src_source_uri := Some uri, src_updated_at := now\<rparr>"

definition get_or_create_local_source :: "local_env \<Rightarrow> uid \<Rightarrow> string \<Rightarrow> uid dbact" where
  "get_or_create_local_source env pid base =
     (let uri = lo_resolve env base; now = ie_now (lo_index env) in
      bind_act (query (\<lambda>d. filter (is_local_source pid uri) (sources d))) (\<lambda>rs.
      bind_act (lift_result (one_or_none rs)) (\<lambda>found. case found of
          Some r \<Rightarrow> then_act (change (edit_row sources_update src_id (src_id r) (reactivated now base uri))) (ret (src_id r))
        | None \<Rightarrow> bind_act (query next_id) (\<lambda>i.
            then_act (change (add_row sources_update (local_source now env pid base))) (ret i)))))"

section \<open>A run\<close>

record ingest_stats =
  in_project_id :: string
  in_documents_ingested :: int
  in_total_files_seen :: int
  in_files_ingested :: int
  in_files_skipped :: int
  in_chunks_created :: int
  in_duration_ms :: int
  in_skipped_files :: "skipped_file list"
  in_parser_errors :: "(string \<times> string) list"    \<comment> \<open>\<open>path\<close>, \<open>error_summary\<close>\<close>
  in_source_type_counts :: "int dict"
  in_chunk_type_counts :: "int dict"
  in_source_coverage :: coverage

definition error_path :: "document_error \<Rightarrow> string" where    \<comment> \<open>\<open>error.path or error.external_id or "<unknown>"\<close>\<close>
  "error_path e =
     (case de_path e of Some p \<Rightarrow> if p \<noteq> [] then p else ( case de_external_id e of Some x \<Rightarrow> if x \<noteq> [] then x else ''<unknown>'' | None \<Rightarrow> ''<unknown>'')
      | None \<Rightarrow> (case de_external_id e of Some x \<Rightarrow> if x \<noteq> [] then x else ''<unknown>'' | None \<Rightarrow> ''<unknown>''))"

definition index_skip :: "document_error \<Rightarrow> skipped_file" where
  "index_skip e = \<lparr>sf_path = error_path e, sf_reason = (if de_error e = ''no chunks parsed'' then ''no_chunks_parsed'' else ''index_error''),
     sf_size_bytes = None, sf_detail = None\<rparr>"

definition skip_json :: "skipped_file \<Rightarrow> json" where
  "skip_json s = JObj ([(''path'', JStr (sf_path s)), (''reason'', JStr (sf_reason s))]
     @ (case sf_size_bytes s of None \<Rightarrow> [] | Some n \<Rightarrow> [(''size_bytes'', JInt n)])
     @ (case sf_detail s of None \<Rightarrow> [] | Some x \<Rightarrow> [(''detail'', JStr x)]))"

definition parser_error_json :: "string \<times> string \<Rightarrow> json" where
  "parser_error_json e = JObj [(''path'', JStr (fst e)), (''error_summary'', JStr (snd e))]"

definition running_sync :: "time \<Rightarrow> uid \<Rightarrow> uid \<Rightarrow> uid \<Rightarrow> sync_row" where
  "running_sync now pid sid i =
     \<lparr>sync_id = i, sync_project_id = pid, sync_source_id = sid, sync_collector_id = None, sync_status = ''running'',
      sync_started_at = now, sync_finished_at = None, sync_files_seen = 0, sync_documents_received = 0, sync_chunks_created = 0,
      sync_files_skipped = 0, sync_parser_errors = 0, sync_coverage_json = None, sync_diagnostics_json = Some [],
      sync_error_message = None\<rparr>"

definition local_diagnostics :: "read_result \<Rightarrow> batch_result \<Rightarrow> skipped_file list \<Rightarrow> (string \<times> string) list \<Rightarrow> coverage \<Rightarrow> json dict" where
  "local_diagnostics r b skips errors cov =
     [(''files_ingested'', JInt (rd_files_ingested r)), (''skipped_files'', JList (map skip_json skips)),
      (''parser_errors'', JList (map parser_error_json errors)), (''documents_created'', JInt (br_created b)),
      (''documents_updated'', JInt (br_updated b)), (''skipped_unchanged'', JInt (br_skipped_unchanged b)),
      (''skipped_invalid'', JInt (br_skipped_invalid b)), (''source_type_counts'', counts_json (rd_source_type_counts r)),
      (''chunk_type_counts'', counts_json (br_chunk_type_counts b)), (''warnings'', JList (map JStr (cov_warnings cov))),
      (''embedding_backend'', opt_json (br_embedding_backend b))]"

definition completed_sync :: "time \<Rightarrow> read_result \<Rightarrow> batch_result \<Rightarrow> skipped_file list \<Rightarrow> (string \<times> string) list \<Rightarrow> coverage \<Rightarrow> sync_row \<Rightarrow> sync_row" where
  "completed_sync now r b skips errors cov y = y\<lparr>sync_status := ''success'', sync_files_seen := rd_total_files_seen r,
     sync_documents_received := br_received b, sync_chunks_created := br_chunks_created b,
     sync_files_skipped := int (length skips), sync_parser_errors := int (length errors),
     sync_coverage_json := Some (coverage_json cov), sync_diagnostics_json := Some (local_diagnostics r b skips errors cov),
     sync_finished_at := Some now\<rparr>"

definition synced_source :: "time \<Rightarrow> local_env \<Rightarrow> string \<Rightarrow> source_row \<Rightarrow> source_row" where
  "synced_source now env base r = r\<lparr>src_version_hash := Some (dir_hash env base), src_status := ''ready'',
     src_last_sync_started_at := Some now, src_last_sync_finished_at := Some now, src_last_sync_status := Some ''success'',
     src_last_error := None, src_updated_at := now\<rparr>"

text \<open>What is written once the documents are indexed.\<close>

definition close_ingestion :: "local_env \<Rightarrow> uid \<Rightarrow> string \<Rightarrow> uid \<Rightarrow> uid \<Rightarrow> read_result \<Rightarrow> batch_result \<Rightarrow> ingest_stats dbact" where
  "close_ingestion env pid base sid yid r b =
     (let now = ie_now (lo_index env);
          errors = map (\<lambda>e. (error_path e, de_error e)) (br_errors b);
          skips = rd_skipped_files r @ map index_skip (br_errors b);
          cov = build_source_coverage (rd_source_type_counts r) (br_chunk_type_counts b)
      in then_act (change (edit_row source_syncs_update sync_id yid (completed_sync now r b skips errors cov)))
        (then_act (change (edit_row sources_update src_id sid (synced_source now env base)))
          (ret \<lparr>in_project_id = uid_str pid, in_documents_ingested = rd_files_ingested r, in_total_files_seen = rd_total_files_seen r,
                in_files_ingested = rd_files_ingested r, in_files_skipped = int (length skips),
                in_chunks_created = br_chunks_created b, in_duration_ms = lo_elapsed_ms env, in_skipped_files = skips,
                in_parser_errors = errors, in_source_type_counts = rd_source_type_counts r,
                in_chunk_type_counts = br_chunk_type_counts b, in_source_coverage = cov\<rparr>)))"

definition run_ingestion :: "local_env \<Rightarrow> settings \<Rightarrow> uid \<Rightarrow> string \<Rightarrow> ingest_stats dbact" where
  "run_ingestion env cfg pid base =
     then_act (guard_act (lo_exists env base) FileNotFoundError)
     (bind_act (get_or_create_local_source env pid base) (\<lambda>sid.
      bind_act (query next_id) (\<lambda>yid.
      then_act (change (add_row source_syncs_update (running_sync (ie_now (lo_index env)) pid sid)))
      (let r = read_local_documents env base (max_ingest_file_bytes cfg) (supported_extensions_set cfg) in
       bind_act (index_normalized_documents (lo_index env) cfg pid sid (rd_documents r)) (close_ingestion env pid base sid yid r)))))"

section \<open>Inspecting a folder\<close>

record folder_report =
  fr_data_path :: string
  fr_total_files_seen :: int
  fr_ingestable_files :: int
  fr_file_type_counts :: "int dict"
  fr_likely_source_types :: "int dict"
  fr_oversized_files :: "skipped_file list"
  fr_unsupported_files :: "skipped_file list"
  fr_estimated_ingestability :: string
  fr_warnings :: "string list"
  fr_source_coverage :: coverage

definition suffix_or_none :: "local_entry \<Rightarrow> string" where
  "suffix_or_none p = (let s = py_lower (path_suffix (le_path p)) in if s = [] then ''<none>'' else s)"

definition inspect_folder :: "local_env \<Rightarrow> settings \<Rightarrow> string \<Rightarrow> folder_report result" where
  "inspect_folder env cfg data_path =
     (let base = lo_resolve env (lo_expand env data_path); files = discover_files env base;
          supported = (\<lambda>p. suffix_or_none p \<in> set (supported_extensions_set cfg));
          fits = (\<lambda>p. le_size p \<le> max_ingest_file_bytes cfg);
          unsupported = filter (\<lambda>p. \<not> supported p) files;
          oversized = filter (\<lambda>p. supported p \<and> \<not> fits p) files;
          good = filter (\<lambda>p. supported p \<and> fits p) files;
          types = tally (map (\<lambda>p. classify_source_type (le_relative p)) good);
          cov = build_source_coverage types [];
          n = length good
      in if \<not> lo_exists env base then Inl FileNotFoundError
         else Inr \<lparr>fr_data_path = base, fr_total_files_seen = int (length files), fr_ingestable_files = int n,
           fr_file_type_counts = tally (map suffix_or_none files), fr_likely_source_types = types,
           fr_oversized_files = map (skip_for_size ''file_too_large'') oversized,
           fr_unsupported_files = map (skip_for_size ''unsupported_extension'') unsupported,
           fr_estimated_ingestability =
             (if n = 0 then ''none''
              else if \<not> has_logs cov \<and> \<not> has_deploys cov \<and> \<not> has_code cov then ''low''
              else if length unsupported > n \<or> oversized \<noteq> [] then ''medium''
              else ''high''),
           fr_warnings = cov_warnings cov
             @ (if unsupported \<noteq> [] then [digits_of (length unsupported) @ '' unsupported files will be skipped.''] else [])
             @ (if oversized \<noteq> [] then [digits_of (length oversized) @ '' oversized files exceed the ingest limit.''] else [])
             @ (if n = 0 then [''No supported ingestable files found.''] else []),
           fr_source_coverage = cov\<rparr>)"

section \<open>Every file is accounted for\<close>

definition read_all :: "local_env \<Rightarrow> string \<Rightarrow> int \<Rightarrow> string list \<Rightarrow> (skipped_file + normalized_document) list" where
  "read_all env base max_bytes supported = map (read_file env max_bytes supported) (discover_files env base)"

lemma fold_add_file:
  "rd_documents (fold (\<lambda>p. add_file (f p)) ps r) = rd_documents r @ map projr (filter (\<lambda>x. \<not> isl x) (map f ps))"
  "rd_skipped_files (fold (\<lambda>p. add_file (f p)) ps r) = rd_skipped_files r @ map projl (filter isl (map f ps))"
  "rd_files_ingested (fold (\<lambda>p. add_file (f p)) ps r) = rd_files_ingested r + int (length (filter (\<lambda>x. \<not> isl x) (map f ps)))"
  "rd_files_skipped (fold (\<lambda>p. add_file (f p)) ps r) = rd_files_skipped r + int (length (filter isl (map f ps)))"
  "rd_total_files_seen (fold (\<lambda>p. add_file (f p)) ps r) = rd_total_files_seen r"
  by (induction ps arbitrary: r) (simp_all add: add_file_def split: sum.split)

lemmas read_facts =
  read_local_documents_def [THEN arg_cong [where f = rd_documents], unfolded fold_add_file]
  read_local_documents_def [THEN arg_cong [where f = rd_skipped_files], unfolded fold_add_file]
  read_local_documents_def [THEN arg_cong [where f = rd_files_ingested], unfolded fold_add_file]
  read_local_documents_def [THEN arg_cong [where f = rd_files_skipped], unfolded fold_add_file]
  read_local_documents_def [THEN arg_cong [where f = rd_total_files_seen], unfolded fold_add_file]

lemma read_file_document:
  assumes "read_file env m exts p = Inr d"
  shows "py_lower (path_suffix (le_path p)) \<in> set exts \<and> le_size p \<le> m \<and> le_text p = Inr (nd_content d) \<and> py_strip (nd_content d) \<noteq> []
    \<and> d = local_document env p (nd_content d)"
  using assms by (auto simp: read_file_def local_document_def split: if_splits sum.splits)

lemma read_file_reason:
  "read_file env m exts p = Inl s \<Longrightarrow> sf_reason s \<in> {''unsupported_extension'', ''file_too_large'', ''read_error'', ''empty_file''}
     \<and> sf_path s = le_relative p"
  by (auto simp: read_file_def skip_for_size_def split: if_splits sum.splits)


section \<open>What a run records\<close>

lemma length_read:
  "rd_total_files_seen (read_local_documents env base m exts)
     = rd_files_ingested (read_local_documents env base m exts) + int (length (rd_skipped_files (read_local_documents env base m exts)))"
proof -
  let ?xs = "map (read_file env m exts) (discover_files env base)"
  have "length (discover_files env base) = length (filter (\<lambda>x. \<not> isl x) ?xs) + length (filter isl ?xs)"
    using sum_length_filter_compl [of isl ?xs] by simp
  then show ?thesis unfolding read_facts by simp
qed

lemma preserves_local_source: "preserves db_ok (get_or_create_local_source env pid base)"
  unfolding get_or_create_local_source_def Let_def edit_row_def
  by (intro preserves_bind preserves_then preserves_query preserves_change preserves_ret preserves_option db_ok_edit_sources
      db_ok_add_sources reads_only_preserves reads_only_simple)
    (simp_all add: reactivated_def local_source_def Let_def)

text \<open>
  A run of local ingestion records itself: when it returns, there is a sync of the folder's source that ended with success and has the
  counts of the answer. A file whose indexing failed is counted twice, as ingested and as skipped: the files ingested and skipped are
  together the files seen and one more for every error. Nothing is committed by the run itself.
\<close>

theorem local_ingest_records_itself:
  assumes run: "run_ingestion env cfg pid base s = (Inr st, t)" and ok: "db_ok (work s)" "db_ok (committed s)"
  shows "\<exists>y i. row_with sync_id i (source_syncs (work t)) = Some y \<and> sync_project_id y = pid \<and> sync_status y = ''success''
    \<and> sync_files_seen y = in_total_files_seen st \<and> sync_files_skipped y = in_files_skipped st
    \<and> sync_chunks_created y = in_chunks_created st \<and> sync_parser_errors y = int (length (in_parser_errors st))
    \<and> in_files_ingested st + in_files_skipped st = in_total_files_seen st + int (length (in_parser_errors st))
    \<and> committed t = committed s"
proof -
  let ?now = "ie_now (lo_index env)" and ?r = "read_local_documents env base (max_ingest_file_bytes cfg) (supported_extensions_set cfg)"
  let ?add = "\<lambda>sid. add_row source_syncs_update (running_sync ?now pid sid)"
  from run obtain sid u b w where u: "get_or_create_local_source env pid base s = (Inr sid, u)"
    and w: "index_normalized_documents (lo_index env) cfg pid sid (rd_documents ?r) (u\<lparr>work := ?add sid (work u)\<rparr>) = (Inr b, w)"
    and close: "close_ingestion env pid base sid (next_id (work u)) ?r b w = (Inr st, t)"
    unfolding run_ingestion_def Let_def by (auto simp only: run_act_simps)
  let ?v = "u\<lparr>work := ?add sid (work u)\<rparr>" and ?i = "next_id (work u)"
  note rest = close [unfolded close_ingestion_def Let_def]
  have "db_ok (work u)" using preserves_local_source [of env pid base] ok u unfolding preserves_def by (metis snd_conv)
  then have "row_with sync_id ?i (source_syncs (work ?v)) = Some (running_sync ?now pid sid ?i)"
    by (simp add: source_syncs.find_added db_ok_def running_sync_def)
  moreover have "apart_from_index source_syncs" by (simp add: apart_from_index_def)
  then have "source_syncs (work w) = source_syncs (work ?v)" using keeps_index w by (metis keepsD)
  ultimately have found: "row_with sync_id ?i (source_syncs (work w)) = Some (running_sync ?now pid sid ?i)" by simp
  have "committed u = committed s"
    using u unfolding get_or_create_local_source_def Let_def
    by (auto simp: run_act_simps split: option.splits)
  moreover have "committed w = committed ?v" using no_commitD [OF no_commit_index w] .
  ultimately have "committed t = committed s" using rest by (auto simp: run_act_simps)
  moreover have "row_with sync_id ?i (source_syncs (work t)) = Some (completed_sync ?now ?r b (rd_skipped_files ?r @ map index_skip (br_errors b))
      (map (\<lambda>e. (error_path e, de_error e)) (br_errors b))
      (build_source_coverage (rd_source_type_counts ?r) (br_chunk_type_counts b)) (running_sync ?now pid sid ?i))"
  proof -
    have "source_syncs (work t) = source_syncs (edit_row source_syncs_update sync_id ?i (completed_sync ?now ?r b
        (rd_skipped_files ?r @ map index_skip (br_errors b)) (map (\<lambda>e. (error_path e, de_error e)) (br_errors b))
        (build_source_coverage (rd_source_type_counts ?r) (br_chunk_type_counts b))) (work w))"
      using rest by (auto simp: run_act_simps edit_row_def edit_rows_def)
    with found show ?thesis by (simp add: source_syncs.find_edited completed_sync_def)
  qed
  ultimately show ?thesis using rest length_read [of env base "max_ingest_file_bytes cfg" "supported_extensions_set cfg"]
    by (auto simp: run_act_simps completed_sync_def running_sync_def)
qed

section \<open>A concrete run\<close>

definition sample_local_env :: local_env where
  "sample_local_env = \<lparr>lo_exists = (\<lambda>_. True), lo_expand = id, lo_resolve = id,
     lo_walk = (\<lambda>_. [\<lparr>le_path = ''/d/a.exe'', le_relative = ''a.exe'', le_is_file = True, le_size = 3, le_mtime_text = ''0'',
        le_modified = 0, le_text = Inr ''x''\<rparr>]),
     lo_sha256 = id, lo_str = (\<lambda>_. []), lo_elapsed_ms = 1, lo_index = sample_env\<rparr>"

lemma local_ingest_records_itself_witness:
  "\<exists>st t y i. run_ingestion sample_local_env (default_settings ''host'') 1 ''/d'' (new_session empty_db) = (Inr st, t)
     \<and> in_total_files_seen st = 1 \<and> row_with sync_id i (source_syncs (work t)) = Some y \<and> sync_files_skipped y = 1"
proof -
  have "(case fst (run_ingestion sample_local_env (default_settings ''host'') 1 ''/d'' (new_session empty_db)) of
      Inl _ \<Rightarrow> False | Inr st \<Rightarrow> in_total_files_seen st = 1 \<and> in_files_skipped st = 1)" by code_simp
  then obtain st t where run: "run_ingestion sample_local_env (default_settings ''host'') 1 ''/d'' (new_session empty_db) = (Inr st, t)"
    and st: "in_total_files_seen st = 1" "in_files_skipped st = 1"
    by (cases "run_ingestion sample_local_env (default_settings ''host'') 1 ''/d'' (new_session empty_db)") (auto split: sum.splits)
  from local_ingest_records_itself [OF run] st run show ?thesis by (fastforce simp: db_ok_empty)
qed

end
