(* ===== verification/Projects.thy ===== *)
theory Projects
  imports LocalIngest Sources
begin

text \<open>
  Projects and the ingestion route: \<open>apps/api/routes/ingest.py\<close>. Deleting the row of a project cascades through every table that
  refers to it; a column with \<open>ON DELETE SET NULL\<close> is cleared instead. What the rate limiter answers is an argument.
\<close>

section \<open>Deletes with cascades\<close>

definition delete_collectors :: "(collector_row \<Rightarrow> bool) \<Rightarrow> db \<Rightarrow> db" where
  "delete_collectors P d = (let gone = map coll_id (filter P (collectors d)) in
     edit_rows source_syncs_update (\<lambda>y. \<exists>i \<in> set gone. sync_collector_id y = Some i) (\<lambda>y. y\<lparr>sync_collector_id := None\<rparr>)
       (drop_rows collectors_update P d))"

definition delete_retrieval_runs :: "(retrieval_run \<Rightarrow> bool) \<Rightarrow> db \<Rightarrow> db" where
  "delete_retrieval_runs P d = (let gone = map rrun_id (filter P (retrieval_runs d)) in
     drop_rows retrieval_results_update (\<lambda>r. rres_retrieval_run_id r \<in> set gone) (drop_rows retrieval_runs_update P d))"

definition delete_agent_runs :: "(agent_run \<Rightarrow> bool) \<Rightarrow> db \<Rightarrow> db" where
  "delete_agent_runs P d = (let gone = map run_id (filter P (agent_runs d)) in
     drop_rows issue_drafts_update (\<lambda>r. issue_run_id r \<in> set gone)
       (drop_rows incident_report_drafts_update (\<lambda>r. report_run_id r \<in> set gone)
         (drop_rows approvals_update (\<lambda>r. appr_run_id r \<in> set gone)
           (drop_rows agent_run_events_update (\<lambda>r. runev_run_id r \<in> set gone) (drop_rows agent_runs_update P d)))))"

definition delete_eval_runs :: "(eval_run \<Rightarrow> bool) \<Rightarrow> db \<Rightarrow> db" where
  "delete_eval_runs P d = (let gone = map eval_id (filter P (eval_runs d)) in
     drop_rows eval_run_cases_update (\<lambda>r. evcase_eval_run_id r \<in> set gone) (drop_rows eval_runs_update P d))"

definition delete_operational_runs :: "(operational_run \<Rightarrow> bool) \<Rightarrow> db \<Rightarrow> db" where
  "delete_operational_runs P d = (let gone = map oprun_id (filter P (operational_runs d)) in
     edit_rows operational_events_update (\<lambda>e. \<exists>i \<in> set gone. opev_operational_run_id e = Some i) (\<lambda>e. e\<lparr>opev_operational_run_id := None\<rparr>)
       (drop_rows operational_findings_update (\<lambda>f. finding_operational_run_id f \<in> set gone) (drop_rows operational_runs_update P d)))"

definition delete_project_row :: "uid \<Rightarrow> db \<Rightarrow> db" where
  "delete_project_row pid d =
     edit_rows audit_events_update (\<lambda>a. audit_project_id a = Some pid) (\<lambda>a. a\<lparr>audit_project_id := None\<rparr>)
     (drop_rows operational_findings_update (\<lambda>f. finding_project_id f = pid)
     (drop_rows operational_events_update (\<lambda>e. opev_project_id e = pid)
     (delete_operational_runs (\<lambda>r. oprun_project_id r = pid)
     (delete_eval_runs (\<lambda>r. eval_project_id r = pid)
     (delete_agent_runs (\<lambda>r. run_project_id r = pid)
     (delete_retrieval_runs (\<lambda>r. rrun_project_id r = pid)
     (drop_rows index_jobs_update (\<lambda>j. job_project_id j = pid)
     (drop_rows evidence_relations_update (\<lambda>r. rel_project_id r = pid)
     (delete_chunks (\<lambda>c. chunk_project_id c = pid)
     (delete_documents (\<lambda>r. doc_project_id r = pid)
     (delete_syncs (\<lambda>y. sync_project_id y = pid)
     (delete_sources (\<lambda>r. src_project_id r = pid)
     (delete_collectors (\<lambda>c. coll_project_id c = pid)
     (drop_rows project_members_update (\<lambda>m. mem_project_id m = pid)
     (drop_rows projects_update (\<lambda>p. proj_id p = pid) d)))))))))))))))"

section \<open>Creating and listing\<close>

record project_request =
  pq_name :: string
  pq_demo_mode :: bool

record project_created =
  pc_project_id :: uid
  pc_name :: string
  pc_created_at :: string

definition new_project :: "time \<Rightarrow> project_request \<Rightarrow> uid \<Rightarrow> project_row" where
  "new_project now body i =
     \<lparr>proj_id = i, proj_name = pq_name body, proj_settings_json = Some [], proj_demo_mode = pq_demo_mode body, proj_created_at = now\<rparr>"

definition new_member :: "time \<Rightarrow> uid \<Rightarrow> uid \<Rightarrow> project_role \<Rightarrow> uid \<Rightarrow> member_row" where
  "new_member now pid usr role i = \<lparr>mem_id = i, mem_project_id = pid, mem_user_id = usr, mem_role = role, mem_created_at = now\<rparr>"

definition create_project :: "source_env \<Rightarrow> settings \<Rightarrow> request_info \<Rightarrow> user_row option \<Rightarrow> project_request \<Rightarrow> project_created dbact" where
  "create_project env cfg request user body =
     then_act (guard_act (\<not> (is_production_like cfg \<and> user = None)) (HTTPException 401 ''Authentication required''))
     (then_act (guard_act (\<not> (is_production_like cfg \<and> pq_demo_mode body)) (HTTPException 400 ''demo_mode projects are disabled in production''))
     (bind_act (query (\<lambda>d. filter (\<lambda>p. proj_name p = pq_name body) (projects d))) (\<lambda>ps.
      bind_act (lift_result (one_or_none ps)) (\<lambda>existing.
      then_act (guard_act (existing = None) (HTTPException 409 (''Project '' @ quoted (pq_name body) @ '' already exists'')))
      (bind_act (query next_id) (\<lambda>pid.
       then_act (change (add_row projects_update (new_project (se_now env) body)))
      (then_act (case user of None \<Rightarrow> ret ()
         | Some u \<Rightarrow> change (add_row project_members_update (new_member (se_now env) pid (user_id u) RoleAdmin)))
      (then_act (record_audit_event (se_now env) ''project_created'' ''success''
         (audit_defaults\<lparr>aa_project_id := Some pid, aa_user := user, aa_resource_type := Some ''project'',
            aa_resource_id := Some (uid_str pid), aa_request := Some request, aa_metadata := [(''demo_mode'', JBool (pq_demo_mode body))]\<rparr>))
      (then_act commit
         (ret \<lparr>pc_project_id = pid, pc_name = pq_name body, pc_created_at = se_iso env (se_now env)\<rparr>))))))))))"

record project_summary =
  ps_project_id :: uid
  ps_name :: string
  ps_role :: string
  ps_created_at :: time

definition memberships :: "uid \<Rightarrow> db \<Rightarrow> (project_row \<times> project_role) list" where
  "memberships usr d = concat (map (\<lambda>p. map (\<lambda>m. (p, mem_role m))
     (filter (\<lambda>m. mem_project_id m = proj_id p \<and> mem_user_id m = usr) (project_members d))) (projects d))"

definition list_projects :: "user_row \<Rightarrow> project_summary list dbact" where
  "list_projects user = query (\<lambda>d. map (\<lambda>(p, role). \<lparr>ps_project_id = proj_id p, ps_name = proj_name p,
       ps_role = project_role_value role, ps_created_at = proj_created_at p\<rparr>)
     (take 100 (sort_key (\<lambda>(p, _). - proj_created_at p) (memberships (user_id user) d))))"

section \<open>Deleting\<close>

definition project_counts :: "uid \<Rightarrow> db \<Rightarrow> int dict" where
  "project_counts pid d =
     [(''sources'', count_rows (\<lambda>r. src_project_id r = pid) (sources d)),
      (''collectors'', count_rows (\<lambda>r. coll_project_id r = pid) (collectors d)),
      (''syncs'', count_rows (\<lambda>r. sync_project_id r = pid) (source_syncs d)),
      (''documents'', count_rows (\<lambda>r. doc_project_id r = pid) (documents d)),
      (''chunks'', count_rows (\<lambda>r. chunk_project_id r = pid) (chunks d)),
      (''retrieval_runs'', count_rows (\<lambda>r. rrun_project_id r = pid) (retrieval_runs d)),
      (''agent_runs'', count_rows (\<lambda>r. run_project_id r = pid) (agent_runs d)),
      (''eval_runs'', count_rows (\<lambda>r. eval_project_id r = pid) (eval_runs d)),
      (''operational_runs'', count_rows (\<lambda>r. oprun_project_id r = pid) (operational_runs d)),
      (''operational_findings'', count_rows (\<lambda>r. finding_project_id r = pid) (operational_findings d)),
      (''operational_events'', count_rows (\<lambda>r. opev_project_id r = pid) (operational_events d)),
      (''memberships'', count_rows (\<lambda>r. mem_project_id r = pid) (project_members d))]"

definition ids_of :: "('r \<Rightarrow> uid) \<Rightarrow> ('r \<Rightarrow> uid) \<Rightarrow> uid \<Rightarrow> 'r list \<Rightarrow> uid set" where    \<comment> \<open>the subqueries over run ids\<close>
  "ids_of key project pid rs = key ` {r \<in> set rs. project r = pid}"

text \<open>The delete statements before the audit event, in the order of the code.\<close>

definition purge_runs :: "uid \<Rightarrow> db \<Rightarrow> db" where
  "purge_runs pid d = (let agents = (\<lambda>d. ids_of run_id run_project_id pid (agent_runs d)) in
     delete_retrieval_runs (\<lambda>r. rrun_project_id r = pid)
     (drop_rows retrieval_results_update (\<lambda>r. rres_retrieval_run_id r \<in> ids_of rrun_id rrun_project_id pid (retrieval_runs d))
     (delete_agent_runs (\<lambda>r. run_project_id r = pid)
     (drop_rows agent_run_events_update (\<lambda>e. runev_run_id e \<in> agents d)
     (drop_rows approvals_update (\<lambda>a. appr_run_id a \<in> agents d)
     (drop_rows issue_drafts_update (\<lambda>i. issue_run_id i \<in> agents d)
     (drop_rows incident_report_drafts_update (\<lambda>r. report_run_id r \<in> agents d)
     (delete_eval_runs (\<lambda>r. eval_project_id r = pid)
     (drop_rows eval_run_cases_update (\<lambda>c. evcase_eval_run_id c \<in> ids_of eval_id eval_project_id pid (eval_runs d)) d)))))))))"

definition purge_evidence :: "uid \<Rightarrow> db \<Rightarrow> db" where
  "purge_evidence pid d =
     drop_rows project_members_update (\<lambda>m. mem_project_id m = pid)
     (delete_collectors (\<lambda>c. coll_project_id c = pid)
     (delete_sources (\<lambda>r. src_project_id r = pid)
     (delete_syncs (\<lambda>y. sync_project_id y = pid)
     (delete_documents (\<lambda>r. doc_project_id r = pid)
     (delete_chunks (\<lambda>c. chunk_project_id c = pid) d)))))"

definition project_of :: "uid \<Rightarrow> project_row dbact" where
  "project_of pid = bind_act (query (\<lambda>d. row_with proj_id pid (projects d))) (\<lambda>p. case p of
      None \<Rightarrow> raise (HTTPException 404 ''Project not found'') | Some p \<Rightarrow> ret p)"

definition delete_project :: "source_env \<Rightarrow> settings \<Rightarrow> request_info \<Rightarrow> user_row \<Rightarrow> uid \<Rightarrow> purge_response dbact" where
  "delete_project env cfg request user pid =
     bind_act (project_of pid) (\<lambda>project.
     then_act (require_project_role (se_now env) pid (user_id user) RoleAdmin)
     (bind_act (query (project_counts pid)) (\<lambda>counts.
      then_act (try_act (delete_by_filter (source_http env) cfg pid [])
          (\<lambda>e. case e of VectorStoreError _ \<Rightarrow> raise (HTTPException 503 ''Vector store deletion failed'') | _ \<Rightarrow> raise e))
     (then_act (change (\<lambda>d. purge_evidence pid (purge_runs pid d)))
     (then_act (record_audit_event (se_now env) ''project_deleted'' ''success''
        (audit_of request user pid ''project'' pid
           [(''project_id'', JStr (uid_str pid)), (''project_name'', JStr (proj_name project)), (''delete_counts'', counts_json counts)]))
     (then_act (change (delete_project_row pid))
     (then_act commit
     (then_act (invalidate_project cfg pid)
        (ret \<lparr>pr_deleted = True, pr_resource_type = ''project'', pr_resource_id = pid, pr_counts = counts\<rparr>)))))))))"

section \<open>Ingesting a folder\<close>

definition local_audit :: "request_info \<Rightarrow> user_row \<Rightarrow> uid \<Rightarrow> json dict \<Rightarrow> audit_args" where
  "local_audit request user pid metadata = audit_of request user pid ''project'' pid metadata"

definition stats_metadata :: "ingest_stats \<Rightarrow> json dict" where
  "stats_metadata st = [(''documents_ingested'', JInt (in_documents_ingested st)), (''chunks_created'', JInt (in_chunks_created st)),
     (''files_skipped'', JInt (in_files_skipped st))]"

definition as_bad_request :: "py_exn \<Rightarrow> py_exn" where
  "as_bad_request e = (case e of PathPolicyError m \<Rightarrow> HTTPException 400 m | _ \<Rightarrow> e)"

definition ingest :: "local_env \<Rightarrow> file_system \<Rightarrow> settings \<Rightarrow> unit result \<Rightarrow> request_info \<Rightarrow> user_row \<Rightarrow> uid \<Rightarrow> string
    \<Rightarrow> (ingest_stats \<times> string) dbact" where
  "ingest env fs cfg verdict request user pid path =
     (let now = ie_now (lo_index env) in
      then_act (guard_act (local_ingest_enabled cfg \<and> \<not> is_production_like cfg) (HTTPException 403 ''Local path ingest is disabled''))
     (then_act (check_rate_limit cfg now verdict (''ingest:'' @ uid_str (user_id user)) (project_ingestion_limit cfg) (Some user) (Some pid) ''ingest'')
     (then_act (project_of pid)
     (then_act (require_project_role now pid (user_id user) RoleAdmin)
     (bind_act (lift_result (case validate_path_under_allowed_roots fs path (local_ingest_allowed_roots cfg) False True None of
          Inl e \<Rightarrow> Inl (as_bad_request e) | Inr p \<Rightarrow> Inr p)) (\<lambda>ingest_path.
      then_act (record_audit_event now ''local_ingest_started'' ''success'' (local_audit request user pid [(''mode'', JStr ''local_path'')]))
     (bind_act (run_ingestion env cfg pid ingest_path) (\<lambda>st.
      then_act (record_operational_event now pid None ''ingestion'' ''local_ingest_completed''
          (if in_parser_errors st \<noteq> [] then ''medium'' else ''info'')
          (stats_metadata st @ [(''parser_error_count'', JInt (int (length (in_parser_errors st)))),
             (''source_type_counts'', counts_json (in_source_type_counts st)), (''chunk_type_counts'', counts_json (in_chunk_type_counts st))]))
     (then_act (record_audit_event now ''local_ingest_finished'' ''success'' (local_audit request user pid (stats_metadata st)))
     (then_act (record_audit_event now ''documents_batch_ingested'' ''success''
          (local_audit request user pid ((''mode'', JStr ''local_path'') # stats_metadata st)))
        (ret (st, embedding_model cfg))))))))))))"
lemma delete_collectors_tables:
  "next_id (delete_collectors P d) = next_id d"
  "users (delete_collectors P d) = users d"
  "projects (delete_collectors P d) = projects d"
  "project_members (delete_collectors P d) = project_members d"
  "sources (delete_collectors P d) = sources d"
  "collectors (delete_collectors P d) = filter (\<lambda>c. \<not> P c) (collectors d)"
  "source_syncs (delete_collectors P d) = map (\<lambda>y. if \<exists>i \<in> set (map coll_id (filter P (collectors d))). sync_collector_id y = Some i then y\<lparr>sync_collector_id := None\<rparr> else y) (source_syncs d)"
  "documents (delete_collectors P d) = documents d"
  "chunks (delete_collectors P d) = chunks d"
  "evidence_relations (delete_collectors P d) = evidence_relations d"
  "index_jobs (delete_collectors P d) = index_jobs d"
  "retrieval_runs (delete_collectors P d) = retrieval_runs d"
  "retrieval_results (delete_collectors P d) = retrieval_results d"
  "operational_runs (delete_collectors P d) = operational_runs d"
  "operational_findings (delete_collectors P d) = operational_findings d"
  "operational_events (delete_collectors P d) = operational_events d"
  "agent_runs (delete_collectors P d) = agent_runs d"
  "agent_run_events (delete_collectors P d) = agent_run_events d"
  "approvals (delete_collectors P d) = approvals d"
  "incident_report_drafts (delete_collectors P d) = incident_report_drafts d"
  "issue_drafts (delete_collectors P d) = issue_drafts d"
  "eval_runs (delete_collectors P d) = eval_runs d"
  "eval_run_cases (delete_collectors P d) = eval_run_cases d"
  "audit_events (delete_collectors P d) = audit_events d"
  unfolding delete_collectors_def drop_rows_def edit_rows_def Let_def by simp_all

lemma delete_retrieval_runs_tables:
  "next_id (delete_retrieval_runs P d) = next_id d"
  "users (delete_retrieval_runs P d) = users d"
  "projects (delete_retrieval_runs P d) = projects d"
  "project_members (delete_retrieval_runs P d) = project_members d"
  "sources (delete_retrieval_runs P d) = sources d"
  "collectors (delete_retrieval_runs P d) = collectors d"
  "source_syncs (delete_retrieval_runs P d) = source_syncs d"
  "documents (delete_retrieval_runs P d) = documents d"
  "chunks (delete_retrieval_runs P d) = chunks d"
  "evidence_relations (delete_retrieval_runs P d) = evidence_relations d"
  "index_jobs (delete_retrieval_runs P d) = index_jobs d"
  "retrieval_runs (delete_retrieval_runs P d) = filter (\<lambda>c. \<not> P c) (retrieval_runs d)"
  "retrieval_results (delete_retrieval_runs P d) = filter (\<lambda>r. rres_retrieval_run_id r \<notin> set (map rrun_id (filter P (retrieval_runs d)))) (retrieval_results d)"
  "operational_runs (delete_retrieval_runs P d) = operational_runs d"
  "operational_findings (delete_retrieval_runs P d) = operational_findings d"
  "operational_events (delete_retrieval_runs P d) = operational_events d"
  "agent_runs (delete_retrieval_runs P d) = agent_runs d"
  "agent_run_events (delete_retrieval_runs P d) = agent_run_events d"
  "approvals (delete_retrieval_runs P d) = approvals d"
  "incident_report_drafts (delete_retrieval_runs P d) = incident_report_drafts d"
  "issue_drafts (delete_retrieval_runs P d) = issue_drafts d"
  "eval_runs (delete_retrieval_runs P d) = eval_runs d"
  "eval_run_cases (delete_retrieval_runs P d) = eval_run_cases d"
  "audit_events (delete_retrieval_runs P d) = audit_events d"
  unfolding delete_retrieval_runs_def drop_rows_def edit_rows_def Let_def by simp_all

lemma delete_agent_runs_tables:
  "next_id (delete_agent_runs P d) = next_id d"
  "users (delete_agent_runs P d) = users d"
  "projects (delete_agent_runs P d) = projects d"
  "project_members (delete_agent_runs P d) = project_members d"
  "sources (delete_agent_runs P d) = sources d"
  "collectors (delete_agent_runs P d) = collectors d"
  "source_syncs (delete_agent_runs P d) = source_syncs d"
  "documents (delete_agent_runs P d) = documents d"
  "chunks (delete_agent_runs P d) = chunks d"
  "evidence_relations (delete_agent_runs P d) = evidence_relations d"
  "index_jobs (delete_agent_runs P d) = index_jobs d"
  "retrieval_runs (delete_agent_runs P d) = retrieval_runs d"
  "retrieval_results (delete_agent_runs P d) = retrieval_results d"
  "operational_runs (delete_agent_runs P d) = operational_runs d"
  "operational_findings (delete_agent_runs P d) = operational_findings d"
  "operational_events (delete_agent_runs P d) = operational_events d"
  "agent_runs (delete_agent_runs P d) = filter (\<lambda>c. \<not> P c) (agent_runs d)"
  "agent_run_events (delete_agent_runs P d) = filter (\<lambda>r. runev_run_id r \<notin> set (map run_id (filter P (agent_runs d)))) (agent_run_events d)"
  "approvals (delete_agent_runs P d) = filter (\<lambda>r. appr_run_id r \<notin> set (map run_id (filter P (agent_runs d)))) (approvals d)"
  "incident_report_drafts (delete_agent_runs P d) = filter (\<lambda>r. report_run_id r \<notin> set (map run_id (filter P (agent_runs d)))) (incident_report_drafts d)"
  "issue_drafts (delete_agent_runs P d) = filter (\<lambda>r. issue_run_id r \<notin> set (map run_id (filter P (agent_runs d)))) (issue_drafts d)"
  "eval_runs (delete_agent_runs P d) = eval_runs d"
  "eval_run_cases (delete_agent_runs P d) = eval_run_cases d"
  "audit_events (delete_agent_runs P d) = audit_events d"
  unfolding delete_agent_runs_def drop_rows_def edit_rows_def Let_def by simp_all

lemma delete_eval_runs_tables:
  "next_id (delete_eval_runs P d) = next_id d"
  "users (delete_eval_runs P d) = users d"
  "projects (delete_eval_runs P d) = projects d"
  "project_members (delete_eval_runs P d) = project_members d"
  "sources (delete_eval_runs P d) = sources d"
  "collectors (delete_eval_runs P d) = collectors d"
  "source_syncs (delete_eval_runs P d) = source_syncs d"
  "documents (delete_eval_runs P d) = documents d"
  "chunks (delete_eval_runs P d) = chunks d"
  "evidence_relations (delete_eval_runs P d) = evidence_relations d"
  "index_jobs (delete_eval_runs P d) = index_jobs d"
  "retrieval_runs (delete_eval_runs P d) = retrieval_runs d"
  "retrieval_results (delete_eval_runs P d) = retrieval_results d"
  "operational_runs (delete_eval_runs P d) = operational_runs d"
  "operational_findings (delete_eval_runs P d) = operational_findings d"
  "operational_events (delete_eval_runs P d) = operational_events d"
  "agent_runs (delete_eval_runs P d) = agent_runs d"
  "agent_run_events (delete_eval_runs P d) = agent_run_events d"
  "approvals (delete_eval_runs P d) = approvals d"
  "incident_report_drafts (delete_eval_runs P d) = incident_report_drafts d"
  "issue_drafts (delete_eval_runs P d) = issue_drafts d"
  "eval_runs (delete_eval_runs P d) = filter (\<lambda>c. \<not> P c) (eval_runs d)"
  "eval_run_cases (delete_eval_runs P d) = filter (\<lambda>r. evcase_eval_run_id r \<notin> set (map eval_id (filter P (eval_runs d)))) (eval_run_cases d)"
  "audit_events (delete_eval_runs P d) = audit_events d"
  unfolding delete_eval_runs_def drop_rows_def edit_rows_def Let_def by simp_all

lemma delete_operational_runs_tables:
  "next_id (delete_operational_runs P d) = next_id d"
  "users (delete_operational_runs P d) = users d"
  "projects (delete_operational_runs P d) = projects d"
  "project_members (delete_operational_runs P d) = project_members d"
  "sources (delete_operational_runs P d) = sources d"
  "collectors (delete_operational_runs P d) = collectors d"
  "source_syncs (delete_operational_runs P d) = source_syncs d"
  "documents (delete_operational_runs P d) = documents d"
  "chunks (delete_operational_runs P d) = chunks d"
  "evidence_relations (delete_operational_runs P d) = evidence_relations d"
  "index_jobs (delete_operational_runs P d) = index_jobs d"
  "retrieval_runs (delete_operational_runs P d) = retrieval_runs d"
  "retrieval_results (delete_operational_runs P d) = retrieval_results d"
  "operational_runs (delete_operational_runs P d) = filter (\<lambda>c. \<not> P c) (operational_runs d)"
  "operational_findings (delete_operational_runs P d) = filter (\<lambda>r. finding_operational_run_id r \<notin> set (map oprun_id (filter P (operational_runs d)))) (operational_findings d)"
  "operational_events (delete_operational_runs P d) = map (\<lambda>e. if \<exists>i \<in> set (map oprun_id (filter P (operational_runs d))). opev_operational_run_id e = Some i then e\<lparr>opev_operational_run_id := None\<rparr> else e) (operational_events d)"
  "agent_runs (delete_operational_runs P d) = agent_runs d"
  "agent_run_events (delete_operational_runs P d) = agent_run_events d"
  "approvals (delete_operational_runs P d) = approvals d"
  "incident_report_drafts (delete_operational_runs P d) = incident_report_drafts d"
  "issue_drafts (delete_operational_runs P d) = issue_drafts d"
  "eval_runs (delete_operational_runs P d) = eval_runs d"
  "eval_run_cases (delete_operational_runs P d) = eval_run_cases d"
  "audit_events (delete_operational_runs P d) = audit_events d"
  unfolding delete_operational_runs_def drop_rows_def edit_rows_def Let_def by simp_all

lemma chunk_cascade_tables:
  "next_id (delete_chunks P d) = next_id d"
  "users (delete_chunks P d) = users d"
  "projects (delete_chunks P d) = projects d"
  "project_members (delete_chunks P d) = project_members d"
  "sources (delete_chunks P d) = sources d"
  "collectors (delete_chunks P d) = collectors d"
  "source_syncs (delete_chunks P d) = source_syncs d"
  "documents (delete_chunks P d) = documents d"
  "chunks (delete_chunks P d) = filter (\<lambda>c. \<not> P c) (chunks d)"
  "evidence_relations (delete_chunks P d) = filter (\<lambda>r. rel_evidence_chunk_id r \<notin> set (map chunk_id (filter P (chunks d)))) (evidence_relations d)"
  "index_jobs (delete_chunks P d) = index_jobs d"
  "retrieval_runs (delete_chunks P d) = retrieval_runs d"
  "retrieval_results (delete_chunks P d) = filter (\<lambda>r. rres_chunk_id r \<notin> set (map chunk_id (filter P (chunks d)))) (retrieval_results d)"
  "operational_runs (delete_chunks P d) = operational_runs d"
  "operational_findings (delete_chunks P d) = operational_findings d"
  "operational_events (delete_chunks P d) = operational_events d"
  "agent_runs (delete_chunks P d) = agent_runs d"
  "agent_run_events (delete_chunks P d) = agent_run_events d"
  "approvals (delete_chunks P d) = approvals d"
  "incident_report_drafts (delete_chunks P d) = incident_report_drafts d"
  "issue_drafts (delete_chunks P d) = issue_drafts d"
  "eval_runs (delete_chunks P d) = eval_runs d"
  "eval_run_cases (delete_chunks P d) = eval_run_cases d"
  "audit_events (delete_chunks P d) = audit_events d"
  unfolding delete_chunks_def drop_rows_def edit_rows_def Let_def by simp_all

lemma delete_documents_tables:
  "next_id (delete_documents P d) = next_id d"
  "users (delete_documents P d) = users d"
  "projects (delete_documents P d) = projects d"
  "project_members (delete_documents P d) = project_members d"
  "sources (delete_documents P d) = sources d"
  "collectors (delete_documents P d) = collectors d"
  "source_syncs (delete_documents P d) = source_syncs d"
  "documents (delete_documents P d) = filter (\<lambda>c. \<not> P c) (documents d)"
  "chunks (delete_documents P d) = filter (\<lambda>c. chunk_document_id c \<notin> set (map doc_id (filter P (documents d)))) (chunks d)"
  "evidence_relations (delete_documents P d) = filter (\<lambda>r. rel_evidence_chunk_id r \<notin> set (map chunk_id (filter (\<lambda>c. chunk_document_id c \<in> set (map doc_id (filter P (documents d)))) (chunks d)))) (evidence_relations d)"
  "index_jobs (delete_documents P d) = index_jobs d"
  "retrieval_runs (delete_documents P d) = retrieval_runs d"
  "retrieval_results (delete_documents P d) = filter (\<lambda>r. rres_chunk_id r \<notin> set (map chunk_id (filter (\<lambda>c. chunk_document_id c \<in> set (map doc_id (filter P (documents d)))) (chunks d)))) (retrieval_results d)"
  "operational_runs (delete_documents P d) = operational_runs d"
  "operational_findings (delete_documents P d) = operational_findings d"
  "operational_events (delete_documents P d) = operational_events d"
  "agent_runs (delete_documents P d) = agent_runs d"
  "agent_run_events (delete_documents P d) = agent_run_events d"
  "approvals (delete_documents P d) = approvals d"
  "incident_report_drafts (delete_documents P d) = incident_report_drafts d"
  "issue_drafts (delete_documents P d) = issue_drafts d"
  "eval_runs (delete_documents P d) = eval_runs d"
  "eval_run_cases (delete_documents P d) = eval_run_cases d"
  "audit_events (delete_documents P d) = audit_events d"
  unfolding delete_documents_def delete_chunks_def drop_rows_def edit_rows_def Let_def by simp_all

lemma delete_syncs_tables:
  "next_id (delete_syncs P d) = next_id d"
  "users (delete_syncs P d) = users d"
  "projects (delete_syncs P d) = projects d"
  "project_members (delete_syncs P d) = project_members d"
  "sources (delete_syncs P d) = sources d"
  "collectors (delete_syncs P d) = collectors d"
  "source_syncs (delete_syncs P d) = filter (\<lambda>c. \<not> P c) (source_syncs d)"
  "documents (delete_syncs P d) = documents d"
  "chunks (delete_syncs P d) = chunks d"
  "evidence_relations (delete_syncs P d) = evidence_relations d"
  "index_jobs (delete_syncs P d) = map (\<lambda>j. if \<exists>i \<in> set (map sync_id (filter P (source_syncs d))). job_sync_id j = Some i then j\<lparr>job_sync_id := None\<rparr> else j) (index_jobs d)"
  "retrieval_runs (delete_syncs P d) = retrieval_runs d"
  "retrieval_results (delete_syncs P d) = retrieval_results d"
  "operational_runs (delete_syncs P d) = operational_runs d"
  "operational_findings (delete_syncs P d) = operational_findings d"
  "operational_events (delete_syncs P d) = operational_events d"
  "agent_runs (delete_syncs P d) = agent_runs d"
  "agent_run_events (delete_syncs P d) = agent_run_events d"
  "approvals (delete_syncs P d) = approvals d"
  "incident_report_drafts (delete_syncs P d) = incident_report_drafts d"
  "issue_drafts (delete_syncs P d) = issue_drafts d"
  "eval_runs (delete_syncs P d) = eval_runs d"
  "eval_run_cases (delete_syncs P d) = eval_run_cases d"
  "audit_events (delete_syncs P d) = audit_events d"
  unfolding delete_syncs_def drop_rows_def edit_rows_def Let_def by simp_all

lemma delete_sources_tables:
  "next_id (delete_sources P d) = next_id d"
  "users (delete_sources P d) = users d"
  "projects (delete_sources P d) = projects d"
  "project_members (delete_sources P d) = project_members d"
  "sources (delete_sources P d) = filter (\<lambda>c. \<not> P c) (sources d)"
  "collectors (delete_sources P d) = collectors d"
  "source_syncs (delete_sources P d) = filter (\<lambda>y. sync_source_id y \<notin> set (map src_id (filter P (sources d)))) (source_syncs d)"
  "documents (delete_sources P d) = map (\<lambda>r. if \<exists>i \<in> set (map src_id (filter P (sources d))). doc_source_id r = Some i then r\<lparr>doc_source_id := None\<rparr> else r) (documents d)"
  "chunks (delete_sources P d) = map (\<lambda>r. if \<exists>i \<in> set (map src_id (filter P (sources d))). chunk_source_id r = Some i then r\<lparr>chunk_source_id := None\<rparr> else r) (chunks d)"
  "evidence_relations (delete_sources P d) = evidence_relations d"
  "index_jobs (delete_sources P d) = filter (\<lambda>j. job_source_id j \<notin> set (map src_id (filter P (sources d)))) (map (\<lambda>j. if \<exists>i \<in> set (map sync_id (filter (\<lambda>y. sync_source_id y \<in> set (map src_id (filter P (sources d)))) (source_syncs d))). job_sync_id j = Some i then j\<lparr>job_sync_id := None\<rparr> else j) (index_jobs d))"
  "retrieval_runs (delete_sources P d) = retrieval_runs d"
  "retrieval_results (delete_sources P d) = retrieval_results d"
  "operational_runs (delete_sources P d) = operational_runs d"
  "operational_findings (delete_sources P d) = operational_findings d"
  "operational_events (delete_sources P d) = operational_events d"
  "agent_runs (delete_sources P d) = agent_runs d"
  "agent_run_events (delete_sources P d) = agent_run_events d"
  "approvals (delete_sources P d) = approvals d"
  "incident_report_drafts (delete_sources P d) = incident_report_drafts d"
  "issue_drafts (delete_sources P d) = issue_drafts d"
  "eval_runs (delete_sources P d) = eval_runs d"
  "eval_run_cases (delete_sources P d) = eval_run_cases d"
  "audit_events (delete_sources P d) = audit_events d"
  unfolding delete_sources_def delete_syncs_def drop_rows_def edit_rows_def Let_def by simp_all

lemmas cascade_tables = delete_collectors_tables delete_retrieval_runs_tables delete_agent_runs_tables delete_eval_runs_tables
  delete_operational_runs_tables chunk_cascade_tables delete_documents_tables delete_syncs_tables delete_sources_tables

text \<open>Rows outside the project do not refer to rows inside it: every handler writes the project of the row it refers to.\<close>

definition self_contained :: "uid \<Rightarrow> db \<Rightarrow> bool" where
  "self_contained pid d \<longleftrightarrow>
     (let S = ids_of src_id src_project_id pid (sources d); C = ids_of coll_id coll_project_id pid (collectors d);
          Y = ids_of sync_id sync_project_id pid (source_syncs d); D = ids_of doc_id doc_project_id pid (documents d);
          K = ids_of chunk_id chunk_project_id pid (chunks d); R = ids_of oprun_id oprun_project_id pid (operational_runs d) in
      (\<forall>y\<in>set (source_syncs d). sync_project_id y \<noteq> pid \<longrightarrow> sync_source_id y \<notin> S \<and> sync_collector_id y \<notin> Some ` C)
      \<and> (\<forall>r\<in>set (documents d). doc_project_id r \<noteq> pid \<longrightarrow> doc_source_id r \<notin> Some ` S)
      \<and> (\<forall>c\<in>set (chunks d). chunk_project_id c \<noteq> pid \<longrightarrow> chunk_document_id c \<notin> D \<and> chunk_source_id c \<notin> Some ` S)
      \<and> (\<forall>r\<in>set (evidence_relations d). rel_project_id r \<noteq> pid \<longrightarrow> rel_evidence_chunk_id r \<notin> K)
      \<and> (\<forall>j\<in>set (index_jobs d). job_project_id j \<noteq> pid \<longrightarrow> job_source_id j \<notin> S \<and> job_sync_id j \<notin> Some ` Y)
      \<and> (\<forall>f\<in>set (operational_findings d). finding_project_id f \<noteq> pid \<longrightarrow> finding_operational_run_id f \<notin> R)
      \<and> (\<forall>e\<in>set (operational_events d). opev_project_id e \<noteq> pid \<longrightarrow> opev_operational_run_id e \<notin> Some ` R))"

definition erased :: "uid \<Rightarrow> db \<Rightarrow> db" where
  "erased pid d = purge_evidence pid (purge_runs pid d)"

lemmas erased_defs = erased_def purge_evidence_def purge_runs_def drop_rows_def Let_def

lemma erased_tables:
  "projects (erased pid d) = projects d" "project_members (erased pid d) = filter (\<lambda>m. mem_project_id m \<noteq> pid) (project_members d)"
  "sources (erased pid d) = filter (\<lambda>r. src_project_id r \<noteq> pid) (sources d)"
  "collectors (erased pid d) = filter (\<lambda>c. coll_project_id c \<noteq> pid) (collectors d)"
  "retrieval_runs (erased pid d) = filter (\<lambda>r. rrun_project_id r \<noteq> pid) (retrieval_runs d)"
  "agent_runs (erased pid d) = filter (\<lambda>r. run_project_id r \<noteq> pid) (agent_runs d)"
  "eval_runs (erased pid d) = filter (\<lambda>r. eval_project_id r \<noteq> pid) (eval_runs d)"
  "operational_runs (erased pid d) = operational_runs d" "operational_findings (erased pid d) = operational_findings d"
  "operational_events (erased pid d) = operational_events d" "audit_events (erased pid d) = audit_events d"
  unfolding erased_defs by (simp_all add: cascade_tables)

lemma erased_dependents:
  "agent_run_events (erased pid d) = filter (\<lambda>v. runev_run_id v \<notin> ids_of run_id run_project_id pid (agent_runs d)) (agent_run_events d)"
  "approvals (erased pid d) = filter (\<lambda>v. appr_run_id v \<notin> ids_of run_id run_project_id pid (agent_runs d)) (approvals d)"
  "incident_report_drafts (erased pid d) = filter (\<lambda>v. report_run_id v \<notin> ids_of run_id run_project_id pid (agent_runs d)) (incident_report_drafts d)"
  "issue_drafts (erased pid d) = filter (\<lambda>v. issue_run_id v \<notin> ids_of run_id run_project_id pid (agent_runs d)) (issue_drafts d)"
  "eval_run_cases (erased pid d) = filter (\<lambda>v. evcase_eval_run_id v \<notin> ids_of eval_id eval_project_id pid (eval_runs d)) (eval_run_cases d)"
  unfolding erased_defs by (simp_all add: cascade_tables ids_of_def)

lemma map_unless: "(\<And>x. x \<in> set xs \<Longrightarrow> \<not> P x) \<Longrightarrow> map (\<lambda>x. if P x then f x else x) xs = xs"
  by (rule map_idI) simp

lemma erased_documents:
  assumes "self_contained pid d"
  shows "documents (erased pid d) = filter (\<lambda>r. doc_project_id r \<noteq> pid) (documents d)"
proof -
  have "documents (erased pid d) = map (\<lambda>r. if \<exists>i \<in> set (map src_id (filter (\<lambda>r. src_project_id r = pid) (sources d))). doc_source_id r = Some i
      then r\<lparr>doc_source_id := None\<rparr> else r) (filter (\<lambda>r. doc_project_id r \<noteq> pid) (documents d))"
    unfolding erased_defs by (simp add: cascade_tables)
  also have "\<dots> = filter (\<lambda>r. doc_project_id r \<noteq> pid) (documents d)"
    by (rule map_unless) (use assms in \<open>auto simp: self_contained_def ids_of_def Let_def\<close>)
  finally show ?thesis .
qed

lemma erased_chunks:
  assumes "self_contained pid d"
  shows "chunks (erased pid d) = filter (\<lambda>c. chunk_project_id c \<noteq> pid) (chunks d)"
proof -
  let ?others = "filter (\<lambda>c. chunk_project_id c \<noteq> pid) (chunks d)"
  have "chunks (erased pid d) = map (\<lambda>r. if \<exists>i \<in> set (map src_id (filter (\<lambda>r. src_project_id r = pid) (sources d))). chunk_source_id r = Some i
      then r\<lparr>chunk_source_id := None\<rparr> else r)
      (filter (\<lambda>c. chunk_document_id c \<notin> set (map doc_id (filter (\<lambda>r. doc_project_id r = pid) (documents d)))) ?others)"
    unfolding erased_defs by (simp add: cascade_tables)
  also have "filter (\<lambda>c. chunk_document_id c \<notin> set (map doc_id (filter (\<lambda>r. doc_project_id r = pid) (documents d)))) ?others = ?others"
    by (rule filter_True) (use assms in \<open>auto simp: self_contained_def ids_of_def Let_def\<close>)
  also have "map (\<lambda>r. if \<exists>i \<in> set (map src_id (filter (\<lambda>r. src_project_id r = pid) (sources d))). chunk_source_id r = Some i
      then r\<lparr>chunk_source_id := None\<rparr> else r) ?others = ?others"
    by (rule map_unless) (use assms in \<open>auto simp: self_contained_def ids_of_def Let_def\<close>)
  finally show ?thesis .
qed

text \<open>The chunks that go with the documents are among those that went before.\<close>

lemma no_chunks_left:
  assumes "self_contained pid d"
  shows "filter (\<lambda>c. chunk_document_id c \<in> set (map doc_id (filter (\<lambda>r. doc_project_id r = pid) (documents d))))
     (filter (\<lambda>c. chunk_project_id c \<noteq> pid) (chunks d)) = []"
  using assms by (auto simp: self_contained_def ids_of_def Let_def filter_empty_conv)

lemma erased_evidence:
  assumes "self_contained pid d"
  shows "evidence_relations (erased pid d) = filter (\<lambda>r. rel_evidence_chunk_id r \<notin> ids_of chunk_id chunk_project_id pid (chunks d)) (evidence_relations d)"
    and "retrieval_results (erased pid d) = filter (\<lambda>r. rres_chunk_id r \<notin> ids_of chunk_id chunk_project_id pid (chunks d)
      \<and> rres_retrieval_run_id r \<notin> ids_of rrun_id rrun_project_id pid (retrieval_runs d)) (retrieval_results d)"
proof -
  have K: "set (map chunk_id (filter (\<lambda>c. chunk_project_id c = pid) (chunks d))) = ids_of chunk_id chunk_project_id pid (chunks d)"
    and R: "set (map rrun_id (filter (\<lambda>c. rrun_project_id c = pid) (retrieval_runs d))) = ids_of rrun_id rrun_project_id pid (retrieval_runs d)"
    by (auto simp: ids_of_def)
  let ?late = "set (map chunk_id (filter (\<lambda>c. chunk_document_id c \<in> set (map doc_id (filter (\<lambda>r. doc_project_id r = pid) (documents d))))
     (filter (\<lambda>c. chunk_project_id c \<noteq> pid) (chunks d))))"
  have late: "?late = {}" unfolding no_chunks_left [OF assms] by simp
  have "evidence_relations (erased pid d) = filter (\<lambda>r. rel_evidence_chunk_id r \<notin> ?late)
      (filter (\<lambda>r. rel_evidence_chunk_id r \<notin> set (map chunk_id (filter (\<lambda>c. chunk_project_id c = pid) (chunks d)))) (evidence_relations d))"
    unfolding erased_defs by (simp add: cascade_tables)
  then show "evidence_relations (erased pid d) = filter (\<lambda>r. rel_evidence_chunk_id r \<notin> ids_of chunk_id chunk_project_id pid (chunks d)) (evidence_relations d)"
    unfolding late K by simp
  have "retrieval_results (erased pid d) = filter (\<lambda>r. rres_chunk_id r \<notin> ?late)
      (filter (\<lambda>r. rres_chunk_id r \<notin> set (map chunk_id (filter (\<lambda>c. chunk_project_id c = pid) (chunks d))))
      (filter (\<lambda>r. rres_retrieval_run_id r \<notin> set (map rrun_id (filter (\<lambda>c. rrun_project_id c = pid) (retrieval_runs d))))
      (filter (\<lambda>r. rres_retrieval_run_id r \<notin> ids_of rrun_id rrun_project_id pid (retrieval_runs d)) (retrieval_results d))))"
    unfolding erased_defs by (simp add: cascade_tables)
  then show "retrieval_results (erased pid d) = filter (\<lambda>r. rres_chunk_id r \<notin> ids_of chunk_id chunk_project_id pid (chunks d)
      \<and> rres_retrieval_run_id r \<notin> ids_of rrun_id rrun_project_id pid (retrieval_runs d)) (retrieval_results d)"
    unfolding late K R by (simp add: conj_commute)
qed

lemma erased_syncs:
  assumes "self_contained pid d"
  shows "source_syncs (erased pid d) = filter (\<lambda>y. sync_project_id y \<noteq> pid) (source_syncs d)"
proof -
  let ?others = "filter (\<lambda>c. sync_project_id c \<noteq> pid) (source_syncs d)"
  have "source_syncs (erased pid d) = map (\<lambda>y. if \<exists>i \<in> set (map coll_id (filter (\<lambda>r. coll_project_id r = pid) (collectors d))). sync_collector_id y = Some i
      then y\<lparr>sync_collector_id := None\<rparr> else y)
      (filter (\<lambda>c. sync_source_id c \<notin> set (map src_id (filter (\<lambda>r. src_project_id r = pid) (sources d)))) ?others)"
    unfolding erased_defs by (simp add: cascade_tables)
  also have "filter (\<lambda>c. sync_source_id c \<notin> set (map src_id (filter (\<lambda>r. src_project_id r = pid) (sources d)))) ?others = ?others"
    by (rule filter_True) (use assms in \<open>auto simp: self_contained_def ids_of_def Let_def\<close>)
  also have "map (\<lambda>y. if \<exists>i \<in> set (map coll_id (filter (\<lambda>r. coll_project_id r = pid) (collectors d))). sync_collector_id y = Some i
      then y\<lparr>sync_collector_id := None\<rparr> else y) ?others = ?others"
    by (rule map_unless) (use assms in \<open>auto simp: self_contained_def ids_of_def Let_def\<close>)
  finally show ?thesis .
qed

lemma filter_edit_same:
  "(\<And>x. x \<in> set xs \<Longrightarrow> Q (g x) = Q x \<and> (Q x \<longrightarrow> g x = x \<and> P x)) \<Longrightarrow> filter Q (filter P (map g xs)) = filter Q xs"
  by (induction xs) auto

lemma erased_jobs:
  assumes "self_contained pid d"
  shows "filter (\<lambda>j. job_project_id j \<noteq> pid) (index_jobs (erased pid d)) = filter (\<lambda>j. job_project_id j \<noteq> pid) (index_jobs d)"
proof -
  let ?S = "set (map src_id (filter (\<lambda>r. src_project_id r = pid) (sources d)))"
  let ?null = "\<lambda>I j. if \<exists>i\<in>I. job_sync_id j = Some i then j\<lparr>job_sync_id := None\<rparr> else j"
  let ?Y = "set (map sync_id (filter (\<lambda>y. sync_project_id y = pid) (source_syncs d)))"
  let ?Z = "set (map sync_id (filter (\<lambda>y. sync_source_id y \<in> ?S) (filter (\<lambda>y. sync_project_id y \<noteq> pid) (source_syncs d))))"
  have Z: "?Z = {}" using assms by (auto simp: self_contained_def ids_of_def Let_def)
  have "index_jobs (erased pid d) = filter (\<lambda>j. job_source_id j \<notin> ?S) (map (?null ?Z) (map (?null ?Y) (index_jobs d)))"
    unfolding erased_defs by (simp add: cascade_tables)
  also have "\<dots> = filter (\<lambda>j. job_source_id j \<notin> ?S) (map (?null ?Y) (index_jobs d))" unfolding Z by simp
  finally have jobs: "index_jobs (erased pid d) = filter (\<lambda>j. job_source_id j \<notin> ?S) (map (?null ?Y) (index_jobs d))" .
  show ?thesis unfolding jobs
    by (rule filter_edit_same) (use assms in \<open>auto simp: self_contained_def ids_of_def Let_def\<close>)
qed

lemma deleted_project_tables:
  "projects (delete_project_row pid d) = filter (\<lambda>p. proj_id p \<noteq> pid) (projects d)"
  "project_members (delete_project_row pid d) = filter (\<lambda>m. mem_project_id m \<noteq> pid) (project_members d)"
  "sources (delete_project_row pid d) = filter (\<lambda>r. src_project_id r \<noteq> pid) (sources d)"
  "collectors (delete_project_row pid d) = filter (\<lambda>c. coll_project_id c \<noteq> pid) (collectors d)"
  "retrieval_runs (delete_project_row pid d) = filter (\<lambda>r. rrun_project_id r \<noteq> pid) (retrieval_runs d)"
  "agent_runs (delete_project_row pid d) = filter (\<lambda>r. run_project_id r \<noteq> pid) (agent_runs d)"
  "eval_runs (delete_project_row pid d) = filter (\<lambda>r. eval_project_id r \<noteq> pid) (eval_runs d)"
  "operational_runs (delete_project_row pid d) = filter (\<lambda>r. oprun_project_id r \<noteq> pid) (operational_runs d)"
  "operational_findings (delete_project_row pid d) = filter (\<lambda>f. finding_project_id f \<noteq> pid \<and> finding_operational_run_id f \<notin>
      ids_of oprun_id oprun_project_id pid (operational_runs d)) (operational_findings d)"
  "audit_events (delete_project_row pid d) = map (\<lambda>a. if audit_project_id a = Some pid then a\<lparr>audit_project_id := None\<rparr> else a) (audit_events d)"
  unfolding delete_project_row_def drop_rows_def edit_rows_def by (simp_all add: cascade_tables ids_of_def conj_commute)

definition emptied :: "uid \<Rightarrow> db \<Rightarrow> bool" where
  "emptied pid d \<longleftrightarrow> filter (\<lambda>r. src_project_id r = pid) (sources d) = [] \<and> filter (\<lambda>r. coll_project_id r = pid) (collectors d) = []
     \<and> filter (\<lambda>r. doc_project_id r = pid) (documents d) = [] \<and> filter (\<lambda>r. chunk_project_id r = pid) (chunks d) = []
     \<and> filter (\<lambda>r. sync_project_id r = pid) (source_syncs d) = [] \<and> filter (\<lambda>r. rrun_project_id r = pid) (retrieval_runs d) = []
     \<and> filter (\<lambda>r. run_project_id r = pid) (agent_runs d) = [] \<and> filter (\<lambda>r. eval_project_id r = pid) (eval_runs d) = []"

lemma filter_none: "filter P xs = [] \<Longrightarrow> filter (\<lambda>x. \<not> P x) xs = xs"
  by (simp add: filter_empty_conv)

lemma deleted_project_rest:
  assumes "emptied pid d"
  shows "documents (delete_project_row pid d) = documents d" "chunks (delete_project_row pid d) = chunks d"
    "source_syncs (delete_project_row pid d) = source_syncs d" "retrieval_results (delete_project_row pid d) = retrieval_results d"
    "agent_run_events (delete_project_row pid d) = agent_run_events d" "approvals (delete_project_row pid d) = approvals d"
    "incident_report_drafts (delete_project_row pid d) = incident_report_drafts d"
    "issue_drafts (delete_project_row pid d) = issue_drafts d" "eval_run_cases (delete_project_row pid d) = eval_run_cases d"
    "evidence_relations (delete_project_row pid d) = filter (\<lambda>r. rel_project_id r \<noteq> pid) (evidence_relations d)"
    "index_jobs (delete_project_row pid d) = filter (\<lambda>j. job_project_id j \<noteq> pid) (index_jobs d)"
    "operational_events (delete_project_row pid d) = filter (\<lambda>e. opev_project_id e \<noteq> pid)
       (map (\<lambda>e. if \<exists>i \<in> set (map oprun_id (filter (\<lambda>r. oprun_project_id r = pid) (operational_runs d))). opev_operational_run_id e = Some i
          then e\<lparr>opev_operational_run_id := None\<rparr> else e) (operational_events d))"
  using assms unfolding delete_project_row_def drop_rows_def edit_rows_def emptied_def
  by (simp_all add: cascade_tables filter_none)

lemma erased_emptied: "self_contained pid d \<Longrightarrow> emptied pid (erased pid d)"
  unfolding emptied_def by (simp add: erased_tables erased_documents erased_chunks erased_syncs)

definition purged_project :: "uid \<Rightarrow> (uid \<Rightarrow> audit_event) \<Rightarrow> db \<Rightarrow> db" where
  "purged_project pid mk d = delete_project_row pid (add_row audit_events_update mk (erased pid d))"

lemma emptied_audit: "emptied pid (add_row audit_events_update mk d) = emptied pid d"
  by (simp add: emptied_def add_row_def)

lemma filter_map_id:
  "(\<And>x. x \<in> set xs \<Longrightarrow> Q (g x) = Q x \<and> (Q x \<longrightarrow> g x = x)) \<Longrightarrow> filter Q (map g xs) = filter Q xs"
  by (induction xs) auto

lemma deleted_events:
  assumes "self_contained pid d"
  shows "filter (\<lambda>e. opev_project_id e \<noteq> pid)
       (map (\<lambda>e. if \<exists>i \<in> set (map oprun_id (filter (\<lambda>r. oprun_project_id r = pid) (operational_runs d))). opev_operational_run_id e = Some i
          then e\<lparr>opev_operational_run_id := None\<rparr> else e) (operational_events d)) = filter (\<lambda>e. opev_project_id e \<noteq> pid) (operational_events d)"
  by (rule filter_map_id) (use assms in \<open>auto simp: self_contained_def ids_of_def Let_def\<close>)

lemma delete_project_run:
  assumes "delete_project env cfg request user pid s = (Inr p, t)"
  obtains mk where "committed t = purged_project pid mk (work s)" and "pr_counts p = project_counts pid (work s)"
proof -
  have role: "work u = work v" if "require_project_role n i k r v = (Inr x, u)" for n i k r v x u
    using that by (auto simp: require_project_role_def bind_act_Inr_iff then_act_Inr_iff query_Inr ret_Inr raise_not_Inr split: option.splits if_splits)
  have vectors: "work u = work v" if "try_act (delete_by_filter (source_http env) cfg pid [])
          (\<lambda>e. case e of VectorStoreError _ \<Rightarrow> raise (HTTPException 503 ''Vector store deletion failed'') | _ \<Rightarrow> raise e) v = (Inr x, u)" for v x u
  proof -
    have "reads_only (try_act (delete_by_filter (source_http env) cfg pid [])
          (\<lambda>e. case e of VectorStoreError _ \<Rightarrow> raise (HTTPException 503 ''Vector store deletion failed'') | _ \<Rightarrow> raise e))"
      by (intro reads_only_try reads_only_delete_by_filter) (auto split: py_exn.split)
    with that show ?thesis by (simp add: reads_onlyD)
  qed
  have cache: "committed u = committed v" if "invalidate_project cfg pid v = (Inr x, u)" for v x u
    using reads_onlyD [OF reads_only_invalidate that] by simp
  have project: "work u = work v" if "project_of pid v = (Inr x, u)" for v x u
    using that by (auto simp: project_of_def run_act_simps split: option.splits)
  from assms show thesis
    unfolding delete_project_def record_audit_event_def
    by (auto simp: run_act_simps when_act_def audit_of_def audit_defaults_def purged_project_def erased_def
        dest!: role vectors cache project intro!: that)
qed


section \<open>Who may do what\<close>

text \<open>A list of projects shows only memberships of the caller.\<close>

lemma listed_projects_are_memberships:
  assumes "list_projects user s = (Inr ps, t)"
  shows "length ps \<le> 100 \<and> t = s
    \<and> (\<forall>p\<in>set ps. \<exists>m\<in>set (project_members (work s)). mem_project_id m = ps_project_id p \<and> mem_user_id m = user_id user
          \<and> ps_role p = project_role_value (mem_role m))"
  using assms by (auto simp: list_projects_def query_Inr memberships_def dest!: in_set_takeD)

lemma db_ok_delete_project:
  "db_ok d \<Longrightarrow> db_ok (delete_collectors P d)" "db_ok d \<Longrightarrow> db_ok (delete_retrieval_runs P2 d)" "db_ok d \<Longrightarrow> db_ok (delete_agent_runs P3 d)"
  "db_ok d \<Longrightarrow> db_ok (delete_eval_runs P4 d)" "db_ok d \<Longrightarrow> db_ok (delete_operational_runs P5 d)"
  unfolding delete_collectors_def delete_retrieval_runs_def delete_agent_runs_def delete_eval_runs_def delete_operational_runs_def Let_def
  by (intro db_ok_edit_source_syncs db_ok_edit_operational_events db_ok_drop_collectors db_ok_drop_retrieval_runs db_ok_drop_retrieval_results
      db_ok_drop_agent_runs db_ok_drop_agent_run_events db_ok_drop_approvals db_ok_drop_incident_report_drafts db_ok_drop_issue_drafts
      db_ok_drop_eval_runs db_ok_drop_eval_run_cases db_ok_drop_operational_runs db_ok_drop_operational_findings; simp)+

lemma db_ok_erased: "db_ok d \<Longrightarrow> db_ok (erased pid d)"
  unfolding erased_def purge_evidence_def purge_runs_def Let_def
  by (intro db_ok_delete_project db_ok_delete_chunks db_ok_delete_documents db_ok_delete_syncs db_ok_delete_sources
      db_ok_drop_project_members db_ok_drop_retrieval_results db_ok_drop_agent_run_events db_ok_drop_approvals db_ok_drop_issue_drafts
      db_ok_drop_incident_report_drafts db_ok_drop_eval_run_cases)

lemma db_ok_project_row: "db_ok d \<Longrightarrow> db_ok (delete_project_row pid d)"
  unfolding delete_project_row_def
  by (intro db_ok_edit_audit_events db_ok_drop_operational_findings db_ok_drop_operational_events db_ok_delete_project
      db_ok_drop_index_jobs db_ok_drop_evidence_relations db_ok_delete_chunks db_ok_delete_documents db_ok_delete_syncs
      db_ok_delete_sources db_ok_drop_project_members db_ok_drop_projects) simp_all

section \<open>Every handler keeps the tables well formed\<close>

lemmas keeps_ok = preserves_bind preserves_then preserves_query preserves_change preserves_ret preserves_raise preserves_guard preserves_commit
  preserves_lift preserves_when preserves_if preserves_option preserves_pair preserves_audit preserves_event preserves_require_project_role
  preserves_ensure_project_access preserves_check_rate_limit preserves_db_ok_index

lemma preserves_project_of [intro]: "preserves P (project_of pid)"
  unfolding project_of_def by (intro keeps_ok)

lemma preserves_invalidate [intro]: "preserves P (invalidate_project cfg pid)"
  by (intro reads_only_preserves reads_only_invalidate)

lemma preserves_vectors [intro]: "preserves P (try_act (delete_by_filter http cfg pid fs)
    (\<lambda>e. case e of VectorStoreError _ \<Rightarrow> raise (HTTPException 503 ''Vector store deletion failed'') | _ \<Rightarrow> raise e))"
  by (intro reads_only_preserves reads_only_try reads_only_delete_by_filter) (auto split: py_exn.split)

lemma preserves_create_project: "preserves db_ok (create_project env cfg request user body)"
  unfolding create_project_def
  by (intro keeps_ok db_ok_add_projects db_ok_add_project_members) (simp_all add: new_project_def new_member_def)

lemma preserves_delete_project: "preserves db_ok (delete_project env cfg request user pid)"
  unfolding delete_project_def
  by (intro keeps_ok preserves_project_of preserves_vectors preserves_invalidate db_ok_project_row)
    (rule db_ok_erased [unfolded erased_def])

lemma preserves_close_ingestion: "preserves db_ok (close_ingestion env pid base sid yid r b)"
  unfolding close_ingestion_def Let_def edit_row_def
  by (intro keeps_ok db_ok_edit_source_syncs db_ok_edit_sources) (simp_all add: completed_sync_def synced_source_def)

lemma preserves_run_ingestion: "preserves db_ok (run_ingestion env cfg pid base)"
  unfolding run_ingestion_def Let_def
  by (intro keeps_ok preserves_local_source preserves_close_ingestion db_ok_add_source_syncs) (simp_all add: running_sync_def)

lemma preserves_ingest: "preserves db_ok (ingest env fs cfg verdict request user pid path)"
  unfolding ingest_def Let_def by (intro keeps_ok preserves_project_of preserves_run_ingestion)

lemma preserves_source_of_project: "preserves P (source_of_project pid sid)"
  unfolding source_of_project_def require_source_def by (intro keeps_ok)

lemma preserves_project_admin: "preserves db_ok (require_project_admin cfg now pid user)"
  unfolding require_project_admin_def by (intro keeps_ok)

lemma preserves_create_source: "preserves db_ok (create_source env cfg request user pid body)"
proof -
  have "preserves db_ok (case rs of r # _ \<Rightarrow> ret (source_response_of r)
      | [] \<Rightarrow> bind_act (query next_id) (\<lambda>i.
          then_act (change (add_row sources_update (new_source (se_now env) pid body)))
         (then_act (record_audit_event (se_now env) ''source_created'' ''success'' (a i))
         (then_act commit (ret (source_response_of (new_source (se_now env) pid body i)))))))" for rs a
    by (cases rs) (auto intro!: keeps_ok db_ok_add_sources simp: new_source_def)
  then show ?thesis unfolding create_source_def by (intro keeps_ok preserves_project_admin)
qed

lemma preserves_delete_source: "preserves db_ok (delete_source env cfg request user pid sid)"
  unfolding delete_source_def
  by (intro keeps_ok preserves_project_admin preserves_source_of_project preserves_vectors preserves_invalidate)
    (auto simp: purge_source_def intro!: db_ok_delete_sources db_ok_delete_syncs db_ok_delete_documents db_ok_delete_chunks db_ok_drop_retrieval_results)

lemma preserves_register_collector: "preserves db_ok (register_collector env cfg request user pid body)"
  unfolding register_collector_def upsert_collector_def edit_row_def
  by (intro keeps_ok preserves_project_admin db_ok_edit_collectors db_ok_add_collectors) (simp_all add: new_collector_def)

lemma preserves_set_source: "(\<And>r. src_id (f r) = src_id r) \<Longrightarrow> preserves db_ok (set_source sid f)"
  unfolding set_source_def edit_row_def by (intro keeps_ok db_ok_edit_sources)

lemma preserves_set_sync: "(\<And>r. sync_id (f r) = sync_id r) \<Longrightarrow> preserves db_ok (set_sync yid f)"
  unfolding set_sync_def edit_row_def by (intro keeps_ok db_ok_edit_source_syncs)

lemma preserves_validate_collector: "preserves db_ok (validate_collector now pid c)"
  unfolding validate_collector_def edit_row_def by (intro keeps_ok db_ok_edit_collectors) simp_all

lemma preserves_start_sync: "preserves db_ok (start_sync env cfg request user sid body)"
  unfolding start_sync_def require_source_def Let_def
  by (intro keeps_ok preserves_project_admin preserves_validate_collector preserves_set_source db_ok_add_source_syncs)
    (simp_all add: new_sync_def)

lemma db_ok_jobs_added: "(\<And>nd i. job_id (mk nd i) = i) \<Longrightarrow> db_ok d \<Longrightarrow> db_ok (add_index_jobs mk nds d)"
  by (induction nds arbitrary: d) (simp_all add: db_ok_add_index_jobs)

lemma preserves_admit_batch: "preserves db_ok (admit_batch env cfg verdict user sid body)"
  unfolding admit_batch_def Let_def require_source_def require_sync_def
  by (intro keeps_ok preserves_validate_collector preserves_set_sync) simp_all

lemma preserves_index_batch: "preserves db_ok (index_batch env cfg r yid docs)"
  unfolding index_batch_def Let_def
  by (intro keeps_ok db_ok_jobs_added) (simp_all add: new_index_job_def)

lemma preserves_close_batch: "preserves db_ok (close_batch env cfg request user body r y b queued)"
  unfolding close_batch_def record_batch_def Let_def
  by (intro keeps_ok preserves_set_sync preserves_set_source) simp_all

lemma preserves_ingest_documents_batch: "preserves db_ok (ingest_documents_batch env cfg verdict request user sid body)"
  unfolding ingest_documents_batch_def
  by (intro keeps_ok preserves_admit_batch preserves_index_batch preserves_close_batch)

lemma preserves_lifted: "(\<And>x. r = Inr x \<Longrightarrow> preserves P (f x)) \<Longrightarrow> preserves P (bind_act (lift_result r) f)"
  by (cases r) (simp_all add: preserves_def bind_act_def lift_result_def)

lemma preserves_finish_open_sync: "preserves db_ok (finish_open_sync env cfg request user r y body)"
  unfolding finish_open_sync_def
proof (rule preserves_lifted)
  fix y' assume "finished_sync (se_now env) body y = Inr y'"
  then have "preserves db_ok (set_sync (sync_id y) (\<lambda>_. y'))" unfolding set_sync_def edit_row_def
    by (intro keeps_ok db_ok_edit_source_syncs) (simp_all add: finished_sync_Inr)
  moreover have "preserves db_ok (set_source (src_id r) (finished_source pending y'))" for pending
    by (rule preserves_set_source) (simp add: finished_source_def Let_def)
  ultimately show "preserves db_ok (then_act (set_sync (sync_id y) (\<lambda>_. y'))
    (bind_act (query (pending_jobs cfg (sync_id y))) (\<lambda>pending.
     then_act (set_source (src_id r) (finished_source pending y'))
    (then_act (record_audit_event (se_now env)
        (if sync_status y' = ''failed'' then ''sync_failed'' else ''sync_finished'') (sync_status y')
        (audit_of request user (src_project_id r) ''source_sync'' (sync_id y)
           [(''source_id'', JStr (uid_str (src_id r))), (''files_seen'', JInt (sync_files_seen y')),
            (''files_skipped'', JInt (sync_files_skipped y')), (''parser_errors'', JInt (sync_parser_errors y'))]))
    (then_act commit (ret (sync_id y, sync_status y')))))))" by (intro keeps_ok)
qed

lemma preserves_finish_sync: "preserves db_ok (finish_sync env cfg request user sid yid body)"
  unfolding finish_sync_def require_source_def require_sync_def
  by (intro keeps_ok preserves_finish_open_sync)


section \<open>Witness\<close>

text \<open>One project with an administrator, a source and a sync, and the deletion of it.\<close>

lemma sample_project_found: "project_of 2 (new_session sample_sources_db) = (Inr sample_project, new_session sample_sources_db)"
  by (simp add: project_of_def bind_act_def query_def ret_def row_with_def sample_rows)

lemma sample_project_admin:
  "require_project_role now 2 (user_id sample_user) RoleAdmin (new_session sample_sources_db)
     = (Inr RoleAdmin, new_session sample_sources_db)"
proof -
  have "project_role_of 2 (user_id sample_user) sample_sources_db = Some RoleAdmin" "role_allows RoleAdmin RoleAdmin"
    by (simp_all add: project_role_of_def sample_rows role_allows_def)
  then show ?thesis by (simp add: require_project_role_def query_def bind_act_def ret_def)
qed

lemma sample_project_vectors:
  "\<exists>e. delete_by_filter (source_http sample_source_env) sample_settings 2 [] s = (Inr (), s\<lparr>trace := trace s @ [e]\<rparr>)"
proof -
  have b: "base_url sample_settings = Inr ''http://q''" by code_simp
  show ?thesis
    by (simp add: delete_by_filter_def b send_def raise_for_status_def response_ok_def act_simps source_http_def sample_source_env_def)
      blast
qed

lemma sample_project_deletion:
  "\<exists>p t. delete_project sample_source_env sample_settings sample_request sample_user 2 (new_session sample_sources_db) = (Inr p, t)"
proof -
  obtain e where "delete_by_filter (source_http sample_source_env) sample_settings 2 [] (new_session sample_sources_db)
      = (Inr (), (new_session sample_sources_db)\<lparr>trace := trace (new_session sample_sources_db) @ [e]\<rparr>)"
    using sample_project_vectors by blast
  then show ?thesis
    by (simp add: delete_project_def then_act_def bind_act_def query_def ret_def sample_project_found
        sample_project_admin try_act_def change_def record_audit_run Let_def commit_def invalidate_project_def when_act_def call_def)
qed

lemma sample_self_contained: "self_contained 2 sample_sources_db"
  by (simp add: self_contained_def ids_of_def Let_def sample_rows empty_db_def)


end
