(* ===== verification/Answer.thy ===== *)
theory Answer
  imports Llm Investigation Access
begin

text \<open>
  The routes that answer questions: \<open>routes/answer.py\<close>, \<open>routes/search.py\<close> and \<open>routes/investigate.py\<close>. What the rate limiter
  answers and the measured latency are arguments; metrics and the debug answer of a search or an investigation are left out.
\<close>

section \<open>What the routes answer\<close>

record answer_citation =
  ac_label :: string
  ac_document_path :: string
  ac_lines :: string
  ac_chunk_id :: string

record answer_body =
  ab_summary :: string
  ab_likely_root_cause :: string
  ab_confidence :: string
  ab_affected_services :: "string list"
  ab_answer_text :: "string option"
  ab_reasoning :: "string option"
  ab_suggested_fix :: "string option"
  ab_unknowns :: "string list option"
  ab_citations :: "answer_citation list"

record evidence_hit =
  eh_chunk_id :: string
  eh_source_type :: string
  eh_chunk_type :: "string option"
  eh_document_path :: string
  eh_service_name :: "string option"
  eh_deploy_hash :: "string option"
  eh_score :: rat
  eh_text_preview :: string
  eh_why_retrieved :: "string list"
  eh_citation :: "citation option"

record answer_response =
  an_question :: string
  an_query_intent :: string
  an_answer :: "answer_body option"
  an_message :: "string option"
  an_evidence :: "evidence_hit list"
  an_synthesis_mode :: string
  an_llm_usage :: "int dict option"
  an_llm_latency_ms :: "int option"
  an_latency_ms :: int
  an_warnings :: "string list"

definition evidence_hit_of :: "evidence \<Rightarrow> evidence_hit" where
  "evidence_hit_of e = \<lparr>eh_chunk_id = ev_chunk_id e, eh_source_type = ev_source_type e, eh_chunk_type = Some (ev_chunk_type e),
     eh_document_path = ev_document_path e, eh_service_name = ev_service_name e, eh_deploy_hash = ev_deploy_hash e,
     eh_score = round4 (ev_score e), eh_text_preview = take 300 (ev_text e), eh_why_retrieved = ev_why_retrieved e,
     eh_citation = ev_citation e\<rparr>"

text \<open>The evidence has been cited before, so every item has a citation.\<close>

definition answer_citations :: "evidence list \<Rightarrow> answer_citation list" where
  "answer_citations es = List.map_filter (\<lambda>e. map_option (\<lambda>c. \<lparr>ac_label = ci_label c, ac_document_path = ev_document_path e,
     ac_lines = ci_lines c, ac_chunk_id = ev_chunk_id e\<rparr>) (ev_citation e)) es"

definition named_services :: "evidence list \<Rightarrow> string list" where
  "named_services es = sorted_set (filter (\<lambda>n. n \<noteq> []) (List.map_filter ev_service_name es))"

section \<open>Direct lookups\<close>

definition direct_intents :: "string list" where
  "direct_intents = [''code_location'', ''config_lookup'', ''api_contract'']"

definition incident_intents :: "string list" where
  "incident_intents = [''runtime_incident'', ''deploy_regression'', ''previous_incident'']"

definition result_source_types :: "search_result list \<Rightarrow> string list" where    \<comment> \<open>\<open>_raw_source_types\<close>, as the list of its elements\<close>
  "result_source_types rs = List.map_filter (\<lambda>r. case get_or_none (lc_metadata (sr_chunk r)) ''source_type'' of
      JStr t \<Rightarrow> if t = [] then None else Some t | _ \<Rightarrow> None) rs"

definition skip_rerank_for_intent :: "string \<Rightarrow> bool \<Rightarrow> bool" where
  "skip_rerank_for_intent intent supported \<longleftrightarrow> intent \<in> set direct_intents \<or> (intent \<in> set incident_intents \<and> \<not> supported)"

definition lookup_chunk_types :: "string list" where
  "lookup_chunk_types = [''go_function'', ''go_method'', ''go_type'', ''go_module'', ''function'', ''class'', ''module'',
     ''python_function'', ''python_class'', ''ts_function'', ''ts_class'', ''java_function'', ''java_class'', ''proto_service'',
     ''proto_rpc'', ''proto_message'']"

definition contract_chunk_types :: "string list" where
  "contract_chunk_types = [''api_endpoint'', ''proto_service'', ''proto_rpc'', ''proto_message'', ''proto_enum'', ''proto_preamble'']"

definition is_direct_lookup_candidate :: "string \<Rightarrow> search_result \<Rightarrow> bool" where
  "is_direct_lookup_candidate intent r =
     (let l = sr_chunk r; metadata = lc_metadata l;
          source_type = py_str (json_or (get_or_none metadata ''source_type'') (JStr []));
          chunk_type = chunk_chunk_type (lc_chunk l);
          path = py_lower (if doc_path_of l \<noteq> [] then doc_path_of l else py_str (json_or (get_or_none metadata ''document_path'') (JStr [])))
      in if intent = ''code_location'' then
           source_type \<in> {''code'', ''api_doc''} \<or> chunk_type \<in> set lookup_chunk_types
           \<or> ends_any path [''.py'', ''.go'', ''.ts'', ''.tsx'', ''.js'', ''.jsx'', ''.java'', ''.proto'']
         else if intent = ''config_lookup'' then
           source_type \<in> {''config'', ''deploy'', ''runbook'', ''code''}
           \<or> ends_any path [''.yaml'', ''.yml'', ''.json'', ''.toml'', ''.ini'', ''.env'']
         else source_type \<in> {''api_doc'', ''code''} \<or> chunk_type \<in> set contract_chunk_types)"

definition pack_direct_lookup_evidence :: "string \<Rightarrow> search_result list \<Rightarrow> settings \<Rightarrow> evidence list" where
  "pack_direct_lookup_evidence intent results cfg =
     (if intent \<notin> set direct_intents then []
      else let direct = filter (is_direct_lookup_candidate intent) results in
        if direct = [] then []
        else pack_evidence direct (min 2 (answer_max_evidence_chunks cfg)) (direct_answer_max_chars_per_chunk cfg)
               (direct_answer_max_total_chars cfg))"

definition direct_snippet :: "nat \<Rightarrow> evidence \<Rightarrow> string" where
  "direct_snippet max_chars e =
     (let lines = (case ev_citation e of None \<Rightarrow> [] | Some c \<Rightarrow> ci_lines c);
          prefix = ev_document_path e @ (if lines = [] then [] else '':'' @ lines);
          text = py_strip (ev_text e);
          short = py_rstrip (take (max_chars - 3) text);
          shown = (if length text > max_chars then (if short = [] then [] else short @ ''...'') else text)
      in if shown = [] then [] else prefix @ newline @ shown)"

definition direct_summary :: "string \<Rightarrow> string" where
  "direct_summary intent =
     (if intent = ''code_location'' then ''Direct code evidence found for this implementation lookup.''
      else if intent = ''config_lookup'' then ''Direct configuration evidence found for this lookup.''
      else ''Direct API contract evidence found for this lookup.'')"

definition direct_root_cause :: "string \<Rightarrow> string" where
  "direct_root_cause intent =
     (if intent = ''code_location'' then ''The top cited files show where this behavior or symbol is implemented.''
      else if intent = ''config_lookup'' then ''The top cited files show the configuration or deployment settings relevant to this lookup.''
      else ''The top cited files show the API contract definition relevant to this lookup.'')"

definition build_direct_answer :: "string \<Rightarrow> evidence list \<Rightarrow> answer_body option" where
  "build_direct_answer intent es =
     (let snippets = filter (\<lambda>x. x \<noteq> []) (map (direct_snippet 900) (take 2 es));
          joined = join_with (newline @ newline) snippets;
          cut = (if length joined > 4500 then py_rstrip (take 4500 joined) else joined)
      in if intent \<notin> set direct_intents \<or> es = [] \<or> snippets = [] then None
         else Some \<lparr>ab_summary = direct_summary intent, ab_likely_root_cause = direct_root_cause intent, ab_confidence = ''high'',
           ab_affected_services = named_services es, ab_answer_text = Some (sanitize_output cut),
           ab_reasoning = Some ''A direct evidence answer was returned because the highest-ranked retrieved chunks matched the requested code, config, or API location without needing broader synthesis.'',
           ab_suggested_fix = None, ab_unknowns = None, ab_citations = answer_citations (take 2 es)\<rparr>)"

section \<open>Too little evidence\<close>

definition missing_kind :: "string list \<Rightarrow> string \<Rightarrow> string \<Rightarrow> string list" where
  "missing_kind types kind warning = (if kind \<in> set types then [] else [warning])"

definition answer_warnings :: "string \<Rightarrow> evidence list \<Rightarrow> rerank_debug \<Rightarrow> string list" where
  "answer_warnings intent es debug =
     (let types = filter (\<lambda>t. t \<noteq> []) (map ev_source_type es) in
      (if rd_mode debug = [] then [] else [''rerank_mode='' @ rd_mode debug])
      @ (if intent \<notin> set incident_intents then []
         else missing_kind types ''logs'' ''runtime logs are missing from the retrieved evidence''
            @ missing_kind types ''deploy'' ''deploy history or diffs are missing from the retrieved evidence''
            @ missing_kind types ''incident'' ''previous incident reports are missing from the retrieved evidence''))"

definition insufficient_evidence_answer :: "evidence list \<Rightarrow> string list \<Rightarrow> answer_body" where
  "insufficient_evidence_answer es warnings =
     \<lparr>ab_summary = ''Operational evidence is insufficient to answer this incident question confidently.'',
      ab_likely_root_cause = ''The current evidence is missing key runtime, deploy, or incident context, so a confident root-cause explanation is not supported.'',
      ab_confidence = ''low'', ab_affected_services = named_services es, ab_answer_text = None,
      ab_reasoning = Some ''The retrieved evidence does not include enough operational context to justify a causal incident explanation. Use the cited evidence for repo context and add the missing operational evidence before drawing RCA conclusions.'',
      ab_suggested_fix = Some ''Add timestamped logs, deploy history or diffs, and previous incident or runbook evidence before using answer synthesis for runtime RCA.'',
      ab_unknowns = Some (dedupe warnings), ab_citations = answer_citations es\<rparr>"

section \<open>The answer of the model\<close>

definition prompt_item_of :: "evidence \<Rightarrow> prompt_item" where
  "prompt_item_of e = \<lparr>pi_label = (case ev_citation e of None \<Rightarrow> ''[?]'' | Some c \<Rightarrow> ci_label c), pi_source_type = ev_source_type e,
     pi_document_path = ev_document_path e, pi_lines = (case ev_citation e of None \<Rightarrow> [] | Some c \<Rightarrow> ci_lines c), pi_text = ev_text e\<rparr>"

definition sanitized :: "json \<Rightarrow> string result" where
  "sanitized v = (case v of JStr text \<Rightarrow> Inr (sanitize_output text) | _ \<Rightarrow> Inl (TypeError ''expected string or bytes-like object''))"

definition sanitized_if_any :: "json \<Rightarrow> string option result" where
  "sanitized_if_any v = (if truthy v then rbind (sanitized v) (\<lambda>text. Inr (Some text)) else Inr None)"

text \<open>The types that the answer model demands.\<close>

definition validation_error :: py_exn where "validation_error = OtherError ''ValidationError'' ''validation error for AnswerBody''"

definition str_field :: "json \<Rightarrow> string result" where
  "str_field v = (case v of JStr text \<Rightarrow> Inr text | _ \<Rightarrow> Inl validation_error)"

fun str_items :: "json list \<Rightarrow> string list result" where
  "str_items [] = Inr []"
| "str_items (v # vs) = rbind (str_field v) (\<lambda>x. rbind (str_items vs) (\<lambda>xs. Inr (x # xs)))"

definition str_list_field :: "json \<Rightarrow> string list result" where
  "str_list_field v = (case v of JList vs \<Rightarrow> str_items vs | _ \<Rightarrow> Inl validation_error)"

definition opt_list_field :: "json \<Rightarrow> string list option result" where
  "opt_list_field v = (if v = JNull then Inr None else rbind (str_list_field v) (\<lambda>xs. Inr (Some xs)))"

definition model_body :: "json dict \<Rightarrow> evidence list \<Rightarrow> answer_body result" where
  "model_body d es =
     rbind (sanitized (dict_get_or (JStr []) d ''summary'')) (\<lambda>summary.
     rbind (sanitized (dict_get_or (JStr []) d ''likely_root_cause'')) (\<lambda>root_cause.
     rbind (sanitized_if_any (get_or_none d ''answer_text'')) (\<lambda>answer_text.
     rbind (sanitized_if_any (get_or_none d ''reasoning'')) (\<lambda>reasoning.
     rbind (sanitized_if_any (get_or_none d ''suggested_fix'')) (\<lambda>fix_text.
     rbind (str_field (dict_get_or (JStr ''unknown'') d ''confidence'')) (\<lambda>confidence.
     rbind (str_list_field (dict_get_or (JList []) d ''affected_services'')) (\<lambda>services.
     rbind (opt_list_field (get_or_none d ''unknowns'')) (\<lambda>unknown.
       Inr \<lparr>ab_summary = summary, ab_likely_root_cause = root_cause, ab_confidence = confidence, ab_affected_services = services,
            ab_answer_text = answer_text, ab_reasoning = reasoning, ab_suggested_fix = fix_text, ab_unknowns = unknown,
            ab_citations = answer_citations es\<rparr>))))))))"

definition has_raw_response :: "json \<Rightarrow> bool result" where    \<comment> \<open>\<open>"raw_response" in llm_response\<close>\<close>
  "has_raw_response v = (case v of
      JObj d \<Rightarrow> Inr (dict_get d ''raw_response'' \<noteq> None)
    | JList vs \<Rightarrow> Inr (JStr ''raw_response'' \<in> set vs)
    | JStr text \<Rightarrow> Inr (str_contains ''raw_response'' text)
    | _ \<Rightarrow> Inl (TypeError ''argument is not iterable''))"

definition usage_counts :: "json dict \<Rightarrow> int dict result" where    \<comment> \<open>only the numbers of the usage\<close>
  "usage_counts usage = rmap (\<lambda>(k, v). rbind (json_int v) (\<lambda>n. Inr (k, n))) (filter (\<lambda>(_, v). is_number v) usage)"

definition fields_of :: "string \<Rightarrow> json \<Rightarrow> json dict result" where    \<comment> \<open>what a method of dictionaries needs\<close>
  "fields_of method v = (case v of JObj d \<Rightarrow> Inr d | _ \<Rightarrow> Inl (no_attribute v method))"

record synthesis =
  sy_answer :: "answer_body option"
  sy_message :: "string option"
  sy_mode :: string
  sy_usage :: "int dict option"
  sy_latency_ms :: "int option"

definition retrieval_only :: synthesis where
  "retrieval_only = \<lparr>sy_answer = None, sy_message = None, sy_mode = ''retrieval_only'', sy_usage = None, sy_latency_ms = None\<rparr>"

text \<open>What becomes of the model's reply: an answer, nothing, or an exception.\<close>

definition model_synthesis :: "json \<Rightarrow> evidence list \<Rightarrow> synthesis result" where
  "model_synthesis reply es =
     (if \<not> truthy reply then Inr retrieval_only
      else rbind (has_raw_response reply) (\<lambda>raw.
        if raw then Inr retrieval_only
        else rbind (json_get reply ''_meta'' JNull) (\<lambda>m.
          let meta = json_or m (JObj []) in
          rbind (json_get meta ''usage'' JNull) (\<lambda>u.
          rbind (rbind (fields_of ''items'' (json_or u (JObj []))) usage_counts) (\<lambda>usage.
          rbind (json_get meta ''latency_ms'' (JInt 0)) (\<lambda>l.
          rbind (json_int_or0 l) (\<lambda>latency.
          rbind (rbind (fields_of ''get'' reply) (\<lambda>d. model_body d es)) (\<lambda>body.
            Inr \<lparr>sy_answer = Some body, sy_message = None, sy_mode = ''llm_synthesis'', sy_usage = Some usage,
                 sy_latency_ms = (if latency = 0 then None else Some latency)\<rparr>)))))))) "

section \<open>Answering a question\<close>

record question_env =
  qe_now :: time
  qe_search :: search_env
  qe_rerank :: rerank_env
  qe_llm :: llm_env
  qe_latency_ms :: int

definition admit_question :: "question_env \<Rightarrow> settings \<Rightarrow> unit result \<Rightarrow> user_row option \<Rightarrow> uid \<Rightarrow> string \<Rightarrow> int \<Rightarrow> string \<Rightarrow> project_role \<Rightarrow> unit dbact" where
  "admit_question env cfg verdict user pid q k action role =
     then_act (lift_result (enforce_query_limits q k cfg))
     (then_act (case user of None \<Rightarrow> ret ()
        | Some u \<Rightarrow> check_rate_limit cfg (qe_now env) verdict (action @ '':'' @ uid_str (user_id u)) (user_request_limit cfg) user (Some pid) action)
       (ensure_project_access cfg (qe_now env) pid user role))"

text \<open>Retrieval and reranking: the results in order, whether an investigation is supported, why not, and how it was reranked.\<close>

definition ranked_results ::
  "question_env \<Rightarrow> settings \<Rightarrow> uid \<Rightarrow> string \<Rightarrow> int \<Rightarrow> (search_result list \<times> bool \<times> string list \<times> rerank_debug) dbact" where
  "ranked_results env cfg pid q k =
     (let intent = classify_query_intent q; limit = max (k * 3) (answer_max_evidence_chunks cfg * 2) in
      bind_act (hybrid_search (qe_search env) cfg pid q (max (k * 3) 30) []) (\<lambda>raw.
      let grounds = investigate_supported intent (result_source_types raw) in
      bind_act (if skip_rerank_for_intent (qi_intent intent) (fst grounds)
        then ret (py_slice (sort_desc sr_fused_score raw) 0 limit,
               skipped ''skipped'' (if \<not> is_incident_like intent then ''direct_lookup'' else ''missing_required_evidence''))
        else rerank_with_debug_async (qe_rerank env) cfg q raw (reranker_model cfg) limit) (\<lambda>(reranked, debug).
      ret (reranked, fst grounds, snd grounds, debug))))"

text \<open>The evidence shown and the answer to it.\<close>

definition synthesize ::
  "question_env \<Rightarrow> settings \<Rightarrow> string \<Rightarrow> evidence list \<Rightarrow> evidence list \<Rightarrow> bool \<Rightarrow> string list \<Rightarrow> string list \<Rightarrow> (evidence list \<times> synthesis) dbact" where
  "synthesize env cfg q es direct supported reasons warnings =
     (let intent = classify_query_intent q in
      if is_incident_like intent \<and> \<not> supported then
        ret (es, retrieval_only\<lparr>sy_answer := Some (insufficient_evidence_answer es (warnings @ reasons)), sy_mode := ''insufficient_evidence''\<rparr>)
      else if direct \<noteq> [] then
        ret (build_citations direct, retrieval_only\<lparr>sy_answer := build_direct_answer (qi_intent intent) (build_citations direct),
          sy_mode := ''direct_evidence''\<rparr>)
      else if llm_available (llm_provider_of cfg) then
        bind_act (chat (qe_llm env) cfg (build_answer_prompt (qe_llm env) q (map prompt_item_of es) (qi_intent intent) warnings)
            (JFloat (1 / 10) ''0.1'') 1024 [(''type'', JStr ''json_object'')]) (\<lambda>reply.
        bind_act (lift_result (model_synthesis reply es)) (\<lambda>sy. ret (es, sy)))
      else ret (es, retrieval_only\<lparr>sy_message := Some ''LLM provider not configured. Returning retrieved evidence only.''\<rparr>))"

definition answer_payload :: "question_env \<Rightarrow> string \<Rightarrow> synthesis \<Rightarrow> nat \<Rightarrow> nat \<Rightarrow> json dict" where
  "answer_payload env intent sy citations warnings =
     [(''query_intent'', JStr intent), (''synthesis_mode'', JStr (sy_mode sy)), (''latency_ms'', JInt (qe_latency_ms env)),
      (''llm_latency_ms'', case sy_latency_ms sy of None \<Rightarrow> JNull | Some n \<Rightarrow> JInt n), (''citation_count'', JInt (int citations)),
      (''warning_count'', JInt (int warnings)), (''llm_usage'', counts_json (case sy_usage sy of None \<Rightarrow> [] | Some u \<Rightarrow> u))]"

definition answer_question ::
  "question_env \<Rightarrow> settings \<Rightarrow> unit result \<Rightarrow> user_row option \<Rightarrow> uid \<Rightarrow> string \<Rightarrow> int \<Rightarrow> answer_response dbact" where
  "answer_question env cfg verdict user pid q k =
     (let intent = qi_intent (classify_query_intent q) in
      then_act (admit_question env cfg verdict user pid q k ''answer'' RoleInvestigator)
     (bind_act (ranked_results env cfg pid q k) (\<lambda>(reranked, supported, reasons, debug).
      let es = build_citations (pack_evidence reranked (min k (answer_max_evidence_chunks cfg)) (answer_max_chars_per_chunk cfg)
                 (answer_max_total_chars cfg));
          warnings = answer_warnings intent es debug
      in bind_act (synthesize env cfg q es (pack_direct_lookup_evidence intent reranked cfg) supported reasons warnings) (\<lambda>(shown, sy).
         then_act (record_operational_event (qe_now env) pid None ''answer'' ''answer_completed''
             (if sy_mode sy = ''insufficient_evidence'' then ''medium'' else ''info'')
             (answer_payload env intent sy (length shown) (length warnings)))
           (ret \<lparr>an_question = q, an_query_intent = intent, an_answer = sy_answer sy, an_message = sy_message sy,
              an_evidence = map evidence_hit_of shown, an_synthesis_mode = sy_mode sy, an_llm_usage = sy_usage sy,
              an_llm_latency_ms = sy_latency_ms sy, an_latency_ms = qe_latency_ms env, an_warnings = warnings\<rparr>)))))"

section \<open>Searching\<close>

record search_hit =
  sh_chunk_id :: string
  sh_rank :: nat
  sh_source_type :: string
  sh_document_path :: string
  sh_service_name :: "string option"
  sh_deploy_hash :: "string option"
  sh_endpoint :: "string option"
  sh_score :: rat
  sh_text_preview :: string
  sh_citation :: "citation option"

record search_response =
  se_query :: string
  se_results :: "search_hit list"
  se_total :: nat
  se_latency_ms :: int
  se_query_intent :: string
  se_source_mix :: "int dict"
  se_chunk_mix :: "int dict"

definition search_hit_of :: "nat \<times> evidence \<Rightarrow> search_hit" where
  "search_hit_of = (\<lambda>(i, e). \<lparr>sh_chunk_id = ev_chunk_id e, sh_rank = i + 1, sh_source_type = ev_source_type e,
     sh_document_path = ev_document_path e, sh_service_name = ev_service_name e, sh_deploy_hash = ev_deploy_hash e,
     sh_endpoint = ev_endpoint e, sh_score = round4 (ev_score e), sh_text_preview = take 300 (ev_text e), sh_citation = ev_citation e\<rparr>)"

definition search_question ::
  "question_env \<Rightarrow> settings \<Rightarrow> unit result \<Rightarrow> user_row option \<Rightarrow> uid \<Rightarrow> string \<Rightarrow> int \<Rightarrow> string option dict \<Rightarrow> search_response dbact" where
  "search_question env cfg verdict user pid q k fs =
     (let intent = qi_intent (classify_query_intent q); limit = min k (max_retrieved_chunks cfg) in
      then_act (admit_question env cfg verdict user pid q k ''search'' RoleViewer)
     (bind_act (hybrid_search (qe_search env) cfg pid q (max (k * 3) 30) fs) (\<lambda>raw.
      bind_act (rerank_with_debug_async (qe_rerank env) cfg q raw (reranker_model cfg) limit) (\<lambda>(reranked, debug).
      let es = build_citations (pack_evidence reranked limit default_max_chars default_max_total);
          source_mix = tally (map ev_source_type es);
          chunk_mix = tally (map (\<lambda>e. if ev_chunk_type e = [] then ''unknown'' else ev_chunk_type e) es)
      in then_act (record_operational_event (qe_now env) pid None ''retrieval'' ''search_completed''
             (if es = [] then ''medium'' else ''info'')
             [(''query_intent'', JStr intent), (''result_count'', JInt (int (length es))), (''latency_ms'', JInt (qe_latency_ms env)),
              (''source_type_distribution'', counts_json source_mix), (''chunk_type_distribution'', counts_json chunk_mix),
              (''rerank_mode'', JStr (rd_mode debug))])
           (ret \<lparr>se_query = q, se_results = map search_hit_of (enumerate 0 es), se_total = length es,
              se_latency_ms = qe_latency_ms env, se_query_intent = intent, se_source_mix = source_mix, se_chunk_mix = chunk_mix\<rparr>)))))"

section \<open>Investigating\<close>

definition investigate_question ::
  "question_env \<Rightarrow> settings \<Rightarrow> unit result \<Rightarrow> request_info \<Rightarrow> user_row option \<Rightarrow> uid \<Rightarrow> string \<Rightarrow> int \<Rightarrow> (investigation \<times> evidence_hit list) dbact" where
  "investigate_question env cfg verdict request user pid q k =
     then_act (admit_question env cfg verdict user pid q k ''investigate'' RoleInvestigator)
     (bind_act (investigate (qe_search env) (qe_rerank env) cfg pid q k (reranker_model cfg)) (\<lambda>r.
      then_act (record_audit_event (qe_now env) ''investigation_created'' ''success''
         (audit_defaults\<lparr>aa_project_id := Some pid, aa_user := user, aa_resource_type := Some ''investigation'',
            aa_resource_id := Some (uid_str pid), aa_request := Some request,
            aa_metadata := [(''task_type'', JStr (in_task_type r)), (''top_k'', JInt k)]\<rparr>))
     (then_act (record_operational_event (qe_now env) pid None ''investigation'' ''investigation_completed''
         (if in_confidence r \<in> {''low'', ''unknown''} then ''medium'' else ''info'')
         [(''task_type'', JStr (in_task_type r)), (''query_intent'', JStr (in_query_intent r)), (''confidence'', JStr (in_confidence r)),
          (''latency_ms'', JInt (qe_latency_ms env)), (''citation_count'', JInt (int (length (in_evidence r)))),
          (''missing_data_count'', JInt (int (length (in_missing_data r)))), (''investigation_supported'', JBool (in_supported r))])
       (ret (r, map (\<lambda>e. (evidence_hit_of e)\<lparr>eh_chunk_type := None, eh_why_retrieved := []\<rparr>) (in_evidence r))))))"

section \<open>Where an answer comes from\<close>

lemma role_required_same: "require_project_role now pid usr role s = (Inr r, t) \<Longrightarrow> t = s"
  by (auto simp: require_project_role_def bind_act_Inr_iff query_Inr ret_Inr raise_def then_act_def bind_act_def split: option.splits if_splits sum.splits prod.splits)

lemma access_same: "ensure_project_access cfg now pid user role s = (Inr (), t) \<Longrightarrow> t = s"
  unfolding ensure_project_access_def
  by (auto simp: bind_act_Inr_iff query_Inr ret_Inr raise_def then_act_def split: option.splits if_splits dest: role_required_same)

lemma rate_limit_same: "check_rate_limit cfg now verdict key limit user pid action s = (Inr (), t) \<Longrightarrow> t = s"
  unfolding check_rate_limit_def
  by (auto simp: bind_act_Inr_iff ret_Inr raise_def then_act_def split: sum.splits if_splits py_exn.splits)

lemma admit_same: "admit_question env cfg verdict user pid q k action role s = (Inr (), t) \<Longrightarrow> t = s"
  unfolding admit_question_def
  by (auto simp: then_act_def bind_act_Inr_iff ret_Inr lift_result_def split: option.splits dest!: access_same rate_limit_same)

lemma ranked_results_run:
  assumes "ranked_results env cfg pid q k s = (Inr (reranked, supported, reasons, debug), t)"
  obtains raw u where "hybrid_search (qe_search env) cfg pid q (max (k * 3) 30) [] s = (Inr raw, u)"
    and "reordered_prefix (max (k * 3) (answer_max_evidence_chunks cfg * 2)) raw reranked"
    and "(supported, reasons) = investigate_supported (classify_query_intent q) (result_source_types raw)"
    and "work t = work s" and "committed t = committed s"
proof -
  let ?limit = "max (k * 3) (answer_max_evidence_chunks cfg * 2)"
  from assms obtain raw u where search: "hybrid_search (qe_search env) cfg pid q (max (k * 3) 30) [] s = (Inr raw, u)"
    and sup: "(supported, reasons) = investigate_supported (classify_query_intent q) (result_source_types raw)"
    and rank: "(if skip_rerank_for_intent (qi_intent (classify_query_intent q)) supported
        then ret (py_slice (sort_desc sr_fused_score raw) 0 ?limit,
               skipped ''skipped'' (if \<not> is_incident_like (classify_query_intent q) then ''direct_lookup'' else ''missing_required_evidence''))
        else rerank_with_debug_async (qe_rerank env) cfg q raw (reranker_model cfg) ?limit) u = (Inr (reranked, debug), t)"
    by (auto simp: ranked_results_def Let_def bind_act_Inr_iff ret_Inr)
  have u: "work u = work s" "committed u = committed s" using reads_onlyD [OF reads_only_search search] by blast+
  have "reordered_prefix ?limit raw reranked \<and> work t = work u \<and> committed t = committed u"
  proof (cases "skip_rerank_for_intent (qi_intent (classify_query_intent q)) supported")
    case True
    with rank show ?thesis
      by (auto simp: ret_Inr intro!: reordered_prefixI simp: image_mset.compositionality)
  next
    case False
    with rank have r: "rerank_with_debug_async (qe_rerank env) cfg q raw (reranker_model cfg) ?limit u = (Inr (reranked, debug), t)" by simp
    show ?thesis using reranking_prefix [OF r] reads_onlyD [OF reads_only_rerank r] by blast
  qed
  with search sup u show thesis using that by simp
qed

text \<open>The cited evidence of an answer: items of the packed results, and the answer cites the first of them.\<close>

definition cited_ids :: "answer_response \<Rightarrow> (string option \<times> string) list" where
  "cited_ids r = map (\<lambda>h. (map_option ci_label (eh_citation h), eh_chunk_id h)) (an_evidence r)"

lemma answer_citations_cited:
  "map (\<lambda>c. (Some (ac_label c), ac_chunk_id c)) (answer_citations (build_citations es))
     = map (\<lambda>e. (map_option ci_label (ev_citation e), ev_chunk_id e)) (build_citations es)"
proof -
  have "map (\<lambda>c. (Some (ac_label c), ac_chunk_id c)) (answer_citations xs) = map (\<lambda>e. (map_option ci_label (ev_citation e), ev_chunk_id e)) xs"
    if "list_all (\<lambda>e. ev_citation e \<noteq> None) xs" for xs
    using that by (induction xs) (auto simp: answer_citations_def map_filter_simps)
  moreover have "list_all (\<lambda>e. ev_citation e \<noteq> None) (build_citations es)"
    by (auto simp: list_all_iff build_citations_def cite_def)
  ultimately show ?thesis by blast
qed

lemma take_answer_citations:
  "map (\<lambda>c. (Some (ac_label c), ac_chunk_id c)) (answer_citations (take n (build_citations es)))
     = take n (map (\<lambda>e. (map_option ci_label (ev_citation e), ev_chunk_id e)) (build_citations es))"
proof -
  have "map (\<lambda>c. (Some (ac_label c), ac_chunk_id c)) (answer_citations xs) = map (\<lambda>e. (map_option ci_label (ev_citation e), ev_chunk_id e)) xs"
    if "list_all (\<lambda>e. ev_citation e \<noteq> None) xs" for xs
    using that by (induction xs) (auto simp: answer_citations_def map_filter_simps)
  moreover have "list_all (\<lambda>e. ev_citation e \<noteq> None) (take n (build_citations es))"
    by (auto simp: list_all_iff build_citations_def cite_def dest!: in_set_takeD)
  ultimately show ?thesis by (simp add: take_map)
qed

text \<open>What an answer holds: some prefix of the labels and chunks of its evidence.\<close>

definition cites_prefix :: "evidence list \<Rightarrow> synthesis \<Rightarrow> bool" where
  "cites_prefix es sy \<longleftrightarrow> (case sy_answer sy of None \<Rightarrow> True | Some b \<Rightarrow> \<exists>n.
     map (\<lambda>c. (Some (ac_label c), ac_chunk_id c)) (ab_citations b) = take n (map (\<lambda>e. (map_option ci_label (ev_citation e), ev_chunk_id e)) es))"

lemma model_synthesis_cites:
  assumes "model_synthesis reply (build_citations es) = Inr sy"
  shows "cites_prefix (build_citations es) sy"
proof -
  have "ab_citations b = answer_citations xs" if "model_body d xs = Inr b" for d xs b
    using that by (auto simp: model_body_def rbind_Inr_iff)
  then have "sy_answer sy = None \<or> (\<exists>b. sy_answer sy = Some b \<and> ab_citations b = answer_citations (build_citations es))"
    using assms by (auto simp: model_synthesis_def retrieval_only_def rbind_Inr_iff Let_def split: if_split_asm)
  then show ?thesis
    by (auto simp: cites_prefix_def answer_citations_cited intro!: exI [of _ "length (build_citations es)"])
qed

lemma synthesize_run:
  assumes "synthesize env cfg q (build_citations es) direct supported reasons warnings s = (Inr (shown, sy), t)"
  shows "(shown = build_citations es \<or> shown = build_citations direct) \<and> cites_prefix shown sy"
proof -
  have insufficient: "cites_prefix (build_citations xs) (retrieval_only\<lparr>sy_answer := Some (insufficient_evidence_answer (build_citations xs) ws), sy_mode := m\<rparr>)" for xs ws m
    by (auto simp: cites_prefix_def insufficient_evidence_answer_def answer_citations_cited intro!: exI [of _ "length (build_citations xs)"])
  have direct: "cites_prefix (build_citations xs) (retrieval_only\<lparr>sy_answer := build_direct_answer i (build_citations xs), sy_mode := m\<rparr>)" for xs i m
    by (auto simp: cites_prefix_def build_direct_answer_def Let_def take_answer_citations split: option.splits if_splits)
  have none: "cites_prefix xs (retrieval_only\<lparr>sy_message := m\<rparr>)" for xs m by (simp add: cites_prefix_def retrieval_only_def)
  from assms show ?thesis unfolding synthesize_def Let_def
    by (auto simp: ret_Inr bind_act_Inr_iff lift_result_def insufficient direct none split: if_splits dest!: model_synthesis_cites)
qed

abbreviation packed_answer_evidence :: "settings \<Rightarrow> int \<Rightarrow> search_result list \<Rightarrow> evidence list" where
  "packed_answer_evidence cfg k rs \<equiv>
     pack_evidence rs (min k (answer_max_evidence_chunks cfg)) (answer_max_chars_per_chunk cfg) (answer_max_total_chars cfg)"

lemma answer_run:
  assumes "answer_question env cfg verdict user pid q k s = (Inr r, t)"
  obtains reranked supported reasons debug u shown sy v where
    "admit_question env cfg verdict user pid q k ''answer'' RoleInvestigator s = (Inr (), s)"
    "ranked_results env cfg pid q k s = (Inr (reranked, supported, reasons, debug), u)"
    "synthesize env cfg q (build_citations (packed_answer_evidence cfg k reranked))
       (pack_direct_lookup_evidence (qi_intent (classify_query_intent q)) reranked cfg) supported reasons
       (answer_warnings (qi_intent (classify_query_intent q)) (build_citations (packed_answer_evidence cfg k reranked)) debug) u
       = (Inr (shown, sy), v)"
    "an_evidence r = map evidence_hit_of shown" "an_answer r = sy_answer sy" "an_synthesis_mode r = sy_mode sy"
    "an_llm_usage r = sy_usage sy"
proof -
  from assms obtain w x where admit: "admit_question env cfg verdict user pid q k ''answer'' RoleInvestigator s = (Inr (), w)"
    and rest: "bind_act (ranked_results env cfg pid q k) x w = (Inr r, t)"
    and x: "x = (\<lambda>(reranked, supported, reasons, debug).
      let es = build_citations (packed_answer_evidence cfg k reranked);
          warnings = answer_warnings (qi_intent (classify_query_intent q)) es debug
      in bind_act (synthesize env cfg q es (pack_direct_lookup_evidence (qi_intent (classify_query_intent q)) reranked cfg) supported reasons warnings) (\<lambda>(shown, sy).
         then_act (record_operational_event (qe_now env) pid None ''answer'' ''answer_completed''
             (if sy_mode sy = ''insufficient_evidence'' then ''medium'' else ''info'')
             (answer_payload env (qi_intent (classify_query_intent q)) sy (length shown) (length warnings)))
           (ret \<lparr>an_question = q, an_query_intent = qi_intent (classify_query_intent q), an_answer = sy_answer sy, an_message = sy_message sy,
              an_evidence = map evidence_hit_of shown, an_synthesis_mode = sy_mode sy, an_llm_usage = sy_usage sy,
              an_llm_latency_ms = sy_latency_ms sy, an_latency_ms = qe_latency_ms env, an_warnings = warnings\<rparr>)))"
    unfolding answer_question_def Let_def then_act_def bind_act_Inr_iff by auto
  have w: "w = s" using admit_same [OF admit] .
  from rest obtain reranked supported reasons debug u where ranked: "ranked_results env cfg pid q k s = (Inr (reranked, supported, reasons, debug), u)"
    and last: "x (reranked, supported, reasons, debug) u = (Inr r, t)"
    unfolding w bind_act_Inr_iff by (metis surj_pair)
  from last show thesis unfolding x
    by (auto simp: Let_def bind_act_Inr_iff ret_Inr then_act_def intro: that [OF admit [unfolded w] ranked])
qed

lemma packed_from_project:
  assumes "answer_of S pid n raw" and "reordered_prefix limit raw reranked" and "set rs \<subseteq> set reranked"
    and "e \<in> set (build_citations (pack_evidence rs a b c))"
  shows "\<exists>c\<in>S. chunk_project_id c = pid \<and> ev_chunk_id e = uid_str (chunk_id c)"
proof -
  have "ev_chunk_id e \<in> set (map ev_chunk_id (pack_evidence rs a b c))"
    using assms(4) by (subst citation_ids [symmetric]) simp
  then obtain x where x: "x \<in> set rs" and i: "ev_chunk_id e = uid_str (lc_id (sr_chunk x))"
    by (auto dest!: pack_evidence_origin)
  from x assms(3) have "x \<in> set reranked" by blast
  from reordered_prefix_subset [OF assms(2) this] obtain y where "y \<in> set raw" and "sr_chunk x = sr_chunk y" by blast
  with assms(1) i show ?thesis by (auto simp: answer_of_def list_all_iff row_of_def)
qed


section \<open>Questions that are not put to the model\<close>

lemma unsupported_synthesis:
  "is_incident_like (classify_query_intent q) \<Longrightarrow>
   synthesize env cfg q es direct False reasons warnings
     = ret (es, retrieval_only\<lparr>sy_answer := Some (insufficient_evidence_answer es (warnings @ reasons)), sy_mode := ''insufficient_evidence''\<rparr>)"
  by (simp add: synthesize_def Let_def)

lemma other_model [simp]:
  "qe_now (env\<lparr>qe_llm := llm\<rparr>) = qe_now env" "qe_search (env\<lparr>qe_llm := llm\<rparr>) = qe_search env"
  "qe_rerank (env\<lparr>qe_llm := llm\<rparr>) = qe_rerank env" "qe_latency_ms (env\<lparr>qe_llm := llm\<rparr>) = qe_latency_ms env"
  by simp_all

lemma model_irrelevant:
  "admit_question (env\<lparr>qe_llm := llm\<rparr>) cfg verdict user pid q k action role = admit_question env cfg verdict user pid q k action role"
  "ranked_results (env\<lparr>qe_llm := llm\<rparr>) cfg pid q k = ranked_results env cfg pid q k"
  "answer_payload (env\<lparr>qe_llm := llm\<rparr>) intent sy n m = answer_payload env intent sy n m"
  unfolding admit_question_def ranked_results_def answer_payload_def other_model by (rule refl)+

text \<open>
  C37. An incident question without the evidence it needs is never put to the model: when the results hold no logs for a runtime
  incident, no deploys for a regression or no earlier incident, the answer says that the evidence is insufficient, with low
  confidence, and is the same whatever model there is.
\<close>

theorem unsupported_incidents_ignore_the_model:
  assumes run: "answer_question env cfg verdict user pid q k s = (Inr r, t)"
    and search: "hybrid_search (qe_search env) cfg pid q (max (k * 3) 30) [] s = (Inr raw, w)"
    and incident: "is_incident_like (classify_query_intent q)"
    and unsupported: "\<not> fst (investigate_supported (classify_query_intent q) (result_source_types raw))"
  shows "an_synthesis_mode r = ''insufficient_evidence'' \<and> map_option ab_confidence (an_answer r) = Some ''low'' \<and> an_llm_usage r = None
    \<and> answer_question (env\<lparr>qe_llm := llm\<rparr>) cfg verdict user pid q k s = (Inr r, t)"
  using run
proof (rule answer_run)
  fix reranked supported reasons debug u shown sy v
  let ?intent = "qi_intent (classify_query_intent q)"
  let ?es = "build_citations (packed_answer_evidence cfg k reranked)"
  assume admit: "admit_question env cfg verdict user pid q k ''answer'' RoleInvestigator s = (Inr (), s)"
    and ranked: "ranked_results env cfg pid q k s = (Inr (reranked, supported, reasons, debug), u)"
    and syn: "synthesize env cfg q ?es (pack_direct_lookup_evidence ?intent reranked cfg) supported reasons (answer_warnings ?intent ?es debug) u
       = (Inr (shown, sy), v)"
    and r: "an_answer r = sy_answer sy" "an_synthesis_mode r = sy_mode sy" "an_llm_usage r = sy_usage sy"
  from ranked obtain raw' w' where "hybrid_search (qe_search env) cfg pid q (max (k * 3) 30) [] s = (Inr raw', w')"
    and "(supported, reasons) = investigate_supported (classify_query_intent q) (result_source_types raw')"
    by (rule ranked_results_run)
  with search unsupported have sup: "supported = False" by (metis Inr_inject fst_conv prod.inject)
  note same = unsupported_synthesis [OF incident]
  have "answer_question (env\<lparr>qe_llm := llm\<rparr>) cfg verdict user pid q k s = answer_question env cfg verdict user pid q k s"
    unfolding answer_question_def Let_def then_act_def model_irrelevant
    by (simp add: bind_act_def admit ranked sup same)
  with run syn r show ?thesis unfolding sup same
    by (auto simp: ret_Inr retrieval_only_def insufficient_evidence_answer_def)
qed

text \<open>A success reply whose content is JSON but no object makes the route fail instead of falling back to the evidence.\<close>

lemma list_reply_raises: "model_synthesis (JList [JInt 1]) es = Inl (OtherError ''AttributeError'' ''get'')"
  by (simp add: model_synthesis_def has_raw_response_def json_get_def)

section \<open>What a search answers\<close>

text \<open>The hits are stored chunks of the project, ranked 1, 2, ..., and no more than asked for.\<close>

lemma search_question_hits:
  assumes "relations_scoped (work s)" and "relations_scoped (committed s)"
    and "search_question env cfg verdict user pid q k fs s = (Inr r, t)"
  shows "list_all (\<lambda>h. list_ex (\<lambda>c. chunk_project_id c = pid \<and> sh_chunk_id h = uid_str (chunk_id c)) (chunks (work s) @ chunks (committed s)))
       (se_results r)
    \<and> map sh_rank (se_results r) = [1..<Suc (length (se_results r))] \<and> se_total r = length (se_results r)"
proof -
  let ?S = "set (chunks (work s)) \<union> set (chunks (committed s))"
  from assms(3) obtain w where admit: "admit_question env cfg verdict user pid q k ''search'' RoleViewer s = (Inr (), w)"
    by (auto simp: search_question_def Let_def then_act_def bind_act_Inr_iff)
  note w = admit_same [OF admit]
  let ?limit = "min k (max_retrieved_chunks cfg)"
  from assms(3) [unfolded search_question_def Let_def then_act_def] admit w obtain raw u reranked debug v where
    search: "hybrid_search (qe_search env) cfg pid q (max (k * 3) 30) fs s = (Inr raw, u)"
    and rank: "rerank_with_debug_async (qe_rerank env) cfg q raw (reranker_model cfg) ?limit u = (Inr (reranked, debug), v)"
    and r: "se_results r = map search_hit_of (enumerate 0 (build_citations (pack_evidence reranked ?limit default_max_chars default_max_total)))"
      "se_total r = length (build_citations (pack_evidence reranked ?limit default_max_chars default_max_total))"
    by (auto simp: bind_act_Inr_iff ret_Inr)
  let ?es = "build_citations (pack_evidence reranked ?limit default_max_chars default_max_total)"
  have answer: "answer_of ?S pid (max (k * 3) 30) raw"
    by (rule yieldsD [OF yields_search _ _ search]) (simp_all add: rows_in_def assms(1,2))
  have "\<exists>c\<in>?S. chunk_project_id c = pid \<and> ev_chunk_id e = uid_str (chunk_id c)" if "e \<in> set ?es" for e
    using packed_from_project [OF answer reranking_prefix [OF rank] subset_refl that] .
  moreover have "map sh_chunk_id (se_results r) = map ev_chunk_id ?es"
    by (rule nth_equalityI) (simp_all add: r search_hit_of_def nth_enumerate_eq)
  ultimately have "list_all (\<lambda>i. list_ex (\<lambda>c. chunk_project_id c = pid \<and> i = uid_str (chunk_id c)) (chunks (work s) @ chunks (committed s)))
      (map sh_chunk_id (se_results r))" by (fastforce simp: list_all_iff list_ex_iff)
  moreover have "map sh_rank (se_results r) = [1..<Suc (length (se_results r))]"
    by (rule nth_equalityI) (simp_all add: r search_hit_of_def nth_enumerate_eq del: upt_Suc)
  ultimately show ?thesis by (simp add: r list.pred_map comp_def)
qed

section \<open>Concrete questions\<close>

definition sample_question_env :: question_env where
  "sample_question_env = \<lparr>qe_now = 5, qe_search = sample_embedding_env, qe_rerank = sample_rerank_env,
     qe_llm = \<lparr>ll_send = \<lambda>_ _. None, ll_loads = \<lambda>_. None, ll_latency_ms = 1, ll_dash = ''-''\<rparr>, qe_latency_ms = 3\<rparr>"

definition sample_chunk_db :: db where
  "sample_chunk_db = sample_db\<lparr>chunks := [sample_chunk 3 2]\<rparr>"

lemma sample_admitted:
  assumes "projects d = [sample_project]" and "length q \<le> 100"
  shows "admit_question sample_question_env (default_settings ''host'') (Inr ()) None 2 q 5 action role (new_session d) = (Inr (), new_session d)"
proof -
  have "\<not> is_production_like (default_settings ''host'')" "max_query_length (default_settings ''host'') \<ge> 100"
    "\<not> 5 > max_top_k (default_settings ''host'')" "\<not> 5 > max_retrieved_chunks (default_settings ''host'')" by code_simp+
  moreover have "allow_demo_project_bypass (default_settings ''host'')" by code_simp
  moreover have "int (length q) \<le> 100" using assms(2) by simp
  moreover have "row_with proj_id 2 (projects d) = Some sample_project" by (simp add: assms(1) row_with_def sample_project_def)
  ultimately show ?thesis
    by (simp add: admit_question_def enforce_query_limits_def ensure_project_access_def project_bypass_allowed_def then_act_def bind_act_def
        lift_result_def query_def ret_def sample_project_def)
qed

lemma sample_found:
  obtains raw u where "hybrid_search (qe_search sample_question_env) (default_settings ''host'') 2 q k fs s = (Inr raw, u)"
proof -
  obtain res u where run: "hybrid_search (qe_search sample_question_env) (default_settings ''host'') 2 q k fs s = (res, u)" by (meson surj_pair)
  moreover have "res \<noteq> Inl e" for e
    using search_steps [of "qe_search sample_question_env" "default_settings ''host''" 2 q k fs s e u] run
    by (auto simp: sample_question_env_def sample_embedding_env_def)
  ultimately show thesis using that by (cases res) auto
qed

lemma sample_reranked: "\<exists>out. rerank_with_debug_async renv (default_settings ''host'') q raw (reranker_model (default_settings ''host'')) k = ret out"
proof -
  have "rag_reranker_endpoint (default_settings ''host'') = []" "reranker_model (default_settings ''host'') = []"
    "\<not> starts_with [] ''azure-ml''" by code_simp+
  then show ?thesis by (auto simp: rerank_with_debug_async_def simp del: split_paired_Ex)
qed

lemma sample_answer:
  assumes "projects d = [sample_project]"
  shows "\<exists>r t. answer_question sample_question_env (default_settings ''host'') (Inr ()) None 2 ''x'' 5 (new_session d) = (Inr r, t)"
proof -
  have i: "qi_intent (classify_query_intent ''x'') = ''generic''" by code_simp
  have a: "\<not> llm_available (llm_provider_of (default_settings ''host''))" by code_simp
  obtain raw u where search: "hybrid_search (qe_search sample_question_env) (default_settings ''host'') 2 ''x'' 30 [] (new_session d) = (Inr raw, u)"
    by (rule sample_found)
  let ?limit = "max (5 * 3) (answer_max_evidence_chunks (default_settings ''host'') * 2)"
  obtain reranked debug where rank: "rerank_with_debug_async (qe_rerank sample_question_env) (default_settings ''host'') ''x'' raw
      (reranker_model (default_settings ''host'')) ?limit = ret (reranked, debug)"
    using sample_reranked by (metis surj_pair)
  have "ranked_results sample_question_env (default_settings ''host'') 2 ''x'' 5 (new_session d)
     = (Inr (reranked, fst (investigate_supported (classify_query_intent ''x'') (result_source_types raw)),
             snd (investigate_supported (classify_query_intent ''x'') (result_source_types raw)), debug), u)"
    using search rank i by (simp add: ranked_results_def Let_def bind_act_def skip_rerank_for_intent_def direct_intents_def incident_intents_def ret_def)
  then show ?thesis using i a sample_admitted [OF assms, of "''x''"]
    by (simp add: answer_question_def Let_def then_act_def bind_act_def synthesize_def is_incident_like_def pack_direct_lookup_evidence_def
        direct_intents_def ret_def record_operational_event_def change_def)
qed


theorem unsupported_incidents_ignore_the_model_witness:
  "\<exists>r t. answer_question sample_question_env (default_settings ''host'') (Inr ()) None 2 ''timeout errors'' 5 (new_session sample_db) = (Inr r, t)
     \<and> an_synthesis_mode r = ''insufficient_evidence''"
proof -
  let ?q = "''timeout errors''" and ?cfg = "default_settings ''host''" and ?s = "new_session sample_db"
  have i: "is_incident_like (classify_query_intent ?q)" "\<not> fst (investigate_supported (classify_query_intent ?q) [])"
    "qi_intent (classify_query_intent ?q) \<in> set incident_intents" by code_simp+
  have p: "projects sample_db = [sample_project]" "chunks sample_db = []" by (simp_all add: sample_db_def empty_db_def)
  obtain raw u where search: "hybrid_search (qe_search sample_question_env) ?cfg 2 ?q 30 [] ?s = (Inr raw, u)" by (rule sample_found)
  have "answer_of {} 2 30 raw"
    by (rule yieldsD [OF yields_search _ _ search]) (simp_all add: rows_in_def p(2), simp_all add: relations_scoped_def sample_db_def empty_db_def)
  then have raw: "raw = []" by (cases raw) (auto simp: answer_of_def row_of_def)
  have un: "\<not> fst (investigate_supported (classify_query_intent ?q) (result_source_types raw))"
    using i(2) by (simp add: raw result_source_types_def map_filter_simps)
  obtain reranked debug where ranked: "ranked_results sample_question_env ?cfg 2 ?q 5 ?s
      = (Inr (reranked, False, snd (investigate_supported (classify_query_intent ?q) (result_source_types raw)), debug), u)"
    using search un i(3) by (simp add: ranked_results_def Let_def bind_act_def skip_rerank_for_intent_def ret_def)
  have "\<exists>r t. answer_question sample_question_env ?cfg (Inr ()) None 2 ?q 5 ?s = (Inr r, t)"
    using sample_admitted [OF p(1), of ?q]
    by (simp add: answer_question_def Let_def then_act_def bind_act_def ranked unsupported_synthesis [OF i(1)] ret_def
        record_operational_event_def change_def)
  then obtain r t where run: "answer_question sample_question_env ?cfg (Inr ()) None 2 ?q 5 ?s = (Inr r, t)" by blast
  have "hybrid_search (qe_search sample_question_env) ?cfg 2 ?q (max (5 * 3) 30) [] ?s = (Inr raw, u)" using search by simp
  from unsupported_incidents_ignore_the_model [OF run this i(1) un] run show ?thesis by blast
qed

end
