(* ===== verification/CollectorMeta.thy ===== *)
theory CollectorMeta
  imports Taxonomy Regex VectorStore Indexer
begin

text \<open>
  What the Collector reads off a document: \<open>collector/metadata.py\<close> and \<open>collector/hints.py\<close>. \<open>ast.parse\<close> is an argument: the names of
  the functions and of the classes in the order of \<open>ast.walk\<close>, nothing for a syntax error, or another exception.
\<close>

section \<open>Patterns\<close>

definition m_sp :: rx where "m_sp = rx_star (RSet is_space)"
definition m_sp1 :: rx where "m_sp1 = rx_plus (RSet is_space)"

definition m_name :: rx where    \<comment> \<open>\<open>[A-Za-z_]\w*\<close>\<close>
  "m_name = RSeq (RSet (\<lambda>c. c_alpha c \<or> c = CHR ''_'')) (rx_star (RSet is_word))"

definition m_words :: "string list \<Rightarrow> rx" where "m_words ws = rx_alt (map rx_lit ws)"
definition m_words_ci :: "string list \<Rightarrow> rx" where "m_words_ci ws = rx_alt (map rx_lit_ci ws)"

definition m_receiver :: rx where    \<comment> \<open>\<open>(?:\([^)]*\)\s*)?\<close>\<close>
  "m_receiver = rx_opt (rx_seq [rx_lit ''('', rx_star (RSet (\<lambda>c. c \<noteq> CHR '')'')), rx_lit '')'', m_sp])"

definition go_package :: rx where
  "go_package = rx_seq [RLineStart, m_sp, rx_lit ''package'', m_sp1, RGroup 1 (rx_plus (RSet is_word))]"

definition go_function :: rx where
  "go_function = rx_seq [RLineStart, m_sp, rx_lit ''func'', m_sp1, m_receiver, RGroup 1 m_name, m_sp, rx_lit ''('']"

definition go_type :: rx where
  "go_type = rx_seq [RLineStart, m_sp, rx_lit ''type'', m_sp1, RGroup 1 m_name, m_sp1, m_words [''struct'', ''interface'']]"

definition proto_symbol :: rx where
  "proto_symbol = rx_seq [RLineStart, m_sp, RGroup 1 (m_words [''service'', ''rpc'', ''message'', ''enum'']), m_sp1, RGroup 2 m_name]"

definition py_symbol :: rx where
  "py_symbol = rx_seq [RLineStart, m_sp,
     rx_alt [rx_seq [rx_lit ''async'', m_sp1, rx_lit ''def''], rx_lit ''def'', rx_lit ''class''], m_sp1, RGroup 1 m_name]"

definition ts_symbol :: rx where
  "ts_symbol = rx_seq [RLineStart, m_sp, rx_opt (RSeq (rx_lit ''export'') m_sp1), rx_opt (RSeq (rx_lit ''async'') m_sp1),
     m_words [''function'', ''class'', ''interface'', ''type''], m_sp1, RGroup 1 m_name]"

definition ts_class :: rx where
  "ts_class = rx_seq [RLineStart, m_sp, rx_opt (RSeq (rx_lit ''export'') m_sp1),
     m_words [''class'', ''interface'', ''type''], m_sp1, RGroup 1 m_name]"

definition java_package :: rx where
  "java_package = rx_seq [RLineStart, m_sp, rx_lit ''package'', m_sp1,
     RGroup 1 (RSeq (RSet (\<lambda>c. c_alpha c \<or> c = CHR ''_'')) (rx_star (RSet (\<lambda>c. is_word c \<or> c = CHR ''.'')))), m_sp, rx_lit '';'']"

definition java_type :: rx where
  "java_type = rx_seq [RLineStart, m_sp,
     rx_star (RSeq (m_words [''public'', ''private'', ''protected'', ''abstract'', ''final'', ''static'']) m_sp1),
     m_words [''class'', ''interface'', ''enum'', ''record''], m_sp1, RGroup 1 m_name]"

definition java_method :: rx where
  "java_method = rx_seq [RLineStart, m_sp,
     rx_plus (RSeq (m_words [''public'', ''private'', ''protected'', ''static'', ''final'', ''synchronized'', ''abstract'', ''native'']) m_sp1),
     RSet (\<lambda>c. c_alpha c \<or> c = CHR ''_''), rx_star (RSet (\<lambda>c. is_word c \<or> c_in ''<>[], ?'' c)), m_sp1, RGroup 1 m_name, m_sp, rx_lit ''('']"

definition md_heading :: rx where
  "md_heading = rx_seq [RLineStart, rx_times 1 6 (rx_char CHR ''#''), m_sp1, RGroup 1 (rx_plus (RSet (\<lambda>c. cp c \<noteq> 10))), RLineEnd]"

definition http_endpoint :: rx where
  "http_endpoint = rx_seq [RWordEdge, m_words [''GET'', ''POST'', ''PUT'', ''PATCH'', ''DELETE''], m_sp1,
     RGroup 1 (RSeq (rx_lit ''/'') (rx_plus (RSet (\<lambda>c. \<not> is_space c))))]"

definition openapi_path :: rx where
  "openapi_path = rx_seq [RLineStart, rx_times 0 4 (RSet is_space),
     RGroup 1 (RSeq (rx_lit ''/'') (rx_plus (RSet (\<lambda>c. \<not> is_space c \<and> c \<noteq> CHR '':'')))), rx_lit '':'', m_sp,
     rx_opt (RSeq (rx_lit ''#'') (rx_star (RSet (\<lambda>c. cp c \<noteq> 10)))), RLineEnd]"

definition log_level :: rx where
  "log_level = rx_seq [RWordEdge, RGroup 1 (m_words [''DEBUG'', ''INFO'', ''WARN'', ''WARNING'', ''ERROR'', ''CRITICAL'']), RWordEdge]"

definition error_code :: rx where
  "error_code = rx_seq [RWordEdge,
     RAlt (RSeq (rx_lit ''ERR_'') (rx_plus (RSet (\<lambda>c. c_upper c \<or> is_digit c \<or> c = CHR ''_''))))
          (RSeq (rx_lit ''E'') (rx_times 3 5 (RSet is_digit))), RWordEdge]"

definition commit_hash :: rx where
  "commit_hash = rx_seq [RWordEdge, rx_times 7 40 (RSet c_hex), RWordEdge]"

definition digits :: "nat \<Rightarrow> rx" where "digits n = rx_times n n (RSet is_digit)"

definition timestamp :: rx where
  "timestamp = rx_seq [RWordEdge, digits 4, rx_lit ''-'', digits 2, rx_lit ''-'', digits 2, RSet (c_in ''T ''),
     RSet (c_in ''012''), digits 1, rx_lit '':'', RSet (c_in ''012345''), digits 1, rx_lit '':'', RSet (c_in ''012345''), digits 1,
     rx_opt (RSeq (rx_lit ''.'') (rx_plus (RSet is_digit))),
     rx_opt (RAlt (rx_lit ''Z'') (rx_seq [RSet (c_in ''+-''), digits 2, rx_opt (rx_lit '':''), digits 2])), RWordEdge]"

definition m_id_value :: rx where    \<comment> \<open>\<open>[=:]([A-Za-z0-9._-]+)\<close>\<close>
  "m_id_value = RSeq (RSet (c_in ''=:'')) (RGroup 1 (rx_plus (RSet (\<lambda>c. c_alnum c \<or> c_in ''._-'' c))))"

definition trace_id_rx :: rx where
  "trace_id_rx = rx_seq [RWordEdge, RAlt (RSeq (rx_lit_ci ''trace'') (rx_opt (rx_lit_ci ''_id''))) (rx_lit_ci ''trace-id''), m_id_value]"

definition request_id_rx :: rx where
  "request_id_rx = rx_seq [RWordEdge, RAlt (RSeq (rx_lit_ci ''request'') (rx_opt (rx_lit_ci ''_id''))) (rx_lit_ci ''request-id''), m_id_value]"

definition config_key :: rx where
  "config_key = rx_seq [RLineStart, m_sp,
     RGroup 1 (RSeq (RSet (\<lambda>c. c_alpha c \<or> c = CHR ''_'')) (rx_star (RSet (\<lambda>c. c_alnum c \<or> c_in ''_.-'' c)))), m_sp, RSet (c_in '':='')]"

definition release_marker :: rx where
  "release_marker = rx_seq [RWordEdge, m_words_ci [''release'', ''version'', ''changelog''], RWordEdge,
     rx_times 0 120 (RSet (\<lambda>c. cp c \<noteq> 10))]"

definition service_path :: rx where
  "service_path = rx_seq [RAlt RTextStart (rx_lit ''/''), RAlt (RSeq (rx_lit_ci ''service'') (rx_opt (rx_lit_ci ''s''))) (rx_lit_ci ''cmd''),
     rx_lit ''/'', RGroup 1 (rx_plus (RSet (\<lambda>c. c_alnum c \<or> c_in ''_-'' c))), RAlt (rx_lit ''/'') RTextEnd]"

section \<open>Metadata\<close>

definition found :: "rx \<Rightarrow> nat \<Rightarrow> string \<Rightarrow> string list" where    \<comment> \<open>\<open>findall\<close>: a group of every match, or the match itself\<close>
  "found r i text = map (\<lambda>m. if i = 0 then m_text m else group_text m i) (re_findall r text)"

definition first_found :: "rx \<Rightarrow> string \<Rightarrow> string option" where
  "first_found r text = map_option (\<lambda>m. group_text m 1) (re_search r text)"

record symbols =
  sy_names :: "string list"
  sy_functions :: "string list"
  sy_classes :: "string list"
  sy_package :: "string option"

type_synonym ast_names = "string \<Rightarrow> (string list \<times> string list) option result"

definition python_symbols :: "ast_names \<Rightarrow> string \<Rightarrow> symbols result" where
  "python_symbols ast content = rbind (ast content) (\<lambda>tree. Inr (case tree of
      None \<Rightarrow> let names = found py_symbol 1 content in \<lparr>sy_names = names, sy_functions = names, sy_classes = [], sy_package = None\<rparr>
    | Some (functions, classes) \<Rightarrow>
        \<lparr>sy_names = classes @ functions, sy_functions = functions, sy_classes = classes, sy_package = None\<rparr>))"

definition source_symbols :: "ast_names \<Rightarrow> string option \<Rightarrow> string \<Rightarrow> symbols result" where
  "source_symbols ast lang content =
     (if lang = Some ''go'' then let functions = found go_function 1 content; classes = found go_type 1 content in
        Inr \<lparr>sy_names = classes @ functions, sy_functions = functions, sy_classes = classes, sy_package = first_found go_package content\<rparr>
      else if lang = Some ''proto'' then let ms = re_findall proto_symbol content in
        Inr \<lparr>sy_names = map (\<lambda>m. group_text m 2) ms,
             sy_functions = map (\<lambda>m. group_text m 2) (filter (\<lambda>m. group_text m 1 = ''rpc'') ms), sy_classes = [], sy_package = None\<rparr>
      else if lang = Some ''python'' then python_symbols ast content
      else if lang = Some ''typescript'' \<or> lang = Some ''javascript'' then
        let names = found ts_symbol 1 content; classes = found ts_class 1 content in
        Inr \<lparr>sy_names = names, sy_functions = filter (\<lambda>n. n \<notin> set classes) names, sy_classes = classes, sy_package = None\<rparr>
      else if lang = Some ''java'' then let classes = found java_type 1 content; functions = found java_method 1 content in
        Inr \<lparr>sy_names = classes @ functions, sy_functions = functions, sy_classes = classes, sy_package = first_found java_package content\<rparr>
      else Inr \<lparr>sy_names = [], sy_functions = [], sy_classes = [], sy_package = None\<rparr>)"

definition service_from_path :: "string \<Rightarrow> string option" where
  "service_from_path path = first_found service_path (replace_char CHR 0x5C CHR ''/'' path)"

definition release_markers :: "string \<Rightarrow> string \<Rightarrow> string list" where
  "release_markers path content =
     (let filename = py_lower (path_name path);
          markers = found release_marker 0 content
            @ (if any_in [''changelog'', ''release'', ''version''] filename then [''release_file:'' @ filename] else [])
      in take 25 (sorted_set (filter (\<lambda>m. m \<noteq> []) (map py_strip markers))))"

text \<open>\<open>str(PurePosixPath(...))\<close> of the parts of a path, and the path without the suffix of its name.\<close>

definition posix_text :: "string list \<Rightarrow> string" where
  "posix_text ps = (case ps of
      [] \<Rightarrow> ''.''
    | p # rest \<Rightarrow> if p = ''/'' then ''/'' @ join_with ''/'' rest else join_with ''/'' ps)"

definition module_path :: "string \<Rightarrow> string result" where
  "module_path path =
     (let name = path_name path in
      if name = [] then Inl (ValueError ''PurePosixPath has an empty name'')
      else Inr (posix_text (butlast (path_parts path) @ [take (length name - length (name_suffix name)) name])))"

definition package_path :: "string \<Rightarrow> string option" where
  "package_path path = (let ps = path_parts path; parent = (if path_name path = [] then ps else butlast ps); text = posix_text parent in
     if text = [] \<or> text = ''.'' then None else Some text)"

definition strs :: "string list \<Rightarrow> json" where "strs xs = JList (map JStr xs)"

definition is_blank :: "json \<Rightarrow> bool" where    \<comment> \<open>\<open>value in (None, [], "")\<close>\<close>
  "is_blank v \<longleftrightarrow> v = JNull \<or> v = JList [] \<or> v = JStr []"

record repo_context =
  rp_repo_name :: "string option"
  rp_branch :: "string option"
  rp_commit_sha :: "string option"

definition extract_metadata :: "ast_names \<Rightarrow> string \<Rightarrow> string \<Rightarrow> repo_context \<Rightarrow> json dict result" where
  "extract_metadata ast path content ctx =
     rbind (source_symbols ast (language path) content) (\<lambda>s.
     rbind (module_path path) (\<lambda>module.
     let lang = language path; commits = found commit_hash 0 content; stamps = found timestamp 0 content;
         endpoints = take 50 (sorted_set (found http_endpoint 1 content @ found openapi_path 1 content));
         sha = (case rp_commit_sha ctx of Some c \<Rightarrow> if c \<noteq> [] then Some c else None | None \<Rightarrow> None);
         commit = (case sha of Some c \<Rightarrow> Some c | None \<Rightarrow> (case commits of [] \<Rightarrow> None | c # _ \<Rightarrow> Some (py_lower c)))
     in Inr (filter (\<lambda>(_, v). \<not> is_blank v)
       [(''repo_name'', opt_json (rp_repo_name ctx)), (''branch'', opt_json (rp_branch ctx)), (''commit_sha'', opt_json commit),
        (''file_language'', opt_json lang), (''language'', opt_json lang), (''module_path'', JStr module),
        (''package_path'', opt_json (package_path path)), (''package_name'', opt_json (sy_package s)),
        (''symbol_names'', strs (take 100 (sorted_set (sy_names s)))), (''function_names'', strs (take 100 (sorted_set (sy_functions s)))),
        (''class_names'', strs (take 100 (sorted_set (sy_classes s)))), (''headings'', strs (take 50 (found md_heading 1 content))),
        (''endpoint_candidates'', strs endpoints), (''api_paths'', strs (take 50 (filter (\<lambda>e. starts_with e ''/'') endpoints))),
        (''service_name'', opt_json (service_from_path path)), (''log_levels'', strs (sorted_set (found log_level 1 content))),
        (''error_codes'', strs (take 50 (sorted_set (found error_code 0 content)))),
        (''trace_ids'', strs (take 100 (sorted_set (found trace_id_rx 1 content)))),
        (''request_ids'', strs (take 100 (sorted_set (found request_id_rx 1 content)))),
        (''timestamp_start'', case stamps of [] \<Rightarrow> JNull | t # _ \<Rightarrow> JStr t),
        (''timestamp_end'', if stamps = [] then JNull else JStr (last stamps)),
        (''config_keys_summary'', strs (take 100 (sorted_set (found config_key 1 content)))),
        (''release_markers'', strs (release_markers path content))])))"

section \<open>Hints for the chunker\<close>

record hint =
  hi_type :: string
  hi_start_line :: nat
  hi_end_line :: nat
  hi_priority :: string

definition go_boundary :: rx where
  "go_boundary = rx_seq [RLineStart, m_sp,
     RAlt (rx_seq [rx_lit ''func'', m_sp1, m_receiver, rx_plus (RSet is_word), m_sp, rx_lit ''(''])
          (rx_seq [rx_lit ''type'', m_sp1, rx_plus (RSet is_word), m_sp1, m_words [''struct'', ''interface'']])]"

definition proto_boundary :: rx where
  "proto_boundary = rx_seq [RLineStart, m_sp, m_words [''service'', ''rpc'', ''message'', ''enum''], m_sp1, RGroup 1 m_name]"

definition whole_document :: "string list \<Rightarrow> hint" where
  "whole_document lines = \<lparr>hi_type = ''document'', hi_start_line = 1, hi_end_line = max (length lines) 1, hi_priority = ''low''\<rparr>"

definition boundary_lines :: "rx \<Rightarrow> string list \<Rightarrow> nat list" where
  "boundary_lines r lines = map fst (filter (\<lambda>(_, l). re_match r l \<noteq> None) (enumerate 1 lines))"

fun boundary_hints :: "string \<Rightarrow> nat \<Rightarrow> nat list \<Rightarrow> hint list" where
  "boundary_hints kind n [] = []"
| "boundary_hints kind n [b] = [\<lparr>hi_type = kind, hi_start_line = b, hi_end_line = max n b, hi_priority = ''high''\<rparr>]"
| "boundary_hints kind n (b # c # bs) =
     \<lparr>hi_type = kind, hi_start_line = b, hi_end_line = max (c - 1) b, hi_priority = ''high''\<rparr> # boundary_hints kind n (c # bs)"

definition boundaries :: "string list \<Rightarrow> rx \<Rightarrow> string \<Rightarrow> hint list" where
  "boundaries lines r kind = (let bs = boundary_lines r lines in
     if bs = [] then [whole_document lines] else take 500 (boundary_hints kind (length lines) bs))"

definition build_hints :: "string \<Rightarrow> string \<Rightarrow> string \<Rightarrow> hint list" where
  "build_hints path content source_type =
     (let lines = split_lines content in
      if source_type = ''code'' \<and> ends_with path ''.go'' then boundaries lines go_boundary ''go_symbol''
      else if source_type = ''api_doc'' \<and> ends_with path ''.proto'' then boundaries lines proto_boundary ''proto_symbol''
      else if ends_with path ''.md'' then boundaries lines md_heading ''markdown_section''
      else [whole_document lines])"

definition hint_json :: "hint \<Rightarrow> json" where
  "hint_json h = JObj [(''type'', JStr (hi_type h)), (''start_line'', JInt (int (hi_start_line h))),
     (''end_line'', JInt (int (hi_end_line h))), (''priority'', JStr (hi_priority h))]"

section \<open>Hints cover the document without overlap\<close>

lemma sorted_boundary_lines: "sorted_wrt (<) (boundary_lines r lines) \<and> set (boundary_lines r lines) \<subseteq> {1..length lines}"
proof -
  have "sorted_wrt (<) (map fst (filter P (enumerate k lines))) \<and> set (map fst (filter P (enumerate k lines))) \<subseteq> {k..<k + length lines}" for k and P :: "nat \<times> string \<Rightarrow> bool"
    by (induction lines arbitrary: k) (auto simp: less_eq_Suc_le, fastforce+)
  from this [where k = 1] show ?thesis unfolding boundary_lines_def by fastforce
qed

text \<open>Hints that follow one another, each with at least one line.\<close>

fun chained :: "hint list \<Rightarrow> bool" where
  "chained (h # k # hs) \<longleftrightarrow> hi_start_line h \<le> hi_end_line h \<and> hi_start_line k = hi_end_line h + 1 \<and> chained (k # hs)"
| "chained [h] \<longleftrightarrow> hi_start_line h \<le> hi_end_line h"
| "chained [] \<longleftrightarrow> True"

lemma chained_take: "chained hs \<Longrightarrow> chained (take n hs)"
proof (induction hs arbitrary: n rule: chained.induct)
  case (1 h k hs)
  then have "chained (take (n - 1) (k # hs))" by simp
  with 1(2) show ?case by (cases n; cases "n - 1") simp_all
qed (auto simp: take_Cons')

lemma boundary_hints_chained:
  "sorted_wrt (<) bs \<Longrightarrow> set bs \<subseteq> {1..n} \<Longrightarrow> bs \<noteq> [] \<Longrightarrow>
     chained (boundary_hints kind n bs) \<and> hi_start_line (hd (boundary_hints kind n bs)) = hd bs
     \<and> hi_end_line (last (boundary_hints kind n bs)) = n \<and> length (boundary_hints kind n bs) = length bs"
proof (induction kind n bs rule: boundary_hints.induct)
  case (3 kind n b c bs)
  then have "chained (boundary_hints kind n (c # bs)) \<and> hi_start_line (hd (boundary_hints kind n (c # bs))) = c
     \<and> hi_end_line (last (boundary_hints kind n (c # bs))) = n \<and> length (boundary_hints kind n (c # bs)) = Suc (length bs)" by simp
  moreover obtain h hs where "boundary_hints kind n (c # bs) = h # hs" by (cases bs) auto
  ultimately show ?case using 3(2) by auto
qed auto

lemma chained_ends: "chained hs \<Longrightarrow> h \<in> set hs \<Longrightarrow> hi_start_line (hd hs) \<le> hi_start_line h \<and> hi_start_line h \<le> hi_end_line h \<and> hi_end_line h \<le> hi_end_line (last hs)"
proof (induction hs arbitrary: h rule: chained.induct)
  case (1 a b hs)
  show ?case
  proof (cases "h = a")
    case True
    have "hi_end_line b \<le> hi_end_line (last (b # hs)) \<and> hi_start_line b \<le> hi_end_line b" using 1(1) [of b] 1(2) by simp
    with 1(2) True show ?thesis by simp
  next
    case False
    with 1(3) have "h \<in> set (b # hs)" by simp
    from 1(1) [OF _ this] 1(2) show ?thesis by auto
  qed
qed auto

definition tiles :: "nat \<Rightarrow> hint list \<Rightarrow> bool" where
  "tiles n hs \<longleftrightarrow> hs \<noteq> [] \<and> length hs \<le> 500 \<and> chained hs \<and> list_all (\<lambda>h. 1 \<le> hi_start_line h \<and> hi_start_line h \<le> hi_end_line h \<and> hi_end_line h \<le> n) hs"

lemma whole_document_tiles: "tiles (max (length lines) 1) [whole_document lines]"
  by (simp add: tiles_def whole_document_def)

lemma boundaries_tile: "tiles (max (length lines) 1) (boundaries lines r kind)"
proof (cases "boundary_lines r lines = []")
  case True
  then show ?thesis by (simp add: boundaries_def whole_document_tiles del: One_nat_def)
next
  case False
  let ?bs = "boundary_lines r lines" and ?hs = "boundary_hints kind (length lines) (boundary_lines r lines)"
  have sub: "set ?bs \<subseteq> {1..length lines}" and hs: "chained ?hs" "hi_start_line (hd ?hs) = hd ?bs" "hi_end_line (last ?hs) = length lines"
    "length ?hs = length ?bs" using boundary_hints_chained [of ?bs "length lines" kind] sorted_boundary_lines [of r lines] False by auto
  from sub False have "1 \<le> hd ?bs" by (meson atLeastAtMost_iff hd_in_set subsetD)
  then have "1 \<le> hi_start_line h \<and> hi_start_line h \<le> hi_end_line h \<and> hi_end_line h \<le> max (length lines) 1" if "h \<in> set ?hs" for h
    using chained_ends [OF hs(1) that] hs(2,3) by linarith
  with False hs(4) chained_take [OF hs(1), of 500] show ?thesis
    by (auto simp: tiles_def boundaries_def Let_def list_all_iff dest: in_set_takeD)
qed

text \<open>
  The chunking hints a document is sent with are never empty, at most 500, name lines of the document and follow one another without
  a gap or an overlap.
\<close>

theorem hints_tile_the_document: "tiles (max (length (split_lines content)) 1) (build_hints path content source_type)"
  by (simp add: build_hints_def Let_def boundaries_tile whole_document_tiles del: One_nat_def)

end
