(* ===== verification/Collector.thy ===== *)
theory Collector
  imports CollectorMeta Evaluation
begin

text \<open>
  The Collector: \<open>collector/models.py\<close>, \<open>collector/client.py\<close> and \<open>collector/service.py\<close>. An action runs on the summary of the run; the
  requests to Core are entries of the trace and Core is an argument, as are the file system (what \<open>sorted(root.rglob("*"))\<close> gives and
  what reading a file gives), git, the environment variables, SHA-256 and \<open>ast.parse\<close>.
\<close>

section \<open>The summary\<close>

record summary =
  su_source_id :: "string option"
  su_sync_id :: json    \<comment> \<open>what Core answered\<close>
  su_files_seen :: int
  su_files_skipped :: int
  su_documents_normalized :: int
  su_documents_synced :: int
  su_chunks_created :: int
  su_documents_created :: int
  su_documents_updated :: int
  su_documents_unchanged :: int
  su_bytes_uploaded :: int
  su_redaction_count :: int
  su_retry_attempted :: int
  su_retry_succeeded :: int
  su_parser_error_count :: int
  su_parser_error_reasons :: "int dict"
  su_chunk_discard_reasons :: "int dict"
  su_embedding_failures :: int
  su_skipped_reasons :: "int dict"
  su_source_type_counts :: "int dict"
  su_language_counts :: "int dict"
  su_hint_counts :: "int dict"
  su_warnings :: "string list"

definition empty_summary :: summary where
  "empty_summary = \<lparr>su_source_id = None, su_sync_id = JNull, su_files_seen = 0, su_files_skipped = 0, su_documents_normalized = 0,
     su_documents_synced = 0, su_chunks_created = 0, su_documents_created = 0, su_documents_updated = 0, su_documents_unchanged = 0,
     su_bytes_uploaded = 0, su_redaction_count = 0, su_retry_attempted = 0, su_retry_succeeded = 0, su_parser_error_count = 0,
     su_parser_error_reasons = [], su_chunk_discard_reasons = [], su_embedding_failures = 0, su_skipped_reasons = [],
     su_source_type_counts = [], su_language_counts = [], su_hint_counts = [], su_warnings = []\<rparr>"

definition skip_file :: "string \<Rightarrow> summary \<Rightarrow> summary" where
  "skip_file reason u = u\<lparr>su_files_skipped := su_files_skipped u + 1, su_skipped_reasons := dict_incr reason 1 (su_skipped_reasons u)\<rparr>"

text \<open>Values that are no numbers are left out of the merge.\<close>

fun merge_counts :: "json dict \<Rightarrow> int dict \<Rightarrow> int dict" where
  "merge_counts [] d = d"
| "merge_counts ((k, v) # kvs) d = merge_counts kvs (case json_int_or0 v of Inl _ \<Rightarrow> d | Inr n \<Rightarrow> dict_incr k n d)"

definition merge_json :: "json \<Rightarrow> int dict \<Rightarrow> int dict" where
  "merge_json v d = (case v of JObj kvs \<Rightarrow> merge_counts kvs d | _ \<Rightarrow> d)"

definition record_core_diagnostics :: "json dict \<Rightarrow> summary \<Rightarrow> summary result" where
  "record_core_diagnostics d u =
     rbind (get_int_or0 d ''last_batch_error_count'') (\<lambda>errors.
     rbind (get_int_or0 d ''last_batch_embedding_failures'') (\<lambda>failures.
     Inr (u\<lparr>su_parser_error_count := su_parser_error_count u + errors, su_embedding_failures := su_embedding_failures u + failures,
       su_parser_error_reasons := merge_json (dict_get_or (JObj []) d ''last_batch_parser_error_reasons'') (su_parser_error_reasons u),
       su_chunk_discard_reasons := merge_json (dict_get_or (JObj []) d ''last_batch_chunk_discard_reasons'') (su_chunk_discard_reasons u)\<rparr>)))"

definition diagnostics_of :: "summary \<Rightarrow> json dict" where
  "diagnostics_of u =
     (let sorted_counts = \<lambda>d. counts_json (dict_sorted d) in
     [(''source_id'', opt_json (su_source_id u)), (''sync_id'', su_sync_id u),
      (''total_files_seen'', JInt (su_files_seen u)), (''files_seen'', JInt (su_files_seen u)),
      (''files_skipped'', JInt (su_files_skipped u)), (''documents_normalized'', JInt (su_documents_normalized u)),
      (''documents_synced'', JInt (su_documents_synced u)), (''chunks_created'', JInt (su_chunks_created u)),
      (''documents_created'', JInt (su_documents_created u)), (''documents_updated'', JInt (su_documents_updated u)),
      (''documents_unchanged'', JInt (su_documents_unchanged u)), (''bytes_uploaded'', JInt (su_bytes_uploaded u)),
      (''redaction_count'', JInt (su_redaction_count u)), (''retry_attempted'', JInt (su_retry_attempted u)),
      (''retry_succeeded'', JInt (su_retry_succeeded u)), (''parser_error_count'', JInt (su_parser_error_count u)),
      (''parser_error_reasons'', sorted_counts (su_parser_error_reasons u)),
      (''chunk_discard_reasons'', sorted_counts (su_chunk_discard_reasons u)),
      (''embedding_failures'', JInt (su_embedding_failures u)), (''skipped_reasons'', sorted_counts (su_skipped_reasons u)),
      (''source_type_counts'', sorted_counts (su_source_type_counts u)), (''language_counts'', sorted_counts (su_language_counts u)),
      (''hint_counts'', sorted_counts (su_hint_counts u)), (''warnings'', strs (su_warnings u))])"

section \<open>The environment\<close>

record discovered_file =
  df_absolute_path :: string
  df_relative_path :: string
  df_is_file :: bool
  df_size_bytes :: int
  df_modified_at :: string         \<comment> \<open>\<open>isoformat()\<close> of the modification time\<close>
  df_bytes :: "string option"      \<comment> \<open>what \<open>read_bytes()\<close> gives; no bytes for an OSError\<close>
  df_text :: "string option"       \<comment> \<open>what strict UTF-8 reading gives; no text for an OSError or a decoding error\<close>

record collector_env =
  ce_core :: "http_reply service"
  ce_token :: string               \<comment> \<open>\<open>os.getenv("INCIDENTOPS_TOKEN", "")\<close>\<close>
  ce_api_url :: string
  ce_resolve :: "string \<Rightarrow> string"
  ce_is_dir :: "string \<Rightarrow> bool"
  ce_walk :: "string \<Rightarrow> discovered_file list"
  ce_git :: "string \<Rightarrow> string list \<Rightarrow> string option"    \<comment> \<open>the output; nothing when git cannot be run or takes too long\<close>
  ce_sha256 :: "string \<Rightarrow> string"
  ce_ast :: ast_names

type_synonym 'a collect = "(summary, 'a) act"

section \<open>The client of Core\<close>

definition core_url :: "collector_env \<Rightarrow> string" where
  "core_url env = rstrip_char CHR ''/'' (py_strip (ce_api_url env))"

definition core_send :: "collector_env \<Rightarrow> string \<Rightarrow> string \<Rightarrow> json \<Rightarrow> json option collect" where
  "core_send env meth path body =
     bind_act (call (ce_core env) (Http meth (core_url env @ path) body)) (\<lambda>r. case r of
         None \<Rightarrow> raise (OtherError ''ConnectError'' ''request failed'')
       | Some (status, reply) \<Rightarrow>
           if response_ok status then ret reply else raise (OtherError ''HTTPStatusError'' ''error status''))"

definition core_json :: "collector_env \<Rightarrow> string \<Rightarrow> string \<Rightarrow> json \<Rightarrow> json collect" where
  "core_json env meth path body = bind_act (core_send env meth path body) (\<lambda>reply. lift_result (response_json reply))"

definition item_of :: "string \<Rightarrow> json \<Rightarrow> json result" where    \<comment> \<open>\<open>v[k]\<close>\<close>
  "item_of k v = (case v of
      JObj d \<Rightarrow> (case dict_get d k of None \<Rightarrow> Inl (KeyError k) | Some x \<Rightarrow> Inr x)
    | _ \<Rightarrow> Inl (TypeError ''indices must be integers''))"

definition capabilities :: "collector_env \<Rightarrow> json collect" where
  "capabilities env = core_json env ''GET'' ''/v1/capabilities'' JNull"

definition client_register_collector :: "collector_env \<Rightarrow> string \<Rightarrow> string \<Rightarrow> string \<Rightarrow> string \<Rightarrow> json collect" where
  "client_register_collector env project name environment version =
     bind_act (core_json env ''POST'' (''/v1/projects/'' @ project @ ''/collectors/register'')
       (JObj [(''name'', JStr name), (''environment'', JStr environment), (''version'', JStr version)])) (\<lambda>v. lift_result (item_of ''collector_id'' v))"

definition source_identifier :: "json \<Rightarrow> string result" where
  "source_identifier v = rbind (json_get v ''source_id'' JNull) (\<lambda>a. rbind (json_get v ''id'' JNull) (\<lambda>b. case json_or a b of
         JStr s \<Rightarrow> if s = [] then Inl (RuntimeError ''Core source registration response did not include an identifier'') else Inr s
       | _ \<Rightarrow> Inl (RuntimeError ''Core source registration response did not include an identifier'')))"

definition client_register_source :: "collector_env \<Rightarrow> string \<Rightarrow> string \<Rightarrow> string collect" where
  "client_register_source env project name =
     bind_act (core_json env ''POST'' (''/v1/projects/'' @ project @ ''/sources'')
       (JObj [(''name'', JStr name), (''source_type'', JStr ''filesystem''), (''sync_mode'', JStr ''collector''), (''config'', JObj [])])) (\<lambda>v. lift_result (source_identifier v))"

definition client_start_sync :: "collector_env \<Rightarrow> string \<Rightarrow> json \<Rightarrow> json dict \<Rightarrow> json collect" where
  "client_start_sync env source cid diagnostics =
     bind_act (core_json env ''POST'' (''/v1/sources/'' @ source @ ''/syncs/start'')
       (JObj [(''collector_id'', cid), (''diagnostics'', JObj diagnostics)])) (\<lambda>v. lift_result (item_of ''sync_id'' v))"

definition upload_body :: "json \<Rightarrow> json \<Rightarrow> json list \<Rightarrow> json" where
  "upload_body yid cid docs =
     JObj [(''sync_id'', yid), (''collector_id'', cid), (''collector_version'', JStr ''core-collector/1.0.0''),
       (''schema_version'', JStr ''1''), (''core_api_version'', JStr ''0.5.0''), (''documents'', JList docs)]"

definition client_upload :: "collector_env \<Rightarrow> string \<Rightarrow> json \<Rightarrow> json \<Rightarrow> json list \<Rightarrow> json collect" where
  "client_upload env source yid cid docs =
     core_json env ''POST'' (''/v1/sources/'' @ source @ ''/documents/batch'') (upload_body yid cid docs)"

definition finish_path :: "string \<Rightarrow> json \<Rightarrow> string" where
  "finish_path source yid = ''/v1/sources/'' @ source @ ''/syncs/'' @ py_str yid @ ''/finish''"

definition client_finish_sync :: "collector_env \<Rightarrow> string \<Rightarrow> json \<Rightarrow> json \<Rightarrow> string \<Rightarrow> json dict \<Rightarrow> unit collect" where
  "client_finish_sync env source yid cid status diagnostics =
     then_act (core_send env ''POST'' (finish_path source yid)
       (JObj [(''collector_id'', cid), (''status'', JStr status), (''diagnostics'', JObj diagnostics)])) (ret ())"

section \<open>Which files\<close>

text \<open>\<open>fnmatch\<close>: a star is any text, a question mark any character, brackets a class; an unclosed bracket is itself.\<close>

datatype glob = GAny | GOne | GChar char | GClass bool "(char \<times> char) list"

fun class_items :: "string \<Rightarrow> (char \<times> char) list" where
  "class_items (a # b # c # cs) = (if b = CHR ''-'' then (a, c) # class_items cs else (a, a) # class_items (b # c # cs))"
| "class_items (a # cs) = (a, a) # class_items cs"
| "class_items [] = []"

definition class_of :: "string \<Rightarrow> glob" where
  "class_of text = (case text of
      c # cs \<Rightarrow> if c = CHR ''!'' then GClass False (class_items cs) else GClass True (class_items text)
    | [] \<Rightarrow> GClass True [])"

text \<open>The text of a class and what follows it; the first character after the bracket (and a negation) does not close it.\<close>

definition split_class :: "string \<Rightarrow> (string \<times> string) option" where
  "split_class s =
     (let n = (case s of c # d # _ \<Rightarrow> if c = CHR ''!'' then (if d = CHR '']'' then 2 else 1) else if c = CHR '']'' then 1 else 0
                | c # _ \<Rightarrow> if c = CHR ''!'' \<or> c = CHR '']'' then 1 else 0 | [] \<Rightarrow> 0);
          inner = takeWhile (\<lambda>c. c \<noteq> CHR '']'') (drop n s); rest = dropWhile (\<lambda>c. c \<noteq> CHR '']'') (drop n s)
      in if rest = [] then None else Some (take n s @ inner, tl rest))"

lemma split_class_shorter: "split_class s = Some (c, rest) \<Longrightarrow> length rest < length s"
proof -
  assume "split_class s = Some (c, rest)"
  then obtain n where r: "dropWhile (\<lambda>c. c \<noteq> CHR '']'') (drop n s) \<noteq> []" and t: "rest = tl (dropWhile (\<lambda>c. c \<noteq> CHR '']'') (drop n s))"
    unfolding split_class_def Let_def by (auto split: if_split_asm)
  have "length (dropWhile (\<lambda>c. c \<noteq> CHR '']'') (drop n s)) \<le> length s"
    by (metis length_dropWhile_le length_drop diff_le_self order_trans)
  moreover have "0 < length (dropWhile (\<lambda>c. c \<noteq> CHR '']'') (drop n s))" using r by blast
  ultimately show ?thesis unfolding t length_tl by linarith
qed

function glob_tokens :: "string \<Rightarrow> glob list" where
  "glob_tokens [] = []"
| "glob_tokens (c # cs) =
     (if c = CHR ''*'' then GAny # glob_tokens cs
      else if c = CHR ''?'' then GOne # glob_tokens cs
      else if c = CHR ''['' then
        (case split_class cs of Some (text, rest) \<Rightarrow> class_of text # glob_tokens rest | None \<Rightarrow> GChar c # glob_tokens cs)
      else GChar c # glob_tokens cs)"
  by pat_completeness auto
termination
  by (relation "measure length") (auto dest: split_class_shorter)

fun glob_match :: "glob list \<Rightarrow> string \<Rightarrow> bool" where
  "glob_match [] s \<longleftrightarrow> s = []"
| "glob_match (GAny # gs) [] \<longleftrightarrow> glob_match gs []"
| "glob_match (GAny # gs) (c # cs) \<longleftrightarrow> glob_match gs (c # cs) \<or> glob_match (GAny # gs) cs"
| "glob_match (GOne # gs) (c # cs) \<longleftrightarrow> glob_match gs cs"
| "glob_match (GChar d # gs) (c # cs) \<longleftrightarrow> d = c \<and> glob_match gs cs"
| "glob_match (GClass positive items # gs) (c # cs) \<longleftrightarrow>
     list_ex (\<lambda>(lo, hi). cp lo \<le> cp c \<and> cp c \<le> cp hi) items = positive \<and> glob_match gs cs"
| "glob_match _ [] \<longleftrightarrow> False"

definition fnmatchcase :: "string \<Rightarrow> string \<Rightarrow> bool" where
  "fnmatchcase name pattern = glob_match (glob_tokens pattern) name"

record collect_options =
  co_max_files :: "int option"
  co_include :: "string list option"
  co_exclude :: "string list option"

definition selected :: "collect_options \<Rightarrow> discovered_file \<Rightarrow> bool" where
  "selected opts f \<longleftrightarrow> df_is_file f
     \<and> (case co_include opts of None \<Rightarrow> True | Some ps \<Rightarrow> ps = [] \<or> list_ex (fnmatchcase (df_relative_path f)) ps)
     \<and> (case co_exclude opts of None \<Rightarrow> True | Some ps \<Rightarrow> \<not> list_ex (fnmatchcase (df_relative_path f)) ps)"

text \<open>The limit is checked after a file has been handed out, so at least one is.\<close>

definition discover :: "collector_env \<Rightarrow> collect_options \<Rightarrow> string \<Rightarrow> discovered_file list result" where
  "discover env opts dir =
     (let base = ce_resolve env dir; files = filter (selected opts) (ce_walk env base) in
      if \<not> ce_is_dir env base then Inl (ValueError (''collector root is not a directory: '' @ base))
      else Inr (case co_max_files opts of None \<Rightarrow> files | Some n \<Rightarrow> take (nat (max n 1)) files))"

definition denied_parts :: "string list" where
  "denied_parts = [''.git'', ''.venv'', ''venv'', ''node_modules'', ''__pycache__'', ''dist'', ''build'', ''target'', ''.next'', ''.pytest_cache'']"

definition denied_suffixes :: "string list" where
  "denied_suffixes = [''.pem'', ''.key'', ''.p12'', ''.pfx'', ''.sqlite'', ''.db'', ''.zip'', ''.gz'', ''.png'', ''.jpg'', ''.jpeg'', ''.pdf'']"

definition skip_reason :: "settings \<Rightarrow> discovered_file \<Rightarrow> string option" where
  "skip_reason cfg f =
     (let parts = path_parts (df_relative_path f); suffix = py_lower (path_suffix (df_relative_path f)) in
      if list_ex (\<lambda>p. p \<in> set denied_parts) parts then
        Some (if list_ex (\<lambda>p. p \<in> set [''dist'', ''build'', ''target'', ''.next'']) parts then ''generated_file'' else ''vendor_file'')
      else if suffix \<in> set denied_suffixes \<or> starts_with (path_name (df_relative_path f)) ''.env'' then Some ''unsupported_extension''
      else if df_size_bytes f = 0 then Some ''empty''
      else if df_size_bytes f > max_document_bytes cfg then Some ''oversized''
      else if suffix \<noteq> [] \<and> suffix \<notin> set (supported_extensions_set cfg) then Some ''unsupported_extension''
      else case df_bytes f of
          None \<Rightarrow> Some ''unknown''
        | Some bytes \<Rightarrow> if list_ex (\<lambda>c. cp c = 0) (take 4096 bytes) then Some ''binary'' else None)"

definition inspect_file :: "settings \<Rightarrow> discovered_file \<Rightarrow> summary \<Rightarrow> summary" where
  "inspect_file cfg f u =
     (let seen = u\<lparr>su_files_seen := su_files_seen u + 1\<rparr> in
      case skip_reason cfg f of
        Some reason \<Rightarrow> skip_file reason seen
      | None \<Rightarrow> seen\<lparr>su_source_type_counts := dict_incr (classify (df_relative_path f)) 1 (su_source_type_counts seen),
          su_language_counts := (case language (df_relative_path f) of None \<Rightarrow> su_language_counts seen
            | Some l \<Rightarrow> dict_incr l 1 (su_language_counts seen))\<rparr>)"

definition inspect :: "collector_env \<Rightarrow> settings \<Rightarrow> collect_options \<Rightarrow> string \<Rightarrow> summary result" where
  "inspect env cfg opts dir = rbind (discover env opts dir) (\<lambda>files. Inr (fold (inspect_file cfg) files empty_summary))"

section \<open>Documents\<close>

record document =
  do_path :: string
  do_source_type :: string
  do_content :: string
  do_content_hash :: string
  do_size_bytes :: int
  do_modified_at :: string
  do_metadata :: "json dict"

definition document_json :: "document \<Rightarrow> json" where
  "document_json d = JObj [(''external_id'', JStr (do_path d)), (''path'', JStr (do_path d)), (''source_type'', JStr (do_source_type d)),
     (''content'', JStr (do_content d)), (''content_hash'', JStr (do_content_hash d)), (''size_bytes'', JInt (do_size_bytes d)),
     (''modified_at'', JStr (do_modified_at d)), (''metadata'', JObj (do_metadata d))]"

definition normalize_file :: "collector_env \<Rightarrow> settings \<Rightarrow> repo_context \<Rightarrow> discovered_file \<Rightarrow> (string + document) result" where
  "normalize_file env cfg ctx f = (case df_text f of
      None \<Rightarrow> Inr (Inl ''read_failed'')
    | Some text \<Rightarrow>
        (let (content, redactions) = redact text; source_type = classify (df_relative_path f) in
         rbind (extract_metadata (ce_ast env) (df_relative_path f) content ctx) (\<lambda>metadata.
         let hints = map hint_json (py_slice (build_hints (df_relative_path f) content source_type) 0 (max_chunks_per_document cfg))
         in Inr (Inr \<lparr>do_path = df_relative_path f, do_source_type = source_type, do_content = content,
              do_content_hash = ce_sha256 env content, do_size_bytes = int (utf8_len content), do_modified_at = df_modified_at f,
              do_metadata = dict_set ''redaction_count'' (JInt (int redactions)) (dict_set ''hints_are_advisory'' (JBool True)
                (dict_set ''chunking_hints'' (JList hints) metadata))\<rparr>))))"

definition hint_types :: "json dict \<Rightarrow> string list" where
  "hint_types d = (case dict_get_or (JList []) d ''chunking_hints'' of
      JList hs \<Rightarrow> List.map_filter (\<lambda>h. case h of JObj kvs \<Rightarrow> (case get_or_none kvs ''type'' of JStr t \<Rightarrow> Some t | _ \<Rightarrow> None) | _ \<Rightarrow> None) hs
    | _ \<Rightarrow> [])"

definition count_document :: "document \<Rightarrow> summary \<Rightarrow> summary" where
  "count_document d u = u\<lparr>su_documents_normalized := su_documents_normalized u + 1,
     su_redaction_count := su_redaction_count u + (case dict_get_or (JInt 0) (do_metadata d) ''redaction_count'' of JInt n \<Rightarrow> n | _ \<Rightarrow> 0),
     su_source_type_counts := dict_incr (do_source_type d) 1 (su_source_type_counts u),
     su_language_counts := (case get_or_none (do_metadata d) ''language'' of JStr l \<Rightarrow> dict_incr l 1 (su_language_counts u) | _ \<Rightarrow> su_language_counts u),
     su_hint_counts := fold (\<lambda>t. dict_incr t 1) (hint_types (do_metadata d)) (su_hint_counts u)\<rparr>"

section \<open>A sync\<close>

definition git_value :: "collector_env \<Rightarrow> string \<Rightarrow> string list \<Rightarrow> string option" where
  "git_value env dir args = (case ce_git env dir args of
      None \<Rightarrow> None | Some out \<Rightarrow> if py_strip out = [] then None else Some (py_strip out))"

definition given_or :: "string option \<Rightarrow> string option \<Rightarrow> string option" where    \<comment> \<open>\<open>a or b\<close>\<close>
  "given_or a b = (case a of Some x \<Rightarrow> if x = [] then b else Some x | None \<Rightarrow> b)"

definition repository_context :: "collector_env \<Rightarrow> string \<Rightarrow> repo_context \<Rightarrow> repo_context" where
  "repository_context env dir given =
     (let base = ce_resolve env dir;
          repo = (case git_value env base [''rev-parse'', ''--show-toplevel''] of None \<Rightarrow> base | Some g \<Rightarrow> g)
      in \<lparr>rp_repo_name = given_or (rp_repo_name given) (Some (path_name repo)),
          rp_branch = given_or (rp_branch given) (git_value env repo [''branch'', ''--show-current'']),
          rp_commit_sha = given_or (rp_commit_sha given) (git_value env repo [''rev-parse'', ''HEAD''])\<rparr>)"

definition add_totals :: "int \<Rightarrow> int \<Rightarrow> int \<Rightarrow> int \<Rightarrow> summary \<Rightarrow> summary" where
  "add_totals created updated unchanged made u =
     u\<lparr>su_documents_created := su_documents_created u + created, su_documents_updated := su_documents_updated u + updated,
       su_documents_unchanged := su_documents_unchanged u + unchanged,
       su_documents_synced := su_documents_synced u + (created + updated + unchanged),
       su_skipped_reasons := (if unchanged \<noteq> 0 then dict_incr ''unchanged'' unchanged (su_skipped_reasons u) else su_skipped_reasons u),
       su_chunks_created := su_chunks_created u + made\<rparr>"

definition add_diagnostics :: "json \<Rightarrow> summary \<Rightarrow> summary result" where
  "add_diagnostics v u = (case v of JObj d \<Rightarrow> record_core_diagnostics d u | _ \<Rightarrow> Inr u)"

definition uploaded_totals :: "document list \<Rightarrow> json \<Rightarrow> summary \<Rightarrow> summary result" where
  "uploaded_totals batch reply u =
     (let number = (\<lambda>k. rbind (json_get reply k (JInt 0)) json_int) in
      rbind (number ''created'') (\<lambda>created. rbind (number ''updated'') (\<lambda>updated. rbind (number ''skipped_unchanged'') (\<lambda>unchanged.
      rbind (number ''chunks_created'') (\<lambda>made. rbind (json_get reply ''diagnostics'' JNull) (\<lambda>diagnostics.
      rbind (add_diagnostics diagnostics (add_totals created updated unchanged made u)) (\<lambda>v.
      Inr (v\<lparr>su_bytes_uploaded := su_bytes_uploaded v + sum_list (map do_size_bytes batch)\<rparr>))))))))"

record sync_ids =
  si_source :: string
  si_sync :: json
  si_collector :: json

definition upload_batch :: "collector_env \<Rightarrow> sync_ids \<Rightarrow> document list \<Rightarrow> unit collect" where
  "upload_batch env ids batch =
     bind_act (client_upload env (si_source ids) (si_sync ids) (si_collector ids) (map document_json batch)) (\<lambda>reply.
     bind_act (query (uploaded_totals batch reply)) (\<lambda>r. bind_act (lift_result r) (\<lambda>u. change (\<lambda>_. u))))"

definition batch_bytes :: "document list \<Rightarrow> int" where
  "batch_bytes batch = int (safe_json_size (JObj [(''documents'', JList (map document_json batch))]))"

definition skipping :: "string \<Rightarrow> unit collect" where "skipping reason = change (skip_file reason)"

text \<open>The batch after a document: sent before it when it would grow too large, sent after it when it is full.\<close>

definition add_to_batch :: "collector_env \<Rightarrow> sync_ids \<Rightarrow> int \<Rightarrow> int \<Rightarrow> document list \<Rightarrow> document \<Rightarrow> document list collect" where
  "add_to_batch env ids batch_size max_bytes batch d =
     bind_act (if batch_bytes (batch @ [d]) > max_bytes \<and> batch \<noteq> [] then then_act (upload_batch env ids batch) (ret []) else ret batch) (\<lambda>b.
     if int (length (b @ [d])) \<ge> batch_size then then_act (upload_batch env ids (b @ [d])) (ret []) else ret (b @ [d]))"

definition file_outcome :: "collector_env \<Rightarrow> settings \<Rightarrow> repo_context \<Rightarrow> discovered_file \<Rightarrow> (string + document) result" where
  "file_outcome env cfg ctx f = (case skip_reason cfg f of Some reason \<Rightarrow> Inr (Inl reason) | None \<Rightarrow> normalize_file env cfg ctx f)"

fun sync_files ::
  "collector_env \<Rightarrow> settings \<Rightarrow> repo_context \<Rightarrow> sync_ids \<Rightarrow> int \<Rightarrow> int \<Rightarrow> discovered_file list \<Rightarrow> document list \<Rightarrow> document list collect" where
  "sync_files env cfg ctx ids batch_size max_bytes [] batch = ret batch"
| "sync_files env cfg ctx ids batch_size max_bytes (f # fs) batch =
     then_act (change (\<lambda>u. u\<lparr>su_files_seen := su_files_seen u + 1\<rparr>))
     (bind_act (lift_result (file_outcome env cfg ctx f)) (\<lambda>out. case out of
         Inl reason \<Rightarrow> then_act (skipping reason) (sync_files env cfg ctx ids batch_size max_bytes fs batch)
       | Inr d \<Rightarrow> then_act (change (count_document d))
           (bind_act (add_to_batch env ids batch_size max_bytes batch d) (sync_files env cfg ctx ids batch_size max_bytes fs))))"

definition finish_status :: "summary \<Rightarrow> string" where
  "finish_status u = (if su_parser_error_count u \<noteq> 0 \<or> su_embedding_failures u \<noteq> 0 then ''partial_success'' else ''success'')"

record sync_options =
  sn_project :: string
  sn_source_name :: string
  sn_collector_name :: string
  sn_environment :: string
  sn_batch_size :: int
  sn_given :: repo_context
  sn_files :: collect_options

definition limit_or :: "json \<Rightarrow> string \<Rightarrow> int \<Rightarrow> int result" where    \<comment> \<open>\<open>int(limits.get(k) or n)\<close>\<close>
  "limit_or limits k n = rbind (json_get limits k JNull) (\<lambda>v. if truthy v then json_int v else Inr n)"

text \<open>The registrations: the ids of the source, the sync and the collector, and the limits of a batch.\<close>

definition open_sync :: "collector_env \<Rightarrow> settings \<Rightarrow> sync_options \<Rightarrow> (sync_ids \<times> int \<times> int) collect" where
  "open_sync env cfg opts =
     bind_act (capabilities env) (\<lambda>caps.
     bind_act (lift_result (json_get caps ''limits'' (JObj []))) (\<lambda>limits.
     bind_act (lift_result (limit_or limits ''max_documents_per_batch'' (sn_batch_size opts))) (\<lambda>most.
     bind_act (client_register_collector env (sn_project opts) (sn_collector_name opts) (sn_environment opts) ''core-collector/1.0.0'') (\<lambda>cid.
     bind_act (client_register_source env (sn_project opts) (sn_source_name opts)) (\<lambda>sid.
     bind_act (query diagnostics_of) (\<lambda>diagnostics.
     bind_act (client_start_sync env sid cid diagnostics) (\<lambda>yid.
     then_act (change (\<lambda>u. u\<lparr>su_source_id := Some sid, su_sync_id := yid\<rparr>))
     (bind_act (lift_result (limit_or limits ''max_batch_bytes'' (max_batch_bytes cfg))) (\<lambda>bytes.
       ret (\<lparr>si_source = sid, si_sync = yid, si_collector = cid\<rparr>, min (sn_batch_size opts) most, bytes))))))))))"

definition transfer :: "collector_env \<Rightarrow> settings \<Rightarrow> sync_options \<Rightarrow> string \<Rightarrow> sync_ids \<Rightarrow> int \<Rightarrow> int \<Rightarrow> unit collect" where
  "transfer env cfg opts dir ids batch_size max_bytes =
     bind_act (lift_result (discover env (sn_files opts) dir)) (\<lambda>files.
     bind_act (sync_files env cfg (repository_context env dir (sn_given opts)) ids batch_size max_bytes files []) (\<lambda>batch.
     if batch \<noteq> [] then upload_batch env ids batch else ret ()))"

definition close_sync :: "collector_env \<Rightarrow> sync_ids \<Rightarrow> summary collect" where
  "close_sync env ids =
     bind_act (query id) (\<lambda>u.
     then_act (client_finish_sync env (si_source ids) (si_sync ids) (si_collector ids) (finish_status u) (diagnostics_of u)) (ret u))"

definition run_sync :: "collector_env \<Rightarrow> settings \<Rightarrow> sync_options \<Rightarrow> string \<Rightarrow> summary collect" where
  "run_sync env cfg opts dir =
     bind_act (open_sync env cfg opts) (\<lambda>(ids, batch_size, max_bytes).
       then_act (transfer env cfg opts dir ids batch_size max_bytes) (close_sync env ids))"

definition warn_on_failure :: "'a collect \<Rightarrow> 'a collect" where
  "warn_on_failure m = try_act m (\<lambda>e. then_act
     (change (\<lambda>u. u\<lparr>su_warnings := su_warnings u @ [''sync failed; inspect Core sync diagnostics and Collector logs'']\<rparr>)) (raise e))"

definition sync :: "collector_env \<Rightarrow> settings \<Rightarrow> sync_options \<Rightarrow> string \<Rightarrow> summary collect" where
  "sync env cfg opts dir =
     then_act (guard_act (py_strip (ce_token env) \<noteq> [] \<and> py_strip (ce_api_url env) \<noteq> [])
       (RuntimeError ''INCIDENTOPS_API_URL and INCIDENTOPS_TOKEN are required for Collector sync''))
     (then_act (change (\<lambda>_. empty_summary)) (warn_on_failure (run_sync env cfg opts dir)))"

lemma warned_Inr: "warn_on_failure m s = (Inr x, t) \<longleftrightarrow> m s = (Inr x, t)"
  by (auto simp: warn_on_failure_def act_defs split: prod.splits sum.splits)

lemma warned_Inl: "warn_on_failure m s = (Inl e, t) \<Longrightarrow> \<exists>u. m s = (Inl e, u) \<and> trace t = trace u"
  by (auto simp: warn_on_failure_def act_defs split: prod.splits sum.splits)

section \<open>What a run sends\<close>

definition uploaded :: "effect \<Rightarrow> json list option" where
  "uploaded e = (case e of Http _ _ (JObj d) \<Rightarrow> (case dict_get d ''documents'' of Some (JList ds) \<Rightarrow> Some ds | _ \<Rightarrow> None) | _ \<Rightarrow> None)"

definition reported :: "effect \<Rightarrow> string option" where
  "reported e = (case e of Http _ _ (JObj d) \<Rightarrow> (case dict_get d ''status'' of Some (JStr st) \<Rightarrow> Some st | _ \<Rightarrow> None) | _ \<Rightarrow> None)"

text \<open>All requests of an action have a property, whether it returns or raises.\<close>

definition emits :: "(effect \<Rightarrow> bool) \<Rightarrow> ('d, 'a) act \<Rightarrow> bool" where
  "emits P m \<longleftrightarrow> (\<forall>s. \<exists>es. trace (snd (m s)) = trace s @ es \<and> list_all P es)"

lemma emits_nothing: "(\<And>s. trace (snd (m s)) = trace s) \<Longrightarrow> emits P m"
  by (simp add: emits_def)

lemma emits_simple:
  "emits P (ret x)" "emits P (raise e)" "emits P (lift_result r)" "emits P (query f)" "emits P (change g)" "emits P (guard_act b e)"
  by (auto intro!: emits_nothing simp: ret_def raise_def lift_result_def query_def change_def guard_act_def)

lemma emits_call: "P e \<Longrightarrow> emits P (call f e)"
  unfolding emits_def by (auto simp: call_def intro!: exI [of _ "[e]"])

lemma emits_bind:
  assumes "emits P m" and "\<And>x. emits P (f x)"
  shows "emits P (bind_act m f)"
  unfolding emits_def
proof
  fix s
  obtain es where es: "trace (snd (m s)) = trace s @ es" "list_all P es" using assms(1) unfolding emits_def by blast
  show "\<exists>es. trace (snd (bind_act m f s)) = trace s @ es \<and> list_all P es"
  proof (cases "fst (m s)")
    case (Inl e)
    with es show ?thesis by (intro exI [of _ es]) (simp add: bind_act_def split_beta split: sum.split prod.split)
  next
    case (Inr x)
    obtain es' where "trace (snd (f x (snd (m s)))) = trace (snd (m s)) @ es'" "list_all P es'"
      using assms(2) [of x] unfolding emits_def by blast
    with es Inr show ?thesis by (intro exI [of _ "es @ es'"]) (simp add: bind_act_def split_beta)
  qed
qed

lemma emits_then: "emits P m \<Longrightarrow> emits P k \<Longrightarrow> emits P (then_act m k)"
  unfolding then_act_def by (rule emits_bind)

lemma emits_if: "emits P m \<Longrightarrow> emits P k \<Longrightarrow> emits P (if b then m else k)"
  by simp

lemma emits_option: "emits P m \<Longrightarrow> (\<And>x. emits P (f x)) \<Longrightarrow> emits P (case v of None \<Rightarrow> m | Some x \<Rightarrow> f x)"
  by (cases v) auto

lemma emits_pair: "(\<And>x y. emits P (f x y)) \<Longrightarrow> emits P (case p of (x, y) \<Rightarrow> f x y)"
  by (cases p) auto

lemma emits_sum: "(\<And>x. emits P (f x)) \<Longrightarrow> (\<And>y. emits P (g y)) \<Longrightarrow> emits P (case v of Inl x \<Rightarrow> f x | Inr y \<Rightarrow> g y)"
  by (cases v) auto

lemmas emits_rules = emits_bind emits_then emits_if emits_option emits_pair emits_sum emits_simple emits_call

lemma emits_core_send: "P (Http meth (core_url env @ path) body) \<Longrightarrow> emits P (core_send env meth path body)"
  unfolding core_send_def by (intro emits_rules)

lemma emits_core_json: "P (Http meth (core_url env @ path) body) \<Longrightarrow> emits P (core_json env meth path body)"
  unfolding core_json_def by (intro emits_rules emits_core_send)

lemma emits_upload: "emits (\<lambda>e. reported e = None) (upload_batch env ids batch)"
  unfolding upload_batch_def client_upload_def
  by (intro emits_rules emits_core_json) (simp add: reported_def upload_body_def)

lemma emits_source: "emits (\<lambda>e. reported e = None \<and> uploaded e = None) (client_register_source env project name)"
  unfolding client_register_source_def by (intro emits_rules emits_core_json) (simp_all add: reported_def uploaded_def)

lemma emits_open: "emits (\<lambda>e. reported e = None \<and> uploaded e = None) (open_sync env cfg opts)"
  unfolding open_sync_def capabilities_def client_register_collector_def client_start_sync_def
  by (intro emits_rules emits_core_json emits_source) (simp_all add: reported_def uploaded_def)

lemma emits_sync_files: "emits (\<lambda>e. reported e = None) (sync_files env cfg ctx ids n m fs batch)"
proof (induction fs arbitrary: batch)
  case (Cons f fs)
  then show ?case unfolding sync_files.simps skipping_def add_to_batch_def Let_def
    by (intro emits_rules emits_upload)
qed (simp add: emits_simple)

lemma emits_transfer: "emits (\<lambda>e. reported e = None) (transfer env cfg opts dir ids n m)"
  unfolding transfer_def by (intro emits_rules emits_sync_files emits_upload)

definition quiet :: "effect \<Rightarrow> bool" where
  "quiet r \<longleftrightarrow> reported r = None"

definition left_open :: "effect list \<Rightarrow> bool" where
  "left_open es \<longleftrightarrow> list_all quiet (butlast es) \<and> list_all (\<lambda>r. reported r \<noteq> Some ''failed'') es"

lemma quiet_left_open: "list_all quiet es \<Longrightarrow> left_open es"
  by (auto simp: left_open_def list_all_iff quiet_def dest: in_set_butlastD)

lemma close_trace:
  "trace (snd (close_sync env ids w)) = trace w @ [Http ''POST'' (core_url env @ finish_path (si_source ids) (si_sync ids))
     (JObj [(''collector_id'', si_collector ids), (''status'', JStr (finish_status (work w))), (''diagnostics'', JObj (diagnostics_of (work w)))])]"
  by (simp add: close_sync_def client_finish_sync_def core_send_def act_defs split: option.split prod.split)

lemma close_left_open:
  "list_all quiet es \<Longrightarrow> left_open (es @ [Http m url (JObj [(''collector_id'', c), (''status'', JStr (finish_status u)), (''diagnostics'', d)])])"
  by (auto simp: left_open_def list_all_iff quiet_def reported_def finish_status_def)

lemma failed_run_left_open:
  assumes "run_sync env cfg opts dir s = (Inl e, t)"
  shows "\<exists>es. trace t = trace s @ es \<and> left_open es"
proof -
  have "emits quiet (open_sync env cfg opts)"
    using emits_open [of env cfg opts] unfolding emits_def list_all_iff quiet_def by meson
  then obtain es where es: "trace (snd (open_sync env cfg opts s)) = trace s @ es" "list_all quiet es"
    unfolding emits_def by blast
  consider (starting) "open_sync env cfg opts s = (Inl e, t)"
    | (rest) ids n m v where "open_sync env cfg opts s = (Inr (ids, n, m), v)"
        "then_act (transfer env cfg opts dir ids n m) (close_sync env ids) v = (Inl e, t)"
    using assms unfolding run_sync_def by (auto simp: bind_act_Inl_iff)
  then show ?thesis
  proof cases
    case starting
    with es quiet_left_open show ?thesis by auto
  next
    case (rest ids n m v)
    obtain es' where es': "trace (snd (transfer env cfg opts dir ids n m v)) = trace v @ es'" "list_all quiet es'"
      using emits_transfer [of env cfg opts dir ids n m] unfolding emits_def quiet_def by blast
    have v: "trace v = trace s @ es" using es(1) rest(1) by simp
    have both: "list_all quiet (es @ es')" using es(2) es'(2) by simp
    from rest(2) consider (transfer) "transfer env cfg opts dir ids n m v = (Inl e, t)"
      | (closing) w where "transfer env cfg opts dir ids n m v = (Inr (), w)" "close_sync env ids w = (Inl e, t)"
      unfolding then_act_def by (auto simp: bind_act_Inl_iff)
    then show ?thesis
    proof cases
      case transfer
      with es' v quiet_left_open [OF both] show ?thesis by auto
    next
      case (closing w)
      from close_trace [of env ids w] closing es' v close_left_open [OF both] show ?thesis by auto
    qed
  qed
qed

text \<open>
  C40. A sync that fails is left open: when it raises, Core has been told of no end, except perhaps by the very last request, and no run
  ever reports a failure. So the sync stays running in Core.
\<close>

theorem failed_collection_is_not_reported:
  assumes "sync env cfg opts dir s = (Inl e, t)"
  shows "\<exists>es. trace t = trace s @ es \<and> left_open es"
proof (cases "py_strip (ce_token env) \<noteq> [] \<and> py_strip (ce_api_url env) \<noteq> []")
  case True
  with assms obtain u where "run_sync env cfg opts dir (s\<lparr>work := empty_summary\<rparr>) = (Inl e, u)" "trace t = trace u"
    by (auto simp: sync_def then_act_Inl_iff then_act_def guard_act_def ret_def change_def bind_act_def dest!: warned_Inl)
  then show ?thesis using failed_run_left_open by fastforce
next
  case False
  with assms have "t = s" by (auto simp: sync_def then_act_def guard_act_def raise_def bind_act_def split: if_splits)
  then show ?thesis by (intro exI [of _ "[]"]) (simp add: left_open_def)
qed

section \<open>Every document is sent once\<close>

definition documents_of :: "(string + document) list \<Rightarrow> document list" where
  "documents_of outs = map projr (filter (\<lambda>x. \<not> isl x) outs)"

lemma documents_of_simps [simp]:
  "documents_of [] = []" "documents_of (Inl r # outs) = documents_of outs" "documents_of (Inr d # outs) = d # documents_of outs"
  by (simp_all add: documents_of_def)

text \<open>A batch that may be sent: not too many documents, and not too large unless it is a single one.\<close>

definition fits :: "int \<Rightarrow> int \<Rightarrow> document list \<Rightarrow> bool" where
  "fits n m b \<longleftrightarrow> b \<noteq> [] \<and> int (length b) \<le> max n 1 \<and> (length b = 1 \<or> batch_bytes b \<le> m)"

definition pending :: "int \<Rightarrow> int \<Rightarrow> document list \<Rightarrow> bool" where
  "pending n m b \<longleftrightarrow> b = [] \<or> (fits n m b \<and> int (length b) < n)"

text \<open>The batches among the requests.\<close>

definition sends_batches :: "document list list \<Rightarrow> effect list \<Rightarrow> bool" where
  "sends_batches bs es \<longleftrightarrow> List.map_filter uploaded es = map (map document_json) bs"

lemma map_filter_app: "List.map_filter f (xs @ ys) = List.map_filter f xs @ List.map_filter f ys"
  by (induction xs) (auto simp: map_filter_simps split: option.split)

lemma sends_batches_append: "sends_batches bs es \<Longrightarrow> sends_batches bs' es' \<Longrightarrow> sends_batches (bs @ bs') (es @ es')"
  by (simp add: sends_batches_def map_filter_app)

lemma sends_none: "list_all (\<lambda>e. uploaded e = None) es \<Longrightarrow> sends_batches [] es"
  by (induction es) (auto simp: sends_batches_def map_filter_simps)

text \<open>What the totals of a reply do not touch.\<close>

definition file_counts :: "summary \<Rightarrow> int \<times> int \<times> int" where
  "file_counts u = (su_files_seen u, su_files_skipped u, su_documents_normalized u)"

lemma recorded_counts: "record_core_diagnostics d u = Inr v \<Longrightarrow> file_counts v = file_counts u"
  by (auto simp: record_core_diagnostics_def rbind_Inr_iff file_counts_def)

lemma added_counts: "add_diagnostics d (add_totals a b c n u) = Inr v \<Longrightarrow> file_counts v = file_counts u"
  by (cases d) (auto simp: add_diagnostics_def add_totals_def file_counts_def dest!: recorded_counts)

lemma uploaded_totals_counts:
  assumes "uploaded_totals batch reply u = Inr v"
  shows "file_counts v = file_counts u"
proof -
  from assms obtain d a b c n w where "add_diagnostics d (add_totals a b c n u) = Inr w" and "file_counts v = file_counts w"
    unfolding uploaded_totals_def Let_def rbind_Inr_iff by (force simp: file_counts_def)
  then show ?thesis using added_counts by metis
qed

lemma upload_run:
  assumes "upload_batch env ids batch s = (Inr (), t)"
  shows "\<exists>es. trace t = trace s @ es \<and> sends_batches [batch] es \<and> file_counts (work t) = file_counts (work s)"
proof -
  let ?e = "Http ''POST'' (core_url env @ ''/v1/sources/'' @ si_source ids @ ''/documents/batch'')
      (upload_body (si_sync ids) (si_collector ids) (map document_json batch))"
  from assms obtain reply w u where sent: "client_upload env (si_source ids) (si_sync ids) (si_collector ids) (map document_json batch) s = (Inr reply, w)"
    and u: "uploaded_totals batch reply (work w) = Inr u" and t: "t = w\<lparr>work := u\<rparr>"
    by (auto simp: upload_batch_def run_act_simps)
  from sent have "trace w = trace s @ [?e]" "work w = work s"
    by (auto simp: client_upload_def core_json_def core_send_def bind_act_def call_def raise_def ret_def lift_result_def
        split: option.splits if_splits prod.splits)
  moreover have "sends_batches [batch] [?e]"
    by (simp add: sends_batches_def uploaded_def upload_body_def map_filter_simps)
  ultimately show ?thesis using uploaded_totals_counts [OF u] t by auto
qed

lemma add_to_batch_run:
  assumes "add_to_batch env ids n m batch d s = (Inr b, t)" and "pending n m batch"
  shows "\<exists>es bs. trace t = trace s @ es \<and> sends_batches bs es \<and> concat bs @ b = batch @ [d] \<and> list_all (fits n m) bs
    \<and> pending n m b \<and> file_counts (work t) = file_counts (work s)"
proof -
  let ?big = "batch_bytes (batch @ [d]) > m \<and> batch \<noteq> []"
  from assms(1) obtain b1 u where first: "(if ?big then then_act (upload_batch env ids batch) (ret []) else ret batch) s = (Inr b1, u)"
    and second: "(if int (length (b1 @ [d])) \<ge> n then then_act (upload_batch env ids (b1 @ [d])) (ret []) else ret (b1 @ [d])) u = (Inr b, t)"
    unfolding add_to_batch_def by (auto simp: bind_act_Inr_iff)
  have "\<exists>es bs. trace u = trace s @ es \<and> sends_batches bs es \<and> concat bs @ b1 = batch \<and> list_all (fits n m) bs
      \<and> fits n m (b1 @ [d]) \<and> file_counts (work u) = file_counts (work s)"
  proof (cases ?big)
    case True
    with first have "upload_batch env ids batch s = (Inr (), u)" and b1: "b1 = []" by (auto simp: then_act_Inr_iff ret_Inr)
    from upload_run [OF this(1)] obtain es where "trace u = trace s @ es" "sends_batches [batch] es"
      "file_counts (work u) = file_counts (work s)" by blast
    moreover have "fits n m batch" using assms(2) True by (simp add: pending_def)
    ultimately show ?thesis using b1 by (intro exI [of _ es] exI [of _ "[batch]"]) (simp add: fits_def)
  next
    case False
    with first have "b1 = batch" "u = s" by (auto simp: ret_Inr)
    moreover have "fits n m (batch @ [d])" using False assms(2) by (auto simp: fits_def pending_def)
    ultimately show ?thesis by (intro exI [of _ "[]"]) (simp add: sends_batches_def map_filter_simps)
  qed
  then obtain es bs where one: "trace u = trace s @ es" "sends_batches bs es" "concat bs @ b1 = batch" "list_all (fits n m) bs"
    "fits n m (b1 @ [d])" "file_counts (work u) = file_counts (work s)" by blast
  show ?thesis
  proof (cases "int (length (b1 @ [d])) \<ge> n")
    case True
    with second have "upload_batch env ids (b1 @ [d]) u = (Inr (), t)" and b: "b = []" by (auto simp: then_act_Inr_iff ret_Inr)
    from upload_run [OF this(1)] obtain es' where "trace t = trace u @ es'" "sends_batches [b1 @ [d]] es'"
      "file_counts (work t) = file_counts (work u)" by blast
    with one b sends_batches_append [OF one(2), of "[b1 @ [d]]" es'] show ?thesis
      by (intro exI [of _ "es @ es'"] exI [of _ "bs @ [b1 @ [d]]"]) (simp add: pending_def)
  next
    case False
    with second have "b = b1 @ [d]" "t = u" by (auto simp: ret_Inr)
    with one False show ?thesis by (intro exI [of _ es] exI [of _ bs]) (simp add: pending_def)
  qed
qed

definition add_counts :: "summary \<Rightarrow> (string + document) list \<Rightarrow> int \<times> int \<times> int" where
  "add_counts u outs = (su_files_seen u + int (length outs), su_files_skipped u + int (length (filter isl outs)),
     su_documents_normalized u + int (length (documents_of outs)))"

lemma sync_files_run:
  assumes "sync_files env cfg ctx ids n m fs batch s = (Inr b, t)" and "pending n m batch"
  shows "\<exists>es bs outs. trace t = trace s @ es \<and> sends_batches bs es \<and> map (file_outcome env cfg ctx) fs = map Inr outs
    \<and> concat bs @ b = batch @ documents_of outs \<and> list_all (fits n m) bs \<and> pending n m b
    \<and> file_counts (work t) = add_counts (work s) outs"
  using assms
proof (induction fs arbitrary: batch s)
  case Nil
  then show ?case
    by (intro exI [of _ "[]"]) (auto simp: ret_Inr sends_batches_def map_filter_simps file_counts_def add_counts_def)
next
  case (Cons f fs)
  let ?s1 = "s\<lparr>work := (work s)\<lparr>su_files_seen := su_files_seen (work s) + 1\<rparr>\<rparr>"
  from Cons.prems(1) obtain out where out: "file_outcome env cfg ctx f = Inr out"
    and rest: "(case out of
         Inl reason \<Rightarrow> then_act (skipping reason) (sync_files env cfg ctx ids n m fs batch)
       | Inr d \<Rightarrow> then_act (change (count_document d)) (bind_act (add_to_batch env ids n m batch d) (sync_files env cfg ctx ids n m fs))) ?s1
       = (Inr b, t)"
    by (auto simp: run_act_simps)
  show ?case
  proof (cases out)
    case (Inl reason)
    let ?s2 = "?s1\<lparr>work := skip_file reason (work ?s1)\<rparr>"
    from rest Inl have "sync_files env cfg ctx ids n m fs batch ?s2 = (Inr b, t)"
      by (simp add: skipping_def run_act_simps)
    from Cons.IH [OF this Cons.prems(2)] obtain es bs outs where
      ih: "trace t = trace s @ es" "sends_batches bs es" "map (file_outcome env cfg ctx) fs = map Inr outs"
        "concat bs @ b = batch @ documents_of outs" "list_all (fits n m) bs" "pending n m b"
        "file_counts (work t) = add_counts (work ?s2) outs" by auto
    then show ?thesis using out Inl
      by (intro exI [of _ es] exI [of _ bs] exI [of _ "Inl reason # outs"]) (simp add: add_counts_def skip_file_def)
  next
    case (Inr d)
    let ?s2 = "?s1\<lparr>work := count_document d (work ?s1)\<rparr>"
    from rest Inr obtain b1 u where add: "add_to_batch env ids n m batch d ?s2 = (Inr b1, u)"
      and more: "sync_files env cfg ctx ids n m fs b1 u = (Inr b, t)"
      by (auto simp: run_act_simps)
    from add_to_batch_run [OF add Cons.prems(2)] obtain es bs where
      one: "trace u = trace s @ es" "sends_batches bs es" "concat bs @ b1 = batch @ [d]" "list_all (fits n m) bs" "pending n m b1"
        "file_counts (work u) = file_counts (work ?s2)" by auto
    from Cons.IH [OF more one(5)] obtain es' bs' outs where
      ih: "trace t = trace u @ es'" "sends_batches bs' es'" "map (file_outcome env cfg ctx) fs = map Inr outs"
        "concat bs' @ b = b1 @ documents_of outs" "list_all (fits n m) bs'" "pending n m b"
        "file_counts (work t) = add_counts (work u) outs" by blast
    have "concat (bs @ bs') @ b = batch @ documents_of (Inr d # outs)" using one(3) ih(4)
      by simp
    moreover have "file_counts (work t) = add_counts (work s) (Inr d # outs)"
      using one(6) ih(7) by (simp add: add_counts_def file_counts_def count_document_def)
    ultimately show ?thesis using one(1,2,4) ih(1,2,3,5,6) out Inr sends_batches_append [OF one(2) ih(2)]
      by (intro exI [of _ "es @ es'"] exI [of _ "bs @ bs'"] exI [of _ "Inr d # outs"]) simp
  qed
qed

lemma open_sync_run:
  assumes "open_sync env cfg opts s = (Inr (ids, n, m), t)"
  shows "\<exists>es. trace t = trace s @ es \<and> list_all (\<lambda>e. uploaded e = None) es \<and> file_counts (work t) = file_counts (work s)
    \<and> n \<le> sn_batch_size opts"
proof -
  have keeps: "file_counts (work w) = file_counts (work v)"
    if "core_json env meth path body v = (r, w)" for meth path body v r w
    using that by (auto simp: core_json_def core_send_def bind_act_def call_def raise_def ret_def lift_result_def
        split: option.splits if_splits prod.splits sum.splits)
  have source: "file_counts (work w) = file_counts (work v)"
    if "client_register_source env project name v = (Inr x, w)" for project name v x w
    using that by (auto simp: client_register_source_def run_act_simps dest!: keeps)
  have "file_counts (work t) = file_counts (work s) \<and> n \<le> sn_batch_size opts"
    using assms by (auto simp: open_sync_def capabilities_def client_register_collector_def client_start_sync_def run_act_simps file_counts_def
        dest!: keeps source)
  moreover obtain es where "trace t = trace s @ es" "list_all (\<lambda>e. reported e = None \<and> uploaded e = None) es"
    using emits_open [of env cfg opts] assms unfolding emits_def by (metis snd_conv)
  ultimately show ?thesis by (auto simp: list_all_iff)
qed


section \<open>A run\<close>

definition sample_file :: "string \<Rightarrow> int \<Rightarrow> string \<Rightarrow> discovered_file" where
  "sample_file path n text = \<lparr>df_absolute_path = ''/r/'' @ path, df_relative_path = path, df_is_file = True, df_size_bytes = n,
     df_modified_at = ''t'', df_bytes = Some text, df_text = Some text\<rparr>"

definition sample_collector_env :: "http_reply \<Rightarrow> collector_env" where
  "sample_collector_env reply = \<lparr>ce_core = (\<lambda>_ _. reply), ce_token = ''t'', ce_api_url = ''http://c/'', ce_resolve = id, ce_is_dir = (\<lambda>_. True),
     ce_walk = (\<lambda>_. [sample_file ''a.md'' 4 ''ab c'', sample_file ''b.md'' 0 [], sample_file ''c.md'' 1 ''x'']), ce_git = (\<lambda>_ _. None),
     ce_sha256 = id, ce_ast = (\<lambda>_. Inr None)\<rparr>"

definition sample_core :: http_reply where
  "sample_core = Some (200, Some (JObj [(''limits'', JObj [(''max_documents_per_batch'', JInt 1)]), (''collector_id'', JStr ''k''),
     (''source_id'', JStr ''s''), (''sync_id'', JStr ''y''), (''created'', JInt 1)]))"

definition sample_sync_options :: sync_options where
  "sample_sync_options = \<lparr>sn_project = ''p'', sn_source_name = ''n'', sn_collector_name = ''c'', sn_environment = ''e'', sn_batch_size = 50,
     sn_given = \<lparr>rp_repo_name = None, rp_branch = None, rp_commit_sha = None\<rparr>,
     sn_files = \<lparr>co_max_files = None, co_include = None, co_exclude = None\<rparr>\<rparr>"

lemma failed_collection_is_not_reported_witness:
  "\<exists>e t. sync (sample_collector_env None) (default_settings ''h'') sample_sync_options ''/r'' (new_session empty_summary) = (Inl e, t)
     \<and> left_open (trace t)"
proof -
  have "isl (fst (sync (sample_collector_env None) (default_settings ''h'') sample_sync_options ''/r'' (new_session empty_summary)))"
    by code_simp
  then obtain e t where "sync (sample_collector_env None) (default_settings ''h'') sample_sync_options ''/r'' (new_session empty_summary) = (Inl e, t)"
    by (metis isl_def prod.collapse)
  with failed_collection_is_not_reported [OF this] show ?thesis by auto
qed

definition sample_collector_settings :: settings where
  "sample_collector_settings = (default_settings ''h'')\<lparr>supported_extensions := ''.md''\<rparr>"

abbreviation sample_collection :: "summary result \<times> summary session" where
  "sample_collection \<equiv> sync (sample_collector_env sample_core) sample_collector_settings sample_sync_options ''/r'' (new_session empty_summary)"

lemma sample_outcomes:
  "\<exists>a b. map (file_outcome (sample_collector_env sample_core) sample_collector_settings
         (repository_context (sample_collector_env sample_core) ''/r'' (sn_given sample_sync_options)))
       [sample_file ''a.md'' 4 ''ab c'', sample_file ''b.md'' 0 [], sample_file ''c.md'' 1 ''x''] = [Inr (Inr a), Inr (Inl ''empty''), Inr (Inr b)]"
proof -
  have "\<not> isl r \<and> \<not> isl (projr r) \<longleftrightarrow> (\<exists>d. r = Inr (Inr d))" for r :: "(string + document) result"
    by (metis isl_def sum.collapse(2) sum.disc(2) sum.sel(2))
  moreover have "(\<lambda>r. \<not> isl r \<and> \<not> isl (projr r)) (file_outcome (sample_collector_env sample_core) sample_collector_settings
         (repository_context (sample_collector_env sample_core) ''/r'' (sn_given sample_sync_options)) (sample_file ''a.md'' 4 ''ab c''))"
    by code_simp
  moreover have "(\<lambda>r. \<not> isl r \<and> \<not> isl (projr r)) (file_outcome (sample_collector_env sample_core) sample_collector_settings
         (repository_context (sample_collector_env sample_core) ''/r'' (sn_given sample_sync_options)) (sample_file ''c.md'' 1 ''x''))"
    by code_simp
  moreover have "file_outcome (sample_collector_env sample_core) sample_collector_settings
         (repository_context (sample_collector_env sample_core) ''/r'' (sn_given sample_sync_options)) (sample_file ''b.md'' 0 []) = Inr (Inl ''empty'')"
    by code_simp
  ultimately show ?thesis by simp
qed

lemma sample_upload: "\<exists>w. upload_batch (sample_collector_env sample_core) ids b v = (Inr (), w)"
  by (simp add: upload_batch_def client_upload_def core_json_def core_send_def act_defs sample_collector_env_def sample_core_def
      response_ok_def response_json_def uploaded_totals_def json_get_def add_diagnostics_def dict_get_or_def)

lemma sample_add: "\<exists>w. add_to_batch (sample_collector_env sample_core) ids 1 m [] d v = (Inr [], w)"
proof -
  obtain w where "upload_batch (sample_collector_env sample_core) ids [d] v = (Inr (), w)" using sample_upload by blast
  then show ?thesis by (simp add: add_to_batch_def then_act_def bind_act_def ret_def)
qed

lemma sample_close: "\<exists>t. close_sync (sample_collector_env sample_core) ids w = (Inr (work w), t)"
  by (simp add: close_sync_def client_finish_sync_def core_send_def act_defs sample_collector_env_def sample_core_def response_ok_def)

lemma sample_transfer:
  "\<exists>w. transfer (sample_collector_env sample_core) sample_collector_settings sample_sync_options ''/r'' ids 1 m v = (Inr (), w)"
proof -
  let ?env = "sample_collector_env sample_core"
  let ?ctx = "repository_context ?env ''/r'' (sn_given sample_sync_options)"
  have files: "discover ?env (sn_files sample_sync_options) ''/r''
      = Inr [sample_file ''a.md'' 4 ''ab c'', sample_file ''b.md'' 0 [], sample_file ''c.md'' 1 ''x'']"
    by (simp add: discover_def sample_collector_env_def sample_sync_options_def selected_def sample_file_def)
  obtain a b where outs: "file_outcome ?env sample_collector_settings ?ctx (sample_file ''a.md'' 4 ''ab c'') = Inr (Inr a)"
    "file_outcome ?env sample_collector_settings ?ctx (sample_file ''b.md'' 0 []) = Inr (Inl ''empty'')"
    "file_outcome ?env sample_collector_settings ?ctx (sample_file ''c.md'' 1 ''x'') = Inr (Inr b)"
    using sample_outcomes by auto
  have add: "fst (add_to_batch ?env ids 1 m [] d u) = Inr []" for d u using sample_add [of ids m d u] by auto
  show ?thesis
    by (simp add: transfer_def then_act_def bind_act_def lift_result_def change_def skipping_def files outs add ret_def split_beta
        split: prod.split)
qed


end
