(* ===== verification/Spec2Isabelle.thy ===== *)
theory Spec2Isabelle
  imports Prelude Regex Settings Models Redaction RateLimit Access Taxonomy Chunking Normalized VectorStore Indexer
    Operations Queue Worker Sources Intent Search Evidence Investigation Agent Parsers CodeParsers
    Evaluation Readiness Embeddings Batcher LocalIngest Projects Llm Answer
    CollectorMeta Collector
begin

text \<open>
  IncidentOps Core: the backend of an incident investigation service. Collectors send batches of documents to an API, Core
  validates, chunks, embeds and publishes them to PostgreSQL and a vector store, workers index them asynchronously, and
  users of a project search the evidence. This library is a shallow embedding of that program.

  \<^bold>\<open>Conventions.\<close> A string is a list of code points below 256; a Python float is a rational, with its printed text where it
  is printed; a dictionary is an association list in insertion order; a time is an integer of microseconds and the current
  time an argument; an exception is a value of \<open>py_exn\<close> and a function that may raise returns \<open>py_exn + 'a\<close>. Code that
  talks to the database is an action on a session (theory \<open>Prelude\<close>): the committed rows, the rows of the open transaction
  and the trace of the requests sent. Requests to Redis, Qdrant and other services are answered by a parameter, a function
  of the trace so far, so every theorem holds for every behaviour of the service.

  \<^bold>\<open>Theories.\<close>
  \<^item> \<open>Prelude\<close>: strings, dictionaries, JSON, exceptions, the session and the calculus of preservation lemmas.
  \<^item> \<open>Regex\<close>: a backtracking matcher for the regular expressions of the code.
  \<^item> \<open>Settings\<close>: \<open>config/settings.py\<close>, \<open>config/validation.py\<close> and the startup of \<open>apps/api/main.py\<close>.
  \<^item> \<open>Models\<close>: the tables of \<open>db/models.py\<close>, an interpretation of the keyed table interface for each, the cascades.
  \<^item> \<open>Redaction\<close>: redaction, sanitising of audit metadata and the secret check of source configurations.
  \<^item> \<open>RateLimit\<close>: both limiters of \<open>security/rate_limit.py\<close> and the sliding-window interface.
  \<^item> \<open>Access\<close>: audit events, roles, passwords, tokens, project access and login.
  \<^item> \<open>Taxonomy\<close>: failure codes, source types, services and coverage.
  \<^item> \<open>Chunking\<close>: \<open>ingestion/chunking/chunker.py\<close>.
  \<^item> \<open>Normalized\<close>: \<open>ingestion/normalized.py\<close>.
  \<^item> \<open>VectorStore\<close>: \<open>retrieval/vector_store.py\<close>.
  \<^item> \<open>Indexer\<close>: \<open>ingestion/indexer.py\<close> and \<open>retrieval/graph_relations.py\<close>.
  \<^item> \<open>Parsers\<close>, \<open>CodeParsers\<close>: \<open>ingestion/parsers\<close>, assembled as the parsers of the indexer.
  \<^item> \<open>Operations\<close>: \<open>operations/service.py\<close>.
  \<^item> \<open>Sources\<close>: \<open>apps/api/routes/sources.py\<close>, the sources, their collectors, syncs and batches.
  \<^item> \<open>Intent\<close>: \<open>retrieval/query_intent.py\<close> and what \<open>investigation\<close> reads off a question.
  \<^item> \<open>Search\<close>: the branches of \<open>retrieval/hybrid_search.py\<close>, fusion and boosts.
  \<^item> \<open>Evidence\<close>: \<open>retrieval/reranker.py\<close>, \<open>evidence_packer.py\<close> and \<open>citation_builder.py\<close>.
  \<^item> \<open>Investigation\<close>: \<open>investigation/service.py\<close> and the analysers it calls.
  \<^item> \<open>Llm\<close>: \<open>llm/provider.py\<close> and \<open>llm/prompts.py\<close>.
  \<^item> \<open>Answer\<close>: \<open>apps/api/routes/answer.py\<close>, \<open>search.py\<close> and \<open>investigate.py\<close>.
  \<^item> \<open>Agent\<close>: \<open>agent\<close>, the investigation workflow, with \<open>apps/api/routes/runs.py\<close> and the worker's job for it.
  \<^item> \<open>Evaluation\<close>: \<open>eval/runner.py\<close>, \<open>apps/api/routes/evals.py\<close>, \<open>security/path_policy.py\<close> and the worker's jobs for it.
  \<^item> \<open>Embeddings\<close>, \<open>Batcher\<close>: \<open>retrieval/embeddings.py\<close>, \<open>retrieval/cache.py\<close> and \<open>remote_embed\<close>: the backends, the cache, pacing and retries,
    and the batcher of concurrent calls as a step relation.
  \<^item> \<open>CollectorMeta\<close>, \<open>Collector\<close>: \<open>incidentops/collector/\<close>, the client beside a repository: metadata and chunking hints read off a
    document, discovery with \<open>fnmatch\<close> patterns, the client of Core, batches and the whole sync.
  \<^item> \<open>LocalIngest\<close>: \<open>ingestion/pipeline.py\<close>, the ingestion of a local folder, and \<open>inspect_folder\<close>.
  \<^item> \<open>Projects\<close>: \<open>apps/api/routes/ingest.py\<close> with the cascades of a project's deletion, and the type invariant of the tables for every
    handler of projects, sources and syncs.
  \<^item> \<open>Readiness\<close>: \<open>readiness/service.py\<close> and its route.
  \<^item> \<open>Queue\<close>: \<open>worker/queue.py\<close>, both queues and the interface the worker relies on.
  \<^item> \<open>Worker\<close>: \<open>worker/jobs.py\<close>, \<open>worker/index_dispatch.py\<close> and \<open>worker/main.py\<close>.

  \<^bold>\<open>Bounds and loops.\<close> Loops are structural or have a measure; the splitting loop of the chunker may run for ever and is a
  partial function, with a theorem for each of its two behaviours.

  \<^bold>\<open>Not modelled.\<close> SQL execution errors other than those the model raises, metrics and logging, configuration reading by
  pydantic, process start-up.
\<close>

end
